(* ===== verification/Prelude.thy ===== *)
theory Prelude
  imports Main "HOL-Library.List_Lexorder" "HOL-Library.Char_ord"
begin

text \<open>
  The prelude of the development: the errors of the service layer
  (\<^verbatim>\<open>app/services/exceptions.py\<close> and FastAPI's \<^verbatim>\<open>HTTPException\<close>) as values, the
  result and action types every operation is written in, the loops over actions, and the
  operations on tables (lists of rows) that stand for the SQL statements of the code.
  The lemmas on tables are shared by every component that keeps rows.
\<close>

section \<open>Collections of facts\<close>

named_theorems table_simps \<open>how the table operations act on membership and projections\<close>
named_theorems act_simps \<open>unfolding of the combinators on actions\<close>

section \<open>Errors and results\<close>

text \<open>
  The five service errors of \<^verbatim>\<open>app/services/exceptions.py\<close>, with their message;
  \<^verbatim>\<open>HTTPException(status, detail)\<close>; SQLAlchemy's \<^verbatim>\<open>IntegrityError\<close> and
  \<^verbatim>\<open>MultipleResultsFound\<close> where the code lets them escape; Python's \<^verbatim>\<open>ValueError\<close>;
  any other exception that escapes, \<open>Raised\<close> with its class.
\<close>

datatype err =
    BadRequest string
  | Conflict string
  | NotFound string
  | RateLimited string
  | Unavailable string
  | HttpError nat string
  | IntegrityErr
  | MultipleResults
  | ValueErr
  | Raised string

type_synonym 'a res = "err + 'a"
type_synonym ('w, 'a) act = "'w \<Rightarrow> 'a res \<times> 'w"

definition bind_res :: "'a res \<Rightarrow> ('a \<Rightarrow> 'b res) \<Rightarrow> 'b res" where
  "bind_res r k = (case r of Inl e \<Rightarrow> Inl e | Inr a \<Rightarrow> k a)"

lemma bind_res_simps [simp]:
  "bind_res (Inl e) k = Inl e"
  "bind_res (Inr a) k = k a"
  by (simp_all add: bind_res_def)

lemma bind_res_Inr: "bind_res r k = Inr b \<longleftrightarrow> (\<exists>a. r = Inr a \<and> k a = Inr b)"
  by (cases r) auto

text \<open>
  An action reads and changes a state \<open>'w\<close> and returns a value or an error. An error keeps
  the state reached when it was raised, as an exception does with the mutations before it.
\<close>

definition ret :: "'a \<Rightarrow> ('w, 'a) act" where
  "ret a = (\<lambda>w. (Inr a, w))"

definition fail :: "err \<Rightarrow> ('w, 'a) act" where
  "fail e = (\<lambda>w. (Inl e, w))"

definition bind_act :: "('w, 'a) act \<Rightarrow> ('a \<Rightarrow> ('w, 'b) act) \<Rightarrow> ('w, 'b) act" where
  "bind_act m k = (\<lambda>w. case m w of (Inl e, w') \<Rightarrow> (Inl e, w') | (Inr a, w') \<Rightarrow> k a w')"

definition then_act :: "('w, 'a) act \<Rightarrow> ('w, 'b) act \<Rightarrow> ('w, 'b) act" where
  "then_act m k = bind_act m (\<lambda>_. k)"

definition guard_act :: "bool \<Rightarrow> err \<Rightarrow> ('w, unit) act" where
  "guard_act b e = (if b then ret () else fail e)"

text \<open>\<^verbatim>\<open>for x in xs: f(x)\<close>: the first error leaves the loop.\<close>

fun for_each :: "('a \<Rightarrow> ('w, 'b) act) \<Rightarrow> 'a list \<Rightarrow> ('w, unit) act" where
  "for_each f [] = ret ()"
| "for_each f (x # xs) = bind_act (f x) (\<lambda>_. for_each f xs)"

text \<open>Checks in a loop (\<^verbatim>\<open>for v in vs: require(v)\<close>) that change no state.\<close>

fun check_each :: "('a \<Rightarrow> unit res) \<Rightarrow> 'a list \<Rightarrow> unit res" where
  "check_each f [] = Inr ()"
| "check_each f (x # xs) = bind_res (f x) (\<lambda>_. check_each f xs)"

definition lift_res :: "'a res \<Rightarrow> ('w, 'a) act" where
  "lift_res r = (\<lambda>w. (r, w))"

lemma ret_apply [simp]: "ret a w = (Inr a, w)"
  by (simp add: ret_def)

lemma fail_apply [simp]: "fail e w = (Inl e, w)"
  by (simp add: fail_def)

lemma lift_res_apply [simp]: "lift_res r w = (r, w)"
  by (simp add: lift_res_def)

lemma guard_act_apply [simp]: "guard_act b e w = (if b then Inr () else Inl e, w)"
  by (simp add: guard_act_def)

lemma bind_act_Inr: "bind_act m k w = (Inr b, w'') \<longleftrightarrow>
    (\<exists>a w'. m w = (Inr a, w') \<and> k a w' = (Inr b, w''))"
  by (auto simp: bind_act_def split: prod.splits sum.splits)

lemma then_act_Inr: "then_act m k w = (Inr b, w'') \<longleftrightarrow>
    (\<exists>a w'. m w = (Inr a, w') \<and> k w' = (Inr b, w''))"
  by (simp add: then_act_def bind_act_Inr)

lemma bind_act_step: "m w = (Inr a, w') \<Longrightarrow> bind_act m k w = k a w'"
  by (simp add: bind_act_def)

lemma bind_act_error: "m w = (Inl e, w') \<Longrightarrow> bind_act m k w = (Inl e, w')"
  by (simp add: bind_act_def)

lemma then_act_step: "m w = (Inr a, w') \<Longrightarrow> then_act m k w = k w'"
  by (simp add: then_act_def bind_act_def)

lemma then_act_error: "m w = (Inl e, w') \<Longrightarrow> then_act m k w = (Inl e, w')"
  by (simp add: then_act_def bind_act_def)

lemma bind_act_assoc: "bind_act (bind_act m k) h = bind_act m (\<lambda>a. bind_act (k a) h)"
  by (auto simp: bind_act_def fun_eq_iff split: prod.splits sum.splits)

lemmas act_steps = bind_act_step then_act_step bind_act_error then_act_error

lemma check_each_Inr: "check_each f xs = Inr () \<longleftrightarrow> (\<forall>x\<in>set xs. f x = Inr ())"
  by (induction xs) (auto simp: bind_res_def split: sum.splits)

text \<open>
  What an action keeps: \<open>keeps P m\<close> says that \<open>m\<close> leads from a state with \<open>P\<close> to a
  state with \<open>P\<close>, whether it returns or fails.
\<close>

definition keeps :: "('w \<Rightarrow> bool) \<Rightarrow> ('w, 'a) act \<Rightarrow> bool" where
  "keeps P m \<longleftrightarrow> (\<forall>w. P w \<longrightarrow> P (snd (m w)))"

lemma keeps_ret [intro, simp]: "keeps P (ret a)"
  by (simp add: keeps_def)

lemma keeps_fail [intro, simp]: "keeps P (fail e)"
  by (simp add: keeps_def)

lemma keeps_lift_res [intro, simp]: "keeps P (lift_res r)"
  by (simp add: keeps_def)

lemma keeps_guard [intro, simp]: "keeps P (guard_act b e)"
  by (simp add: keeps_def)

lemma keeps_bind [intro]: "keeps P m \<Longrightarrow> (\<And>a. keeps P (k a)) \<Longrightarrow> keeps P (bind_act m k)"
  by (fastforce simp: keeps_def bind_act_def split: prod.splits sum.splits)

lemma keeps_then [intro]: "keeps P m \<Longrightarrow> keeps P k \<Longrightarrow> keeps P (then_act m k)"
  by (simp add: then_act_def keeps_bind)

lemma keeps_for_each [intro]: "(\<And>x. x \<in> set xs \<Longrightarrow> keeps P (f x)) \<Longrightarrow> keeps P (for_each f xs)"
  by (induction xs) (auto intro!: keeps_bind)

lemma keepsD: "keeps P m \<Longrightarrow> m w = (r, w') \<Longrightarrow> P w \<Longrightarrow> P w'"
  by (fastforce simp: keeps_def)

section \<open>Tables\<close>

text \<open>
  A table is the list of its rows, oldest first. \<open>first_where\<close> is
  \<^verbatim>\<open>select(...).where(...).first()\<close>, \<open>update_where\<close> is
  \<^verbatim>\<open>update(...).where(...).values(...)\<close> and \<open>delete_where\<close> is
  \<^verbatim>\<open>delete(...).where(...)\<close>; the rowcount of a delete is the number of rows it removed.
\<close>

definition first_where :: "('r \<Rightarrow> bool) \<Rightarrow> 'r list \<Rightarrow> 'r option" where
  "first_where P rows = (case filter P rows of [] \<Rightarrow> None | r # _ \<Rightarrow> Some r)"

definition update_where :: "('r \<Rightarrow> bool) \<Rightarrow> ('r \<Rightarrow> 'r) \<Rightarrow> 'r list \<Rightarrow> 'r list" where
  "update_where P f rows = map (\<lambda>r. if P r then f r else r) rows"

definition delete_where :: "('r \<Rightarrow> bool) \<Rightarrow> 'r list \<Rightarrow> 'r list" where
  "delete_where P rows = filter (\<lambda>r. \<not> P r) rows"

definition rowcount :: "('r \<Rightarrow> bool) \<Rightarrow> 'r list \<Rightarrow> nat" where
  "rowcount P rows = length (filter P rows)"

lemma first_where_Nil [simp]: "first_where P [] = None"
  by (simp add: first_where_def)

lemma first_where_Cons [simp]:
  "first_where P (r # rows) = (if P r then Some r else first_where P rows)"
  by (simp add: first_where_def)

lemma first_where_Some: "first_where P rows = Some r \<Longrightarrow> r \<in> set rows \<and> P r"
  by (induction rows) (auto split: if_splits)

lemma first_where_None: "first_where P rows = None \<longleftrightarrow> (\<forall>r\<in>set rows. \<not> P r)"
  by (induction rows) auto

lemma first_where_append [simp]:
  "first_where P (xs @ ys) = (case first_where P xs of None \<Rightarrow> first_where P ys | Some r \<Rightarrow> Some r)"
  by (induction xs) auto

lemma first_where_cong:
  "(\<And>r. r \<in> set rows \<Longrightarrow> P r = Q r) \<Longrightarrow> first_where P rows = first_where Q rows"
  by (induction rows) auto

lemma first_where_update_id:
  assumes "\<And>r. r \<in> set rows \<Longrightarrow> U r \<Longrightarrow> P (f r) = P r"
  shows "first_where P (update_where U f rows) =
    map_option (\<lambda>r. if U r then f r else r) (first_where P rows)"
  using assms by (induction rows) (auto simp: update_where_def)

lemma set_update_where [table_simps]:
  "set (update_where P f rows) = (\<lambda>r. if P r then f r else r) ` set rows"
  by (simp add: update_where_def)

lemma update_where_cases:
  assumes "r \<in> set (update_where P f rows)"
  obtains (updated) q where "q \<in> set rows" "P q" "r = f q"
  | (kept) "r \<in> set rows" "\<not> P r"
proof -
  from assms obtain q where q: "q \<in> set rows" "r = (if P q then f q else q)"
    unfolding set_update_where by (rule imageE) blast
  show thesis
    by (cases "P q") (use q in \<open>simp_all add: that\<close>)
qed

lemma update_where_hit: "q \<in> set rows \<Longrightarrow> P q \<Longrightarrow> f q \<in> set (update_where P f rows)"
  by (auto simp: update_where_def)

lemma update_where_miss: "q \<in> set rows \<Longrightarrow> \<not> P q \<Longrightarrow> q \<in> set (update_where P f rows)"
  by (force simp: update_where_def)

lemma set_delete_where [table_simps]: "set (delete_where P rows) = {r \<in> set rows. \<not> P r}"
  by (auto simp: delete_where_def)

lemma rowcount_pos [table_simps]: "0 < rowcount P rows \<longleftrightarrow> (\<exists>r\<in>set rows. P r)"
  by (auto simp: rowcount_def filter_empty_conv)

lemma delete_where_none: "\<forall>r\<in>set rows. \<not> P r \<Longrightarrow> delete_where P rows = rows"
  by (induction rows) (auto simp: delete_where_def)

lemma update_where_none: "\<forall>r\<in>set rows. P r \<longrightarrow> f r = r \<Longrightarrow> update_where P f rows = rows"
  by (induction rows) (auto simp: update_where_def)

lemma map_update_where:
  "(\<And>r. g (f r) = g r) \<Longrightarrow> map g (update_where P f rows) = map g rows"
  by (simp add: update_where_def)

lemma list_ex_update_where:
  "(\<And>r. Q (f r) = Q r) \<Longrightarrow> list_ex Q (update_where P f rows) = list_ex Q rows"
  by (induction rows) (auto simp: update_where_def)

lemma filter_update_where:
  assumes "\<And>r. r \<in> set rows \<Longrightarrow> P r \<Longrightarrow> \<not> Q r \<and> \<not> Q (f r)"
  shows "filter Q (update_where P f rows) = filter Q rows"
  using assms by (induction rows) (auto simp: update_where_def)

lemma filter_delete_where:
  assumes "\<And>r. r \<in> set rows \<Longrightarrow> P r \<Longrightarrow> \<not> Q r"
  shows "filter Q (delete_where P rows) = filter Q rows"
  using assms by (induction rows) (auto simp: delete_where_def)

text \<open>
  A primary key drawn from a supply: the keys of a table are distinct and below the next
  value of the supply. Inserting a row with the next value, deleting rows and updates that
  leave the key alone keep this.
\<close>

definition keyed :: "('r \<Rightarrow> nat) \<Rightarrow> nat \<Rightarrow> 'r list \<Rightarrow> bool" where
  "keyed pk n rows \<longleftrightarrow> distinct (map pk rows) \<and> (\<forall>r\<in>set rows. pk r < n)"

lemma keyed_ids: "keyed f n rows \<longleftrightarrow> distinct (map f rows) \<and> (\<forall>i\<in>set (map f rows). i < n)"
  by (simp add: keyed_def)

lemma keyed_insert: "keyed pk n rows \<Longrightarrow> pk r = n \<Longrightarrow> n < m \<Longrightarrow> keyed pk m (rows @ [r])"
  by (auto simp: keyed_def)

lemma keyed_mono: "keyed pk n rows \<Longrightarrow> n \<le> m \<Longrightarrow> keyed pk m rows"
  by (fastforce simp: keyed_def)

lemma keyed_delete: "keyed pk n rows \<Longrightarrow> keyed pk n (delete_where P rows)"
  by (auto simp: keyed_def delete_where_def distinct_map_filter)

lemma keyed_update: "keyed pk n rows \<Longrightarrow> (\<And>r. pk (f r) = pk r) \<Longrightarrow> keyed pk n (update_where P f rows)"
  by (simp add: keyed_def map_update_where) (auto simp: update_where_def)

lemma keyed_unique: "keyed pk n rows \<Longrightarrow> r \<in> set rows \<Longrightarrow> s \<in> set rows \<Longrightarrow> pk r = pk s \<Longrightarrow> r = s"
  by (simp add: keyed_def distinct_map inj_on_def)

lemma first_where_key:
  assumes "keyed pk n rows" and "r \<in> set rows" and "pk r = k"
  shows "first_where (\<lambda>s. pk s = k) rows = Some r"
proof (cases "first_where (\<lambda>s. pk s = k) rows")
  case None
  with assms show ?thesis by (auto simp: first_where_None)
next
  case (Some s)
  from first_where_Some [OF this] keyed_unique [OF assms(1) _ assms(2)] assms(3) Some show ?thesis by auto
qed

lemmas keyed_intros = keyed_insert keyed_mono keyed_delete keyed_update

section \<open>Lists\<close>

lemma distinct_map_append1:
  "distinct (map f xs) \<Longrightarrow> f x \<notin> f ` set xs \<Longrightarrow> distinct (map f (xs @ [x]))"
  by simp

lemma filter_key_le_1: "distinct (map f xs) \<Longrightarrow> length (filter (\<lambda>x. f x = a) xs) \<le> 1"
  by (induction xs) (auto simp: filter_empty_conv image_iff)

section \<open>Keyed views\<close>

text \<open>
  What a caller sees of a table through a key: for each key the contents \<open>f\<close> of the first row
  with it. The lemmas say how the view changes when a row with a new key is appended, when the
  row found under a key is updated through its primary key, and when the rows of a key are
  deleted; and that rows outside the keys do not show.
\<close>

definition view_of :: "('r \<Rightarrow> 'v) \<Rightarrow> ('k \<Rightarrow> 'r \<Rightarrow> bool) \<Rightarrow> 'r list \<Rightarrow> 'k \<Rightarrow> 'v option" where
  "view_of f K rows k = map_option f (first_where (K k) rows)"

lemma view_of_None: "view_of f K rows k = None \<longleftrightarrow> (\<forall>r\<in>set rows. \<not> K k r)"
  by (simp add: view_of_def first_where_None)

lemma view_of_dom: "dom (view_of f K rows) = {k. \<exists>r\<in>set rows. K k r}"
proof -
  have "k \<in> dom (view_of f K rows) \<longleftrightarrow> (\<exists>r\<in>set rows. K k r)" for k
    using view_of_None [of f K rows k] by (auto simp: domIff)
  then show ?thesis by auto
qed

lemma view_of_insert:
  assumes "first_where (K k) rows = None" and "K k r" and "\<And>j. K j r \<Longrightarrow> j = k"
  shows "view_of f K (rows @ [r]) = (view_of f K rows)(k \<mapsto> f r)"
proof (rule ext)
  fix j
  show "view_of f K (rows @ [r]) j = ((view_of f K rows)(k \<mapsto> f r)) j"
  proof (cases "j = k")
    case True
    with assms(1,2) show ?thesis by (simp add: view_of_def)
  next
    case False
    with assms(3) have "\<not> K j r" by blast
    with False show ?thesis by (simp add: view_of_def split: option.split)
  qed
qed

lemma view_of_insert_other:
  assumes "\<And>j. \<not> K j r"
  shows "view_of f K (rows @ [r]) = view_of f K rows"
  using assms by (simp add: view_of_def fun_eq_iff split: option.split)

lemma first_where_update_key:
  assumes "distinct (map pk rows)" and "r \<in> set rows"
    and "\<And>s. P (g s) = P s"
  shows "first_where P (update_where (\<lambda>s. pk s = pk r) g rows) =
    map_option (\<lambda>s. if s = r then g s else s) (first_where P rows)"
proof -
  have "first_where P (update_where (\<lambda>s. pk s = pk r) g rows) =
      map_option (\<lambda>s. if pk s = pk r then g s else s) (first_where P rows)"
    by (rule first_where_update_id) (simp add: assms(3))
  also have "\<dots> = map_option (\<lambda>s. if s = r then g s else s) (first_where P rows)"
  proof (rule option.map_cong0)
    fix s assume "s \<in> set_option (first_where P rows)"
    then have "s \<in> set rows" by (auto dest: first_where_Some)
    with assms(1,2) show "(if pk s = pk r then g s else s) = (if s = r then g s else s)"
      by (auto simp: distinct_map inj_on_def)
  qed
  finally show ?thesis .
qed

lemma view_of_update:
  assumes "distinct (map pk rows)" and "first_where (K k) rows = Some r"
    and "\<And>j s. K j (g s) = K j s" and "\<And>j. K j r \<Longrightarrow> j = k"
  shows "view_of f K (update_where (\<lambda>s. pk s = pk r) g rows) = (view_of f K rows)(k \<mapsto> f (g r))"
proof (rule ext)
  fix j
  from first_where_Some [OF assms(2)] have r: "r \<in> set rows" "K k r" by auto
  note upd = first_where_update_key [OF assms(1) r(1), where P = "K j", OF assms(3)]
  show "view_of f K (update_where (\<lambda>s. pk s = pk r) g rows) j =
      ((view_of f K rows)(k \<mapsto> f (g r))) j"
  proof (cases "j = k")
    case True
    with upd assms(2) show ?thesis by (simp add: view_of_def)
  next
    case False
    have "first_where (K j) rows \<noteq> Some r"
      using False assms(4) first_where_Some by fastforce
    with False show ?thesis
      by (cases "first_where (K j) rows") (auto simp: view_of_def upd)
  qed
qed

lemma view_of_update_other:
  assumes "\<And>j s. K j (g s) = K j s" and "\<And>j s. s \<in> set rows \<Longrightarrow> P s \<Longrightarrow> \<not> K j s"
  shows "view_of f K (update_where P g rows) = view_of f K rows"
proof (rule ext)
  fix j
  have "first_where (K j) (update_where P g rows) =
      map_option (\<lambda>s. if P s then g s else s) (first_where (K j) rows)"
    by (rule first_where_update_id) (simp add: assms(1))
  moreover have "\<not> P s" if "first_where (K j) rows = Some s" for s
    using first_where_Some [OF that] assms(2) by blast
  ultimately show "view_of f K (update_where P g rows) j = view_of f K rows j"
    by (cases "first_where (K j) rows") (auto simp: view_of_def)
qed

lemma first_where_delete_same: "first_where P (delete_where P rows) = None"
  by (auto simp: first_where_None delete_where_def)

lemma first_where_delete_other:
  "(\<And>r. r \<in> set rows \<Longrightarrow> P r \<Longrightarrow> \<not> Q r) \<Longrightarrow> first_where P (delete_where Q rows) = first_where P rows"
  by (induction rows) (auto simp: delete_where_def)

lemma view_of_delete:
  assumes "\<And>j r. r \<in> set rows \<Longrightarrow> K j r \<Longrightarrow> P r \<longleftrightarrow> j = k"
  shows "view_of f K (delete_where P rows) = (view_of f K rows)(k := None)"
proof (rule ext)
  fix j
  show "view_of f K (delete_where P rows) j = ((view_of f K rows)(k := None)) j"
  proof (cases "j = k")
    case True
    with assms have "\<forall>r\<in>set (delete_where P rows). \<not> K j r"
      by (auto simp: delete_where_def)
    with True show ?thesis by (simp add: view_of_None)
  next
    case False
    with assms show ?thesis
      by (auto simp: view_of_def intro!: arg_cong [where f = "map_option f"] first_where_delete_other)
  qed
qed

lemma view_of_delete_other:
  assumes "\<And>j r. r \<in> set rows \<Longrightarrow> P r \<Longrightarrow> \<not> K j r"
  shows "view_of f K (delete_where P rows) = view_of f K rows"
  unfolding view_of_def fun_eq_iff
  using assms by (auto intro!: arg_cong [where f = "map_option f"] first_where_delete_other)

lemma view_of_cong:
  "(\<And>k r. r \<in> set rows \<Longrightarrow> K k r \<Longrightarrow> f r = g r) \<Longrightarrow> view_of f K rows = view_of g K rows"
  by (auto simp: view_of_def fun_eq_iff dest: first_where_Some intro!: option.map_cong0)

end
