(* ===== verification/PyText.thy ===== *)
theory PyText
  imports Prelude
begin

text \<open>
  Python's string operations as far as the code uses them, on \<open>string\<close> (a list of
  characters with code points 0 to 255): \<^verbatim>\<open>str.strip\<close>, \<^verbatim>\<open>str.startswith\<close>,
  \<^verbatim>\<open>str.split(sep)\<close>, \<^verbatim>\<open>str.replace(c, d)\<close>, \<^verbatim>\<open>str.lower\<close> on ASCII letters,
  \<^verbatim>\<open>re.escape\<close>, \<^verbatim>\<open>html.escape\<close>, decimal rendering, and the character classes of
  the regular expressions. The lemmas are the ones the components share: what the escaping
  functions can output and that they are injective.
\<close>

section \<open>Characters\<close>

abbreviation nl :: string where "nl \<equiv> [CHR 0x0A]"
abbreviation dq :: string where "dq \<equiv> [CHR 0x22]"
abbreviation sq :: string where "sq \<equiv> [CHR 0x27]"
abbreviation bs :: string where "bs \<equiv> [CHR 0x5C]"

text \<open>\<^verbatim>\<open>str.isspace\<close>, which is also \<^verbatim>\<open>\s\<close>, on code points below 256.\<close>

definition space_char :: "char \<Rightarrow> bool" where
  "space_char c = (let n = (of_char c :: nat) in
     (9 \<le> n \<and> n \<le> 13) \<or> (28 \<le> n \<and> n \<le> 32) \<or> n = 133 \<or> n = 160)"

text \<open>\<^verbatim>\<open>\d\<close>: below 256 only the ASCII digits are decimal digits.\<close>

definition digit_char :: "char \<Rightarrow> bool" where
  "digit_char c = (let n = (of_char c :: nat) in 48 \<le> n \<and> n \<le> 57)"

definition upper_char :: "char \<Rightarrow> bool" where
  "upper_char c = (let n = (of_char c :: nat) in 65 \<le> n \<and> n \<le> 90)"

definition lower_char :: "char \<Rightarrow> bool" where
  "lower_char c = (let n = (of_char c :: nat) in 97 \<le> n \<and> n \<le> 122)"

text \<open>\<^verbatim>\<open>[A-Za-z0-9]\<close>\<close>

definition alnum_char :: "char \<Rightarrow> bool" where
  "alnum_char c = (upper_char c \<or> lower_char c \<or> digit_char c)"

definition to_lower :: "char \<Rightarrow> char" where
  "to_lower c = (if upper_char c then char_of ((of_char c :: nat) + 32) else c)"

section \<open>Strings\<close>

definition lstrip :: "string \<Rightarrow> string" where
  "lstrip s = dropWhile space_char s"

definition strip :: "string \<Rightarrow> string" where
  "strip s = rev (dropWhile space_char (rev (lstrip s)))"

fun starts_with :: "string \<Rightarrow> string \<Rightarrow> bool" where
  "starts_with s [] = True"
| "starts_with [] (p # ps) = False"
| "starts_with (c # cs) (p # ps) = (c = p \<and> starts_with cs ps)"

text \<open>\<^verbatim>\<open>sub in s\<close>\<close>

fun contains_sub :: "string \<Rightarrow> string \<Rightarrow> bool" where
  "contains_sub [] p = (p = [])"
| "contains_sub (c # cs) p = (starts_with (c # cs) p \<or> contains_sub cs p)"

text \<open>\<^verbatim>\<open>s.split(c)\<close> for a one-character separator: always at least one piece.\<close>

fun split_on :: "char \<Rightarrow> string \<Rightarrow> string list" where
  "split_on c [] = [[]]"
| "split_on c (x # xs) =
     (if x = c then [] # split_on c xs
      else (case split_on c xs of [] \<Rightarrow> [[x]] | p # ps \<Rightarrow> (x # p) # ps))"

fun join :: "string \<Rightarrow> string list \<Rightarrow> string" where
  "join sep [] = []"
| "join sep [x] = x"
| "join sep (x # y # ys) = x @ sep @ join sep (y # ys)"

definition replace_char :: "char \<Rightarrow> char \<Rightarrow> string \<Rightarrow> string" where
  "replace_char c d s = map (\<lambda>x. if x = c then d else x) s"

definition lower_str :: "string \<Rightarrow> string" where
  "lower_str s = map to_lower s"

text \<open>\<^verbatim>\<open>re.sub(r"\D", "", s)\<close>\<close>

definition only_digits :: "string \<Rightarrow> string" where
  "only_digits s = filter digit_char s"

text \<open>\<^verbatim>\<open>str(n)\<close> for an integer.\<close>

fun nat_str :: "nat \<Rightarrow> string" where
  "nat_str n = (if n < 10 then [char_of (48 + n)] else nat_str (n div 10) @ [char_of (48 + n mod 10)])"

declare nat_str.simps [simp del]

definition int_str :: "int \<Rightarrow> string" where
  "int_str i = (if i < 0 then ''-'' @ nat_str (nat (- i)) else nat_str (nat i))"

text \<open>
  \<^verbatim>\<open>int(s)\<close>: white space around, an optional sign, digits with single underscores between
  them; \<open>None\<close> is the \<^verbatim>\<open>ValueError\<close>. \<open>digits_value\<close> reads the digits, \<open>ok\<close> saying that
  an underscore may come next.
\<close>

fun digits_value :: "bool \<Rightarrow> int \<Rightarrow> string \<Rightarrow> int option" where
  "digits_value ok n [] = (if ok then Some n else None)"
| "digits_value ok n (c # cs) =
     (if digit_char c then digits_value True (10 * n + (int (of_char c) - 48)) cs
      else if c = CHR ''_'' \<and> ok then digits_value False n cs
      else None)"

definition py_int :: "string \<Rightarrow> int option" where
  "py_int s =
     (case strip s of
        [] \<Rightarrow> None
      | c # cs \<Rightarrow>
          if c = CHR ''-'' then map_option uminus (digits_value False 0 cs)
          else if c = CHR ''+'' then digits_value False 0 cs
          else digits_value False 0 (c # cs))"

text \<open>\<^verbatim>\<open>a or b\<close> for values that are text or \<^verbatim>\<open>None\<close>: the empty text counts as false.\<close>

definition py_or :: "string option \<Rightarrow> string option \<Rightarrow> string option" where
  "py_or a b = (case a of Some s \<Rightarrow> if s \<noteq> [] then a else b | None \<Rightarrow> b)"

section \<open>Escaping\<close>

text \<open>
  \<^verbatim>\<open>re.escape\<close>: a backslash before each of
  \<^verbatim>\<open>( ) [ ] { } ? * + - | ^ $ \ . & ~ #\<close> and the six ASCII white-space characters.
\<close>

definition re_special :: "string" where
  "re_special = ''()[]{}?*+-|^$.&~# '' @ bs @ map char_of [9::nat, 10, 13, 11, 12]"

definition re_escape :: "string \<Rightarrow> string" where
  "re_escape s = concat (map (\<lambda>c. if c \<in> set re_special then bs @ [c] else [c]) s)"

text \<open>What a pattern made only of escaped literals matches: its characters, unescaped.\<close>

fun re_literal :: "string \<Rightarrow> string" where
  "re_literal [] = []"
| "re_literal [c] = [c]"
| "re_literal (c # d # s) = (if c = CHR 0x5C then d # re_literal s else c # re_literal (d # s))"

text \<open>\<^verbatim>\<open>html.escape(s, quote=True)\<close>\<close>

definition html_char :: "char \<Rightarrow> string" where
  "html_char c =
     (if c = CHR 0x26 then ''&amp;'' else if c = CHR 0x3C then ''&lt;''
      else if c = CHR 0x3E then ''&gt;'' else if c = CHR 0x22 then ''&quot;''
      else if c = CHR 0x27 then ''&#x27;'' else [c])"

definition html_escape :: "string \<Rightarrow> string" where
  "html_escape s = concat (map html_char s)"

text \<open>
  Characters that end or open something inside a double-quoted XML attribute: a text without
  them is read back by an XML parser as the attribute's value unchanged, but for the
  character references \<^verbatim>\<open>&...;\<close>.
\<close>

definition attr_safe :: "string \<Rightarrow> bool" where
  "attr_safe s \<longleftrightarrow> CHR 0x22 \<notin> set s \<and> CHR 0x3C \<notin> set s \<and> CHR 0x3E \<notin> set s"

section \<open>Lemmas\<close>

lemma starts_with_iff: "starts_with s p \<longleftrightarrow> (\<exists>t. s = p @ t)"
  by (induction s p rule: starts_with.induct) auto

lemma starts_with_append [simp]: "starts_with (p @ t) p"
  by (auto simp: starts_with_iff)

lemma split_on_not_Nil [simp]: "split_on c s \<noteq> []"
  by (induction s) (auto split: list.splits)

lemma set_split_on: "p \<in> set (split_on c s) \<Longrightarrow> set p \<subseteq> set s - {c}"
  by (induction s arbitrary: p) (fastforce split: if_splits list.splits)+

lemma split_on_all: "c \<notin> set s \<Longrightarrow> split_on c s = [s]"
  by (induction s) auto

lemma split_on_append: "c \<notin> set p \<Longrightarrow> split_on c (p @ c # s) = p # split_on c s"
  by (induction p) auto

lemma join_Cons_head: "join sep ((x # a) # ps) = x # join sep (a # ps)"
  by (cases ps) auto

lemma join_split_on: "join [c] (split_on c s) = s"
proof (induction s)
  case (Cons x s)
  then show ?case
    by (cases "split_on c s") (auto simp: join_Cons_head)
qed simp

lemma set_chars_split_on: "set s \<subseteq> insert c (\<Union> (set ` set (split_on c s)))"
proof (induction s)
  case (Cons x s)
  then show ?case by (cases "split_on c s") auto
qed simp

lemma re_escape_Nil [simp]: "re_escape [] = []"
  by (simp add: re_escape_def)

lemma re_escape_Cons [simp]:
  "re_escape (c # s) = (if c \<in> set re_special then bs @ [c] else [c]) @ re_escape s"
  by (simp add: re_escape_def)

lemma backslash_special: "CHR 0x5C \<in> set re_special"
  by (simp add: re_special_def)

lemma re_literal_plain: "c \<noteq> CHR 0x5C \<Longrightarrow> re_literal (c # s) = c # re_literal s"
  by (cases s) auto

text \<open>An escaped pattern matches exactly the text it was made from.\<close>

lemma re_literal_escape: "re_literal (re_escape s) = s"
proof (induction s)
  case (Cons c s)
  show ?case
  proof (cases "c \<in> set re_special")
    case False
    with backslash_special have "c \<noteq> CHR 0x5C" by metis
    with False Cons show ?thesis by (simp add: re_literal_plain)
  qed (simp add: Cons)
qed simp

lemma re_escape_inj: "re_escape s = re_escape t \<longleftrightarrow> s = t"
  by (metis re_literal_escape)

lemma set_re_escape: "set (re_escape s) \<subseteq> insert (CHR 0x5C) (set s)"
  by (induction s) auto

lemma html_escape_Cons [simp]: "html_escape (c # s) = html_char c @ html_escape s"
  by (simp add: html_escape_def)

lemma html_escape_Nil [simp]: "html_escape [] = []"
  by (simp add: html_escape_def)

lemma attr_safe_append [simp]: "attr_safe (s @ t) \<longleftrightarrow> attr_safe s \<and> attr_safe t"
  by (auto simp: attr_safe_def)

lemma attr_safe_html_char: "attr_safe (html_char c)"
  by (auto simp: html_char_def attr_safe_def)

text \<open>No escaped text can close the attribute it stands in or open a tag.\<close>

lemma attr_safe_html_escape: "attr_safe (html_escape s)"
  by (induction s) (auto simp: attr_safe_html_char, simp add: attr_safe_def)

lemma html_char_plain:
  "c \<notin> {CHR 0x26, CHR 0x3C, CHR 0x3E, CHR 0x22, CHR 0x27} \<Longrightarrow> html_char c = [c]"
  by (simp add: html_char_def)

lemma html_escape_plain:
  "set s \<inter> {CHR 0x26, CHR 0x3C, CHR 0x3E, CHR 0x22, CHR 0x27} = {} \<Longrightarrow> html_escape s = s"
  by (induction s) (auto simp: html_char_plain)

lemma nat_str_digits: "set (nat_str n) \<subseteq> {c. digit_char c}"
proof (induction n rule: nat_str.induct)
  case (1 n)
  have d: "digit_char (char_of (48 + k))" if "k < 10" for k :: nat
    using that by (simp add: digit_char_def)
  show ?case
  proof (cases "n < 10")
    case True
    then show ?thesis by (subst nat_str.simps) (simp add: d)
  next
    case False
    with "1.IH" show ?thesis by (subst nat_str.simps) (simp add: d)
  qed
qed

end
