(* ===== verification/PbxSchema.thy ===== *)
theory PbxSchema
  imports PyText
begin

text \<open>
  The foreign FusionPBX schema of \<^verbatim>\<open>app/services/fusionpbx/client.py\<close> (one record per
  \<^verbatim>\<open>Table\<close>, one field per column the client reads or writes), the world a client acts on
  (the database, what the next transactions meet, the ESL commands issued so far), the
  transaction wrapper every operation uses, the validation of names, and the domain operations.

  Conventions. A \<^verbatim>\<open>uuid4()\<close> is the next value of the counter \<open>next_id\<close>: a value that was
  never drawn before. Columns the code selects rows by are plain values; columns that may be
  NULL and are compared or returned are options. The column \<^verbatim>\<open>insert_date\<close> is written and
  never read, so it is left out.
\<close>

section \<open>Tables\<close>

record v_domain =
  dom_uuid :: nat
  dom_name :: string
  dom_enabled :: bool

record v_extension =
  ext_uuid :: nat
  ext_domain :: nat
  ext_number :: string
  ext_password :: "string option"
  ext_accountcode :: "string option"
  ext_user_context :: "string option"
  ext_effective_name :: "string option"
  ext_effective_number :: "string option"
  ext_outbound_name :: "string option"
  ext_outbound_number :: "string option"
  ext_call_timeout :: "int option"
  ext_enabled :: bool
  ext_first_name :: "string option"
  ext_dial_string :: "string option"

record v_voicemail =
  vm_uuid :: nat
  vm_domain :: nat
  vm_id :: string
  vm_password :: "string option"
  vm_enabled :: bool

record v_voicemail_message =
  msg_uuid :: nat
  msg_voicemail :: nat
  msg_created_epoch :: int
  msg_caller_name :: "string option"
  msg_caller_number :: "string option"
  msg_length :: "int option"
  msg_status :: "string option"

record v_dialplan =
  dp_uuid :: nat
  dp_app_uuid :: string
  dp_context :: string
  dp_name :: string
  dp_number :: "string option"
  dp_order :: "int option"
  dp_enabled :: bool
  dp_continue :: bool
  dp_xml :: "string option"
  dp_description :: "string option"

record v_default_setting =
  ds_uuid :: nat
  ds_category :: string
  ds_subcategory :: string
  ds_name :: string
  ds_value :: "string option"
  ds_enabled :: bool

record v_module =
  mod_name :: "string option"
  mod_enabled :: "bool option"

record v_queue =
  q_uuid :: nat
  q_domain :: nat
  q_name :: string
  q_extension :: string
  q_strategy :: "string option"
  q_moh_sound :: "string option"

record v_agent =
  ag_uuid :: nat
  ag_domain :: nat
  ag_id :: string
  ag_name :: string
  ag_type :: string
  ag_contact :: string
  ag_status :: string

record v_tier =
  tr_uuid :: nat
  tr_domain :: nat
  tr_queue :: nat
  tr_agent :: nat
  tr_queue_name :: string
  tr_agent_name :: string
  tr_level :: int
  tr_position :: int

record pbx =
  t_domains :: "v_domain list"
  t_extensions :: "v_extension list"
  t_voicemails :: "v_voicemail list"
  t_messages :: "v_voicemail_message list"
  t_dialplans :: "v_dialplan list"
  t_settings :: "v_default_setting list"
  t_modules :: "v_module list"
  t_queues :: "v_queue list"
  t_agents :: "v_agent list"
  t_tiers :: "v_tier list"
  next_id :: nat

section \<open>The world\<close>

text \<open>
  What a transaction on the foreign database meets: it runs; the server cannot be reached
  (\<^verbatim>\<open>OperationalError\<close>, \<^verbatim>\<open>InterfaceError\<close>); a constraint of the foreign schema rejects a
  statement (\<^verbatim>\<open>IntegrityError\<close>). The world says it for every future transaction, so a
  theorem over all worlds holds for every schedule of outages.
\<close>

datatype db_outcome = DbOk | DbUnreachable | DbIntegrity

datatype effect = Reload | Command string

record world =
  db :: pbx
  plan :: "nat \<Rightarrow> db_outcome"
  txno :: nat
  effects :: "effect list"
  token :: "nat \<Rightarrow> string"
  tokenno :: nat
  uuid_text :: "nat \<Rightarrow> string"

definition all_up :: "world \<Rightarrow> bool" where
  "all_up w \<longleftrightarrow> plan w = (\<lambda>_. DbOk)"

abbreviation unreachable :: err where
  "unreachable \<equiv> Unavailable ''FusionPBX DB unreachable''"

text \<open>
  \<^verbatim>\<open>with self._engine.begin() as conn:\<close> inside the \<^verbatim>\<open>try\<close> of an operation: the body runs on
  the database and is committed when it returns, rolled back when it raises. \<open>what\<close> is the
  message for an integrity violation, or \<open>None\<close> where the operation does not catch one.
\<close>

definition transaction :: "string option \<Rightarrow> (pbx, 'a) act \<Rightarrow> (world, 'a) act" where
  "transaction what body = (\<lambda>w.
     let w1 = w\<lparr>txno := Suc (txno w)\<rparr> in
     case plan w (txno w) of
       DbUnreachable \<Rightarrow> (Inl unreachable, w1)
     | DbIntegrity \<Rightarrow>
         (Inl (case what of None \<Rightarrow> IntegrityErr | Some msg \<Rightarrow> BadRequest msg), w1)
     | DbOk \<Rightarrow> (case body (db w) of
           (Inl e, _) \<Rightarrow> (Inl e, w1)
         | (Inr a, d) \<Rightarrow> (Inr a, w1\<lparr>db := d\<rparr>)))"

text \<open>A transaction that only reads meets no integrity violation and changes nothing.\<close>

definition reading :: "(pbx \<Rightarrow> 'a res) \<Rightarrow> (world, 'a) act" where
  "reading query = (\<lambda>w.
     let w1 = w\<lparr>txno := Suc (txno w)\<rparr> in
     case plan w (txno w) of
       DbUnreachable \<Rightarrow> (Inl unreachable, w1)
     | _ \<Rightarrow> (query (db w), w1))"

text \<open>\<^verbatim>\<open>_reload\<close> and \<^verbatim>\<open>_commander\<close>: best effort, they never raise.\<close>

definition reload :: "(world, unit) act" where
  "reload = (\<lambda>w. (Inr (), w\<lparr>effects := effects w @ [Reload]\<rparr>))"

definition send_command :: "string \<Rightarrow> (world, unit) act" where
  "send_command c = (\<lambda>w. (Inr (), w\<lparr>effects := effects w @ [Command c]\<rparr>))"

text \<open>\<^verbatim>\<open>secrets.token_urlsafe(16)\<close>\<close>

definition draw_token :: "(world, string) act" where
  "draw_token = (\<lambda>w. (Inr (token w (tokenno w)), w\<lparr>tokenno := Suc (tokenno w)\<rparr>))"

text \<open>
  The shape of most operations: a transaction that also says whether it wrote, then
  \<^verbatim>\<open>if wrote: self._reload()\<close> once it is committed.
\<close>

definition write_op :: "string option \<Rightarrow> (pbx, 'a \<times> bool) act \<Rightarrow> (world, 'a) act" where
  "write_op what body =
     bind_act (transaction what body) (\<lambda>(r, wrote).
       then_act (if wrote then reload else ret ()) (ret r))"

definition fresh :: "(pbx, nat) act" where
  "fresh = (\<lambda>d. (Inr (next_id d), d\<lparr>next_id := Suc (next_id d)\<rparr>))"

section \<open>Validation of names\<close>

text \<open>\<^verbatim>\<open>_DOMAIN_RE\<close>: at least two labels, each of 1 to 63 letters, digits and inner hyphens.\<close>

definition label_char :: "char \<Rightarrow> bool" where
  "label_char c \<longleftrightarrow> alnum_char c \<or> c = CHR ''-''"

definition valid_label :: "string \<Rightarrow> bool" where
  "valid_label l \<longleftrightarrow> 1 \<le> length l \<and> length l \<le> 63 \<and> alnum_char (hd l) \<and> alnum_char (last l) \<and>
     list_all label_char l"

definition valid_domain :: "string \<Rightarrow> bool" where
  "valid_domain s \<longleftrightarrow> 1 \<le> length s \<and> length s \<le> 255 \<and>
     2 \<le> length (split_on (CHR ''.'') s) \<and> list_all valid_label (split_on (CHR ''.'') s)"

text \<open>\<^verbatim>\<open>_DIAL_TOKEN_RE\<close> and \<^verbatim>\<open>_IVR_DIGIT_RE\<close>\<close>

definition dial_char :: "char \<Rightarrow> bool" where
  "dial_char c \<longleftrightarrow> alnum_char c \<or> c \<in> set ''_*#+-''"

definition valid_token :: "string \<Rightarrow> bool" where
  "valid_token s \<longleftrightarrow> 1 \<le> length s \<and> length s \<le> 64 \<and> list_all dial_char s"

definition valid_ivr_digit :: "string \<Rightarrow> bool" where
  "valid_ivr_digit s \<longleftrightarrow> length s = 1 \<and> list_all (\<lambda>c. c \<in> set ''0123456789'') s"

definition require_domain :: "string \<Rightarrow> unit res" where
  "require_domain s = (if valid_domain s then Inr () else Inl (BadRequest ''Invalid FusionPBX domain''))"

definition require_dial_token :: "string \<Rightarrow> string \<Rightarrow> unit res" where
  "require_dial_token v field = (if valid_token v then Inr () else Inl (BadRequest (''Invalid '' @ field)))"

text \<open>The two guards most operations begin with.\<close>

definition check_names :: "string \<Rightarrow> string \<Rightarrow> ('w, unit) act" where
  "check_names domain_name number =
     then_act (lift_res (require_domain domain_name)) (lift_res (require_dial_token number ''number''))"

section \<open>Domains\<close>

text \<open>
  \<^verbatim>\<open>_domain_uuid_for\<close>: \<^verbatim>\<open>scalar_one_or_none\<close> raises when several rows match.
\<close>

definition domain_uuid_for :: "string \<Rightarrow> pbx \<Rightarrow> nat option res" where
  "domain_uuid_for name d =
     (case filter (\<lambda>r. dom_name r = name) (t_domains d) of
        [] \<Rightarrow> Inr None
      | [r] \<Rightarrow> Inr (Some (dom_uuid r))
      | _ \<Rightarrow> Inl MultipleResults)"

definition query_domain :: "string \<Rightarrow> (pbx, nat option) act" where
  "query_domain name = (\<lambda>d. (domain_uuid_for name d, d))"

definition insert_domain :: "v_domain \<Rightarrow> (pbx, unit) act" where
  "insert_domain r = (\<lambda>d. (Inr (), d\<lparr>t_domains := t_domains d @ [r]\<rparr>))"

definition ensure_domain :: "string \<Rightarrow> (pbx, nat \<times> bool) act" where
  "ensure_domain name =
     bind_act (query_domain name) (\<lambda>existing.
       case existing of
         Some u \<Rightarrow> ret (u, False)
       | None \<Rightarrow> bind_act fresh (\<lambda>u.
           then_act (insert_domain \<lparr>dom_uuid = u, dom_name = name, dom_enabled = True\<rparr>)
             (ret (u, True))))"

definition list_domains :: "(world, (nat \<times> string \<times> bool) list) act" where
  "list_domains = reading (\<lambda>d. Inr (map (\<lambda>r. (dom_uuid r, dom_name r, dom_enabled r)) (t_domains d)))"

definition create_domain :: "string \<Rightarrow> (world, nat \<times> string) act" where
  "create_domain name =
     then_act (lift_res (require_domain name))
       (write_op (Some ''FusionPBX domain insert failed'')
         (bind_act (ensure_domain name) (\<lambda>(u, created). ret ((u, name), created))))"

end
