(* ===== verification/PbxExtensions.thy ===== *)
theory PbxExtensions
  imports PbxSchema
begin

text \<open>
  Extensions, voicemail boxes and messages, the switch settings and the readiness report of
  \<^verbatim>\<open>app/services/fusionpbx/client.py\<close>.
\<close>

section \<open>Extensions\<close>

definition dial_string_unlock :: string where
  "dial_string_unlock =
     ''{sip_invite_domain=${domain_name},sip_h_X-Voice-Domain=${domain_name}}sofia/external/${dialed_user}@10.10.10.1:5060''"

definition extension_key :: "nat \<Rightarrow> string \<Rightarrow> v_extension \<Rightarrow> bool" where
  "extension_key u number r \<longleftrightarrow> ext_domain r = u \<and> ext_number r = number"

definition new_extension ::
  "nat \<Rightarrow> nat \<Rightarrow> string \<Rightarrow> string \<Rightarrow> string \<Rightarrow> string \<Rightarrow> v_extension" where
  "new_extension key u domain_name number secret display_name =
     \<lparr>ext_uuid = key, ext_domain = u, ext_number = number, ext_password = Some secret,
      ext_accountcode = Some domain_name, ext_user_context = Some domain_name,
      ext_effective_name = Some display_name, ext_effective_number = Some number,
      ext_outbound_name = Some display_name, ext_outbound_number = Some number,
      ext_call_timeout = Some 30, ext_enabled = True, ext_first_name = Some display_name,
      ext_dial_string = Some dial_string_unlock\<rparr>"

definition insert_extension :: "v_extension \<Rightarrow> (pbx, unit) act" where
  "insert_extension r = (\<lambda>d. (Inr (), d\<lparr>t_extensions := t_extensions d @ [r]\<rparr>))"

definition set_extension_names :: "nat \<Rightarrow> string \<Rightarrow> (pbx, unit) act" where
  "set_extension_names key display_name = (\<lambda>d. (Inr (), d\<lparr>t_extensions :=
     update_where (\<lambda>r. ext_uuid r = key)
       (\<lambda>r. r\<lparr>ext_effective_name := Some display_name, ext_outbound_name := Some display_name,
              ext_first_name := Some display_name\<rparr>)
       (t_extensions d)\<rparr>))"

definition names_differ :: "string \<Rightarrow> v_extension \<Rightarrow> bool" where
  "names_differ display_name r \<longleftrightarrow>
     ext_effective_name r \<noteq> Some display_name \<or> ext_outbound_name r \<noteq> Some display_name \<or>
     ext_first_name r \<noteq> Some display_name"

record extension_result =
  res_number :: string
  res_uuid :: nat
  res_password :: "string option"

text \<open>The body of the transaction of \<^verbatim>\<open>create_extension\<close>: the result, and whether it wrote.\<close>

definition upsert_extension ::
  "string \<Rightarrow> string \<Rightarrow> string \<Rightarrow> string \<Rightarrow> (pbx, extension_result \<times> bool) act" where
  "upsert_extension domain_name number secret display_name =
     bind_act (ensure_domain domain_name) (\<lambda>(u, _). \<lambda>d.
       case first_where (extension_key u number) (t_extensions d) of
         Some existing \<Rightarrow>
           then_act
             (if names_differ display_name existing
              then set_extension_names (ext_uuid existing) display_name else ret ())
             (ret (\<lparr>res_number = number, res_uuid = ext_uuid existing,
                    res_password = ext_password existing\<rparr>, names_differ display_name existing)) d
       | None \<Rightarrow>
           bind_act fresh (\<lambda>key.
             then_act (insert_extension (new_extension key u domain_name number secret display_name))
               (ret (\<lparr>res_number = number, res_uuid = key, res_password = Some secret\<rparr>, True))) d)"

definition create_extension ::
  "string \<Rightarrow> string \<Rightarrow> string \<Rightarrow> string \<Rightarrow> (world, extension_result) act" where
  "create_extension domain_name number password display_name =
     then_act (check_names domain_name number)
     (bind_act (if password \<noteq> [] then ret password else draw_token) (\<lambda>secret.
        write_op (Some ''FusionPBX extension insert failed'')
          (upsert_extension domain_name number secret display_name)))"

text \<open>\<^verbatim>\<open>list_extensions\<close>: numbers with their uuid.\<close>

definition query_extensions :: "string \<Rightarrow> pbx \<Rightarrow> (string \<times> nat) list res" where
  "query_extensions domain_name d =
     bind_res (domain_uuid_for domain_name d) (\<lambda>found.
       case found of
         None \<Rightarrow> Inr []
       | Some u \<Rightarrow> Inr (map (\<lambda>r. (ext_number r, ext_uuid r))
                         (filter (\<lambda>r. ext_domain r = u) (t_extensions d))))"

definition list_extensions :: "string \<Rightarrow> (world, (string \<times> nat) list) act" where
  "list_extensions domain_name =
     then_act (lift_res (require_domain domain_name)) (reading (query_extensions domain_name))"

definition get_extension_secret :: "string \<Rightarrow> string \<Rightarrow> (world, string option) act" where
  "get_extension_secret domain_name number =
     then_act (lift_res (require_domain domain_name)) (reading (\<lambda>d.
       bind_res (domain_uuid_for domain_name d) (\<lambda>found.
         case found of
           None \<Rightarrow> Inr None
         | Some u \<Rightarrow> (case first_where (extension_key u number) (t_extensions d) of
               None \<Rightarrow> Inr None
             | Some r \<Rightarrow> Inr (ext_password r)))))"

definition delete_extension :: "string \<Rightarrow> string \<Rightarrow> (world, bool) act" where
  "delete_extension domain_name number =
     then_act (check_names domain_name number)
       (write_op None (bind_act (query_domain domain_name) (\<lambda>found. \<lambda>d.
          case found of
            None \<Rightarrow> (Inr (False, False), d)
          | Some u \<Rightarrow>
              (let deleted = 0 < rowcount (extension_key u number) (t_extensions d)
               in (Inr (deleted, deleted),
                   d\<lparr>t_extensions := delete_where (extension_key u number) (t_extensions d)\<rparr>)))))"

section \<open>Voicemail\<close>

definition voicemail_key :: "nat \<Rightarrow> string \<Rightarrow> v_voicemail \<Rightarrow> bool" where
  "voicemail_key u number r \<longleftrightarrow> vm_domain r = u \<and> vm_id r = number"

definition insert_voicemail :: "v_voicemail \<Rightarrow> (pbx, unit) act" where
  "insert_voicemail r = (\<lambda>d. (Inr (), d\<lparr>t_voicemails := t_voicemails d @ [r]\<rparr>))"

text \<open>\<^verbatim>\<open>ensure_voicemail\<close> returns whether it created the box.\<close>

definition ensure_voicemail ::
  "string \<Rightarrow> string \<Rightarrow> bool \<Rightarrow> string \<Rightarrow> (world, string \<times> bool) act" where
  "ensure_voicemail domain_name number enabled password =
     then_act (check_names domain_name number)
       (write_op (Some ''FusionPBX voicemail insert failed'')
         (bind_act (ensure_domain domain_name) (\<lambda>(u, _). \<lambda>d.
            case first_where (voicemail_key u number) (t_voicemails d) of
              Some existing \<Rightarrow> ret ((number, False), False) d
            | None \<Rightarrow>
                bind_act fresh (\<lambda>key.
                  then_act (insert_voicemail
                    \<lparr>vm_uuid = key, vm_domain = u, vm_id = number,
                     vm_password = Some (if password \<noteq> [] then password else number),
                     vm_enabled = enabled\<rparr>)
                  (ret ((number, True), True))) d)))"

definition delete_voicemail :: "string \<Rightarrow> string \<Rightarrow> (world, bool) act" where
  "delete_voicemail domain_name number =
     then_act (check_names domain_name number)
       (write_op None (bind_act (query_domain domain_name) (\<lambda>found. \<lambda>d.
          case found of
            None \<Rightarrow> (Inr (False, False), d)
          | Some u \<Rightarrow>
              (let deleted = 0 < rowcount (voicemail_key u number) (t_voicemails d)
               in (Inr (deleted, deleted),
                   d\<lparr>t_voicemails := delete_where (voicemail_key u number) (t_voicemails d)\<rparr>)))))"

text \<open>
  \<^verbatim>\<open>list_voicemail_messages\<close>: the messages joined with the boxes of this domain and number,
  newest first; messages of the same second keep the table's order.
\<close>

definition query_messages :: "string \<Rightarrow> string \<Rightarrow> pbx \<Rightarrow> v_voicemail_message list res" where
  "query_messages domain_name extension d =
     bind_res (domain_uuid_for domain_name d) (\<lambda>found.
       case found of
         None \<Rightarrow> Inr []
       | Some u \<Rightarrow> Inr (sort_key (\<lambda>m. - msg_created_epoch m)
           (concat (map (\<lambda>m. map (\<lambda>_. m)
              (filter (\<lambda>v. msg_voicemail m = vm_uuid v \<and> voicemail_key u extension v) (t_voicemails d)))
              (t_messages d)))))"

definition list_voicemail_messages ::
  "string \<Rightarrow> string \<Rightarrow> (world, v_voicemail_message list) act" where
  "list_voicemail_messages domain_name extension =
     then_act (lift_res (require_domain domain_name))
     (then_act (lift_res (require_dial_token extension ''extension''))
       (reading (query_messages domain_name extension)))"

section \<open>Switch settings and readiness\<close>

definition switch_voicemail_dir :: string where
  "switch_voicemail_dir = ''/var/lib/freeswitch/storage/voicemail''"

definition is_voicemail_dir :: "v_default_setting \<Rightarrow> bool" where
  "is_voicemail_dir r \<longleftrightarrow>
     ds_category r = ''switch'' \<and> ds_subcategory r = ''voicemail'' \<and> ds_name r = ''dir''"

definition insert_setting :: "v_default_setting \<Rightarrow> (pbx, unit) act" where
  "insert_setting r = (\<lambda>d. (Inr (), d\<lparr>t_settings := t_settings d @ [r]\<rparr>))"

definition ensure_voicemail_dir :: "(pbx, bool) act" where
  "ensure_voicemail_dir = (\<lambda>d.
     case first_where is_voicemail_dir (t_settings d) of
       None \<Rightarrow>
         bind_act fresh (\<lambda>key. then_act (insert_setting
           \<lparr>ds_uuid = key, ds_category = ''switch'', ds_subcategory = ''voicemail'',
            ds_name = ''dir'', ds_value = Some switch_voicemail_dir, ds_enabled = True\<rparr>)
           (ret True)) d
     | Some row \<Rightarrow>
         if ds_value row \<noteq> Some switch_voicemail_dir
         then (Inr True, d\<lparr>t_settings := update_where (\<lambda>r. ds_uuid r = ds_uuid row)
                (\<lambda>r. r\<lparr>ds_value := Some switch_voicemail_dir, ds_enabled := True\<rparr>) (t_settings d)\<rparr>)
         else (Inr False, d))"

definition ensure_switch_settings :: "(world, bool) act" where
  "ensure_switch_settings =
     write_op None (bind_act ensure_voicemail_dir (\<lambda>changed. ret (changed, changed)))"

text \<open>\<^verbatim>\<open>check_readiness\<close>: the required modules, each found by substring among the enabled ones.\<close>

definition enabled_modules :: "v_module list \<Rightarrow> string list" where
  "enabled_modules rows = map (\<lambda>r. lower_str (case mod_name r of None \<Rightarrow> [] | Some n \<Rightarrow> n))
     (filter (\<lambda>r. mod_enabled r = Some True) rows)"

definition required_modules :: "string list" where
  "required_modules = [''voicemail'', ''callcenter'']"

definition readiness :: "v_module list \<Rightarrow> bool \<times> (string \<times> bool) list" where
  "readiness rows =
     (let modules = map (\<lambda>req. (req, list_ex (\<lambda>name. contains_sub name req) (enabled_modules rows)))
        required_modules
      in (list_all snd modules, modules))"

definition check_readiness :: "(world, bool \<times> (string \<times> bool) list) act" where
  "check_readiness = reading (\<lambda>d. Inr (readiness (t_modules d)))"

end
