(* ===== verification/PbxDialplan.thy ===== *)
theory PbxDialplan
  imports PbxSchema
begin

text \<open>
  The dialplan operations of \<^verbatim>\<open>app/services/fusionpbx/client.py\<close>: the names of feature
  dialplans, the XML documents the client writes (conference, ring group, IVR menu, internal
  routing, queue), the upsert \<^verbatim>\<open>_ensure_dialplan\<close> and the operations built on it.
\<close>

section \<open>Names\<close>

text \<open>\<^verbatim>\<open>feature_dialplan_name\<close>, \<^verbatim>\<open>_domain_match\<close> and \<^verbatim>\<open>_conf_room\<close>\<close>

definition dialplan_name :: "string \<Rightarrow> string \<Rightarrow> string \<Rightarrow> string" where
  "dialplan_name kind domain_name number =
     ''kamailio-'' @ kind @ ''-'' @ domain_name @ ''-'' @ number"

definition feature_dialplan_name :: "string \<Rightarrow> string \<Rightarrow> string \<Rightarrow> string res" where
  "feature_dialplan_name kind domain_name number =
     bind_res (require_domain domain_name) (\<lambda>_.
     bind_res (require_dial_token number ''number'') (\<lambda>_.
       Inr (dialplan_name kind domain_name number)))"

definition domain_match :: "string \<Rightarrow> string" where
  "domain_match domain_name = ''^'' @ re_escape domain_name @ ''$''"

definition conf_room :: "string \<Rightarrow> string \<Rightarrow> string" where
  "conf_room domain_name number = replace_char (CHR ''.'') (CHR ''_'') domain_name @ ''-'' @ number"

definition feature_tag :: "string \<Rightarrow> string" where
  "feature_tag domain_name = ''dotmac-voice:feature:'' @ domain_name"

definition queue_tag :: "string \<Rightarrow> string" where
  "queue_tag domain_name = ''dotmac-voice:queue:'' @ domain_name"

section \<open>XML documents\<close>

text \<open>The lines the documents are made of.\<close>

definition xml_attr :: "string \<Rightarrow> string \<Rightarrow> string" where
  "xml_attr key val = '' '' @ key @ ''='' @ dq @ val @ dq"

definition extension_open :: "string \<Rightarrow> string" where
  "extension_open name = ''<extension'' @ xml_attr ''name'' name @ xml_attr ''continue'' ''false'' @ ''>''"

definition condition_line :: "string \<Rightarrow> string \<Rightarrow> bool \<Rightarrow> string" where
  "condition_line field expression closed =
     ''  <condition'' @ xml_attr ''field'' field @ xml_attr ''expression'' expression
       @ (if closed then ''/>'' else ''>'')"

definition action_line :: "string \<Rightarrow> string" where
  "action_line application = ''    <action'' @ xml_attr ''application'' application @ ''/>''"

definition action_data :: "string \<Rightarrow> string \<Rightarrow> string" where
  "action_data application val =
     ''    <action'' @ xml_attr ''application'' application @ xml_attr ''data'' val @ ''/>''"

definition from_kamailio :: string where
  "from_kamailio = ''^10'' @ bs @ ''.10'' @ bs @ ''.10'' @ bs @ ''.1$''"

text \<open>The opening lines of a feature dialplan, up to its destination condition.\<close>

definition feature_head :: "string \<Rightarrow> string \<Rightarrow> string \<Rightarrow> string list" where
  "feature_head name domain_name number =
     [extension_open (html_escape name),
      condition_line ''${network_addr}'' from_kamailio True,
      condition_line ''${sip_req_host}'' (domain_match domain_name) True,
      condition_line ''destination_number'' (''^('' @ re_escape number @ '')$'') False]"

definition document_end :: "string list" where
  "document_end = [''  </condition>'', ''</extension>'']"

definition conference_xml :: "string \<Rightarrow> string \<Rightarrow> string" where
  "conference_xml domain_name number = join nl
     (feature_head (dialplan_name ''conference'' domain_name number) domain_name number @
      [action_line ''answer'',
       action_data ''sleep'' ''500'',
       action_data ''conference'' (html_escape (conf_room domain_name number) @ ''@default'')] @
      document_end)"

definition ring_group_bridge :: "string \<Rightarrow> string list \<Rightarrow> string \<Rightarrow> string" where
  "ring_group_bridge domain_name members strategy =
     join (if strategy = ''simultaneous'' then '','' else ''|'')
       (map (\<lambda>m. ''user/'' @ m @ ''@'' @ domain_name) members)"

definition ring_group_xml :: "string \<Rightarrow> string \<Rightarrow> string list \<Rightarrow> string \<Rightarrow> int \<Rightarrow> string" where
  "ring_group_xml domain_name number members strategy timeout = join nl
     (feature_head (dialplan_name ''ringgroup'' domain_name number) domain_name number @
      [action_data ''set'' ''hangup_after_bridge=true'',
       action_data ''set'' ''continue_on_fail=true'',
       action_data ''set'' (''call_timeout='' @ int_str timeout),
       action_data ''export'' ''rtp_timeout_sec=30'',
       action_data ''bridge'' (html_escape (ring_group_bridge domain_name members strategy))] @
      document_end)"

definition recording_path :: string where
  "recording_path = ''/var/lib/freeswitch/recordings/${sip_req_host}/${strftime(%Y-%m-%d)}/${uuid}.wav''"

definition recording_lines :: "bool \<Rightarrow> string list" where
  "recording_lines recording =
     (if recording then
        [action_data ''set'' ''RECORD_STEREO=true'',
         action_data ''set'' (''recording_file='' @ recording_path),
         action_data ''set'' (''execute_on_answer=record_session '' @ recording_path)]
      else [])"

definition routing_pattern :: string where
  "routing_pattern = ''1'' @ bs @ ''d{3}''"

definition routing_name :: string where
  "routing_name = ''kamailio-internal-to-domain''"

definition routing_xml :: "bool \<Rightarrow> string \<Rightarrow> string" where
  "routing_xml recording ext_pattern = join nl
     ([extension_open routing_name,
       condition_line ''${network_addr}'' from_kamailio True,
       condition_line ''destination_number'' (''^('' @ ext_pattern @ '')$'') False,
       action_data ''set'' ''hangup_after_bridge=true'',
       action_data ''set'' ''continue_on_fail=true'',
       action_data ''export'' ''rtp_timeout_sec=30'',
       action_data ''export'' ''rtp_hold_timeout_sec=1800''] @
      recording_lines recording @
      [action_data ''bridge''
         (''{sip_h_X-Voice-Domain=${sip_req_host}}sofia/external/${destination_number}@10.10.10.1:5060''),
       action_line ''answer'',
       action_data ''sleep'' ''1000'',
       action_data ''set'' ''voicemail_action=save'',
       action_data ''set'' ''voicemail_id=${destination_number}'',
       action_data ''set'' ''voicemail_profile=default'',
       action_data ''set'' ''send_to_voicemail=true'',
       action_data ''set'' ''domain_name=${sip_req_host}'',
       action_data ''lua'' ''app.lua voicemail''] @
      document_end)"

text \<open>
  The IVR menu. \<^verbatim>\<open>options\<close> is a dict, here the list of its items (keys distinct); the nested
  \<^verbatim>\<open>cond()\<close> text is built from the last item outwards.
\<close>

type_synonym ivr_options = "(string \<times> string) list"

definition ivr_items :: "ivr_options \<Rightarrow> ivr_options" where
  "ivr_items options = sort_key fst options"

definition ivr_regex :: "ivr_options \<Rightarrow> string" where
  "ivr_regex options = ''^['' @ concat (map fst (ivr_items options)) @ '']$''"

definition ivr_cond :: "string \<times> string \<Rightarrow> string \<Rightarrow> string" where
  "ivr_cond item rest =
     ''${cond(${ivr_choice} == '' @ fst item @ '' ? '' @ snd item @ '' : '' @ rest @ '')}''"

definition ivr_expr :: "ivr_options \<Rightarrow> string" where
  "ivr_expr options = foldr ivr_cond (butlast (ivr_items options)) (snd (last (ivr_items options)))"

definition ivr_xml :: "string \<Rightarrow> string \<Rightarrow> ivr_options \<Rightarrow> string \<Rightarrow> int \<Rightarrow> string" where
  "ivr_xml domain_name number options greeting timeout = join nl
     (feature_head (dialplan_name ''ivr'' domain_name number) domain_name number @
      [action_line ''answer'',
       action_data ''sleep'' ''500'',
       action_data ''play_and_get_digits''
         (''1 1 3 '' @ int_str timeout @ '' # '' @ html_escape greeting
           @ '' silence_stream://250 ivr_choice '' @ ivr_regex options),
       action_data ''set'' (''ivr_target='' @ html_escape (ivr_expr options)),
       action_data ''transfer'' ''${ivr_target} XML public''] @
      document_end)"

definition queue_xml :: "string \<Rightarrow> string \<Rightarrow> string" where
  "queue_xml domain_name number = join nl
     (feature_head (dialplan_name ''queue'' domain_name number) domain_name number @
      [action_line ''answer'',
       action_data ''sleep'' ''500'',
       action_data ''callcenter'' (html_escape number @ ''@'' @ html_escape domain_name),
       action_line ''hangup''] @
      document_end)"

section \<open>The upsert\<close>

definition dialplan_app_uuid :: string where
  "dialplan_app_uuid = ''b1cd7509-5576-469a-892d-d0cfb66a4197''"

definition public_named :: "string \<Rightarrow> v_dialplan \<Rightarrow> bool" where
  "public_named name r \<longleftrightarrow> dp_name r = name \<and> dp_context r = ''public''"

definition insert_dialplan :: "v_dialplan \<Rightarrow> (pbx, unit) act" where
  "insert_dialplan r = (\<lambda>d. (Inr (), d\<lparr>t_dialplans := t_dialplans d @ [r]\<rparr>))"

definition set_dialplan_xml :: "nat \<Rightarrow> string \<Rightarrow> int \<Rightarrow> (pbx, unit) act" where
  "set_dialplan_xml u xml order = (\<lambda>d. (Inr (), d\<lparr>t_dialplans :=
     update_where (\<lambda>r. dp_uuid r = u) (\<lambda>r. r\<lparr>dp_xml := Some xml, dp_order := Some order\<rparr>)
       (t_dialplans d)\<rparr>))"

definition ensure_dialplan ::
  "string \<Rightarrow> string \<Rightarrow> int \<Rightarrow> string \<Rightarrow> string \<Rightarrow> (pbx, bool) act" where
  "ensure_dialplan name number order xml tag = (\<lambda>d.
     case first_where (public_named name) (t_dialplans d) of
       Some existing \<Rightarrow>
         if dp_xml existing = Some xml then ret False d
         else then_act (set_dialplan_xml (dp_uuid existing) xml order) (ret True) d
     | None \<Rightarrow>
         bind_act fresh (\<lambda>u. then_act (insert_dialplan
           \<lparr>dp_uuid = u, dp_app_uuid = dialplan_app_uuid, dp_context = ''public'', dp_name = name,
            dp_number = Some number, dp_order = Some order, dp_enabled = True, dp_continue = False,
            dp_xml = Some xml, dp_description = Some tag\<rparr>) (ret True)) d)"

section \<open>Operations\<close>

text \<open>The transaction the four dialplan operations share: domain, upsert, reload on a change.\<close>

definition provision_dialplan ::
  "string \<Rightarrow> string \<Rightarrow> string \<Rightarrow> string \<Rightarrow> int \<Rightarrow> string \<Rightarrow> string \<Rightarrow> (world, string \<times> bool) act" where
  "provision_dialplan what domain_name name number order xml tag =
     write_op (Some what)
       (bind_act (ensure_domain domain_name) (\<lambda>_.
        bind_act (ensure_dialplan name number order xml tag) (\<lambda>changed.
          ret ((name, changed), changed))))"

definition create_conference :: "string \<Rightarrow> string \<Rightarrow> (world, string \<times> bool) act" where
  "create_conference domain_name number =
     then_act (check_names domain_name number)
       (provision_dialplan ''FusionPBX conference insert failed'' domain_name
          (dialplan_name ''conference'' domain_name number) number 55
          (conference_xml domain_name number) (feature_tag domain_name))"

definition create_ring_group ::
  "string \<Rightarrow> string \<Rightarrow> string list \<Rightarrow> string \<Rightarrow> int \<Rightarrow> (world, string \<times> bool) act" where
  "create_ring_group domain_name number members strategy timeout =
     then_act (check_names domain_name number)
     (then_act (guard_act (members \<noteq> []) (BadRequest ''Ring group requires at least one member''))
     (then_act (lift_res (check_each (\<lambda>m. require_dial_token m ''member'') members))
       (provision_dialplan ''FusionPBX ring group insert failed'' domain_name
          (dialplan_name ''ringgroup'' domain_name number) number 52
          (ring_group_xml domain_name number members strategy timeout)
          (feature_tag domain_name))))"

definition require_ivr_option :: "string \<times> string \<Rightarrow> unit res" where
  "require_ivr_option item =
     (if \<not> valid_ivr_digit (fst item)
      then Inl (BadRequest ''IVR option keys must be single digits'')
      else require_dial_token (snd item) ''IVR target'')"

definition create_ivr ::
  "string \<Rightarrow> string \<Rightarrow> ivr_options \<Rightarrow> string \<Rightarrow> int \<Rightarrow> (world, string \<times> bool) act" where
  "create_ivr domain_name number options greeting timeout =
     then_act (check_names domain_name number)
     (then_act (guard_act (options \<noteq> []) (BadRequest ''IVR requires at least one option''))
     (then_act (lift_res (check_each require_ivr_option options))
       (provision_dialplan ''FusionPBX IVR insert failed'' domain_name
          (dialplan_name ''ivr'' domain_name number) number 54
          (ivr_xml domain_name number options greeting timeout)
          (feature_tag domain_name))))"

definition ensure_routing :: "string \<Rightarrow> bool \<Rightarrow> string \<Rightarrow> (world, string \<times> bool) act" where
  "ensure_routing domain_name recording ext_pattern =
     then_act (lift_res (require_domain domain_name))
       (provision_dialplan ''FusionPBX routing insert failed'' domain_name routing_name [] 50
          (routing_xml recording ext_pattern) ''dotmac-voice:routing'')"

definition delete_dialplan_row :: "string \<Rightarrow> (pbx, bool) act" where
  "delete_dialplan_row name = (\<lambda>d.
     (Inr (0 < rowcount (public_named name) (t_dialplans d)),
      d\<lparr>t_dialplans := delete_where (public_named name) (t_dialplans d)\<rparr>))"

definition delete_dialplan :: "string \<Rightarrow> (world, bool) act" where
  "delete_dialplan name =
     write_op None (bind_act (delete_dialplan_row name) (\<lambda>deleted. ret (deleted, deleted)))"

text \<open>\<^verbatim>\<open>list_managed_dialplans\<close> returns a set; here its elements in table order.\<close>

definition list_managed_dialplans :: "string \<Rightarrow> (world, string list) act" where
  "list_managed_dialplans domain_name =
     then_act (lift_res (require_domain domain_name))
       (reading (\<lambda>d. Inr (remdups (map dp_name (filter
          (\<lambda>r. dp_description r = Some (feature_tag domain_name) \<and> dp_context r = ''public'')
          (t_dialplans d))))))"

end
