(* ===== verification/PbxQueues.thy ===== *)
theory PbxQueues
  imports PbxDialplan
begin

text \<open>
  Call-centre queues of \<^verbatim>\<open>app/services/fusionpbx/client.py\<close>: \<^verbatim>\<open>ensure_queue\<close>,
  \<^verbatim>\<open>delete_queue\<close>, \<^verbatim>\<open>list_queues\<close> and \<^verbatim>\<open>resync_queues\<close>. A queue is a row of
  \<^verbatim>\<open>v_call_center_queues\<close>, its agents are rows of \<^verbatim>\<open>v_call_center_agents\<close> tied to it by
  rows of \<^verbatim>\<open>v_call_center_tiers\<close>; agents are shared by the queues of a domain and are
  removed with their last tier.
\<close>

section \<open>Statements\<close>

definition queue_key :: "nat \<Rightarrow> string \<Rightarrow> v_queue \<Rightarrow> bool" where
  "queue_key u number q \<longleftrightarrow> q_domain q = u \<and> q_extension q = number"

definition agent_key :: "nat \<Rightarrow> string \<Rightarrow> v_agent \<Rightarrow> bool" where
  "agent_key u ext a \<longleftrightarrow> ag_domain a = u \<and> ag_id a = ext"

definition insert_queue :: "v_queue \<Rightarrow> (pbx, unit) act" where
  "insert_queue r = (\<lambda>d. (Inr (), d\<lparr>t_queues := t_queues d @ [r]\<rparr>))"

definition insert_agent :: "v_agent \<Rightarrow> (pbx, unit) act" where
  "insert_agent r = (\<lambda>d. (Inr (), d\<lparr>t_agents := t_agents d @ [r]\<rparr>))"

definition insert_tier :: "v_tier \<Rightarrow> (pbx, unit) act" where
  "insert_tier r = (\<lambda>d. (Inr (), d\<lparr>t_tiers := t_tiers d @ [r]\<rparr>))"

definition set_queue_strategy :: "nat \<Rightarrow> string \<Rightarrow> (pbx, unit) act" where
  "set_queue_strategy key strategy = (\<lambda>d. (Inr (), d\<lparr>t_queues :=
     update_where (\<lambda>q. q_uuid q = key) (\<lambda>q. q\<lparr>q_strategy := Some strategy\<rparr>) (t_queues d)\<rparr>))"

text \<open>An agent no tier refers to is deleted.\<close>

definition drop_unreferenced :: "nat \<Rightarrow> (pbx, unit) act" where
  "drop_unreferenced agent_uuid = (\<lambda>d.
     (Inr (), if rowcount (\<lambda>t. tr_agent t = agent_uuid) (t_tiers d) = 0
              then d\<lparr>t_agents := delete_where (\<lambda>a. ag_uuid a = agent_uuid) (t_agents d)\<rparr>
              else d))"

definition delete_tier :: "v_tier \<Rightarrow> (pbx, unit) act" where
  "delete_tier t =
     then_act (\<lambda>d. (Inr (), d\<lparr>t_tiers := delete_where (\<lambda>s. tr_uuid s = tr_uuid t) (t_tiers d)\<rparr>))
       (drop_unreferenced (tr_agent t))"

section \<open>Commands to mod_callcenter\<close>

definition queue_at :: "string \<Rightarrow> string \<Rightarrow> string" where
  "queue_at number domain_name = number @ ''@'' @ domain_name"

definition queue_load :: "string \<Rightarrow> string \<Rightarrow> string" where
  "queue_load number domain_name = ''callcenter_config queue load '' @ queue_at number domain_name"

definition queue_unload :: "string \<Rightarrow> string \<Rightarrow> string" where
  "queue_unload number domain_name = ''callcenter_config queue unload '' @ queue_at number domain_name"

definition agent_commands :: "string \<Rightarrow> string \<Rightarrow> string list" where
  "agent_commands agent_uuid contact =
     [''callcenter_config agent add '' @ agent_uuid @ '' '' @ sq @ ''callback'' @ sq,
      ''callcenter_config agent set contact '' @ agent_uuid @ '' '' @ sq @ contact @ sq,
      ''callcenter_config agent set status '' @ agent_uuid @ '' '' @ sq @ ''Available (On Demand)'' @ sq]"

definition tier_command :: "string \<Rightarrow> string \<Rightarrow> string \<Rightarrow> int \<Rightarrow> int \<Rightarrow> string" where
  "tier_command queue_name domain_name agent_uuid level position =
     ''callcenter_config tier add '' @ queue_at queue_name domain_name @ '' '' @ agent_uuid
       @ '' '' @ int_str level @ '' '' @ int_str position"

section \<open>Provisioning a queue\<close>

text \<open>
  What the body of \<^verbatim>\<open>ensure_queue\<close> accumulates in its local variables: \<^verbatim>\<open>changed\<close>,
  \<^verbatim>\<open>runtime_reload\<close> and the list \<^verbatim>\<open>cmds\<close>.
\<close>

record progress =
  pg_changed :: bool
  pg_reload :: bool
  pg_cmds :: "string list"

definition no_progress :: progress where
  "no_progress = \<lparr>pg_changed = False, pg_reload = False, pg_cmds = []\<rparr>"

text \<open>The queue row: inserted, or its strategy updated.\<close>

definition ensure_queue_row ::
  "string \<Rightarrow> string \<Rightarrow> string \<Rightarrow> nat \<Rightarrow> (pbx, nat \<times> progress) act" where
  "ensure_queue_row domain_name number strategy u = (\<lambda>d.
     case first_where (queue_key u number) (t_queues d) of
       None \<Rightarrow>
         bind_act fresh (\<lambda>key. then_act (insert_queue
           \<lparr>q_uuid = key, q_domain = u, q_name = number, q_extension = number,
            q_strategy = Some strategy, q_moh_sound = Some ''$${hold_music}''\<rparr>)
           (ret (key, no_progress\<lparr>pg_changed := True, pg_cmds := [queue_load number domain_name]\<rparr>))) d
     | Some q \<Rightarrow>
         if q_strategy q \<noteq> Some strategy
         then then_act (set_queue_strategy (q_uuid q) strategy)
                (ret (q_uuid q, no_progress\<lparr>pg_changed := True, pg_reload := True\<rparr>)) d
         else ret (q_uuid q, no_progress) d)"

text \<open>The tiers of agents that are no longer wanted are deleted.\<close>

definition stale_tiers :: "nat \<Rightarrow> string list \<Rightarrow> pbx \<Rightarrow> v_tier list" where
  "stale_tiers queue_uuid agents d =
     filter (\<lambda>t. tr_queue t = queue_uuid \<and> tr_agent_name t \<notin> set agents) (t_tiers d)"

definition drop_stale_tiers :: "nat \<Rightarrow> string list \<Rightarrow> progress \<Rightarrow> (pbx, progress) act" where
  "drop_stale_tiers queue_uuid agents p = (\<lambda>d.
     let stale = stale_tiers queue_uuid agents d in
     then_act (for_each delete_tier stale)
       (ret (if stale \<noteq> [] then p\<lparr>pg_changed := True, pg_reload := True\<rparr> else p)) d)"

text \<open>The agent row of one extension.\<close>

definition ensure_agent ::
  "(nat \<Rightarrow> string) \<Rightarrow> string \<Rightarrow> nat \<Rightarrow> string \<Rightarrow> progress \<Rightarrow> (pbx, nat \<times> progress) act" where
  "ensure_agent us domain_name u ext p = (\<lambda>d.
     let contact = ''user/'' @ ext @ ''@'' @ domain_name in
     case first_where (agent_key u ext) (t_agents d) of
       None \<Rightarrow>
         bind_act fresh (\<lambda>key. then_act (insert_agent
           \<lparr>ag_uuid = key, ag_domain = u, ag_id = ext, ag_name = ext, ag_type = ''callback'',
            ag_contact = contact, ag_status = ''Available (On Demand)''\<rparr>)
           (ret (key, p\<lparr>pg_changed := True,
                        pg_cmds := pg_cmds p @ agent_commands (us key) contact\<rparr>))) d
     | Some a \<Rightarrow> ret (ag_uuid a, p) d)"

text \<open>
  One round of the loop over the wanted agents; \<open>existing\<close> are the agent names of the tiers
  the queue had before the loop.
\<close>

definition ensure_tier ::
  "(nat \<Rightarrow> string) \<Rightarrow> string \<Rightarrow> string \<Rightarrow> nat \<Rightarrow> nat \<Rightarrow> string set \<Rightarrow> string \<Rightarrow> progress
     \<Rightarrow> (pbx, progress) act" where
  "ensure_tier us domain_name number u queue_uuid existing ext p =
     bind_act (ensure_agent us domain_name u ext p) (\<lambda>(agent_uuid, p).
       if ext \<in> existing then ret p
       else bind_act fresh (\<lambda>key. then_act (insert_tier
         \<lparr>tr_uuid = key, tr_domain = u, tr_queue = queue_uuid, tr_agent = agent_uuid,
          tr_queue_name = number, tr_agent_name = ext, tr_level = 1, tr_position = 1\<rparr>)
         (ret (p\<lparr>pg_changed := True,
                 pg_cmds := pg_cmds p @ [tier_command number domain_name (us agent_uuid) 1 1]\<rparr>))))"

fun ensure_tiers ::
  "(nat \<Rightarrow> string) \<Rightarrow> string \<Rightarrow> string \<Rightarrow> nat \<Rightarrow> nat \<Rightarrow> string set \<Rightarrow> string list \<Rightarrow> progress
     \<Rightarrow> (pbx, progress) act" where
  "ensure_tiers us domain_name number u queue_uuid existing [] p = ret p"
| "ensure_tiers us domain_name number u queue_uuid existing (ext # exts) p =
     bind_act (ensure_tier us domain_name number u queue_uuid existing ext p)
       (ensure_tiers us domain_name number u queue_uuid existing exts)"

definition finish_queue :: "string \<Rightarrow> string \<Rightarrow> progress \<Rightarrow> string list" where
  "finish_queue domain_name number p =
     (if pg_reload p
      then queue_unload number domain_name # pg_cmds p @ [queue_load number domain_name]
      else pg_cmds p)"

text \<open>\<^verbatim>\<open>list(dict.fromkeys(agents))\<close>: the first occurrence of each.\<close>

definition dedupe :: "string list \<Rightarrow> string list" where
  "dedupe xs = rev (remdups (rev xs))"

text \<open>The transaction: whether anything changed, and the commands to send after it.\<close>

definition ensure_queue_body ::
  "(nat \<Rightarrow> string) \<Rightarrow> string \<Rightarrow> string \<Rightarrow> string list \<Rightarrow> string \<Rightarrow> (pbx, bool \<times> string list) act" where
  "ensure_queue_body us domain_name number agents strategy =
     bind_act (ensure_domain domain_name) (\<lambda>(u, _).
     bind_act (ensure_queue_row domain_name number strategy u) (\<lambda>(queue_uuid, p).
     bind_act (\<lambda>d. ret (tr_agent_name ` set (filter (\<lambda>t. tr_queue t = queue_uuid) (t_tiers d))) d)
       (\<lambda>existing.
     bind_act (drop_stale_tiers queue_uuid agents p) (\<lambda>p.
     bind_act (ensure_tiers us domain_name number u queue_uuid existing agents p) (\<lambda>p.
     bind_act (ensure_dialplan (dialplan_name ''queue'' domain_name number) number 53
                 (queue_xml domain_name number) (queue_tag domain_name)) (\<lambda>plan_changed.
       ret (pg_changed p \<or> plan_changed, finish_queue domain_name number p)))))))"

definition ensure_queue ::
  "string \<Rightarrow> string \<Rightarrow> string list \<Rightarrow> string \<Rightarrow> (world, string \<times> bool) act" where
  "ensure_queue domain_name number agents strategy =
     then_act (check_names domain_name number)
     (then_act (guard_act (agents \<noteq> []) (BadRequest ''Queue requires at least one agent''))
     (then_act (lift_res (check_each (\<lambda>a. require_dial_token a ''agent'') (dedupe agents)))
     (\<lambda>w. bind_act (transaction (Some ''FusionPBX queue insert failed'')
              (ensure_queue_body (uuid_text w) domain_name number (dedupe agents) strategy))
       (\<lambda>(changed, cmds).
          then_act (if changed then reload else ret ())
          (then_act (for_each send_command cmds)
            (ret (dialplan_name ''queue'' domain_name number, changed)))) w)))"

section \<open>Deleting, listing, resynchronising\<close>

definition delete_queue_rows :: "v_queue \<Rightarrow> (pbx, unit) act" where
  "delete_queue_rows q = (\<lambda>d.
     let agent_ids = map tr_agent (filter (\<lambda>t. tr_queue t = q_uuid q) (t_tiers d)) in
     for_each drop_unreferenced agent_ids
       (d\<lparr>t_tiers := delete_where (\<lambda>t. tr_queue t = q_uuid q) (t_tiers d),
          t_queues := delete_where (\<lambda>r. q_uuid r = q_uuid q) (t_queues d)\<rparr>))"

definition delete_queue_body :: "string \<Rightarrow> string \<Rightarrow> (pbx, bool) act" where
  "delete_queue_body domain_name number =
     bind_act (query_domain domain_name) (\<lambda>found. \<lambda>d.
       case found of
         None \<Rightarrow> (Inr False, d)
       | Some u \<Rightarrow>
           bind_act (case first_where (queue_key u number) (t_queues d) of
               None \<Rightarrow> ret False
             | Some q \<Rightarrow> then_act (delete_queue_rows q) (ret True)) (\<lambda>deleted.
           bind_act (delete_dialplan_row (dialplan_name ''queue'' domain_name number)) (\<lambda>plan_deleted.
             ret (deleted \<or> plan_deleted))) d)"

definition delete_queue :: "string \<Rightarrow> string \<Rightarrow> (world, bool) act" where
  "delete_queue domain_name number =
     then_act (check_names domain_name number)
     (bind_act (transaction None (delete_queue_body domain_name number)) (\<lambda>deleted.
        then_act (if deleted
                  then then_act reload (send_command (queue_unload number domain_name))
                  else ret ())
          (ret deleted)))"

text \<open>\<^verbatim>\<open>list_queues\<close> returns a set; here its elements in table order.\<close>

definition list_queues :: "string \<Rightarrow> (world, string list) act" where
  "list_queues domain_name =
     then_act (lift_res (require_domain domain_name)) (reading (\<lambda>d.
       bind_res (domain_uuid_for domain_name d) (\<lambda>found.
         case found of
           None \<Rightarrow> Inr []
         | Some u \<Rightarrow> Inr (remdups (map q_extension (filter (\<lambda>q. q_domain q = u) (t_queues d)))))))"

definition resync_commands :: "(nat \<Rightarrow> string) \<Rightarrow> string \<Rightarrow> nat \<Rightarrow> pbx \<Rightarrow> string list" where
  "resync_commands us domain_name u d =
     map (\<lambda>q. queue_load (q_extension q) domain_name) (filter (\<lambda>q. q_domain q = u) (t_queues d)) @
     concat (map (\<lambda>a. agent_commands (us (ag_uuid a)) (ag_contact a))
       (filter (\<lambda>a. ag_domain a = u) (t_agents d))) @
     map (\<lambda>t. tier_command (tr_queue_name t) domain_name (us (tr_agent t)) (tr_level t) (tr_position t))
       (filter (\<lambda>t. tr_domain t = u) (t_tiers d))"

definition resync_body ::
  "(nat \<Rightarrow> string) \<Rightarrow> string \<Rightarrow> pbx \<Rightarrow> ((nat \<times> nat) \<times> string list) res" where
  "resync_body us domain_name d =
     bind_res (domain_uuid_for domain_name d) (\<lambda>found.
       case found of
         None \<Rightarrow> Inr ((0, 0), [])
       | Some u \<Rightarrow> Inr ((rowcount (\<lambda>q. q_domain q = u) (t_queues d),
                          rowcount (\<lambda>a. ag_domain a = u) (t_agents d)),
                         resync_commands us domain_name u d))"

definition resync_queues :: "string \<Rightarrow> (world, nat \<times> nat) act" where
  "resync_queues domain_name =
     then_act (lift_res (require_domain domain_name))
     (\<lambda>w. bind_act (reading (resync_body (uuid_text w) domain_name)) (\<lambda>(counts, cmds).
        then_act (for_each send_command cmds) (ret counts)) w)"

end
