(* ===== verification/PbxClient.thy ===== *)
theory PbxClient
  imports PbxExtensions PbxQueues
begin

text \<open>
  What the FusionPBX client promises. The abstract state of one tenant (\<open>tenant\<close>) is what
  the PBX holds for its domain: the extensions with their display names, the voicemail boxes,
  the feature dialplans, the queues with strategy and agents, and the shared routing and
  voicemail settings it is served by. \<open>tenant_of\<close> reads it off the foreign database, \<open>pbx_inv\<close>
  is the well-formedness of that database and \<open>owned\<close> says that the dialplan rows named after
  a domain are the ones tagged with it. The lemmas show what every operation does to this state.
\<close>

section \<open>Well-formed databases\<close>

definition pbx_inv :: "pbx \<Rightarrow> bool" where
  "pbx_inv d \<longleftrightarrow>
     keyed dom_uuid (next_id d) (t_domains d) \<and> distinct (map dom_name (t_domains d)) \<and>
     keyed ext_uuid (next_id d) (t_extensions d) \<and>
     list_all (\<lambda>r. ext_domain r < next_id d) (t_extensions d) \<and>
     keyed vm_uuid (next_id d) (t_voicemails d) \<and>
     list_all (\<lambda>r. vm_domain r < next_id d) (t_voicemails d) \<and>
     keyed dp_uuid (next_id d) (t_dialplans d) \<and>
     keyed ds_uuid (next_id d) (t_settings d) \<and>
     keyed q_uuid (next_id d) (t_queues d) \<and>
     list_all (\<lambda>r. q_domain r < next_id d) (t_queues d) \<and>
     distinct (map (\<lambda>q. (q_domain q, q_extension q)) (t_queues d)) \<and>
     keyed ag_uuid (next_id d) (t_agents d) \<and>
     list_all (\<lambda>r. ag_domain r < next_id d) (t_agents d) \<and>
     keyed tr_uuid (next_id d) (t_tiers d) \<and>
     list_all (\<lambda>t. list_ex (\<lambda>q. q_uuid q = tr_queue t \<and> q_domain q = tr_domain t) (t_queues d)) (t_tiers d) \<and>
     list_all (\<lambda>t. list_ex (\<lambda>a. ag_uuid a = tr_agent t \<and> ag_domain a = tr_domain t \<and>
       ag_id a = tr_agent_name t) (t_agents d)) (t_tiers d)"

text \<open>The names of the dialplans of a kind that belong to a domain, for numbers without hyphen.\<close>

definition plan_name_of :: "string \<Rightarrow> string \<Rightarrow> string \<Rightarrow> bool" where
  "plan_name_of kind domain_name s \<longleftrightarrow>
     (\<exists>n. CHR ''-'' \<notin> set n \<and> s = dialplan_name kind domain_name n)"

definition feature_name_of :: "string \<Rightarrow> string \<Rightarrow> bool" where
  "feature_name_of domain_name s \<longleftrightarrow>
     plan_name_of ''conference'' domain_name s \<or> plan_name_of ''ringgroup'' domain_name s \<or>
     plan_name_of ''ivr'' domain_name s"

definition row_owned :: "string \<Rightarrow> v_dialplan \<Rightarrow> bool" where
  "row_owned domain_name r \<longleftrightarrow>
     (dp_context r = ''public'' \<longrightarrow>
       (dp_description r = Some (feature_tag domain_name) \<longleftrightarrow> feature_name_of domain_name (dp_name r)) \<and>
       (dp_description r = Some (queue_tag domain_name) \<longleftrightarrow> plan_name_of ''queue'' domain_name (dp_name r)))"

definition owned :: "string \<Rightarrow> pbx \<Rightarrow> bool" where
  "owned domain_name d \<longleftrightarrow> list_all (row_owned domain_name) (t_dialplans d)"

section \<open>The abstract state of a tenant\<close>

type_synonym display_names = "string option \<times> string option \<times> string option"

record tenant =
  x_exists :: bool
  x_exts :: "string \<Rightarrow> display_names option"
  x_boxes :: "string set"
  x_features :: "string \<Rightarrow> string option option"
  x_queues :: "string \<Rightarrow> (string option \<times> string set) option"
  x_queue_plans :: "string \<Rightarrow> string option option"
  x_routing :: "string option option"
  x_dir :: "string option option"

definition domain_of :: "string \<Rightarrow> pbx \<Rightarrow> nat option" where
  "domain_of name d = map_option dom_uuid (first_where (\<lambda>r. dom_name r = name) (t_domains d))"

definition ext_names :: "v_extension \<Rightarrow> display_names" where
  "ext_names r = (ext_effective_name r, ext_outbound_name r, ext_first_name r)"

definition ext_view :: "nat option \<Rightarrow> v_extension list \<Rightarrow> string \<Rightarrow> display_names option" where
  "ext_view u rows = (case u of None \<Rightarrow> Map.empty | Some u \<Rightarrow> view_of ext_names (extension_key u) rows)"

definition box_view :: "nat option \<Rightarrow> v_voicemail list \<Rightarrow> string set" where
  "box_view u rows = (case u of None \<Rightarrow> {} | Some u \<Rightarrow> dom (view_of id (voicemail_key u) rows))"

definition plan_key :: "string \<Rightarrow> string \<Rightarrow> v_dialplan \<Rightarrow> bool" where
  "plan_key tag name r \<longleftrightarrow> public_named name r \<and> dp_description r = Some tag"

definition plan_view :: "string \<Rightarrow> v_dialplan list \<Rightarrow> string \<Rightarrow> string option option" where
  "plan_view tag rows = view_of dp_xml (plan_key tag) rows"

definition queue_agents :: "v_tier list \<Rightarrow> nat \<Rightarrow> string set" where
  "queue_agents tiers queue_uuid = tr_agent_name ` set (filter (\<lambda>t. tr_queue t = queue_uuid) tiers)"

definition queue_view ::
  "nat option \<Rightarrow> v_tier list \<Rightarrow> v_queue list \<Rightarrow> string \<Rightarrow> (string option \<times> string set) option" where
  "queue_view u tiers rows = (case u of None \<Rightarrow> Map.empty
     | Some u \<Rightarrow> view_of (\<lambda>q. (q_strategy q, queue_agents tiers (q_uuid q))) (queue_key u) rows)"

definition routing_view :: "v_dialplan list \<Rightarrow> string option option" where
  "routing_view rows = map_option dp_xml (first_where (public_named routing_name) rows)"

definition dir_view :: "v_default_setting list \<Rightarrow> string option option" where
  "dir_view rows = map_option ds_value (first_where is_voicemail_dir rows)"

definition tenant_of :: "string \<Rightarrow> pbx \<Rightarrow> tenant" where
  "tenant_of D d =
     \<lparr>x_exists = (domain_of D d \<noteq> None),
      x_exts = ext_view (domain_of D d) (t_extensions d),
      x_boxes = box_view (domain_of D d) (t_voicemails d),
      x_features = plan_view (feature_tag D) (t_dialplans d),
      x_queues = queue_view (domain_of D d) (t_tiers d) (t_queues d),
      x_queue_plans = plan_view (queue_tag D) (t_dialplans d),
      x_routing = routing_view (t_dialplans d),
      x_dir = dir_view (t_settings d)\<rparr>"

text \<open>What belongs to the tenant alone, without the shared rows.\<close>

definition private_of :: "string \<Rightarrow> pbx \<Rightarrow> tenant" where
  "private_of D d = (tenant_of D d)\<lparr>x_routing := None, x_dir := None\<rparr>"

section \<open>Names are unambiguous\<close>

lemma split_first:
  "a @ c # s = b @ c # t \<Longrightarrow> c \<notin> set a \<Longrightarrow> c \<notin> set b \<Longrightarrow> a = b \<and> s = t"
proof (induction a arbitrary: b)
  case Nil
  then show ?case by (cases b) auto
next
  case (Cons x a)
  then show ?case by (cases b) auto
qed

lemma split_last:
  assumes "s @ c # a = t @ c # b" and "c \<notin> set a" and "c \<notin> set b"
  shows "s = t \<and> a = b"
proof -
  from assms(1) have "rev a @ c # rev s = rev b @ c # rev t"
    by (metis append.assoc append_Cons append_Nil rev.simps(2) rev_append)
  from split_first [OF this] assms(2,3) show ?thesis by simp
qed

text \<open>
  Two dialplan names agree only when kind, domain and number agree, as long as the kinds and
  numbers hold no hyphen.
\<close>

lemma dialplan_name_inj:
  assumes "dialplan_name k D n = dialplan_name k' D' n'"
    and "CHR ''-'' \<notin> set k" and "CHR ''-'' \<notin> set k'" and "CHR ''-'' \<notin> set n" and "CHR ''-'' \<notin> set n'"
  shows "k = k' \<and> D = D' \<and> n = n'"
proof -
  from assms(1) have "k @ CHR ''-'' # (D @ CHR ''-'' # n) = k' @ CHR ''-'' # (D' @ CHR ''-'' # n')"
    by (simp add: dialplan_name_def)
  from split_first [OF this assms(2,3)] have "k = k'" and "D @ CHR ''-'' # n = D' @ CHR ''-'' # n'"
    by auto
  with split_last [OF this(2) assms(4,5)] show ?thesis by simp
qed

lemma tags_inj [simp]:
  "feature_tag D = feature_tag E \<longleftrightarrow> D = E" "queue_tag D = queue_tag E \<longleftrightarrow> D = E"
  "feature_tag D \<noteq> queue_tag E" "queue_tag D \<noteq> feature_tag E"
  "feature_tag D \<noteq> ''dotmac-voice:routing''" "queue_tag D \<noteq> ''dotmac-voice:routing''"
  "''dotmac-voice:routing'' \<noteq> feature_tag D" "''dotmac-voice:routing'' \<noteq> queue_tag D"
  by (simp_all add: feature_tag_def queue_tag_def)

lemma queue_not_feature [simp]:
  "plan_name_of ''queue'' D s \<Longrightarrow> \<not> feature_name_of E s"
  by (auto simp: feature_name_of_def plan_name_of_def dialplan_name_def)

lemma routing_not_plan [simp]:
  "\<not> feature_name_of D routing_name" "\<not> plan_name_of ''queue'' D routing_name"
  by (auto simp: feature_name_of_def plan_name_of_def dialplan_name_def routing_name_def)

lemma plan_name_of_inj: "plan_name_of k D s \<Longrightarrow> plan_name_of k E s \<Longrightarrow> CHR ''-'' \<notin> set k \<Longrightarrow> D = E"
  unfolding plan_name_of_def by (metis dialplan_name_inj)

lemma feature_name_of_inj: "feature_name_of D s \<Longrightarrow> feature_name_of E s \<Longrightarrow> D = E"
  unfolding feature_name_of_def plan_name_of_def
  by (elim disjE exE conjE) (auto dest: dialplan_name_inj)

lemma queue_name_of_inj: "plan_name_of ''queue'' D s \<Longrightarrow> plan_name_of ''queue'' E s \<Longrightarrow> D = E"
  by (rule plan_name_of_inj, assumption, assumption) simp

section \<open>Frames of the views\<close>

lemma domain_of_cong [simp]:
  "domain_of E (d\<lparr>t_extensions := xs\<rparr>) = domain_of E d"
  "domain_of E (d\<lparr>t_voicemails := vs\<rparr>) = domain_of E d"
  "domain_of E (d\<lparr>t_dialplans := ps\<rparr>) = domain_of E d"
  "domain_of E (d\<lparr>t_settings := ss\<rparr>) = domain_of E d"
  "domain_of E (d\<lparr>t_queues := qs\<rparr>) = domain_of E d"
  "domain_of E (d\<lparr>t_agents := as\<rparr>) = domain_of E d"
  "domain_of E (d\<lparr>t_tiers := ts\<rparr>) = domain_of E d"
  "domain_of E (d\<lparr>next_id := n\<rparr>) = domain_of E d"
  by (simp_all add: domain_of_def)

lemma tenant_of_update [simp]:
  "tenant_of E (d\<lparr>t_extensions := xs\<rparr>) = (tenant_of E d)\<lparr>x_exts := ext_view (domain_of E d) xs\<rparr>"
  "tenant_of E (d\<lparr>t_voicemails := vs\<rparr>) = (tenant_of E d)\<lparr>x_boxes := box_view (domain_of E d) vs\<rparr>"
  "tenant_of E (d\<lparr>t_dialplans := ps\<rparr>) = (tenant_of E d)\<lparr>x_features := plan_view (feature_tag E) ps,
     x_queue_plans := plan_view (queue_tag E) ps, x_routing := routing_view ps\<rparr>"
  "tenant_of E (d\<lparr>t_settings := ss\<rparr>) = (tenant_of E d)\<lparr>x_dir := dir_view ss\<rparr>"
  "tenant_of E (d\<lparr>t_queues := qs\<rparr>) = (tenant_of E d)\<lparr>x_queues := queue_view (domain_of E d) (t_tiers d) qs\<rparr>"
  "tenant_of E (d\<lparr>t_tiers := ts\<rparr>) = (tenant_of E d)\<lparr>x_queues := queue_view (domain_of E d) ts (t_queues d)\<rparr>"
  "tenant_of E (d\<lparr>t_agents := as\<rparr>) = tenant_of E d"
  "tenant_of E (d\<lparr>next_id := n\<rparr>) = tenant_of E d"
  by (simp_all add: tenant_of_def)

lemma tenant_of_fields [simp]:
  "x_exists (tenant_of D d) = (domain_of D d \<noteq> None)"
  "x_exts (tenant_of D d) = ext_view (domain_of D d) (t_extensions d)"
  "x_boxes (tenant_of D d) = box_view (domain_of D d) (t_voicemails d)"
  "x_features (tenant_of D d) = plan_view (feature_tag D) (t_dialplans d)"
  "x_queues (tenant_of D d) = queue_view (domain_of D d) (t_tiers d) (t_queues d)"
  "x_queue_plans (tenant_of D d) = plan_view (queue_tag D) (t_dialplans d)"
  "x_routing (tenant_of D d) = routing_view (t_dialplans d)"
  "x_dir (tenant_of D d) = dir_view (t_settings d)"
  by (simp_all add: tenant_of_def)

lemma owned_update [simp]:
  "owned E (d\<lparr>t_domains := ds\<rparr>) = owned E d"
  "owned E (d\<lparr>t_extensions := xs\<rparr>) = owned E d"
  "owned E (d\<lparr>t_voicemails := vs\<rparr>) = owned E d"
  "owned E (d\<lparr>t_settings := ss\<rparr>) = owned E d"
  "owned E (d\<lparr>t_queues := qs\<rparr>) = owned E d"
  "owned E (d\<lparr>t_agents := as\<rparr>) = owned E d"
  "owned E (d\<lparr>t_tiers := ts\<rparr>) = owned E d"
  "owned E (d\<lparr>next_id := n\<rparr>) = owned E d"
  by (simp_all add: owned_def)

section \<open>Domains\<close>

lemma domain_uuid_for_inv:
  assumes "pbx_inv d"
  shows "domain_uuid_for D d = Inr (domain_of D d)"
proof -
  have "length (filter (\<lambda>r. dom_name r = D) (t_domains d)) \<le> 1"
    using assms by (intro filter_key_le_1) (simp add: pbx_inv_def)
  then show ?thesis
    by (auto simp: domain_uuid_for_def domain_of_def first_where_def split: list.split)
qed

lemma domain_of_mem: "domain_of D d = Some u \<Longrightarrow> \<exists>r\<in>set (t_domains d). dom_name r = D \<and> dom_uuid r = u"
  by (auto simp: domain_of_def dest: first_where_Some)

lemma domain_of_inj:
  assumes "pbx_inv d" and "domain_of D d = Some u" and "domain_of E d = Some u"
  shows "D = E"
  using domain_of_mem [OF assms(2)] domain_of_mem [OF assms(3)] assms(1)
  by (auto simp: pbx_inv_def dest: keyed_unique)

lemma domain_of_bound: "pbx_inv d \<Longrightarrow> domain_of D d = Some u \<Longrightarrow> u < next_id d"
  using domain_of_mem [of D d u] by (auto simp: pbx_inv_def keyed_def)

lemma empty_views:
  assumes "pbx_inv d" and "\<not> u < next_id d"
  shows "ext_view (Some u) (t_extensions d) = Map.empty"
    and "box_view (Some u) (t_voicemails d) = {}"
    and "queue_view (Some u) (t_tiers d) (t_queues d) = Map.empty"
  using assms
  by (auto simp: ext_view_def box_view_def queue_view_def fun_eq_iff view_of_None view_of_dom
      extension_key_def voicemail_key_def queue_key_def pbx_inv_def list_all_iff)

text \<open>
  \<^verbatim>\<open>_ensure_domain\<close> finds or makes the domain's row and changes no view but the domain's
  own existence; when the row is there it changes nothing.
\<close>

lemma ensure_domain_ok:
  assumes inv: "pbx_inv d"
  shows "\<exists>u created d'. ensure_domain D d = (Inr (u, created), d') \<and> domain_of D d' = Some u \<and>
    pbx_inv d' \<and> (\<forall>E. owned E d' = owned E d) \<and>
    tenant_of D d' = (tenant_of D d)\<lparr>x_exists := True\<rparr> \<and>
    (\<forall>E. E \<noteq> D \<longrightarrow> tenant_of E d' = tenant_of E d) \<and>
    (x_exists (tenant_of D d) \<longrightarrow> d' = d \<and> \<not> created)"
proof (cases "domain_of D d")
  case (Some u)
  then have "ensure_domain D d = (Inr (u, False), d)"
    by (simp add: ensure_domain_def query_domain_def bind_act_def domain_uuid_for_inv [OF inv])
  with Some inv show ?thesis
    by (intro exI [of _ u] exI [of _ False] exI [of _ d]) (simp add: tenant_of_def)
next
  case None
  let ?r = "\<lparr>dom_uuid = next_id d, dom_name = D, dom_enabled = True\<rparr>"
  let ?d = "d\<lparr>next_id := Suc (next_id d), t_domains := t_domains d @ [?r]\<rparr>"
  have e: "ensure_domain D d = (Inr (next_id d, True), ?d)"
    by (simp add: ensure_domain_def query_domain_def insert_domain_def fresh_def bind_act_def
        then_act_def domain_uuid_for_inv [OF inv] None)
  have new: "\<forall>r\<in>set (t_domains d). dom_name r \<noteq> D"
    using None by (simp add: domain_of_def first_where_None)
  have dom: "domain_of E ?d = (if E = D then Some (next_id d) else domain_of E d)" for E
    using None by (auto simp: domain_of_def split: option.split)
  have "pbx_inv ?d"
    using inv new by (auto simp: pbx_inv_def list_all_iff less_Suc_eq intro: keyed_intros)
  moreover have "tenant_of D ?d = (tenant_of D d)\<lparr>x_exists := True\<rparr>"
    using empty_views [OF inv, of "next_id d"] None
    by (simp add: tenant_of_def dom) (simp add: ext_view_def box_view_def queue_view_def)
  moreover have "tenant_of E ?d = tenant_of E d" if "E \<noteq> D" for E
    using that by (simp add: tenant_of_def dom)
  ultimately show ?thesis using e None
    by (intro exI [of _ "next_id d"] exI [of _ True] exI [of _ ?d]) (simp add: dom)
qed

section \<open>Contracts\<close>

text \<open>
  \<open>sound D w\<close>: the foreign database is well formed, the dialplans named after \<open>D\<close> are its
  own, and no constraint outside the model rejects a statement. Outages are allowed.

  \<open>contract D pre m f post\<close>: from such a world whose tenant state satisfies \<open>pre\<close>, the
  operation \<open>m\<close> either returns, has done exactly \<open>f\<close> to the tenant and nothing to what belongs
  to other tenants, and is silent (no write, no command) when \<open>f\<close> has nothing to do; or it
  fails because the database is unreachable, and then it has changed nothing.
\<close>

definition tame :: "world \<Rightarrow> bool" where
  "tame w \<longleftrightarrow> (\<forall>n. plan w n \<noteq> DbIntegrity)"

definition sound :: "string \<Rightarrow> world \<Rightarrow> bool" where
  "sound D w \<longleftrightarrow> pbx_inv (db w) \<and> owned D (db w) \<and> tame w"

definition untouched :: "string \<Rightarrow> pbx \<Rightarrow> pbx \<Rightarrow> bool" where
  "untouched D d d' \<longleftrightarrow>
     (\<forall>E. E \<noteq> D \<longrightarrow> owned E d \<longrightarrow> owned E d' \<and> private_of E d' = private_of E d)"

definition body_contract ::
  "string \<Rightarrow> (tenant \<Rightarrow> bool) \<Rightarrow> (pbx, 'a) act \<Rightarrow> (tenant \<Rightarrow> tenant) \<Rightarrow> ('a \<Rightarrow> bool) \<Rightarrow> bool" where
  "body_contract D pre body f silent \<longleftrightarrow> (\<forall>d. pbx_inv d \<longrightarrow> owned D d \<longrightarrow> pre (tenant_of D d) \<longrightarrow>
     (\<exists>r d'. body d = (Inr r, d') \<and> pbx_inv d' \<and> owned D d' \<and>
        tenant_of D d' = f (tenant_of D d) \<and> untouched D d d' \<and>
        (f (tenant_of D d) = tenant_of D d \<longrightarrow> d' = d \<and> silent r)))"

definition contract ::
  "string \<Rightarrow> (tenant \<Rightarrow> bool) \<Rightarrow> (world, 'a) act \<Rightarrow> (tenant \<Rightarrow> tenant) \<Rightarrow> ('a \<Rightarrow> tenant \<Rightarrow> bool) \<Rightarrow> bool" where
  "contract D pre m f post \<longleftrightarrow> (\<forall>w. sound D w \<longrightarrow> pre (tenant_of D (db w)) \<longrightarrow>
     (\<exists>w'. sound D w' \<and> plan w' = plan w \<and>
       ((\<exists>r. m w = (Inr r, w') \<and> tenant_of D (db w') = f (tenant_of D (db w)) \<and>
           untouched D (db w) (db w') \<and> post r (tenant_of D (db w)) \<and>
           (f (tenant_of D (db w)) = tenant_of D (db w) \<longrightarrow>
             db w' = db w \<and> effects w' = effects w)) \<or>
        (m w = (Inl unreachable, w') \<and> \<not> all_up w \<and> db w' = db w \<and> effects w' = effects w))))"

lemma untouched_refl [simp]: "untouched D d d"
  by (simp add: untouched_def)

lemma untouched_trans: "untouched D d d' \<Longrightarrow> untouched D d' d'' \<Longrightarrow> untouched D d d''"
  by (simp add: untouched_def)

lemma tenant_untouched:
  "(\<And>E. E \<noteq> D \<Longrightarrow> owned E d' = owned E d \<and> tenant_of E d' = tenant_of E d) \<Longrightarrow> untouched D d d'"
  by (simp add: untouched_def private_of_def)

text \<open>An operation that writes and reports whether it wrote inherits its body's contract.\<close>

lemma write_op_contract:
  assumes b: "body_contract D pre body f (\<lambda>p. \<not> snd p)"
  shows "contract D pre (write_op what body) f (\<lambda>_ _. True)"
  unfolding contract_def
proof (intro allI impI)
  fix w assume s: "sound D w" and p: "pre (tenant_of D (db w))"
  let ?w1 = "w\<lparr>txno := Suc (txno w)\<rparr>"
  from s p b obtain r wrote d' where body: "body (db w) = (Inr (r, wrote), d')"
    and inv: "pbx_inv d'" "owned D d'" and t: "tenant_of D d' = f (tenant_of D (db w))"
    and u: "untouched D (db w) d'"
    and q: "f (tenant_of D (db w)) = tenant_of D (db w) \<longrightarrow> d' = db w \<and> \<not> wrote"
    unfolding body_contract_def sound_def by (fastforce split: prod.splits)
  show "\<exists>w'. sound D w' \<and> plan w' = plan w \<and>
       ((\<exists>r. write_op what body w = (Inr r, w') \<and> tenant_of D (db w') = f (tenant_of D (db w)) \<and>
           untouched D (db w) (db w') \<and> True \<and>
           (f (tenant_of D (db w)) = tenant_of D (db w) \<longrightarrow>
             db w' = db w \<and> effects w' = effects w)) \<or>
        (write_op what body w = (Inl unreachable, w') \<and> \<not> all_up w \<and> db w' = db w \<and>
          effects w' = effects w))"
  proof (cases "plan w (txno w)")
    case DbOk
    let ?w' = "if wrote then ?w1\<lparr>db := d', effects := effects w @ [Reload]\<rparr> else ?w1\<lparr>db := d'\<rparr>"
    have "write_op what body w = (Inr r, ?w')"
      by (simp add: write_op_def transaction_def Let_def bind_act_def then_act_def DbOk body
          reload_def)
    moreover have "sound D ?w'" using s inv by (simp add: sound_def tame_def)
    ultimately show ?thesis using t u q by (intro exI [of _ ?w']) auto
  next
    case DbUnreachable
    have "write_op what body w = (Inl unreachable, ?w1)"
      by (simp add: write_op_def transaction_def Let_def bind_act_def DbUnreachable)
    moreover have "sound D ?w1" using s by (simp add: sound_def tame_def)
    moreover have "\<not> all_up w" using DbUnreachable by (auto simp: all_up_def)
    ultimately show ?thesis by (intro exI [of _ ?w1]) auto
  next
    case DbIntegrity
    with s show ?thesis by (simp add: sound_def tame_def)
  qed
qed

lemma reading_contract:
  assumes "\<And>d. pbx_inv d \<Longrightarrow> owned D d \<Longrightarrow> pre (tenant_of D d) \<Longrightarrow>
    \<exists>r. query d = Inr r \<and> post r (tenant_of D d)"
  shows "contract D pre (reading query) (\<lambda>t. t) post"
  unfolding contract_def
proof (intro allI impI)
  fix w assume s: "sound D w" and p: "pre (tenant_of D (db w))"
  let ?w1 = "w\<lparr>txno := Suc (txno w)\<rparr>"
  from s p assms obtain r where q: "query (db w) = Inr r" and r: "post r (tenant_of D (db w))"
    unfolding sound_def by blast
  have "sound D ?w1" using s by (simp add: sound_def tame_def)
  then show "\<exists>w'. sound D w' \<and> plan w' = plan w \<and>
       ((\<exists>r. reading query w = (Inr r, w') \<and> tenant_of D (db w') = tenant_of D (db w) \<and>
           untouched D (db w) (db w') \<and> post r (tenant_of D (db w)) \<and>
           (tenant_of D (db w) = tenant_of D (db w) \<longrightarrow>
             db w' = db w \<and> effects w' = effects w)) \<or>
        (reading query w = (Inl unreachable, w') \<and> \<not> all_up w \<and> db w' = db w \<and>
          effects w' = effects w))"
    using q r by (intro exI [of _ ?w1])
      (cases "plan w (txno w)", auto simp: reading_def Let_def all_up_def)
qed

text \<open>Guards that pass do not show.\<close>

lemma contract_guard:
  "contract D pre m f post \<Longrightarrow> r = Inr () \<Longrightarrow> contract D pre (then_act (lift_res r) m) f post"
  by (simp add: contract_def then_act_def bind_act_def)

lemma contract_check_names:
  "contract D pre m f post \<Longrightarrow> valid_domain D \<Longrightarrow> valid_token n \<Longrightarrow>
    contract D pre (then_act (check_names D n) m) f post"
  by (simp add: contract_def then_act_def bind_act_def check_names_def require_domain_def
      require_dial_token_def)

lemma contract_weaken:
  "contract D pre m f post \<Longrightarrow> (\<And>r t. post r t \<Longrightarrow> post' r t) \<Longrightarrow> contract D pre m f post'"
  unfolding contract_def by meson

text \<open>A body that first ensures the domain does its own part on a tenant that exists.\<close>

lemma ensure_domain_bind:
  assumes k: "\<And>u c d1. pbx_inv d1 \<Longrightarrow> owned D d1 \<Longrightarrow> domain_of D d1 = Some u \<Longrightarrow>
      \<exists>r d'. k (u, c) d1 = (Inr r, d') \<and> pbx_inv d' \<and> owned D d' \<and>
        tenant_of D d' = g (tenant_of D d1) \<and> untouched D d1 d' \<and>
        (g (tenant_of D d1) = tenant_of D d1 \<longrightarrow> d' = d1 \<and> silent r)"
    and g: "\<And>t. x_exists (g t) = x_exists t"
  shows "body_contract D (\<lambda>_. True) (bind_act (ensure_domain D) k)
    (\<lambda>t. g (t\<lparr>x_exists := True\<rparr>)) silent"
  unfolding body_contract_def
proof (intro allI impI)
  fix d assume inv: "pbx_inv d" and own: "owned D d"
  from ensure_domain_ok [OF inv] obtain u c d1 where e: "ensure_domain D d = (Inr (u, c), d1)"
    and u: "domain_of D d1 = Some u" and inv1: "pbx_inv d1" and owns: "\<forall>E. owned E d1 = owned E d"
    and t1: "tenant_of D d1 = (tenant_of D d)\<lparr>x_exists := True\<rparr>"
    and o: "\<And>E. E \<noteq> D \<Longrightarrow> tenant_of E d1 = tenant_of E d"
    and same: "x_exists (tenant_of D d) \<longrightarrow> d1 = d"
    by metis
  from own owns have own1: "owned D d1" by simp
  from k [OF inv1 own1 u] obtain r d' where r: "k (u, c) d1 = (Inr r, d')" and "pbx_inv d'"
    and "owned D d'" and t': "tenant_of D d' = g (tenant_of D d1)" and un: "untouched D d1 d'"
    and q: "g (tenant_of D d1) = tenant_of D d1 \<longrightarrow> d' = d1 \<and> silent r"
    by blast
  moreover have "d' = d \<and> silent r" if "g ((tenant_of D d)\<lparr>x_exists := True\<rparr>) = tenant_of D d"
  proof -
    from that have "x_exists (g ((tenant_of D d)\<lparr>x_exists := True\<rparr>)) = x_exists (tenant_of D d)"
      by simp
    then have "x_exists (tenant_of D d)" by (simp add: g)
    with same have "d1 = d" by simp
    moreover from that t1 \<open>d1 = d\<close> have "g (tenant_of D d1) = tenant_of D d1" by simp
    ultimately show ?thesis using q by simp
  qed
  moreover have "untouched D d d'"
    using untouched_trans [OF tenant_untouched un] o owns by blast
  ultimately show "\<exists>r d'. bind_act (ensure_domain D) k d = (Inr r, d') \<and> pbx_inv d' \<and> owned D d' \<and>
      tenant_of D d' = g ((tenant_of D d)\<lparr>x_exists := True\<rparr>) \<and> untouched D d d' \<and>
      (g ((tenant_of D d)\<lparr>x_exists := True\<rparr>) = tenant_of D d \<longrightarrow> d' = d \<and> silent r)"
    using e t1 by (intro exI [of _ r] exI [of _ d']) (simp add: bind_act_def)
qed

text \<open>
  A domain's rows are its own: what is written under the key of one domain shows in no other.
\<close>

lemma untouched_at:
  assumes inv: "pbx_inv d" and u: "domain_of D d = Some u" and doms: "t_domains d' = t_domains d"
    and "\<And>v. v \<noteq> Some u \<Longrightarrow> ext_view v (t_extensions d') = ext_view v (t_extensions d)"
    and "\<And>v. v \<noteq> Some u \<Longrightarrow> box_view v (t_voicemails d') = box_view v (t_voicemails d)"
    and "\<And>v. v \<noteq> Some u \<Longrightarrow> queue_view v (t_tiers d') (t_queues d') = queue_view v (t_tiers d) (t_queues d)"
    and "\<And>E. E \<noteq> D \<Longrightarrow> owned E d \<Longrightarrow> owned E d' \<and>
      plan_view (feature_tag E) (t_dialplans d') = plan_view (feature_tag E) (t_dialplans d) \<and>
      plan_view (queue_tag E) (t_dialplans d') = plan_view (queue_tag E) (t_dialplans d)"
  shows "untouched D d d'"
  unfolding untouched_def private_of_def
proof (intro allI impI)
  fix E assume E: "E \<noteq> D" and own: "owned E d"
  from E have "domain_of E d \<noteq> Some u" using domain_of_inj [OF inv u] by blast
  moreover have "domain_of E d' = domain_of E d" by (simp add: domain_of_def doms)
  ultimately show "owned E d' \<and> (tenant_of E d')\<lparr>x_routing := None, x_dir := None\<rparr> =
      (tenant_of E d)\<lparr>x_routing := None, x_dir := None\<rparr>"
    using assms(4-7) E own by (simp add: tenant_of_def)
qed

section \<open>Extensions and voicemail\<close>

definition put_extension :: "string \<Rightarrow> string \<Rightarrow> tenant \<Rightarrow> tenant" where
  "put_extension number dn t =
     t\<lparr>x_exts := (x_exts t)(number \<mapsto> (Some dn, Some dn, Some dn))\<rparr>"

lemma put_extension_idem:
  "put_extension number dn t = t \<longleftrightarrow> x_exts t number = Some (Some dn, Some dn, Some dn)"
  by (cases t) (auto simp: put_extension_def fun_upd_idem_iff)

lemma ext_view_Some: "ext_view (Some u) = view_of ext_names (extension_key u)"
  by (simp add: ext_view_def fun_eq_iff)

lemma ext_view_frame:
  "(\<And>r. r \<in> set xs \<Longrightarrow> P r \<Longrightarrow> ext_domain r = u) \<Longrightarrow> v \<noteq> Some u \<Longrightarrow>
     (\<And>r. ext_domain (f r) = ext_domain r \<and> ext_number (f r) = ext_number r) \<Longrightarrow>
     ext_view v (update_where P f xs) = ext_view v xs"
  "(\<And>r. r \<in> set xs \<Longrightarrow> P r \<Longrightarrow> ext_domain r = u) \<Longrightarrow> v \<noteq> Some u \<Longrightarrow>
     ext_view v (delete_where P xs) = ext_view v xs"
  "ext_domain r = u \<Longrightarrow> v \<noteq> Some u \<Longrightarrow> ext_view v (xs @ [r]) = ext_view v xs"
  by (auto simp: ext_view_def extension_key_def split: option.split
      intro!: view_of_update_other view_of_delete_other view_of_insert_other)

lemma upsert_extension_body:
  "body_contract D (\<lambda>_. True) (upsert_extension D number secret dn)
     (\<lambda>t. put_extension number dn (t\<lparr>x_exists := True\<rparr>)) (\<lambda>p. \<not> snd p)"
  unfolding upsert_extension_def
proof (rule ensure_domain_bind [where g = "put_extension number dn"], goal_cases)
  case (1 u c d)
  note inv = 1(1) and own = 1(2) and u = 1(3)
  let ?V = "view_of ext_names (extension_key u)"
  from inv have keyed: "distinct (map ext_uuid (t_extensions d))" by (simp add: pbx_inv_def keyed_def)
  show ?case
  proof (cases "first_where (extension_key u number) (t_extensions d)")
    case None
    let ?r = "new_extension (next_id d) u D number secret dn"
    let ?d = "d\<lparr>next_id := Suc (next_id d), t_extensions := t_extensions d @ [?r]\<rparr>"
    have "pbx_inv ?d"
      using inv domain_of_bound [OF inv u]
      by (auto simp: pbx_inv_def list_all_iff new_extension_def less_Suc_eq intro: keyed_intros)
    moreover have "?V (t_extensions d @ [?r]) =
        (?V (t_extensions d))(number \<mapsto> (Some dn, Some dn, Some dn))"
      by (subst view_of_insert [where K = "extension_key u", OF None])
        (simp_all add: extension_key_def new_extension_def ext_names_def)
    moreover have "untouched D d ?d"
      by (rule untouched_at [OF inv u]) (simp_all add: ext_view_frame(3) new_extension_def)
    moreover have "?V (t_extensions d) number = None"
      using None by (simp add: view_of_def)
    ultimately show ?thesis
      using own u None
      by (intro exI [of _ "(\<lparr>res_number = number, res_uuid = next_id d, res_password = Some secret\<rparr>, True)"]
            exI [of _ ?d])
        (simp add: insert_extension_def fresh_def bind_act_def then_act_def put_extension_idem
          ext_view_Some, simp add: put_extension_def ext_view_Some)
  next
    case (Some r)
    then have rm: "r \<in> set (t_extensions d)" "extension_key u number r"
      by (auto dest: first_where_Some)
    let ?g = "\<lambda>r. r\<lparr>ext_effective_name := Some dn, ext_outbound_name := Some dn, ext_first_name := Some dn\<rparr>"
    let ?xs = "update_where (\<lambda>s. ext_uuid s = ext_uuid r) ?g (t_extensions d)"
    let ?d = "if names_differ dn r then d\<lparr>t_extensions := ?xs\<rparr> else d"
    have one: "s = r" if "s \<in> set (t_extensions d)" "ext_uuid s = ext_uuid r" for s
      using that rm keyed by (auto simp: distinct_map inj_on_def)
    have "pbx_inv ?d"
      using inv by (auto simp: pbx_inv_def list_all_iff table_simps intro: keyed_intros)
    moreover have v: "?V ?xs = (?V (t_extensions d))(number \<mapsto> (Some dn, Some dn, Some dn))"
      using rm by (subst view_of_update [where K = "extension_key u", OF keyed Some])
        (auto simp: extension_key_def ext_names_def)
    moreover have "untouched D d ?d"
    proof (cases "names_differ dn r")
      case True
      have "untouched D d (d\<lparr>t_extensions := ?xs\<rparr>)"
        using rm one by (intro untouched_at [OF inv u]) (auto intro!: ext_view_frame(1) [where u = u]
            simp: extension_key_def)
      with True show ?thesis by simp
    qed simp
    moreover have "?V (t_extensions d) number = Some (ext_names r)"
      using Some by (simp add: view_of_def)
    moreover have n: "names_differ dn r \<longleftrightarrow> ext_names r \<noteq> (Some dn, Some dn, Some dn)"
      by (auto simp: names_differ_def ext_names_def)
    ultimately have idem: "put_extension number dn (tenant_of D d) = tenant_of D d \<longleftrightarrow>
        \<not> names_differ dn r"
      by (simp add: put_extension_idem u ext_view_Some)
    have "tenant_of D ?d = put_extension number dn (tenant_of D d)"
      using idem v u by (cases "names_differ dn r") (simp_all add: put_extension_def ext_view_Some)
    then show ?thesis
      using own u Some idem \<open>pbx_inv ?d\<close> \<open>untouched D d ?d\<close>
      by (intro exI [of _ "(\<lparr>res_number = number, res_uuid = ext_uuid r, res_password = ext_password r\<rparr>,
              names_differ dn r)"] exI [of _ ?d])
        (simp add: set_extension_names_def then_act_def bind_act_def)
  qed
qed (simp add: put_extension_def)

lemma contract_secret:
  assumes "\<And>secret. contract D pre (k secret) f post"
  shows "contract D pre (bind_act (if p \<noteq> [] then ret p else draw_token) k) f post"
  unfolding contract_def
proof (intro allI impI)
  fix w assume w: "sound D w" "pre (tenant_of D (db w))"
  let ?w = "if p \<noteq> [] then w else w\<lparr>tokenno := Suc (tokenno w)\<rparr>"
  let ?s = "if p \<noteq> [] then p else token w (tokenno w)"
  have "sound D ?w" "pre (tenant_of D (db ?w))" "db ?w = db w" "plan ?w = plan w"
    "effects ?w = effects w" "all_up ?w = all_up w"
    using w by (auto simp: sound_def tame_def all_up_def)
  moreover have "bind_act (if p \<noteq> [] then ret p else draw_token) k w = k ?s ?w"
    by (simp add: bind_act_def draw_token_def)
  ultimately show "\<exists>w'. sound D w' \<and> plan w' = plan w \<and>
       ((\<exists>r. bind_act (if p \<noteq> [] then ret p else draw_token) k w = (Inr r, w') \<and>
           tenant_of D (db w') = f (tenant_of D (db w)) \<and>
           untouched D (db w) (db w') \<and> post r (tenant_of D (db w)) \<and>
           (f (tenant_of D (db w)) = tenant_of D (db w) \<longrightarrow>
             db w' = db w \<and> effects w' = effects w)) \<or>
        (bind_act (if p \<noteq> [] then ret p else draw_token) k w = (Inl unreachable, w') \<and>
          \<not> all_up w \<and> db w' = db w \<and> effects w' = effects w))"
    using assms [of ?s] unfolding contract_def by metis
qed

lemma create_extension_contract:
  assumes "valid_domain D" and "valid_token n"
  shows "contract D (\<lambda>_. True) (create_extension D n password dn)
    (\<lambda>t. put_extension n dn (t\<lparr>x_exists := True\<rparr>)) (\<lambda>_ _. True)"
  unfolding create_extension_def
  by (intro contract_check_names contract_secret write_op_contract upsert_extension_body assms)

definition remove_extension :: "string \<Rightarrow> tenant \<Rightarrow> tenant" where
  "remove_extension n t = t\<lparr>x_exts := (x_exts t)(n := None)\<rparr>"

lemma remove_extension_idem: "remove_extension n t = t \<longleftrightarrow> x_exts t n = None"
  by (cases t) (auto simp: remove_extension_def fun_upd_idem_iff)

lemma delete_extension_contract:
  assumes "valid_domain D" and "valid_token n"
  shows "contract D (\<lambda>_. True) (delete_extension D n) (remove_extension n) (\<lambda>_ _. True)"
  unfolding delete_extension_def
proof (intro contract_check_names write_op_contract assms, unfold body_contract_def, intro allI impI)
  fix d assume inv: "pbx_inv d" and own: "owned D d"
  let ?b = "bind_act (query_domain D) (\<lambda>found. \<lambda>d.
          case found of
            None \<Rightarrow> (Inr (False, False), d)
          | Some u \<Rightarrow>
              (let deleted = 0 < rowcount (extension_key u n) (t_extensions d)
               in (Inr (deleted, deleted),
                   d\<lparr>t_extensions := delete_where (extension_key u n) (t_extensions d)\<rparr>)))"
  show "\<exists>r d'. ?b d = (Inr r, d') \<and> pbx_inv d' \<and> owned D d' \<and>
      tenant_of D d' = remove_extension n (tenant_of D d) \<and> untouched D d d' \<and>
      (remove_extension n (tenant_of D d) = tenant_of D d \<longrightarrow> d' = d \<and> \<not> snd r)"
  proof (cases "domain_of D d")
    case None
    have "remove_extension n (tenant_of D d) = tenant_of D d"
      by (simp add: remove_extension_idem None ext_view_def)
    then show ?thesis using inv own
      by (intro exI [of _ "(False, False)"] exI [of _ d])
        (simp add: query_domain_def bind_act_def domain_uuid_for_inv [OF inv] None)
  next
    case (Some u)
    let ?P = "extension_key u n"
    let ?d = "d\<lparr>t_extensions := delete_where ?P (t_extensions d)\<rparr>"
    let ?r = "0 < rowcount ?P (t_extensions d)"
    have v: "view_of ext_names (extension_key u) (delete_where ?P (t_extensions d)) =
        (view_of ext_names (extension_key u) (t_extensions d))(n := None)"
      by (rule view_of_delete) (auto simp: extension_key_def)
    have "pbx_inv ?d"
      using inv by (auto simp: pbx_inv_def list_all_iff table_simps intro: keyed_intros)
    moreover have "untouched D d ?d"
      by (rule untouched_at [OF inv Some])
        (auto intro!: ext_view_frame(2) [where u = u] simp: extension_key_def)
    moreover have "tenant_of D ?d = remove_extension n (tenant_of D d)"
      by (simp add: remove_extension_def Some ext_view_Some v)
    moreover have "delete_where ?P (t_extensions d) = t_extensions d \<and> \<not> ?r"
      if "remove_extension n (tenant_of D d) = tenant_of D d"
      using that by (auto simp: remove_extension_idem Some ext_view_Some view_of_None rowcount_pos
          intro!: delete_where_none)
    ultimately show ?thesis using own
      by (intro exI [of _ "(?r, ?r)"] exI [of _ ?d])
        (simp add: query_domain_def bind_act_def domain_uuid_for_inv [OF inv] Some Let_def)
  qed
qed

definition add_box :: "string \<Rightarrow> tenant \<Rightarrow> tenant" where
  "add_box n t = t\<lparr>x_boxes := insert n (x_boxes t)\<rparr>"

definition remove_box :: "string \<Rightarrow> tenant \<Rightarrow> tenant" where
  "remove_box n t = t\<lparr>x_boxes := x_boxes t - {n}\<rparr>"

lemma add_box_idem: "add_box n t = t \<longleftrightarrow> n \<in> x_boxes t"
  by (cases t) (auto simp: add_box_def)

lemma remove_box_idem: "remove_box n t = t \<longleftrightarrow> n \<notin> x_boxes t"
  by (cases t) (auto simp: remove_box_def)

lemma box_view_Some: "box_view (Some u) rows = {n. \<exists>r\<in>set rows. voicemail_key u n r}"
  by (simp add: box_view_def view_of_dom)

lemma box_view_frame:
  "v \<noteq> Some u \<Longrightarrow> box_view v (delete_where (voicemail_key u n) rows) = box_view v rows"
  "vm_domain r = u \<Longrightarrow> v \<noteq> Some u \<Longrightarrow> box_view v (rows @ [r]) = box_view v rows"
  by (auto simp: box_view_def voicemail_key_def delete_where_def view_of_dom split: option.split)

lemma box_view_write:
  "vm_domain r = u \<Longrightarrow> box_view (Some u) (rows @ [r]) = insert (vm_id r) (box_view (Some u) rows)"
  "box_view (Some u) (delete_where (voicemail_key u n) rows) = box_view (Some u) rows - {n}"
  by (auto simp: box_view_Some voicemail_key_def table_simps)

lemma ensure_voicemail_contract:
  assumes "valid_domain D" and "valid_token n"
  shows "contract D (\<lambda>_. True) (ensure_voicemail D n enabled password)
    (\<lambda>t. add_box n (t\<lparr>x_exists := True\<rparr>)) (\<lambda>_ _. True)"
  unfolding ensure_voicemail_def
proof (intro contract_check_names write_op_contract assms
    ensure_domain_bind [where g = "add_box n"], goal_cases)
  case (1 u c d)
  note inv = 1(1) and own = 1(2) and u = 1(3)
  show ?case
  proof (cases "first_where (voicemail_key u n) (t_voicemails d)")
    case None
    let ?r = "\<lparr>vm_uuid = next_id d, vm_domain = u, vm_id = n,
      vm_password = Some (if password \<noteq> [] then password else n), vm_enabled = enabled\<rparr>"
    let ?d = "d\<lparr>next_id := Suc (next_id d), t_voicemails := t_voicemails d @ [?r]\<rparr>"
    have "pbx_inv ?d"
      using inv domain_of_bound [OF inv u]
      by (auto simp: pbx_inv_def list_all_iff less_Suc_eq intro: keyed_intros)
    moreover have "untouched D d ?d"
      by (rule untouched_at [OF inv u]) (simp_all add: box_view_frame)
    moreover have "tenant_of D ?d = add_box n (tenant_of D d)"
      by (simp add: add_box_def u box_view_write)
    moreover have "add_box n (tenant_of D d) \<noteq> tenant_of D d"
      using None by (auto simp: add_box_idem u box_view_Some first_where_None)
    ultimately show ?thesis using own None
      by (intro exI [of _ "((n, True), True)"] exI [of _ ?d])
        (simp add: insert_voicemail_def fresh_def bind_act_def then_act_def)
  next
    case (Some r)
    then have "add_box n (tenant_of D d) = tenant_of D d"
      by (auto simp: add_box_idem u box_view_Some dest: first_where_Some)
    with Some inv own show ?thesis
      by (intro exI [of _ "((n, False), False)"] exI [of _ d]) simp
  qed
qed (simp_all add: add_box_def)

lemma delete_voicemail_contract:
  assumes "valid_domain D" and "valid_token n"
  shows "contract D (\<lambda>_. True) (delete_voicemail D n) (remove_box n) (\<lambda>_ _. True)"
  unfolding delete_voicemail_def
proof (intro contract_check_names write_op_contract assms, unfold body_contract_def, intro allI impI)
  fix d assume inv: "pbx_inv d" and own: "owned D d"
  let ?b = "bind_act (query_domain D) (\<lambda>found. \<lambda>d.
          case found of
            None \<Rightarrow> (Inr (False, False), d)
          | Some u \<Rightarrow>
              (let deleted = 0 < rowcount (voicemail_key u n) (t_voicemails d)
               in (Inr (deleted, deleted),
                   d\<lparr>t_voicemails := delete_where (voicemail_key u n) (t_voicemails d)\<rparr>)))"
  show "\<exists>r d'. ?b d = (Inr r, d') \<and> pbx_inv d' \<and> owned D d' \<and>
      tenant_of D d' = remove_box n (tenant_of D d) \<and> untouched D d d' \<and>
      (remove_box n (tenant_of D d) = tenant_of D d \<longrightarrow> d' = d \<and> \<not> snd r)"
  proof (cases "domain_of D d")
    case None
    have "remove_box n (tenant_of D d) = tenant_of D d"
      by (simp add: remove_box_idem None box_view_def)
    then show ?thesis using inv own
      by (intro exI [of _ "(False, False)"] exI [of _ d])
        (simp add: query_domain_def bind_act_def domain_uuid_for_inv [OF inv] None)
  next
    case (Some u)
    let ?P = "voicemail_key u n"
    let ?d = "d\<lparr>t_voicemails := delete_where ?P (t_voicemails d)\<rparr>"
    let ?r = "0 < rowcount ?P (t_voicemails d)"
    have "pbx_inv ?d"
      using inv by (auto simp: pbx_inv_def list_all_iff table_simps intro: keyed_intros)
    moreover have "untouched D d ?d"
      by (rule untouched_at [OF inv Some]) (simp_all add: box_view_frame)
    moreover have "tenant_of D ?d = remove_box n (tenant_of D d)"
      by (simp add: remove_box_def Some box_view_write)
    moreover have "delete_where ?P (t_voicemails d) = t_voicemails d \<and> \<not> ?r"
      if "remove_box n (tenant_of D d) = tenant_of D d"
      using that by (auto simp: remove_box_idem Some box_view_Some rowcount_pos
          intro!: delete_where_none)
    ultimately show ?thesis using own
      by (intro exI [of _ "(?r, ?r)"] exI [of _ ?d])
        (simp add: query_domain_def bind_act_def domain_uuid_for_inv [OF inv] Some Let_def)
  qed
qed

lemma list_extensions_contract:
  assumes "valid_domain D"
  shows "contract D (\<lambda>_. True) (list_extensions D) (\<lambda>t. t) (\<lambda>r t. set (map fst r) = dom (x_exts t))"
  unfolding list_extensions_def
proof (rule contract_guard)
  show "contract D (\<lambda>_. True) (reading (query_extensions D)) (\<lambda>t. t)
      (\<lambda>r t. set (map fst r) = dom (x_exts t))"
  proof (rule reading_contract)
    fix d assume "pbx_inv d"
    then show "\<exists>r. query_extensions D d = Inr r \<and> set (map fst r) = dom (x_exts (tenant_of D d))"
      by (cases "domain_of D d")
        (auto simp: query_extensions_def domain_uuid_for_inv ext_view_def view_of_dom
          extension_key_def image_iff)
  qed
qed (simp add: assms require_domain_def)

end
