(* ===== verification/PbxPlans.thy ===== *)
theory PbxPlans
  imports PbxClient
begin

text \<open>
  The contracts of the dialplan operations (conference, ring group, IVR menu, routing), of
  \<^verbatim>\<open>delete_dialplan\<close> and \<^verbatim>\<open>list_managed_dialplans\<close>, and of the switch settings.
\<close>

section \<open>The upsert of a dialplan\<close>

lemma ensure_dialplan_step:
  assumes inv: "pbx_inv d"
  shows "\<exists>ch n ps. ensure_dialplan name number order xml tag d =
      (Inr ch, d\<lparr>next_id := n, t_dialplans := ps\<rparr>) \<and>
    pbx_inv (d\<lparr>next_id := n, t_dialplans := ps\<rparr>) \<and>
    (ch \<longleftrightarrow> map_option dp_xml (first_where (public_named name) (t_dialplans d)) \<noteq> Some (Some xml)) \<and>
    (\<not> ch \<longrightarrow> n = next_id d \<and> ps = t_dialplans d) \<and>
    (ch \<longrightarrow> (case first_where (public_named name) (t_dialplans d) of
         None \<Rightarrow> ps = t_dialplans d @ [\<lparr>dp_uuid = next_id d, dp_app_uuid = dialplan_app_uuid,
            dp_context = ''public'', dp_name = name, dp_number = Some number, dp_order = Some order,
            dp_enabled = True, dp_continue = False, dp_xml = Some xml, dp_description = Some tag\<rparr>]
       | Some r \<Rightarrow> ps = update_where (\<lambda>s. dp_uuid s = dp_uuid r)
            (\<lambda>s. s\<lparr>dp_xml := Some xml, dp_order := Some order\<rparr>) (t_dialplans d)))"
proof (cases "first_where (public_named name) (t_dialplans d)")
  case None
  let ?r = "\<lparr>dp_uuid = next_id d, dp_app_uuid = dialplan_app_uuid,
            dp_context = ''public'', dp_name = name, dp_number = Some number, dp_order = Some order,
            dp_enabled = True, dp_continue = False, dp_xml = Some xml, dp_description = Some tag\<rparr>"
  have "pbx_inv (d\<lparr>next_id := Suc (next_id d), t_dialplans := t_dialplans d @ [?r]\<rparr>)"
    using inv by (auto simp: pbx_inv_def list_all_iff less_Suc_eq intro: keyed_intros)
  then show ?thesis
    by (intro exI [of _ True] exI [of _ "Suc (next_id d)"] exI [of _ "t_dialplans d @ [?r]"])
      (simp add: ensure_dialplan_def None bind_act_def then_act_def fresh_def insert_dialplan_def)
next
  case (Some r)
  let ?ps = "update_where (\<lambda>s. dp_uuid s = dp_uuid r)
            (\<lambda>s. s\<lparr>dp_xml := Some xml, dp_order := Some order\<rparr>) (t_dialplans d)"
  show ?thesis
  proof (cases "dp_xml r = Some xml")
    case True
    with Some inv show ?thesis
      by (intro exI [of _ False] exI [of _ "next_id d"] exI [of _ "t_dialplans d"])
        (simp add: ensure_dialplan_def)
  next
    case False
    have "pbx_inv (d\<lparr>next_id := next_id d, t_dialplans := ?ps\<rparr>)"
      using inv by (auto simp: pbx_inv_def list_all_iff intro: keyed_intros)
    with False Some show ?thesis
      by (intro exI [of _ True] exI [of _ "next_id d"] exI [of _ ?ps])
        (simp add: ensure_dialplan_def bind_act_def then_act_def set_dialplan_xml_def)
  qed
qed

lemma row_owned_update [simp]: "row_owned D (r\<lparr>dp_xml := x, dp_order := n\<rparr>) = row_owned D r"
  by (simp add: row_owned_def)

lemma plan_key_update [simp]:
  "plan_key tag m (r\<lparr>dp_xml := x, dp_order := n\<rparr>) = plan_key tag m r"
  "public_named m (r\<lparr>dp_xml := x, dp_order := n\<rparr>) = public_named m r"
  by (simp_all add: plan_key_def public_named_def)

text \<open>
  The upsert on the views by tag: it writes under the tag the rows of this name have, and
  nowhere else.
\<close>

lemma upsert_views:
  assumes keyed: "distinct (map dp_uuid rows)"
    and tagged: "\<And>r. r \<in> set rows \<Longrightarrow> public_named name r \<Longrightarrow> dp_description r = Some tag"
    and ps: "case first_where (public_named name) rows of
         None \<Rightarrow> ps = rows @ [\<lparr>dp_uuid = n, dp_app_uuid = dialplan_app_uuid,
            dp_context = ''public'', dp_name = name, dp_number = Some number, dp_order = Some order,
            dp_enabled = True, dp_continue = False, dp_xml = Some xml, dp_description = Some tag\<rparr>]
       | Some r \<Rightarrow> ps = update_where (\<lambda>s. dp_uuid s = dp_uuid r)
            (\<lambda>s. s\<lparr>dp_xml := Some xml, dp_order := Some order\<rparr>) rows"
  shows "plan_view tag ps = (plan_view tag rows)(name \<mapsto> Some xml)"
    and "tag' \<noteq> tag \<Longrightarrow> plan_view tag' ps = plan_view tag' rows"
    and "name \<noteq> routing_name \<Longrightarrow> routing_view ps = routing_view rows"
    and "list_all (row_owned E) rows \<Longrightarrow>
      (feature_tag E = tag \<longleftrightarrow> feature_name_of E name) \<Longrightarrow>
      (queue_tag E = tag \<longleftrightarrow> plan_name_of ''queue'' E name) \<Longrightarrow> list_all (row_owned E) ps"
proof -
  have same: "first_where (plan_key tag name) rows = first_where (public_named name) rows"
    by (rule first_where_cong) (auto simp: plan_key_def tagged)
  have "plan_view tag ps = (plan_view tag rows)(name \<mapsto> Some xml) \<and>
    (tag' \<noteq> tag \<longrightarrow> plan_view tag' ps = plan_view tag' rows) \<and>
    (name \<noteq> routing_name \<longrightarrow> routing_view ps = routing_view rows) \<and>
    (list_all (row_owned E) rows \<longrightarrow> (feature_tag E = tag \<longleftrightarrow> feature_name_of E name) \<longrightarrow>
      (queue_tag E = tag \<longleftrightarrow> plan_name_of ''queue'' E name) \<longrightarrow> list_all (row_owned E) ps)"
  proof (cases "first_where (public_named name) rows")
    case None
    with ps have p: "ps = rows @ [\<lparr>dp_uuid = n, dp_app_uuid = dialplan_app_uuid,
            dp_context = ''public'', dp_name = name, dp_number = Some number, dp_order = Some order,
            dp_enabled = True, dp_continue = False, dp_xml = Some xml, dp_description = Some tag\<rparr>]"
      by simp
    from None same have k: "first_where (plan_key tag name) rows = None" by simp
    have "plan_view tag ps = (plan_view tag rows)(name \<mapsto> Some xml)"
      unfolding plan_view_def p
      by (subst view_of_insert [where K = "plan_key tag", OF k])
        (simp_all add: plan_key_def public_named_def)
    moreover have "plan_view tag' ps = plan_view tag' rows" if "tag' \<noteq> tag"
      unfolding plan_view_def p using that
      by (intro view_of_insert_other) (simp add: plan_key_def)
    moreover have "routing_view ps = routing_view rows" if "name \<noteq> routing_name"
      unfolding routing_view_def p using that
      by (simp add: public_named_def split: option.split)
    ultimately show ?thesis unfolding p by (auto simp: row_owned_def)
  next
    case (Some r)
    let ?g = "\<lambda>s. s\<lparr>dp_xml := Some xml, dp_order := Some order\<rparr>"
    from ps Some have p: "ps = update_where (\<lambda>s. dp_uuid s = dp_uuid r) ?g rows" by simp
    from Some have r: "r \<in> set rows" "public_named name r" by (auto dest: first_where_Some)
    with tagged have rt: "dp_description r = Some tag" by blast
    have one: "s = r" if "s \<in> set rows" "dp_uuid s = dp_uuid r" for s
      using that r keyed by (auto simp: distinct_map inj_on_def)
    from Some same have k: "first_where (plan_key tag name) rows = Some r" by simp
    have "plan_view tag ps = (plan_view tag rows)(name \<mapsto> Some xml)"
      unfolding plan_view_def p using r
      by (subst view_of_update [where K = "plan_key tag", OF keyed k])
        (simp_all add: plan_key_def public_named_def)
    moreover have "plan_view tag' ps = plan_view tag' rows" if "tag' \<noteq> tag"
      unfolding plan_view_def p using that rt
      by (intro view_of_update_other) (auto simp: plan_key_def dest!: one)
    moreover have "routing_view ps = routing_view rows" if "name \<noteq> routing_name"
    proof -
      have "\<not> public_named routing_name r" using that r by (simp add: public_named_def)
      have "first_where (public_named routing_name) ps =
          map_option (\<lambda>s. if s = r then ?g s else s) (first_where (public_named routing_name) rows)"
        unfolding p by (rule first_where_update_key [OF keyed r(1)]) simp
      then show ?thesis
        using \<open>\<not> public_named routing_name r\<close>
        by (cases "first_where (public_named routing_name) rows")
          (auto simp: routing_view_def dest: first_where_Some)
    qed
    moreover have "list_all (row_owned E) ps" if "list_all (row_owned E) rows"
      using that unfolding p by (auto simp: list_all_iff table_simps)
    ultimately show ?thesis by blast
  qed
  then show "plan_view tag ps = (plan_view tag rows)(name \<mapsto> Some xml)"
    and "tag' \<noteq> tag \<Longrightarrow> plan_view tag' ps = plan_view tag' rows"
    and "name \<noteq> routing_name \<Longrightarrow> routing_view ps = routing_view rows"
    and "list_all (row_owned E) rows \<Longrightarrow>
      (feature_tag E = tag \<longleftrightarrow> feature_name_of E name) \<Longrightarrow>
      (queue_tag E = tag \<longleftrightarrow> plan_name_of ''queue'' E name) \<Longrightarrow> list_all (row_owned E) ps"
    by blast+
qed

section \<open>Feature dialplans\<close>

definition put_feature :: "string \<Rightarrow> string \<Rightarrow> tenant \<Rightarrow> tenant" where
  "put_feature name xml t = t\<lparr>x_features := (x_features t)(name \<mapsto> Some xml)\<rparr>"

definition put_queue_plan :: "string \<Rightarrow> string \<Rightarrow> tenant \<Rightarrow> tenant" where
  "put_queue_plan name xml t = t\<lparr>x_queue_plans := (x_queue_plans t)(name \<mapsto> Some xml)\<rparr>"

lemma put_feature_idem: "put_feature name xml t = t \<longleftrightarrow> x_features t name = Some (Some xml)"
  by (cases t) (auto simp: put_feature_def fun_upd_idem_iff)

lemma put_queue_plan_idem: "put_queue_plan name xml t = t \<longleftrightarrow> x_queue_plans t name = Some (Some xml)"
  by (cases t) (auto simp: put_queue_plan_def fun_upd_idem_iff)

lemma plan_view_at:
  assumes "\<And>r. r \<in> set rows \<Longrightarrow> public_named name r \<Longrightarrow> dp_description r = Some tag"
  shows "plan_view tag rows name = map_option dp_xml (first_where (public_named name) rows)"
  unfolding plan_view_def view_of_def
  by (intro arg_cong [where f = "map_option dp_xml"] first_where_cong) (auto simp: plan_key_def assms)

lemma owned_tagged:
  assumes "owned D d" and "r \<in> set (t_dialplans d)" and "public_named name r"
  shows "feature_name_of D name \<Longrightarrow> dp_description r = Some (feature_tag D)"
    and "plan_name_of ''queue'' D name \<Longrightarrow> dp_description r = Some (queue_tag D)"
  using assms by (auto simp: owned_def list_all_iff row_owned_def public_named_def)

text \<open>The upsert under a feature name and under a queue name of the domain.\<close>

lemma ensure_feature_plan:
  assumes inv: "pbx_inv d" and own: "owned D d" and u: "domain_of D d = Some u"
    and name: "feature_name_of D name"
  shows "\<exists>ch d'. ensure_dialplan name number order xml (feature_tag D) d = (Inr ch, d') \<and>
    pbx_inv d' \<and> owned D d' \<and> tenant_of D d' = put_feature name xml (tenant_of D d) \<and>
    untouched D d d' \<and> (put_feature name xml (tenant_of D d) = tenant_of D d \<longrightarrow> d' = d \<and> \<not> ch)"
proof -
  let ?rows = "t_dialplans d"
  have tagged: "\<And>r. r \<in> set ?rows \<Longrightarrow> public_named name r \<Longrightarrow> dp_description r = Some (feature_tag D)"
    using owned_tagged(1) [OF own] name by blast
  have nr: "name \<noteq> routing_name" using name by auto
  have nq: "\<not> plan_name_of ''queue'' E name" for E using name queue_not_feature by blast
  have fe: "feature_tag E = feature_tag D \<longleftrightarrow> feature_name_of E name" for E
    using name feature_name_of_inj by auto
  from ensure_dialplan_step [OF inv, of name number order xml "feature_tag D"] obtain ch n ps where
    e: "ensure_dialplan name number order xml (feature_tag D) d = (Inr ch, d\<lparr>next_id := n, t_dialplans := ps\<rparr>)"
    and inv': "pbx_inv (d\<lparr>next_id := n, t_dialplans := ps\<rparr>)"
    and ch: "ch \<longleftrightarrow> plan_view (feature_tag D) ?rows name \<noteq> Some (Some xml)"
    and same: "\<not> ch \<Longrightarrow> n = next_id d \<and> ps = ?rows"
    and ps: "ch \<Longrightarrow> (case first_where (public_named name) ?rows of
         None \<Rightarrow> ps = ?rows @ [\<lparr>dp_uuid = next_id d, dp_app_uuid = dialplan_app_uuid,
            dp_context = ''public'', dp_name = name, dp_number = Some number, dp_order = Some order,
            dp_enabled = True, dp_continue = False, dp_xml = Some xml, dp_description = Some (feature_tag D)\<rparr>]
       | Some r \<Rightarrow> ps = update_where (\<lambda>s. dp_uuid s = dp_uuid r)
            (\<lambda>s. s\<lparr>dp_xml := Some xml, dp_order := Some order\<rparr>) ?rows)"
    by (auto simp: plan_view_at [OF tagged])
  have idem: "put_feature name xml (tenant_of D d) = tenant_of D d \<longleftrightarrow> \<not> ch"
    by (simp add: put_feature_idem ch)
  show ?thesis
  proof (cases ch)
    case False
    with same e idem inv own show ?thesis by (intro exI [of _ ch] exI [of _ d]) simp
  next
    case True
    have keyed: "distinct (map dp_uuid ?rows)" using inv by (simp add: pbx_inv_def keyed_def)
    note v = upsert_views [OF keyed tagged ps [OF True]]
    let ?d = "d\<lparr>next_id := n, t_dialplans := ps\<rparr>"
    have "owned D ?d" using v(4) [of D] own fe nq name by (simp add: owned_def)
    moreover have "tenant_of D ?d = put_feature name xml (tenant_of D d)"
      using v(1) v(2) [of "queue_tag D"] v(3) nr by (simp add: put_feature_def tenant_of_def)
    moreover have "untouched D d ?d"
      using v(2) v(4) fe nq by (intro untouched_at [OF inv u]) (auto simp: owned_def)
    ultimately show ?thesis using e inv' idem True by (intro exI [of _ ch] exI [of _ ?d]) simp
  qed
qed

lemma ensure_queue_plan:
  assumes inv: "pbx_inv d" and own: "owned D d" and u: "domain_of D d = Some u"
    and name: "plan_name_of ''queue'' D name"
  shows "\<exists>ch d'. ensure_dialplan name number order xml (queue_tag D) d = (Inr ch, d') \<and>
    pbx_inv d' \<and> owned D d' \<and> tenant_of D d' = put_queue_plan name xml (tenant_of D d) \<and>
    untouched D d d' \<and> (put_queue_plan name xml (tenant_of D d) = tenant_of D d \<longrightarrow> d' = d \<and> \<not> ch)"
proof -
  let ?rows = "t_dialplans d"
  have tagged: "\<And>r. r \<in> set ?rows \<Longrightarrow> public_named name r \<Longrightarrow> dp_description r = Some (queue_tag D)"
    using owned_tagged(2) [OF own] name by blast
  have nr: "name \<noteq> routing_name" using name by auto
  have nf: "\<not> feature_name_of E name" for E using name queue_not_feature by blast
  have qe: "queue_tag E = queue_tag D \<longleftrightarrow> plan_name_of ''queue'' E name" for E
    using name queue_name_of_inj by auto
  from ensure_dialplan_step [OF inv, of name number order xml "queue_tag D"] obtain ch n ps where
    e: "ensure_dialplan name number order xml (queue_tag D) d = (Inr ch, d\<lparr>next_id := n, t_dialplans := ps\<rparr>)"
    and inv': "pbx_inv (d\<lparr>next_id := n, t_dialplans := ps\<rparr>)"
    and ch: "ch \<longleftrightarrow> plan_view (queue_tag D) ?rows name \<noteq> Some (Some xml)"
    and same: "\<not> ch \<Longrightarrow> n = next_id d \<and> ps = ?rows"
    and ps: "ch \<Longrightarrow> (case first_where (public_named name) ?rows of
         None \<Rightarrow> ps = ?rows @ [\<lparr>dp_uuid = next_id d, dp_app_uuid = dialplan_app_uuid,
            dp_context = ''public'', dp_name = name, dp_number = Some number, dp_order = Some order,
            dp_enabled = True, dp_continue = False, dp_xml = Some xml, dp_description = Some (queue_tag D)\<rparr>]
       | Some r \<Rightarrow> ps = update_where (\<lambda>s. dp_uuid s = dp_uuid r)
            (\<lambda>s. s\<lparr>dp_xml := Some xml, dp_order := Some order\<rparr>) ?rows)"
    by (auto simp: plan_view_at [OF tagged])
  have idem: "put_queue_plan name xml (tenant_of D d) = tenant_of D d \<longleftrightarrow> \<not> ch"
    by (simp add: put_queue_plan_idem ch)
  show ?thesis
  proof (cases ch)
    case False
    with same e idem inv own show ?thesis by (intro exI [of _ ch] exI [of _ d]) simp
  next
    case True
    have keyed: "distinct (map dp_uuid ?rows)" using inv by (simp add: pbx_inv_def keyed_def)
    note v = upsert_views [OF keyed tagged ps [OF True]]
    let ?d = "d\<lparr>next_id := n, t_dialplans := ps\<rparr>"
    have "owned D ?d" using v(4) [of D] own qe nf name by (simp add: owned_def)
    moreover have "tenant_of D ?d = put_queue_plan name xml (tenant_of D d)"
      using v(1) v(2) [of "feature_tag D"] v(3) nr by (simp add: put_queue_plan_def tenant_of_def)
    moreover have "untouched D d ?d"
      using v(2) v(4) qe nf by (intro untouched_at [OF inv u]) (auto simp: owned_def)
    ultimately show ?thesis using e inv' idem True by (intro exI [of _ ch] exI [of _ ?d]) simp
  qed
qed

lemma provision_feature_contract:
  assumes "feature_name_of D name"
  shows "contract D (\<lambda>_. True) (provision_dialplan what D name number order xml (feature_tag D))
    (\<lambda>t. put_feature name xml (t\<lparr>x_exists := True\<rparr>)) (\<lambda>_ _. True)"
  unfolding provision_dialplan_def
proof (intro write_op_contract ensure_domain_bind [where g = "put_feature name xml"], goal_cases)
  case (1 u c d)
  from ensure_feature_plan [OF 1 assms, of number order xml] obtain ch d' where
    "ensure_dialplan name number order xml (feature_tag D) d = (Inr ch, d')" and
    "pbx_inv d' \<and> owned D d' \<and> tenant_of D d' = put_feature name xml (tenant_of D d) \<and>
    untouched D d d' \<and> (put_feature name xml (tenant_of D d) = tenant_of D d \<longrightarrow> d' = d \<and> \<not> ch)"
    by blast
  then show ?case
    by (intro exI [of _ "((name, ch), ch)"] exI [of _ d']) (simp add: bind_act_def)
qed (simp add: put_feature_def)

lemma feature_name_ofI:
  "CHR ''-'' \<notin> set n \<Longrightarrow> k \<in> {''conference'', ''ringgroup'', ''ivr''} \<Longrightarrow>
    feature_name_of D (dialplan_name k D n)"
  by (auto simp: feature_name_of_def plan_name_of_def)

lemma create_conference_contract:
  assumes "valid_domain D" and "valid_token n" and "CHR ''-'' \<notin> set n"
  shows "contract D (\<lambda>_. True) (create_conference D n)
    (\<lambda>t. put_feature (dialplan_name ''conference'' D n) (conference_xml D n) (t\<lparr>x_exists := True\<rparr>))
    (\<lambda>_ _. True)"
  unfolding create_conference_def
  using assms by (intro contract_check_names provision_feature_contract feature_name_ofI) auto

lemma contract_guard_act:
  "contract D pre m f post \<Longrightarrow> b \<Longrightarrow> contract D pre (then_act (guard_act b e) m) f post"
  by (simp add: contract_def then_act_def bind_act_def)

lemma create_ring_group_contract:
  assumes "valid_domain D" and "valid_token n" and "CHR ''-'' \<notin> set n"
    and "members \<noteq> []" and "list_all valid_token members"
  shows "contract D (\<lambda>_. True) (create_ring_group D n members strategy timeout)
    (\<lambda>t. put_feature (dialplan_name ''ringgroup'' D n) (ring_group_xml D n members strategy timeout)
       (t\<lparr>x_exists := True\<rparr>)) (\<lambda>_ _. True)"
  unfolding create_ring_group_def
  using assms by (intro contract_check_names contract_guard_act contract_guard
      provision_feature_contract feature_name_ofI)
    (auto simp: check_each_Inr list_all_iff require_dial_token_def)

lemma create_ivr_contract:
  assumes "valid_domain D" and "valid_token n" and "CHR ''-'' \<notin> set n"
    and "options \<noteq> []"
    and "list_all (\<lambda>i. valid_ivr_digit (fst i) \<and> valid_token (snd i)) options"
  shows "contract D (\<lambda>_. True) (create_ivr D n options greeting timeout)
    (\<lambda>t. put_feature (dialplan_name ''ivr'' D n) (ivr_xml D n options greeting timeout)
       (t\<lparr>x_exists := True\<rparr>)) (\<lambda>_ _. True)"
  unfolding create_ivr_def
  using assms by (intro contract_check_names contract_guard_act contract_guard
      provision_feature_contract feature_name_ofI)
    (auto simp: check_each_Inr list_all_iff require_dial_token_def require_ivr_option_def)

lemma delete_dialplan_contract:
  "contract D (\<lambda>t. x_features t name \<noteq> None) (delete_dialplan name)
     (\<lambda>t. t\<lparr>x_features := (x_features t)(name := None)\<rparr>) (\<lambda>_ _. True)"
  unfolding delete_dialplan_def
proof (rule write_op_contract, unfold body_contract_def, intro allI impI)
  fix d assume inv: "pbx_inv d" and own: "owned D d"
    and pre: "x_features (tenant_of D d) name \<noteq> None"
  let ?rows = "t_dialplans d"
  let ?ps = "delete_where (public_named name) ?rows"
  let ?d = "d\<lparr>t_dialplans := ?ps\<rparr>"
  let ?f = "\<lambda>t. t\<lparr>x_features := (x_features t)(name := None)\<rparr>"
  have "\<exists>r\<in>set ?rows. plan_key (feature_tag D) name r"
    using pre view_of_None [of dp_xml "plan_key (feature_tag D)" ?rows name]
    by (auto simp: plan_view_def)
  then have fn: "feature_name_of D name"
    using own by (auto simp: owned_def list_all_iff row_owned_def plan_key_def public_named_def)
  have tagged: "dp_description r = Some (feature_tag D)" if "r \<in> set ?rows" "public_named name r" for r
    using owned_tagged(1) [OF own that fn] .
  have nr: "name \<noteq> routing_name" using fn by auto
  have "pbx_inv ?d"
    using inv by (auto simp: pbx_inv_def list_all_iff intro: keyed_intros)
  moreover have ow: "owned E ?d" if "owned E d" for E
    using that by (auto simp: owned_def list_all_iff table_simps)
  moreover have frame: "plan_view tag ?ps = plan_view tag ?rows" if "tag \<noteq> feature_tag D" for tag
    unfolding plan_view_def using that tagged
    by (intro view_of_delete_other) (auto simp: plan_key_def)
  moreover have "tenant_of D ?d = ?f (tenant_of D d)"
  proof -
    have "plan_view (feature_tag D) ?ps = (plan_view (feature_tag D) ?rows)(name := None)"
      unfolding plan_view_def by (rule view_of_delete) (auto simp: plan_key_def public_named_def)
    moreover have "routing_view ?ps = routing_view ?rows"
      unfolding routing_view_def using nr
      by (intro arg_cong [where f = "map_option dp_xml"] first_where_delete_other)
        (auto simp: public_named_def)
    ultimately show ?thesis using frame [of "queue_tag D"] by (simp add: tenant_of_def)
  qed
  moreover have "untouched D d ?d"
    unfolding untouched_def private_of_def using ow frame by (auto simp: tenant_of_def)
  moreover have "?f (tenant_of D d) \<noteq> tenant_of D d"
  proof
    assume "?f (tenant_of D d) = tenant_of D d"
    then have "x_features (?f (tenant_of D d)) name = x_features (tenant_of D d) name" by simp
    with pre show False by simp
  qed
  moreover have "bind_act (delete_dialplan_row name) (\<lambda>deleted. ret (deleted, deleted)) d =
      (Inr (0 < rowcount (public_named name) ?rows, 0 < rowcount (public_named name) ?rows), ?d)"
    by (simp add: delete_dialplan_row_def bind_act_def)
  ultimately show "\<exists>r d'. bind_act (delete_dialplan_row name) (\<lambda>deleted. ret (deleted, deleted)) d =
      (Inr r, d') \<and> pbx_inv d' \<and> owned D d' \<and> tenant_of D d' = ?f (tenant_of D d) \<and>
      untouched D d d' \<and> (?f (tenant_of D d) = tenant_of D d \<longrightarrow> d' = d \<and> \<not> snd r)"
    using own by blast
qed

lemma list_managed_dialplans_contract:
  assumes "valid_domain D"
  shows "contract D (\<lambda>_. True) (list_managed_dialplans D) (\<lambda>t. t)
    (\<lambda>r t. set r = dom (x_features t) \<and> distinct r)"
  unfolding list_managed_dialplans_def
  by (intro contract_guard reading_contract)
    (auto simp: plan_view_def view_of_dom plan_key_def public_named_def require_domain_def assms)

section \<open>Routing and switch settings\<close>

definition put_routing :: "string \<Rightarrow> tenant \<Rightarrow> tenant" where
  "put_routing xml t = t\<lparr>x_routing := Some (Some xml)\<rparr>"

definition put_dir :: "tenant \<Rightarrow> tenant" where
  "put_dir t = t\<lparr>x_dir := Some (Some switch_voicemail_dir)\<rparr>"

lemma put_routing_idem: "put_routing xml t = t \<longleftrightarrow> x_routing t = Some (Some xml)"
  by (cases t) (auto simp: put_routing_def)

lemma put_dir_idem: "put_dir t = t \<longleftrightarrow> x_dir t = Some (Some switch_voicemail_dir)"
  by (cases t) (auto simp: put_dir_def)

lemma routing_views:
  assumes keyed: "distinct (map dp_uuid rows)"
    and own: "list_all (row_owned E) rows"
    and ps: "case first_where (public_named routing_name) rows of
         None \<Rightarrow> ps = rows @ [\<lparr>dp_uuid = n, dp_app_uuid = dialplan_app_uuid,
            dp_context = ''public'', dp_name = routing_name, dp_number = Some number,
            dp_order = Some order, dp_enabled = True, dp_continue = False, dp_xml = Some xml,
            dp_description = Some ''dotmac-voice:routing''\<rparr>]
       | Some r \<Rightarrow> ps = update_where (\<lambda>s. dp_uuid s = dp_uuid r)
            (\<lambda>s. s\<lparr>dp_xml := Some xml, dp_order := Some order\<rparr>) rows"
  shows "plan_view (feature_tag E) ps = plan_view (feature_tag E) rows \<and>
    plan_view (queue_tag E) ps = plan_view (queue_tag E) rows \<and>
    routing_view ps = Some (Some xml) \<and> list_all (row_owned E) ps"
proof (cases "first_where (public_named routing_name) rows")
  case None
  with ps have p: "ps = rows @ [\<lparr>dp_uuid = n, dp_app_uuid = dialplan_app_uuid,
            dp_context = ''public'', dp_name = routing_name, dp_number = Some number,
            dp_order = Some order, dp_enabled = True, dp_continue = False, dp_xml = Some xml,
            dp_description = Some ''dotmac-voice:routing''\<rparr>]" by simp
  have "plan_view tag ps = plan_view tag rows" if "tag \<noteq> ''dotmac-voice:routing''" for tag
    unfolding plan_view_def p using that by (intro view_of_insert_other) (simp add: plan_key_def)
  moreover have "routing_view ps = Some (Some xml)"
    using None by (simp add: routing_view_def p public_named_def)
  moreover have "list_all (row_owned E) ps" using own by (simp add: p row_owned_def)
  ultimately show ?thesis by simp
next
  case (Some r)
  let ?g = "\<lambda>s. s\<lparr>dp_xml := Some xml, dp_order := Some order\<rparr>"
  from ps Some have p: "ps = update_where (\<lambda>s. dp_uuid s = dp_uuid r) ?g rows" by simp
  from Some have r: "r \<in> set rows" "public_named routing_name r" by (auto dest: first_where_Some)
  then have rt: "dp_description r \<noteq> Some (feature_tag E)" "dp_description r \<noteq> Some (queue_tag E)"
    using own by (auto simp: list_all_iff row_owned_def public_named_def)
  have one: "s = r" if "s \<in> set rows" "dp_uuid s = dp_uuid r" for s
    using that r keyed by (auto simp: distinct_map inj_on_def)
  have "plan_view tag ps = plan_view tag rows" if "dp_description r \<noteq> Some tag" for tag
    unfolding plan_view_def p using that
    by (intro view_of_update_other) (auto simp: plan_key_def dest!: one)
  moreover have "routing_view ps = Some (Some xml)"
    using Some first_where_update_key [OF keyed r(1), of "public_named routing_name" ?g]
    by (simp add: routing_view_def p)
  moreover have "list_all (row_owned E) ps"
    using own unfolding p by (auto simp: list_all_iff table_simps)
  ultimately show ?thesis using rt by simp
qed

lemma ensure_routing_contract:
  assumes "valid_domain D"
  shows "contract D (\<lambda>_. True) (ensure_routing D recording pat)
    (\<lambda>t. put_routing (routing_xml recording pat) (t\<lparr>x_exists := True\<rparr>)) (\<lambda>_ _. True)"
  unfolding ensure_routing_def provision_dialplan_def
proof (intro contract_guard write_op_contract
    ensure_domain_bind [where g = "put_routing (routing_xml recording pat)"], goal_cases)
  case (1 u c d)
  note inv = 1(1) and own = 1(2) and u = 1(3)
  let ?rows = "t_dialplans d" and ?xml = "routing_xml recording pat"
  let ?f = "put_routing ?xml"
  from ensure_dialplan_step [OF inv, of routing_name "[]" 50 ?xml "''dotmac-voice:routing''"]
  obtain ch n ps where
    e: "ensure_dialplan routing_name [] 50 ?xml ''dotmac-voice:routing'' d =
      (Inr ch, d\<lparr>next_id := n, t_dialplans := ps\<rparr>)"
    and inv': "pbx_inv (d\<lparr>next_id := n, t_dialplans := ps\<rparr>)"
    and ch: "ch \<longleftrightarrow> routing_view ?rows \<noteq> Some (Some ?xml)"
    and same: "\<not> ch \<Longrightarrow> n = next_id d \<and> ps = ?rows"
    and ps: "ch \<Longrightarrow> (case first_where (public_named routing_name) ?rows of
         None \<Rightarrow> ps = ?rows @ [\<lparr>dp_uuid = next_id d, dp_app_uuid = dialplan_app_uuid,
            dp_context = ''public'', dp_name = routing_name, dp_number = Some [], dp_order = Some 50,
            dp_enabled = True, dp_continue = False, dp_xml = Some ?xml,
            dp_description = Some ''dotmac-voice:routing''\<rparr>]
       | Some r \<Rightarrow> ps = update_where (\<lambda>s. dp_uuid s = dp_uuid r)
            (\<lambda>s. s\<lparr>dp_xml := Some ?xml, dp_order := Some 50\<rparr>) ?rows)"
    by (auto simp: routing_view_def)
  have idem: "?f (tenant_of D d) = tenant_of D d \<longleftrightarrow> \<not> ch"
    by (simp add: put_routing_idem ch)
  let ?d = "d\<lparr>next_id := n, t_dialplans := ps\<rparr>"
  have "pbx_inv ?d \<and> owned D ?d \<and> tenant_of D ?d = ?f (tenant_of D d) \<and> untouched D d ?d \<and>
      (?f (tenant_of D d) = tenant_of D d \<longrightarrow> ?d = d \<and> \<not> ch)"
  proof (cases ch)
    case False
    with same idem inv own show ?thesis by simp
  next
    case True
    have keyed: "distinct (map dp_uuid ?rows)" using inv by (simp add: pbx_inv_def keyed_def)
    have v: "plan_view (feature_tag E) ps = plan_view (feature_tag E) ?rows \<and>
        plan_view (queue_tag E) ps = plan_view (queue_tag E) ?rows \<and>
        routing_view ps = Some (Some ?xml) \<and> owned E ?d" if "owned E d" for E
      using routing_views [OF keyed _ ps [OF True], of E] that by (simp add: owned_def)
    have "tenant_of D ?d = ?f (tenant_of D d)"
      using v [OF own] by (simp add: put_routing_def tenant_of_def)
    moreover have "untouched D d ?d" using v by (intro untouched_at [OF inv u]) auto
    ultimately show ?thesis using v [OF own] inv' idem True by simp
  qed
  with e show ?case
    by (intro exI [of _ "((routing_name, ch), ch)"] exI [of _ ?d]) (simp add: bind_act_def)
qed (simp_all add: put_routing_def require_domain_def assms)

lemma ensure_switch_settings_contract:
  "contract D (\<lambda>_. True) ensure_switch_settings put_dir (\<lambda>_ _. True)"
  unfolding ensure_switch_settings_def
proof (rule write_op_contract, unfold body_contract_def, intro allI impI)
  fix d assume inv: "pbx_inv d" and own: "owned D d"
  let ?b = "bind_act ensure_voicemail_dir (\<lambda>changed. ret (changed, changed))"
  have un: "untouched D d (d\<lparr>next_id := n, t_settings := ss\<rparr>)" for n ss
    by (simp add: untouched_def private_of_def)
  show "\<exists>r d'. ?b d = (Inr r, d') \<and> pbx_inv d' \<and> owned D d' \<and>
      tenant_of D d' = put_dir (tenant_of D d) \<and> untouched D d d' \<and>
      (put_dir (tenant_of D d) = tenant_of D d \<longrightarrow> d' = d \<and> \<not> snd r)"
  proof (cases "first_where is_voicemail_dir (t_settings d)")
    case None
    let ?r = "\<lparr>ds_uuid = next_id d, ds_category = ''switch'', ds_subcategory = ''voicemail'',
            ds_name = ''dir'', ds_value = Some switch_voicemail_dir, ds_enabled = True\<rparr>"
    let ?d = "d\<lparr>next_id := Suc (next_id d), t_settings := t_settings d @ [?r]\<rparr>"
    have "pbx_inv ?d"
      using inv by (auto simp: pbx_inv_def list_all_iff less_Suc_eq intro: keyed_intros)
    then show ?thesis using own None un
      by (intro exI [of _ "(True, True)"] exI [of _ ?d])
        (simp add: ensure_voicemail_dir_def insert_setting_def fresh_def bind_act_def then_act_def
          put_dir_idem, simp add: put_dir_def dir_view_def is_voicemail_dir_def)
  next
    case (Some r)
    let ?P = "\<lambda>s. ds_uuid s = ds_uuid r"
    let ?g = "\<lambda>s. s\<lparr>ds_value := Some switch_voicemail_dir, ds_enabled := True\<rparr>"
    let ?d = "d\<lparr>t_settings := update_where ?P ?g (t_settings d)\<rparr>"
    have keyed: "distinct (map ds_uuid (t_settings d))" using inv by (simp add: pbx_inv_def keyed_def)
    have "first_where is_voicemail_dir (update_where ?P ?g (t_settings d)) = Some (?g r)"
      using first_where_update_key [OF keyed, of r is_voicemail_dir ?g] Some
      by (auto simp: is_voicemail_dir_def dest: first_where_Some)
    then have t: "tenant_of D ?d = put_dir (tenant_of D d)"
      by (simp add: put_dir_def dir_view_def)
    have i: "pbx_inv ?d"
      using inv by (auto simp: pbx_inv_def list_all_iff intro: keyed_intros)
    show ?thesis
    proof (cases "ds_value r = Some switch_voicemail_dir")
      case True
      then have "put_dir (tenant_of D d) = tenant_of D d"
        using Some by (simp add: put_dir_idem dir_view_def)
      with True Some inv own show ?thesis
        by (intro exI [of _ "(False, False)"] exI [of _ d])
          (simp add: ensure_voicemail_dir_def bind_act_def)
    next
      case False
      then have "put_dir (tenant_of D d) \<noteq> tenant_of D d"
        using Some by (simp add: put_dir_idem dir_view_def)
      with False Some i own t un [where n = "next_id d"] show ?thesis
        by (intro exI [of _ "(True, True)"] exI [of _ ?d])
          (simp add: ensure_voicemail_dir_def bind_act_def)
    qed
  qed
qed

end
