(* ===== verification/PbxCallcenter.thy ===== *)
theory PbxCallcenter
  imports PbxPlans
begin

text \<open>
  The contracts of the queue operations: \<^verbatim>\<open>ensure_queue\<close> leaves the queue with the wanted
  strategy and exactly the wanted agents, \<^verbatim>\<open>delete_queue\<close> removes it, both keep every tier
  attached to a queue and an agent that exist, and both are silent when there is nothing to do.
\<close>

section \<open>Steps on agents and tiers\<close>

text \<open>A change of agents and tiers only.\<close>

definition cc_step :: "pbx \<Rightarrow> pbx \<Rightarrow> bool" where
  "cc_step d d' \<longleftrightarrow> pbx_inv d' \<and>
     d' = d\<lparr>t_agents := t_agents d', t_tiers := t_tiers d', next_id := next_id d'\<rparr>"

lemma cc_step_refl: "pbx_inv d \<Longrightarrow> cc_step d d"
  by (simp add: cc_step_def)

lemma cc_step_trans: "cc_step d d' \<Longrightarrow> cc_step d' d'' \<Longrightarrow> cc_step d d''"
  by (cases d; cases d'; cases d'') (simp add: cc_step_def)

lemma cc_step_fields:
  assumes "cc_step d d'"
  shows "t_domains d' = t_domains d" "t_queues d' = t_queues d" "t_dialplans d' = t_dialplans d"
    "t_extensions d' = t_extensions d" "t_voicemails d' = t_voicemails d"
    "t_settings d' = t_settings d"
  using assms by (cases d; cases d'; simp add: cc_step_def)+

lemma delete_tier_ok:
  assumes inv: "pbx_inv d"
  shows "\<exists>d'. delete_tier t d = (Inr (), d') \<and> cc_step d d' \<and>
    t_tiers d' = delete_where (\<lambda>s. tr_uuid s = tr_uuid t) (t_tiers d)"
proof -
  let ?ts = "delete_where (\<lambda>s. tr_uuid s = tr_uuid t) (t_tiers d)"
  let ?d1 = "d\<lparr>t_tiers := ?ts\<rparr>"
  let ?as = "if rowcount (\<lambda>s. tr_agent s = tr_agent t) ?ts = 0
    then delete_where (\<lambda>a. ag_uuid a = tr_agent t) (t_agents d) else t_agents d"
  let ?d' = "?d1\<lparr>t_agents := ?as\<rparr>"
  have none: "tr_agent s \<noteq> tr_agent t" if "rowcount (\<lambda>s. tr_agent s = tr_agent t) ?ts = 0" "s \<in> set ?ts" for s
    using that by (auto simp: rowcount_def filter_empty_conv)
  have "list_ex (\<lambda>a. ag_uuid a = tr_agent s \<and> ag_domain a = tr_domain s \<and> ag_id a = tr_agent_name s) ?as"
    if "s \<in> set ?ts" for s
  proof -
    have "list_ex (\<lambda>a. ag_uuid a = tr_agent s \<and> ag_domain a = tr_domain s \<and> ag_id a = tr_agent_name s) (t_agents d)"
      using inv that by (auto simp: pbx_inv_def list_all_iff table_simps)
    then obtain a where a: "a \<in> set (t_agents d)" "ag_uuid a = tr_agent s"
      "ag_domain a = tr_domain s" "ag_id a = tr_agent_name s" by (auto simp: list_ex_iff)
    have "a \<in> set ?as"
      using none [OF _ that] a by (auto simp: set_delete_where)
    with a show ?thesis unfolding list_ex_iff by blast
  qed
  moreover have "keyed ag_uuid (next_id d) ?as" "list_all (\<lambda>r. ag_domain r < next_id d) ?as"
    using inv by (auto simp: pbx_inv_def list_all_iff table_simps intro: keyed_intros)
  moreover have "keyed tr_uuid (next_id d) ?ts"
    using inv by (auto simp: pbx_inv_def intro: keyed_intros)
  ultimately have "pbx_inv ?d'"
    using inv by (auto simp: pbx_inv_def list_all_iff set_delete_where)
  moreover have "delete_tier t d = (Inr (), ?d')"
    by (simp add: delete_tier_def then_act_def bind_act_def drop_unreferenced_def)
  ultimately show ?thesis by (intro exI [of _ ?d']) (simp add: cc_step_def)
qed

lemma delete_tiers_ok:
  assumes "pbx_inv d"
  shows "\<exists>d'. for_each delete_tier ts d = (Inr (), d') \<and> cc_step d d' \<and>
    t_tiers d' = delete_where (\<lambda>s. tr_uuid s \<in> tr_uuid ` set ts) (t_tiers d)"
  using assms
proof (induction ts arbitrary: d)
  case Nil
  then show ?case by (simp add: cc_step_refl delete_where_def)
next
  case (Cons t ts)
  from delete_tier_ok [OF Cons.prems, of t] obtain d1 where
    1: "delete_tier t d = (Inr (), d1)" "cc_step d d1"
      "t_tiers d1 = delete_where (\<lambda>s. tr_uuid s = tr_uuid t) (t_tiers d)" by blast
  then have "pbx_inv d1" by (simp add: cc_step_def)
  from Cons.IH [OF this] obtain d2 where
    2: "for_each delete_tier ts d1 = (Inr (), d2)" "cc_step d1 d2"
      "t_tiers d2 = delete_where (\<lambda>s. tr_uuid s \<in> tr_uuid ` set ts) (t_tiers d1)" by blast
  have "t_tiers d2 = delete_where (\<lambda>s. tr_uuid s \<in> tr_uuid ` set (t # ts)) (t_tiers d)"
    unfolding 2(3) 1(3) delete_where_def filter_filter by (rule filter_cong) auto
  with 1 2 cc_step_trans show ?case
    by (intro exI [of _ d2]) (auto simp: bind_act_def)
qed

lemma queue_agents_append [simp]:
  "queue_agents (ts @ [t]) k = (if tr_queue t = k then insert (tr_agent_name t) (queue_agents ts k)
     else queue_agents ts k)"
  by (auto simp: queue_agents_def)

text \<open>Dropping the stale tiers leaves of the queue's agents those that are wanted.\<close>

lemma drop_stale_tiers_ok:
  assumes inv: "pbx_inv d"
  shows "\<exists>p' d'. drop_stale_tiers k agents p d = (Inr p', d') \<and> cc_step d d' \<and>
    queue_agents (t_tiers d') k = queue_agents (t_tiers d) k \<inter> set agents \<and>
    (\<forall>j. j \<noteq> k \<longrightarrow> queue_agents (t_tiers d') j = queue_agents (t_tiers d) j) \<and>
    (queue_agents (t_tiers d) k \<subseteq> set agents \<longrightarrow> p' = p \<and> d' = d)"
proof -
  let ?stale = "stale_tiers k agents d"
  from delete_tiers_ok [OF inv] obtain d' where
    e: "for_each delete_tier ?stale d = (Inr (), d')" and s: "cc_step d d'"
    and ts: "t_tiers d' = delete_where (\<lambda>s. tr_uuid s \<in> tr_uuid ` set ?stale) (t_tiers d)"
    by blast
  have keyed: "keyed tr_uuid (next_id d) (t_tiers d)" using inv by (simp add: pbx_inv_def)
  have st: "tr_uuid s \<in> tr_uuid ` set ?stale \<longleftrightarrow> s \<in> set ?stale" if "s \<in> set (t_tiers d)" for s
    using that keyed_unique [OF keyed] by (auto simp: stale_tiers_def)
  then have mem: "set (t_tiers d') = {s \<in> set (t_tiers d). tr_queue s = k \<longrightarrow> tr_agent_name s \<in> set agents}"
    unfolding ts by (auto simp: set_delete_where stale_tiers_def)
  have q: "queue_agents (t_tiers d') k = queue_agents (t_tiers d) k \<inter> set agents"
    "j \<noteq> k \<Longrightarrow> queue_agents (t_tiers d') j = queue_agents (t_tiers d) j" for j
    by (auto simp: queue_agents_def mem)
  have "?stale = []" if "queue_agents (t_tiers d) k \<subseteq> set agents"
    using that by (auto simp: stale_tiers_def filter_empty_conv queue_agents_def)
  moreover have "d' = d" if "?stale = []" using e that by simp
  ultimately show ?thesis using e s q
    by (intro exI [of _ "if ?stale \<noteq> [] then p\<lparr>pg_changed := True, pg_reload := True\<rparr> else p"]
          exI [of _ d'])
      (simp add: drop_stale_tiers_def Let_def then_act_def bind_act_def)
qed

section \<open>Adding agents and tiers\<close>

lemma ensure_agent_ok:
  assumes inv: "pbx_inv d" and u: "u < next_id d"
  shows "\<exists>a p' d'. ensure_agent us D u ext p d = (Inr (a, p'), d') \<and> cc_step d d' \<and>
    t_tiers d' = t_tiers d \<and> next_id d \<le> next_id d' \<and>
    list_ex (\<lambda>r. ag_uuid r = a \<and> ag_domain r = u \<and> ag_id r = ext) (t_agents d') \<and>
    (list_ex (agent_key u ext) (t_agents d) \<longrightarrow> p' = p \<and> d' = d)"
proof (cases "first_where (agent_key u ext) (t_agents d)")
  case None
  let ?c = "''user/'' @ ext @ ''@'' @ D"
  let ?r = "\<lparr>ag_uuid = next_id d, ag_domain = u, ag_id = ext, ag_name = ext, ag_type = ''callback'',
            ag_contact = ?c, ag_status = ''Available (On Demand)''\<rparr>"
  let ?d = "d\<lparr>next_id := Suc (next_id d), t_agents := t_agents d @ [?r]\<rparr>"
  have "pbx_inv ?d"
    using inv u by (auto simp: pbx_inv_def list_all_iff list_ex_iff less_Suc_eq intro: keyed_intros)
  moreover have "\<not> list_ex (agent_key u ext) (t_agents d)"
    using None by (simp add: first_where_None list_ex_iff)
  ultimately show ?thesis using None
    by (intro exI [of _ "next_id d"] exI [of _ ?d]
          exI [of _ "p\<lparr>pg_changed := True, pg_cmds := pg_cmds p @ agent_commands (us (next_id d)) ?c\<rparr>"])
      (simp add: ensure_agent_def Let_def fresh_def insert_agent_def bind_act_def then_act_def cc_step_def)
next
  case (Some a)
  then have "a \<in> set (t_agents d)" "agent_key u ext a" by (auto dest: first_where_Some)
  with Some inv show ?thesis
    by (intro exI [of _ "ag_uuid a"] exI [of _ p] exI [of _ d])
      (auto simp: ensure_agent_def Let_def cc_step_refl list_ex_iff agent_key_def)
qed

lemma ensure_tier_ok:
  assumes inv: "pbx_inv d" and q: "list_ex (\<lambda>q. q_uuid q = k \<and> q_domain q = u) (t_queues d)"
  shows "\<exists>p' d'. ensure_tier us D n u k E ext p d = (Inr p', d') \<and> cc_step d d' \<and>
    queue_agents (t_tiers d') k = queue_agents (t_tiers d) k \<union> ({ext} - E) \<and>
    (\<forall>j. j \<noteq> k \<longrightarrow> queue_agents (t_tiers d') j = queue_agents (t_tiers d) j) \<and>
    (ext \<in> E \<and> list_ex (agent_key u ext) (t_agents d) \<longrightarrow> p' = p \<and> d' = d)"
proof -
  from q inv have b: "k < next_id d" "u < next_id d"
    by (auto simp: pbx_inv_def keyed_def list_ex_iff list_all_iff)
  from ensure_agent_ok [OF inv b(2), of us D ext p] obtain a p1 d1 where
    e: "ensure_agent us D u ext p d = (Inr (a, p1), d1)" and s: "cc_step d d1"
    and t: "t_tiers d1 = t_tiers d" and le: "next_id d \<le> next_id d1"
    and a: "list_ex (\<lambda>r. ag_uuid r = a \<and> ag_domain r = u \<and> ag_id r = ext) (t_agents d1)"
    and same: "list_ex (agent_key u ext) (t_agents d) \<longrightarrow> p1 = p \<and> d1 = d"
    by blast
  show ?thesis
  proof (cases "ext \<in> E")
    case True
    with e s t same show ?thesis
      by (intro exI [of _ p1] exI [of _ d1]) (simp add: ensure_tier_def bind_act_def)
  next
    case False
    let ?t = "\<lparr>tr_uuid = next_id d1, tr_domain = u, tr_queue = k, tr_agent = a,
          tr_queue_name = n, tr_agent_name = ext, tr_level = 1, tr_position = 1\<rparr>"
    let ?d = "d1\<lparr>next_id := Suc (next_id d1), t_tiers := t_tiers d1 @ [?t]\<rparr>"
    have inv1: "pbx_inv d1" using s by (simp add: cc_step_def)
    moreover have "a < next_id d1" using a inv1 by (auto simp: pbx_inv_def keyed_def list_ex_iff)
    moreover have "list_ex (\<lambda>q. q_uuid q = k \<and> q_domain q = u) (t_queues d1)"
      using q cc_step_fields(2) [OF s] by simp
    ultimately have "pbx_inv ?d"
      using b le a by (auto simp: pbx_inv_def list_all_iff less_Suc_eq intro: keyed_intros)
    then have "cc_step d ?d"
      using cc_step_trans [OF s, of ?d] by (simp add: cc_step_def)
    with e False t show ?thesis
      by (intro exI [of _ "p1\<lparr>pg_changed := True,
                 pg_cmds := pg_cmds p1 @ [tier_command n D (us a) 1 1]\<rparr>"] exI [of _ ?d])
        (auto simp: ensure_tier_def bind_act_def then_act_def fresh_def insert_tier_def)
  qed
qed

lemma ensure_tiers_ok:
  assumes "pbx_inv d" and "list_ex (\<lambda>q. q_uuid q = k \<and> q_domain q = u) (t_queues d)"
  shows "\<exists>p' d'. ensure_tiers us D n u k E exts p d = (Inr p', d') \<and> cc_step d d' \<and>
    queue_agents (t_tiers d') k = queue_agents (t_tiers d) k \<union> (set exts - E) \<and>
    (\<forall>j. j \<noteq> k \<longrightarrow> queue_agents (t_tiers d') j = queue_agents (t_tiers d) j) \<and>
    ((\<forall>e\<in>set exts. e \<in> E \<and> list_ex (agent_key u e) (t_agents d)) \<longrightarrow> p' = p \<and> d' = d)"
  using assms
proof (induction exts arbitrary: p d)
  case Nil
  then show ?case by (simp add: cc_step_refl)
next
  case (Cons x xs)
  from ensure_tier_ok [OF Cons.prems, of us D n E x p] obtain p1 d1 where
    1: "ensure_tier us D n u k E x p d = (Inr p1, d1)" "cc_step d d1"
      "queue_agents (t_tiers d1) k = queue_agents (t_tiers d) k \<union> ({x} - E)"
      "\<forall>j. j \<noteq> k \<longrightarrow> queue_agents (t_tiers d1) j = queue_agents (t_tiers d) j"
      "x \<in> E \<and> list_ex (agent_key u x) (t_agents d) \<longrightarrow> p1 = p \<and> d1 = d" by blast
  have "pbx_inv d1" "list_ex (\<lambda>q. q_uuid q = k \<and> q_domain q = u) (t_queues d1)"
    using 1(2) Cons.prems(2) cc_step_fields(2) [OF 1(2)] by (simp_all add: cc_step_def)
  from Cons.IH [OF this, of p1] obtain p2 d2 where
    2: "ensure_tiers us D n u k E xs p1 d1 = (Inr p2, d2)" "cc_step d1 d2"
      "queue_agents (t_tiers d2) k = queue_agents (t_tiers d1) k \<union> (set xs - E)"
      "\<forall>j. j \<noteq> k \<longrightarrow> queue_agents (t_tiers d2) j = queue_agents (t_tiers d1) j"
      "(\<forall>e\<in>set xs. e \<in> E \<and> list_ex (agent_key u e) (t_agents d1)) \<longrightarrow> p2 = p1 \<and> d2 = d1" by blast
  from 1 2 cc_step_trans show ?case
    by (intro exI [of _ p2] exI [of _ d2]) (auto simp: bind_act_def)
qed

section \<open>The queue row\<close>

definition put_queue :: "string \<Rightarrow> string \<Rightarrow> string set \<Rightarrow> tenant \<Rightarrow> tenant" where
  "put_queue n strategy agents t = t\<lparr>x_queues := (x_queues t)(n \<mapsto> (Some strategy, agents))\<rparr>"

lemma put_queue_idem: "put_queue n s A t = t \<longleftrightarrow> x_queues t n = Some (Some s, A)"
  by (cases t) (auto simp: put_queue_def fun_upd_idem_iff)

lemma queue_view_Some:
  "queue_view (Some u) ts = view_of (\<lambda>q. (q_strategy q, queue_agents ts (q_uuid q))) (queue_key u)"
  by (simp add: queue_view_def fun_eq_iff)

lemma queue_rows_unique:
  assumes "pbx_inv d" and "q \<in> set (t_queues d)" and "queue_key u n q"
  shows "first_where (queue_key u n) (t_queues d) = Some q"
proof -
  obtain r where r: "first_where (queue_key u n) (t_queues d) = Some r"
    using assms(2,3) first_where_None [of "queue_key u n"] by fastforce
  moreover from first_where_Some [OF this] assms have "r = q"
    by (auto simp: pbx_inv_def queue_key_def distinct_map inj_on_def)
  ultimately show ?thesis by simp
qed

lemma no_tiers_of_fresh: "pbx_inv d \<Longrightarrow> queue_agents (t_tiers d) (next_id d) = {}"
  by (fastforce simp: pbx_inv_def queue_agents_def list_all_iff list_ex_iff keyed_def)

text \<open>
  After the first step the queue row is there with the wanted strategy; the queue has the
  agents it had.
\<close>

lemma ensure_queue_row_ok:
  assumes inv: "pbx_inv d" and u: "domain_of D d = Some u"
  shows "\<exists>k p d' A. ensure_queue_row D n strategy u d = (Inr (k, p), d') \<and> pbx_inv d' \<and>
    d' = d\<lparr>t_queues := t_queues d', next_id := next_id d'\<rparr> \<and>
    list_ex (\<lambda>q. q_uuid q = k \<and> queue_key u n q \<and> q_strategy q = Some strategy) (t_queues d') \<and>
    queue_agents (t_tiers d) k = A \<and>
    queue_view (Some u) (t_tiers d) (t_queues d') =
      (queue_view (Some u) (t_tiers d) (t_queues d))(n \<mapsto> (Some strategy, A)) \<and>
    (\<forall>v ts. v \<noteq> Some u \<longrightarrow> queue_view v ts (t_queues d') = queue_view v ts (t_queues d)) \<and>
    (\<forall>B. queue_view (Some u) (t_tiers d) (t_queues d) n = Some (Some strategy, B) \<longrightarrow>
       d' = d \<and> p = no_progress \<and> B = A)"
proof (cases "first_where (queue_key u n) (t_queues d)")
  case None
  let ?r = "\<lparr>q_uuid = next_id d, q_domain = u, q_name = n, q_extension = n,
            q_strategy = Some strategy, q_moh_sound = Some ''$${hold_music}''\<rparr>"
  let ?d = "d\<lparr>next_id := Suc (next_id d), t_queues := t_queues d @ [?r]\<rparr>"
  have "\<not> queue_key u n q" if "q \<in> set (t_queues d)" for q
    using None that by (simp add: first_where_None)
  then have "pbx_inv ?d"
    using inv domain_of_bound [OF inv u]
    by (auto simp: pbx_inv_def list_all_iff less_Suc_eq queue_key_def intro: keyed_intros)
  moreover have "queue_view (Some u) (t_tiers d) (t_queues d @ [?r]) =
      (queue_view (Some u) (t_tiers d) (t_queues d))(n \<mapsto> (Some strategy, {}))"
    unfolding queue_view_Some
    by (subst view_of_insert [where K = "queue_key u", OF None])
      (simp_all add: queue_key_def no_tiers_of_fresh [OF inv])
  moreover have "queue_view v ts (t_queues d @ [?r]) = queue_view v ts (t_queues d)" if "v \<noteq> Some u" for v ts
    using that by (auto simp: queue_view_def queue_key_def split: option.split intro!: view_of_insert_other)
  moreover have "queue_view (Some u) (t_tiers d) (t_queues d) n = None"
    using None by (simp add: queue_view_Some view_of_def)
  moreover note no_tiers_of_fresh [OF inv]
  ultimately show ?thesis using None
    by (intro exI [of _ "next_id d"] exI [of _ ?d] exI [of _ "{}"]
          exI [of _ "no_progress\<lparr>pg_changed := True, pg_cmds := [queue_load n D]\<rparr>"])
      (simp add: ensure_queue_row_def fresh_def insert_queue_def bind_act_def then_act_def queue_key_def)
next
  case (Some q)
  then have qm: "q \<in> set (t_queues d)" "queue_key u n q" by (auto dest: first_where_Some)
  let ?A = "queue_agents (t_tiers d) (q_uuid q)"
  have view: "queue_view (Some u) (t_tiers d) (t_queues d) n = Some (q_strategy q, ?A)"
    using Some by (simp add: queue_view_Some view_of_def)
  show ?thesis
  proof (cases "q_strategy q = Some strategy")
    case True
    with Some view inv qm show ?thesis
      by (intro exI [of _ "q_uuid q"] exI [of _ no_progress] exI [of _ d] exI [of _ ?A])
        (auto simp: ensure_queue_row_def list_ex_iff fun_upd_idem_iff)
  next
    case False
    let ?g = "\<lambda>q. q\<lparr>q_strategy := Some strategy\<rparr>"
    let ?qs = "update_where (\<lambda>s. q_uuid s = q_uuid q) ?g (t_queues d)"
    let ?d = "d\<lparr>t_queues := ?qs\<rparr>"
    have keyed: "distinct (map q_uuid (t_queues d))" using inv by (simp add: pbx_inv_def keyed_def)
    have one: "s = q" if "s \<in> set (t_queues d)" "q_uuid s = q_uuid q" for s
      using that qm keyed by (auto simp: distinct_map inj_on_def)
    have ri: "list_ex (\<lambda>q. q_uuid q = a \<and> q_domain q = b) ?qs"
      if "list_ex (\<lambda>q. q_uuid q = a \<and> q_domain q = b) (t_queues d)" for a b
      using that by (simp add: list_ex_update_where)
    have "distinct (map (\<lambda>q. (q_domain q, q_extension q)) ?qs)"
      using inv by (subst map_update_where) (auto simp: pbx_inv_def)
    then have "pbx_inv ?d"
      using inv ri by (auto simp: pbx_inv_def list_all_iff set_update_where intro: keyed_intros)
    moreover have "queue_view (Some u) (t_tiers d) ?qs =
        (queue_view (Some u) (t_tiers d) (t_queues d))(n \<mapsto> (Some strategy, ?A))"
      unfolding queue_view_Some using qm
      by (subst view_of_update [where K = "queue_key u", OF keyed Some]) (auto simp: queue_key_def)
    moreover have "queue_view v ts ?qs = queue_view v ts (t_queues d)" if "v \<noteq> Some u" for v ts
      using that qm by (auto simp: queue_view_def queue_key_def split: option.split
          intro!: view_of_update_other dest!: one)
    moreover have "list_ex (\<lambda>s. q_uuid s = q_uuid q \<and> queue_key u n s \<and> q_strategy s = Some strategy) ?qs"
      using qm unfolding list_ex_iff
      by (intro bexI [of _ "?g q"]) (auto simp: queue_key_def set_update_where image_iff)
    ultimately show ?thesis using Some view False
      by (intro exI [of _ "q_uuid q"] exI [of _ ?d] exI [of _ ?A]
          exI [of _ "no_progress\<lparr>pg_changed := True, pg_reload := True\<rparr>"])
        (simp add: ensure_queue_row_def set_queue_strategy_def bind_act_def then_act_def)
  qed
qed

section \<open>Provisioning\<close>

lemma queue_view_cc:
  assumes "t_queues d' = t_queues d"
    and "\<And>q. q \<in> set (t_queues d) \<Longrightarrow> v = Some (q_domain q) \<Longrightarrow>
      queue_agents (t_tiers d') (q_uuid q) = queue_agents (t_tiers d) (q_uuid q)"
  shows "queue_view v (t_tiers d') (t_queues d') = queue_view v (t_tiers d) (t_queues d)"
  using assms by (auto simp: queue_view_def queue_key_def split: option.split intro!: view_of_cong)

lemma queue_view_cc_at:
  assumes inv: "pbx_inv d" and q: "q \<in> set (t_queues d)" "queue_key u n q"
    and same: "\<And>j. j \<noteq> q_uuid q \<Longrightarrow> queue_agents ts j = queue_agents (t_tiers d) j"
  shows "queue_view (Some u) ts (t_queues d) =
      (queue_view (Some u) (t_tiers d) (t_queues d))(n \<mapsto> (q_strategy q, queue_agents ts (q_uuid q)))"
proof (rule ext)
  fix m
  have keyed: "keyed q_uuid (next_id d) (t_queues d)" using inv by (simp add: pbx_inv_def)
  show "queue_view (Some u) ts (t_queues d) m =
      ((queue_view (Some u) (t_tiers d) (t_queues d))
        (n \<mapsto> (q_strategy q, queue_agents ts (q_uuid q)))) m"
  proof (cases "m = n")
    case True
    with queue_rows_unique [OF inv q] show ?thesis by (simp add: queue_view_Some view_of_def)
  next
    case False
    have "q_uuid r \<noteq> q_uuid q" if "first_where (queue_key u m) (t_queues d) = Some r" for r
      using first_where_Some [OF that] keyed_unique [OF keyed _ q(1)] q(2) False
      by (auto simp: queue_key_def)
    with False same show ?thesis
      by (cases "first_where (queue_key u m) (t_queues d)") (auto simp: queue_view_Some view_of_def)
  qed
qed

text \<open>A wanted agent that already has a tier in the queue has its row.\<close>

lemma tier_agent_row:
  assumes inv: "pbx_inv d" and q: "list_ex (\<lambda>q. q_uuid q = k \<and> q_domain q = u) (t_queues d)"
    and e: "e \<in> queue_agents (t_tiers d) k"
  shows "list_ex (agent_key u e) (t_agents d)"
proof -
  from e obtain t where t: "t \<in> set (t_tiers d)" "tr_queue t = k" "tr_agent_name t = e"
    by (auto simp: queue_agents_def)
  with inv obtain q' a where q': "q' \<in> set (t_queues d)" "q_uuid q' = k" "q_domain q' = tr_domain t"
    and a: "a \<in> set (t_agents d)" "ag_domain a = tr_domain t" "ag_id a = e"
    by (fastforce simp: pbx_inv_def list_all_iff list_ex_iff)
  from q obtain q'' where "q'' \<in> set (t_queues d)" "q_uuid q'' = k" "q_domain q'' = u"
    by (auto simp: list_ex_iff)
  with q' inv have "q'' = q'" using keyed_unique [of q_uuid "next_id d" "t_queues d"]
    by (simp add: pbx_inv_def)
  with a q' \<open>q_domain q'' = u\<close> show ?thesis by (auto simp: list_ex_iff agent_key_def)
qed

lemma set_dedupe [simp]: "set (dedupe xs) = set xs"
  by (simp add: dedupe_def)

lemma dedupe_Nil [simp]: "dedupe xs = [] \<longleftrightarrow> xs = []"
  by (simp add: dedupe_def)

text \<open>The transaction between the domain and the dialplan.\<close>

lemma queue_rows_ok:
  assumes inv: "pbx_inv d" and u: "domain_of D d = Some u"
  shows "\<exists>p d'. bind_act (ensure_queue_row D n strategy u) (\<lambda>(queue_uuid, p).
     bind_act (\<lambda>d. ret (tr_agent_name ` set (filter (\<lambda>t. tr_queue t = queue_uuid) (t_tiers d))) d)
       (\<lambda>existing.
     bind_act (drop_stale_tiers queue_uuid agents p)
       (ensure_tiers us D n u queue_uuid existing agents))) d = (Inr p, d') \<and>
    pbx_inv d' \<and> t_domains d' = t_domains d \<and> t_dialplans d' = t_dialplans d \<and>
    t_extensions d' = t_extensions d \<and> t_voicemails d' = t_voicemails d \<and>
    t_settings d' = t_settings d \<and>
    queue_view (Some u) (t_tiers d') (t_queues d') =
      (queue_view (Some u) (t_tiers d) (t_queues d))(n \<mapsto> (Some strategy, set agents)) \<and>
    (\<forall>v. v \<noteq> Some u \<longrightarrow> queue_view v (t_tiers d') (t_queues d') = queue_view v (t_tiers d) (t_queues d)) \<and>
    (queue_view (Some u) (t_tiers d) (t_queues d) n = Some (Some strategy, set agents) \<longrightarrow>
       d' = d \<and> p = no_progress)"
proof -
  from ensure_queue_row_ok [OF inv u, of n strategy] obtain k p1 d1 A where
    e1: "ensure_queue_row D n strategy u d = (Inr (k, p1), d1)" and inv1: "pbx_inv d1"
    and r1: "d1 = d\<lparr>t_queues := t_queues d1, next_id := next_id d1\<rparr>"
    and q: "list_ex (\<lambda>q. q_uuid q = k \<and> queue_key u n q \<and> q_strategy q = Some strategy) (t_queues d1)"
    and A: "queue_agents (t_tiers d) k = A"
    and v1: "queue_view (Some u) (t_tiers d) (t_queues d1) =
      (queue_view (Some u) (t_tiers d) (t_queues d))(n \<mapsto> (Some strategy, A))"
    and o1: "\<forall>v ts. v \<noteq> Some u \<longrightarrow> queue_view v ts (t_queues d1) = queue_view v ts (t_queues d)"
    and s1: "\<forall>B. queue_view (Some u) (t_tiers d) (t_queues d) n = Some (Some strategy, B) \<longrightarrow>
       d1 = d \<and> p1 = no_progress \<and> B = A" by blast
  from r1 have f1: "t_tiers d1 = t_tiers d" "t_domains d1 = t_domains d" "t_dialplans d1 = t_dialplans d"
    "t_extensions d1 = t_extensions d" "t_voicemails d1 = t_voicemails d" "t_settings d1 = t_settings d"
    by (cases d; cases d1; simp)+
  from q obtain qr where qr: "qr \<in> set (t_queues d1)" "queue_key u n qr" "q_uuid qr = k"
    "q_strategy qr = Some strategy" by (auto simp: list_ex_iff)
  then have qk: "list_ex (\<lambda>q. q_uuid q = k \<and> q_domain q = u) (t_queues d1)"
    by (auto simp: list_ex_iff queue_key_def)
  let ?E = "queue_agents (t_tiers d1) k"
  from drop_stale_tiers_ok [OF inv1, of k agents p1] obtain p2 d2 where
    e2: "drop_stale_tiers k agents p1 d1 = (Inr p2, d2)" and c2: "cc_step d1 d2"
    and a2: "queue_agents (t_tiers d2) k = ?E \<inter> set agents"
    and o2: "\<forall>j. j \<noteq> k \<longrightarrow> queue_agents (t_tiers d2) j = queue_agents (t_tiers d1) j"
    and s2: "?E \<subseteq> set agents \<longrightarrow> p2 = p1 \<and> d2 = d1" by blast
  have inv2: "pbx_inv d2" and qk2: "list_ex (\<lambda>q. q_uuid q = k \<and> q_domain q = u) (t_queues d2)"
    using c2 qk cc_step_fields(2) [OF c2] by (simp_all add: cc_step_def)
  from ensure_tiers_ok [OF inv2 qk2, of us D n ?E agents p2] obtain p3 d3 where
    e3: "ensure_tiers us D n u k ?E agents p2 d2 = (Inr p3, d3)" and c3: "cc_step d2 d3"
    and a3: "queue_agents (t_tiers d3) k = queue_agents (t_tiers d2) k \<union> (set agents - ?E)"
    and o3: "\<forall>j. j \<noteq> k \<longrightarrow> queue_agents (t_tiers d3) j = queue_agents (t_tiers d2) j"
    and s3: "(\<forall>e\<in>set agents. e \<in> ?E \<and> list_ex (agent_key u e) (t_agents d2)) \<longrightarrow> p3 = p2 \<and> d3 = d2"
    by blast
  note c = cc_step_trans [OF c2 c3]
  note fields = cc_step_fields [OF c]
  have agents: "queue_agents (t_tiers d3) k = set agents" using a2 a3 by auto
  have others: "queue_agents (t_tiers d3) j = queue_agents (t_tiers d1) j" if "j \<noteq> k" for j
    using that o2 o3 by simp
  have v: "queue_view (Some u) (t_tiers d3) (t_queues d3) =
      (queue_view (Some u) (t_tiers d) (t_queues d))(n \<mapsto> (Some strategy, set agents))"
    using queue_view_cc_at [OF inv1 qr(1,2), of "t_tiers d3"] others qr(3,4) agents v1 fields(2) f1(1)
    by simp
  have o: "queue_view v (t_tiers d3) (t_queues d3) = queue_view v (t_tiers d) (t_queues d)"
    if "v \<noteq> Some u" for v
  proof -
    have "queue_agents (t_tiers d3) (q_uuid r) = queue_agents (t_tiers d1) (q_uuid r)"
      if "r \<in> set (t_queues d1)" "v = Some (q_domain r)" for r
    proof -
      have "q_uuid r \<noteq> k"
        using that \<open>v \<noteq> Some u\<close> qr inv1 keyed_unique [of q_uuid "next_id d1" "t_queues d1" r qr]
        by (auto simp: pbx_inv_def queue_key_def)
      then show ?thesis by (rule others)
    qed
    then have "queue_view v (t_tiers d3) (t_queues d3) = queue_view v (t_tiers d1) (t_queues d1)"
      by (intro queue_view_cc fields(2)) auto
    then show ?thesis using o1 that f1(1) by simp
  qed
  have quiet: "d3 = d \<and> p3 = no_progress"
    if h: "queue_view (Some u) (t_tiers d) (t_queues d) n = Some (Some strategy, set agents)"
  proof -
    from s1 h have 1: "d1 = d" "p1 = no_progress" "A = set agents" by auto
    with A have E: "?E = set agents" by simp
    with s2 have 2: "p2 = p1" "d2 = d1" by auto
    have "list_ex (agent_key u e) (t_agents d2)" if "e \<in> set agents" for e
      using tier_agent_row [OF inv1 qk] that E 2 by simp
    with s3 E have "p3 = p2" "d3 = d2" by auto
    with 1 2 show ?thesis by simp
  qed
  have "bind_act (ensure_queue_row D n strategy u) (\<lambda>(queue_uuid, p).
     bind_act (\<lambda>d. ret (tr_agent_name ` set (filter (\<lambda>t. tr_queue t = queue_uuid) (t_tiers d))) d)
       (\<lambda>existing.
     bind_act (drop_stale_tiers queue_uuid agents p)
       (ensure_tiers us D n u queue_uuid existing agents))) d = (Inr p3, d3)"
    using e1 e2 e3 by (simp add: bind_act_def queue_agents_def)
  with v o quiet c fields f1 show ?thesis
    by (intro exI [of _ p3] exI [of _ d3]) (auto simp: cc_step_def)
qed

lemma plan_name_ofI: "CHR ''-'' \<notin> set n \<Longrightarrow> plan_name_of k D (dialplan_name k D n)"
  by (auto simp: plan_name_of_def)

text \<open>A transaction followed by the effects it decided on.\<close>

lemma transaction_contract:
  assumes b: "\<And>us. body_contract D pre (body us) f (\<lambda>r. out r = [])"
    and k: "\<And>r w. k r w = (Inr (res r), w\<lparr>effects := effects w @ out r\<rparr>)"
  shows "contract D pre (\<lambda>w. bind_act (transaction what (body (uuid_text w))) k w) f (\<lambda>_ _. True)"
  unfolding contract_def
proof (intro allI impI)
  fix w assume s: "sound D w" and p: "pre (tenant_of D (db w))"
  let ?w1 = "w\<lparr>txno := Suc (txno w)\<rparr>" and ?t = "tenant_of D (db w)"
  let ?m = "\<lambda>w. bind_act (transaction what (body (uuid_text w))) k w"
  from s p b [of "uuid_text w"] obtain r d' where body: "body (uuid_text w) (db w) = (Inr r, d')"
    and inv: "pbx_inv d'" "owned D d'" and t: "tenant_of D d' = f ?t"
    and u: "untouched D (db w) d'" and q: "f ?t = ?t \<longrightarrow> d' = db w \<and> out r = []"
    unfolding body_contract_def sound_def by blast
  show "\<exists>w'. sound D w' \<and> plan w' = plan w \<and>
       ((\<exists>r. ?m w = (Inr r, w') \<and> tenant_of D (db w') = f ?t \<and> untouched D (db w) (db w') \<and> True \<and>
           (f ?t = ?t \<longrightarrow> db w' = db w \<and> effects w' = effects w)) \<or>
        (?m w = (Inl unreachable, w') \<and> \<not> all_up w \<and> db w' = db w \<and> effects w' = effects w))"
  proof (cases "plan w (txno w)")
    case DbOk
    let ?w' = "?w1\<lparr>db := d', effects := effects w @ out r\<rparr>"
    have "?m w = (Inr (res r), ?w')"
      by (simp add: transaction_def Let_def bind_act_def DbOk body k)
    moreover have "sound D ?w'" using s inv by (simp add: sound_def tame_def)
    ultimately show ?thesis using t u q by (intro exI [of _ ?w']) auto
  next
    case DbUnreachable
    have "?m w = (Inl unreachable, ?w1)"
      by (simp add: transaction_def Let_def bind_act_def DbUnreachable)
    moreover have "sound D ?w1" using s by (simp add: sound_def tame_def)
    moreover have "\<not> all_up w" using DbUnreachable by (auto simp: all_up_def)
    ultimately show ?thesis by (intro exI [of _ ?w1]) auto
  next
    case DbIntegrity
    with s show ?thesis by (simp add: sound_def tame_def)
  qed
qed

lemma for_each_commands:
  "for_each send_command cmds w = (Inr (), w\<lparr>effects := effects w @ map Command cmds\<rparr>)"
  by (induction cmds arbitrary: w) (simp_all add: bind_act_def send_command_def)

definition provision_queue :: "string \<Rightarrow> string \<Rightarrow> string \<Rightarrow> string set \<Rightarrow> tenant \<Rightarrow> tenant" where
  "provision_queue D n strategy agents t =
     put_queue_plan (dialplan_name ''queue'' D n) (queue_xml D n) (put_queue n strategy agents t)"

lemma provision_queue_idem:
  "provision_queue D n s A t = t \<longleftrightarrow>
     x_queues t n = Some (Some s, A) \<and>
     x_queue_plans t (dialplan_name ''queue'' D n) = Some (Some (queue_xml D n))"
  by (cases t) (auto simp: provision_queue_def put_queue_plan_def put_queue_def fun_upd_idem_iff)

lemma ensure_queue_body_contract:
  assumes n: "CHR ''-'' \<notin> set n"
  shows "body_contract D (\<lambda>_. True) (ensure_queue_body us D n agents strategy)
    (\<lambda>t. provision_queue D n strategy (set agents) (t\<lparr>x_exists := True\<rparr>))
    (\<lambda>r. \<not> fst r \<and> snd r = [])"
  unfolding ensure_queue_body_def
proof (rule ensure_domain_bind [where g = "provision_queue D n strategy (set agents)"], goal_cases)
  case (1 u c d)
  note inv = 1(1) and own = 1(2) and u = 1(3)
  let ?name = "dialplan_name ''queue'' D n" and ?t = "tenant_of D d"
  let ?rows = "bind_act (ensure_queue_row D n strategy u) (\<lambda>(queue_uuid, p).
     bind_act (\<lambda>d. ret (tr_agent_name ` set (filter (\<lambda>t. tr_queue t = queue_uuid) (t_tiers d))) d)
       (\<lambda>existing.
     bind_act (drop_stale_tiers queue_uuid agents p)
       (ensure_tiers us D n u queue_uuid existing agents)))"
  from queue_rows_ok [OF inv u, where n = n and strategy = strategy and us = us and agents = agents] obtain p d1 where
    e1: "?rows d = (Inr p, d1)" and inv1: "pbx_inv d1" and
    f: "t_domains d1 = t_domains d" "t_dialplans d1 = t_dialplans d"
      "t_extensions d1 = t_extensions d" "t_voicemails d1 = t_voicemails d" "t_settings d1 = t_settings d"
    and v: "queue_view (Some u) (t_tiers d1) (t_queues d1) =
      (queue_view (Some u) (t_tiers d) (t_queues d))(n \<mapsto> (Some strategy, set agents))"
    and o: "\<forall>v. v \<noteq> Some u \<longrightarrow> queue_view v (t_tiers d1) (t_queues d1) = queue_view v (t_tiers d) (t_queues d)"
    and q: "queue_view (Some u) (t_tiers d) (t_queues d) n = Some (Some strategy, set agents) \<longrightarrow>
       d1 = d \<and> p = no_progress" by blast
  have u1: "domain_of E d1 = domain_of E d" for E using f by (simp add: domain_of_def)
  have own1: "owned E d1 = owned E d" for E using f by (simp add: owned_def)
  have t1: "tenant_of D d1 = put_queue n strategy (set agents) ?t"
    using f v u by (simp add: tenant_of_def put_queue_def u1)
  have un1: "untouched D d d1"
    using f o own1 by (intro untouched_at [OF inv u]) auto
  have "owned D d1" "domain_of D d1 = Some u" using own1 u1 own u by auto
  from ensure_queue_plan [OF inv1 this plan_name_ofI [OF n], of n 53 "queue_xml D n"] obtain ch d2 where
    e2: "ensure_dialplan ?name n 53 (queue_xml D n) (queue_tag D) d1 = (Inr ch, d2)"
    and inv2: "pbx_inv d2" "owned D d2"
    and t2: "tenant_of D d2 = put_queue_plan ?name (queue_xml D n) (tenant_of D d1)"
    and un2: "untouched D d1 d2"
    and q2: "put_queue_plan ?name (queue_xml D n) (tenant_of D d1) = tenant_of D d1 \<longrightarrow> d2 = d1 \<and> \<not> ch"
    by blast
  have quiet: "d2 = d \<and> \<not> ch \<and> p = no_progress"
    if "provision_queue D n strategy (set agents) ?t = ?t"
  proof -
    from that have "x_queues ?t n = Some (Some strategy, set agents)"
      and "x_queue_plans ?t ?name = Some (Some (queue_xml D n))"
      by (simp_all only: provision_queue_idem)
    with q u have "d1 = d" "p = no_progress" by auto
    with q2 \<open>x_queue_plans ?t ?name = Some (Some (queue_xml D n))\<close> show ?thesis
      by (simp add: put_queue_plan_idem)
  qed
  let ?r = "(pg_changed p \<or> ch, finish_queue D n p)"
  have b1: "bind_act ?rows K d = K p d1" for K :: "progress \<Rightarrow> (pbx, bool \<times> string list) act"
    by (rule bind_act_step, rule e1)
  have b2: "bind_act (ensure_dialplan ?name n 53 (queue_xml D n) (queue_tag D)) K d1 = K ch d2"
    for K :: "bool \<Rightarrow> (pbx, bool \<times> string list) act"
    by (rule bind_act_step, rule e2)
  have "(case (u, c) of (u, _) \<Rightarrow>
     bind_act (ensure_queue_row D n strategy u) (\<lambda>(queue_uuid, p).
     bind_act (\<lambda>d. ret (tr_agent_name ` set (filter (\<lambda>t. tr_queue t = queue_uuid) (t_tiers d))) d)
       (\<lambda>existing.
     bind_act (drop_stale_tiers queue_uuid agents p) (\<lambda>p.
     bind_act (ensure_tiers us D n u queue_uuid existing agents p) (\<lambda>p.
     bind_act (ensure_dialplan ?name n 53 (queue_xml D n) (queue_tag D)) (\<lambda>plan_changed.
       ret (pg_changed p \<or> plan_changed, finish_queue D n p))))))) =
     bind_act ?rows (\<lambda>p. bind_act (ensure_dialplan ?name n 53 (queue_xml D n) (queue_tag D))
       (\<lambda>plan_changed. ret (pg_changed p \<or> plan_changed, finish_queue D n p)))"
    by (simp add: bind_act_assoc split_def)
  then have "(case (u, c) of (u, _) \<Rightarrow>
     bind_act (ensure_queue_row D n strategy u) (\<lambda>(queue_uuid, p).
     bind_act (\<lambda>d. ret (tr_agent_name ` set (filter (\<lambda>t. tr_queue t = queue_uuid) (t_tiers d))) d)
       (\<lambda>existing.
     bind_act (drop_stale_tiers queue_uuid agents p) (\<lambda>p.
     bind_act (ensure_tiers us D n u queue_uuid existing agents p) (\<lambda>p.
     bind_act (ensure_dialplan ?name n 53 (queue_xml D n) (queue_tag D)) (\<lambda>plan_changed.
       ret (pg_changed p \<or> plan_changed, finish_queue D n p))))))) d = (Inr ?r, d2)"
    by (simp only: b1 b2) (simp only: ret_apply)
  moreover have "tenant_of D d2 = provision_queue D n strategy (set agents) ?t"
    by (simp add: provision_queue_def t2 t1)
  moreover have "\<not> fst ?r \<and> snd ?r = []" if "provision_queue D n strategy (set agents) ?t = ?t"
    using quiet [OF that] by (simp add: no_progress_def finish_queue_def)
  ultimately show ?case
    using inv2 untouched_trans [OF un1 un2] quiet by blast
qed (simp add: provision_queue_def put_queue_plan_def put_queue_def)

lemma ensure_queue_contract:
  assumes "valid_domain D" and "valid_token n" and n: "CHR ''-'' \<notin> set n"
    and "agents \<noteq> []" and "list_all valid_token agents"
  shows "contract D (\<lambda>_. True) (ensure_queue D n agents strategy)
    (\<lambda>t. provision_queue D n strategy (set agents) (t\<lparr>x_exists := True\<rparr>)) (\<lambda>_ _. True)"
proof -
  let ?out = "\<lambda>(changed, cmds). (if changed then [Reload] else []) @ map Command cmds"
  let ?k = "\<lambda>(changed, cmds). then_act (if changed then reload else ret ())
          (then_act (for_each send_command cmds) (ret (dialplan_name ''queue'' D n, changed)))"
  have "contract D (\<lambda>_. True) (\<lambda>w. bind_act (transaction (Some ''FusionPBX queue insert failed'')
        (ensure_queue_body (uuid_text w) D n (dedupe agents) strategy)) ?k w)
      (\<lambda>t. provision_queue D n strategy (set (dedupe agents)) (t\<lparr>x_exists := True\<rparr>)) (\<lambda>_ _. True)"
  proof (rule transaction_contract [where out = ?out and
        res = "\<lambda>r. (dialplan_name ''queue'' D n, fst r)"])
    fix us
    have "(\<lambda>r. ?out r = []) = (\<lambda>r. \<not> fst r \<and> snd r = [])" by auto
    then show "body_contract D (\<lambda>_. True) (ensure_queue_body us D n (dedupe agents) strategy)
        (\<lambda>t. provision_queue D n strategy (set (dedupe agents)) (t\<lparr>x_exists := True\<rparr>)) (\<lambda>r. ?out r = [])"
      using ensure_queue_body_contract [OF n, of D us "dedupe agents" strategy] by simp
  next
    fix r w
    show "?k r w = (Inr (dialplan_name ''queue'' D n, fst r), w\<lparr>effects := effects w @ ?out r\<rparr>)"
      by (cases r) (simp add: then_act_def bind_act_def reload_def for_each_commands)
  qed
  then show ?thesis
    unfolding ensure_queue_def using assms
    by (intro contract_check_names contract_guard_act contract_guard)
      (auto simp: check_each_Inr list_all_iff require_dial_token_def)
qed

section \<open>Deleting\<close>

lemma drop_unreferenced_ok:
  assumes inv: "pbx_inv d"
  shows "\<exists>d'. drop_unreferenced a d = (Inr (), d') \<and> cc_step d d' \<and> t_tiers d' = t_tiers d"
proof -
  let ?as = "delete_where (\<lambda>r. ag_uuid r = a) (t_agents d)"
  let ?d = "d\<lparr>t_agents := ?as\<rparr>"
  have "pbx_inv ?d" if z: "rowcount (\<lambda>t. tr_agent t = a) (t_tiers d) = 0"
  proof -
    have "list_ex (\<lambda>r. ag_uuid r = tr_agent t \<and> ag_domain r = tr_domain t \<and> ag_id r = tr_agent_name t) ?as"
      if "t \<in> set (t_tiers d)" for t
    proof -
      have "tr_agent t \<noteq> a" using z that by (auto simp: rowcount_def filter_empty_conv)
      with inv that show ?thesis by (fastforce simp: pbx_inv_def list_all_iff list_ex_iff set_delete_where)
    qed
    then show ?thesis using inv
      by (auto simp: pbx_inv_def list_all_iff set_delete_where intro: keyed_intros)
  qed
  then show ?thesis using inv
    by (auto simp: drop_unreferenced_def cc_step_def)
qed

lemma drop_all_ok:
  assumes "pbx_inv d"
  shows "\<exists>d'. for_each drop_unreferenced ids d = (Inr (), d') \<and> cc_step d d' \<and> t_tiers d' = t_tiers d"
  using assms
proof (induction ids arbitrary: d)
  case Nil
  then show ?case by (simp add: cc_step_refl)
next
  case (Cons a ids)
  from drop_unreferenced_ok [OF Cons.prems, of a] obtain d1 where
    1: "drop_unreferenced a d = (Inr (), d1)" "cc_step d d1" "t_tiers d1 = t_tiers d" by blast
  then have "pbx_inv d1" by (simp add: cc_step_def)
  from Cons.IH [OF this] 1 cc_step_trans show ?case by (fastforce simp: bind_act_def)
qed

lemma delete_queue_rows_ok:
  assumes inv: "pbx_inv d" and q: "q \<in> set (t_queues d)" "queue_key u n q"
  shows "\<exists>d'. delete_queue_rows q d = (Inr (), d') \<and> pbx_inv d' \<and>
    t_domains d' = t_domains d \<and> t_dialplans d' = t_dialplans d \<and>
    t_extensions d' = t_extensions d \<and> t_voicemails d' = t_voicemails d \<and>
    t_settings d' = t_settings d \<and>
    queue_view (Some u) (t_tiers d') (t_queues d') = (queue_view (Some u) (t_tiers d) (t_queues d))(n := None) \<and>
    (\<forall>v. v \<noteq> Some u \<longrightarrow> queue_view v (t_tiers d') (t_queues d') = queue_view v (t_tiers d) (t_queues d))"
proof -
  let ?ts = "delete_where (\<lambda>t. tr_queue t = q_uuid q) (t_tiers d)"
  let ?qs = "delete_where (\<lambda>r. q_uuid r = q_uuid q) (t_queues d)"
  let ?d = "d\<lparr>t_tiers := ?ts, t_queues := ?qs\<rparr>"
  have keyed: "keyed q_uuid (next_id d) (t_queues d)" using inv by (simp add: pbx_inv_def)
  have one: "r = q" if "r \<in> set (t_queues d)" "q_uuid r = q_uuid q" for r
    using keyed_unique [OF keyed that(1) q(1) that(2)] .
  have key: "r = q" if "r \<in> set (t_queues d)" "queue_key u n r" for r
    using queue_rows_unique [OF inv that] queue_rows_unique [OF inv q] by simp
  have ri: "list_ex (\<lambda>r. q_uuid r = tr_queue t \<and> q_domain r = tr_domain t) ?qs"
    if "t \<in> set ?ts" for t
    using inv that by (fastforce simp: pbx_inv_def list_all_iff list_ex_iff set_delete_where)
  have dq: "distinct (map (\<lambda>q. (q_domain q, q_extension q)) ?qs)"
    using inv by (simp add: pbx_inv_def delete_where_def distinct_map_filter)
  have "pbx_inv ?d"
    using inv ri dq by (auto simp: pbx_inv_def list_all_iff set_delete_where intro: keyed_intros)
  from drop_all_ok [OF this] obtain d' where
    e: "for_each drop_unreferenced (map tr_agent (filter (\<lambda>t. tr_queue t = q_uuid q) (t_tiers d))) ?d = (Inr (), d')"
    and c: "cc_step ?d d'" and t: "t_tiers d' = ?ts" by auto
  have same: "queue_agents ?ts j = queue_agents (t_tiers d) j" if "j \<noteq> q_uuid q" for j
    using that by (auto simp: queue_agents_def set_delete_where)
  have view: "view_of (\<lambda>r. (q_strategy r, queue_agents ?ts (q_uuid r))) (queue_key v) ?qs =
      view_of (\<lambda>r. (q_strategy r, queue_agents (t_tiers d) (q_uuid r))) (queue_key v) ?qs" for v
    by (rule view_of_cong) (auto simp: set_delete_where same)
  have "queue_view (Some u) ?ts ?qs = (queue_view (Some u) (t_tiers d) (t_queues d))(n := None)"
    unfolding queue_view_Some view
  proof (rule view_of_delete)
    fix j r assume r: "r \<in> set (t_queues d)" "queue_key u j r"
    show "q_uuid r = q_uuid q \<longleftrightarrow> j = n"
    proof
      assume "q_uuid r = q_uuid q"
      with one r q show "j = n" by (auto simp: queue_key_def)
    next
      assume "j = n"
      with r key show "q_uuid r = q_uuid q" by blast
    qed
  qed
  moreover have "queue_view v ?ts ?qs = queue_view v (t_tiers d) (t_queues d)" if "v \<noteq> Some u" for v
  proof (cases v)
    case (Some x)
    have "view_of (\<lambda>r. (q_strategy r, queue_agents (t_tiers d) (q_uuid r))) (queue_key x) ?qs =
        view_of (\<lambda>r. (q_strategy r, queue_agents (t_tiers d) (q_uuid r))) (queue_key x) (t_queues d)"
      using that Some q by (intro view_of_delete_other) (auto simp: queue_key_def dest!: one)
    with Some view show ?thesis by (simp add: queue_view_Some)
  qed (simp add: queue_view_def)
  ultimately show ?thesis
    using e t c cc_step_fields [OF c]
    by (intro exI [of _ d']) (simp add: delete_queue_rows_def Let_def cc_step_def)
qed

definition remove_queue :: "string \<Rightarrow> string \<Rightarrow> tenant \<Rightarrow> tenant" where
  "remove_queue D n t = t\<lparr>x_queues := (x_queues t)(n := None),
     x_queue_plans := (x_queue_plans t)(dialplan_name ''queue'' D n := None)\<rparr>"

lemma remove_queue_idem:
  "remove_queue D n t = t \<longleftrightarrow>
     x_queues t n = None \<and> x_queue_plans t (dialplan_name ''queue'' D n) = None"
  by (cases t) (auto simp: remove_queue_def fun_upd_idem_iff)

text \<open>Deleting a queue's dialplan row.\<close>

lemma delete_queue_plan_ok:
  assumes inv: "pbx_inv d" and own: "owned D d" and u: "domain_of D d = Some u"
    and name: "plan_name_of ''queue'' D name"
  shows "\<exists>b d'. delete_dialplan_row name d = (Inr b, d') \<and> pbx_inv d' \<and> owned D d' \<and>
    tenant_of D d' = (tenant_of D d)\<lparr>x_queue_plans := (x_queue_plans (tenant_of D d))(name := None)\<rparr> \<and>
    untouched D d d' \<and> (x_queue_plans (tenant_of D d) name = None \<longrightarrow> d' = d \<and> \<not> b)"
proof -
  let ?rows = "t_dialplans d"
  let ?ps = "delete_where (public_named name) ?rows"
  let ?d = "d\<lparr>t_dialplans := ?ps\<rparr>"
  have tagged: "dp_description r = Some (queue_tag D)" if "r \<in> set ?rows" "public_named name r" for r
    using owned_tagged(2) [OF own that name] .
  have nr: "name \<noteq> routing_name" using name by auto
  have "pbx_inv ?d" using inv by (auto simp: pbx_inv_def list_all_iff intro: keyed_intros)
  moreover have ow: "owned E ?d" if "owned E d" for E
    using that by (auto simp: owned_def list_all_iff table_simps)
  moreover have frame: "plan_view tag ?ps = plan_view tag ?rows" if "tag \<noteq> queue_tag D" for tag
    unfolding plan_view_def using that tagged
    by (intro view_of_delete_other) (auto simp: plan_key_def)
  moreover have "plan_view (queue_tag D) ?ps = (plan_view (queue_tag D) ?rows)(name := None)"
    unfolding plan_view_def by (rule view_of_delete) (auto simp: plan_key_def public_named_def)
  moreover have "routing_view ?ps = routing_view ?rows"
    unfolding routing_view_def using nr
    by (intro arg_cong [where f = "map_option dp_xml"] first_where_delete_other)
      (auto simp: public_named_def)
  moreover have "?ps = ?rows \<and> \<not> 0 < rowcount (public_named name) ?rows"
    if "x_queue_plans (tenant_of D d) name = None"
  proof -
    have "\<forall>r\<in>set ?rows. \<not> public_named name r"
      using that tagged by (auto simp: plan_view_def view_of_None plan_key_def)
    then show ?thesis by (auto simp: rowcount_pos intro: delete_where_none)
  qed
  ultimately show ?thesis using own u
    by (intro exI [of _ "0 < rowcount (public_named name) ?rows"] exI [of _ ?d])
      (auto simp: delete_dialplan_row_def untouched_def private_of_def tenant_of_def)
qed

lemma delete_queue_body_contract:
  assumes n: "CHR ''-'' \<notin> set n"
  shows "body_contract D x_exists (delete_queue_body D n) (remove_queue D n) (\<lambda>b. \<not> b)"
  unfolding body_contract_def
proof (intro allI impI)
  fix d assume inv: "pbx_inv d" and own: "owned D d" and ex: "x_exists (tenant_of D d)"
  then obtain u where u: "domain_of D d = Some u" by auto
  let ?name = "dialplan_name ''queue'' D n" and ?t = "tenant_of D d"
  let ?row = "case first_where (queue_key u n) (t_queues d) of
      None \<Rightarrow> ret False | Some q \<Rightarrow> then_act (delete_queue_rows q) (ret True)"
  have "\<exists>b d1. ?row d = (Inr b, d1) \<and> pbx_inv d1 \<and>
    t_domains d1 = t_domains d \<and> t_dialplans d1 = t_dialplans d \<and>
    t_extensions d1 = t_extensions d \<and> t_voicemails d1 = t_voicemails d \<and>
    t_settings d1 = t_settings d \<and>
    queue_view (Some u) (t_tiers d1) (t_queues d1) = (queue_view (Some u) (t_tiers d) (t_queues d))(n := None) \<and>
    (\<forall>v. v \<noteq> Some u \<longrightarrow> queue_view v (t_tiers d1) (t_queues d1) = queue_view v (t_tiers d) (t_queues d)) \<and>
    (queue_view (Some u) (t_tiers d) (t_queues d) n = None \<longrightarrow> d1 = d \<and> \<not> b)"
  proof (cases "first_where (queue_key u n) (t_queues d)")
    case None
    then have "queue_view (Some u) (t_tiers d) (t_queues d) n = None"
      by (simp add: queue_view_Some view_of_def)
    with None inv show ?thesis
      by (intro exI [of _ False] exI [of _ d]) (simp add: fun_upd_idem)
  next
    case (Some q)
    then have q: "q \<in> set (t_queues d)" "queue_key u n q" by (auto dest: first_where_Some)
    from Some have "queue_view (Some u) (t_tiers d) (t_queues d) n \<noteq> None"
      by (simp add: queue_view_Some view_of_def)
    with delete_queue_rows_ok [OF inv q] Some show ?thesis
      by (fastforce simp: then_act_def bind_act_def)
  qed
  then obtain b d1 where e1: "?row d = (Inr b, d1)" and inv1: "pbx_inv d1" and
    f: "t_domains d1 = t_domains d" "t_dialplans d1 = t_dialplans d"
      "t_extensions d1 = t_extensions d" "t_voicemails d1 = t_voicemails d" "t_settings d1 = t_settings d"
    and v: "queue_view (Some u) (t_tiers d1) (t_queues d1) =
      (queue_view (Some u) (t_tiers d) (t_queues d))(n := None)"
    and o: "\<forall>v. v \<noteq> Some u \<longrightarrow> queue_view v (t_tiers d1) (t_queues d1) = queue_view v (t_tiers d) (t_queues d)"
    and q: "queue_view (Some u) (t_tiers d) (t_queues d) n = None \<longrightarrow> d1 = d \<and> \<not> b"
    by (elim exE conjE) (rule that; assumption)
  have u1: "domain_of E d1 = domain_of E d" for E using f by (simp add: domain_of_def)
  have own1: "owned E d1 = owned E d" for E using f by (simp add: owned_def)
  have t1: "tenant_of D d1 = ?t\<lparr>x_queues := (x_queues ?t)(n := None)\<rparr>"
    using f v u by (simp add: tenant_of_def u1)
  have un1: "untouched D d d1" using f o own1 by (intro untouched_at [OF inv u]) auto
  have "owned D d1" "domain_of D d1 = Some u" using own1 u1 own u by auto
  from delete_queue_plan_ok [OF inv1 this plan_name_ofI [OF n]] obtain c d2 where
    e2: "delete_dialplan_row ?name d1 = (Inr c, d2)" and inv2: "pbx_inv d2" "owned D d2"
    and t2: "tenant_of D d2 =
      (tenant_of D d1)\<lparr>x_queue_plans := (x_queue_plans (tenant_of D d1))(?name := None)\<rparr>"
    and un2: "untouched D d1 d2"
    and q2: "x_queue_plans (tenant_of D d1) ?name = None \<longrightarrow> d2 = d1 \<and> \<not> c"
    by (elim exE conjE) (rule that; assumption)
  have "delete_queue_body D n d = (Inr (b \<or> c), d2)"
    using e1 e2 by (simp add: delete_queue_body_def bind_act_def query_domain_def
        domain_uuid_for_inv [OF inv] u)
  moreover have "tenant_of D d2 = remove_queue D n ?t"
    by (simp add: t2 t1 remove_queue_def f)
  moreover have "d2 = d \<and> \<not> (b \<or> c)" if "remove_queue D n ?t = ?t"
    using that q q2 u by (auto simp: remove_queue_idem t1)
  ultimately show "\<exists>r d'. delete_queue_body D n d = (Inr r, d') \<and> pbx_inv d' \<and> owned D d' \<and>
      tenant_of D d' = remove_queue D n ?t \<and> untouched D d d' \<and>
      (remove_queue D n ?t = ?t \<longrightarrow> d' = d \<and> \<not> r)"
    using inv2 untouched_trans [OF un1 un2] by blast
qed

lemma delete_queue_contract:
  assumes "valid_domain D" and "valid_token n" and n: "CHR ''-'' \<notin> set n"
  shows "contract D x_exists (delete_queue D n) (remove_queue D n) (\<lambda>_ _. True)"
proof -
  let ?out = "\<lambda>b. if b then [Reload, Command (queue_unload n D)] else []"
  let ?k = "\<lambda>deleted. then_act (if deleted
                  then then_act reload (send_command (queue_unload n D))
                  else ret ()) (ret deleted)"
  have "contract D x_exists (\<lambda>w. bind_act (transaction None (delete_queue_body D n)) ?k w)
      (remove_queue D n) (\<lambda>_ _. True)"
  proof (rule transaction_contract [where out = ?out and res = "\<lambda>b. b" and
        body = "\<lambda>us. delete_queue_body D n"])
    have "(\<lambda>b. ?out b = []) = (\<lambda>b. \<not> b)" by auto
    then show "body_contract D x_exists (delete_queue_body D n) (remove_queue D n) (\<lambda>b. ?out b = [])"
      using delete_queue_body_contract [OF n] by simp
  next
    fix b w
    show "?k b w = (Inr b, w\<lparr>effects := effects w @ ?out b\<rparr>)"
      by (simp add: then_act_def bind_act_def reload_def send_command_def)
  qed
  then have "contract D x_exists (bind_act (transaction None (delete_queue_body D n)) ?k)
      (remove_queue D n) (\<lambda>_ _. True)" by simp
  then show ?thesis unfolding delete_queue_def
    by (intro contract_check_names assms)
qed

lemma list_queues_contract:
  assumes "valid_domain D"
  shows "contract D (\<lambda>_. True) (list_queues D) (\<lambda>t. t)
    (\<lambda>r t. set r = dom (x_queues t) \<and> distinct r)"
  unfolding list_queues_def
proof (rule contract_guard)
  show "contract D (\<lambda>_. True) (reading (\<lambda>d. bind_res (domain_uuid_for D d) (\<lambda>found.
         case found of
           None \<Rightarrow> Inr []
         | Some u \<Rightarrow> Inr (remdups (map q_extension (filter (\<lambda>q. q_domain q = u) (t_queues d)))))))
      (\<lambda>t. t) (\<lambda>r t. set r = dom (x_queues t) \<and> distinct r)"
  proof (rule reading_contract)
    fix d assume "pbx_inv d"
    then show "\<exists>r. bind_res (domain_uuid_for D d) (\<lambda>found.
         case found of
           None \<Rightarrow> Inr []
         | Some u \<Rightarrow> Inr (remdups (map q_extension (filter (\<lambda>q. q_domain q = u) (t_queues d))))) = Inr r \<and>
        set r = dom (x_queues (tenant_of D d)) \<and> distinct r"
      by (cases "domain_of D d")
        (auto simp: domain_uuid_for_inv queue_view_def view_of_dom queue_key_def image_iff)
  qed
qed (simp add: assms require_domain_def)

end
