(* ===== verification/VoiceModels.thy ===== *)
theory VoiceModels
  imports PbxCallcenter
begin

text \<open>
  The application's own tables (\<^verbatim>\<open>app/models/voice.py\<close>): the desired state of each
  customer's PBX. Rows carry the key of the domain they belong to. The columns
  \<^verbatim>\<open>created_at\<close> and \<^verbatim>\<open>updated_at\<close> are defaults no code of this part reads and are left
  out. \<open>voice_inv\<close> is the well-formedness that the validated API keeps.
\<close>

section \<open>Models\<close>

datatype sync_status = Pending | Synced | Drift | SyncError

record voice_domain =
  vd_id :: nat
  vd_customer_id :: string
  vd_fusionpbx_domain :: string
  vd_sync_status :: sync_status
  vd_is_active :: bool
  vd_recording_enabled :: bool
  vd_last_reconciled_at :: "nat option"

record voice_extension =
  ve_id :: nat
  ve_domain :: nat
  ve_number :: string
  ve_display_name :: string
  ve_voicemail_enabled :: bool
  ve_sync_status :: sync_status

record conference_room =
  cr_id :: nat
  cr_domain :: nat
  cr_number :: string

record ring_group =
  rg_id :: nat
  rg_domain :: nat
  rg_number :: string
  rg_strategy :: string
  rg_members :: "string list"
  rg_timeout :: int

record ivr_menu =
  iv_id :: nat
  iv_domain :: nat
  iv_number :: string
  iv_greeting :: string
  iv_options :: ivr_options

record voice_queue =
  vq_id :: nat
  vq_domain :: nat
  vq_number :: string
  vq_name :: string
  vq_strategy :: string
  vq_agents :: "string list"

record voice_db =
  a_domains :: "voice_domain list"
  a_extensions :: "voice_extension list"
  a_conferences :: "conference_room list"
  a_ring_groups :: "ring_group list"
  a_ivrs :: "ivr_menu list"
  a_queues :: "voice_queue list"
  a_next :: nat

definition domain_of_customer :: "string \<Rightarrow> voice_db \<Rightarrow> voice_domain option" where
  "domain_of_customer customer_id a = first_where (\<lambda>v. vd_customer_id v = customer_id) (a_domains a)"

text \<open>The rows of one domain, in table order (the \<^verbatim>\<open>select ... where voice_domain_id\<close> queries).\<close>

definition extensions_of :: "voice_db \<Rightarrow> voice_domain \<Rightarrow> voice_extension list" where
  "extensions_of a v = filter (\<lambda>r. ve_domain r = vd_id v) (a_extensions a)"

definition conferences_of :: "voice_db \<Rightarrow> voice_domain \<Rightarrow> conference_room list" where
  "conferences_of a v = filter (\<lambda>r. cr_domain r = vd_id v) (a_conferences a)"

definition ring_groups_of :: "voice_db \<Rightarrow> voice_domain \<Rightarrow> ring_group list" where
  "ring_groups_of a v = filter (\<lambda>r. rg_domain r = vd_id v) (a_ring_groups a)"

definition ivrs_of :: "voice_db \<Rightarrow> voice_domain \<Rightarrow> ivr_menu list" where
  "ivrs_of a v = filter (\<lambda>r. iv_domain r = vd_id v) (a_ivrs a)"

definition queues_of :: "voice_db \<Rightarrow> voice_domain \<Rightarrow> voice_queue list" where
  "queues_of a v = filter (\<lambda>r. vq_domain r = vd_id v) (a_queues a)"

section \<open>What the columns take\<close>

text \<open>
  The lengths of the text columns. A flush of a row that is longer fails with a
  \<^verbatim>\<open>DataError\<close>.
\<close>

definition too_long :: err where
  "too_long = Raised ''DataError''"

definition domain_fits :: "voice_domain \<Rightarrow> bool" where
  "domain_fits v \<longleftrightarrow> length (vd_customer_id v) \<le> 64 \<and> length (vd_fusionpbx_domain v) \<le> 255"

definition extension_fits :: "voice_extension \<Rightarrow> bool" where
  "extension_fits r \<longleftrightarrow> length (ve_number r) \<le> 32 \<and> length (ve_display_name r) \<le> 120"

definition conference_fits :: "conference_room \<Rightarrow> bool" where
  "conference_fits r \<longleftrightarrow> length (cr_number r) \<le> 32"

definition ring_group_fits :: "ring_group \<Rightarrow> bool" where
  "ring_group_fits r \<longleftrightarrow> length (rg_number r) \<le> 32 \<and> length (rg_strategy r) \<le> 20 \<and>
     - (2 ^ 31) \<le> rg_timeout r \<and> rg_timeout r < 2 ^ 31"

definition ivr_fits :: "ivr_menu \<Rightarrow> bool" where
  "ivr_fits r \<longleftrightarrow> length (iv_number r) \<le> 32 \<and> length (iv_greeting r) \<le> 255"

definition queue_fits :: "voice_queue \<Rightarrow> bool" where
  "queue_fits r \<longleftrightarrow> length (vq_number r) \<le> 32 \<and> length (vq_name r) \<le> 120 \<and> length (vq_strategy r) \<le> 40"

section \<open>Well-formed rows\<close>

text \<open>
  What the request schemas of the API (\<^verbatim>\<open>app/schemas/voice.py\<close>, \<^verbatim>\<open>app/api/voice_features.py\<close>) enforce
  on the rows it writes, beside the limits of the columns.
\<close>

definition number_valid :: "string \<Rightarrow> bool" where
  "number_valid n \<longleftrightarrow> 1 \<le> length n \<and> length n \<le> 32 \<and> valid_token n"

definition ring_strategies :: "string list" where
  "ring_strategies = [''simultaneous'', ''sequence'']"

definition queue_strategies :: "string list" where
  "queue_strategies = [''ring-all'', ''longest-idle-agent'', ''round-robin'', ''top-down'',
     ''agent-with-least-talk-time'', ''agent-with-fewest-calls'',
     ''sequentially-by-agent-order'', ''random'']"

lemma number_validD: "number_valid n \<Longrightarrow> valid_token n \<and> length n \<le> 32"
  by (simp add: number_valid_def)

definition domain_row_ok :: "voice_domain \<Rightarrow> bool" where
  "domain_row_ok v \<longleftrightarrow> valid_domain (vd_fusionpbx_domain v) \<and> domain_fits v"

definition extension_row_ok :: "voice_extension \<Rightarrow> bool" where
  "extension_row_ok r \<longleftrightarrow> valid_token (ve_number r) \<and> extension_fits r"

definition conference_row_ok :: "conference_room \<Rightarrow> bool" where
  "conference_row_ok r \<longleftrightarrow> valid_token (cr_number r) \<and> conference_fits r"

definition ring_group_row_ok :: "ring_group \<Rightarrow> bool" where
  "ring_group_row_ok r \<longleftrightarrow> valid_token (rg_number r) \<and> rg_members r \<noteq> [] \<and>
     list_all valid_token (rg_members r) \<and> distinct (rg_members r) \<and>
     rg_strategy r \<in> set ring_strategies \<and> 1 \<le> rg_timeout r \<and> rg_timeout r \<le> 120 \<and> ring_group_fits r"

definition ivr_row_ok :: "ivr_menu \<Rightarrow> bool" where
  "ivr_row_ok r \<longleftrightarrow> valid_token (iv_number r) \<and> iv_options r \<noteq> [] \<and>
     list_all (\<lambda>i. valid_ivr_digit (fst i) \<and> valid_token (snd i)) (iv_options r) \<and>
     distinct (map fst (iv_options r)) \<and> ivr_fits r"

definition queue_row_ok :: "voice_queue \<Rightarrow> bool" where
  "queue_row_ok r \<longleftrightarrow> valid_token (vq_number r) \<and> vq_agents r \<noteq> [] \<and>
     list_all valid_token (vq_agents r) \<and> distinct (vq_agents r) \<and>
     vq_strategy r \<in> set queue_strategies \<and> queue_fits r"

text \<open>One table of feature rows: keys, one row per domain and number, valid fields.\<close>

definition table_ok ::
  "('r \<Rightarrow> nat) \<Rightarrow> ('r \<Rightarrow> nat) \<Rightarrow> ('r \<Rightarrow> string) \<Rightarrow> ('r \<Rightarrow> bool) \<Rightarrow> nat \<Rightarrow> 'r list \<Rightarrow> bool" where
  "table_ok pk fk number ok n rows \<longleftrightarrow>
     keyed pk n rows \<and> distinct (map (\<lambda>r. (fk r, number r)) rows) \<and>
     list_all (\<lambda>r. fk r < n) rows \<and> list_all ok rows"

definition voice_inv :: "voice_db \<Rightarrow> bool" where
  "voice_inv a \<longleftrightarrow>
     keyed vd_id (a_next a) (a_domains a) \<and>
     distinct (map vd_customer_id (a_domains a)) \<and>
     distinct (map vd_fusionpbx_domain (a_domains a)) \<and>
     list_all domain_row_ok (a_domains a) \<and>
     table_ok ve_id ve_domain ve_number extension_row_ok (a_next a) (a_extensions a) \<and>
     table_ok cr_id cr_domain cr_number conference_row_ok (a_next a) (a_conferences a) \<and>
     table_ok rg_id rg_domain rg_number ring_group_row_ok (a_next a) (a_ring_groups a) \<and>
     table_ok iv_id iv_domain iv_number ivr_row_ok (a_next a) (a_ivrs a) \<and>
     table_ok vq_id vq_domain vq_number queue_row_ok (a_next a) (a_queues a)"

text \<open>
  The desired state of one domain can be provisioned: valid names, one row per number, and
  feature numbers without hyphen (with one, dialplan names of different domains can collide).
\<close>

definition no_hyphen :: "string \<Rightarrow> bool" where
  "no_hyphen s \<longleftrightarrow> CHR ''-'' \<notin> set s"

definition desired_ok :: "voice_db \<Rightarrow> voice_domain \<Rightarrow> bool" where
  "desired_ok a v \<longleftrightarrow>
     valid_domain (vd_fusionpbx_domain v) \<and>
     list_all extension_row_ok (extensions_of a v) \<and>
     distinct (map ve_number (extensions_of a v)) \<and>
     list_all (\<lambda>r. conference_row_ok r \<and> no_hyphen (cr_number r)) (conferences_of a v) \<and>
     distinct (map cr_number (conferences_of a v)) \<and>
     list_all (\<lambda>r. ring_group_row_ok r \<and> no_hyphen (rg_number r)) (ring_groups_of a v) \<and>
     distinct (map rg_number (ring_groups_of a v)) \<and>
     list_all (\<lambda>r. ivr_row_ok r \<and> no_hyphen (iv_number r)) (ivrs_of a v) \<and>
     distinct (map iv_number (ivrs_of a v)) \<and>
     list_all (\<lambda>r. queue_row_ok r \<and> no_hyphen (vq_number r)) (queues_of a v) \<and>
     distinct (map vq_number (queues_of a v))"

definition hyphen_free :: "voice_db \<Rightarrow> bool" where
  "hyphen_free a \<longleftrightarrow> list_all (\<lambda>r. no_hyphen (cr_number r)) (a_conferences a) \<and>
     list_all (\<lambda>r. no_hyphen (rg_number r)) (a_ring_groups a) \<and>
     list_all (\<lambda>r. no_hyphen (iv_number r)) (a_ivrs a) \<and>
     list_all (\<lambda>r. no_hyphen (vq_number r)) (a_queues a)"

lemma table_ok_domain:
  assumes "table_ok pk fk number ok n rows"
  shows "distinct (map number (filter (\<lambda>r. fk r = u) rows)) \<and> list_all ok (filter (\<lambda>r. fk r = u) rows)"
proof
  show "list_all ok (filter (\<lambda>r. fk r = u) rows)"
    using assms by (auto simp: table_ok_def list_all_iff)
  have "distinct (map (\<lambda>r. (fk r, number r)) (filter (\<lambda>r. fk r = u) rows))"
    using assms by (auto simp: table_ok_def distinct_map_filter)
  then show "distinct (map number (filter (\<lambda>r. fk r = u) rows))"
    by (auto simp: distinct_map inj_on_def)
qed

lemma voice_inv_desired_ok:
  assumes inv: "voice_inv a" and v: "v \<in> set (a_domains a)" and h: "hyphen_free a"
  shows "desired_ok a v"
proof -
  have e: "distinct (map ve_number (extensions_of a v)) \<and> list_all extension_row_ok (extensions_of a v)"
    using inv table_ok_domain unfolding voice_inv_def extensions_of_def by blast
  have c: "distinct (map cr_number (conferences_of a v)) \<and> list_all conference_row_ok (conferences_of a v)"
    using inv table_ok_domain unfolding voice_inv_def conferences_of_def by blast
  have r: "distinct (map rg_number (ring_groups_of a v)) \<and> list_all ring_group_row_ok (ring_groups_of a v)"
    using inv table_ok_domain unfolding voice_inv_def ring_groups_of_def by blast
  have i: "distinct (map iv_number (ivrs_of a v)) \<and> list_all ivr_row_ok (ivrs_of a v)"
    using inv table_ok_domain unfolding voice_inv_def ivrs_of_def by blast
  have q: "distinct (map vq_number (queues_of a v)) \<and> list_all queue_row_ok (queues_of a v)"
    using inv table_ok_domain unfolding voice_inv_def queues_of_def by blast
  have d: "valid_domain (vd_fusionpbx_domain v)"
    using inv v by (auto simp: voice_inv_def list_all_iff domain_row_ok_def)
  from e c r i q d h show ?thesis
    by (auto simp: desired_ok_def hyphen_free_def list_all_iff conferences_of_def
        ring_groups_of_def ivrs_of_def queues_of_def)
qed

end
