(* ===== verification/Reconcile.thy ===== *)
theory Reconcile
  imports VoiceModels
begin

text \<open>
  \<^verbatim>\<open>app/services/reconcile/voice.py\<close>: \<^verbatim>\<open>compute_delta\<close> and \<^verbatim>\<open>reconcile_voice\<close>. The code takes
  its PBX client as an argument and calls it by method name, asking with \<^verbatim>\<open>hasattr\<close> for one
  of them; here the client is the record of its operations, over any world \<open>'w\<close>. What the
  function needs of a client is the locale \<open>pbx_provider\<close>, and the effect of a reconcile is
  proved in it once, for every client that keeps the contract.
\<close>

section \<open>The client as the code sees it\<close>

record 'w client =
  c_list_extensions :: "string \<Rightarrow> ('w, (string \<times> nat) list) act"
  c_create_extension :: "string \<Rightarrow> string \<Rightarrow> string \<Rightarrow> string \<Rightarrow> ('w, extension_result) act"
  c_delete_extension :: "string \<Rightarrow> string \<Rightarrow> ('w, bool) act"
  c_delete_voicemail :: "(string \<Rightarrow> string \<Rightarrow> ('w, bool) act) option"
  c_ensure_voicemail :: "string \<Rightarrow> string \<Rightarrow> ('w, string \<times> bool) act"
  c_ensure_switch_settings :: "('w, bool) act"
  c_ensure_routing :: "string \<Rightarrow> bool \<Rightarrow> ('w, string \<times> bool) act"
  c_create_conference :: "string \<Rightarrow> string \<Rightarrow> ('w, string \<times> bool) act"
  c_create_ring_group ::
    "string \<Rightarrow> string \<Rightarrow> string list \<Rightarrow> string \<Rightarrow> int \<Rightarrow> ('w, string \<times> bool) act"
  c_create_ivr :: "string \<Rightarrow> string \<Rightarrow> ivr_options \<Rightarrow> string \<Rightarrow> ('w, string \<times> bool) act"
  c_list_managed_dialplans :: "string \<Rightarrow> ('w, string list) act"
  c_delete_dialplan :: "string \<Rightarrow> ('w, bool) act"
  c_ensure_queue :: "string \<Rightarrow> string \<Rightarrow> string list \<Rightarrow> string \<Rightarrow> ('w, string \<times> bool) act"
  c_list_queues :: "string \<Rightarrow> ('w, string list) act"
  c_delete_queue :: "string \<Rightarrow> string \<Rightarrow> ('w, bool) act"
  c_resync_queues :: "string \<Rightarrow> ('w, nat \<times> nat) act"

text \<open>The state of a request: the application's tables and the client's world.\<close>

record 'w sys =
  app :: voice_db
  pbxw :: 'w

section \<open>Reconciling\<close>

definition compute_delta :: "string set \<Rightarrow> string set \<Rightarrow> string set \<times> string set" where
  "compute_delta desired actual = (desired - actual, actual - desired)"

text \<open>\<^verbatim>\<open>sorted(s)\<close> for a set of strings: ascending by code points.\<close>

definition sorted_set :: "string set \<Rightarrow> string list" where
  "sorted_set s = sorted_list_of_set s"

text \<open>\<^verbatim>\<open>desired_by_number = {e.number: e for e in desired_exts}\<close>: the last row of a number.\<close>

definition desired_by_number :: "voice_extension list \<Rightarrow> string \<Rightarrow> voice_extension option" where
  "desired_by_number exts = map_of (rev (map (\<lambda>e. (ve_number e, e)) exts))"

lemma desired_by_number_Some:
  "desired_by_number exts n = Some e \<Longrightarrow> e \<in> set exts \<and> ve_number e = n"
  by (auto simp: desired_by_number_def dest!: map_of_SomeD)

lemma desired_by_number_None:
  "desired_by_number exts n = None \<longleftrightarrow> n \<notin> ve_number ` set exts"
  by (force simp: desired_by_number_def map_of_eq_None_iff image_iff)

text \<open>\<^verbatim>\<open>hasattr(client, "delete_voicemail")\<close>\<close>

definition try_delete_voicemail :: "'w client \<Rightarrow> string \<Rightarrow> string \<Rightarrow> ('w, unit) act" where
  "try_delete_voicemail c D number =
     (case c_delete_voicemail c of
        None \<Rightarrow> ret ()
      | Some f \<Rightarrow> then_act (f D number) (ret ()))"

definition create_desired :: "'w client \<Rightarrow> string \<Rightarrow> voice_extension list \<Rightarrow> string \<Rightarrow> ('w, unit) act" where
  "create_desired c D exts number =
     (case desired_by_number exts number of
        None \<Rightarrow> ret ()
      | Some e \<Rightarrow> then_act (c_create_extension c D number [] (ve_display_name e)) (ret ()))"

definition delete_stale :: "'w client \<Rightarrow> string \<Rightarrow> string \<Rightarrow> ('w, unit) act" where
  "delete_stale c D number =
     then_act (c_delete_extension c D number) (try_delete_voicemail c D number)"

definition sync_voicemail :: "'w client \<Rightarrow> string \<Rightarrow> voice_extension \<Rightarrow> ('w, unit) act" where
  "sync_voicemail c D e =
     (if ve_voicemail_enabled e then then_act (c_ensure_voicemail c D (ve_number e)) (ret ())
      else try_delete_voicemail c D (ve_number e))"

text \<open>The names of the feature dialplans the rows ask for.\<close>

definition conference_plan :: "string \<Rightarrow> conference_room \<Rightarrow> string" where
  "conference_plan D r = dialplan_name ''conference'' D (cr_number r)"

definition ring_group_plan :: "string \<Rightarrow> ring_group \<Rightarrow> string" where
  "ring_group_plan D r = dialplan_name ''ringgroup'' D (rg_number r)"

definition ivr_plan :: "string \<Rightarrow> ivr_menu \<Rightarrow> string" where
  "ivr_plan D r = dialplan_name ''ivr'' D (iv_number r)"

definition desired_dialplans :: "string \<Rightarrow> voice_db \<Rightarrow> voice_domain \<Rightarrow> string set" where
  "desired_dialplans D a v =
     set (map (conference_plan D) (conferences_of a v)) \<union>
     set (map (ring_group_plan D) (ring_groups_of a v)) \<union>
     set (map (ivr_plan D) (ivrs_of a v))"

text \<open>The branch for an active domain after the extensions.\<close>

definition sync_features :: "'w client \<Rightarrow> voice_db \<Rightarrow> voice_domain \<Rightarrow> ('w, unit) act" where
  "sync_features c a v =
     (let D = vd_fusionpbx_domain v in
      then_act (for_each (\<lambda>r. c_create_conference c D (cr_number r)) (conferences_of a v))
     (then_act (for_each (\<lambda>r. c_create_ring_group c D (rg_number r) (rg_members r) (rg_strategy r)
                   (rg_timeout r)) (ring_groups_of a v))
     (then_act (for_each (\<lambda>r. c_create_ivr c D (iv_number r) (iv_options r) (iv_greeting r)) (ivrs_of a v))
     (bind_act (c_list_managed_dialplans c D) (\<lambda>names.
        for_each (c_delete_dialplan c) (filter (\<lambda>n. n \<notin> desired_dialplans D a v) names))))))"

definition sync_queues :: "'w client \<Rightarrow> voice_db \<Rightarrow> voice_domain \<Rightarrow> ('w, unit) act" where
  "sync_queues c a v =
     (let D = vd_fusionpbx_domain v in
      then_act (for_each (\<lambda>q. c_ensure_queue c D (vq_number q) (vq_agents q) (vq_strategy q)) (queues_of a v))
     (bind_act (c_list_queues c D) (\<lambda>nums.
        for_each (c_delete_queue c D) (filter (\<lambda>n. n \<notin> vq_number ` set (queues_of a v)) nums))))"

definition sync_active :: "'w client \<Rightarrow> voice_db \<Rightarrow> voice_domain \<Rightarrow> ('w, unit) act" where
  "sync_active c a v =
     (let D = vd_fusionpbx_domain v in
      then_act (for_each (sync_voicemail c D) (sort_key ve_number (extensions_of a v)))
     (then_act (c_ensure_switch_settings c)
     (then_act (c_ensure_routing c D (vd_recording_enabled v))
     (then_act (sync_features c a v) (sync_queues c a v)))))"

text \<open>The branch for a suspended domain.\<close>

definition sync_suspended :: "'w client \<Rightarrow> string \<Rightarrow> ('w, unit) act" where
  "sync_suspended c D =
     then_act (bind_act (c_list_managed_dialplans c D) (for_each (c_delete_dialplan c)))
       (bind_act (c_list_queues c D) (for_each (c_delete_queue c D)))"

text \<open>The body of the \<^verbatim>\<open>try\<close>.\<close>

definition apply_desired :: "'w client \<Rightarrow> voice_db \<Rightarrow> voice_domain \<Rightarrow> ('w, unit) act" where
  "apply_desired c a v =
     (let D = vd_fusionpbx_domain v;
          exts = extensions_of a v;
          desired = (if vd_is_active v then set (map ve_number exts) else {})
      in bind_act (c_list_extensions c D) (\<lambda>listed.
         let delta = compute_delta desired (set (map fst listed)) in
         then_act (for_each (create_desired c D exts) (sorted_set desired))
        (then_act (for_each (delete_stale c D) (sorted_set (snd delta)))
           (if vd_is_active v then sync_active c a v else sync_suspended c D))))"

definition set_sync_status :: "nat \<Rightarrow> sync_status \<Rightarrow> nat \<Rightarrow> voice_db \<Rightarrow> voice_db" where
  "set_sync_status key status now a = a\<lparr>a_domains := update_where (\<lambda>v. vd_id v = key)
     (\<lambda>v. v\<lparr>vd_sync_status := status, vd_last_reconciled_at := Some now\<rparr>) (a_domains a)\<rparr>"

text \<open>
  \<^verbatim>\<open>reconcile_voice\<close>: only \<^verbatim>\<open>ServiceUnavailableError\<close> is caught; any other error of the client
  leaves the function, with what the client had already done.
\<close>

definition reconcile_voice :: "'w client \<Rightarrow> string \<Rightarrow> nat \<Rightarrow> ('w sys, sync_status) act" where
  "reconcile_voice c customer_id now = (\<lambda>s.
     case domain_of_customer customer_id (app s) of
       None \<Rightarrow> (Inl (NotFound (''No voice domain for customer '' @ customer_id)), s)
     | Some v \<Rightarrow>
         (case apply_desired c (app s) v (pbxw s) of
            (Inr _, w) \<Rightarrow>
              (Inr Synced, s\<lparr>app := set_sync_status (vd_id v) Synced now (app s), pbxw := w\<rparr>)
          | (Inl (Unavailable _), w) \<Rightarrow>
              (Inr SyncError, s\<lparr>app := set_sync_status (vd_id v) SyncError now (app s), pbxw := w\<rparr>)
          | (Inl e, w) \<Rightarrow> (Inl e, s\<lparr>pbxw := w\<rparr>)))"

end
