(* ===== verification/ReconcileProof.thy ===== *)
theory ReconcileProof
  imports Reconcile
begin

text \<open>
  What a reconcile does, proved for every client that keeps the contract \<open>pbx_provider\<close>:
  the tenant's abstract state becomes the one the tables ask for (\<open>active_state\<close>,
  \<open>suspended_state\<close>), and a reconcile that finds that state already there is silent. The
  composition rules (\<open>runs\<close>) say what a program over contracted operations does, and whether
  it could be observed.
\<close>

section \<open>Observed runs\<close>

text \<open>
  An observer of a world: which worlds are good, whether the provider is up, the tenant's
  state, and everything an outside observer can see.
\<close>

record ('w, 'o) observer =
  ob_good :: "'w \<Rightarrow> bool"
  ob_up :: "'w \<Rightarrow> bool"
  ob_view :: "'w \<Rightarrow> tenant"
  ob_seen :: "'w \<Rightarrow> 'o"

text \<open>
  \<open>runs ob silent t m Q t'\<close>: from a good world with tenant state \<open>t\<close>, \<open>m\<close> ends in a good world;
  it returns a value with \<open>Q\<close> in state \<open>t'\<close>, unobserved if \<open>silent\<close>, or it reports the provider
  unavailable, which happens only when the provider is not up.
\<close>

definition runs ::
  "('w, 'o) observer \<Rightarrow> bool \<Rightarrow> tenant \<Rightarrow> ('w, 'a) act \<Rightarrow> ('a \<Rightarrow> bool) \<Rightarrow> tenant \<Rightarrow> bool" where
  "runs ob silent t m Q t' \<longleftrightarrow> (\<forall>w. ob_good ob w \<longrightarrow> ob_view ob w = t \<longrightarrow>
     (\<exists>w'. ob_good ob w' \<and> ob_up ob w' = ob_up ob w \<and>
       ((\<exists>r. m w = (Inr r, w') \<and> Q r \<and> ob_view ob w' = t' \<and> (silent \<longrightarrow> ob_seen ob w' = ob_seen ob w)) \<or>
        (\<exists>msg. m w = (Inl (Unavailable msg), w') \<and> \<not> ob_up ob w))))"

lemma runs_ret: "Q a \<Longrightarrow> runs ob silent t (ret a) Q t"
  by (auto simp: runs_def)

lemma runs_weaken:
  "runs ob s t m Q t' \<Longrightarrow> (s' \<Longrightarrow> s) \<Longrightarrow> (\<And>r. Q r \<Longrightarrow> Q' r) \<Longrightarrow> runs ob s' t m Q' t'"
  unfolding runs_def by (intro allI impI, elim allE impE, assumption, assumption) blast

lemma runs_bind:
  assumes m: "runs ob s1 t m Q t1" and k: "\<And>r. Q r \<Longrightarrow> runs ob s2 t1 (k r) Q2 t2"
    and s: "silent \<Longrightarrow> s1 \<and> s2"
  shows "runs ob silent t (bind_act m k) Q2 t2"
  unfolding runs_def
proof (intro allI impI)
  fix w assume w: "ob_good ob w" "ob_view ob w = t"
  from m w obtain w1 where g1: "ob_good ob w1" "ob_up ob w1 = ob_up ob w"
    and c: "(\<exists>r. m w = (Inr r, w1) \<and> Q r \<and> ob_view ob w1 = t1 \<and> (s1 \<longrightarrow> ob_seen ob w1 = ob_seen ob w)) \<or>
        (\<exists>msg. m w = (Inl (Unavailable msg), w1) \<and> \<not> ob_up ob w)"
    unfolding runs_def by blast
  from c show "\<exists>w'. ob_good ob w' \<and> ob_up ob w' = ob_up ob w \<and>
       ((\<exists>r. bind_act m k w = (Inr r, w') \<and> Q2 r \<and> ob_view ob w' = t2 \<and>
           (silent \<longrightarrow> ob_seen ob w' = ob_seen ob w)) \<or>
        (\<exists>msg. bind_act m k w = (Inl (Unavailable msg), w') \<and> \<not> ob_up ob w))"
  proof
    assume "\<exists>r. m w = (Inr r, w1) \<and> Q r \<and> ob_view ob w1 = t1 \<and> (s1 \<longrightarrow> ob_seen ob w1 = ob_seen ob w)"
    then obtain r where r: "m w = (Inr r, w1)" "Q r" "ob_view ob w1 = t1"
      "s1 \<longrightarrow> ob_seen ob w1 = ob_seen ob w" by blast
    from k [OF r(2)] g1(1) r(3) obtain w2 where "ob_good ob w2" "ob_up ob w2 = ob_up ob w1"
      "(\<exists>r'. k r w1 = (Inr r', w2) \<and> Q2 r' \<and> ob_view ob w2 = t2 \<and> (s2 \<longrightarrow> ob_seen ob w2 = ob_seen ob w1)) \<or>
        (\<exists>msg. k r w1 = (Inl (Unavailable msg), w2) \<and> \<not> ob_up ob w1)"
      unfolding runs_def by blast
    with r g1 s show ?thesis
      by (intro exI [of _ w2]) (auto simp: bind_act_def)
  next
    assume "\<exists>msg. m w = (Inl (Unavailable msg), w1) \<and> \<not> ob_up ob w"
    with g1 show ?thesis by (intro exI [of _ w1]) (auto simp: bind_act_def)
  qed
qed

lemma runs_then:
  assumes "runs ob s1 t m Q t1" and "runs ob s2 t1 k Q2 t2" and "silent \<Longrightarrow> s1 \<and> s2"
  shows "runs ob silent t (then_act m k) Q2 t2"
  unfolding then_act_def using assms by (intro runs_bind) auto

lemma runs_then_same:
  "runs ob s t m Q t1 \<Longrightarrow> runs ob s t1 k Q2 t2 \<Longrightarrow> runs ob s t (then_act m k) Q2 t2"
  by (erule runs_then, assumption) simp

text \<open>A loop composes the steps; it is silent when no step has anything to do.\<close>

lemma runs_for_each:
  assumes step: "\<And>x t. x \<in> set xs \<Longrightarrow> P t \<Longrightarrow> runs ob (f x t = t) t (m x) (\<lambda>_. True) (f x t)"
    and P: "\<And>x t. x \<in> set xs \<Longrightarrow> P t \<Longrightarrow> P (f x t)" and "P t"
  shows "runs ob (\<forall>x\<in>set xs. f x t = t) t (for_each m xs) (\<lambda>_. True) (fold f xs t)"
  using assms
proof (induction xs arbitrary: t)
  case Nil
  show ?case unfolding for_each.simps fold_Nil id_apply by (rule runs_ret) simp
next
  case (Cons x xs)
  have 1: "runs ob (f x t = t) t (m x) (\<lambda>_. True) (f x t)" using Cons.prems by simp
  have 2: "runs ob (\<forall>y\<in>set xs. f y (f x t) = f x t) (f x t) (for_each m xs) (\<lambda>_. True)
      (fold f xs (f x t))"
    using Cons.prems by (intro Cons.IH) auto
  show ?case unfolding for_each.simps fold_Cons comp_apply
    by (rule runs_bind [OF 1 2]) auto
qed

section \<open>What reconcile needs of a client\<close>

text \<open>
  \<open>keeps_contract ob pre m f\<close>: one operation does \<open>f\<close> to the tenant wherever \<open>pre\<close> holds.
\<close>

definition does ::
  "('w, 'o) observer \<Rightarrow> (tenant \<Rightarrow> bool) \<Rightarrow> ('w, 'a) act \<Rightarrow> (tenant \<Rightarrow> tenant) \<Rightarrow> bool" where
  "does ob pre m f \<longleftrightarrow> (\<forall>t. pre t \<longrightarrow> runs ob (f t = t) t m (\<lambda>_. True) (f t))"

definition answers ::
  "('w, 'o) observer \<Rightarrow> ('w, 'a) act \<Rightarrow> ('a \<Rightarrow> tenant \<Rightarrow> bool) \<Rightarrow> bool" where
  "answers ob m Q \<longleftrightarrow> (\<forall>t. runs ob True t m (\<lambda>r. Q r t) t)"

abbreviation exists_now :: "tenant \<Rightarrow> tenant" where
  "exists_now t \<equiv> t\<lparr>x_exists := True\<rparr>"

locale pbx_provider =
  fixes ob :: "('w, 'o) observer"
    and c :: "'w client"
    and D :: string
    and del_vm :: "string \<Rightarrow> string \<Rightarrow> ('w, bool) act"
  assumes has_delete_voicemail: "c_delete_voicemail c = Some del_vm"
    and list_extensions: "answers ob (c_list_extensions c D) (\<lambda>r t. set (map fst r) = dom (x_exts t))"
    and create_extension: "valid_token n \<Longrightarrow>
      does ob (\<lambda>_. True) (c_create_extension c D n [] dn) (\<lambda>t. put_extension n dn (exists_now t))"
    and delete_extension: "valid_token n \<Longrightarrow>
      does ob (\<lambda>_. True) (c_delete_extension c D n) (remove_extension n)"
    and delete_voicemail: "valid_token n \<Longrightarrow> does ob (\<lambda>_. True) (del_vm D n) (remove_box n)"
    and ensure_voicemail: "valid_token n \<Longrightarrow>
      does ob (\<lambda>_. True) (c_ensure_voicemail c D n) (\<lambda>t. add_box n (exists_now t))"
    and ensure_switch_settings: "does ob (\<lambda>_. True) (c_ensure_switch_settings c) put_dir"
    and ensure_routing: "does ob (\<lambda>_. True) (c_ensure_routing c D rec)
      (\<lambda>t. put_routing (routing_xml rec routing_pattern) (exists_now t))"
    and create_conference: "valid_token n \<Longrightarrow> no_hyphen n \<Longrightarrow>
      does ob (\<lambda>_. True) (c_create_conference c D n)
        (\<lambda>t. put_feature (dialplan_name ''conference'' D n) (conference_xml D n) (exists_now t))"
    and create_ring_group: "valid_token n \<Longrightarrow> no_hyphen n \<Longrightarrow> ms \<noteq> [] \<Longrightarrow> list_all valid_token ms \<Longrightarrow>
      does ob (\<lambda>_. True) (c_create_ring_group c D n ms strategy timeout)
        (\<lambda>t. put_feature (dialplan_name ''ringgroup'' D n) (ring_group_xml D n ms strategy timeout)
          (exists_now t))"
    and create_ivr: "valid_token n \<Longrightarrow> no_hyphen n \<Longrightarrow> opts \<noteq> [] \<Longrightarrow>
      list_all (\<lambda>i. valid_ivr_digit (fst i) \<and> valid_token (snd i)) opts \<Longrightarrow>
      does ob (\<lambda>_. True) (c_create_ivr c D n opts greeting)
        (\<lambda>t. put_feature (dialplan_name ''ivr'' D n) (ivr_xml D n opts greeting 6000) (exists_now t))"
    and list_dialplans: "answers ob (c_list_managed_dialplans c D)
      (\<lambda>r t. set r = dom (x_features t) \<and> distinct r)"
    and delete_dialplan: "does ob (\<lambda>t. x_features t name \<noteq> None) (c_delete_dialplan c name)
      (\<lambda>t. t\<lparr>x_features := (x_features t)(name := None)\<rparr>)"
    and ensure_queue: "valid_token n \<Longrightarrow> no_hyphen n \<Longrightarrow> as \<noteq> [] \<Longrightarrow> list_all valid_token as \<Longrightarrow>
      does ob (\<lambda>_. True) (c_ensure_queue c D n as s)
        (\<lambda>t. provision_queue D n s (set as) (exists_now t))"
    and list_queues: "answers ob (c_list_queues c D) (\<lambda>r t. set r = dom (x_queues t) \<and> distinct r)"
    and delete_queue: "valid_token n \<Longrightarrow> no_hyphen n \<Longrightarrow>
      does ob x_exists (c_delete_queue c D n) (remove_queue D n)"

lemma does_runs: "does ob pre m f \<Longrightarrow> pre t \<Longrightarrow> runs ob (f t = t) t m (\<lambda>_. True) (f t)"
  by (simp add: does_def)

lemma answers_runs: "answers ob m Q \<Longrightarrow> runs ob True t m (\<lambda>r. Q r t) t"
  by (simp add: answers_def)

section \<open>The state that is asked for\<close>

definition create_state :: "voice_extension list \<Rightarrow> string \<Rightarrow> tenant \<Rightarrow> tenant" where
  "create_state exts n t =
     (case desired_by_number exts n of
        None \<Rightarrow> t
      | Some e \<Rightarrow> put_extension n (ve_display_name e) (exists_now t))"

definition stale_state :: "string \<Rightarrow> tenant \<Rightarrow> tenant" where
  "stale_state n t = remove_box n (remove_extension n t)"

definition voicemail_state :: "voice_extension \<Rightarrow> tenant \<Rightarrow> tenant" where
  "voicemail_state e t =
     (if ve_voicemail_enabled e then add_box (ve_number e) (exists_now t)
      else remove_box (ve_number e) t)"

definition drop_feature :: "string \<Rightarrow> tenant \<Rightarrow> tenant" where
  "drop_feature name t = t\<lparr>x_features := (x_features t)(name := None)\<rparr>"

text \<open>
  The features a domain's rows ask for: each plan name with its document, later rows of a kind
  over earlier ones.
\<close>

definition feature_plans :: "string \<Rightarrow> voice_db \<Rightarrow> voice_domain \<Rightarrow> (string \<times> string) list" where
  "feature_plans D a v =
     map (\<lambda>r. (conference_plan D r, conference_xml D (cr_number r))) (conferences_of a v) @
     map (\<lambda>r. (ring_group_plan D r,
       ring_group_xml D (rg_number r) (rg_members r) (rg_strategy r) (rg_timeout r))) (ring_groups_of a v) @
     map (\<lambda>r. (ivr_plan D r, ivr_xml D (iv_number r) (iv_options r) (iv_greeting r) 6000)) (ivrs_of a v)"

definition put_plan :: "string \<times> string \<Rightarrow> tenant \<Rightarrow> tenant" where
  "put_plan p t = put_feature (fst p) (snd p) (exists_now t)"

definition put_voice_queue :: "string \<Rightarrow> voice_queue \<Rightarrow> tenant \<Rightarrow> tenant" where
  "put_voice_queue D q t =
     provision_queue D (vq_number q) (vq_strategy q) (set (vq_agents q)) (exists_now t)"

section \<open>The parts of a reconcile\<close>

lemma remove_extension_boxes [simp]: "x_boxes (remove_extension n t) = x_boxes t"
  by (simp add: remove_extension_def)

lemma fold_idle: "(\<And>x. x \<in> set xs \<Longrightarrow> f x t = t) \<Longrightarrow> fold f xs t = t"
  by (induction xs) auto

section \<open>The states reached\<close>

definition wanted_names :: "voice_extension list \<Rightarrow> string \<Rightarrow> display_names option" where
  "wanted_names exts n = map_option
     (\<lambda>e. (Some (ve_display_name e), Some (ve_display_name e), Some (ve_display_name e)))
     (desired_by_number exts n)"

definition wanted_boxes :: "voice_extension list \<Rightarrow> string set" where
  "wanted_boxes exts = ve_number ` set (filter ve_voicemail_enabled exts)"

definition wanted_features :: "string \<Rightarrow> voice_db \<Rightarrow> voice_domain \<Rightarrow> string \<Rightarrow> string option option" where
  "wanted_features D a v = map_of (rev (map (\<lambda>p. (fst p, Some (snd p))) (feature_plans D a v)))"

definition wanted_queues :: "voice_queue list \<Rightarrow> string \<Rightarrow> (string option \<times> string set) option" where
  "wanted_queues qs = map_of (rev (map (\<lambda>q. (vq_number q, (Some (vq_strategy q), set (vq_agents q)))) qs))"

definition wanted_queue_plans :: "string \<Rightarrow> voice_queue list \<Rightarrow> string \<Rightarrow> string option option" where
  "wanted_queue_plans D qs =
     map_of (rev (map (\<lambda>q. (dialplan_name ''queue'' D (vq_number q), Some (queue_xml D (vq_number q)))) qs))"

definition without :: "('k \<Rightarrow> 'v option) \<Rightarrow> 'k set \<Rightarrow> 'k \<Rightarrow> 'v option" where
  "without m ks k = (if k \<in> ks then None else m k)"

text \<open>
  The tenant's state after the reconcile of an active and of a suspended domain. Boxes without
  an extension are not the reconcile's concern and stay; the dialplans of queues that were not
  listed stay too.
\<close>

definition active_state :: "voice_db \<Rightarrow> voice_domain \<Rightarrow> tenant \<Rightarrow> tenant" where
  "active_state a v t =
     (let D = vd_fusionpbx_domain v; exts = extensions_of a v; qs = queues_of a v in
      \<lparr>x_exists = True,
       x_exts = wanted_names exts,
       x_boxes = (x_boxes t - dom (x_exts t) - ve_number ` set exts) \<union> wanted_boxes exts,
       x_features = wanted_features D a v,
       x_queues = wanted_queues qs,
       x_queue_plans =
         without (x_queue_plans t) (dialplan_name ''queue'' D ` dom (x_queues t)) ++ wanted_queue_plans D qs,
       x_routing = Some (Some (routing_xml (vd_recording_enabled v) routing_pattern)),
       x_dir = Some (Some switch_voicemail_dir)\<rparr>)"

definition suspended_state :: "string \<Rightarrow> tenant \<Rightarrow> tenant" where
  "suspended_state D t = t\<lparr>x_exts := Map.empty, x_boxes := x_boxes t - dom (x_exts t),
     x_features := Map.empty, x_queues := Map.empty,
     x_queue_plans := without (x_queue_plans t) (dialplan_name ''queue'' D ` dom (x_queues t))\<rparr>"

lemma without_empty [simp]: "without m {} = m"
  by (simp add: without_def fun_eq_iff)

lemma without_dom [simp]: "without m (dom m) = Map.empty"
  by (auto simp: without_def fun_eq_iff)

lemma without_add:
  "without (m ++ g) (dom m - dom g) = g"
  "without (m ++ g) (dom g \<union> dom m - dom g) = g"
  "without (m ++ g) (A - dom g) = without m A ++ g"
  by (auto simp: without_def fun_eq_iff map_add_def domIff split: option.splits)

lemma fold_create_state:
  "fold (create_state exts) ns t = t\<lparr>x_exists := x_exists t \<or> (\<exists>n\<in>set ns. desired_by_number exts n \<noteq> None),
     x_exts := (\<lambda>n. if n \<in> set ns \<and> desired_by_number exts n \<noteq> None then wanted_names exts n else x_exts t n)\<rparr>"
proof (induction ns arbitrary: t)
  case (Cons n ns)
  show ?case unfolding fold_Cons comp_apply Cons
    by (cases t) (auto simp: create_state_def put_extension_def wanted_names_def fun_eq_iff
        split: option.splits)
qed simp

lemma fold_stale_state:
  "fold stale_state ns t = t\<lparr>x_exts := without (x_exts t) (set ns), x_boxes := x_boxes t - set ns\<rparr>"
proof (induction ns arbitrary: t)
  case (Cons n ns)
  show ?case unfolding fold_Cons comp_apply Cons
    by (cases t) (auto simp: stale_state_def remove_extension_def remove_box_def without_def fun_eq_iff)
qed simp

lemma fold_voicemail_state:
  assumes "distinct (map ve_number es)"
  shows "fold voicemail_state es t = t\<lparr>x_exists := x_exists t \<or> (\<exists>e\<in>set es. ve_voicemail_enabled e),
     x_boxes := (x_boxes t - ve_number ` set es) \<union> wanted_boxes es\<rparr>"
  using assms
proof (induction es arbitrary: t)
  case (Cons e es)
  then have "distinct (map ve_number es)" by simp
  from Cons.prems show ?case unfolding fold_Cons comp_apply Cons.IH [OF \<open>distinct (map ve_number es)\<close>]
    by (cases t) (auto simp: voicemail_state_def add_box_def remove_box_def wanted_boxes_def)
qed (simp add: wanted_boxes_def)

lemma fold_put_plan:
  "fold put_plan ps t = t\<lparr>x_exists := x_exists t \<or> ps \<noteq> [],
     x_features := x_features t ++ map_of (rev (map (\<lambda>p. (fst p, Some (snd p))) ps))\<rparr>"
proof (induction ps arbitrary: t)
  case (Cons p ps)
  show ?case unfolding fold_Cons comp_apply Cons
    by (cases t) (auto simp: put_plan_def put_feature_def fun_eq_iff map_add_def split: option.splits)
qed simp

lemma fold_drop_feature:
  "fold drop_feature ns t = t\<lparr>x_features := without (x_features t) (set ns)\<rparr>"
proof (induction ns arbitrary: t)
  case (Cons n ns)
  show ?case unfolding fold_Cons comp_apply Cons
    by (cases t) (auto simp: drop_feature_def without_def fun_eq_iff)
qed simp

lemma fold_put_voice_queue:
  "fold (put_voice_queue D) qs t = t\<lparr>x_exists := x_exists t \<or> qs \<noteq> [],
     x_queues := x_queues t ++ wanted_queues qs,
     x_queue_plans := x_queue_plans t ++ wanted_queue_plans D qs\<rparr>"
proof (induction qs arbitrary: t)
  case (Cons q qs)
  show ?case unfolding fold_Cons comp_apply Cons
    by (cases t) (auto simp: put_voice_queue_def provision_queue_def put_queue_plan_def put_queue_def
        wanted_queues_def wanted_queue_plans_def fun_eq_iff map_add_def split: option.splits)
qed (simp add: wanted_queues_def wanted_queue_plans_def)

lemma fold_remove_queue:
  "fold (remove_queue D) ns t = t\<lparr>x_queues := without (x_queues t) (set ns),
     x_queue_plans := without (x_queue_plans t) (dialplan_name ''queue'' D ` set ns)\<rparr>"
proof (induction ns arbitrary: t)
  case (Cons n ns)
  show ?case unfolding fold_Cons comp_apply Cons
    by (cases t) (auto simp: remove_queue_def without_def fun_eq_iff)
qed simp

context pbx_provider
begin

lemma runs_unit:
  "runs ob s t m Q t' \<Longrightarrow> runs ob s t (then_act m (ret ())) (\<lambda>_. True) t'"
  by (erule runs_then [OF _ runs_ret [where silent = True]]) simp_all

lemma try_delete_runs:
  "valid_token n \<Longrightarrow> runs ob (remove_box n t = t) t (try_delete_voicemail c D n) (\<lambda>_. True) (remove_box n t)"
  unfolding try_delete_voicemail_def has_delete_voicemail option.case
  by (rule runs_unit) (rule does_runs [OF delete_voicemail], simp_all)

lemma create_runs:
  assumes "list_all extension_row_ok exts"
  shows "runs ob (create_state exts n t = t) t (create_desired c D exts n) (\<lambda>_. True) (create_state exts n t)"
proof (cases "desired_by_number exts n")
  case None
  then show ?thesis by (auto simp: create_desired_def create_state_def intro: runs_ret simp del: ret_apply)
next
  case (Some e)
  then have "e \<in> set exts" "ve_number e = n"
    by (auto simp: desired_by_number_def dest: map_of_SomeD)
  with assms have "valid_token n" by (auto simp: list_all_iff extension_row_ok_def)
  from does_runs [OF create_extension [OF this], where t = t] Some show ?thesis
    unfolding create_desired_def create_state_def by (auto intro: runs_unit)
qed

lemma stale_runs:
  assumes "valid_token n"
  shows "runs ob (x_exts t n = None \<and> n \<notin> x_boxes t) t (delete_stale c D n) (\<lambda>_. True) (stale_state n t)"
  unfolding delete_stale_def stale_state_def
  by (rule runs_then [OF does_runs [OF delete_extension] try_delete_runs])
    (use assms in \<open>auto simp: remove_extension_idem remove_box_idem\<close>)

lemma voicemail_runs:
  assumes "extension_row_ok e"
  shows "runs ob (voicemail_state e t = t) t (sync_voicemail c D e) (\<lambda>_. True) (voicemail_state e t)"
  using assms does_runs [OF ensure_voicemail, where t = t] try_delete_runs [of "ve_number e" t]
  by (auto simp: sync_voicemail_def voicemail_state_def extension_row_ok_def intro: runs_unit)

lemma plans_run:
  assumes ok: "desired_ok a v" and D: "D = vd_fusionpbx_domain v"
  shows "runs ob (\<forall>p\<in>set (feature_plans D a v). put_plan p t = t) t
     (then_act (for_each (\<lambda>r. c_create_conference c D (cr_number r)) (conferences_of a v))
     (then_act (for_each (\<lambda>r. c_create_ring_group c D (rg_number r) (rg_members r) (rg_strategy r)
                   (rg_timeout r)) (ring_groups_of a v))
       (for_each (\<lambda>r. c_create_ivr c D (iv_number r) (iv_options r) (iv_greeting r)) (ivrs_of a v))))
     (\<lambda>_. True) (fold put_plan (feature_plans D a v) t)"
proof -
  let ?c = "\<lambda>r. put_plan (conference_plan D r, conference_xml D (cr_number r))"
  let ?r = "\<lambda>r. put_plan (ring_group_plan D r,
       ring_group_xml D (rg_number r) (rg_members r) (rg_strategy r) (rg_timeout r))"
  let ?i = "\<lambda>r. put_plan (ivr_plan D r, ivr_xml D (iv_number r) (iv_options r) (iv_greeting r) 6000)"
  have 1: "runs ob (\<forall>r\<in>set (conferences_of a v). ?c r t = t) t
      (for_each (\<lambda>r. c_create_conference c D (cr_number r)) (conferences_of a v)) (\<lambda>_. True)
      (fold ?c (conferences_of a v) t)" for t
    using ok by (intro runs_for_each [where P = "\<lambda>_. True"])
      (auto simp: put_plan_def conference_plan_def desired_ok_def list_all_iff conference_row_ok_def
        intro!: does_runs [OF create_conference])
  have 2: "runs ob (\<forall>r\<in>set (ring_groups_of a v). ?r r t = t) t
      (for_each (\<lambda>r. c_create_ring_group c D (rg_number r) (rg_members r) (rg_strategy r)
                   (rg_timeout r)) (ring_groups_of a v)) (\<lambda>_. True) (fold ?r (ring_groups_of a v) t)" for t
    using ok by (intro runs_for_each [where P = "\<lambda>_. True"])
      (auto simp: put_plan_def ring_group_plan_def desired_ok_def list_all_iff ring_group_row_ok_def
        intro!: does_runs [OF create_ring_group])
  have 3: "runs ob (\<forall>r\<in>set (ivrs_of a v). ?i r t = t) t
      (for_each (\<lambda>r. c_create_ivr c D (iv_number r) (iv_options r) (iv_greeting r)) (ivrs_of a v))
      (\<lambda>_. True) (fold ?i (ivrs_of a v) t)" for t
    using ok by (intro runs_for_each [where P = "\<lambda>_. True"])
      (auto simp: put_plan_def ivr_plan_def desired_ok_def list_all_iff ivr_row_ok_def
        intro!: does_runs [OF create_ivr])
  show ?thesis
    unfolding feature_plans_def fold_append comp_apply fold_map [unfolded comp_def]
  proof (rule runs_then [OF 1 runs_then [OF 2 3]])
    let ?t1 = "fold ?c (conferences_of a v) t"
    let ?t2 = "fold ?r (ring_groups_of a v) ?t1"
    show "(\<forall>r\<in>set (conferences_of a v). ?c r t = t) \<and>
        (\<forall>r\<in>set (ring_groups_of a v). ?r r ?t1 = ?t1) \<and> (\<forall>r\<in>set (ivrs_of a v). ?i r ?t2 = ?t2)"
      if h: "\<forall>p\<in>set (map (\<lambda>r. (conference_plan D r, conference_xml D (cr_number r))) (conferences_of a v) @
          map (\<lambda>r. (ring_group_plan D r,
            ring_group_xml D (rg_number r) (rg_members r) (rg_strategy r) (rg_timeout r))) (ring_groups_of a v) @
          map (\<lambda>r. (ivr_plan D r, ivr_xml D (iv_number r) (iv_options r) (iv_greeting r) 6000)) (ivrs_of a v)).
          put_plan p t = t"
    proof -
      from h have "?t1 = t" by (intro fold_idle) auto
      moreover from h this have "?t2 = t" by (simp, intro fold_idle) auto
      ultimately show ?thesis using h by auto
    qed
  qed simp
qed

lemma drop_features_runs:
  assumes "distinct ns" and "\<And>n. n \<in> set ns \<Longrightarrow> x_features t n \<noteq> None"
  shows "runs ob (ns = []) t (for_each (c_delete_dialplan c) ns) (\<lambda>_. True) (fold drop_feature ns t)"
  using assms
proof (induction ns arbitrary: t)
  case Nil
  show ?case unfolding for_each.simps fold_Nil id_apply by (rule runs_ret) simp
next
  case (Cons n ns)
  have 1: "runs ob False t (c_delete_dialplan c n) (\<lambda>_. True) (drop_feature n t)"
    unfolding drop_feature_def
    by (rule runs_weaken [OF does_runs [OF delete_dialplan]]) (use Cons.prems in auto)
  have 2: "runs ob (ns = []) (drop_feature n t) (for_each (c_delete_dialplan c) ns) (\<lambda>_. True)
      (fold drop_feature ns (drop_feature n t))"
    using Cons.prems by (intro Cons.IH) (auto simp: drop_feature_def)
  show ?case unfolding for_each.simps fold_Cons comp_apply
    by (rule runs_bind [OF 1 2]) auto
qed

lemma queues_run:
  assumes ok: "desired_ok a v"
  shows "runs ob (\<forall>q\<in>set (queues_of a v). put_voice_queue D q t = t) t
     (for_each (\<lambda>q. c_ensure_queue c D (vq_number q) (vq_agents q) (vq_strategy q)) (queues_of a v))
     (\<lambda>_. True) (fold (put_voice_queue D) (queues_of a v) t)"
  using ok by (intro runs_for_each [where P = "\<lambda>_. True"])
    (auto simp: put_voice_queue_def desired_ok_def list_all_iff queue_row_ok_def
      intro!: does_runs [OF ensure_queue])

lemma drop_queues_runs:
  assumes "list_all (\<lambda>n. valid_token n \<and> no_hyphen n) ns" and "x_exists t"
  shows "runs ob (ns = []) t (for_each (c_delete_queue c D) ns) (\<lambda>_. True) (fold (remove_queue D) ns t)"
proof (rule runs_weaken)
  show "runs ob (\<forall>n\<in>set ns. remove_queue D n t = t) t (for_each (c_delete_queue c D) ns) (\<lambda>_. True)
      (fold (remove_queue D) ns t)"
  proof (rule runs_for_each [where P = x_exists])
    show "runs ob (remove_queue D n t = t) t (c_delete_queue c D n) (\<lambda>_. True) (remove_queue D n t)"
      if "n \<in> set ns" "x_exists t" for n t
      using that assms(1) by (intro does_runs [OF delete_queue]) (auto simp: list_all_iff)
  qed (auto simp: remove_queue_def assms)
qed auto

end

section \<open>The whole reconcile\<close>

text \<open>
  What the PBX must not hold for a reconcile to get through: extension numbers that are not
  dial tokens, queue numbers that are not or that hold a hyphen.
\<close>

definition tenant_ok :: "tenant \<Rightarrow> bool" where
  "tenant_ok t \<longleftrightarrow> (\<forall>n\<in>dom (x_exts t). valid_token n) \<and>
     (\<forall>n\<in>dom (x_queues t). valid_token n \<and> no_hyphen n \<and> x_exists t)"

lemma wanted_names_dom: "dom (wanted_names exts) = ve_number ` set exts"
proof -
  have "dom (wanted_names exts) = dom (map_of (rev (map (\<lambda>e. (ve_number e, e)) exts)))"
    by (auto simp: wanted_names_def desired_by_number_def dom_def)
  then show ?thesis by (auto simp: dom_map_of_conv_image_fst image_image)
qed

lemma wanted_features_dom: "dom (wanted_features D a v) = desired_dialplans D a v"
  by (auto simp: wanted_features_def dom_map_of_conv_image_fst feature_plans_def desired_dialplans_def
      image_image image_Un)

lemma wanted_queues_dom: "dom (wanted_queues qs) = vq_number ` set qs"
  by (auto simp: wanted_queues_def dom_map_of_conv_image_fst image_image)

lemma distinct_feature_plans:
  assumes "desired_ok a v"
  shows "distinct (map fst (feature_plans D a v))"
proof -
  have *: "distinct (map (\<lambda>r. dialplan_name k D (f r)) rs)" if "distinct (map f rs)" for k f and rs :: "'z list"
    using that by (auto simp: distinct_map inj_on_def dialplan_name_def)
  have "map fst (feature_plans D a v) = map (conference_plan D) (conferences_of a v) @
      map (ring_group_plan D) (ring_groups_of a v) @ map (ivr_plan D) (ivrs_of a v)"
    by (simp add: feature_plans_def comp_def)
  moreover have "distinct (map (conference_plan D) (conferences_of a v))"
    "distinct (map (ring_group_plan D) (ring_groups_of a v))"
    "distinct (map (ivr_plan D) (ivrs_of a v))"
    using assms unfolding conference_plan_def ring_group_plan_def ivr_plan_def desired_ok_def
    by (simp_all add: *)
  ultimately show ?thesis
    by (auto simp: conference_plan_def ring_group_plan_def ivr_plan_def dialplan_name_def)
qed

lemma map_of_rev: "distinct (map fst xs) \<Longrightarrow> map_of (rev xs) = map_of xs"
proof -
  assume d: "distinct (map fst xs)"
  then have "distinct (map fst (rev xs))" by (metis distinct_rev rev_map)
  with d show ?thesis by (intro map_of_inject_set [THEN iffD2]) auto
qed

lemma wanted_features_at:
  assumes "desired_ok a v" and "p \<in> set (feature_plans D a v)"
  shows "wanted_features D a v (fst p) = Some (Some (snd p))"
proof -
  have "distinct (map fst (map (\<lambda>p. (fst p, Some (snd p))) (feature_plans D a v)))"
    using distinct_feature_plans [OF assms(1)] by (simp add: comp_def)
  then have "wanted_features D a v = map_of (map (\<lambda>p. (fst p, Some (snd p))) (feature_plans D a v))"
    unfolding wanted_features_def by (rule map_of_rev)
  moreover have "map_of (map (\<lambda>p. (fst p, Some (snd p))) (feature_plans D a v)) (fst p) = Some (Some (snd p))"
    using assms(2) \<open>distinct (map fst (map _ _))\<close> by (intro map_of_is_SomeI) auto
  ultimately show ?thesis by simp
qed

lemma wanted_queues_at:
  assumes "desired_ok a v" and "q \<in> set (queues_of a v)"
  shows "wanted_queues (queues_of a v) (vq_number q) = Some (Some (vq_strategy q), set (vq_agents q))"
    and "wanted_queue_plans D (queues_of a v) (dialplan_name ''queue'' D (vq_number q)) =
      Some (Some (queue_xml D (vq_number q)))"
proof -
  have d: "distinct (map vq_number (queues_of a v))" using assms(1) by (simp add: desired_ok_def)
  then have "wanted_queues (queues_of a v) =
      map_of (map (\<lambda>q. (vq_number q, (Some (vq_strategy q), set (vq_agents q)))) (queues_of a v))"
    unfolding wanted_queues_def by (intro map_of_rev) (simp add: comp_def)
  then show "wanted_queues (queues_of a v) (vq_number q) = Some (Some (vq_strategy q), set (vq_agents q))"
    using d assms(2) by (auto intro!: map_of_is_SomeI simp: comp_def)
  have e: "distinct (map (\<lambda>q. dialplan_name ''queue'' D (vq_number q)) (queues_of a v))"
    using d by (auto simp: distinct_map inj_on_def dialplan_name_def)
  then have "wanted_queue_plans D (queues_of a v) =
      map_of (map (\<lambda>q. (dialplan_name ''queue'' D (vq_number q), Some (queue_xml D (vq_number q)))) (queues_of a v))"
    unfolding wanted_queue_plans_def by (intro map_of_rev) (simp add: comp_def)
  then show "wanted_queue_plans D (queues_of a v) (dialplan_name ''queue'' D (vq_number q)) =
      Some (Some (queue_xml D (vq_number q)))"
    using e assms(2) by (auto intro!: map_of_is_SomeI simp: comp_def)
qed

context pbx_provider
begin

text \<open>The features: afterwards exactly the wanted ones are there.\<close>

lemma sync_features_runs:
  assumes ok: "desired_ok a v" and D: "D = vd_fusionpbx_domain v"
  shows "runs ob (x_exists t \<and> x_features t = wanted_features D a v) t (sync_features c a v) (\<lambda>_. True)
    (t\<lparr>x_exists := x_exists t \<or> feature_plans D a v \<noteq> [], x_features := wanted_features D a v\<rparr>)"
proof -
  let ?t1 = "fold put_plan (feature_plans D a v) t"
  let ?t2 = "t\<lparr>x_exists := x_exists t \<or> feature_plans D a v \<noteq> [], x_features := wanted_features D a v\<rparr>"
  have t1: "?t1 = t\<lparr>x_exists := x_exists t \<or> feature_plans D a v \<noteq> [],
      x_features := x_features t ++ wanted_features D a v\<rparr>"
    by (simp add: fold_put_plan wanted_features_def)
  have drop: "runs ob (dom (x_features ?t1) \<subseteq> desired_dialplans D a v) ?t1
      (bind_act (c_list_managed_dialplans c D) (\<lambda>names.
        for_each (c_delete_dialplan c) (filter (\<lambda>n. n \<notin> desired_dialplans D a v) names)))
      (\<lambda>_. True) ?t2"
  proof (rule runs_bind [OF answers_runs [OF list_dialplans]])
    fix names assume n: "set names = dom (x_features ?t1) \<and> distinct names"
    let ?ns = "filter (\<lambda>n. n \<notin> desired_dialplans D a v) names"
    have ns: "set ?ns = dom (wanted_features D a v) \<union> dom (x_features t) - dom (wanted_features D a v)"
      using n by (auto simp: t1 wanted_features_dom)
    then have e: "fold drop_feature ?ns ?t1 = ?t2"
      unfolding fold_drop_feature by (simp add: t1 without_add(2))
    have "x_features ?t1 m \<noteq> None" if "m \<in> set ?ns" for m
      using that n by auto
    then have "runs ob (?ns = []) ?t1 (for_each (c_delete_dialplan c) ?ns) (\<lambda>_. True) ?t2"
      unfolding e [symmetric] using n by (intro drop_features_runs) simp_all
    moreover have "?ns = []" if "dom (x_features ?t1) \<subseteq> desired_dialplans D a v"
      using n that by (simp add: filter_empty_conv subset_iff)
    ultimately show "runs ob (dom (x_features ?t1) \<subseteq> desired_dialplans D a v) ?t1
        (for_each (c_delete_dialplan c) ?ns) (\<lambda>_. True) ?t2"
      by (rule runs_weaken)
  qed simp
  have "sync_features c a v = then_act
     (then_act (for_each (\<lambda>r. c_create_conference c D (cr_number r)) (conferences_of a v))
     (then_act (for_each (\<lambda>r. c_create_ring_group c D (rg_number r) (rg_members r) (rg_strategy r)
                   (rg_timeout r)) (ring_groups_of a v))
       (for_each (\<lambda>r. c_create_ivr c D (iv_number r) (iv_options r) (iv_greeting r)) (ivrs_of a v))))
     (bind_act (c_list_managed_dialplans c D) (\<lambda>names.
        for_each (c_delete_dialplan c) (filter (\<lambda>n. n \<notin> desired_dialplans D a v) names)))"
    by (simp add: sync_features_def Let_def then_act_def bind_act_assoc D)
  moreover have "(\<forall>p\<in>set (feature_plans D a v). put_plan p t = t) \<and>
      dom (x_features ?t1) \<subseteq> desired_dialplans D a v"
    if "x_exists t \<and> x_features t = wanted_features D a v"
  proof
    show idle: "\<forall>p\<in>set (feature_plans D a v). put_plan p t = t"
      using that wanted_features_at [OF ok]
      by (cases t) (auto simp: put_plan_def put_feature_def fun_upd_idem_iff)
    then have "?t1 = t" by (intro fold_idle) auto
    with that show "dom (x_features ?t1) \<subseteq> desired_dialplans D a v"
      by (simp add: wanted_features_dom)
  qed
  ultimately show ?thesis
    using runs_then [OF plans_run [OF ok D] drop] by simp
qed

text \<open>The queues.\<close>

lemma sync_queues_runs:
  assumes ok: "desired_ok a v" and D: "D = vd_fusionpbx_domain v" and t: "tenant_ok t" "x_exists t"
  shows "runs ob (x_queues t = wanted_queues (queues_of a v) \<and>
      x_queue_plans t = x_queue_plans t ++ wanted_queue_plans D (queues_of a v)) t
    (sync_queues c a v) (\<lambda>_. True)
    (t\<lparr>x_queues := wanted_queues (queues_of a v),
       x_queue_plans := without (x_queue_plans t) (dialplan_name ''queue'' D ` dom (x_queues t))
         ++ wanted_queue_plans D (queues_of a v)\<rparr>)"
    (is "runs ob ?s t _ _ ?t2")
proof -
  let ?qs = "queues_of a v"
  let ?t1 = "fold (put_voice_queue D) ?qs t"
  have t1: "?t1 = t\<lparr>x_queues := x_queues t ++ wanted_queues ?qs,
      x_queue_plans := x_queue_plans t ++ wanted_queue_plans D ?qs\<rparr>"
    using t by (cases t) (simp add: fold_put_voice_queue)
  have drop: "runs ob (dom (x_queues t) \<subseteq> vq_number ` set ?qs) ?t1
      (bind_act (c_list_queues c D) (\<lambda>nums.
        for_each (c_delete_queue c D) (filter (\<lambda>n. n \<notin> vq_number ` set ?qs) nums))) (\<lambda>_. True) ?t2"
  proof (rule runs_bind [OF answers_runs [OF list_queues]])
    fix nums assume n: "set nums = dom (x_queues ?t1) \<and> distinct nums"
    let ?ns = "filter (\<lambda>n. n \<notin> vq_number ` set ?qs) nums"
    have ns: "set ?ns = dom (x_queues t) - vq_number ` set ?qs"
      using n by (auto simp: t1 wanted_queues_dom)
    have e: "fold (remove_queue D) ?ns ?t1 = ?t2"
    proof -
      have 1: "without (x_queues t ++ wanted_queues ?qs) (dom (x_queues t) - vq_number ` set ?qs) =
          wanted_queues ?qs"
        unfolding wanted_queues_dom [symmetric] by (rule without_add)
      have pd: "dom (wanted_queue_plans D ?qs) = dialplan_name ''queue'' D ` vq_number ` set ?qs"
        by (auto simp: wanted_queue_plans_def dom_map_of_conv_image_fst image_image)
      have inj: "inj (dialplan_name ''queue'' D)" by (auto simp: inj_def dialplan_name_def)
      have 2: "without (x_queue_plans t ++ wanted_queue_plans D ?qs)
            (dialplan_name ''queue'' D ` (dom (x_queues t) - vq_number ` set ?qs)) =
          without (x_queue_plans t) (dialplan_name ''queue'' D ` dom (x_queues t)) ++ wanted_queue_plans D ?qs"
        unfolding image_set_diff [OF inj] pd [symmetric] by (rule without_add)
      show ?thesis unfolding fold_remove_queue ns by (simp add: t1 1 2)
    qed
    have "list_all (\<lambda>n. valid_token n \<and> no_hyphen n) ?ns"
      using t ns by (auto simp: list_all_iff tenant_ok_def)
    then have "runs ob (?ns = []) ?t1 (for_each (c_delete_queue c D) ?ns) (\<lambda>_. True) ?t2"
      using drop_queues_runs [of ?ns ?t1] t e by (simp add: t1)
    moreover have "?ns = []" if "dom (x_queues t) \<subseteq> vq_number ` set ?qs"
    proof -
      have "set ?ns = {}" unfolding ns using that by (simp only: Diff_eq_empty_iff)
      then show ?thesis by (simp only: set_empty)
    qed
    ultimately show "runs ob (dom (x_queues t) \<subseteq> vq_number ` set ?qs) ?t1
        (for_each (c_delete_queue c D) ?ns) (\<lambda>_. True) ?t2"
      by (rule runs_weaken)
  qed simp
  have "(\<forall>q\<in>set ?qs. put_voice_queue D q t = t) \<and> dom (x_queues t) \<subseteq> vq_number ` set ?qs" if ?s
  proof
    show "dom (x_queues t) \<subseteq> vq_number ` set ?qs" using that by (simp add: wanted_queues_dom)
    have q: "x_queues t (vq_number q) = Some (Some (vq_strategy q), set (vq_agents q))"
      "x_queue_plans t (dialplan_name ''queue'' D (vq_number q)) = Some (Some (queue_xml D (vq_number q)))"
      if "q \<in> set ?qs" for q
    proof -
      note w = wanted_queues_at(1) [OF ok that] wanted_queues_at(2) [OF ok that, of D]
      from w(1) \<open>?s\<close> show "x_queues t (vq_number q) = Some (Some (vq_strategy q), set (vq_agents q))"
        by simp
      from \<open>?s\<close> have "x_queue_plans t = x_queue_plans t ++ wanted_queue_plans D ?qs" by simp
      then have "x_queue_plans t (dialplan_name ''queue'' D (vq_number q)) =
          (x_queue_plans t ++ wanted_queue_plans D ?qs) (dialplan_name ''queue'' D (vq_number q))"
        by (rule arg_cong)
      with w(2) show "x_queue_plans t (dialplan_name ''queue'' D (vq_number q)) =
          Some (Some (queue_xml D (vq_number q)))"
        by (simp add: map_add_def)
    qed
    have "exists_now t = t" using t(2) by (cases t) simp
    then show "\<forall>q\<in>set ?qs. put_voice_queue D q t = t"
      unfolding put_voice_queue_def using provision_queue_idem q by metis
  qed
  then show ?thesis
    unfolding sync_queues_def Let_def D [symmetric]
    by (intro runs_then [OF queues_run [OF ok] drop]) auto
qed

text \<open>The extensions and boxes.\<close>

lemma create_all_runs:
  assumes "list_all extension_row_ok exts"
  shows "runs ob (\<forall>n\<in>set ns. create_state exts n t = t) t (for_each (create_desired c D exts) ns)
    (\<lambda>_. True) (fold (create_state exts) ns t)"
  by (rule runs_for_each [where P = "\<lambda>_. True"]) (auto intro: create_runs assms)

lemma stale_idem: "stale_state n t = t \<Longrightarrow> x_exts t n = None \<and> n \<notin> x_boxes t"
proof -
  assume "stale_state n t = t"
  moreover have "x_exts (stale_state n t) n = None" "n \<notin> x_boxes (stale_state n t)"
    by (simp_all add: stale_state_def remove_box_def remove_extension_def)
  ultimately show ?thesis by simp
qed

lemma stale_all_runs:
  assumes "list_all valid_token ns"
  shows "runs ob (ns = []) t (for_each (delete_stale c D) ns) (\<lambda>_. True) (fold stale_state ns t)"
proof (rule runs_weaken)
  show "runs ob (\<forall>n\<in>set ns. stale_state n t = t) t (for_each (delete_stale c D) ns) (\<lambda>_. True)
      (fold stale_state ns t)"
  proof (rule runs_for_each [where P = "\<lambda>_. True"])
    show "runs ob (stale_state n t = t) t (delete_stale c D n) (\<lambda>_. True) (stale_state n t)"
      if "n \<in> set ns" for n t
      by (rule runs_weaken [OF stale_runs stale_idem])
        (use that assms in \<open>auto simp: list_all_iff\<close>)
  qed simp_all
qed simp_all

lemma voicemail_all_runs:
  assumes "list_all extension_row_ok es"
  shows "runs ob (\<forall>e\<in>set es. voicemail_state e t = t) t (for_each (sync_voicemail c D) es)
    (\<lambda>_. True) (fold voicemail_state es t)"
  using assms by (intro runs_for_each [where P = "\<lambda>_. True"])
    (auto simp: list_all_iff intro: voicemail_runs)

end

lemma fold_create_all:
  "finite (ve_number ` set exts) \<Longrightarrow> fold (create_state exts) (sorted_list_of_set (ve_number ` set exts)) t =
     t\<lparr>x_exists := x_exists t \<or> exts \<noteq> [], x_exts := x_exts t ++ wanted_names exts\<rparr>"
proof -
  have "x_exists t \<or> (\<exists>n\<in>ve_number ` set exts. desired_by_number exts n \<noteq> None) \<longleftrightarrow> x_exists t \<or> exts \<noteq> []"
    by (cases exts) (auto simp: desired_by_number_None)
  moreover have "(\<lambda>n. if n \<in> ve_number ` set exts \<and> desired_by_number exts n \<noteq> None then wanted_names exts n
      else x_exts t n) = x_exts t ++ wanted_names exts"
  proof
    fix n
    show "(if n \<in> ve_number ` set exts \<and> desired_by_number exts n \<noteq> None then wanted_names exts n
      else x_exts t n) = (x_exts t ++ wanted_names exts) n"
      by (cases "desired_by_number exts n")
        (auto simp: wanted_names_def map_add_def dest: desired_by_number_Some)
  qed
  ultimately show ?thesis unfolding fold_create_state by simp
qed

lemma active_state_fixed:
  assumes "active_state a v t = t" and "D = vd_fusionpbx_domain v"
  shows "x_exists t" "x_exts t = wanted_names (extensions_of a v)"
    "x_boxes t = (x_boxes t - dom (x_exts t) - ve_number ` set (extensions_of a v)) \<union>
      wanted_boxes (extensions_of a v)"
    "x_features t = wanted_features D a v" "x_queues t = wanted_queues (queues_of a v)"
    "x_queue_plans t = x_queue_plans t ++ wanted_queue_plans D (queues_of a v)"
    "x_routing t = Some (Some (routing_xml (vd_recording_enabled v) routing_pattern))"
    "x_dir t = Some (Some switch_voicemail_dir)"
proof -
  have "x_queue_plans t = without (x_queue_plans t) (dialplan_name ''queue'' D ` dom (x_queues t))
      ++ wanted_queue_plans D (queues_of a v)" (is "_ = ?w ++ ?q")
    using arg_cong [OF assms(1), of x_queue_plans] assms(2) by (simp add: active_state_def Let_def)
  then have "x_queue_plans t ++ ?q = (?w ++ ?q) ++ ?q" by simp
  also have "\<dots> = ?w ++ ?q" by (auto simp: map_add_def fun_eq_iff split: option.splits)
  finally show "x_queue_plans t = x_queue_plans t ++ ?q" using \<open>x_queue_plans t = ?w ++ ?q\<close> by simp
qed (use assms in \<open>cases t; simp add: active_state_def Let_def\<close>)+

context pbx_provider
begin

text \<open>An active domain: the tenant becomes what the tables ask for.\<close>

lemma active_runs:
  assumes ok: "desired_ok a v" and D: "D = vd_fusionpbx_domain v" and act: "vd_is_active v"
    and t: "tenant_ok t"
  shows "runs ob (active_state a v t = t) t (apply_desired c a v) (\<lambda>_. True) (active_state a v t)"
proof -
  let ?exts = "extensions_of a v"
  let ?ns = "ve_number ` set ?exts"
  let ?stale = "sorted_list_of_set (dom (x_exts t) - ?ns)"
  let ?es = "sort_key ve_number ?exts"
  let ?xml = "routing_xml (vd_recording_enabled v) routing_pattern"
  let ?t1 = "fold (create_state ?exts) (sorted_list_of_set ?ns) t"
  let ?t2 = "fold stale_state ?stale ?t1"
  let ?t3 = "fold voicemail_state ?es ?t2"
  let ?t4 = "put_dir ?t3"
  let ?t5 = "put_routing ?xml (exists_now ?t4)"
  let ?t6 = "?t5\<lparr>x_exists := x_exists ?t5 \<or> feature_plans D a v \<noteq> [], x_features := wanted_features D a v\<rparr>"
  let ?t7 = "?t6\<lparr>x_queues := wanted_queues (queues_of a v),
       x_queue_plans := without (x_queue_plans ?t6) (dialplan_name ''queue'' D ` dom (x_queues ?t6))
         ++ wanted_queue_plans D (queues_of a v)\<rparr>"
  let ?sync = "then_act (for_each (sync_voicemail c D) ?es)
     (then_act (c_ensure_switch_settings c)
     (then_act (c_ensure_routing c D (vd_recording_enabled v))
     (then_act (sync_features c a v) (sync_queues c a v))))"
  let ?fin = "finite (dom (x_exts t))"
  let ?same = "active_state a v t = t"
  have rows: "list_all extension_row_ok ?exts" and dist: "distinct (map ve_number ?es)"
    using ok by (auto simp: desired_ok_def distinct_map)
  have rows': "list_all extension_row_ok ?es" using rows by (simp add: list_all_iff)
  have t2: "?t2 = t\<lparr>x_exists := x_exists t \<or> ?exts \<noteq> [], x_exts := wanted_names ?exts,
      x_boxes := x_boxes t - (dom (x_exts t) - ?ns)\<rparr>" if ?fin
    unfolding fold_create_all [OF finite_imageI [OF finite_set]] fold_stale_state
    using that by (simp add: without_add(1) wanted_names_dom [symmetric])
  have t3: "?t3 = t\<lparr>x_exists := x_exists t \<or> ?exts \<noteq> [], x_exts := wanted_names ?exts,
      x_boxes := (x_boxes t - dom (x_exts t) - ?ns) \<union> wanted_boxes ?exts\<rparr>" if ?fin
  proof -
    have "wanted_boxes ?es = wanted_boxes ?exts" by (simp add: wanted_boxes_def)
    moreover have "x_exists t \<or> ?exts \<noteq> [] \<or> (\<exists>e\<in>set ?exts. ve_voicemail_enabled e) \<longleftrightarrow>
        x_exists t \<or> ?exts \<noteq> []" by auto
    moreover have "(x_boxes t - (dom (x_exts t) - ?ns)) - ?ns = x_boxes t - dom (x_exts t) - ?ns" by auto
    ultimately show ?thesis using that
      by (simp only: fold_voicemail_state [OF dist] t2) simp
  qed
  have t7: "?t7 = active_state a v t" if ?fin
    unfolding t3 [OF that] by (simp add: active_state_def Let_def put_routing_def put_dir_def D [symmetric])
  have ok6: "tenant_ok ?t6" "x_exists ?t6" if ?fin
    unfolding t3 [OF that] using t rows
    by (auto simp: tenant_ok_def put_routing_def put_dir_def wanted_names_dom list_all_iff extension_row_ok_def)
  have idle: "?t1 = t \<and> ?stale = [] \<and> ?t2 = t \<and> ?t3 = t \<and> ?t4 = t \<and> ?t5 = t \<and> ?t6 = t \<and>
      (\<forall>n\<in>set (sorted_list_of_set ?ns). create_state ?exts n t = t) \<and>
      (\<forall>e\<in>set ?es. voicemail_state e t = t)" if ?same
  proof -
    note f = active_state_fixed [OF that D]
    have ex: "exists_now t = t" using f(1) by (cases t) simp
    have c: "create_state ?exts n t = t" if "n \<in> ?ns" for n
    proof (cases "desired_by_number ?exts n")
      case None
      then show ?thesis by (simp add: create_state_def)
    next
      case (Some e)
      then have "put_extension n (ve_display_name e) t = t"
        by (simp add: put_extension_idem f(2) wanted_names_def)
      with Some show ?thesis by (simp add: create_state_def ex)
    qed
    have vm: "voicemail_state e t = t" if "e \<in> set ?exts" for e
    proof (cases "ve_voicemail_enabled e")
      case True
      then have "ve_number e \<in> x_boxes t" using that f(3) by (auto simp: wanted_boxes_def)
      with True ex show ?thesis by (simp add: voicemail_state_def add_box_idem)
    next
      case False
      have "ve_number e \<notin> wanted_boxes ?exts"
        using False that ok by (auto simp: wanted_boxes_def desired_ok_def distinct_map inj_on_def)
      then have "ve_number e \<notin> x_boxes t" using that f(3) by blast
      with False show ?thesis by (simp add: voicemail_state_def remove_box_idem)
    qed
    have t1: "?t1 = t" using c by (intro fold_idle) auto
    have st: "?stale = []" by (simp add: f(2) wanted_names_dom)
    with t1 have t2: "?t2 = t" by simp
    have t3: "?t3 = t" unfolding t2 using vm by (intro fold_idle) auto
    have "put_dir t = t" by (simp add: put_dir_idem f(8))
    with t3 have t4: "?t4 = t" by simp
    have "put_routing ?xml t = t" by (simp add: put_routing_idem f(7))
    with t4 ex have t5: "?t5 = t" by simp
    have t6: "?t6 = t" unfolding t5 using f(1,4) by (cases t) simp
    from c vm t1 st t2 t3 t4 t5 t6 show ?thesis by simp
  qed
  have r7: "runs ob ?same ?t6 (sync_queues c a v) (\<lambda>_. True) (active_state a v t)" if fin: ?fin
  proof -
    have "runs ob ?same ?t6 (sync_queues c a v) (\<lambda>_. True) ?t7"
    proof (rule runs_weaken [OF sync_queues_runs [OF ok D ok6 [OF fin]]])
      assume ?same
      with idle have "?t6 = t" by blast
      then show "x_queues ?t6 = wanted_queues (queues_of a v) \<and>
          x_queue_plans ?t6 = x_queue_plans ?t6 ++ wanted_queue_plans D (queues_of a v)"
        using active_state_fixed(5,6) [OF \<open>?same\<close> D] by simp
    qed simp
    then show ?thesis by (simp only: t7 [OF fin])
  qed
  have r6: "runs ob ?same ?t5 (sync_features c a v) (\<lambda>_. True) ?t6"
  proof (rule runs_weaken [OF sync_features_runs [OF ok D]])
    assume ?same
    with idle have "?t5 = t" by blast
    then show "x_exists ?t5 \<and> x_features ?t5 = wanted_features D a v"
      using active_state_fixed(1,4) [OF \<open>?same\<close> D] by simp
  qed simp
  have r5: "runs ob ?same ?t4 (c_ensure_routing c D (vd_recording_enabled v)) (\<lambda>_. True) ?t5"
    by (rule runs_weaken [OF does_runs [OF ensure_routing]]) (use idle in auto)
  have r4: "runs ob ?same ?t3 (c_ensure_switch_settings c) (\<lambda>_. True) ?t4"
    by (rule runs_weaken [OF does_runs [OF ensure_switch_settings]]) (use idle in auto)
  have r3: "runs ob ?same ?t2 (for_each (sync_voicemail c D) ?es) (\<lambda>_. True) ?t3"
    by (rule runs_weaken [OF voicemail_all_runs [OF rows']]) (use idle in auto)
  have tok: "list_all valid_token ?stale" if ?fin
    using t that by (simp add: tenant_ok_def list_all_iff)
  have r2: "runs ob ?same ?t1 (for_each (delete_stale c D) ?stale) (\<lambda>_. True) ?t2" if ?fin
    by (rule runs_weaken [OF stale_all_runs [OF tok [OF that]]]) (use idle in auto)
  have r1: "runs ob ?same t (for_each (create_desired c D ?exts) (sorted_list_of_set ?ns)) (\<lambda>_. True) ?t1"
    by (rule runs_weaken [OF create_all_runs [OF rows]]) (use idle in auto)
  have sync: "runs ob ?same ?t2 (sync_active c a v) (\<lambda>_. True) (active_state a v t)" if ?fin
    unfolding sync_active_def Let_def D [symmetric]
    by (intro runs_then_same [OF r3] runs_then_same [OF r4] runs_then_same [OF r5]
        runs_then_same [OF r6] r7 that)
  show ?thesis
    unfolding apply_desired_def Let_def D [symmetric] sorted_set_def compute_delta_def snd_conv set_map
    using act
  proof (simp only: if_True set_map [symmetric], intro runs_bind [OF answers_runs [OF list_extensions]])
    fix r :: "(string \<times> nat) list" assume r: "set (map fst r) = dom (x_exts t)"
    then have fin: ?fin by (metis finite_set)
    show "runs ob ?same t (then_act (for_each (create_desired c D ?exts) (sorted_list_of_set (set (map ve_number ?exts))))
        (then_act (for_each (delete_stale c D)
          (sorted_list_of_set (set (map fst r) - set (map ve_number ?exts)))) (sync_active c a v)))
        (\<lambda>_. True) (active_state a v t)"
      unfolding r unfolding set_map
      by (intro runs_then_same [OF r1] runs_then_same [OF r2 [OF fin]] sync fin)
  qed simp
qed

text \<open>A suspended domain: extensions, features and queues are gone.\<close>

lemma suspended_runs:
  assumes D: "D = vd_fusionpbx_domain v" and sus: "\<not> vd_is_active v" and t: "tenant_ok t"
  shows "runs ob (suspended_state D t = t) t (apply_desired c a v) (\<lambda>_. True) (suspended_state D t)"
proof -
  let ?stale = "sorted_list_of_set (dom (x_exts t))"
  let ?same = "suspended_state D t = t"
  let ?t1 = "t\<lparr>x_exts := Map.empty, x_boxes := x_boxes t - dom (x_exts t)\<rparr>"
  let ?t2 = "?t1\<lparr>x_features := Map.empty\<rparr>"
  have same: "x_exts t = Map.empty" "x_features t = Map.empty" "x_queues t = Map.empty" if ?same
    using that by (cases t; simp add: suspended_state_def)+
  have r1: "runs ob ?same t (for_each (delete_stale c D) ?stale) (\<lambda>_. True) ?t1" if "finite (dom (x_exts t))"
  proof (rule runs_weaken)
    have "list_all valid_token ?stale" using t that by (simp add: tenant_ok_def list_all_iff)
    from stale_all_runs [OF this, of t] show
      "runs ob (?stale = []) t (for_each (delete_stale c D) ?stale) (\<lambda>_. True) ?t1"
      using that by (simp add: fold_stale_state)
    show "?stale = []" if ?same using same(1) [OF that] by simp
  qed simp
  have r2: "runs ob ?same ?t1 (bind_act (c_list_managed_dialplans c D) (for_each (c_delete_dialplan c)))
      (\<lambda>_. True) ?t2"
  proof (rule runs_bind [OF answers_runs [OF list_dialplans]])
    fix r assume r: "set r = dom (x_features ?t1) \<and> distinct r"
    have e: "fold drop_feature r ?t1 = ?t2" using r by (simp add: fold_drop_feature)
    have "runs ob (r = []) ?t1 (for_each (c_delete_dialplan c) r) (\<lambda>_. True) ?t2"
      unfolding e [symmetric] using r by (intro drop_features_runs) auto
    moreover have "r = []" if ?same
    proof -
      have "set r = {}" using r same(2) [OF that] by simp
      then show ?thesis by (simp only: set_empty)
    qed
    ultimately show "runs ob ?same ?t1 (for_each (c_delete_dialplan c) r) (\<lambda>_. True) ?t2"
      by (rule runs_weaken)
  qed simp
  have r3: "runs ob ?same ?t2 (bind_act (c_list_queues c D) (for_each (c_delete_queue c D)))
      (\<lambda>_. True) (suspended_state D t)"
  proof (rule runs_bind [OF answers_runs [OF list_queues]])
    fix r assume r: "set r = dom (x_queues ?t2) \<and> distinct r"
    have e: "fold (remove_queue D) r ?t2 = suspended_state D t"
      using r by (simp add: fold_remove_queue suspended_state_def)
    have "runs ob (r = []) ?t2 (for_each (c_delete_queue c D) r) (\<lambda>_. True) (suspended_state D t)"
    proof (cases "r = []")
      case True
      with e show ?thesis by (simp only: True for_each.simps fold_Nil id_apply) (rule runs_ret, simp)
    next
      case False
      then have "hd r \<in> dom (x_queues t)" using r hd_in_set [of r] by simp
      then have "x_exists t" using t by (auto simp: tenant_ok_def)
      then show ?thesis
        unfolding e [symmetric] using r t by (intro drop_queues_runs) (auto simp: tenant_ok_def list_all_iff)
    qed
    moreover have "r = []" if ?same
    proof -
      have "set r = {}" using r same(3) [OF that] by simp
      then show ?thesis by (simp only: set_empty)
    qed
    ultimately show "runs ob ?same ?t2 (for_each (c_delete_queue c D) r) (\<lambda>_. True) (suspended_state D t)"
      by (rule runs_weaken)
  qed simp
  show ?thesis
    unfolding apply_desired_def Let_def D [symmetric] sorted_set_def compute_delta_def snd_conv
    using sus
  proof (simp only: if_False, intro runs_bind [OF answers_runs [OF list_extensions]])
    fix r :: "(string \<times> nat) list" assume r: "set (map fst r) = dom (x_exts t)"
    then have fin: "finite (dom (x_exts t))" by (metis finite_set)
    have r0: "runs ob ?same t (for_each (create_desired c D (extensions_of a v)) (sorted_list_of_set {}))
        (\<lambda>_. True) t"
      unfolding sorted_list_of_set_empty for_each.simps by (rule runs_ret) simp
    show "runs ob ?same t (then_act (for_each (create_desired c D (extensions_of a v)) (sorted_list_of_set {}))
        (then_act (for_each (delete_stale c D) (sorted_list_of_set (set (map fst r) - {})))
          (sync_suspended c D))) (\<lambda>_. True) (suspended_state D t)"
      unfolding r Diff_empty sync_suspended_def
      by (intro runs_then_same [OF r0] runs_then_same [OF r1 [OF fin]] runs_then_same [OF r2] r3)
  qed simp
qed

text \<open>The state a reconcile aims at, and the reconcile itself over the application's tables.\<close>

end

definition desired_state :: "voice_db \<Rightarrow> voice_domain \<Rightarrow> tenant \<Rightarrow> tenant" where
  "desired_state a v t =
     (if vd_is_active v then active_state a v t else suspended_state (vd_fusionpbx_domain v) t)"

context pbx_provider
begin

lemma apply_desired_runs:
  assumes "desired_ok a v" and "D = vd_fusionpbx_domain v" and "tenant_ok t"
  shows "runs ob (desired_state a v t = t) t (apply_desired c a v) (\<lambda>_. True) (desired_state a v t)"
  using active_runs [OF assms(1,2) _ assms(3)] suspended_runs [OF assms(2) _ assms(3)] assms(2)
  by (auto simp: desired_state_def)

text \<open>
  With the provider up, a reconcile reports success and the tenant is in the desired state;
  with it down it may report an error, and then the application's row says so.
\<close>

lemma reconcile_outcome:
  assumes v: "domain_of_customer customer_id (app s) = Some v" and ok: "desired_ok (app s) v"
    and D: "D = vd_fusionpbx_domain v" and good: "ob_good ob (pbxw s)"
    and t: "tenant_ok (ob_view ob (pbxw s))"
  shows "\<exists>w'. ob_good ob w' \<and> ob_up ob w' = ob_up ob (pbxw s) \<and>
    ((reconcile_voice c customer_id now s =
        (Inr Synced, \<lparr>app = set_sync_status (vd_id v) Synced now (app s), pbxw = w'\<rparr>) \<and>
      ob_view ob w' = desired_state (app s) v (ob_view ob (pbxw s)) \<and>
      (desired_state (app s) v (ob_view ob (pbxw s)) = ob_view ob (pbxw s) \<longrightarrow>
        ob_seen ob w' = ob_seen ob (pbxw s))) \<or>
     (reconcile_voice c customer_id now s =
        (Inr SyncError, \<lparr>app = set_sync_status (vd_id v) SyncError now (app s), pbxw = w'\<rparr>) \<and>
      \<not> ob_up ob (pbxw s)))"
proof -
  from apply_desired_runs [OF ok D t] good obtain w' where w': "ob_good ob w'" "ob_up ob w' = ob_up ob (pbxw s)"
    and c: "(\<exists>r. apply_desired c (app s) v (pbxw s) = (Inr r, w') \<and>
        ob_view ob w' = desired_state (app s) v (ob_view ob (pbxw s)) \<and>
        (desired_state (app s) v (ob_view ob (pbxw s)) = ob_view ob (pbxw s) \<longrightarrow>
          ob_seen ob w' = ob_seen ob (pbxw s))) \<or>
      (\<exists>msg. apply_desired c (app s) v (pbxw s) = (Inl (Unavailable msg), w') \<and> \<not> ob_up ob (pbxw s))"
    unfolding runs_def by auto
  from c w' v show ?thesis
    by (intro exI [of _ w']) (cases s, auto simp: reconcile_voice_def)
qed

end

end
