(* ===== verification/VoiceSync.thy ===== *)
theory VoiceSync
  imports ReconcileProof
begin

text \<open>
  The reconcile of \<^verbatim>\<open>app/services/reconcile/voice.py\<close> run with the FusionPBX client of
  \<^verbatim>\<open>app/services/fusionpbx/client.py\<close>: the client's operations keep the contract
  \<open>pbx_provider\<close> (an interpretation), and the properties of the pair follow: refinement of the
  desired state, silence when nothing is to do, isolation of the other tenants, outages.
\<close>

section \<open>The FusionPBX client keeps the contract\<close>

definition fusionpbx_client :: "world client" where
  "fusionpbx_client =
     \<lparr>c_list_extensions = list_extensions,
      c_create_extension = create_extension,
      c_delete_extension = delete_extension,
      c_delete_voicemail = Some delete_voicemail,
      c_ensure_voicemail = (\<lambda>D n. ensure_voicemail D n True []),
      c_ensure_switch_settings = ensure_switch_settings,
      c_ensure_routing = (\<lambda>D recording. ensure_routing D recording routing_pattern),
      c_create_conference = create_conference,
      c_create_ring_group = create_ring_group,
      c_create_ivr = (\<lambda>D n options greeting. create_ivr D n options greeting 6000),
      c_list_managed_dialplans = list_managed_dialplans,
      c_delete_dialplan = delete_dialplan,
      c_ensure_queue = ensure_queue,
      c_list_queues = list_queues,
      c_delete_queue = delete_queue,
      c_resync_queues = resync_queues\<rparr>"

text \<open>
  What is observed: the tenant's state, the whole database with the ESL commands sent, and, as
  part of a good world, that the other tenants are as they were in \<open>base\<close>.
\<close>

definition fusion_ob :: "string \<Rightarrow> pbx \<Rightarrow> (world, pbx \<times> effect list) observer" where
  "fusion_ob D base =
     \<lparr>ob_good = (\<lambda>w. valid_domain D \<and> sound D w \<and> untouched D base (db w) \<and>
        tenant_ok (tenant_of D (db w))),
      ob_up = all_up, ob_view = (\<lambda>w. tenant_of D (db w)), ob_seen = (\<lambda>w. (db w, effects w))\<rparr>"

lemma contract_runs:
  assumes "valid_domain D \<Longrightarrow> contract D pre m f post" and "pre t"
    and "\<And>t. tenant_ok t \<Longrightarrow> pre t \<Longrightarrow> tenant_ok (f t)"
  shows "runs (fusion_ob D base) (f t = t) t m (\<lambda>r. post r t) (f t)"
  unfolding runs_def
proof (intro allI impI)
  fix w assume g: "ob_good (fusion_ob D base) w" and v: "ob_view (fusion_ob D base) w = t"
  from g v assms(1,2) obtain w' where s: "sound D w'" and p: "plan w' = plan w"
    and c: "(\<exists>r. m w = (Inr r, w') \<and> tenant_of D (db w') = f t \<and>
           untouched D (db w) (db w') \<and> post r t \<and>
           (f t = t \<longrightarrow> db w' = db w \<and> effects w' = effects w)) \<or>
        (m w = (Inl unreachable, w') \<and> \<not> all_up w \<and> db w' = db w \<and> effects w' = effects w)"
    unfolding contract_def fusion_ob_def by auto
  have ok: "tenant_ok (f t)" using g v assms(2,3) by (auto simp: fusion_ob_def)
  have up: "all_up w' = all_up w" using p by (simp add: all_up_def)
  from c show "\<exists>w'. ob_good (fusion_ob D base) w' \<and> ob_up (fusion_ob D base) w' = ob_up (fusion_ob D base) w \<and>
       ((\<exists>r. m w = (Inr r, w') \<and> post r t \<and> ob_view (fusion_ob D base) w' = f t \<and>
           (f t = t \<longrightarrow> ob_seen (fusion_ob D base) w' = ob_seen (fusion_ob D base) w)) \<or>
        (\<exists>msg. m w = (Inl (Unavailable msg), w') \<and> \<not> ob_up (fusion_ob D base) w))"
  proof
    assume "\<exists>r. m w = (Inr r, w') \<and> tenant_of D (db w') = f t \<and>
           untouched D (db w) (db w') \<and> post r t \<and>
           (f t = t \<longrightarrow> db w' = db w \<and> effects w' = effects w)"
    moreover have "untouched D base (db w')" if "untouched D (db w) (db w')"
      using g that untouched_trans by (auto simp: fusion_ob_def)
    ultimately show ?thesis using g s up ok
      by (intro exI [of _ w']) (auto simp: fusion_ob_def)
  next
    assume "m w = (Inl unreachable, w') \<and> \<not> all_up w \<and> db w' = db w \<and> effects w' = effects w"
    then show ?thesis using g s up
      by (intro exI [of _ w']) (auto simp: fusion_ob_def)
  qed
qed

lemma contract_does:
  "(valid_domain D \<Longrightarrow> contract D pre m f post) \<Longrightarrow> (\<And>t. tenant_ok t \<Longrightarrow> pre t \<Longrightarrow> tenant_ok (f t)) \<Longrightarrow>
    does (fusion_ob D base) pre m f"
  unfolding does_def by (blast intro: runs_weaken contract_runs)

text \<open>What keeps the numbers in use well formed.\<close>

lemma tenant_ok_steps:
  "tenant_ok t \<Longrightarrow> valid_token n \<Longrightarrow> tenant_ok (put_extension n dn (exists_now t))"
  "tenant_ok t \<Longrightarrow> tenant_ok (remove_extension n t)"
  "tenant_ok t \<Longrightarrow> tenant_ok (remove_box n t)"
  "tenant_ok t \<Longrightarrow> tenant_ok (add_box n (exists_now t))"
  "tenant_ok t \<Longrightarrow> tenant_ok (put_dir t)"
  "tenant_ok t \<Longrightarrow> tenant_ok (put_routing xml (exists_now t))"
  "tenant_ok t \<Longrightarrow> tenant_ok (put_feature name xml (exists_now t))"
  "tenant_ok t \<Longrightarrow> tenant_ok (t\<lparr>x_features := fs\<rparr>)"
  "tenant_ok t \<Longrightarrow> valid_token n \<Longrightarrow> no_hyphen n \<Longrightarrow> tenant_ok (provision_queue D n s as (exists_now t))"
  "tenant_ok t \<Longrightarrow> tenant_ok (remove_queue D n t)"
  by (auto simp: tenant_ok_def put_extension_def remove_extension_def remove_box_def add_box_def
      put_dir_def put_routing_def put_feature_def provision_queue_def put_queue_plan_def put_queue_def
      remove_queue_def)

lemma contract_answers:
  "(valid_domain D \<Longrightarrow> contract D (\<lambda>_. True) m (\<lambda>t. t) Q) \<Longrightarrow> answers (fusion_ob D base) m Q"
  unfolding answers_def
proof
  fix t assume "valid_domain D \<Longrightarrow> contract D (\<lambda>_. True) m (\<lambda>t. t) Q"
  from contract_runs [OF this TrueI, where t = t and base = base] show "runs (fusion_ob D base) True t m (\<lambda>r. Q r t) t"
    by simp
qed

interpretation fusion: pbx_provider "fusion_ob D base" fusionpbx_client D delete_voicemail for D base
proof unfold_locales
  show "c_delete_voicemail fusionpbx_client = Some delete_voicemail"
    by (simp add: fusionpbx_client_def)
  show "answers (fusion_ob D base) (c_list_extensions fusionpbx_client D)
      (\<lambda>r t. set (map fst r) = dom (x_exts t))"
    unfolding fusionpbx_client_def client.select_convs
    by (intro contract_answers list_extensions_contract)
  show "does (fusion_ob D base) (\<lambda>t. x_features t name \<noteq> None) (c_delete_dialplan fusionpbx_client name)
      (\<lambda>t. t\<lparr>x_features := (x_features t)(name := None)\<rparr>)" for name
    unfolding fusionpbx_client_def client.select_convs
    by (rule contract_does, rule delete_dialplan_contract, rule tenant_ok_steps)
qed (auto simp: fusionpbx_client_def no_hyphen_def intro!: contract_does contract_answers tenant_ok_steps
    list_extensions_contract create_extension_contract delete_extension_contract
    delete_voicemail_contract ensure_voicemail_contract ensure_switch_settings_contract
    ensure_routing_contract create_conference_contract create_ring_group_contract
    create_ivr_contract list_managed_dialplans_contract delete_dialplan_contract
    ensure_queue_contract list_queues_contract delete_queue_contract)

section \<open>Reconciling twice\<close>

lemma desired_state_tenant_ok:
  assumes "desired_ok a v" and "tenant_ok t"
  shows "tenant_ok (desired_state a v t)"
proof (cases "vd_is_active v")
  case True
  then show ?thesis using assms(1)
    by (auto simp: desired_state_def active_state_def Let_def tenant_ok_def wanted_names_dom
        wanted_queues_dom desired_ok_def list_all_iff extension_row_ok_def queue_row_ok_def)
next
  case False
  then show ?thesis by (simp add: desired_state_def suspended_state_def tenant_ok_def)
qed

lemma without_idem:
  assumes "dom q = A"
  shows "without (without m B ++ q) A ++ q = without m B ++ q"
  using assms by (auto simp: without_def map_add_def fun_eq_iff split: option.splits)

text \<open>The desired state is stable: asking for it again changes nothing.\<close>

lemma desired_state_idem: "desired_state a v (desired_state a v t) = desired_state a v t"
proof (cases "vd_is_active v")
  case True
  let ?D = "vd_fusionpbx_domain v" and ?qs = "queues_of a v" and ?exts = "extensions_of a v"
  have w: "wanted_boxes ?exts \<subseteq> ve_number ` set ?exts" by (auto simp: wanted_boxes_def)
  have "dom (wanted_queue_plans ?D ?qs) = dialplan_name ''queue'' ?D ` dom (wanted_queues ?qs)"
    by (auto simp: wanted_queue_plans_def wanted_queues_def dom_map_of_conv_image_fst image_image)
  from without_idem [OF this] True w show ?thesis
    by (auto simp: desired_state_def active_state_def Let_def wanted_names_dom)
next
  case False
  have "without (without m B) {} = without m B" for m :: "string \<Rightarrow> string option option" and B by simp
  with False show ?thesis by (simp add: desired_state_def suspended_state_def)
qed

lemma set_sync_status_rows [simp]:
  "extensions_of (set_sync_status k st now a) v = extensions_of a v"
  "conferences_of (set_sync_status k st now a) v = conferences_of a v"
  "ring_groups_of (set_sync_status k st now a) v = ring_groups_of a v"
  "ivrs_of (set_sync_status k st now a) v = ivrs_of a v"
  "queues_of (set_sync_status k st now a) v = queues_of a v"
  by (simp_all add: set_sync_status_def extensions_of_def conferences_of_def ring_groups_of_def
      ivrs_of_def queues_of_def)

abbreviation mark :: "sync_status \<Rightarrow> nat \<Rightarrow> voice_domain \<Rightarrow> voice_domain" where
  "mark st now v \<equiv> v\<lparr>vd_sync_status := st, vd_last_reconciled_at := Some now\<rparr>"

lemma mark_rows [simp]:
  "extensions_of a (mark st now v) = extensions_of a v"
  "conferences_of a (mark st now v) = conferences_of a v"
  "ring_groups_of a (mark st now v) = ring_groups_of a v"
  "ivrs_of a (mark st now v) = ivrs_of a v"
  "queues_of a (mark st now v) = queues_of a v"
  by (simp_all add: extensions_of_def conferences_of_def ring_groups_of_def ivrs_of_def queues_of_def)

lemma mark_state [simp]:
  "desired_state (set_sync_status k st now a) (mark st' now' v) t = desired_state a v t"
  "desired_ok (set_sync_status k st now a) (mark st' now' v) = desired_ok a v"
  by (simp_all add: desired_state_def active_state_def suspended_state_def wanted_features_def
      feature_plans_def desired_ok_def)

lemma domain_of_customer_mem:
  "domain_of_customer cid a = Some v \<Longrightarrow> v \<in> set (a_domains a) \<and> vd_customer_id v = cid"
  by (auto simp: domain_of_customer_def dest: first_where_Some)

lemma domain_of_customer_marked:
  assumes "voice_inv a" and "domain_of_customer cid a = Some v"
  shows "domain_of_customer cid (set_sync_status (vd_id v) st now a) = Some (mark st now v)"
proof -
  have "distinct (map vd_id (a_domains a))" using assms(1) by (simp add: voice_inv_def keyed_def)
  from first_where_update_key [OF this, of v "\<lambda>r. vd_customer_id r = cid" "mark st now"]
  show ?thesis using assms(2) domain_of_customer_mem [OF assms(2)]
    by (simp add: domain_of_customer_def set_sync_status_def)
qed

text \<open>The outcome of a reconcile, from the well-formedness the API keeps.\<close>

lemma fusion_outcome:
  assumes inv: "voice_inv (app s)" and h: "hyphen_free (app s)"
    and v: "domain_of_customer cid (app s) = Some v" and D: "D = vd_fusionpbx_domain v"
    and sound: "sound D (pbxw s)" and t: "tenant_ok (tenant_of D (db (pbxw s)))"
  shows "\<exists>w'. sound D w' \<and> untouched D (db (pbxw s)) (db w') \<and> all_up w' = all_up (pbxw s) \<and>
    tenant_ok (tenant_of D (db w')) \<and>
    ((reconcile_voice fusionpbx_client cid now s =
        (Inr Synced, \<lparr>app = set_sync_status (vd_id v) Synced now (app s), pbxw = w'\<rparr>) \<and>
      tenant_of D (db w') = desired_state (app s) v (tenant_of D (db (pbxw s))) \<and>
      (desired_state (app s) v (tenant_of D (db (pbxw s))) = tenant_of D (db (pbxw s)) \<longrightarrow>
        db w' = db (pbxw s) \<and> effects w' = effects (pbxw s))) \<or>
     (reconcile_voice fusionpbx_client cid now s =
        (Inr SyncError, \<lparr>app = set_sync_status (vd_id v) SyncError now (app s), pbxw = w'\<rparr>) \<and>
      \<not> all_up (pbxw s)))"
proof -
  have ok: "desired_ok (app s) v"
    using voice_inv_desired_ok [OF inv _ h] domain_of_customer_mem [OF v] by blast
  have "valid_domain D" using ok D by (simp add: desired_ok_def)
  then have g: "ob_good (fusion_ob D (db (pbxw s))) (pbxw s)"
    using sound t by (simp add: fusion_ob_def)
  have t': "tenant_ok (ob_view (fusion_ob D (db (pbxw s))) (pbxw s))" using t by (simp add: fusion_ob_def)
  from fusion.reconcile_outcome [OF v ok D g t'] show ?thesis
    by (fastforce simp: fusion_ob_def)
qed

section \<open>A concrete system\<close>

text \<open>
  One customer with two extensions, a conference room, a ring group, a menu and a queue, on an
  empty PBX; it is where the properties are shown to apply.
\<close>

definition sample_domain :: voice_domain where
  "sample_domain = \<lparr>vd_id = 0, vd_customer_id = ''cust-1'', vd_fusionpbx_domain = ''c1.local'',
     vd_sync_status = Pending, vd_is_active = True, vd_recording_enabled = False,
     vd_last_reconciled_at = None\<rparr>"

definition sample_app :: voice_db where
  "sample_app =
     \<lparr>a_domains = [sample_domain],
      a_extensions =
        [\<lparr>ve_id = 1, ve_domain = 0, ve_number = ''1002'', ve_display_name = ''Bob'',
          ve_voicemail_enabled = False, ve_sync_status = Pending\<rparr>,
         \<lparr>ve_id = 2, ve_domain = 0, ve_number = ''1001'', ve_display_name = ''Ann'',
          ve_voicemail_enabled = True, ve_sync_status = Pending\<rparr>],
      a_conferences = [\<lparr>cr_id = 3, cr_domain = 0, cr_number = ''3001''\<rparr>],
      a_ring_groups = [\<lparr>rg_id = 4, rg_domain = 0, rg_number = ''3002'', rg_strategy = ''sequence'',
          rg_members = [''1001'', ''1002''], rg_timeout = 20\<rparr>],
      a_ivrs = [\<lparr>iv_id = 5, iv_domain = 0, iv_number = ''3003'', iv_greeting = ''hello.wav'',
          iv_options = [(''2'', ''1002''), (''1'', ''1001'')]\<rparr>],
      a_queues = [\<lparr>vq_id = 6, vq_domain = 0, vq_number = ''4001'', vq_name = ''Help'',
          vq_strategy = ''ring-all'', vq_agents = [''1001'']\<rparr>],
      a_next = 7\<rparr>"

definition empty_pbx :: pbx where
  "empty_pbx = \<lparr>t_domains = [], t_extensions = [], t_voicemails = [], t_messages = [],
     t_dialplans = [], t_settings = [], t_modules = [], t_queues = [], t_agents = [], t_tiers = [],
     next_id = 0\<rparr>"

definition sample_world :: "(nat \<Rightarrow> db_outcome) \<Rightarrow> world" where
  "sample_world p = \<lparr>db = empty_pbx, plan = p, txno = 0, effects = [], token = (\<lambda>n. ''secret''),
     tokenno = 0, uuid_text = nat_str\<rparr>"

definition sample_sys :: "(nat \<Rightarrow> db_outcome) \<Rightarrow> world sys" where
  "sample_sys p = \<lparr>app = sample_app, pbxw = sample_world p\<rparr>"

lemma sample_rows_valid:
  "valid_domain ''c1.local''" "valid_token ''1001''" "valid_token ''1002''" "valid_token ''3001''"
  "valid_token ''3002''" "valid_token ''3003''" "valid_token ''4001''"
  "valid_ivr_digit ''1''" "valid_ivr_digit ''2''"
  by code_simp+

lemma sample_inv: "voice_inv sample_app" "hyphen_free sample_app"
  by (simp_all add: voice_inv_def hyphen_free_def sample_app_def sample_domain_def table_ok_def keyed_def
      domain_row_ok_def extension_row_ok_def conference_row_ok_def ring_group_row_ok_def ivr_row_ok_def
      queue_row_ok_def no_hyphen_def sample_rows_valid domain_fits_def extension_fits_def conference_fits_def
      ring_group_fits_def ivr_fits_def queue_fits_def ring_strategies_def queue_strategies_def)

lemma sample_domain_found: "domain_of_customer ''cust-1'' (app (sample_sys p)) = Some sample_domain"
  by (simp add: sample_sys_def sample_app_def sample_domain_def domain_of_customer_def)

lemma empty_tenant:
  "tenant_of D empty_pbx = \<lparr>x_exists = False, x_exts = Map.empty, x_boxes = {},
     x_features = Map.empty, x_queues = Map.empty, x_queue_plans = Map.empty, x_routing = None, x_dir = None\<rparr>"
  by (simp add: tenant_of_def empty_pbx_def domain_of_def ext_view_def box_view_def plan_view_def
      queue_view_def routing_view_def dir_view_def view_of_def fun_eq_iff)

lemma empty_pbx_inv: "pbx_inv empty_pbx" "owned E empty_pbx"
  by (simp_all add: pbx_inv_def empty_pbx_def keyed_def owned_def)

lemma sample_ready:
  "(\<And>n. p n \<noteq> DbIntegrity) \<Longrightarrow> sound (vd_fusionpbx_domain sample_domain) (pbxw (sample_sys p))"
  "tenant_ok (tenant_of (vd_fusionpbx_domain sample_domain) (db (pbxw (sample_sys p))))"
  "voice_inv (app (sample_sys p))" "hyphen_free (app (sample_sys p))"
  by (simp_all add: sound_def tame_def sample_sys_def sample_world_def empty_pbx_inv empty_tenant
      tenant_ok_def sample_inv)

text \<open>The PBX is reachable; it fails at the third transaction.\<close>

definition always_up :: "nat \<Rightarrow> db_outcome" where
  "always_up n = DbOk"

definition third_fails :: "nat \<Rightarrow> db_outcome" where
  "third_fails n = (if n = 2 then DbUnreachable else DbOk)"

lemma sample_plans: "always_up n \<noteq> DbIntegrity" "third_fails n \<noteq> DbIntegrity"
  "all_up (pbxw (sample_sys always_up))"
  by (simp_all add: always_up_def third_fails_def all_up_def sample_sys_def sample_world_def fun_eq_iff)

section \<open>Properties\<close>

text \<open>
  What a reconcile makes of a tenant, from \<open>t\<close> to \<open>t'\<close>: extensions, features and queues are exactly those
  that the tables ask for, whatever was there. Of the boxes only those of an extension there or of
  a row are its concern: a box without either stays, and so does the dialplan of a queue that the PBX
  does not list. Without such leftovers boxes and dialplans of queues are exact too.
\<close>

definition leftovers :: "voice_db \<Rightarrow> voice_domain \<Rightarrow> tenant \<Rightarrow> string set" where
  "leftovers a v t = x_boxes t - dom (x_exts t) - (if vd_is_active v then ve_number ` set (extensions_of a v) else {})"

definition as_asked :: "voice_db \<Rightarrow> voice_domain \<Rightarrow> tenant \<Rightarrow> tenant \<Rightarrow> bool" where
  "as_asked a v t t' \<longleftrightarrow>
     (let D = vd_fusionpbx_domain v; exts = extensions_of a v; qs = queues_of a v;
          plans = (if vd_is_active v then wanted_queue_plans D qs else Map.empty) in
      x_exts t' = (if vd_is_active v then wanted_names exts else Map.empty) \<and>
      x_features t' = (if vd_is_active v then wanted_features D a v else Map.empty) \<and>
      x_queues t' = (if vd_is_active v then wanted_queues qs else Map.empty) \<and>
      x_boxes t' = (if vd_is_active v then wanted_boxes exts else {}) \<union> leftovers a v t \<and>
      plans \<subseteq>\<^sub>m x_queue_plans t' \<and>
      (dom (x_queue_plans t) \<subseteq> dialplan_name ''queue'' D ` dom (x_queues t) \<longrightarrow> x_queue_plans t' = plans))"

lemma without_all: "dom m \<subseteq> A \<Longrightarrow> without m A = Map.empty"
  by (auto simp: without_def fun_eq_iff)

lemma desired_as_asked: "as_asked a v t (desired_state a v t)"
  by (auto simp: as_asked_def leftovers_def desired_state_def active_state_def suspended_state_def Let_def
      map_le_def without_all)



text \<open>
  Property C2. A second reconcile right after a successful one is silent: it reports success,
  writes nothing to the PBX database and sends no command.
\<close>

theorem reconcile_idempotent:
  assumes "voice_inv (app s)" and "hyphen_free (app s)"
    and "domain_of_customer cid (app s) = Some v"
    and "sound (vd_fusionpbx_domain v) (pbxw s)"
    and "tenant_ok (tenant_of (vd_fusionpbx_domain v) (db (pbxw s)))" and "all_up (pbxw s)"
  shows "\<exists>s1 s2. reconcile_voice fusionpbx_client cid now s = (Inr Synced, s1) \<and>
    reconcile_voice fusionpbx_client cid later s1 = (Inr Synced, s2) \<and>
    db (pbxw s2) = db (pbxw s1) \<and> effects (pbxw s2) = effects (pbxw s1)"
proof -
  let ?D = "vd_fusionpbx_domain v"
  let ?t = "tenant_of ?D (db (pbxw s))"
  have ok: "desired_ok (app s) v"
    using voice_inv_desired_ok [OF assms(1) _ assms(2)] domain_of_customer_mem [OF assms(3)] by blast
  from fusion_outcome [OF assms(1-3) refl assms(4,5)] assms(6) obtain w1 where
    1: "reconcile_voice fusionpbx_client cid now s =
        (Inr Synced, \<lparr>app = set_sync_status (vd_id v) Synced now (app s), pbxw = w1\<rparr>)"
    and w1: "sound ?D w1" "all_up w1" and t1: "tenant_of ?D (db w1) = desired_state (app s) v ?t" by metis
  let ?s1 = "\<lparr>app = set_sync_status (vd_id v) Synced now (app s), pbxw = w1\<rparr>"
  let ?v1 = "mark Synced now v"
  have tok: "tenant_ok (ob_view (fusion_ob ?D (db w1)) (pbxw ?s1))"
    using desired_state_tenant_ok [OF ok assms(5)] by (simp add: fusion_ob_def t1)
  then have g: "ob_good (fusion_ob ?D (db w1)) (pbxw ?s1)"
    using ok w1 by (simp add: fusion_ob_def desired_ok_def)
  have v1: "domain_of_customer cid (app ?s1) = Some ?v1"
    using domain_of_customer_marked [OF assms(1,3)] by simp
  have ok1: "desired_ok (app ?s1) ?v1" using ok by simp
  have D1: "?D = vd_fusionpbx_domain ?v1" by simp
  have same: "desired_state (app ?s1) ?v1 (tenant_of ?D (db w1)) = tenant_of ?D (db w1)"
    by (simp add: t1 desired_state_idem)
  from fusion.reconcile_outcome [OF v1 ok1 D1 g tok, of later] same w1 obtain w2 where
    2: "reconcile_voice fusionpbx_client cid later ?s1 =
        (Inr Synced, \<lparr>app = set_sync_status (vd_id ?v1) Synced later (app ?s1), pbxw = w2\<rparr>)"
    and "db w2 = db w1 \<and> effects w2 = effects w1"
    by (fastforce simp: fusion_ob_def)
  with 1 show ?thesis by (intro exI) (rule conjI, assumption, rule conjI, assumption, simp)
qed

theorem reconcile_idempotent_witness:
  "\<exists>s1 s2. reconcile_voice fusionpbx_client ''cust-1'' 10 (sample_sys always_up) = (Inr Synced, s1) \<and>
    reconcile_voice fusionpbx_client ''cust-1'' 11 s1 = (Inr Synced, s2) \<and>
    db (pbxw s2) = db (pbxw s1) \<and> effects (pbxw s2) = effects (pbxw s1)"
  by (rule reconcile_idempotent [OF _ _ sample_domain_found])
    (simp_all add: sample_ready sample_plans)

text \<open>
  Property C3. Tenants are isolated as long as no feature number has a hyphen: whatever a
  reconcile does, and whether or not the PBX stays reachable, every other tenant whose managed dialplans
  carry names of its own keeps its extensions, boxes, features and queues. Only the shared routing and
  switch settings can change for it. (With a hyphen in a number two tenants can share the name of
  a dialplan, \<open>feature_names_collide\<close>, and then the isolation fails.)
\<close>

theorem reconcile_isolates:
  assumes "voice_inv (app s)" and "hyphen_free (app s)"
    and "domain_of_customer cid (app s) = Some v"
    and "sound (vd_fusionpbx_domain v) (pbxw s)"
    and "tenant_ok (tenant_of (vd_fusionpbx_domain v) (db (pbxw s)))"
    and "E \<noteq> vd_fusionpbx_domain v" and "owned E (db (pbxw s))"
  shows "private_of E (db (pbxw (snd (reconcile_voice fusionpbx_client cid now s)))) =
    private_of E (db (pbxw s))"
  using fusion_outcome [OF assms(1-3) refl assms(4,5), of now] assms(6,7)
  by (auto simp: untouched_def)

theorem reconcile_isolates_witness:
  "private_of ''c2.local'' (db (pbxw (snd (reconcile_voice fusionpbx_client ''cust-1'' 10
      (sample_sys third_fails))))) = private_of ''c2.local'' (db (pbxw (sample_sys third_fails)))"
  by (rule reconcile_isolates [OF _ _ sample_domain_found])
    (simp_all add: sample_ready sample_plans, simp_all add: sample_domain_def sample_sys_def
      sample_world_def empty_pbx_inv)

text \<open>
  Property C4. An outage is contained: with any transactions of the PBX failing because it cannot
  be reached, the others committing, a reconcile still returns, with success or with the status
  \<open>error\<close> which it also stores; it leaves the PBX sound; and it can report the error only if the PBX
  was not up. The violation of a constraint by a transaction is no outage and not covered: it
  escapes (\<open>violation_escapes\<close>). Feature numbers have no hyphen.
\<close>

theorem reconcile_survives_outage:
  assumes "voice_inv (app s)" and "hyphen_free (app s)"
    and "domain_of_customer cid (app s) = Some v"
    and "sound (vd_fusionpbx_domain v) (pbxw s)"
    and "tenant_ok (tenant_of (vd_fusionpbx_domain v) (db (pbxw s)))"
  shows "\<exists>st w'. reconcile_voice fusionpbx_client cid now s =
      (Inr st, \<lparr>app = set_sync_status (vd_id v) st now (app s), pbxw = w'\<rparr>) \<and>
    sound (vd_fusionpbx_domain v) w' \<and> (st = Synced \<or> st = SyncError \<and> \<not> all_up (pbxw s))"
  using fusion_outcome [OF assms(1-3) refl assms(4,5), of now] by blast

theorem reconcile_survives_outage_witness:
  "\<exists>st w'. reconcile_voice fusionpbx_client ''cust-1'' 10 (sample_sys third_fails) =
      (Inr st, \<lparr>app = set_sync_status (vd_id sample_domain) st 10 (app (sample_sys third_fails)), pbxw = w'\<rparr>) \<and>
    sound (vd_fusionpbx_domain sample_domain) w' \<and>
    (st = Synced \<or> st = SyncError \<and> \<not> all_up (pbxw (sample_sys third_fails)))"
  by (rule reconcile_survives_outage) (simp_all add: sample_ready sample_domain_found sample_plans)

text \<open>The other failure of a transaction is not handled: the error leaves the reconcile, no status is stored.\<close>

lemma violation_escapes:
  assumes inv: "voice_inv (app s)" and v: "domain_of_customer cid (app s) = Some v" and on: "vd_is_active v"
    and some: "extensions_of (app s) v \<noteq> []" and pbx: "pbx_inv (db (pbxw s))"
    and p: "plan (pbxw s) (txno (pbxw s)) = DbOk" "plan (pbxw s) (Suc (txno (pbxw s))) = DbIntegrity"
  shows "reconcile_voice fusionpbx_client cid now s = (Inl (BadRequest ''FusionPBX extension insert failed''),
    s\<lparr>pbxw := (pbxw s)\<lparr>tokenno := Suc (tokenno (pbxw s)), txno := Suc (Suc (txno (pbxw s)))\<rparr>\<rparr>)"
proof -
  let ?exts = "extensions_of (app s) v" and ?D = "vd_fusionpbx_domain v"
  have D: "valid_domain ?D" using inv domain_of_customer_mem [OF v]
    by (auto simp: voice_inv_def list_all_iff domain_row_ok_def)
  have "set (sorted_set (set (map ve_number ?exts))) = set (map ve_number ?exts)" by (simp add: sorted_set_def)
  moreover have "set (map ve_number ?exts) \<noteq> {}" using some by simp
  ultimately obtain n ns where ns: "sorted_set (set (map ve_number ?exts)) = n # ns" "n \<in> set (map ve_number ?exts)"
    by (cases "sorted_set (set (map ve_number ?exts))") auto
  then obtain r where r: "r \<in> set ?exts" "ve_number r = n" by auto
  then have tok: "valid_token n" using inv
    by (auto simp: voice_inv_def table_ok_def list_all_iff extensions_of_def extension_row_ok_def)
  obtain e where e: "desired_by_number ?exts n = Some e"
    using r by (cases "desired_by_number ?exts n") (auto simp: desired_by_number_None)
  have q: "\<exists>xs. query_extensions ?D (db (pbxw s)) = Inr xs"
    by (simp add: query_extensions_def domain_uuid_for_inv [OF pbx] split: option.split)
  then obtain xs where q: "query_extensions ?D (db (pbxw s)) = Inr xs" by blast
  show ?thesis
    using v on D tok e q p ns(1)
    by (simp add: reconcile_voice_def apply_desired_def Let_def fusionpbx_client_def list_extensions_def
        create_desired_def create_extension_def check_names_def write_op_def transaction_def draw_token_def
        bind_act_def then_act_def require_domain_def require_dial_token_def reading_def)
qed

text \<open>
  Property C5. Outages heal, up to orphaned boxes: whatever transactions an outage made a reconcile
  miss, one more reconcile with the PBX reachable again reports success, and then the customer's
  extensions, features and queues are exactly those that the tables ask for, the same as without
  the outage, and every extension with voicemail has its box. What is not repaired are boxes that
  the outage left without an extension: they stay, as \<open>as_asked\<close> says of the state \<open>s1\<close> after the
  interruption. Feature numbers have no hyphen.
\<close>

theorem reconcile_heals:
  assumes "voice_inv (app s)" and "hyphen_free (app s)"
    and "domain_of_customer cid (app s) = Some v"
    and "sound (vd_fusionpbx_domain v) (pbxw s)"
    and "tenant_ok (tenant_of (vd_fusionpbx_domain v) (db (pbxw s)))"
  shows "\<exists>st s1 w2. reconcile_voice fusionpbx_client cid now s = (Inr st, s1) \<and>
    reconcile_voice fusionpbx_client cid later (s1\<lparr>pbxw := (pbxw s1)\<lparr>plan := \<lambda>_. DbOk\<rparr>\<rparr>) =
      (Inr Synced, \<lparr>app = set_sync_status (vd_id v) Synced later (app s1), pbxw = w2\<rparr>) \<and>
    as_asked (app s) v (tenant_of (vd_fusionpbx_domain v) (db (pbxw s1))) (tenant_of (vd_fusionpbx_domain v) (db w2)) \<and>
    tenant_of (vd_fusionpbx_domain v) (db w2) =
      desired_state (app s) v (tenant_of (vd_fusionpbx_domain v) (db (pbxw s1)))"
proof -
  let ?D = "vd_fusionpbx_domain v"
  have ok: "desired_ok (app s) v"
    using voice_inv_desired_ok [OF assms(1) _ assms(2)] domain_of_customer_mem [OF assms(3)] by blast
  from fusion_outcome [OF assms(1-3) refl assms(4,5), of now] obtain st w1 where
    1: "reconcile_voice fusionpbx_client cid now s =
        (Inr st, \<lparr>app = set_sync_status (vd_id v) st now (app s), pbxw = w1\<rparr>)"
    and w1: "sound ?D w1" "tenant_ok (tenant_of ?D (db w1))" by metis
  let ?s1 = "\<lparr>app = set_sync_status (vd_id v) st now (app s), pbxw = w1\<rparr>"
  let ?w = "w1\<lparr>plan := \<lambda>_. DbOk\<rparr>"
  let ?s2 = "?s1\<lparr>pbxw := ?w\<rparr>"
  let ?v1 = "mark st now v"
  have g: "ob_good (fusion_ob ?D (db ?w)) (pbxw ?s2)"
    using ok w1 by (simp add: fusion_ob_def desired_ok_def sound_def tame_def)
  have tok: "tenant_ok (ob_view (fusion_ob ?D (db ?w)) (pbxw ?s2))"
    using w1(2) by (simp add: fusion_ob_def)
  have v1: "domain_of_customer cid (app ?s2) = Some ?v1"
    using domain_of_customer_marked [OF assms(1,3)] by simp
  have ok1: "desired_ok (app ?s2) ?v1" using ok by simp
  have D1: "?D = vd_fusionpbx_domain ?v1" by simp
  have up: "ob_up (fusion_ob ?D (db ?w)) (pbxw ?s2)" by (simp add: fusion_ob_def all_up_def)
  from fusion.reconcile_outcome [OF v1 ok1 D1 g tok, of later] up obtain w2 where
    2: "reconcile_voice fusionpbx_client cid later ?s2 =
        (Inr Synced, \<lparr>app = set_sync_status (vd_id ?v1) Synced later (app ?s2), pbxw = w2\<rparr>)"
    and t2: "ob_view (fusion_ob ?D (db ?w)) w2 =
      desired_state (app ?s2) ?v1 (ob_view (fusion_ob ?D (db ?w)) (pbxw ?s2))"
    by blast
  from t2 have t2': "tenant_of ?D (db w2) = desired_state (app s) v (tenant_of ?D (db w1))"
    by (simp add: fusion_ob_def)
  have "as_asked (app s) v (tenant_of ?D (db w1)) (tenant_of ?D (db w2))"
    unfolding t2' by (rule desired_as_asked)
  with 1 2 t2' show ?thesis
    by (intro exI [of _ st] exI [of _ ?s1] exI [of _ w2]) simp
qed

theorem reconcile_heals_witness:
  "\<exists>st s1 w2. reconcile_voice fusionpbx_client ''cust-1'' 10 (sample_sys third_fails) = (Inr st, s1) \<and>
    reconcile_voice fusionpbx_client ''cust-1'' 11 (s1\<lparr>pbxw := (pbxw s1)\<lparr>plan := \<lambda>_. DbOk\<rparr>\<rparr>) =
      (Inr Synced, \<lparr>app = set_sync_status (vd_id sample_domain) Synced 11 (app s1), pbxw = w2\<rparr>) \<and>
    as_asked (app (sample_sys third_fails)) sample_domain
      (tenant_of (vd_fusionpbx_domain sample_domain) (db (pbxw s1))) (tenant_of (vd_fusionpbx_domain sample_domain) (db w2)) \<and>
    tenant_of (vd_fusionpbx_domain sample_domain) (db w2) =
      desired_state (app (sample_sys third_fails)) sample_domain
        (tenant_of (vd_fusionpbx_domain sample_domain) (db (pbxw s1)))"
  by (rule reconcile_heals) (simp_all add: sample_ready sample_domain_found sample_plans)

end
