(* ===== verification/Provisioning.thy ===== *)
theory Provisioning
  imports Reconcile
begin

text \<open>
  The provisioning API: \<^verbatim>\<open>app/api/provisioning.py\<close> and \<^verbatim>\<open>app/api/voice_features.py\<close> with the
  request schemas of \<^verbatim>\<open>app/schemas/voice.py\<close>. Each handler changes the application's tables
  inside one session, reconciles and commits; an error leaves the session uncommitted, but not
  what the client has already done on the PBX. The lemmas show that the tables stay well formed
  whatever the handlers are called with.
\<close>

section \<open>Requests\<close>

text \<open>
  A handler runs on the session's view of the tables. When it raises, the session is closed
  without a commit and the tables are what they were (\<^verbatim>\<open>get_db\<close> in \<^verbatim>\<open>app/db.py\<close>).
\<close>

definition request :: "('w sys, 'a) act \<Rightarrow> ('w sys, 'a) act" where
  "request h = (\<lambda>s. case h s of
     (Inl e, s') \<Rightarrow> (Inl e, s'\<lparr>app := app s\<rparr>)
   | (Inr r, s') \<Rightarrow> (Inr r, s'))"

definition on_app :: "(voice_db \<Rightarrow> voice_db) \<Rightarrow> ('w sys, unit) act" where
  "on_app f = (\<lambda>s. (Inr (), s\<lparr>app := f (app s)\<rparr>))"

definition try_app :: "(voice_db \<Rightarrow> voice_db res) \<Rightarrow> ('w sys, unit) act" where
  "try_app f = (\<lambda>s. case f (app s) of Inl e \<Rightarrow> (Inl e, s) | Inr a \<Rightarrow> (Inr (), s\<lparr>app := a\<rparr>))"

definition on_pbx :: "('w, 'a) act \<Rightarrow> ('w sys, 'a) act" where
  "on_pbx m = (\<lambda>s. case m (pbxw s) of (r, w) \<Rightarrow> (r, s\<lparr>pbxw := w\<rparr>))"

definition no_domain :: "string \<Rightarrow> err" where
  "no_domain customer_id = NotFound (''No voice domain for customer '' @ customer_id)"

text \<open>\<^verbatim>\<open>_domain\<close> and its copies: the customer's domain row, or \<^verbatim>\<open>NotFoundError\<close>.\<close>

definition find_domain :: "string \<Rightarrow> ('w sys, voice_domain) act" where
  "find_domain customer_id = (\<lambda>s.
     case domain_of_customer customer_id (app s) of
       None \<Rightarrow> (Inl (no_domain customer_id), s)
     | Some v \<Rightarrow> (Inr v, s))"

definition update_domain :: "nat \<Rightarrow> (voice_domain \<Rightarrow> voice_domain) \<Rightarrow> voice_db \<Rightarrow> voice_db" where
  "update_domain key f a = a\<lparr>a_domains := update_where (\<lambda>v. vd_id v = key) f (a_domains a)\<rparr>"

section \<open>Domains\<close>

record domain_intent =
  di_fusionpbx_domain :: string
  di_extensions :: "(string \<times> string) list"
  di_recording_enabled :: bool

text \<open>\<^verbatim>\<open>DomainIntent\<close> and \<^verbatim>\<open>ExtensionIntent\<close>: the items of \<open>di_extensions\<close> are number and name.\<close>

definition domain_intent_valid :: "domain_intent \<Rightarrow> bool" where
  "domain_intent_valid p \<longleftrightarrow>
     1 \<le> length (di_fusionpbx_domain p) \<and> length (di_fusionpbx_domain p) \<le> 255 \<and>
     valid_domain (di_fusionpbx_domain p) \<and>
     list_all (\<lambda>e. 1 \<le> length (fst e) \<and> length (fst e) \<le> 32 \<and> valid_token (fst e)) (di_extensions p) \<and>
     distinct (map fst (di_extensions p))"

text \<open>
  The row of the domain, made and flushed when the customer has none: a text that is longer than
  its column and a PBX domain that is taken (a unique column of the model) are refused.
\<close>

definition ensure_domain_row :: "string \<Rightarrow> string \<Rightarrow> voice_db \<Rightarrow> (voice_domain \<times> voice_db) res" where
  "ensure_domain_row customer_id fusionpbx_domain a =
     (case domain_of_customer customer_id a of
        None \<Rightarrow>
         (let new_domain = \<lparr>vd_id = a_next a, vd_customer_id = customer_id,
                vd_fusionpbx_domain = fusionpbx_domain, vd_sync_status = Pending,
                vd_is_active = True, vd_recording_enabled = False, vd_last_reconciled_at = None\<rparr> in
          if \<not> domain_fits new_domain then Inl too_long
          else if list_ex (\<lambda>v. vd_fusionpbx_domain v = fusionpbx_domain) (a_domains a) then Inl IntegrityErr
          else Inr (new_domain, a\<lparr>a_domains := a_domains a @ [new_domain], a_next := Suc (a_next a)\<rparr>))
      | Some v \<Rightarrow>
          if vd_fusionpbx_domain v \<noteq> fusionpbx_domain
          then Inl (Conflict ''fusionpbx_domain is immutable for an existing customer'')
          else Inr (v, a))"

text \<open>
  The extensions: rows not in the payload are deleted, then each item of the payload updates
  its row or adds one, all in the session. \<open>existing\<close> is the dict built before the changes. The
  flush at the end writes the rows, and fails if one of them is longer than its columns.
\<close>

definition drop_unlisted :: "voice_extension list \<Rightarrow> string list \<Rightarrow> voice_db \<Rightarrow> voice_db" where
  "drop_unlisted existing numbers a = a\<lparr>a_extensions := delete_where
     (\<lambda>r. ve_number r \<notin> set numbers \<and>
          map_option ve_id (desired_by_number existing (ve_number r)) = Some (ve_id r))
     (a_extensions a)\<rparr>"

definition put_extension_row :: "nat \<Rightarrow> voice_extension list \<Rightarrow> string \<times> string \<Rightarrow> voice_db \<Rightarrow> voice_db" where
  "put_extension_row key existing item a =
     (case desired_by_number existing (fst item) of
        Some e \<Rightarrow> a\<lparr>a_extensions := update_where (\<lambda>r. ve_id r = ve_id e)
                    (\<lambda>r. r\<lparr>ve_display_name := snd item\<rparr>) (a_extensions a)\<rparr>
      | None \<Rightarrow> a\<lparr>a_extensions := a_extensions a @
                    [\<lparr>ve_id = a_next a, ve_domain = key, ve_number = fst item,
                      ve_display_name = snd item, ve_voicemail_enabled = True,
                      ve_sync_status = Pending\<rparr>],
                  a_next := Suc (a_next a)\<rparr>)"

definition replace_extensions :: "voice_domain \<Rightarrow> (string \<times> string) list \<Rightarrow> voice_db \<Rightarrow> voice_db" where
  "replace_extensions v items a =
     (let existing = extensions_of a v in
      fold (put_extension_row (vd_id v) existing) items (drop_unlisted existing (map fst items) a))"

definition flush_extensions :: "voice_db \<Rightarrow> voice_db res" where
  "flush_extensions a = (if list_all extension_fits (a_extensions a) then Inr a else Inl too_long)"

definition store_intent :: "string \<Rightarrow> domain_intent \<Rightarrow> voice_db \<Rightarrow> voice_db res" where
  "store_intent customer_id p a =
     bind_res (ensure_domain_row customer_id (di_fusionpbx_domain p) a) (\<lambda>(v, a).
       flush_extensions (replace_extensions v (di_extensions p)
         (update_domain (vd_id v) (\<lambda>v. v\<lparr>vd_recording_enabled := di_recording_enabled p\<rparr>) a)))"

definition put_domain ::
  "'w client \<Rightarrow> string \<Rightarrow> domain_intent \<Rightarrow> nat \<Rightarrow> ('w sys, sync_status) act" where
  "put_domain c customer_id p now =
     then_act (guard_act (domain_intent_valid p) (HttpError 422 ''validation''))
       (request (\<lambda>s. case store_intent customer_id p (app s) of
            Inl e \<Rightarrow> (Inl e, s)
          | Inr a \<Rightarrow> reconcile_voice c customer_id now (s\<lparr>app := a\<rparr>)))"

text \<open>\<^verbatim>\<open>_set_active\<close>, with \<^verbatim>\<open>suspend_domain\<close> and \<^verbatim>\<open>resume_domain\<close>\<close>

definition set_active :: "'w client \<Rightarrow> string \<Rightarrow> bool \<Rightarrow> nat \<Rightarrow> ('w sys, sync_status) act" where
  "set_active c customer_id active now = request
     (bind_act (find_domain customer_id) (\<lambda>v.
      then_act (on_app (update_domain (vd_id v) (\<lambda>v. v\<lparr>vd_is_active := active\<rparr>)))
        (reconcile_voice c customer_id now)))"

definition suspend_domain :: "'w client \<Rightarrow> string \<Rightarrow> nat \<Rightarrow> ('w sys, sync_status) act" where
  "suspend_domain c customer_id now = set_active c customer_id False now"

definition resume_domain :: "'w client \<Rightarrow> string \<Rightarrow> nat \<Rightarrow> ('w sys, sync_status) act" where
  "resume_domain c customer_id now = set_active c customer_id True now"

definition drop_rows_of :: "nat \<Rightarrow> voice_db \<Rightarrow> voice_db" where
  "drop_rows_of key a = a\<lparr>
     a_conferences := delete_where (\<lambda>r. cr_domain r = key) (a_conferences a),
     a_ring_groups := delete_where (\<lambda>r. rg_domain r = key) (a_ring_groups a),
     a_ivrs := delete_where (\<lambda>r. iv_domain r = key) (a_ivrs a),
     a_queues := delete_where (\<lambda>r. vq_domain r = key) (a_queues a),
     a_extensions := delete_where (\<lambda>r. ve_domain r = key) (a_extensions a)\<rparr>"

definition drop_domain :: "nat \<Rightarrow> voice_db \<Rightarrow> voice_db" where
  "drop_domain key a = a\<lparr>a_domains := delete_where (\<lambda>v. vd_id v = key) (a_domains a)\<rparr>"

definition deprovision_domain :: "'w client \<Rightarrow> string \<Rightarrow> nat \<Rightarrow> ('w sys, unit) act" where
  "deprovision_domain c customer_id now = request
     (bind_act (find_domain customer_id) (\<lambda>v.
      then_act (on_app (\<lambda>a. drop_rows_of (vd_id v)
                  (update_domain (vd_id v) (\<lambda>v. v\<lparr>vd_is_active := True\<rparr>) a)))
     (then_act (reconcile_voice c customer_id now)
        (on_app (drop_domain (vd_id v))))))"

definition resync_domain :: "'w client \<Rightarrow> string \<Rightarrow> nat \<Rightarrow> ('w sys, sync_status) act" where
  "resync_domain c customer_id now = request
     (bind_act (find_domain customer_id) (\<lambda>v.
      bind_act (reconcile_voice c customer_id now) (\<lambda>status.
        if vd_is_active v
        then then_act (on_pbx (c_resync_queues c (vd_fusionpbx_domain v))) (ret status)
        else ret status)))"

definition resync_all :: "'w client \<Rightarrow> nat \<Rightarrow> ('w sys, nat) act" where
  "resync_all c now = request (\<lambda>s.
     let domains = a_domains (app s) in
     then_act (for_each (\<lambda>v.
        then_act (reconcile_voice c (vd_customer_id v) now)
          (if vd_is_active v
           then then_act (on_pbx (c_resync_queues c (vd_fusionpbx_domain v))) (ret ())
           else ret ())) domains)
      (ret (length domains)) s)"

section \<open>Features\<close>

text \<open>
  The four intents of \<^verbatim>\<open>voice_features.py\<close>, with the checks of their schemas.
\<close>

datatype feature_kind = ConferenceKind | RingGroupKind | IvrKind | QueueKind

datatype feature =
    Conference string
  | Ring_Group string "string list" string int
  | Ivr string ivr_options string
  | Call_Queue string "string list" string string

fun kind_of :: "feature \<Rightarrow> feature_kind" where
  "kind_of (Conference n) = ConferenceKind"
| "kind_of (Ring_Group n ms s t) = RingGroupKind"
| "kind_of (Ivr n opts g) = IvrKind"
| "kind_of (Call_Queue n as nm s) = QueueKind"

fun feature_number :: "feature \<Rightarrow> string" where
  "feature_number (Conference n) = n"
| "feature_number (Ring_Group n ms s t) = n"
| "feature_number (Ivr n opts g) = n"
| "feature_number (Call_Queue n as nm s) = n"

fun feature_valid :: "feature \<Rightarrow> bool" where
  "feature_valid (Conference n) = number_valid n"
| "feature_valid (Ring_Group n ms s t) =
     (number_valid n \<and> ms \<noteq> [] \<and> list_all valid_token ms \<and> distinct ms \<and>
      s \<in> set ring_strategies \<and> 1 \<le> t \<and> t \<le> 120)"
| "feature_valid (Ivr n opts g) =
     (number_valid n \<and> opts \<noteq> [] \<and> distinct (map fst opts) \<and>
      list_all (\<lambda>i. valid_ivr_digit (fst i) \<and> valid_token (snd i)) opts)"
| "feature_valid (Call_Queue n as nm s) =
     (number_valid n \<and> as \<noteq> [] \<and> list_all valid_token as \<and> distinct as \<and>
      s \<in> set queue_strategies)"

text \<open>\<^verbatim>\<open>_upsert\<close> on one table: the first row of the domain and number is updated, or one added.\<close>

definition upsert_row ::
  "('r \<Rightarrow> nat) \<Rightarrow> ('r \<Rightarrow> bool) \<Rightarrow> ('r \<Rightarrow> 'r) \<Rightarrow> 'r \<Rightarrow> 'r list \<Rightarrow> 'r list" where
  "upsert_row pk here upd new rows =
     (case first_where here rows of
        Some r \<Rightarrow> update_where (\<lambda>s. pk s = pk r) upd rows
      | None \<Rightarrow> rows @ [new])"

definition bump :: "('r \<Rightarrow> bool) \<Rightarrow> 'r list \<Rightarrow> nat \<Rightarrow> nat" where
  "bump here rows n = (if first_where here rows = None then Suc n else n)"

fun write_feature :: "nat \<Rightarrow> feature \<Rightarrow> voice_db \<Rightarrow> voice_db" where
  "write_feature key (Conference n) a =
     (let here = (\<lambda>r. cr_domain r = key \<and> cr_number r = n) in
      a\<lparr>a_conferences := upsert_row cr_id here (\<lambda>r. r)
            \<lparr>cr_id = a_next a, cr_domain = key, cr_number = n\<rparr> (a_conferences a),
        a_next := bump here (a_conferences a) (a_next a)\<rparr>)"
| "write_feature key (Ring_Group n ms s t) a =
     (let here = (\<lambda>r. rg_domain r = key \<and> rg_number r = n) in
      a\<lparr>a_ring_groups := upsert_row rg_id here
            (\<lambda>r. r\<lparr>rg_members := ms, rg_strategy := s, rg_timeout := t\<rparr>)
            \<lparr>rg_id = a_next a, rg_domain = key, rg_number = n, rg_strategy = s, rg_members = ms,
             rg_timeout = t\<rparr> (a_ring_groups a),
        a_next := bump here (a_ring_groups a) (a_next a)\<rparr>)"
| "write_feature key (Ivr n opts g) a =
     (let here = (\<lambda>r. iv_domain r = key \<and> iv_number r = n) in
      a\<lparr>a_ivrs := upsert_row iv_id here (\<lambda>r. r\<lparr>iv_options := opts, iv_greeting := g\<rparr>)
            \<lparr>iv_id = a_next a, iv_domain = key, iv_number = n, iv_greeting = g, iv_options = opts\<rparr>
            (a_ivrs a),
        a_next := bump here (a_ivrs a) (a_next a)\<rparr>)"
| "write_feature key (Call_Queue n as nm s) a =
     (let here = (\<lambda>r. vq_domain r = key \<and> vq_number r = n) in
      a\<lparr>a_queues := upsert_row vq_id here
            (\<lambda>r. r\<lparr>vq_agents := as, vq_name := nm, vq_strategy := s\<rparr>)
            \<lparr>vq_id = a_next a, vq_domain = key, vq_number = n, vq_name = nm, vq_strategy = s,
             vq_agents = as\<rparr> (a_queues a),
        a_next := bump here (a_queues a) (a_next a)\<rparr>)"

text \<open>The flush of \<^verbatim>\<open>_upsert\<close>: the row of an intent fits its columns, or the flush fails.\<close>

fun feature_fits :: "feature \<Rightarrow> bool" where
  "feature_fits (Conference n) = (length n \<le> 32)"
| "feature_fits (Ring_Group n ms s t) =
     (length n \<le> 32 \<and> length s \<le> 20 \<and> - (2 ^ 31) \<le> t \<and> t < 2 ^ 31)"
| "feature_fits (Ivr n opts g) = (length n \<le> 32 \<and> length g \<le> 255)"
| "feature_fits (Call_Queue n as nm s) = (length n \<le> 32 \<and> length nm \<le> 120 \<and> length s \<le> 40)"

definition upsert_feature :: "nat \<Rightarrow> feature \<Rightarrow> voice_db \<Rightarrow> voice_db res" where
  "upsert_feature key f a = (if feature_fits f then Inr (write_feature key f a) else Inl too_long)"

fun upsert_features :: "nat \<Rightarrow> feature list \<Rightarrow> voice_db \<Rightarrow> voice_db res" where
  "upsert_features key [] a = Inr a"
| "upsert_features key (f # fs) a = bind_res (upsert_feature key f a) (upsert_features key fs)"

text \<open>\<^verbatim>\<open>_delete\<close>\<close>

definition delete_row :: "('r \<Rightarrow> nat) \<Rightarrow> ('r \<Rightarrow> bool) \<Rightarrow> 'r list \<Rightarrow> 'r list" where
  "delete_row pk here rows =
     (case first_where here rows of
        Some r \<Rightarrow> delete_where (\<lambda>s. pk s = pk r) rows
      | None \<Rightarrow> rows)"

fun delete_feature :: "nat \<Rightarrow> feature_kind \<Rightarrow> string \<Rightarrow> voice_db \<Rightarrow> voice_db" where
  "delete_feature key ConferenceKind n a = a\<lparr>a_conferences :=
     delete_row cr_id (\<lambda>r. cr_domain r = key \<and> cr_number r = n) (a_conferences a)\<rparr>"
| "delete_feature key RingGroupKind n a = a\<lparr>a_ring_groups :=
     delete_row rg_id (\<lambda>r. rg_domain r = key \<and> rg_number r = n) (a_ring_groups a)\<rparr>"
| "delete_feature key IvrKind n a = a\<lparr>a_ivrs :=
     delete_row iv_id (\<lambda>r. iv_domain r = key \<and> iv_number r = n) (a_ivrs a)\<rparr>"
| "delete_feature key QueueKind n a = a\<lparr>a_queues :=
     delete_row vq_id (\<lambda>r. vq_domain r = key \<and> vq_number r = n) (a_queues a)\<rparr>"

text \<open>\<^verbatim>\<open>post_conference\<close>, \<^verbatim>\<open>post_ring_group\<close>, \<^verbatim>\<open>post_ivr\<close>, \<^verbatim>\<open>post_queue\<close>\<close>

definition post_feature :: "'w client \<Rightarrow> string \<Rightarrow> feature \<Rightarrow> nat \<Rightarrow> ('w sys, sync_status) act" where
  "post_feature c customer_id f now =
     then_act (guard_act (feature_valid f) (HttpError 422 ''validation''))
       (request (bind_act (find_domain customer_id) (\<lambda>v.
          then_act (try_app (upsert_feature (vd_id v) f)) (reconcile_voice c customer_id now))))"

text \<open>\<^verbatim>\<open>delete_conference\<close>, \<^verbatim>\<open>delete_ring_group\<close>, \<^verbatim>\<open>delete_ivr\<close>, \<^verbatim>\<open>delete_queue\<close> of the API\<close>

definition remove_feature ::
  "'w client \<Rightarrow> string \<Rightarrow> feature_kind \<Rightarrow> string \<Rightarrow> nat \<Rightarrow> ('w sys, sync_status) act" where
  "remove_feature c customer_id kind number now =
     request (bind_act (find_domain customer_id) (\<lambda>v.
       then_act (on_app (delete_feature (vd_id v) kind number)) (reconcile_voice c customer_id now)))"

record feature_set =
  fs_conferences :: "feature list"
  fs_ring_groups :: "feature list"
  fs_ivrs :: "feature list"
  fs_queues :: "feature list"

definition feature_set_valid :: "feature_set \<Rightarrow> bool" where
  "feature_set_valid p \<longleftrightarrow>
     list_all (\<lambda>f. kind_of f = ConferenceKind \<and> feature_valid f) (fs_conferences p) \<and>
     list_all (\<lambda>f. kind_of f = RingGroupKind \<and> feature_valid f) (fs_ring_groups p) \<and>
     list_all (\<lambda>f. kind_of f = IvrKind \<and> feature_valid f) (fs_ivrs p) \<and>
     list_all (\<lambda>f. kind_of f = QueueKind \<and> feature_valid f) (fs_queues p)"

text \<open>\<^verbatim>\<open>_replace\<close>: rows of the kind that no intent names are deleted, then each intent upserted.\<close>

fun drop_features_except :: "nat \<Rightarrow> feature_kind \<Rightarrow> string list \<Rightarrow> voice_db \<Rightarrow> voice_db" where
  "drop_features_except key ConferenceKind ns a = a\<lparr>a_conferences :=
     delete_where (\<lambda>r. cr_domain r = key \<and> cr_number r \<notin> set ns) (a_conferences a)\<rparr>"
| "drop_features_except key RingGroupKind ns a = a\<lparr>a_ring_groups :=
     delete_where (\<lambda>r. rg_domain r = key \<and> rg_number r \<notin> set ns) (a_ring_groups a)\<rparr>"
| "drop_features_except key IvrKind ns a = a\<lparr>a_ivrs :=
     delete_where (\<lambda>r. iv_domain r = key \<and> iv_number r \<notin> set ns) (a_ivrs a)\<rparr>"
| "drop_features_except key QueueKind ns a = a\<lparr>a_queues :=
     delete_where (\<lambda>r. vq_domain r = key \<and> vq_number r \<notin> set ns) (a_queues a)\<rparr>"

definition replace_features :: "nat \<Rightarrow> feature_kind \<Rightarrow> feature list \<Rightarrow> voice_db \<Rightarrow> voice_db res" where
  "replace_features key kind fs a =
     upsert_features key fs (drop_features_except key kind (map feature_number fs) a)"

definition replace_all :: "nat \<Rightarrow> feature_set \<Rightarrow> voice_db \<Rightarrow> voice_db res" where
  "replace_all key p a =
     bind_res (replace_features key ConferenceKind (fs_conferences p) a) (\<lambda>a.
     bind_res (replace_features key RingGroupKind (fs_ring_groups p) a) (\<lambda>a.
     bind_res (replace_features key IvrKind (fs_ivrs p) a) (\<lambda>a.
       replace_features key QueueKind (fs_queues p) a)))"

definition put_features :: "'w client \<Rightarrow> string \<Rightarrow> feature_set \<Rightarrow> nat \<Rightarrow> ('w sys, sync_status) act" where
  "put_features c customer_id p now =
     then_act (guard_act (feature_set_valid p) (HttpError 422 ''validation''))
       (request (bind_act (find_domain customer_id) (\<lambda>v.
          then_act (try_app (replace_all (vd_id v) p)) (reconcile_voice c customer_id now))))"

section \<open>The rows stay well formed\<close>

text \<open>
  The upserts that succeed: the writes without the check of the flush, which decides before
  the first row that does not fit.
\<close>

definition write_features :: "nat \<Rightarrow> feature_kind \<Rightarrow> feature list \<Rightarrow> voice_db \<Rightarrow> voice_db" where
  "write_features key kind fs a =
     fold (write_feature key) fs (drop_features_except key kind (map feature_number fs) a)"

definition write_all :: "nat \<Rightarrow> feature_set \<Rightarrow> voice_db \<Rightarrow> voice_db" where
  "write_all key p a =
     write_features key QueueKind (fs_queues p)
    (write_features key IvrKind (fs_ivrs p)
    (write_features key RingGroupKind (fs_ring_groups p)
    (write_features key ConferenceKind (fs_conferences p) a)))"

lemma upsert_features_Inr:
  "upsert_features key fs a = Inr a' \<longleftrightarrow> list_all feature_fits fs \<and> a' = fold (write_feature key) fs a"
  by (induction fs arbitrary: a) (auto simp: upsert_feature_def bind_res_Inr)

lemma replace_features_Inr:
  "replace_features key kind fs a = Inr a' \<longleftrightarrow> list_all feature_fits fs \<and> a' = write_features key kind fs a"
  by (simp add: replace_features_def write_features_def upsert_features_Inr)

definition set_fits :: "feature_set \<Rightarrow> bool" where
  "set_fits p \<longleftrightarrow> list_all feature_fits (fs_conferences p) \<and> list_all feature_fits (fs_ring_groups p) \<and>
     list_all feature_fits (fs_ivrs p) \<and> list_all feature_fits (fs_queues p)"

lemma replace_all_Inr: "replace_all key p a = Inr a' \<longleftrightarrow> set_fits p \<and> a' = write_all key p a"
  by (auto simp: replace_all_def write_all_def set_fits_def bind_res_Inr replace_features_Inr)

lemma try_app_Inr: "try_app f s = (Inr (), s') \<longleftrightarrow> (\<exists>a. f (app s) = Inr a \<and> s' = s\<lparr>app := a\<rparr>)"
  by (auto simp: try_app_def split: sum.split)

text \<open>A well-formed intent that fits: what the rows of the tables have been made from.\<close>

definition feature_ok :: "feature \<Rightarrow> bool" where
  "feature_ok f \<longleftrightarrow> feature_valid f \<and> feature_fits f"

lemma table_ok_mono: "table_ok pk fk number ok n rows \<Longrightarrow> n \<le> m \<Longrightarrow> table_ok pk fk number ok m rows"
  by (auto simp: table_ok_def list_all_iff intro: keyed_mono)

lemma table_ok_delete: "table_ok pk fk number ok n rows \<Longrightarrow> table_ok pk fk number ok n (delete_where P rows)"
  by (auto simp: table_ok_def list_all_iff delete_where_def distinct_map_filter
      intro: keyed_delete [unfolded delete_where_def])

lemma table_ok_update:
  assumes "table_ok pk fk number ok n rows"
    and "\<And>r. pk (f r) = pk r" "\<And>r. fk (f r) = fk r" "\<And>r. number (f r) = number r"
    and "\<And>r. r \<in> set rows \<Longrightarrow> ok r \<Longrightarrow> P r \<Longrightarrow> ok (f r)"
  shows "table_ok pk fk number ok n (update_where P f rows)"
proof -
  have "map (\<lambda>r. (fk r, number r)) (update_where P f rows) = map (\<lambda>r. (fk r, number r)) rows"
    by (rule map_update_where) (simp add: assms)
  then show ?thesis using assms
    by (auto simp: table_ok_def list_all_iff set_update_where intro: keyed_update)
qed

lemma table_ok_insert:
  assumes "table_ok pk fk number ok n rows" and "pk r = n" "fk r < n" "ok r"
    and "\<forall>s\<in>set rows. \<not> (fk s = fk r \<and> number s = number r)"
  shows "table_ok pk fk number ok (Suc n) (rows @ [r])"
proof -
  have "keyed pk (Suc n) (rows @ [r])"
    by (rule keyed_insert [of pk n]) (use assms in \<open>auto simp: table_ok_def\<close>)
  then show ?thesis using assms by (auto simp: table_ok_def list_all_iff less_SucI)
qed

lemma table_ok_upsert:
  assumes "table_ok pk fk number ok n rows"
    and "\<And>r. pk (upd r) = pk r" "\<And>r. fk (upd r) = fk r" "\<And>r. number (upd r) = number r"
    and "\<And>r. ok r \<Longrightarrow> ok (upd r)"
    and "pk new = n" "fk new = key" "number new = num" "key < n" "ok new"
  shows "table_ok pk fk number ok (bump (\<lambda>r. fk r = key \<and> number r = num) rows n)
    (upsert_row pk (\<lambda>r. fk r = key \<and> number r = num) upd new rows)"
proof (cases "first_where (\<lambda>r. fk r = key \<and> number r = num) rows")
  case None
  then have "\<forall>s\<in>set rows. \<not> (fk s = fk new \<and> number s = number new)"
    using assms by (simp add: first_where_None)
  from table_ok_insert [OF assms(1) _ _ _ this] None show ?thesis using assms
    by (simp add: upsert_row_def bump_def)
next
  case (Some r)
  then show ?thesis using assms by (auto simp: upsert_row_def bump_def intro: table_ok_update)
qed

lemma bump_le: "n \<le> bump P rows n"
  by (simp add: bump_def)

text \<open>
  Where the keys of the domain rows are: below the supply. \<open>knows\<close> says that a key is in use.
\<close>

abbreviation knows :: "voice_db \<Rightarrow> nat \<Rightarrow> bool" where
  "knows a key \<equiv> key < a_next a"

lemma voice_inv_tables:
  assumes "voice_inv a"
  shows "keyed vd_id (a_next a) (a_domains a)"
    "distinct (map vd_customer_id (a_domains a))"
    "distinct (map vd_fusionpbx_domain (a_domains a))"
    "list_all domain_row_ok (a_domains a)"
    "table_ok ve_id ve_domain ve_number extension_row_ok (a_next a) (a_extensions a)"
    "table_ok cr_id cr_domain cr_number conference_row_ok (a_next a) (a_conferences a)"
    "table_ok rg_id rg_domain rg_number ring_group_row_ok (a_next a) (a_ring_groups a)"
    "table_ok iv_id iv_domain iv_number ivr_row_ok (a_next a) (a_ivrs a)"
    "table_ok vq_id vq_domain vq_number queue_row_ok (a_next a) (a_queues a)"
  using assms by (simp_all add: voice_inv_def)

lemma write_feature_inv:
  assumes "voice_inv a" and "feature_ok f" and "knows a key"
  shows "voice_inv (write_feature key f a)"
proof (cases f)
  case (Conference n)
  then show ?thesis using assms
    by (auto simp: voice_inv_def Let_def feature_ok_def number_valid_def conference_row_ok_def conference_fits_def
        intro!: table_ok_upsert intro: keyed_mono table_ok_mono bump_le)
next
  case (Ring_Group n ms s t)
  then show ?thesis using assms
    by (auto simp: voice_inv_def Let_def feature_ok_def number_valid_def ring_group_row_ok_def ring_group_fits_def
        intro!: table_ok_upsert intro: keyed_mono table_ok_mono bump_le)
next
  case (Ivr n opts g)
  then show ?thesis using assms
    by (auto simp: voice_inv_def Let_def feature_ok_def number_valid_def ivr_row_ok_def ivr_fits_def
        intro!: table_ok_upsert intro: keyed_mono table_ok_mono bump_le)
next
  case (Call_Queue n as nm s)
  then show ?thesis using assms
    by (auto simp: voice_inv_def Let_def feature_ok_def number_valid_def queue_row_ok_def queue_fits_def
        intro!: table_ok_upsert intro: keyed_mono table_ok_mono bump_le)
qed

lemma write_feature_next: "a_next a \<le> a_next (write_feature key f a)"
  by (cases f) (simp_all add: Let_def bump_le)

lemma delete_row_where: "delete_row pk here rows = delete_where (\<lambda>s. \<exists>r. first_where here rows = Some r \<and> pk s = pk r) rows"
  by (simp add: delete_row_def delete_where_def split: option.split)

lemma delete_feature_inv: "voice_inv a \<Longrightarrow> voice_inv (delete_feature key kind n a)"
  by (cases kind) (simp_all add: voice_inv_def delete_row_where table_ok_delete)

lemma drop_features_inv: "voice_inv a \<Longrightarrow> voice_inv (drop_features_except key kind ns a)"
  by (cases kind) (simp_all add: voice_inv_def table_ok_delete)

lemma drop_features_next [simp]: "a_next (drop_features_except key kind ns a) = a_next a"
  by (cases kind) simp_all

lemma fold_upsert_inv:
  assumes "voice_inv a" and "list_all feature_ok fs" and "knows a key"
  shows "voice_inv (fold (write_feature key) fs a) \<and> knows (fold (write_feature key) fs a) key"
  using assms
proof (induction fs arbitrary: a)
  case (Cons f fs)
  have "knows (write_feature key f a) key"
    using Cons.prems(3) write_feature_next [of a key f] by simp
  then show ?case using Cons write_feature_inv [of a f key] by simp
qed simp

lemma write_features_inv:
  assumes "voice_inv a" and "list_all feature_ok fs" and "knows a key"
  shows "voice_inv (write_features key kind fs a) \<and> knows (write_features key kind fs a) key"
  unfolding write_features_def
  by (rule fold_upsert_inv) (simp_all add: assms drop_features_inv)

lemma feature_set_valid_lists:
  assumes "feature_set_valid p" and "set_fits p"
  shows "list_all feature_ok (fs_conferences p)" "list_all feature_ok (fs_ring_groups p)"
    "list_all feature_ok (fs_ivrs p)" "list_all feature_ok (fs_queues p)"
  using assms by (auto simp: feature_set_valid_def set_fits_def feature_ok_def list_all_iff)

lemma write_all_inv:
  assumes "voice_inv a" and "feature_set_valid p" and "set_fits p" and "knows a key"
  shows "voice_inv (write_all key p a)"
  unfolding write_all_def
  by (intro write_features_inv [THEN conjunct1] conjI write_features_inv [THEN conjunct2] assms
      feature_set_valid_lists)

text \<open>The domain rows.\<close>

lemma ensure_domain_row_inv:
  assumes "voice_inv a" and "valid_domain D" and "ensure_domain_row customer_id D a = Inr (v, a')"
  shows "voice_inv a' \<and> v \<in> set (a_domains a') \<and> vd_fusionpbx_domain v = D \<and> vd_customer_id v = customer_id"
proof (cases "domain_of_customer customer_id a")
  case None
  note t = voice_inv_tables [OF assms(1)]
  from None have fresh: "\<forall>w\<in>set (a_domains a). vd_customer_id w \<noteq> customer_id"
    by (simp add: domain_of_customer_def first_where_None)
  from assms(3) None have new: "\<forall>w\<in>set (a_domains a). vd_fusionpbx_domain w \<noteq> D"
    and v: "vd_id v = a_next a" "vd_customer_id v = customer_id" "vd_fusionpbx_domain v = D" "domain_fits v"
    and a': "a' = a\<lparr>a_domains := a_domains a @ [v], a_next := Suc (a_next a)\<rparr>"
    by (auto simp: ensure_domain_row_def Let_def list_ex_iff split: if_splits)
  have "keyed vd_id (Suc (a_next a)) (a_domains a @ [v])"
    by (rule keyed_insert [OF t(1)]) (simp_all add: v)
  with t fresh new v assms(2) show ?thesis
    by (auto simp: a' voice_inv_def domain_row_ok_def intro: table_ok_mono)
next
  case (Some w)
  then have "w \<in> set (a_domains a) \<and> vd_customer_id w = customer_id"
    by (auto simp: domain_of_customer_def dest: first_where_Some)
  with Some assms show ?thesis by (auto simp: ensure_domain_row_def split: if_splits)
qed

lemma update_domain_inv:
  assumes "voice_inv a" and "\<And>v. vd_id (f v) = vd_id v" "\<And>v. vd_customer_id (f v) = vd_customer_id v"
    "\<And>v. vd_fusionpbx_domain (f v) = vd_fusionpbx_domain v"
  shows "voice_inv (update_domain key f a)"
  using assms by (auto simp: voice_inv_def update_domain_def map_update_where keyed_update
      list_all_iff set_update_where domain_row_ok_def domain_fits_def)

lemma set_sync_status_inv: "voice_inv a \<Longrightarrow> voice_inv (set_sync_status key st now a)"
  using update_domain_inv [of a "\<lambda>v. v\<lparr>vd_sync_status := st, vd_last_reconciled_at := Some now\<rparr>" key]
  by (simp add: update_domain_def set_sync_status_def)

lemma drop_rows_inv: "voice_inv a \<Longrightarrow> voice_inv (drop_rows_of key a)"
  by (simp add: voice_inv_def drop_rows_of_def table_ok_delete)

lemma drop_domain_inv: "voice_inv a \<Longrightarrow> voice_inv (drop_domain key a)"
  by (auto simp: voice_inv_def drop_domain_def keyed_delete list_all_iff set_delete_where)
    (simp_all add: delete_where_def distinct_map_filter)

lemma domain_known: "voice_inv a \<Longrightarrow> v \<in> set (a_domains a) \<Longrightarrow> knows a (vd_id v)"
  by (simp add: voice_inv_def keyed_def)

text \<open>
  The extensions: while the items of the payload are stored, the rows of its numbers are where
  \<open>existing\<close> says. \<open>ext_content\<close> is the domain's extensions as the code's callers see them.
\<close>

definition ext_content :: "voice_db \<Rightarrow> nat \<Rightarrow> string \<Rightarrow> (string \<times> bool) option" where
  "ext_content a key = view_of (\<lambda>r. (ve_display_name r, ve_voicemail_enabled r))
     (\<lambda>n r. ve_domain r = key \<and> ve_number r = n) (a_extensions a)"

lemma desired_by_number_distinct:
  "distinct (map ve_number exts) \<Longrightarrow> e \<in> set exts \<Longrightarrow> desired_by_number exts (ve_number e) = Some e"
  unfolding desired_by_number_def
  by (rule map_of_is_SomeI) (auto simp: rev_map [symmetric] comp_def)

text \<open>The view of a table through its numbers, for one domain key; what an upsert does to it.\<close>

lemma upsert_view:
  assumes ok: "table_ok pk fk number P n rows"
    and upd: "\<And>r. pk (upd r) = pk r" "\<And>r. fk (upd r) = fk r" "\<And>r. number (upd r) = number r"
    and new: "fk new = key" "number new = num"
  shows "view_of F (\<lambda>m r. fk r = k \<and> number r = m)
      (upsert_row pk (\<lambda>r. fk r = key \<and> number r = num) upd new rows) =
    (if k = key
     then (view_of F (\<lambda>m r. fk r = k \<and> number r = m) rows)
       (num \<mapsto> (case first_where (\<lambda>r. fk r = key \<and> number r = num) rows of
                    None \<Rightarrow> F new | Some r \<Rightarrow> F (upd r)))
     else view_of F (\<lambda>m r. fk r = k \<and> number r = m) rows)"
proof (cases "first_where (\<lambda>r. fk r = key \<and> number r = num) rows")
  case None
  show ?thesis
  proof (cases "k = key")
    case True
    with None new show ?thesis
      by (simp add: upsert_row_def view_of_insert [where K = "\<lambda>m r. fk r = key \<and> number r = m" and k = num])
  next
    case False
    with None new show ?thesis by (simp add: upsert_row_def view_of_insert_other)
  qed
next
  case (Some r)
  have d: "distinct (map pk rows)" using ok by (simp add: table_ok_def keyed_def)
  from first_where_Some [OF Some] have r: "r \<in> set rows" "fk r = key" "number r = num" by auto
  show ?thesis
  proof (cases "k = key")
    case True
    have "view_of F (\<lambda>m r. fk r = key \<and> number r = m) (update_where (\<lambda>s. pk s = pk r) upd rows) =
        (view_of F (\<lambda>m r. fk r = key \<and> number r = m) rows)(num \<mapsto> F (upd r))"
      by (rule view_of_update [OF d, where K = "\<lambda>m r. fk r = key \<and> number r = m"])
        (simp_all add: Some upd r)
    with True Some show ?thesis by (simp add: upsert_row_def)
  next
    case False
    have "view_of F (\<lambda>m r. fk r = k \<and> number r = m) (update_where (\<lambda>s. pk s = pk r) upd rows) =
        view_of F (\<lambda>m r. fk r = k \<and> number r = m) rows"
    proof (rule view_of_update_other)
      fix j s assume "s \<in> set rows" "pk s = pk r"
      then have "s = r" using d r(1) by (auto simp: distinct_map inj_on_def)
      with False r show "\<not> (fk s = k \<and> number s = j)" by simp
    qed (simp add: upd)
    with False Some show ?thesis by (simp add: upsert_row_def)
  qed
qed

lemma extensions_distinct:
  "voice_inv a \<Longrightarrow> distinct (map ve_number (extensions_of a v))"
  using table_ok_domain [OF voice_inv_tables(5)] by (simp add: extensions_of_def)

lemma drop_unlisted_eq:
  assumes "voice_inv a"
  shows "drop_unlisted (extensions_of a v) ns a = a\<lparr>a_extensions :=
    delete_where (\<lambda>r. ve_domain r = vd_id v \<and> ve_number r \<notin> set ns) (a_extensions a)\<rparr>"
proof -
  have "map_option ve_id (desired_by_number (extensions_of a v) (ve_number r)) = Some (ve_id r) \<longleftrightarrow>
      ve_domain r = vd_id v" if r: "r \<in> set (a_extensions a)" for r
  proof
    assume "map_option ve_id (desired_by_number (extensions_of a v) (ve_number r)) = Some (ve_id r)"
    then obtain e where "e \<in> set (extensions_of a v)" "ve_id e = ve_id r"
      by (auto dest: desired_by_number_Some)
    moreover have "keyed ve_id (a_next a) (a_extensions a)"
      using voice_inv_tables(5) [OF assms] by (simp add: table_ok_def)
    ultimately show "ve_domain r = vd_id v"
      using keyed_unique r by (fastforce simp: extensions_of_def)
  next
    assume "ve_domain r = vd_id v"
    then have "r \<in> set (extensions_of a v)" using r by (simp add: extensions_of_def)
    from desired_by_number_distinct [OF extensions_distinct [OF assms] this]
    show "map_option ve_id (desired_by_number (extensions_of a v) (ve_number r)) = Some (ve_id r)" by simp
  qed
  then have "delete_where (\<lambda>r. ve_number r \<notin> set ns \<and>
        map_option ve_id (desired_by_number (extensions_of a v) (ve_number r)) = Some (ve_id r)) (a_extensions a) =
      delete_where (\<lambda>r. ve_domain r = vd_id v \<and> ve_number r \<notin> set ns) (a_extensions a)"
    unfolding delete_where_def by (intro filter_cong) blast+
  then show ?thesis by (simp only: drop_unlisted_def)
qed

abbreviation ext_here :: "nat \<Rightarrow> string \<Rightarrow> voice_extension \<Rightarrow> bool" where
  "ext_here key n r \<equiv> ve_domain r = key \<and> ve_number r = n"

abbreviation ext_ok :: "voice_db \<Rightarrow> bool" where
  "ext_ok a \<equiv> table_ok ve_id ve_domain ve_number (\<lambda>r. number_valid (ve_number r)) (a_next a) (a_extensions a)"

lemma extension_row_split: "extension_row_ok r \<longleftrightarrow> number_valid (ve_number r) \<and> extension_fits r"
  by (auto simp: extension_row_ok_def number_valid_def extension_fits_def valid_token_def)

lemma table_ok_split: "table_ok pk fk number (\<lambda>r. P r \<and> Q r) n rows \<longleftrightarrow> table_ok pk fk number P n rows \<and> list_all Q rows"
  by (auto simp: table_ok_def list_all_iff)

text \<open>The rows of the session are sound up to the names, which the flush checks.\<close>

lemma extensions_sound:
  "table_ok ve_id ve_domain ve_number extension_row_ok n rows \<longleftrightarrow>
    table_ok ve_id ve_domain ve_number (\<lambda>r. number_valid (ve_number r)) n rows \<and> list_all extension_fits rows"
  unfolding extension_row_split [abs_def] by (rule table_ok_split)

text \<open>The new rows of the extensions are what an upsert by number gives.\<close>

lemma put_extension_upsert:
  assumes ok: "ext_ok a"
    and same: "map_option ve_id (desired_by_number existing (fst item)) =
      view_of ve_id (ext_here key) (a_extensions a) (fst item)"
  shows "put_extension_row key existing item a = a\<lparr>
    a_extensions := upsert_row ve_id (ext_here key (fst item)) (\<lambda>r. r\<lparr>ve_display_name := snd item\<rparr>)
      \<lparr>ve_id = a_next a, ve_domain = key, ve_number = fst item, ve_display_name = snd item,
       ve_voicemail_enabled = True, ve_sync_status = Pending\<rparr> (a_extensions a),
    a_next := bump (ext_here key (fst item)) (a_extensions a) (a_next a)\<rparr>"
  using same
  by (cases "first_where (ext_here key (fst item)) (a_extensions a)")
    (auto simp: put_extension_row_def upsert_row_def bump_def view_of_def split: option.splits)

text \<open>The domain's extensions after a payload, and the other domains'.\<close>

definition listed_content ::
  "(string \<times> string) list \<Rightarrow> (string \<Rightarrow> (string \<times> bool) option) \<Rightarrow> string \<Rightarrow> (string \<times> bool) option" where
  "listed_content items old n =
     (case map_of items n of
        None \<Rightarrow> old n
      | Some name \<Rightarrow> Some (name, case old n of None \<Rightarrow> True | Some (_, vm) \<Rightarrow> vm))"

lemma listed_content_cong: "old n = old' n \<Longrightarrow> listed_content items old n = listed_content items old' n"
  by (cases "map_of items n") (simp_all add: listed_content_def)

lemma put_extension_step:
  assumes ok: "ext_ok a" and "key < a_next a" and "number_valid (fst item)"
    and same: "map_option ve_id (desired_by_number existing (fst item)) =
      view_of ve_id (ext_here key) (a_extensions a) (fst item)"
  shows "ext_ok (put_extension_row key existing item a)"
    "a_next a \<le> a_next (put_extension_row key existing item a)"
    "m \<noteq> fst item \<Longrightarrow> view_of ve_id (ext_here key) (a_extensions (put_extension_row key existing item a)) m =
       view_of ve_id (ext_here key) (a_extensions a) m"
    "ext_content (put_extension_row key existing item a) k =
       (if k = key then (ext_content a key)(fst item \<mapsto>
          (snd item, case ext_content a key (fst item) of None \<Rightarrow> True | Some (_, vm) \<Rightarrow> vm))
        else ext_content a k)"
proof -
  note put = put_extension_upsert [OF ok same]
  show "ext_ok (put_extension_row key existing item a)"
    unfolding put using assms
    by (simp, intro table_ok_upsert) simp_all
  show "a_next a \<le> a_next (put_extension_row key existing item a)" by (simp add: put bump_le)
  show "view_of ve_id (ext_here key) (a_extensions (put_extension_row key existing item a)) m =
       view_of ve_id (ext_here key) (a_extensions a) m" if "m \<noteq> fst item"
    using that by (simp add: put upsert_view [OF ok])
  show "ext_content (put_extension_row key existing item a) k =
       (if k = key then (ext_content a key)(fst item \<mapsto>
          (snd item, case ext_content a key (fst item) of None \<Rightarrow> True | Some (_, vm) \<Rightarrow> vm))
        else ext_content a k)"
    by (cases "first_where (ext_here key (fst item)) (a_extensions a)")
      (simp_all add: ext_content_def put upsert_view [OF ok], simp_all add: view_of_def)
qed

lemma map_of_key: "map_of xs n = Some b \<Longrightarrow> n \<in> fst ` set xs"
  by (force dest: map_of_SomeD)

lemma put_extensions_all:
  assumes "ext_ok a" and "key < a_next a" and "list_all (\<lambda>e. number_valid (fst e)) items"
    and "distinct (map fst items)"
    and "\<forall>n\<in>set (map fst items). map_option ve_id (desired_by_number existing n) =
      view_of ve_id (ext_here key) (a_extensions a) n"
  shows "ext_ok (fold (put_extension_row key existing) items a) \<and>
    a_next a \<le> a_next (fold (put_extension_row key existing) items a) \<and>
    ext_content (fold (put_extension_row key existing) items a) k =
      (if k = key then listed_content items (ext_content a key) else ext_content a k)"
  using assms
proof (induction items arbitrary: a)
  case Nil
  then show ?case by (simp add: listed_content_def fun_eq_iff)
next
  case (Cons item items)
  let ?a = "put_extension_row key existing item a"
  from Cons.prems(3,5) have item: "number_valid (fst item)"
    "map_option ve_id (desired_by_number existing (fst item)) =
      view_of ve_id (ext_here key) (a_extensions a) (fst item)" by simp_all
  note step = put_extension_step [OF Cons.prems(1,2) item]
  have "ext_ok (fold (put_extension_row key existing) items ?a) \<and>
    a_next ?a \<le> a_next (fold (put_extension_row key existing) items ?a) \<and>
    ext_content (fold (put_extension_row key existing) items ?a) k =
      (if k = key then listed_content items (ext_content ?a key) else ext_content ?a k)"
  proof (rule Cons.IH)
    show "key < a_next ?a" using step(2) Cons.prems(2) by simp
    show "\<forall>n\<in>set (map fst items). map_option ve_id (desired_by_number existing n) =
      view_of ve_id (ext_here key) (a_extensions ?a) n"
    proof
      fix n assume n: "n \<in> set (map fst items)"
      with Cons.prems(4) have "n \<noteq> fst item" by (metis distinct.simps(2) list.simps(9))
      from step(3) [OF this] n bspec [OF Cons.prems(5), of n]
      show "map_option ve_id (desired_by_number existing n) =
        view_of ve_id (ext_here key) (a_extensions ?a) n" by simp
    qed
  qed (use step(1) Cons.prems in simp_all)
  moreover have "listed_content items (ext_content ?a key) = listed_content (item # items) (ext_content a key)"
  proof
    fix n
    show "listed_content items (ext_content ?a key) n = listed_content (item # items) (ext_content a key) n"
    proof (cases "n = fst item")
      case True
      then have "map_of items n = None" using Cons.prems(4) by (simp add: map_of_eq_None_iff)
      with True step(4) [of key] show ?thesis by (cases item) (simp add: listed_content_def)
    next
      case False
      with step(4) [of key] have "ext_content ?a key n = ext_content a key n" by simp
      from listed_content_cong [of "ext_content ?a key" n "ext_content a key", OF this] False show ?thesis
        by (cases item) (simp add: listed_content_def)
    qed
  qed
  ultimately show ?case using step(2) step(4) [of k] by auto
qed

text \<open>\<^verbatim>\<open>_upsert\<close> and friends only touch the feature tables, \<open>replace_extensions\<close> only the extensions.\<close>

lemma put_extension_frame:
  "put_extension_row key existing item a = (put_extension_row key existing item a)
    \<lparr>a_domains := a_domains a, a_conferences := a_conferences a, a_ring_groups := a_ring_groups a,
     a_ivrs := a_ivrs a, a_queues := a_queues a\<rparr>"
  by (simp add: put_extension_row_def split: option.split)

lemma put_extensions_frame:
  "fold (put_extension_row key existing) items a = (fold (put_extension_row key existing) items a)
    \<lparr>a_domains := a_domains a, a_conferences := a_conferences a, a_ring_groups := a_ring_groups a,
     a_ivrs := a_ivrs a, a_queues := a_queues a\<rparr>"
proof (induction items arbitrary: a)
  case (Cons item items)
  show ?case
    by (simp, subst Cons.IH, subst put_extension_frame, simp, subst Cons.IH, subst put_extension_frame)
     (simp add: put_extension_row_def split: option.split)
qed simp

lemma replace_extensions_spec:
  assumes inv: "voice_inv a" and key: "vd_id v < a_next a"
    and items: "list_all (\<lambda>e. number_valid (fst e)) items" "distinct (map fst items)"
  shows "list_all extension_fits (a_extensions (replace_extensions v items a)) \<Longrightarrow> voice_inv (replace_extensions v items a)"
    "ext_content (replace_extensions v items a) (vd_id v) =
       (\<lambda>n. if n \<in> set (map fst items) then listed_content items (ext_content a (vd_id v)) n else None)"
    "k \<noteq> vd_id v \<Longrightarrow> ext_content (replace_extensions v items a) k = ext_content a k"
    "replace_extensions v items a = (replace_extensions v items a)\<lparr>a_domains := a_domains a,
       a_conferences := a_conferences a, a_ring_groups := a_ring_groups a, a_ivrs := a_ivrs a,
       a_queues := a_queues a\<rparr>"
proof -
  let ?ex = "extensions_of a v" and ?ns = "map fst items"
  let ?del = "\<lambda>r. ve_domain r = vd_id v \<and> ve_number r \<notin> set ?ns"
  let ?a = "a\<lparr>a_extensions := delete_where ?del (a_extensions a)\<rparr>"
  have drop: "drop_unlisted ?ex ?ns a = ?a" by (rule drop_unlisted_eq [OF inv])
  have rep: "replace_extensions v items a = fold (put_extension_row (vd_id v) ?ex) items ?a"
    by (simp add: replace_extensions_def drop [simplified])
  have ok: "ext_ok ?a" using voice_inv_tables(5) [OF inv] by (simp add: extensions_sound table_ok_delete)
  have ids: "map_option ve_id (desired_by_number ?ex n) =
      view_of ve_id (ext_here (vd_id v)) (a_extensions ?a) n" if n: "n \<in> set ?ns" for n
  proof -
    have "first_where (ext_here (vd_id v) n) (delete_where ?del (a_extensions a)) =
        first_where (ext_here (vd_id v) n) (a_extensions a)"
      by (rule first_where_delete_other) (use n in auto)
    moreover have "desired_by_number ?ex n = first_where (ext_here (vd_id v) n) (a_extensions a)"
    proof (cases "first_where (ext_here (vd_id v) n) (a_extensions a)")
      case None
      then have "desired_by_number ?ex n = None"
        by (auto simp: first_where_None desired_by_number_None extensions_of_def)
      with None show ?thesis by simp
    next
      case (Some r)
      from first_where_Some [OF Some] have "r \<in> set ?ex" "ve_number r = n"
        by (auto simp: extensions_of_def)
      with desired_by_number_distinct [OF extensions_distinct [OF inv], of r v] Some show ?thesis by simp
    qed
    ultimately show ?thesis by (simp add: view_of_def)
  qed
  then have same: "\<forall>n\<in>set ?ns. map_option ve_id (desired_by_number ?ex n) =
      view_of ve_id (ext_here (vd_id v)) (a_extensions ?a) n" by blast
  have key': "vd_id v < a_next ?a" using key by simp
  note all = put_extensions_all [OF ok key' items same]
  note frame = put_extensions_frame [of "vd_id v" ?ex items ?a]
  have le: "a_next a \<le> a_next (replace_extensions v items a)"
    using all [THEN conjunct2, THEN conjunct1] by (simp add: rep)
  show fr: "replace_extensions v items a = (replace_extensions v items a)\<lparr>a_domains := a_domains a,
       a_conferences := a_conferences a, a_ring_groups := a_ring_groups a, a_ivrs := a_ivrs a,
       a_queues := a_queues a\<rparr>"
    using frame by (simp add: rep)
  have flds: "a_domains (replace_extensions v items a) = a_domains a"
    "a_conferences (replace_extensions v items a) = a_conferences a"
    "a_ring_groups (replace_extensions v items a) = a_ring_groups a"
    "a_ivrs (replace_extensions v items a) = a_ivrs a"
    "a_queues (replace_extensions v items a) = a_queues a"
    by (subst fr, simp)+
  show "voice_inv (replace_extensions v items a)"
    if "list_all extension_fits (a_extensions (replace_extensions v items a))"
    using all [THEN conjunct1, folded rep] voice_inv_tables [OF inv] le that
    by (simp add: voice_inv_def flds extensions_sound) (auto intro: keyed_mono table_ok_mono)
  show "ext_content (replace_extensions v items a) k = ext_content a k" if k: "k \<noteq> vd_id v"
  proof -
    have "ext_content ?a k = ext_content a k"
      unfolding ext_content_def voice_db.simps by (simp, rule view_of_delete_other) (use k in auto)
    with all [of k] k show ?thesis by (simp add: rep)
  qed
  show "ext_content (replace_extensions v items a) (vd_id v) =
       (\<lambda>n. if n \<in> set (map fst items) then listed_content items (ext_content a (vd_id v)) n else None)"
  proof
    fix n
    have kept: "ext_content ?a (vd_id v) n = (if n \<in> set ?ns then ext_content a (vd_id v) n else None)"
    proof (cases "n \<in> set ?ns")
      case True
      have "first_where (ext_here (vd_id v) n) (delete_where ?del (a_extensions a)) =
          first_where (ext_here (vd_id v) n) (a_extensions a)"
        by (rule first_where_delete_other) (use True in auto)
      with True show ?thesis by (simp add: ext_content_def view_of_def)
    next
      case False
      then show ?thesis by (auto simp: ext_content_def view_of_None set_delete_where)
    qed
    have "ext_content (replace_extensions v items a) (vd_id v) n =
        listed_content items (ext_content ?a (vd_id v)) n" using all [of "vd_id v"] by (simp add: rep)
    also have "\<dots> = (if n \<in> set ?ns then listed_content items (ext_content a (vd_id v)) n else None)"
    proof (cases "n \<in> set ?ns")
      case False
      then have "map_of items n = None" by (simp add: map_of_eq_None_iff)
      with False kept show ?thesis by (simp add: listed_content_def)
    next
      case True
      with kept have "ext_content ?a (vd_id v) n = ext_content a (vd_id v) n" by simp
      from listed_content_cong [of "ext_content ?a (vd_id v)" n "ext_content a (vd_id v)", OF this] True show ?thesis by simp
    qed
    finally show "ext_content (replace_extensions v items a) (vd_id v) n =
        (if n \<in> set ?ns then listed_content items (ext_content a (vd_id v)) n else None)" .
  qed
qed

lemma store_intent_spec:
  assumes inv: "voice_inv a" and p: "domain_intent_valid p" and st: "store_intent customer_id p a = Inr a'"
  shows "\<exists>v v0. voice_inv a' \<and> domain_of_customer customer_id a' = Some v \<and>
    vd_fusionpbx_domain v = di_fusionpbx_domain p \<and> vd_recording_enabled v = di_recording_enabled p \<and>
    ensure_domain_row customer_id (di_fusionpbx_domain p) a = Inr v0 \<and> vd_id v = vd_id (fst v0) \<and>
    ext_content a' (vd_id v) = (\<lambda>n. if n \<in> set (map fst (di_extensions p))
      then listed_content (di_extensions p) (ext_content a (vd_id v)) n else None)"
proof -
  let ?D = "di_fusionpbx_domain p" and ?f = "\<lambda>v. v\<lparr>vd_recording_enabled := di_recording_enabled p\<rparr>"
  from st obtain v0 a0 where e: "ensure_domain_row customer_id ?D a = Inr (v0, a0)"
    and a': "a' = replace_extensions v0 (di_extensions p) (update_domain (vd_id v0) ?f a0)"
    and fits: "list_all extension_fits (a_extensions a')"
    by (auto simp: store_intent_def bind_res_Inr flush_extensions_def split: if_splits)
  let ?b = "update_domain (vd_id v0) ?f a0"
  have D: "valid_domain ?D" using p by (simp add: domain_intent_valid_def)
  have items: "list_all (\<lambda>e. number_valid (fst e)) (di_extensions p)" "distinct (map fst (di_extensions p))"
    using p by (auto simp: domain_intent_valid_def list_all_iff number_valid_def)
  from ensure_domain_row_inv [OF inv D e]
  have e': "voice_inv a0" "v0 \<in> set (a_domains a0)" "vd_fusionpbx_domain v0 = ?D"
    "vd_customer_id v0 = customer_id" by simp_all
  have b: "voice_inv ?b" by (rule update_domain_inv [OF e'(1)]) simp_all
  have k: "vd_id v0 < a_next ?b" using domain_known [OF e'(1,2)] by (simp add: update_domain_def)
  note r = replace_extensions_spec [OF b k items]
  have doms: "a_domains a' = a_domains ?b" unfolding a' by (subst r(4)) simp
  have ext: "ext_content ?b key = ext_content a key" for key
    using e by (auto simp: ensure_domain_row_def ext_content_def update_domain_def Let_def
        split: option.splits if_splits)
  have uniq: "distinct (map vd_id (a_domains a0))" "distinct (map vd_customer_id (a_domains a0))"
    using e'(1) by (simp_all add: voice_inv_def keyed_def)
  have "first_where (\<lambda>v. vd_customer_id v = customer_id) (a_domains a0) = Some v0"
  proof (cases "first_where (\<lambda>v. vd_customer_id v = customer_id) (a_domains a0)")
    case None
    with e'(2,4) show ?thesis by (auto simp: first_where_None)
  next
    case (Some w)
    from first_where_Some [OF Some] e'(2,4) uniq(2) have "w = v0"
      by (auto simp: distinct_map inj_on_def)
    with Some show ?thesis by simp
  qed
  with first_where_update_key [OF uniq(1) e'(2), where P = "\<lambda>v. vd_customer_id v = customer_id" and g = ?f]
  have "domain_of_customer customer_id a' = Some (?f v0)"
    by (simp add: domain_of_customer_def doms update_domain_def)
  moreover have id: "vd_id (?f v0) = vd_id v0" by simp
  moreover have "ext_content a' (vd_id (?f v0)) = (\<lambda>n. if n \<in> set (map fst (di_extensions p))
      then listed_content (di_extensions p) (ext_content a (vd_id (?f v0))) n else None)"
    using r(2) unfolding a' ext id .
  moreover have "vd_fusionpbx_domain (?f v0) = ?D" "vd_recording_enabled (?f v0) = di_recording_enabled p"
    "vd_id (?f v0) = vd_id (fst (v0, a0))" by (simp_all add: e'(3))
  moreover have "voice_inv a'" using r(1) fits by (simp add: a')
  ultimately show ?thesis using e by blast
qed

section \<open>What the feature requests store\<close>

text \<open>The features of a domain as its rows give them: number to content, per kind.\<close>

fun features_at :: "nat \<Rightarrow> feature_kind \<Rightarrow> voice_db \<Rightarrow> string \<Rightarrow> feature option" where
  "features_at key ConferenceKind a = view_of (\<lambda>r. Conference (cr_number r))
     (\<lambda>n r. cr_domain r = key \<and> cr_number r = n) (a_conferences a)"
| "features_at key RingGroupKind a =
     view_of (\<lambda>r. Ring_Group (rg_number r) (rg_members r) (rg_strategy r) (rg_timeout r))
     (\<lambda>n r. rg_domain r = key \<and> rg_number r = n) (a_ring_groups a)"
| "features_at key IvrKind a = view_of (\<lambda>r. Ivr (iv_number r) (iv_options r) (iv_greeting r))
     (\<lambda>n r. iv_domain r = key \<and> iv_number r = n) (a_ivrs a)"
| "features_at key QueueKind a =
     view_of (\<lambda>r. Call_Queue (vq_number r) (vq_agents r) (vq_name r) (vq_strategy r))
     (\<lambda>n r. vq_domain r = key \<and> vq_number r = n) (a_queues a)"

text \<open>The intents by number; of two with the same number the later one counts.\<close>

definition asked :: "feature list \<Rightarrow> string \<Rightarrow> feature option" where
  "asked fs = map_of (rev (map (\<lambda>f. (feature_number f, f)) fs))"

lemma asked_Nil [simp]: "asked [] = Map.empty"
  by (simp add: asked_def)

lemma asked_Cons: "m ++ asked (f # fs) = m(feature_number f \<mapsto> f) ++ asked fs"
  by (rule ext) (simp add: asked_def map_add_def split: option.split)

lemma asked_None: "asked fs n = None \<longleftrightarrow> n \<notin> set (map feature_number fs)"
  by (force simp: asked_def map_of_eq_None_iff image_iff)

lemma asked_over: "(m |` set (map feature_number fs)) ++ asked fs = asked fs"
proof
  fix n
  show "((m |` set (map feature_number fs)) ++ asked fs) n = asked fs n"
  proof (cases "asked fs n")
    case None
    then have "n \<notin> set (map feature_number fs)" by (rule asked_None [THEN iffD1])
    with None show ?thesis by (simp add: map_add_def restrict_map_def)
  qed (simp add: map_add_def)
qed

lemma first_where_case:
  assumes "first_where (\<lambda>r. fk r = key \<and> number r = num) rows = Some r"
  shows "number r = num"
  using first_where_Some [OF assms] by simp

lemma write_feature_view:
  assumes "voice_inv a"
  shows "features_at k kind (write_feature key f a) =
    (if k = key \<and> kind = kind_of f then (features_at k kind a)(feature_number f \<mapsto> f)
     else features_at k kind a)"
  using voice_inv_tables(6-9) [OF assms]
  by (cases f; cases kind)
    (auto simp: upsert_view Let_def split: option.splits dest: first_where_case)

lemma drop_features_view:
  "features_at k kind (drop_features_except key kind' ns a) =
    (if k = key \<and> kind = kind' then (features_at k kind a) |` set ns else features_at k kind a)"
proof -
  have *: "view_of F (\<lambda>n r. fk r = k \<and> number r = n) (delete_where (\<lambda>r. fk r = key \<and> number r \<notin> set ns) rows) =
      (if k = key then view_of F (\<lambda>n r. fk r = k \<and> number r = n) rows |` set ns
       else view_of F (\<lambda>n r. fk r = k \<and> number r = n) rows)"
    for F :: "'r \<Rightarrow> feature" and fk :: "'r \<Rightarrow> nat" and number :: "'r \<Rightarrow> string" and rows
  proof (cases "k = key")
    case True
    have "view_of F (\<lambda>n r. fk r = key \<and> number r = n)
        (delete_where (\<lambda>r. fk r = key \<and> number r \<notin> set ns) rows) m =
      (view_of F (\<lambda>n r. fk r = key \<and> number r = n) rows |` set ns) m" for m
    proof (cases "m \<in> set ns")
      case True
      have "first_where (\<lambda>r. fk r = key \<and> number r = m) (delete_where (\<lambda>r. fk r = key \<and> number r \<notin> set ns) rows) =
          first_where (\<lambda>r. fk r = key \<and> number r = m) rows"
        by (rule first_where_delete_other) (use True in auto)
      with True show ?thesis by (simp add: view_of_def)
    next
      case False
      then have "\<forall>r\<in>set (delete_where (\<lambda>r. fk r = key \<and> number r \<notin> set ns) rows). \<not> (fk r = key \<and> number r = m)"
        by (auto simp: set_delete_where)
      then have "view_of F (\<lambda>n r. fk r = key \<and> number r = n)
        (delete_where (\<lambda>r. fk r = key \<and> number r \<notin> set ns) rows) m = None"
        by (rule view_of_None [THEN iffD2])
      with False show ?thesis by (simp add: restrict_map_def)
    qed
    with True show ?thesis by auto
  next
    case False
    then show ?thesis by (simp, intro view_of_delete_other) auto
  qed
  show ?thesis by (cases kind; cases kind') (simp_all add: *)
qed

lemma fold_upsert_view:
  assumes "voice_inv a" and "list_all feature_ok fs" and "list_all (\<lambda>f. kind_of f = kind') fs"
    and "knows a key"
  shows "features_at k kind (fold (write_feature key) fs a) =
    (if k = key \<and> kind = kind'
     then features_at k kind a ++ asked fs
     else features_at k kind a)"
  using assms
proof (induction fs arbitrary: a)
  case (Cons f fs)
  have "voice_inv (write_feature key f a)" "knows (write_feature key f a) key"
    using Cons.prems write_feature_inv [of a f key] write_feature_next [of a key f] by simp_all
  from Cons.IH [OF this(1) _ _ this(2)] Cons.prems write_feature_view [OF Cons.prems(1), of k kind key f]
  show ?case by (auto simp: asked_Cons)
qed simp

lemma write_features_view:
  assumes "voice_inv a" and "list_all feature_ok fs" and "list_all (\<lambda>f. kind_of f = kind') fs"
    and "knows a key"
  shows "features_at k kind (write_features key kind' fs a) =
    (if k = key \<and> kind = kind' then asked fs
     else features_at k kind a)"
proof -
  let ?ns = "map feature_number fs"
  have inv: "voice_inv (drop_features_except key kind' ?ns a)"
    and kn: "knows (drop_features_except key kind' ?ns a) key"
    using assms by (simp_all add: drop_features_inv)
  from fold_upsert_view [OF inv assms(2,3) kn, of k kind] show ?thesis
    by (simp add: write_features_def drop_features_view asked_over [simplified])
qed

text \<open>The features a set asks for.\<close>

fun set_kind :: "feature_set \<Rightarrow> feature_kind \<Rightarrow> feature list" where
  "set_kind p ConferenceKind = fs_conferences p"
| "set_kind p RingGroupKind = fs_ring_groups p"
| "set_kind p IvrKind = fs_ivrs p"
| "set_kind p QueueKind = fs_queues p"

lemma feature_set_kinds:
  "feature_set_valid p \<Longrightarrow> list_all (\<lambda>f. kind_of f = kind) (set_kind p kind) \<and> list_all feature_valid (set_kind p kind)"
  by (cases kind) (auto simp: feature_set_valid_def list_all_iff)

lemma write_all_view:
  assumes inv: "voice_inv a" and p: "feature_set_valid p" and fits: "set_fits p" and k: "knows a key"
  shows "features_at j kind (write_all key p a) =
    (if j = key then asked (set_kind p kind)
     else features_at j kind a)"
proof -
  note v = feature_set_valid_lists [OF p fits] and f = feature_set_kinds [OF p, THEN conjunct1]
  note f' = f [of ConferenceKind, simplified] f [of RingGroupKind, simplified]
    f [of IvrKind, simplified] f [of QueueKind, simplified]
  note i1 = write_features_inv [OF inv v(1) k, of ConferenceKind]
  note i2 = write_features_inv [OF i1 [THEN conjunct1] v(2) i1 [THEN conjunct2], of RingGroupKind]
  note i3 = write_features_inv [OF i2 [THEN conjunct1] v(3) i2 [THEN conjunct2], of IvrKind]
  note views = write_features_view [OF inv v(1) f'(1) k]
    write_features_view [OF i1 [THEN conjunct1] v(2) f'(2) i1 [THEN conjunct2]]
    write_features_view [OF i2 [THEN conjunct1] v(3) f'(3) i2 [THEN conjunct2]]
    write_features_view [OF i3 [THEN conjunct1] v(4) f'(4) i3 [THEN conjunct2]]
  show ?thesis by (cases kind) (simp_all add: write_all_def views)
qed

end
