(* ===== verification/VoiceApi.thy ===== *)
theory VoiceApi
  imports VoiceSync Provisioning
begin

text \<open>
  The provisioning API as a whole: the requests as a datatype, the states a sequence of requests
  leads to, and the properties of the handlers of \<^verbatim>\<open>app/api/provisioning.py\<close> and
  \<^verbatim>\<open>app/api/voice_features.py\<close>, alone and together with the FusionPBX client.
\<close>

section \<open>Requests and the states they reach\<close>

datatype voice_request =
    PutDomain string domain_intent
  | Suspend string
  | Resume string
  | Deprovision string
  | ResyncDomain string
  | ResyncAll
  | PostFeature string feature
  | RemoveFeature string feature_kind string
  | PutFeatures string feature_set

definition done_with :: "('w sys, 'a) act \<Rightarrow> ('w sys, unit) act" where
  "done_with h = then_act h (ret ())"

fun serve :: "'w client \<Rightarrow> voice_request \<Rightarrow> nat \<Rightarrow> ('w sys, unit) act" where
  "serve c (PutDomain cid p) now = done_with (put_domain c cid p now)"
| "serve c (Suspend cid) now = done_with (suspend_domain c cid now)"
| "serve c (Resume cid) now = done_with (resume_domain c cid now)"
| "serve c (Deprovision cid) now = deprovision_domain c cid now"
| "serve c (ResyncDomain cid) now = done_with (resync_domain c cid now)"
| "serve c ResyncAll now = done_with (resync_all c now)"
| "serve c (PostFeature cid f) now = done_with (post_feature c cid f now)"
| "serve c (RemoveFeature cid kind n) now = done_with (remove_feature c cid kind n now)"
| "serve c (PutFeatures cid p) now = done_with (put_features c cid p now)"

definition no_rows :: voice_db where
  "no_rows = \<lparr>a_domains = [], a_extensions = [], a_conferences = [], a_ring_groups = [], a_ivrs = [],
     a_queues = [], a_next = 0\<rparr>"

text \<open>
  Requests arrive in any order, with any payload, and each can fail; between two of them the PBX
  can change by itself.
\<close>

inductive voice_reachable :: "'w client \<Rightarrow> 'w sys \<Rightarrow> bool" for c where
  started: "voice_reachable c \<lparr>app = no_rows, pbxw = w\<rparr>"
| served: "voice_reachable c s \<Longrightarrow> serve c req now s = (r, s') \<Longrightarrow> voice_reachable c s'"
| pbx_moved: "voice_reachable c s \<Longrightarrow> voice_reachable c (s\<lparr>pbxw := w\<rparr>)"

inductive_cases voice_reachableE: "voice_reachable c s"



lemma reconcile_same_rows:
  "reconcile_voice c cid now s = (r, s') \<Longrightarrow>
    app s' = app s \<or> (\<exists>k st. app s' = set_sync_status k st now (app s))"
  by (auto simp: reconcile_voice_def split: option.splits prod.splits sum.splits err.splits) blast+



lemma on_app_then: "then_act (on_app f) k s = k (s\<lparr>app := f (app s)\<rparr>)"
  by (simp add: then_act_def bind_act_def on_app_def)














lemma write_all_domains [simp]: "a_domains (write_all key p a) = a_domains a"
proof -
  have up: "a_domains (write_feature key f a) = a_domains a" for f and a :: voice_db
    by (cases f) (simp_all add: Let_def)
  have "a_domains (fold (write_feature key) fs a) = a_domains a" for fs and a :: voice_db
    by (induction fs arbitrary: a) (simp_all add: up)
  moreover have "a_domains (drop_features_except key kind ns a) = a_domains a" for kind ns and a :: voice_db
    by (cases kind) simp_all
  ultimately show ?thesis by (simp add: write_all_def write_features_def)
qed

lemma set_sync_status_view [simp]:
  "features_at k kind (set_sync_status j st now a) = features_at k kind a"
  "ext_content (set_sync_status j st now a) k = ext_content a k"
  by (cases kind) (simp_all add: set_sync_status_def ext_content_def)

lemma request_Inr: "request h s = (Inr r, s') \<longleftrightarrow> h s = (Inr r, s')"
  by (auto simp: request_def split: prod.splits sum.splits)

lemma request_Inl: "request h s = (Inl e, s') \<Longrightarrow> app s' = app s"
  by (auto simp: request_def split: prod.splits sum.splits)

lemma bind_find_Inr:
  "bind_act (find_domain cid) k s = (Inr r, s') \<longleftrightarrow>
    (\<exists>v. domain_of_customer cid (app s) = Some v \<and> k v s = (Inr r, s'))"
  by (auto simp: bind_act_def find_domain_def split: option.splits)

lemma bind_find_step:
  "domain_of_customer cid (app s) = Some v \<Longrightarrow> bind_act (find_domain cid) k s = k v s"
  by (simp add: bind_act_def find_domain_def)

text \<open>With the PBX unreachable from the start a reconcile changes nothing on it.\<close>

lemma reconcile_down:
  assumes "domain_of_customer cid (app s) = Some v" and "valid_domain (vd_fusionpbx_domain v)"
    and "plan (pbxw s) (txno (pbxw s)) = DbUnreachable"
  shows "reconcile_voice fusionpbx_client cid now s =
    (Inr SyncError, s\<lparr>app := set_sync_status (vd_id v) SyncError now (app s),
       pbxw := (pbxw s)\<lparr>txno := Suc (txno (pbxw s))\<rparr>\<rparr>)"
  using assms
  by (simp add: reconcile_voice_def apply_desired_def Let_def fusionpbx_client_def list_extensions_def
      bind_act_def then_act_def require_domain_def reading_def)

text \<open>The extensions of a domain after a payload, from those before.\<close>

definition stored_extensions ::
  "(string \<times> string) list \<Rightarrow> (string \<Rightarrow> (string \<times> bool) option) \<Rightarrow> string \<Rightarrow> (string \<times> bool) option" where
  "stored_extensions items old =
     (\<lambda>n. if n \<in> set (map fst items) then listed_content items old n else None)"

definition sample_intent :: domain_intent where
  "sample_intent = \<lparr>di_fusionpbx_domain = ''c1.local'',
     di_extensions = [(''1001'', ''Ann''), (''1002'', ''Bob'')], di_recording_enabled = False\<rparr>"

definition sample_features :: feature_set where
  "sample_features = \<lparr>fs_conferences = [Conference ''3001''],
     fs_ring_groups = [Ring_Group ''3002'' [''1001''] ''sequence'' 20, Ring_Group ''3002'' [''1002''] ''sequence'' 30],
     fs_ivrs = [], fs_queues = []\<rparr>"

lemma sample_requests_valid: "domain_intent_valid sample_intent" "feature_set_valid sample_features"
  by (simp_all add: domain_intent_valid_def sample_intent_def feature_set_valid_def sample_features_def
      number_valid_def ring_strategies_def sample_rows_valid)

lemma sample_features_fit: "set_fits sample_features"
  by (simp add: set_fits_def sample_features_def)

text \<open>Suspending and resuming with the PBX reachable.\<close>

abbreviation activate :: "bool \<Rightarrow> voice_domain \<Rightarrow> voice_domain" where
  "activate b v \<equiv> v\<lparr>vd_is_active := b\<rparr>"

lemma update_domain_rows [simp]:
  "extensions_of (update_domain k f a) v = extensions_of a v"
  "conferences_of (update_domain k f a) v = conferences_of a v"
  "ring_groups_of (update_domain k f a) v = ring_groups_of a v"
  "ivrs_of (update_domain k f a) v = ivrs_of a v"
  "queues_of (update_domain k f a) v = queues_of a v"
  "hyphen_free (update_domain k f a) = hyphen_free a"
  by (simp_all add: update_domain_def extensions_of_def conferences_of_def ring_groups_of_def
      ivrs_of_def queues_of_def hyphen_free_def)

lemma activate_rows [simp]:
  "extensions_of a (activate b v) = extensions_of a v"
  "conferences_of a (activate b v) = conferences_of a v"
  "ring_groups_of a (activate b v) = ring_groups_of a v"
  "ivrs_of a (activate b v) = ivrs_of a v"
  "queues_of a (activate b v) = queues_of a v"
  by (simp_all add: extensions_of_def conferences_of_def ring_groups_of_def ivrs_of_def queues_of_def)

lemma active_state_same [simp]:
  "active_state (update_domain k f a) v t = active_state a v t"
  "active_state a (activate b v) t = active_state a v t"
  "active_state (set_sync_status k st now a) v t = active_state a v t"
  "active_state a (mark st now v) t = active_state a v t"
  by (simp_all add: active_state_def Let_def wanted_features_def feature_plans_def)

lemma hyphen_free_status [simp]: "hyphen_free (set_sync_status k st now a) = hyphen_free a"
  by (simp add: set_sync_status_def hyphen_free_def)

lemma domain_updated:
  assumes "voice_inv a" and "domain_of_customer cid a = Some v"
    and "\<And>w. vd_customer_id (f w) = vd_customer_id w"
  shows "domain_of_customer cid (update_domain (vd_id v) f a) = Some (f v)"
proof -
  have "distinct (map vd_id (a_domains a))" using assms(1) by (simp add: voice_inv_def keyed_def)
  from first_where_update_key [OF this, of v "\<lambda>r. vd_customer_id r = cid" f] assms(3)
  show ?thesis using assms(2) domain_of_customer_mem [OF assms(2)]
    by (simp add: domain_of_customer_def update_domain_def)
qed

lemma set_active_outcome:
  assumes inv: "voice_inv (app s)" and h: "hyphen_free (app s)"
    and v: "domain_of_customer cid (app s) = Some v"
    and sound: "sound (vd_fusionpbx_domain v) (pbxw s)"
    and t: "tenant_ok (tenant_of (vd_fusionpbx_domain v) (db (pbxw s)))" and up: "all_up (pbxw s)"
  shows "\<exists>w'. set_active fusionpbx_client cid b now s = (Inr Synced,
      \<lparr>app = set_sync_status (vd_id v) Synced now (update_domain (vd_id v) (activate b) (app s)), pbxw = w'\<rparr>) \<and>
    sound (vd_fusionpbx_domain v) w' \<and> all_up w' \<and> tenant_ok (tenant_of (vd_fusionpbx_domain v) (db w')) \<and>
    tenant_of (vd_fusionpbx_domain v) (db w') =
      (if b then active_state (app s) v (tenant_of (vd_fusionpbx_domain v) (db (pbxw s)))
       else suspended_state (vd_fusionpbx_domain v) (tenant_of (vd_fusionpbx_domain v) (db (pbxw s))))"
proof -
  let ?a = "update_domain (vd_id v) (activate b) (app s)"
  let ?s = "s\<lparr>app := ?a\<rparr>"
  have inv': "voice_inv (app ?s)" using update_domain_inv [OF inv, of "activate b"] by simp
  have h': "hyphen_free (app ?s)" using h by simp
  have v': "domain_of_customer cid (app ?s) = Some (activate b v)"
    using domain_updated [OF inv v, of "activate b"] by simp
  have D: "vd_fusionpbx_domain v = vd_fusionpbx_domain (activate b v)" by simp
  have sd: "sound (vd_fusionpbx_domain v) (pbxw ?s)" using sound by simp
  have tk: "tenant_ok (tenant_of (vd_fusionpbx_domain v) (db (pbxw ?s)))" using t by simp
  from fusion_outcome [OF inv' h' v' D sd tk, of now] up obtain w' where
    "reconcile_voice fusionpbx_client cid now ?s = (Inr Synced, \<lparr>app = set_sync_status (vd_id v) Synced now ?a, pbxw = w'\<rparr>)"
    "sound (vd_fusionpbx_domain v) w'" "all_up w'" "tenant_ok (tenant_of (vd_fusionpbx_domain v) (db w'))"
    "tenant_of (vd_fusionpbx_domain v) (db w') =
      desired_state ?a (activate b v) (tenant_of (vd_fusionpbx_domain v) (db (pbxw s)))"
    by auto
  then show ?thesis
    by (intro exI [of _ w']) (simp add: set_active_def request_def bind_find_step [OF v] on_app_then
        desired_state_def)
qed

text \<open>
  A PBX in use: the customer has an extension that is in the tables, and a voicemail box whose
  extension was deleted.
\<close>

definition live_pbx :: pbx where
  "live_pbx = empty_pbx\<lparr>
     t_domains := [\<lparr>dom_uuid = 0, dom_name = ''c1.local'', dom_enabled = True\<rparr>],
     t_extensions := [\<lparr>ext_uuid = 1, ext_domain = 0, ext_number = ''1001'', ext_password = None,
       ext_accountcode = None, ext_user_context = None, ext_effective_name = None,
       ext_effective_number = None, ext_outbound_name = None, ext_outbound_number = None,
       ext_call_timeout = None, ext_enabled = True, ext_first_name = None, ext_dial_string = None\<rparr>],
     t_voicemails := [\<lparr>vm_uuid = 2, vm_domain = 0, vm_id = ''1009'', vm_password = None, vm_enabled = True\<rparr>],
     next_id := 3\<rparr>"

definition live_world :: "(nat \<Rightarrow> db_outcome) \<Rightarrow> world" where
  "live_world p = (sample_world p)\<lparr>db := live_pbx\<rparr>"

definition live_sys :: "(nat \<Rightarrow> db_outcome) \<Rightarrow> world sys" where
  "live_sys p = \<lparr>app = sample_app, pbxw = live_world p\<rparr>"

lemma live_views:
  "domain_of ''c1.local'' live_pbx = Some 0"
  "ext_view (Some 0) (t_extensions live_pbx) = [''1001'' \<mapsto> (None, None, None)]"
  "box_view (Some 0) (t_voicemails live_pbx) = {''1009''}"
  "queue_view (Some 0) (t_tiers live_pbx) (t_queues live_pbx) = Map.empty"
  by (simp_all add: domain_of_def live_pbx_def ext_view_Some box_view_Some extension_key_def
      voicemail_key_def ext_names_def view_of_def fun_eq_iff queue_view_def empty_pbx_def)

lemma live_app:
  "db (pbxw (live_sys p)) = live_pbx" "app (live_sys p) = sample_app" "plan (pbxw (live_sys p)) = p"
  "txno (pbxw (live_sys p)) = 0" "vd_fusionpbx_domain sample_domain = ''c1.local''"
  by (simp_all add: live_sys_def live_world_def sample_world_def sample_domain_def)

lemma live_ready:
  "(\<And>n. p n \<noteq> DbIntegrity) \<Longrightarrow> sound (vd_fusionpbx_domain sample_domain) (pbxw (live_sys p))"
  "tenant_ok (tenant_of (vd_fusionpbx_domain sample_domain) (db (pbxw (live_sys p))))"
  "voice_inv (app (live_sys p))" "hyphen_free (app (live_sys p))"
  "domain_of_customer ''cust-1'' (app (live_sys p)) = Some sample_domain"
  "''1009'' \<notin> ve_number ` set (extensions_of (app (live_sys p)) sample_domain)"
  "all_up (pbxw (live_sys always_up))"
proof -
  have "pbx_inv live_pbx" "owned D live_pbx" for D
    by (simp_all add: pbx_inv_def live_pbx_def empty_pbx_def keyed_def owned_def)
  then show "(\<And>n. p n \<noteq> DbIntegrity) \<Longrightarrow> sound (vd_fusionpbx_domain sample_domain) (pbxw (live_sys p))"
    by (simp add: sound_def tame_def live_app)
  show "tenant_ok (tenant_of (vd_fusionpbx_domain sample_domain) (db (pbxw (live_sys p))))"
    by (simp add: tenant_ok_def live_app live_views sample_rows_valid)
qed (simp_all add: live_app sample_inv, simp_all add: sample_domain_def sample_app_def
    domain_of_customer_def extensions_of_def all_up_def live_app always_up_def fun_eq_iff)

section \<open>Properties\<close>



text \<open>
  Property C7. Replacing the feature set of a customer is exact: when the request succeeds, the
  customer's domain has, for each kind, one feature per number of the payload with the content of
  the last intent for that number, and no other; every other domain keeps its features.
\<close>

theorem put_features_exact:
  assumes "voice_inv (app s)" and "put_features c cid p now s = (Inr st, s')"
  shows "\<exists>v. domain_of_customer cid (app s) = Some v \<and>
    features_at k kind (app s') =
      (if k = vd_id v then asked (set_kind p kind) else features_at k kind (app s))"
proof -
  have p: "feature_set_valid p"
    using assms(2) by (auto simp: put_features_def then_act_Inr split: if_splits)
  with assms(2) obtain v where v: "domain_of_customer cid (app s) = Some v"
    and fits: "set_fits p"
    and rec: "reconcile_voice c cid now (s\<lparr>app := write_all (vd_id v) p (app s)\<rparr>) = (Inr st, s')"
    by (auto simp: put_features_def then_act_Inr request_Inr bind_find_Inr try_app_Inr replace_all_Inr)
  have k: "knows (app s) (vd_id v)"
    using domain_known [OF assms(1)] domain_of_customer_mem [OF v] by blast
  from reconcile_same_rows [OF rec] have "features_at k kind (app s') =
      features_at k kind (write_all (vd_id v) p (app s))" by auto
  with v write_all_view [OF assms(1) p fits k] show ?thesis by simp
qed

theorem put_features_exact_witness:
  "\<exists>st s' v. put_features fusionpbx_client ''cust-1'' sample_features 10 (sample_sys (\<lambda>_. DbUnreachable)) = (Inr st, s') \<and>
    domain_of_customer ''cust-1'' (app (sample_sys (\<lambda>_. DbUnreachable))) = Some v \<and>
    features_at 0 RingGroupKind (app s') =
      (if 0 = vd_id v then asked (set_kind sample_features RingGroupKind)
       else features_at 0 RingGroupKind (app (sample_sys (\<lambda>_. DbUnreachable))))"
proof -
  let ?s = "sample_sys (\<lambda>_. DbUnreachable)"
  have inv: "voice_inv (app ?s)" by (simp add: sample_sys_def sample_inv)
  let ?s' = "?s\<lparr>app := write_all (vd_id sample_domain) sample_features (app ?s)\<rparr>"
  have "domain_of_customer ''cust-1'' (app ?s') = Some sample_domain"
    using sample_domain_found by (simp add: domain_of_customer_def)
  moreover have "valid_domain (vd_fusionpbx_domain sample_domain)"
    by (simp add: sample_domain_def sample_rows_valid)
  moreover have "plan (pbxw ?s') (txno (pbxw ?s')) = DbUnreachable"
    by (simp add: sample_sys_def sample_world_def)
  ultimately have "reconcile_voice fusionpbx_client ''cust-1'' 10 ?s' =
    (Inr SyncError, ?s'\<lparr>app := set_sync_status (vd_id sample_domain) SyncError 10 (app ?s'),
       pbxw := (pbxw ?s')\<lparr>txno := Suc (txno (pbxw ?s'))\<rparr>\<rparr>)" by (rule reconcile_down)
  then obtain s' where
    r: "put_features fusionpbx_client ''cust-1'' sample_features 10 ?s = (Inr SyncError, s')"
    by (simp add: put_features_def then_act_def bind_act_def sample_requests_valid request_def
        find_domain_def sample_domain_found try_app_def
        replace_all_Inr [THEN iffD2, OF conjI, OF sample_features_fit refl])
  from put_features_exact [OF inv r, of 0 RingGroupKind] r show ?thesis by blast
qed

text \<open>
  A stored payload is exact: when \<open>put_domain\<close> succeeds, the customer has a domain
  with the payload's name and recording flag, and the domain's extensions are the payload's
  numbers with the payload's display names. A number that was there keeps its voicemail setting,
  a new one has voicemail.
\<close>

theorem put_domain_exact:
  assumes "voice_inv (app s)" and "put_domain c cid p now s = (Inr st, s')"
  shows "\<exists>v. domain_of_customer cid (app s') = Some v \<and>
    vd_fusionpbx_domain v = di_fusionpbx_domain p \<and> vd_recording_enabled v = di_recording_enabled p \<and>
    ext_content (app s') (vd_id v) = stored_extensions (di_extensions p) (ext_content (app s) (vd_id v))"
proof -
  have p: "domain_intent_valid p"
    using assms(2) by (auto simp: put_domain_def then_act_Inr split: if_splits)
  with assms(2) obtain a where a: "store_intent cid p (app s) = Inr a"
    and rec: "reconcile_voice c cid now (s\<lparr>app := a\<rparr>) = (Inr st, s')"
    by (auto simp: put_domain_def then_act_Inr request_Inr split: sum.splits)
  from store_intent_spec [OF assms(1) p a, folded stored_extensions_def] obtain v where inv: "voice_inv a"
    and v: "domain_of_customer cid a = Some v"
    and f: "vd_fusionpbx_domain v = di_fusionpbx_domain p" "vd_recording_enabled v = di_recording_enabled p"
    and e: "ext_content a (vd_id v) = stored_extensions (di_extensions p) (ext_content (app s) (vd_id v))"
    by blast
  from rec v obtain st' where s': "app s' = set_sync_status (vd_id v) st' now a"
    by (auto simp: reconcile_voice_def split: prod.splits sum.splits err.splits)
  have "ext_content (app s') (vd_id (mark st' now v)) = ext_content a (vd_id v)" by (simp add: s')
  moreover have "domain_of_customer cid (app s') = Some (mark st' now v)"
    using domain_of_customer_marked [OF inv v] by (simp add: s')
  ultimately show ?thesis using f e by (intro exI [of _ "mark st' now v"]) simp
qed

theorem put_domain_exact_witness:
  "\<exists>st s' v. put_domain fusionpbx_client ''cust-1'' sample_intent 10 (sample_sys (\<lambda>_. DbUnreachable)) = (Inr st, s') \<and>
    domain_of_customer ''cust-1'' (app s') = Some v \<and> vd_fusionpbx_domain v = ''c1.local'' \<and>
    ext_content (app s') (vd_id v) = stored_extensions (di_extensions sample_intent)
      (ext_content (app (sample_sys (\<lambda>_. DbUnreachable))) (vd_id v))"
proof -
  let ?s = "sample_sys (\<lambda>_. DbUnreachable)"
  have inv: "voice_inv (app ?s)" by (simp add: sample_sys_def sample_inv)
  have "\<not> isl (store_intent ''cust-1'' sample_intent sample_app)" by code_simp
  then obtain a where a: "store_intent ''cust-1'' sample_intent (app ?s) = Inr a"
    by (cases "store_intent ''cust-1'' sample_intent sample_app") (auto simp: sample_sys_def)
  from store_intent_spec [OF inv sample_requests_valid(1) a] obtain v where
    v: "domain_of_customer ''cust-1'' a = Some v" and D: "vd_fusionpbx_domain v = ''c1.local''"
    by (auto simp: sample_intent_def)
  have "reconcile_voice fusionpbx_client ''cust-1'' 10 (?s\<lparr>app := a\<rparr>) =
    (Inr SyncError, ?s\<lparr>app := set_sync_status (vd_id v) SyncError 10 a,
       pbxw := (pbxw ?s)\<lparr>txno := Suc (txno (pbxw ?s))\<rparr>\<rparr>)"
    using v D reconcile_down [of "''cust-1''" "?s\<lparr>app := a\<rparr>" v 10]
    by (simp add: sample_rows_valid) (simp add: sample_sys_def sample_world_def)
  then obtain s' where r: "put_domain fusionpbx_client ''cust-1'' sample_intent 10 ?s = (Inr SyncError, s')"
    by (simp add: put_domain_def then_act_def bind_act_def sample_requests_valid request_def a)
  from put_domain_exact [OF inv r] r show ?thesis by (auto simp: sample_intent_def)
qed

text \<open>
  The PBX domain of a customer is fixed: a payload with another domain is refused with
  a conflict, and neither the tables nor the PBX change.
\<close>

theorem put_domain_immutable:
  assumes "domain_intent_valid p" and "domain_of_customer cid (app s) = Some v"
    and "vd_fusionpbx_domain v \<noteq> di_fusionpbx_domain p"
  shows "put_domain c cid p now s =
    (Inl (Conflict ''fusionpbx_domain is immutable for an existing customer''), s)"
  using assms by (simp add: put_domain_def then_act_def bind_act_def request_def store_intent_def
      ensure_domain_row_def)

theorem put_domain_immutable_witness:
  "put_domain fusionpbx_client ''cust-1'' (sample_intent\<lparr>di_fusionpbx_domain := ''c2.local''\<rparr>) 10 (sample_sys always_up) =
    (Inl (Conflict ''fusionpbx_domain is immutable for an existing customer''), sample_sys always_up)"
proof (rule put_domain_immutable [OF _ sample_domain_found])
  have "valid_domain ''c2.local''" by code_simp
  then show "domain_intent_valid (sample_intent\<lparr>di_fusionpbx_domain := ''c2.local''\<rparr>)"
    by (simp add: domain_intent_valid_def sample_intent_def sample_rows_valid)
qed (simp add: sample_domain_def sample_intent_def)

text \<open>
  Suspension takes a customer off the PBX and resumption brings it back: with the PBX
  reachable, suspending removes every extension with its box, every feature dialplan and every
  queue of the customer; resuming reaches the state the stored rows ask for, and the rows of
  extensions and features are the same before and after.
\<close>

theorem suspend_then_resume:
  assumes "voice_inv (app s)" and "hyphen_free (app s)"
    and "domain_of_customer cid (app s) = Some v"
    and "sound (vd_fusionpbx_domain v) (pbxw s)"
    and "tenant_ok (tenant_of (vd_fusionpbx_domain v) (db (pbxw s)))" and "all_up (pbxw s)"
  shows "\<exists>s1 s2. suspend_domain fusionpbx_client cid t1 s = (Inr Synced, s1) \<and>
    tenant_of (vd_fusionpbx_domain v) (db (pbxw s1)) =
      suspended_state (vd_fusionpbx_domain v) (tenant_of (vd_fusionpbx_domain v) (db (pbxw s))) \<and>
    resume_domain fusionpbx_client cid t2 s1 = (Inr Synced, s2) \<and>
    tenant_of (vd_fusionpbx_domain v) (db (pbxw s2)) =
      active_state (app s) v (tenant_of (vd_fusionpbx_domain v) (db (pbxw s1))) \<and>
    app s2 = (app s)\<lparr>a_domains := a_domains (app s2)\<rparr>"
proof -
  let ?D = "vd_fusionpbx_domain v"
  let ?a1 = "set_sync_status (vd_id v) Synced t1 (update_domain (vd_id v) (activate False) (app s))"
  from set_active_outcome [OF assms, of False t1] obtain w1 where
    1: "set_active fusionpbx_client cid False t1 s = (Inr Synced, \<lparr>app = ?a1, pbxw = w1\<rparr>)"
    and w1: "sound ?D w1" "all_up w1" "tenant_ok (tenant_of ?D (db w1))"
      "tenant_of ?D (db w1) = suspended_state ?D (tenant_of ?D (db (pbxw s)))" by auto
  let ?s1 = "\<lparr>app = ?a1, pbxw = w1\<rparr>" and ?v1 = "mark Synced t1 (activate False v)"
  have inv0: "voice_inv (update_domain (vd_id v) (activate False) (app s))"
    by (rule update_domain_inv [OF assms(1)]) simp_all
  have inv1: "voice_inv (app ?s1)" using set_sync_status_inv [OF inv0] by simp
  have h1: "hyphen_free (app ?s1)" using assms(2) by simp
  have "domain_of_customer cid (update_domain (vd_id v) (activate False) (app s)) = Some (activate False v)"
    by (rule domain_updated [OF assms(1,3)]) simp
  from domain_of_customer_marked [OF inv0 this] have v1: "domain_of_customer cid (app ?s1) = Some ?v1" by simp
  from set_active_outcome [OF inv1 h1 v1, of True t2] w1 obtain w2 where
    2: "set_active fusionpbx_client cid True t2 ?s1 = (Inr Synced,
        \<lparr>app = set_sync_status (vd_id v) Synced t2 (update_domain (vd_id v) (activate True) ?a1), pbxw = w2\<rparr>)"
    and w2: "tenant_of ?D (db w2) = active_state (app s) v (tenant_of ?D (db w1))" by auto
  from 1 2 w1 w2 show ?thesis
    by (intro exI [of _ ?s1] exI [of _ "\<lparr>app = set_sync_status (vd_id v) Synced t2
        (update_domain (vd_id v) (activate True) ?a1), pbxw = w2\<rparr>"])
      (simp add: suspend_domain_def resume_domain_def, simp add: set_sync_status_def update_domain_def)
qed

theorem suspend_then_resume_witness:
  "\<exists>s1 s2. suspend_domain fusionpbx_client ''cust-1'' 10 (sample_sys always_up) = (Inr Synced, s1) \<and>
    tenant_of (vd_fusionpbx_domain sample_domain) (db (pbxw s1)) =
      suspended_state (vd_fusionpbx_domain sample_domain)
        (tenant_of (vd_fusionpbx_domain sample_domain) (db (pbxw (sample_sys always_up)))) \<and>
    resume_domain fusionpbx_client ''cust-1'' 11 s1 = (Inr Synced, s2) \<and>
    tenant_of (vd_fusionpbx_domain sample_domain) (db (pbxw s2)) =
      active_state (app (sample_sys always_up)) sample_domain
        (tenant_of (vd_fusionpbx_domain sample_domain) (db (pbxw s1))) \<and>
    app s2 = (app (sample_sys always_up))\<lparr>a_domains := a_domains (app s2)\<rparr>"
  by (rule suspend_then_resume) (simp_all add: sample_ready sample_domain_found sample_plans)

text \<open>
  A request that fails leaves the application's tables as they were: whatever error a
  handler raises, the session is not committed.
\<close>

theorem failed_request_keeps_tables: "serve c req now s = (Inl e, s') \<Longrightarrow> app s' = app s"
proof -
  have inner: "done_with h s = (Inl e, s') \<Longrightarrow> h s = (Inl e, s')" for h :: "('a sys, 'b) act"
    by (auto simp: done_with_def then_act_def bind_act_def split: prod.splits sum.splits)
  have guarded: "then_act (guard_act b x) (request h) s = (Inl e, s') \<Longrightarrow> app s' = app s"
    for b x and h :: "('a sys, 'b) act"
    by (auto simp: then_act_def bind_act_def split: if_splits dest: request_Inl)
  assume "serve c req now s = (Inl e, s')"
  then show ?thesis
    by (cases req) (auto dest!: inner guarded request_Inl simp: put_domain_def suspend_domain_def
        resume_domain_def set_active_def deprovision_domain_def resync_domain_def resync_all_def
        post_feature_def remove_feature_def put_features_def)
qed

theorem failed_request_keeps_tables_witness:
  "\<exists>e s'. serve fusionpbx_client (Suspend ''nobody'') 10 (sample_sys always_up) = (Inl e, s') \<and>
    app s' = app (sample_sys always_up)"
proof -
  obtain e s' where r: "serve fusionpbx_client (Suspend ''nobody'') 10 (sample_sys always_up) = (Inl e, s')"
    by (simp add: done_with_def then_act_def bind_act_def suspend_domain_def set_active_def request_def
        find_domain_def domain_of_customer_def sample_sys_def sample_app_def sample_domain_def)
  with failed_request_keeps_tables [OF r] show ?thesis by blast
qed

text \<open>
  Deprovisioning during an outage abandons the customer's PBX state: when the PBX
  cannot be reached the request still succeeds and the customer's row is gone, while the PBX keeps
  everything it had; a later reconcile for the customer finds no row and does nothing.
\<close>

theorem deprovision_outage_leaks:
  assumes "voice_inv (app s)" and "domain_of_customer cid (app s) = Some v"
    and "plan (pbxw s) (txno (pbxw s)) = DbUnreachable"
  shows "\<exists>s'. deprovision_domain fusionpbx_client cid now s = (Inr (), s') \<and>
    db (pbxw s') = db (pbxw s) \<and> domain_of_customer cid (app s') = None \<and>
    reconcile_voice fusionpbx_client cid later s' = (Inl (no_domain cid), s')"
proof -
  let ?a = "drop_rows_of (vd_id v) (update_domain (vd_id v) (activate True) (app s))"
  let ?s = "s\<lparr>app := ?a\<rparr>"
  note mem = domain_of_customer_mem [OF assms(2)]
  have "domain_of_customer cid (update_domain (vd_id v) (activate True) (app s)) = Some (activate True v)"
    by (rule domain_updated [OF assms(1,2)]) simp
  then have v1: "domain_of_customer cid (app ?s) = Some (activate True v)"
    by (simp add: domain_of_customer_def drop_rows_of_def)
  have "valid_domain (vd_fusionpbx_domain (activate True v))"
    using assms(1) mem by (auto simp: voice_inv_def list_all_iff domain_row_ok_def)
  from reconcile_down [OF v1 this] assms(3) obtain s1 where
    s1: "reconcile_voice fusionpbx_client cid now ?s = (Inr SyncError, s1)"
      "app s1 = set_sync_status (vd_id v) SyncError now ?a" "db (pbxw s1) = db (pbxw s)"
    by auto
  let ?s' = "s1\<lparr>app := drop_domain (vd_id v) (app s1)\<rparr>"
  have run: "deprovision_domain fusionpbx_client cid now s = (Inr (), ?s')"
    using s1(1) by (simp add: deprovision_domain_def request_def bind_find_step [OF assms(2)] on_app_then)
      (simp add: then_act_def bind_act_def on_app_def)
  have "vd_id r = vd_id v" if "r \<in> set (a_domains (app s))" "vd_customer_id r = cid" for r
    using that mem voice_inv_tables(2) [OF assms(1)] by (auto simp: distinct_map inj_on_def)
  then have gone: "domain_of_customer cid (app ?s') = None"
    by (auto simp: domain_of_customer_def first_where_None drop_domain_def s1(2) set_sync_status_def
        drop_rows_of_def update_domain_def set_update_where set_delete_where)
  from run gone s1(3) show ?thesis
    by (intro exI [of _ ?s']) (simp add: reconcile_voice_def no_domain_def)
qed

theorem deprovision_outage_leaks_witness:
  "\<exists>s'. deprovision_domain fusionpbx_client ''cust-1'' 10 (live_sys (\<lambda>_. DbUnreachable)) = (Inr (), s') \<and>
    db (pbxw s') = live_pbx \<and> domain_of_customer ''cust-1'' (app s') = None \<and>
    reconcile_voice fusionpbx_client ''cust-1'' 11 s' = (Inl (no_domain ''cust-1''), s') \<and>
    x_exts (tenant_of ''c1.local'' (db (pbxw s'))) ''1001'' \<noteq> None"
proof -
  have "domain_of_customer ''cust-1'' (app (live_sys (\<lambda>_. DbUnreachable))) = Some sample_domain"
    by (rule live_ready)
  from deprovision_outage_leaks [OF _ this, of 10 11] obtain s' where
    "deprovision_domain fusionpbx_client ''cust-1'' 10 (live_sys (\<lambda>_. DbUnreachable)) = (Inr (), s')"
    "db (pbxw s') = live_pbx" "domain_of_customer ''cust-1'' (app s') = None"
    "reconcile_voice fusionpbx_client ''cust-1'' 11 s' = (Inl (no_domain ''cust-1''), s')"
    by (auto simp: live_app sample_inv)
  then show ?thesis by (intro exI [of _ s']) (simp add: live_views)
qed

text \<open>
  A box without an extension is never cleaned up: a box on the PBX whose number is
  neither an extension there nor a row of the customer survives every successful reconcile. An
  outage between the deletion of an extension and the deletion of its box leaves such a box.
\<close>

theorem orphan_box_survives:
  assumes "voice_inv (app s)" and "hyphen_free (app s)"
    and "domain_of_customer cid (app s) = Some v"
    and "sound (vd_fusionpbx_domain v) (pbxw s)"
    and "tenant_ok (tenant_of (vd_fusionpbx_domain v) (db (pbxw s)))" and "all_up (pbxw s)"
    and "n \<in> x_boxes (tenant_of (vd_fusionpbx_domain v) (db (pbxw s)))"
    and "x_exts (tenant_of (vd_fusionpbx_domain v) (db (pbxw s))) n = None"
    and "n \<notin> ve_number ` set (extensions_of (app s) v)"
  shows "\<exists>s'. reconcile_voice fusionpbx_client cid now s = (Inr Synced, s') \<and>
    n \<in> x_boxes (tenant_of (vd_fusionpbx_domain v) (db (pbxw s')))"
proof -
  let ?t = "tenant_of (vd_fusionpbx_domain v) (db (pbxw s))"
  from fusion_outcome [OF assms(1-3) refl assms(4,5)] assms(6) obtain w' where
    1: "reconcile_voice fusionpbx_client cid now s =
        (Inr Synced, \<lparr>app = set_sync_status (vd_id v) Synced now (app s), pbxw = w'\<rparr>)"
    and 2: "tenant_of (vd_fusionpbx_domain v) (db w') = desired_state (app s) v ?t" by blast
  have "n \<in> x_boxes (desired_state (app s) v ?t)"
    using assms(7-9) by (auto simp: desired_state_def active_state_def suspended_state_def Let_def)
  with 1 2 show ?thesis by (intro exI) (rule conjI, assumption, simp)
qed

theorem orphan_box_survives_witness:
  "\<exists>s'. reconcile_voice fusionpbx_client ''cust-1'' 10 (live_sys always_up) = (Inr Synced, s') \<and>
    ''1009'' \<in> x_boxes (tenant_of (vd_fusionpbx_domain sample_domain) (db (pbxw s')))"
proof (rule orphan_box_survives [where v = sample_domain])
  show "sound (vd_fusionpbx_domain sample_domain) (pbxw (live_sys always_up))"
    by (rule live_ready) (simp add: always_up_def)
qed (simp_all add: live_ready, simp_all add: live_app live_views)

text \<open>
  The recording setting of one customer is everybody's: after a successful reconcile
  of an active customer, the routing that every tenant's calls go through, whoever it is, records
  exactly if that customer asked for it.
\<close>

theorem recording_is_shared:
  assumes "voice_inv (app s)" and "hyphen_free (app s)"
    and "domain_of_customer cid (app s) = Some v" and "vd_is_active v"
    and "sound (vd_fusionpbx_domain v) (pbxw s)"
    and "tenant_ok (tenant_of (vd_fusionpbx_domain v) (db (pbxw s)))" and "all_up (pbxw s)"
  shows "\<exists>s'. reconcile_voice fusionpbx_client cid now s = (Inr Synced, s') \<and>
    x_routing (tenant_of E (db (pbxw s'))) =
      Some (Some (routing_xml (vd_recording_enabled v) routing_pattern))"
proof -
  from fusion_outcome [OF assms(1-3) refl assms(5,6)] assms(7) obtain w' where
    1: "reconcile_voice fusionpbx_client cid now s =
        (Inr Synced, \<lparr>app = set_sync_status (vd_id v) Synced now (app s), pbxw = w'\<rparr>)"
    and "tenant_of (vd_fusionpbx_domain v) (db w') =
      desired_state (app s) v (tenant_of (vd_fusionpbx_domain v) (db (pbxw s)))" by blast
  then have "x_routing (tenant_of (vd_fusionpbx_domain v) (db w')) =
      Some (Some (routing_xml (vd_recording_enabled v) routing_pattern))"
    using assms(4) by (simp only: desired_state_def) (simp add: active_state_def Let_def)
  with 1 show ?thesis by (intro exI) (rule conjI, assumption, simp)
qed

theorem recording_is_shared_witness:
  "\<exists>s'. reconcile_voice fusionpbx_client ''cust-1'' 10 (sample_sys always_up) = (Inr Synced, s') \<and>
    x_routing (tenant_of ''c2.local'' (db (pbxw s'))) =
      Some (Some (routing_xml (vd_recording_enabled sample_domain) routing_pattern))"
  by (rule recording_is_shared) (simp_all add: sample_ready sample_domain_found sample_plans, simp add: sample_domain_def)

text \<open>
  A resync during an outage loses the status: the reconcile has already recorded the
  error, but the queue resynchronisation raises on the same outage and the handler leaves without
  committing.
\<close>

theorem resync_outage_forgets:
  assumes "voice_inv (app s)" and "domain_of_customer cid (app s) = Some v" and "vd_is_active v"
    and "\<forall>n. plan (pbxw s) n = DbUnreachable"
  shows "\<exists>s'. fst (reconcile_voice fusionpbx_client cid now s) = Inr SyncError \<and>
    resync_domain fusionpbx_client cid now s = (Inl unreachable, s') \<and> app s' = app s"
proof -
  have D: "valid_domain (vd_fusionpbx_domain v)"
    using assms(1) domain_of_customer_mem [OF assms(2)]
    by (auto simp: voice_inv_def list_all_iff domain_row_ok_def)
  from reconcile_down [OF assms(2) D] assms(4) obtain s1 where
    s1: "reconcile_voice fusionpbx_client cid now s = (Inr SyncError, s1)"
    and p: "plan (pbxw s1) = plan (pbxw s)" by auto
  from assms(4) p have "on_pbx (c_resync_queues fusionpbx_client (vd_fusionpbx_domain v)) s1 =
      (Inl unreachable, s1\<lparr>pbxw := (pbxw s1)\<lparr>txno := Suc (txno (pbxw s1))\<rparr>\<rparr>)"
    by (simp add: on_pbx_def fusionpbx_client_def resync_queues_def then_act_def bind_act_def
        require_domain_def D reading_def)
  with s1 assms(3) show ?thesis
    by (simp add: resync_domain_def request_def bind_find_step [OF assms(2)])
      (simp add: then_act_def bind_act_def)
qed

theorem resync_outage_forgets_witness:
  "\<exists>s'. fst (reconcile_voice fusionpbx_client ''cust-1'' 10 (sample_sys (\<lambda>_. DbUnreachable))) = Inr SyncError \<and>
    resync_domain fusionpbx_client ''cust-1'' 10 (sample_sys (\<lambda>_. DbUnreachable)) = (Inl unreachable, s') \<and>
    app s' = app (sample_sys (\<lambda>_. DbUnreachable))"
  by (rule resync_outage_forgets [OF _ sample_domain_found])
    (simp_all add: sample_domain_def sample_sys_def sample_inv sample_world_def)

text \<open>
  Feature names of different tenants collide: a conference \<open>b-1\<close> of \<open>c1.local\<close> and a
  conference \<open>1\<close> of the valid domain \<open>c1.local-b\<close> have one dialplan name, so the second
  provisioning overwrites the first one's document.
\<close>

theorem feature_names_collide:
  "feature_dialplan_name ''conference'' ''c1.local'' ''b-1'' = Inr ''kamailio-conference-c1.local-b-1'' \<and>
    feature_dialplan_name ''conference'' ''c1.local-b'' ''1'' = Inr ''kamailio-conference-c1.local-b-1'' \<and>
    map dp_xml (t_dialplans (db (snd (then_act (create_conference ''c1.local'' ''b-1'')
        (create_conference ''c1.local-b'' ''1'') (sample_world always_up))))) =
      [Some (conference_xml ''c1.local-b'' ''1'')]"
proof (intro conjI)
  have v: "valid_domain ''c1.local''" "valid_domain ''c1.local-b''" "valid_token ''b-1''" "valid_token ''1''"
    by code_simp+
  then show "feature_dialplan_name ''conference'' ''c1.local'' ''b-1'' = Inr ''kamailio-conference-c1.local-b-1''"
    "feature_dialplan_name ''conference'' ''c1.local-b'' ''1'' = Inr ''kamailio-conference-c1.local-b-1''"
    by (simp_all add: feature_dialplan_name_def require_domain_def require_dial_token_def dialplan_name_def)
  show "map dp_xml (t_dialplans (db (snd (then_act (create_conference ''c1.local'' ''b-1'')
        (create_conference ''c1.local-b'' ''1'') (sample_world always_up))))) =
      [Some (conference_xml ''c1.local-b'' ''1'')]"
    by code_simp
qed

end
