(* ===== verification/PbxDocuments.thy ===== *)
theory PbxDocuments
  imports PbxDialplan
begin

text \<open>
  The XML documents of \<^verbatim>\<open>app/services/fusionpbx/client.py\<close>: no text that comes from a customer can
  add markup to one. The documents are read by FreeSWITCH, so what matters is that a document has
  exactly the tags and attributes of its template, whatever the numbers, members, menu targets and
  greeting are.
\<close>

section \<open>Counting markup\<close>

text \<open>How many tags a document opens and closes, and how many quotes delimit its attributes.\<close>

definition markup :: "string \<Rightarrow> nat \<times> nat \<times> nat" where
  "markup s = (count_list s (CHR 0x3C), count_list s (CHR 0x3E), count_list s (CHR 0x22))"

lemma markup_plain: "attr_safe s \<Longrightarrow> markup s = (0, 0, 0)"
  by (simp add: markup_def attr_safe_def count_list_0_iff)

definition add_markup :: "nat \<times> nat \<times> nat \<Rightarrow> nat \<times> nat \<times> nat \<Rightarrow> nat \<times> nat \<times> nat" where
  "add_markup a b = (fst a + fst b, fst (snd a) + fst (snd b), snd (snd a) + snd (snd b))"

lemma markup_append: "markup (s @ t) = add_markup (markup s) (markup t)"
  by (simp add: markup_def add_markup_def)

lemma markup_join_Cons: "markup (join nl (x # y # ys)) = add_markup (markup x) (markup (join nl (y # ys)))"
  by (simp add: markup_def add_markup_def)

lemma safe_chars:
  assumes "list_all ok s" and "\<And>c. ok c \<Longrightarrow> c \<noteq> CHR 0x22 \<and> c \<noteq> CHR 0x3C \<and> c \<noteq> CHR 0x3E"
  shows "attr_safe s"
  using assms by (fastforce simp: attr_safe_def list_all_iff)

lemma safe_token: "valid_token s \<Longrightarrow> attr_safe s"
  unfolding valid_token_def
  by (elim conjE, rule safe_chars, assumption) (auto simp: dial_char_def alnum_char_def upper_char_def lower_char_def digit_char_def)

lemma safe_digit: "valid_ivr_digit s \<Longrightarrow> attr_safe s"
  unfolding valid_ivr_digit_def by (elim conjE, rule safe_chars, assumption) auto

lemma safe_domain:
  assumes "valid_domain s"
  shows "attr_safe s"
proof -
  have label: "list_all label_char l" if "l \<in> set (split_on (CHR ''.'') s)" for l
    using assms that by (auto simp: valid_domain_def valid_label_def list_all_iff)
  have "label_char c \<or> c = CHR ''.''" if "c \<in> set s" for c
    using that set_chars_split_on [of s "CHR ''.''"] label by (auto simp: list_all_iff)
  then have "list_all (\<lambda>c. label_char c \<or> c = CHR ''.'') s" by (simp add: list_all_iff)
  then show ?thesis
    by (rule safe_chars) (auto simp: label_char_def alnum_char_def upper_char_def lower_char_def digit_char_def)
qed

lemma safe_re_escape: "attr_safe s \<Longrightarrow> attr_safe (re_escape s)"
  using set_re_escape [of s] by (auto simp: attr_safe_def)

lemma safe_int: "attr_safe (int_str i)"
proof -
  have "list_all digit_char (nat_str n)" for n using nat_str_digits [of n] by (auto simp: list_all_iff)
  then have "attr_safe (nat_str n)" for n
    by (rule safe_chars) (auto simp: digit_char_def)
  then show ?thesis by (simp add: int_str_def) (simp add: attr_safe_def)
qed

lemma safe_concat: "list_all attr_safe xs \<Longrightarrow> attr_safe (concat xs)"
  by (induction xs) (simp_all, simp add: attr_safe_def)

lemma safe_ivr_regex:
  assumes "list_all (\<lambda>i. valid_ivr_digit (fst i)) opts"
  shows "attr_safe (ivr_regex opts)"
proof -
  have "attr_safe (concat (map fst (ivr_items opts)))"
    by (rule safe_concat) (use assms safe_digit in \<open>auto simp: list_all_iff ivr_items_def\<close>)
  then show ?thesis by (simp add: ivr_regex_def) (simp add: attr_safe_def)
qed

lemmas safe_facts = safe_re_escape safe_int attr_safe_html_escape safe_ivr_regex

lemma attr_safe_Cons [simp]:
  "attr_safe (c # s) \<longleftrightarrow> c \<noteq> CHR 0x22 \<and> c \<noteq> CHR 0x3C \<and> c \<noteq> CHR 0x3E \<and> attr_safe s"
  "attr_safe []"
  by (auto simp: attr_safe_def)

lemma count_safe:
  "attr_safe s \<Longrightarrow> count_list s (CHR 0x3C) = 0"
  "attr_safe s \<Longrightarrow> count_list s (CHR 0x3E) = 0"
  "attr_safe s \<Longrightarrow> count_list s (CHR 0x22) = 0"
  by (simp_all add: attr_safe_def count_list_0_iff)

text \<open>Every line of a document has one tag and two quotes for each attribute.\<close>

lemma markup_lines:
  "attr_safe a \<Longrightarrow> markup (action_line a) = (1, 1, 2)"
  "attr_safe a \<Longrightarrow> attr_safe v \<Longrightarrow> markup (action_data a v) = (1, 1, 4)"
  "attr_safe f \<Longrightarrow> attr_safe e \<Longrightarrow> markup (condition_line f e b) = (1, 1, 4)"
  "attr_safe n \<Longrightarrow> markup (extension_open n) = (1, 1, 4)"
  "markup ''  </condition>'' = (1, 1, 0)"
  "markup ''</extension>'' = (1, 1, 0)"
  by (simp_all add: action_line_def action_data_def condition_line_def extension_open_def xml_attr_def
      markup_def count_safe)

lemma markup_head:
  assumes "valid_domain D" and "valid_token n"
  shows "map markup (feature_head name D n) = [(1, 1, 4), (1, 1, 4), (1, 1, 4), (1, 1, 4)]"
proof -
  have "attr_safe (domain_match D)" "attr_safe (''^('' @ re_escape n @ '')$'')"
    using safe_re_escape [OF safe_domain [OF assms(1)]] safe_re_escape [OF safe_token [OF assms(2)]]
    by (simp_all add: domain_match_def)
  moreover have "attr_safe ''${network_addr}''" "attr_safe ''${sip_req_host}''" "attr_safe ''destination_number''"
    "attr_safe from_kamailio"
    by (simp_all add: attr_safe_def from_kamailio_def)
  ultimately show ?thesis
    by (simp add: feature_head_def markup_lines attr_safe_html_escape)
qed

text \<open>The markup of a document is the sum over its lines.\<close>

lemma markup_join: "markup (join nl xs) = foldr add_markup (map markup xs) (0, 0, 0)"
proof (induction xs rule: induct_list012)
  case 1
  show ?case by (simp add: markup_def)
next
  case (2 x)
  show ?case by (simp add: add_markup_def)
next
  case (3 x y zs)
  then show ?case by (simp only: markup_join_Cons list.map foldr.simps comp_apply)
qed

text \<open>
  Property C8. No customer text adds markup: for every valid domain and number and valid menu digits, and
  for every list of members, menu targets, greeting, strategy and timeout, the generated documents have the tags and
  the attribute quotes of their template, no more and no fewer.
\<close>

theorem documents_keep_markup:
  assumes "valid_domain D" and "valid_token n" and "list_all (\<lambda>i. valid_ivr_digit (fst i)) opts"
  shows "markup (conference_xml D n) = (9, 9, 26) \<and>
    markup (ring_group_xml D n ms strategy timeout) = (11, 11, 36) \<and>
    markup (ivr_xml D n opts greeting timeout) = (11, 11, 34) \<and>
    markup (queue_xml D n) = (10, 10, 28)"
proof (intro conjI)
  note head = markup_head [OF assms(1,2)]
  have regex: "attr_safe (ivr_regex opts)"
    by (rule safe_ivr_regex [OF assms(3)])
  note lines = markup_lines attr_safe_html_escape safe_int regex
  show "markup (conference_xml D n) = (9, 9, 26)"
    by (simp only: conference_xml_def markup_join map_append foldr_append head)
      (simp add: document_end_def lines add_markup_def)
  show "markup (ring_group_xml D n ms strategy timeout) = (11, 11, 36)"
    by (simp only: ring_group_xml_def markup_join map_append foldr_append head)
      (simp add: document_end_def lines add_markup_def)
  show "markup (ivr_xml D n opts greeting timeout) = (11, 11, 34)"
    by (simp only: ivr_xml_def markup_join map_append foldr_append head)
      (simp add: document_end_def lines add_markup_def)
  show "markup (queue_xml D n) = (10, 10, 28)"
    by (simp only: queue_xml_def markup_join map_append foldr_append head)
      (simp add: document_end_def lines add_markup_def)
qed

theorem documents_keep_markup_witness:
  "markup (conference_xml ''c1.local'' ''3001'') = (9, 9, 26) \<and>
    markup (ring_group_xml ''c1.local'' ''3001'' [dq @ ''/><action''] ''sequence'' 20) = (11, 11, 36) \<and>
    markup (ivr_xml ''c1.local'' ''3001'' [(''1'', ''<'')] (dq @ ''/><action'') 20) = (11, 11, 34) \<and>
    markup (queue_xml ''c1.local'' ''3001'') = (10, 10, 28)"
proof (rule documents_keep_markup)
  show "valid_domain ''c1.local''" by code_simp
  show "valid_token ''3001''" by code_simp
  have "valid_ivr_digit ''1''" by code_simp
  then show "list_all (\<lambda>i. valid_ivr_digit (fst i)) [(''1'', ''<'')]" by simp
qed

end
