(* ===== verification/Fraud.thy ===== *)
theory Fraud
  imports PyText
begin

text \<open>
  Click-to-dial: the fraud policy of \<^verbatim>\<open>app/services/routing/fraud.py\<close>
  (\<open>normalize\<close>, \<open>classify_destination\<close>, \<open>check_dial\<close>), the originate command of
  \<^verbatim>\<open>app/services/freeswitch/esl.py\<close> and the endpoint of \<^verbatim>\<open>app/api/calls.py\<close>
  (\<open>dial\<close>). The state of the endpoint is the list of commands sent to FreeSWITCH.
\<close>

section \<open>The policy\<close>

record dial_policy =
  allowed_destinations :: "string list option"
  allow_international :: bool
  blocked_prefixes :: "string list"
  domestic_cc :: string

datatype classification = Internal | Support | Domestic | International | Invalid

datatype dial_reason =
  ReasonOk | NotInAllowlist | InvalidDestination | BlockedPrefix | InternationalBlocked

record dial_decision =
  allowed :: bool
  reason :: dial_reason
  dest_class :: classification

datatype number_kind = Intl | National

text \<open>\<^verbatim>\<open>_normalize\<close>\<close>

definition normalize :: "string \<Rightarrow> number_kind \<times> string" where
  "normalize destination =
     (let s = strip destination;
          has_plus = starts_with s ''+'';
          digits = only_digits s
      in if has_plus then (Intl, digits)
         else if starts_with digits ''00'' then (Intl, drop 2 digits)
         else (National, digits))"

definition support_names :: "string list" where
  "support_names = [''support'']"

definition classify_destination :: "string \<Rightarrow> string \<Rightarrow> classification" where
  "classify_destination cc destination =
     (if strip destination \<in> set support_names then Support
      else (case normalize destination of (kind, digits) \<Rightarrow>
        if digits = [] then Invalid
        else if kind = Intl then (if starts_with digits cc then Domestic else International)
        else if length digits \<le> 6 then Internal else Domestic))"

definition check_dial :: "string \<Rightarrow> dial_policy \<Rightarrow> dial_decision" where
  "check_dial destination policy =
     (let cls = classify_destination (domestic_cc policy) destination in
      if (case allowed_destinations policy of None \<Rightarrow> False
          | Some ds \<Rightarrow> strip destination \<notin> set ds)
      then \<lparr>allowed = False, reason = NotInAllowlist, dest_class = cls\<rparr>
      else if cls = Invalid
      then \<lparr>allowed = False, reason = InvalidDestination, dest_class = cls\<rparr>
      else if (\<exists>p\<in>set (blocked_prefixes policy). starts_with (snd (normalize destination)) p)
      then \<lparr>allowed = False, reason = BlockedPrefix, dest_class = cls\<rparr>
      else if cls = International \<and> \<not> allow_international policy
      then \<lparr>allowed = False, reason = InternationalBlocked, dest_class = cls\<rparr>
      else \<lparr>allowed = True, reason = ReasonOk, dest_class = cls\<rparr>)"

section \<open>The endpoint\<close>

text \<open>\<^verbatim>\<open>build_originate_command\<close>\<close>

definition build_originate_command :: "string \<Rightarrow> string \<Rightarrow> string \<Rightarrow> string \<Rightarrow> string" where
  "build_originate_command agent_ext number sip_domain caller_id =
     (let vars_block = (if caller_id \<noteq> []
                        then ''{origination_caller_id_number='' @ caller_id @ ''}''
                        else [])
      in ''bgapi originate '' @ vars_block @ ''user/'' @ agent_ext @ ''@'' @ sip_domain @ '' ''
         @ number @ '' XML default'')"

record dial_request =
  agent_extension :: string
  destination :: string
  dial_domain :: string
  caller_id_number :: string
  req_allow_international :: bool
  req_allowed_destinations :: "string list option"
  req_blocked_prefixes :: "string list"

text \<open>The field constraints of \<^verbatim>\<open>DialRequest\<close>; a body that breaks one is answered 422.\<close>

definition agent_char :: "char \<Rightarrow> bool" where
  "agent_char c \<longleftrightarrow> alnum_char c \<or> c \<in> set ''_.-''"

definition destination_char :: "char \<Rightarrow> bool" where
  "destination_char c \<longleftrightarrow> alnum_char c \<or> c \<in> set ''+*#_.-''"

definition sip_domain_char :: "char \<Rightarrow> bool" where
  "sip_domain_char c \<longleftrightarrow> alnum_char c \<or> c \<in> set ''.-''"

definition caller_id_char :: "char \<Rightarrow> bool" where
  "caller_id_char c \<longleftrightarrow> digit_char c \<or> c = CHR ''+''"

definition dial_request_valid :: "dial_request \<Rightarrow> bool" where
  "dial_request_valid r \<longleftrightarrow>
     1 \<le> length (agent_extension r) \<and> length (agent_extension r) \<le> 64 \<and>
     list_all agent_char (agent_extension r) \<and>
     1 \<le> length (destination r) \<and> length (destination r) \<le> 64 \<and>
     list_all destination_char (destination r) \<and>
     1 \<le> length (dial_domain r) \<and> length (dial_domain r) \<le> 255 \<and>
     list_all sip_domain_char (dial_domain r) \<and>
     length (caller_id_number r) \<le> 32 \<and>
     list_all caller_id_char (caller_id_number r)"

text \<open>\<^verbatim>\<open>_strip_formatting\<close>: \<^verbatim>\<open>re.sub(r"[\s\-()]", "", number)\<close>\<close>

definition strip_formatting :: "string \<Rightarrow> string" where
  "strip_formatting number = filter (\<lambda>c. \<not> (space_char c \<or> c \<in> set ''-()'')) number"

definition request_policy :: "dial_request \<Rightarrow> dial_policy" where
  "request_policy r = \<lparr>allowed_destinations = req_allowed_destinations r,
     allow_international = req_allow_international r,
     blocked_prefixes = req_blocked_prefixes r, domestic_cc = ''234''\<rparr>"

fun reason_str :: "dial_reason \<Rightarrow> string" where
  "reason_str ReasonOk = ''ok''"
| "reason_str NotInAllowlist = ''not_in_allowlist''"
| "reason_str InvalidDestination = ''invalid_destination''"
| "reason_str BlockedPrefix = ''blocked_prefix''"
| "reason_str InternationalBlocked = ''international_blocked''"

definition dial :: "dial_request \<Rightarrow> (string list, classification) act" where
  "dial r = (\<lambda>sent.
     if \<not> dial_request_valid r then (Inl (HttpError 422 ''validation''), sent)
     else (let clean_destination = strip_formatting (destination r);
               decision = check_dial (destination r) (request_policy r)
           in if \<not> allowed decision
              then (Inl (HttpError 403 (reason_str (reason decision))), sent)
              else (Inr (dest_class decision),
                    sent @ [build_originate_command (agent_extension r) clean_destination
                              (dial_domain r) (caller_id_number r)])))"

section \<open>Lemmas\<close>

lemma check_dial_class [simp]:
  "dest_class (check_dial d p) = classify_destination (domestic_cc p) d"
  by (simp add: check_dial_def Let_def)

lemma strip_no_space: "list_all (\<lambda>c. \<not> space_char c) s \<Longrightarrow> strip s = s"
proof -
  assume a: "list_all (\<lambda>c. \<not> space_char c) s"
  then have 1: "dropWhile space_char s = s"
    by (cases s) auto
  from a have 2: "dropWhile space_char (rev s) = rev s"
    by (cases s rule: rev_cases) auto
  from 1 2 show ?thesis by (simp add: strip_def lstrip_def)
qed

lemma destination_char_not_space: "destination_char c \<Longrightarrow> \<not> space_char c"
  by (auto simp: destination_char_def alnum_char_def upper_char_def lower_char_def digit_char_def
      space_char_def Let_def)

lemma valid_destination_strip: "dial_request_valid r \<Longrightarrow> strip (destination r) = destination r"
  by (rule strip_no_space)
    (auto simp: dial_request_valid_def list_all_iff dest: destination_char_not_space)

lemma not_char [simp]:
  "\<not> agent_char (CHR '' '')" "\<not> destination_char (CHR '' '')"
  "\<not> sip_domain_char (CHR '' '')" "\<not> caller_id_char (CHR '' '')"
  "\<not> sip_domain_char (CHR ''@'')" "\<not> agent_char (CHR ''@'')"
  by (simp_all add: agent_char_def destination_char_def sip_domain_char_def caller_id_char_def
      alnum_char_def upper_char_def lower_char_def digit_char_def)

lemma only_digits_formatting: "only_digits (strip_formatting s) = only_digits s"
  unfolding only_digits_def strip_formatting_def filter_filter
  by (rule filter_cong) (auto simp: digit_char_def space_char_def Let_def)

lemma list_all_free: "list_all P s \<Longrightarrow> \<not> P c \<Longrightarrow> c \<notin> set s"
  by (auto simp: list_all_iff)

text \<open>What the endpoint returns and sends, in one equation.\<close>

lemma dial_unfold:
  "dial r sent =
     (if \<not> dial_request_valid r then (Inl (HttpError 422 ''validation''), sent)
      else if allowed (check_dial (destination r) (request_policy r))
      then (Inr (classify_destination ''234'' (destination r)),
            sent @ [build_originate_command (agent_extension r)
              (strip_formatting (destination r)) (dial_domain r) (caller_id_number r)])
      else (Inl (HttpError 403
              (reason_str (reason (check_dial (destination r) (request_policy r))))), sent))"
  by (simp add: dial_def Let_def request_policy_def)

lemma allowed_international:
  assumes "allowed (check_dial d p)" and "\<not> allow_international p"
  shows "classify_destination (domestic_cc p) d \<noteq> International"
  using assms by (auto simp: check_dial_def Let_def split: if_splits)

lemma allowed_valid: "allowed (check_dial d p) \<Longrightarrow> classify_destination (domestic_cc p) d \<noteq> Invalid"
  by (auto simp: check_dial_def Let_def split: if_splits)

lemma prefix_conflict: "starts_with s ''234'' \<Longrightarrow> \<not> starts_with s ''00''"
  by (auto simp: starts_with_iff)

lemma strip_formatting_plus:
  assumes "starts_with (strip_formatting s) ''+''" and "s = c # t" and "c \<noteq> CHR ''-''"
    and "destination_char c"
  shows "c = CHR ''+''"
  using assms destination_char_not_space [of c]
  by (auto simp: strip_formatting_def starts_with_iff destination_char_def alnum_char_def
      upper_char_def lower_char_def digit_char_def split: if_splits)

section \<open>Properties\<close>

text \<open>
  The policy allows a destination exactly when it is in the allow-list (where one
  is given), has digits or is the support name, no blocked prefix starts its normalised digits,
  and it is not international unless the policy allows that; and the reason is \<open>ok\<close>
  exactly for the allowed ones.
\<close>

theorem check_dial_allows_iff:
  "(allowed (check_dial d p) =
     ((case allowed_destinations p of None \<Rightarrow> True | Some ds \<Rightarrow> strip d \<in> set ds) \<and>
      classify_destination (domestic_cc p) d \<noteq> Invalid \<and>
      \<not> (\<exists>b \<in> set (blocked_prefixes p). starts_with (snd (normalize d)) b) \<and>
      (if classify_destination (domestic_cc p) d = International
       then allow_international p else True))) \<and>
   ((reason (check_dial d p) = ReasonOk) = allowed (check_dial d p))"
  by (auto simp: check_dial_def Let_def split: option.splits)

text \<open>
  The number behind an international escape as a switch reads it from the number it is given:
  the digits after a leading plus, or after the access code 00.
\<close>

definition escaped_number :: "string \<Rightarrow> string option" where
  "escaped_number n =
     (if starts_with n ''+'' then Some (only_digits n)
      else if starts_with (only_digits n) ''00'' then Some (drop 2 (only_digits n))
      else None)"

lemma support_no_digits: "only_digits ''support'' = []"
  by (simp add: only_digits_def digit_char_def)

text \<open>
  Property C9. The international escape is guarded: when a request without the international
  permission is accepted and its destination does not begin with a dash, the number handed to
  FreeSWITCH carries no international escape (a leading plus or the access code 00), or the
  domestic country code behind it, whatever formatting the destination has. What a number without an escape
  reaches is not decided here: the code takes it for domestic (\<open>bare_international_passes\<close>).
\<close>

theorem dial_international_guard:
  assumes "fst (dial r sent) = Inr cls" and "\<not> req_allow_international r"
    and "hd (destination r) \<noteq> CHR ''-''"
  shows "case escaped_number (strip_formatting (destination r)) of
      None \<Rightarrow> True | Some digits \<Rightarrow> starts_with digits ''234''"
proof -
  let ?d = "destination r"
  from assms(1) have v: "dial_request_valid r"
    and a: "allowed (check_dial ?d (request_policy r))"
    by (auto simp: dial_unfold split: if_splits)
  from allowed_international [OF a] assms(2) allowed_valid [OF a]
  have c: "classify_destination ''234'' ?d \<noteq> International" "classify_destination ''234'' ?d \<noteq> Invalid"
    by (simp_all add: request_policy_def)
  from v obtain x t where xt: "?d = x # t" and dx: "destination_char x"
    by (cases ?d) (auto simp: dial_request_valid_def)
  have plus: "starts_with ?d ''+''" if "starts_with (strip_formatting ?d) ''+''"
    using strip_formatting_plus [OF that xt _ dx] assms(3) xt by simp
  show ?thesis
  proof (cases "?d = ''support''")
    case True
    then show ?thesis
      by (simp add: escaped_number_def only_digits_formatting support_no_digits)
         (simp add: strip_formatting_def space_char_def)
  next
    case False
    with c valid_destination_strip [OF v] plus show ?thesis
      by (auto simp: escaped_number_def only_digits_formatting classify_destination_def
          support_names_def normalize_def Let_def split: if_splits dest: prefix_conflict)
  qed
qed

definition sample_call :: dial_request where
  "sample_call = \<lparr>agent_extension = ''1001'', destination = ''+2348012345678'',
     dial_domain = ''c1.local'', caller_id_number = ''100'', req_allow_international = False,
     req_allowed_destinations = None, req_blocked_prefixes = [''234900'']\<rparr>"

lemma sample_call_accepted: "fst (dial sample_call []) = Inr Domestic"
  by code_simp

theorem dial_international_guard_witness:
  "case escaped_number (strip_formatting (destination sample_call)) of
      None \<Rightarrow> True | Some digits \<Rightarrow> starts_with digits ''234''"
  by (rule dial_international_guard [OF sample_call_accepted]) (simp_all add: sample_call_def)

text \<open>A foreign number written without an escape is classified as domestic and dialled as it is.\<close>

theorem bare_international_passes:
  "dial (sample_call \<lparr>destination := ''442079460958''\<rparr>) [] =
     (Inr Domestic,
      [''bgapi originate {origination_caller_id_number=100}user/1001@c1.local 442079460958 XML default''])"
  by code_simp

text \<open>
  The restriction on the leading dash is needed, and the code has no such check:
  the destination \<^verbatim>\<open>-+442079460958\<close> is classified as domestic, is accepted without the
  international permission, and the dash is removed from the number that is dialled.
\<close>

definition dash_call :: dial_request where
  "dash_call = sample_call \<lparr>destination := ''-+442079460958''\<rparr>"

theorem dial_dash_bypass:
  "dial dash_call [] =
     (Inr Domestic,
      [''bgapi originate {origination_caller_id_number=100}user/1001@c1.local +442079460958 XML default'']) \<and>
   dial (dash_call \<lparr>destination := ''+442079460958''\<rparr>) [] =
     (Inl (HttpError 403 ''international_blocked''), [])"
  by code_simp

text \<open>
  What the endpoint sends: nothing when the request is malformed or the policy
  denies it; otherwise one command, whose words are the six of the template whatever the
  fields hold, so no field can add a word or a second command.
\<close>

theorem dial_sends_one_command:
  "snd (dial r sent) = sent @
     (if dial_request_valid r then
        if allowed (check_dial (destination r) (request_policy r))
        then [build_originate_command (agent_extension r) (strip_formatting (destination r))
                (dial_domain r) (caller_id_number r)]
        else []
      else []) \<and>
   (if dial_request_valid r then
      split_on (CHR '' '') (build_originate_command (agent_extension r)
          (strip_formatting (destination r)) (dial_domain r) (caller_id_number r)) =
        [''bgapi'', ''originate'',
         (if caller_id_number r \<noteq> []
          then ''{origination_caller_id_number='' @ caller_id_number r @ ''}'' else []) @
         ''user/'' @ agent_extension r @ ''@'' @ dial_domain r,
         strip_formatting (destination r), ''XML'', ''default'']
    else True)"
proof (rule conjI)
  show "snd (dial r sent) = sent @
     (if dial_request_valid r then
        if allowed (check_dial (destination r) (request_policy r))
        then [build_originate_command (agent_extension r) (strip_formatting (destination r))
                (dial_domain r) (caller_id_number r)]
        else []
      else [])"
    by (simp add: dial_unfold)
next
  show "if dial_request_valid r then
      split_on (CHR '' '') (build_originate_command (agent_extension r)
          (strip_formatting (destination r)) (dial_domain r) (caller_id_number r)) =
        [''bgapi'', ''originate'',
         (if caller_id_number r \<noteq> []
          then ''{origination_caller_id_number='' @ caller_id_number r @ ''}'' else []) @
         ''user/'' @ agent_extension r @ ''@'' @ dial_domain r,
         strip_formatting (destination r), ''XML'', ''default'']
    else True"
  proof (cases "dial_request_valid r")
    case True
    have f: "CHR '' '' \<notin> set (agent_extension r)" "CHR '' '' \<notin> set (destination r)"
      "CHR '' '' \<notin> set (dial_domain r)" "CHR '' '' \<notin> set (caller_id_number r)"
      using True list_all_free by (fastforce simp: dial_request_valid_def)+
    then have g: "CHR '' '' \<notin> set (strip_formatting (destination r))"
      by (simp add: strip_formatting_def)
    have t: "split_on (CHR '' '') (p @ '' '' @ n @ '' XML default'') = [p, n, ''XML'', ''default'']"
      if "CHR '' '' \<notin> set p" "CHR '' '' \<notin> set n" for p n
      using that split_on_append [of "CHR '' ''" p] split_on_append [of "CHR '' ''" n] by simp
    show ?thesis
      using True f t [OF _ g, of "(if caller_id_number r \<noteq> []
          then ''{origination_caller_id_number='' @ caller_id_number r @ ''}'' else []) @
         ''user/'' @ agent_extension r @ ''@'' @ dial_domain r"]
      by (simp add: build_originate_command_def Let_def)
  qed simp
qed

end
