(* ===== verification/AuthModel.thy ===== *)
theory AuthModel
  imports PyText
begin

text \<open>
  The state of authentication: the tables of \<^verbatim>\<open>app/models/auth.py\<close>, \<^verbatim>\<open>app/models/rbac.py\<close>,
  \<^verbatim>\<open>app/models/domain_settings.py\<close> as far as the auth code reads and writes them, and the
  configuration and token functions at the top of \<^verbatim>\<open>app/services/auth_flow.py\<close> and in
  \<^verbatim>\<open>app/services/secrets.py\<close>.

  What comes from packages (passlib, hmac and hashlib, python-jose, pyotp, Fernet, the HTTP
  request to OpenBao) is a record \<open>crypto\<close> of functions, a parameter of every operation that
  uses it. Keys are numbers; \<^verbatim>\<open>str(uuid)\<close> followed by \<^verbatim>\<open>coerce_uuid\<close> is the identity on
  them. An instant is a whole number of seconds, and a request reads one.
\<close>

section \<open>Tables\<close>

datatype auth_provider = Local | Sso

datatype mfa_type = Totp | Sms | EmailCode

datatype session_status = Active | Expired | Revoked

record credential =
  u_id :: nat
  u_person :: nat
  u_provider :: auth_provider
  u_username :: "string option"
  u_hash :: "string option"
  u_must_change :: bool
  u_changed_at :: "int option"
  u_failed :: int
  u_locked :: "int option"
  u_last_login :: "int option"
  u_active :: bool

record mfa_method =
  m_id :: nat
  m_person :: nat
  m_type :: mfa_type
  m_label :: "string option"
  m_secret :: "string option"
  m_primary :: bool
  m_enabled :: bool
  m_active :: bool
  m_verified :: "int option"
  m_used :: "int option"
  m_counter :: "int option"

record auth_session =
  s_id :: nat
  s_person :: nat
  s_status :: session_status
  s_hash :: string
  s_prev :: "string option"
  s_rotated :: "int option"
  s_ip :: "string option"
  s_agent :: "string option"
  s_created :: int
  s_seen :: "int option"
  s_expires :: int
  s_revoked :: "int option"

record api_key =
  k_id :: nat
  k_person :: "nat option"
  k_hash :: string
  k_active :: bool
  k_expires :: "int option"
  k_revoked :: "int option"

record person =
  p_id :: nat
  p_email :: string
  p_first :: string
  p_display :: "string option"

record role =
  r_id :: nat
  r_name :: string
  r_active :: bool

record permission =
  pm_id :: nat
  pm_key :: string
  pm_active :: bool

record person_role =
  pr_person :: nat
  pr_role :: nat

record role_permission =
  rp_role :: nat
  rp_permission :: nat

datatype setting_domain = AuthDomain | AuditDomain | SchedulerDomain | BillingDomain | BrandingDomain

text \<open>\<open>st_json\<close> is the text \<^verbatim>\<open>str(value_json)\<close>.\<close>

record domain_setting =
  st_domain :: setting_domain
  st_key :: string
  st_text :: "string option"
  st_json :: "string option"
  st_active :: bool

record auth_db =
  c_credentials :: "credential list"
  c_mfa :: "mfa_method list"
  c_sessions :: "auth_session list"
  c_api_keys :: "api_key list"
  c_people :: "person list"
  c_roles :: "role list"
  c_permissions :: "permission list"
  c_person_roles :: "person_role list"
  c_role_permissions :: "role_permission list"
  c_settings :: "domain_setting list"
  c_next :: nat

text \<open>The state of a request: the session's view of the tables, and how many secrets were drawn.\<close>

record auth_sys =
  adb :: auth_db
  draws :: nat

section \<open>The packages\<close>

record claims =
  cl_sub :: "nat option"
  cl_session :: "nat option"
  cl_typ :: "string option"
  cl_email :: "string option"
  cl_iat :: int
  cl_exp :: int
  cl_roles :: "string list"
  cl_scopes :: "string list"

record crypto =
  cr_password_ok :: "string \<Rightarrow> string \<Rightarrow> bool"
  cr_hash_password :: "string \<Rightarrow> string"
  cr_hmac :: "string \<Rightarrow> string \<Rightarrow> string"
  cr_sha256 :: "string \<Rightarrow> string"
  cr_encode :: "string \<Rightarrow> string \<Rightarrow> claims \<Rightarrow> string"
  cr_decode :: "string \<Rightarrow> string \<Rightarrow> int \<Rightarrow> string \<Rightarrow> claims option"
  cr_totp_ok :: "string \<Rightarrow> int \<Rightarrow> string \<Rightarrow> bool"
  cr_timecode :: "int \<Rightarrow> int"
  cr_otp_uri :: "string \<Rightarrow> string \<Rightarrow> string \<Rightarrow> string"
  cr_key_ok :: "string \<Rightarrow> bool"
  cr_encrypt :: "string \<Rightarrow> string \<Rightarrow> string"
  cr_decrypt :: "string \<Rightarrow> string \<Rightarrow> string option"
  cr_openbao :: "string \<Rightarrow> string res"

text \<open>What a process has besides its tables: the environment, the packages, a source of secrets.\<close>

record auth_ctx =
  x_env :: "string \<Rightarrow> string option"
  x_crypto :: crypto
  x_random :: "nat \<Rightarrow> string"

text \<open>What the code reads of a request.\<close>

record http_request =
  q_client :: "string option"
  q_user_agent :: "string option"
  q_cookies :: "string \<Rightarrow> string option"

section \<open>Configuration\<close>

definition env_value :: "auth_ctx \<Rightarrow> string \<Rightarrow> string option" where
  "env_value x name = py_or (x_env x name) None"

definition env_int :: "auth_ctx \<Rightarrow> string \<Rightarrow> int option" where
  "env_int x name = (case env_value x name of None \<Rightarrow> None | Some raw \<Rightarrow> py_int raw)"

definition truncate_user_agent :: "string option \<Rightarrow> string option" where
  "truncate_user_agent value = map_option (take 512) value"

definition setting_value :: "auth_db \<Rightarrow> string \<Rightarrow> string option" where
  "setting_value a key =
     (case first_where (\<lambda>r. st_domain r = AuthDomain \<and> st_key r = key \<and> st_active r) (c_settings a) of
        None \<Rightarrow> None
      | Some r \<Rightarrow> py_or (st_text r) (st_json r))"

definition config :: "auth_ctx \<Rightarrow> auth_db \<Rightarrow> string \<Rightarrow> string \<Rightarrow> string option" where
  "config x a name key = py_or (env_value x name) (setting_value a key)"

text \<open>\<^verbatim>\<open>is_openbao_ref\<close> and \<^verbatim>\<open>resolve_secret\<close>\<close>

definition is_openbao_ref :: "string \<Rightarrow> bool" where
  "is_openbao_ref s \<longleftrightarrow> starts_with s ''bao://'' \<or> starts_with s ''openbao://'' \<or> starts_with s ''vault://''"

definition resolve_secret :: "auth_ctx \<Rightarrow> string option \<Rightarrow> string option res" where
  "resolve_secret x v =
     (case py_or v None of
        None \<Rightarrow> Inr v
      | Some s \<Rightarrow> if is_openbao_ref s then bind_res (cr_openbao (x_crypto x) s) (\<lambda>t. Inr (Some t))
                  else Inr v)"

text \<open>A secret that must be there: \<^verbatim>\<open>resolve_secret\<close> and the 500 when it is missing or empty.\<close>

definition needed_secret :: "auth_ctx \<Rightarrow> string option \<Rightarrow> string \<Rightarrow> string res" where
  "needed_secret x v missing =
     bind_res (resolve_secret x v) (\<lambda>s.
       case py_or s None of None \<Rightarrow> Inl (HttpError 500 missing) | Some t \<Rightarrow> Inr t)"

definition jwt_secret :: "auth_ctx \<Rightarrow> auth_db \<Rightarrow> string res" where
  "jwt_secret x a = needed_secret x (config x a ''JWT_SECRET'' ''jwt_secret'') ''JWT secret not configured''"

definition with_default :: "string option \<Rightarrow> string \<Rightarrow> string" where
  "with_default v d = (case py_or v None of None \<Rightarrow> d | Some s \<Rightarrow> s)"

definition jwt_algorithm :: "auth_ctx \<Rightarrow> auth_db \<Rightarrow> string" where
  "jwt_algorithm x a = with_default (config x a ''JWT_ALGORITHM'' ''jwt_algorithm'') ''HS256''"

text \<open>The three durations: an integer of the environment, else the setting, else the default.\<close>

definition int_config :: "auth_ctx \<Rightarrow> auth_db \<Rightarrow> string \<Rightarrow> string \<Rightarrow> int \<Rightarrow> int" where
  "int_config x a name key d =
     (case env_int x name of
        Some n \<Rightarrow> n
      | None \<Rightarrow> (case setting_value a key of
                    None \<Rightarrow> d
                  | Some v \<Rightarrow> (case py_int v of None \<Rightarrow> d | Some n \<Rightarrow> n)))"

definition access_ttl_minutes :: "auth_ctx \<Rightarrow> auth_db \<Rightarrow> int" where
  "access_ttl_minutes x a = int_config x a ''JWT_ACCESS_TTL_MINUTES'' ''jwt_access_ttl_minutes'' 15"

definition refresh_ttl_days :: "auth_ctx \<Rightarrow> auth_db \<Rightarrow> int" where
  "refresh_ttl_days x a = int_config x a ''JWT_REFRESH_TTL_DAYS'' ''jwt_refresh_ttl_days'' 30"

definition password_reset_ttl_minutes :: "auth_ctx \<Rightarrow> auth_db \<Rightarrow> int" where
  "password_reset_ttl_minutes x a =
     int_config x a ''PASSWORD_RESET_TTL_MINUTES'' ''password_reset_ttl_minutes'' 60"

definition totp_issuer :: "auth_ctx \<Rightarrow> auth_db \<Rightarrow> string" where
  "totp_issuer x a = with_default (config x a ''TOTP_ISSUER'' ''totp_issuer'') ''dotmac_voice''"

definition truthy_text :: "string \<Rightarrow> bool" where
  "truthy_text s \<longleftrightarrow> lower_str s \<in> set [''1'', ''true'', ''yes'', ''on'']"

record cookie_settings =
  ck_key :: string
  ck_httponly :: bool
  ck_secure :: bool
  ck_samesite :: string
  ck_domain :: "string option"
  ck_path :: string
  ck_max_age :: int

definition refresh_cookie_name :: "auth_ctx \<Rightarrow> auth_db \<Rightarrow> string" where
  "refresh_cookie_name x a = with_default (config x a ''REFRESH_COOKIE_NAME'' ''refresh_cookie_name'') ''refresh_token''"

definition refresh_cookie_secure :: "auth_ctx \<Rightarrow> auth_db \<Rightarrow> bool" where
  "refresh_cookie_secure x a =
     (case env_value x ''REFRESH_COOKIE_SECURE'' of
        Some v \<Rightarrow> truthy_text v
      | None \<Rightarrow> (case setting_value a ''refresh_cookie_secure'' of None \<Rightarrow> True | Some v \<Rightarrow> truthy_text v))"

definition refresh_cookie_settings :: "auth_ctx \<Rightarrow> auth_db \<Rightarrow> cookie_settings" where
  "refresh_cookie_settings x a =
     \<lparr>ck_key = refresh_cookie_name x a,
      ck_httponly = True,
      ck_secure = refresh_cookie_secure x a,
      ck_samesite = with_default (config x a ''REFRESH_COOKIE_SAMESITE'' ''refresh_cookie_samesite'') ''lax'',
      ck_domain = config x a ''REFRESH_COOKIE_DOMAIN'' ''refresh_cookie_domain'',
      ck_path = with_default (config x a ''REFRESH_COOKIE_PATH'' ''refresh_cookie_path'') ''/'',
      ck_max_age = refresh_ttl_days x a * 24 * 60 * 60\<rparr>"

section \<open>Secrets and tokens\<close>

definition mfa_key :: "auth_ctx \<Rightarrow> auth_db \<Rightarrow> string res" where
  "mfa_key x a = needed_secret x (config x a ''TOTP_ENCRYPTION_KEY'' ''totp_encryption_key'')
     ''TOTP encryption key not configured''"

text \<open>\<^verbatim>\<open>_fernet\<close>: the key, checked as \<^verbatim>\<open>Fernet(key)\<close> does.\<close>

definition fernet :: "auth_ctx \<Rightarrow> auth_db \<Rightarrow> string res" where
  "fernet x a = bind_res (mfa_key x a) (\<lambda>k.
     if cr_key_ok (x_crypto x) k then Inr k else Inl (HttpError 500 ''Invalid TOTP encryption key''))"

definition encrypt_secret :: "auth_ctx \<Rightarrow> auth_db \<Rightarrow> string \<Rightarrow> string res" where
  "encrypt_secret x a s = bind_res (fernet x a) (\<lambda>k. Inr (cr_encrypt (x_crypto x) k s))"

definition decrypt_secret :: "auth_ctx \<Rightarrow> auth_db \<Rightarrow> string \<Rightarrow> string res" where
  "decrypt_secret x a s = bind_res (fernet x a) (\<lambda>k.
     case cr_decrypt (x_crypto x) k s of
       None \<Rightarrow> Inl (HttpError 500 ''Invalid MFA secret'')
     | Some t \<Rightarrow> Inr t)"

definition legacy_hash_token :: "auth_ctx \<Rightarrow> string \<Rightarrow> string" where
  "legacy_hash_token x token = cr_sha256 (x_crypto x) token"

definition session_hash_secret :: "auth_ctx \<Rightarrow> auth_db \<Rightarrow> string res" where
  "session_hash_secret x a = needed_secret x
     (py_or (env_value x ''SESSION_TOKEN_HASH_SECRET'')
     (py_or (env_value x ''API_KEY_HASH_SECRET'')
     (py_or (env_value x ''JWT_SECRET'')
     (py_or (env_value x ''SECRET_KEY'')
     (py_or (setting_value a ''session_token_hash_secret'') (setting_value a ''jwt_secret''))))))
     ''Session hash secret not configured''"

definition hash_token :: "auth_ctx \<Rightarrow> auth_db \<Rightarrow> string \<Rightarrow> string res" where
  "hash_token x a token = bind_res (session_hash_secret x a) (\<lambda>s. Inr (cr_hmac (x_crypto x) s token))"

definition hash_candidates :: "auth_ctx \<Rightarrow> auth_db \<Rightarrow> string \<Rightarrow> string list res" where
  "hash_candidates x a token = bind_res (hash_token x a token) (\<lambda>current.
     let legacy = legacy_hash_token x token in
     Inr (if current \<noteq> legacy then [current, legacy] else [current]))"

definition encode_claims :: "auth_ctx \<Rightarrow> auth_db \<Rightarrow> claims \<Rightarrow> string res" where
  "encode_claims x a c = bind_res (jwt_secret x a) (\<lambda>s. Inr (cr_encode (x_crypto x) s (jwt_algorithm x a) c))"

definition access_claims :: "auth_ctx \<Rightarrow> auth_db \<Rightarrow> nat \<Rightarrow> nat \<Rightarrow> string list \<Rightarrow> string list \<Rightarrow> int \<Rightarrow> claims" where
  "access_claims x a person_id session_id roles permissions now =
     \<lparr>cl_sub = Some person_id, cl_session = Some session_id, cl_typ = Some ''access'', cl_email = None,
      cl_iat = now, cl_exp = now + access_ttl_minutes x a * 60, cl_roles = roles, cl_scopes = permissions\<rparr>"

definition mfa_claims :: "nat \<Rightarrow> int \<Rightarrow> claims" where
  "mfa_claims person_id now =
     \<lparr>cl_sub = Some person_id, cl_session = None, cl_typ = Some ''mfa'', cl_email = None,
      cl_iat = now, cl_exp = now + 5 * 60, cl_roles = [], cl_scopes = []\<rparr>"

definition reset_claims :: "auth_ctx \<Rightarrow> auth_db \<Rightarrow> nat \<Rightarrow> string \<Rightarrow> int \<Rightarrow> claims" where
  "reset_claims x a person_id email now =
     \<lparr>cl_sub = Some person_id, cl_session = None, cl_typ = Some ''password_reset'', cl_email = Some email,
      cl_iat = now, cl_exp = now + password_reset_ttl_minutes x a * 60, cl_roles = [], cl_scopes = []\<rparr>"

definition decode_jwt :: "auth_ctx \<Rightarrow> auth_db \<Rightarrow> string \<Rightarrow> string \<Rightarrow> int \<Rightarrow> claims res" where
  "decode_jwt x a token expected now =
     bind_res (jwt_secret x a) (\<lambda>s.
       case cr_decode (x_crypto x) s (jwt_algorithm x a) now token of
         None \<Rightarrow> Inl (HttpError 401 ''Invalid token'')
       | Some c \<Rightarrow> if cl_typ c \<noteq> Some expected then Inl (HttpError 401 ''Invalid token type'') else Inr c)"

definition decode_access_token :: "auth_ctx \<Rightarrow> auth_db \<Rightarrow> string \<Rightarrow> int \<Rightarrow> claims res" where
  "decode_access_token x a token now = decode_jwt x a token ''access'' now"

definition verify_password :: "auth_ctx \<Rightarrow> string \<Rightarrow> string option \<Rightarrow> bool" where
  "verify_password x password h =
     (case py_or h None of None \<Rightarrow> False | Some s \<Rightarrow> cr_password_ok (x_crypto x) password s)"

section \<open>Roles and permissions\<close>

definition roles_of :: "auth_db \<Rightarrow> nat \<Rightarrow> role list" where
  "roles_of a person = concat (map (\<lambda>l. filter (\<lambda>r. r_id r = pr_role l \<and> r_active r) (c_roles a))
     (filter (\<lambda>l. pr_person l = person) (c_person_roles a)))"

definition permissions_of :: "auth_db \<Rightarrow> nat \<Rightarrow> permission list" where
  "permissions_of a person = concat (map (\<lambda>r. concat (map (\<lambda>l.
       filter (\<lambda>p. pm_id p = rp_permission l \<and> pm_active p) (c_permissions a))
     (filter (\<lambda>l. rp_role l = r_id r) (c_role_permissions a)))) (roles_of a person))"

text \<open>\<^verbatim>\<open>_load_rbac_claims\<close>; the keys are the elements of a set, here in the order of the rows.\<close>

definition rbac_claims :: "auth_db \<Rightarrow> nat \<Rightarrow> string list \<times> string list" where
  "rbac_claims a person = (map r_name (roles_of a person), remdups (map pm_key (permissions_of a person)))"

text \<open>\<^verbatim>\<open>_primary_totp_method\<close>\<close>

definition is_primary_totp :: "nat \<Rightarrow> mfa_method \<Rightarrow> bool" where
  "is_primary_totp person m \<longleftrightarrow> m_person m = person \<and> m_type m = Totp \<and> m_active m \<and> m_enabled m \<and> m_primary m"

definition primary_totp_method :: "auth_db \<Rightarrow> nat \<Rightarrow> mfa_method option" where
  "primary_totp_method a person = first_where (is_primary_totp person) (c_mfa a)"

end
