(* ===== verification/AuthFlow.thy ===== *)
theory AuthFlow
  imports AuthModel
begin

text \<open>
  The operations of \<^verbatim>\<open>app/services/auth_flow.py\<close> (\<^verbatim>\<open>class AuthFlow\<close> and the password reset), and
  the handlers of \<^verbatim>\<open>app/api/auth_flow.py\<close> that call them, with what each of them commits. Every
  operation takes the process's context, the request's instant \<open>now\<close> and the arguments of the
  code; an error keeps the changes made to the session's view before it, and the handler decides
  whether they are committed.
\<close>

section \<open>Access to the tables\<close>

type_synonym 'a auth_act = "(auth_sys, 'a) act"

definition query :: "(auth_db \<Rightarrow> 'a) \<Rightarrow> 'a auth_act" where
  "query f = (\<lambda>s. (Inr (f (adb s)), s))"

definition query_res :: "(auth_db \<Rightarrow> 'a res) \<Rightarrow> 'a auth_act" where
  "query_res f = (\<lambda>s. (f (adb s), s))"

definition modify :: "(auth_db \<Rightarrow> auth_db) \<Rightarrow> unit auth_act" where
  "modify f = (\<lambda>s. (Inr (), s\<lparr>adb := f (adb s)\<rparr>))"

definition set_credential :: "nat \<Rightarrow> (credential \<Rightarrow> credential) \<Rightarrow> unit auth_act" where
  "set_credential key f = modify (\<lambda>a. a\<lparr>c_credentials := update_where (\<lambda>r. u_id r = key) f (c_credentials a)\<rparr>)"

definition set_session :: "nat \<Rightarrow> (auth_session \<Rightarrow> auth_session) \<Rightarrow> unit auth_act" where
  "set_session key f = modify (\<lambda>a. a\<lparr>c_sessions := update_where (\<lambda>r. s_id r = key) f (c_sessions a)\<rparr>)"

definition set_mfa :: "nat \<Rightarrow> (mfa_method \<Rightarrow> mfa_method) \<Rightarrow> unit auth_act" where
  "set_mfa key f = modify (\<lambda>a. a\<lparr>c_mfa := update_where (\<lambda>r. m_id r = key) f (c_mfa a)\<rparr>)"

text \<open>\<^verbatim>\<open>secrets.token_urlsafe(48)\<close>, and \<^verbatim>\<open>pyotp.random_base32()\<close>\<close>

definition draw_secret :: "auth_ctx \<Rightarrow> string auth_act" where
  "draw_secret x = (\<lambda>s. (Inr (x_random x (draws s)), s\<lparr>draws := Suc (draws s)\<rparr>))"

definition raise_http :: "nat \<Rightarrow> string \<Rightarrow> 'a auth_act" where
  "raise_http code detail = fail (HttpError code detail)"

definition need :: "'a option \<Rightarrow> nat \<Rightarrow> string \<Rightarrow> 'a auth_act" where
  "need v code detail = (case v of None \<Rightarrow> raise_http code detail | Some a \<Rightarrow> ret a)"

section \<open>Tokens and sessions\<close>

record token_reply =
  tk_mfa_required :: bool
  tk_mfa_token :: "string option"
  tk_access :: "string option"
  tk_refresh :: "string option"

definition tokens :: "string \<Rightarrow> string \<Rightarrow> token_reply" where
  "tokens access refresh_token =
     \<lparr>tk_mfa_required = False, tk_mfa_token = None, tk_access = Some access, tk_refresh = Some refresh_token\<rparr>"

definition insert_session :: "(nat \<Rightarrow> auth_session) \<Rightarrow> nat auth_act" where
  "insert_session row = (\<lambda>s. let key = c_next (adb s) in
     (Inr key, s\<lparr>adb := (adb s)\<lparr>c_sessions := c_sessions (adb s) @ [row key], c_next := Suc key\<rparr>\<rparr>))"

text \<open>The access token of a session with the claims of its person.\<close>

definition issue_access_token :: "auth_ctx \<Rightarrow> nat \<Rightarrow> nat \<Rightarrow> int \<Rightarrow> string auth_act" where
  "issue_access_token x person session_id now = query_res (\<lambda>a.
     case rbac_claims a person of (roles, permissions) \<Rightarrow>
       encode_claims x a (access_claims x a person session_id roles permissions now))"

definition issue_tokens :: "auth_ctx \<Rightarrow> int \<Rightarrow> nat \<Rightarrow> http_request \<Rightarrow> token_reply auth_act" where
  "issue_tokens x now person req =
     bind_act (draw_secret x) (\<lambda>refresh_token.
     bind_act (query (refresh_ttl_days x)) (\<lambda>days.
     bind_act (query_res (\<lambda>a. hash_token x a refresh_token)) (\<lambda>h.
     bind_act (insert_session (\<lambda>key. \<lparr>s_id = key, s_person = person, s_status = Active, s_hash = h,
         s_prev = None, s_rotated = None, s_ip = q_client req,
         s_agent = truncate_user_agent (q_user_agent req), s_created = now, s_seen = Some now,
         s_expires = now + days * 86400, s_revoked = None\<rparr>)) (\<lambda>key.
     bind_act (issue_access_token x person key now) (\<lambda>access.
       ret (tokens access refresh_token))))))"

text \<open>\<^verbatim>\<open>revoke_sessions_for_person\<close>: the number of sessions revoked.\<close>

definition live_session :: "auth_session \<Rightarrow> bool" where
  "live_session r \<longleftrightarrow> s_status r = Active \<and> s_revoked r = None"

definition revoked_at :: "int \<Rightarrow> auth_session \<Rightarrow> auth_session" where
  "revoked_at now r = r\<lparr>s_status := Revoked, s_revoked := Some now\<rparr>"

definition revoke_where :: "(auth_session \<Rightarrow> bool) \<Rightarrow> int \<Rightarrow> nat auth_act" where
  "revoke_where P now =
     bind_act (query (\<lambda>a. rowcount P (c_sessions a))) (\<lambda>n.
     then_act (modify (\<lambda>a. a\<lparr>c_sessions := update_where P (revoked_at now) (c_sessions a)\<rparr>))
       (ret n))"

definition revoke_sessions_for_person :: "nat \<Rightarrow> nat option \<Rightarrow> int \<Rightarrow> nat auth_act" where
  "revoke_sessions_for_person person except now =
     revoke_where (\<lambda>r. s_person r = person \<and> live_session r \<and> except \<noteq> Some (s_id r)) now"

section \<open>Login\<close>

definition provider_named :: "string option \<Rightarrow> auth_provider option" where
  "provider_named p =
     (case py_or p None of
        None \<Rightarrow> Some Local
      | Some s \<Rightarrow> if s = ''local'' then Some Local else if s = ''sso'' then Some Sso else None)"

definition login_credential :: "string \<Rightarrow> auth_provider \<Rightarrow> credential \<Rightarrow> bool" where
  "login_credential username provider r \<longleftrightarrow>
     u_username r = Some username \<and> u_provider r = provider \<and> u_active r"

definition is_locked :: "int \<Rightarrow> credential \<Rightarrow> bool" where
  "is_locked now r \<longleftrightarrow> (case u_locked r of None \<Rightarrow> False | Some t \<Rightarrow> t > now)"

definition failed_attempt :: "int \<Rightarrow> credential \<Rightarrow> credential" where
  "failed_attempt now r =
     (let r = r\<lparr>u_failed := u_failed r + 1\<rparr> in
      if u_failed r \<ge> 5 then r\<lparr>u_locked := Some (now + 15 * 60)\<rparr> else r)"

definition login_ok :: "int \<Rightarrow> credential \<Rightarrow> credential" where
  "login_ok now r = r\<lparr>u_failed := 0, u_locked := None, u_last_login := Some now\<rparr>"

definition bad_credentials :: "'a auth_act" where
  "bad_credentials = raise_http 401 ''Invalid credentials''"

definition login ::
  "auth_ctx \<Rightarrow> int \<Rightarrow> string \<Rightarrow> string \<Rightarrow> http_request \<Rightarrow> string option \<Rightarrow> token_reply auth_act" where
  "login x now username password req provider =
     bind_act (need (provider_named provider) 400 ''Invalid auth provider'') (\<lambda>resolved.
     bind_act (query (\<lambda>a. first_where (login_credential username resolved) (c_credentials a))) (\<lambda>found.
     case found of
       None \<Rightarrow> bad_credentials
     | Some c \<Rightarrow>
         if is_locked now c then bad_credentials
         else if \<not> verify_password x password (u_hash c)
         then then_act (set_credential (u_id c) (failed_attempt now)) bad_credentials
         else if u_must_change c
         then raise_http 428 ''PASSWORD_RESET_REQUIRED''
         else then_act (set_credential (u_id c) (login_ok now))
           (bind_act (query (\<lambda>a. primary_totp_method a (u_person c))) (\<lambda>method.
              case method of
                Some m \<Rightarrow> bind_act (query_res (\<lambda>a. encode_claims x a (mfa_claims (u_person c) now)))
                  (\<lambda>t. ret \<lparr>tk_mfa_required = True, tk_mfa_token = Some t, tk_access = None, tk_refresh = None\<rparr>)
              | None \<Rightarrow> issue_tokens x now (u_person c) req))))"

section \<open>Second factor\<close>

text \<open>\<^verbatim>\<open>_verify_totp_once\<close>: the counter the code stores when the code is accepted.\<close>

definition totp_once :: "auth_ctx \<Rightarrow> int \<Rightarrow> mfa_method \<Rightarrow> string \<Rightarrow> string \<Rightarrow> int option" where
  "totp_once x now m secret code =
     (let counter = cr_timecode (x_crypto x) now in
      if \<not> cr_totp_ok (x_crypto x) secret now code then None
      else if (case m_counter m of None \<Rightarrow> False | Some last_counter \<Rightarrow> counter \<le> last_counter) then None
      else Some counter)"

record mfa_offer =
  of_method :: nat
  of_secret :: string
  of_uri :: string

definition insert_mfa :: "(nat \<Rightarrow> mfa_method) \<Rightarrow> nat auth_act" where
  "insert_mfa row = (\<lambda>s. let key = c_next (adb s) in
     (Inr key, s\<lparr>adb := (adb s)\<lparr>c_mfa := c_mfa (adb s) @ [row key], c_next := Suc key\<rparr>\<rparr>))"

definition mfa_username :: "auth_db \<Rightarrow> person \<Rightarrow> string" where
  "mfa_username a p =
     (case first_where (\<lambda>r. u_person r = p_id p \<and> u_provider r = Local) (c_credentials a) of
        None \<Rightarrow> p_email p
      | Some c \<Rightarrow> with_default (u_username c) (p_email p))"

definition find_person :: "auth_db \<Rightarrow> nat \<Rightarrow> person option" where
  "find_person a key = first_where (\<lambda>p. p_id p = key) (c_people a)"

definition mfa_setup :: "auth_ctx \<Rightarrow> nat \<Rightarrow> string option \<Rightarrow> mfa_offer auth_act" where
  "mfa_setup x person_id label =
     bind_act (query (\<lambda>a. find_person a person_id)) (\<lambda>found.
     bind_act (need found 404 ''Person not found'') (\<lambda>p.
     bind_act (query (\<lambda>a. mfa_username a p)) (\<lambda>username.
     bind_act (draw_secret x) (\<lambda>secret.
     bind_act (query_res (\<lambda>a. encrypt_secret x a secret)) (\<lambda>encrypted.
     bind_act (insert_mfa (\<lambda>key. \<lparr>m_id = key, m_person = p_id p, m_type = Totp, m_label = label,
         m_secret = Some encrypted, m_primary = False, m_enabled = False, m_active = True,
         m_verified = None, m_used = None, m_counter = None\<rparr>)) (\<lambda>key.
     bind_act (query (totp_issuer x)) (\<lambda>issuer.
       ret \<lparr>of_method = key, of_secret = secret,
            of_uri = cr_otp_uri (x_crypto x) secret username issuer\<rparr>)))))))"

text \<open>The code, checked against the method's secret; the counter is stored with the code's success.\<close>

definition check_code :: "auth_ctx \<Rightarrow> int \<Rightarrow> mfa_method \<Rightarrow> string \<Rightarrow> unit auth_act" where
  "check_code x now m code =
     bind_act (query_res (\<lambda>a. decrypt_secret x a (case m_secret m of None \<Rightarrow> [] | Some s \<Rightarrow> s))) (\<lambda>secret.
     bind_act (need (totp_once x now m secret code) 401 ''Invalid MFA code'') (\<lambda>counter.
       set_mfa (m_id m) (\<lambda>r. r\<lparr>m_counter := Some counter\<rparr>)))"

text \<open>The unique index \<^verbatim>\<open>ix_mfa_methods_primary_per_person\<close>.\<close>

definition primaries_unique :: "mfa_method list \<Rightarrow> bool" where
  "primaries_unique rows \<longleftrightarrow> distinct (map m_person (filter m_primary rows))"

definition mfa_confirm :: "auth_ctx \<Rightarrow> int \<Rightarrow> nat \<Rightarrow> string \<Rightarrow> nat option \<Rightarrow> mfa_method auth_act" where
  "mfa_confirm x now method_id code expected_person =
     bind_act (query (\<lambda>a. first_where (\<lambda>m. m_id m = method_id) (c_mfa a))) (\<lambda>found.
     bind_act (need found 404 ''MFA method not found'') (\<lambda>m.
     then_act (guard_act (expected_person = None \<or> expected_person = Some (m_person m))
                 (HttpError 404 ''MFA method not found''))
     (then_act (guard_act (m_type m = Totp) (HttpError 400 ''Unsupported MFA method''))
     (then_act (check_code x now m code)
     (then_act (modify (\<lambda>a. a\<lparr>c_mfa := update_where
                 (\<lambda>r. m_person r = m_person m \<and> m_id r \<noteq> m_id m \<and> m_primary r) (\<lambda>r. r\<lparr>m_primary := False\<rparr>) (c_mfa a)\<rparr>))
     (then_act (set_mfa (m_id m) (\<lambda>r. r\<lparr>m_enabled := True, m_primary := True, m_active := True, m_verified := Some now\<rparr>))
     (bind_act (query (\<lambda>a. c_mfa a)) (\<lambda>rows.
        if primaries_unique rows
        then need (first_where (\<lambda>r. m_id r = m_id m) rows) 404 ''MFA method not found''
        else raise_http 409 ''Primary MFA method already exists for this user''))))))))"

definition mfa_verify :: "auth_ctx \<Rightarrow> int \<Rightarrow> string \<Rightarrow> string \<Rightarrow> http_request \<Rightarrow> token_reply auth_act" where
  "mfa_verify x now mfa_token code req =
     bind_act (query_res (\<lambda>a. decode_jwt x a mfa_token ''mfa'' now)) (\<lambda>payload.
     bind_act (need (cl_sub payload) 401 ''Invalid MFA token'') (\<lambda>person.
     bind_act (query (\<lambda>a. primary_totp_method a person)) (\<lambda>found.
     bind_act (need found 404 ''MFA method not found'') (\<lambda>m.
     then_act (check_code x now m code)
     (then_act (set_mfa (m_id m) (\<lambda>r. r\<lparr>m_used := Some now\<rparr>))
        (issue_tokens x now person req))))))"

section \<open>Refresh and logout\<close>

definition rotate :: "int \<Rightarrow> http_request \<Rightarrow> string \<Rightarrow> auth_session \<Rightarrow> auth_session" where
  "rotate now req h r = r\<lparr>s_prev := Some (s_hash r), s_hash := h, s_rotated := Some now, s_seen := Some now,
     s_ip := (case q_client req of None \<Rightarrow> s_ip r | Some host \<Rightarrow> Some host),
     s_agent := truncate_user_agent (q_user_agent req)\<rparr>"

definition current_session :: "string list \<Rightarrow> auth_session \<Rightarrow> bool" where
  "current_session hashes r \<longleftrightarrow> s_hash r \<in> set hashes \<and> live_session r"

definition replayed_session :: "string list \<Rightarrow> auth_session \<Rightarrow> bool" where
  "replayed_session hashes r \<longleftrightarrow>
     (case s_prev r of None \<Rightarrow> False | Some h \<Rightarrow> h \<in> set hashes) \<and> live_session r"

text \<open>The token belongs to no current session: it is unknown, or it was rotated away.\<close>

definition reuse_check :: "int \<Rightarrow> string list \<Rightarrow> token_reply auth_act" where
  "reuse_check now hashes =
     bind_act (query (\<lambda>a. first_where (replayed_session hashes) (c_sessions a))) (\<lambda>reused.
     case reused of
       Some r \<Rightarrow> then_act (set_session (s_id r) (revoked_at now))
                   (raise_http 401 ''Refresh token reuse detected'')
     | None \<Rightarrow> raise_http 401 ''Invalid refresh token'')"

definition rotate_session :: "auth_ctx \<Rightarrow> int \<Rightarrow> http_request \<Rightarrow> auth_session \<Rightarrow> token_reply auth_act" where
  "rotate_session x now req r =
     bind_act (draw_secret x) (\<lambda>new_refresh.
     bind_act (query_res (\<lambda>a. hash_token x a new_refresh)) (\<lambda>h.
     then_act (set_session (s_id r) (rotate now req h))
     (bind_act (issue_access_token x (s_person r) (s_id r) now) (\<lambda>access.
        ret (tokens access new_refresh)))))"

definition refresh :: "auth_ctx \<Rightarrow> int \<Rightarrow> string \<Rightarrow> http_request \<Rightarrow> token_reply auth_act" where
  "refresh x now refresh_token req =
     bind_act (query_res (\<lambda>a. hash_candidates x a refresh_token)) (\<lambda>hashes.
     bind_act (query (\<lambda>a. first_where (current_session hashes) (c_sessions a))) (\<lambda>found.
     case found of
       None \<Rightarrow> reuse_check now hashes
     | Some r \<Rightarrow>
         if s_expires r \<le> now
         then then_act (set_session (s_id r) (\<lambda>r. r\<lparr>s_status := Expired\<rparr>))
                (raise_http 401 ''Refresh token expired'')
         else rotate_session x now req r))"

definition logout :: "auth_ctx \<Rightarrow> int \<Rightarrow> string \<Rightarrow> int auth_act" where
  "logout x now refresh_token =
     bind_act (query_res (\<lambda>a. hash_candidates x a refresh_token)) (\<lambda>hashes.
     bind_act (query (\<lambda>a. first_where (\<lambda>r. s_hash r \<in> set hashes \<and> s_revoked r = None) (c_sessions a))) (\<lambda>found.
     bind_act (need found 404 ''Session not found'') (\<lambda>r.
     then_act (set_session (s_id r) (revoked_at now)) (ret now))))"

text \<open>\<^verbatim>\<open>resolve_refresh_token\<close>: the body's token, else the cookie.\<close>

definition resolve_refresh_token :: "auth_ctx \<Rightarrow> auth_db \<Rightarrow> http_request \<Rightarrow> string option \<Rightarrow> string option" where
  "resolve_refresh_token x a req refresh_token =
     py_or refresh_token (q_cookies req (ck_key (refresh_cookie_settings x a)))"

section \<open>Sessions of the caller\<close>

text \<open>The dict \<^verbatim>\<open>require_user_auth\<close> returns.\<close>

record auth_info =
  au_person :: nat
  au_session :: nat
  au_roles :: "string list"
  au_scopes :: "string list"

text \<open>\<^verbatim>\<open>list_sessions_response\<close>: the live sessions, newest first, and which is the current one.\<close>

definition list_sessions :: "auth_info \<Rightarrow> (auth_session \<times> bool) list auth_act" where
  "list_sessions auth = query (\<lambda>a.
     map (\<lambda>r. (r, s_id r = au_session auth))
       (sort_key (\<lambda>r. - s_created r) (filter (\<lambda>r. s_person r = au_person auth \<and> live_session r) (c_sessions a))))"

definition revoke_session :: "auth_info \<Rightarrow> int \<Rightarrow> nat \<Rightarrow> int auth_act" where
  "revoke_session auth now session_id =
     bind_act (query (\<lambda>a. first_where (\<lambda>r. s_id r = session_id \<and> s_person r = au_person auth) (c_sessions a))) (\<lambda>found.
     bind_act (need found 404 ''Session not found'') (\<lambda>r.
     then_act (guard_act (s_status r \<noteq> Revoked) (HttpError 400 ''Session already revoked''))
     (then_act (set_session (s_id r) (revoked_at now)) (ret now))))"

definition revoke_all_other_sessions :: "auth_info \<Rightarrow> int \<Rightarrow> (int \<times> nat) auth_act" where
  "revoke_all_other_sessions auth now =
     bind_act (revoke_where (\<lambda>r. s_person r = au_person auth \<and> live_session r \<and> s_id r \<noteq> au_session auth) now)
       (\<lambda>n. ret (now, n))"

section \<open>Passwords\<close>

definition active_credential :: "nat \<Rightarrow> credential \<Rightarrow> bool" where
  "active_credential person r \<longleftrightarrow> u_person r = person \<and> u_active r"

definition new_password_row :: "auth_ctx \<Rightarrow> int \<Rightarrow> string \<Rightarrow> credential \<Rightarrow> credential" where
  "new_password_row x now password r =
     r\<lparr>u_hash := Some (cr_hash_password (x_crypto x) password), u_changed_at := Some now, u_must_change := False\<rparr>"

definition change_password :: "auth_ctx \<Rightarrow> auth_info \<Rightarrow> int \<Rightarrow> string \<Rightarrow> string \<Rightarrow> int auth_act" where
  "change_password x auth now current_password new_password =
     bind_act (query (\<lambda>a. first_where (active_credential (au_person auth)) (c_credentials a))) (\<lambda>found.
     bind_act (need found 404 ''No credentials found'') (\<lambda>c.
     then_act (guard_act (verify_password x current_password (u_hash c)) (HttpError 401 ''Current password is incorrect''))
     (then_act (guard_act (current_password \<noteq> new_password) (HttpError 400 ''New password must be different''))
     (then_act (set_credential (u_id c) (new_password_row x now new_password))
     (then_act (revoke_sessions_for_person (au_person auth) None now)
        (ret now))))))"

record reset_offer =
  ro_token :: string
  ro_email :: string
  ro_name :: string

definition request_password_reset :: "auth_ctx \<Rightarrow> int \<Rightarrow> string \<Rightarrow> reset_offer option auth_act" where
  "request_password_reset x now email =
     bind_act (query (\<lambda>a. first_where (\<lambda>p. p_email p = email) (c_people a))) (\<lambda>found.
     case found of
       None \<Rightarrow> ret None
     | Some p \<Rightarrow>
         bind_act (query (\<lambda>a. first_where (active_credential (p_id p)) (c_credentials a))) (\<lambda>credential.
         case credential of
           None \<Rightarrow> ret None
         | Some c \<Rightarrow>
             bind_act (query_res (\<lambda>a. encode_claims x a (reset_claims x a (p_id p) email now))) (\<lambda>t.
               ret (Some \<lparr>ro_token = t, ro_email = email, ro_name = with_default (p_display p) (p_first p)\<rparr>))))"

definition unlocked_row :: "credential \<Rightarrow> credential" where
  "unlocked_row r = r\<lparr>u_failed := 0, u_locked := None\<rparr>"

definition reset_password :: "auth_ctx \<Rightarrow> int \<Rightarrow> string \<Rightarrow> string \<Rightarrow> int auth_act" where
  "reset_password x now reset_token new_password =
     bind_act (query_res (\<lambda>a. decode_jwt x a reset_token ''password_reset'' now)) (\<lambda>payload.
     bind_act (need (cl_sub payload) 401 ''Invalid reset token'') (\<lambda>person_id.
     bind_act (need (py_or (cl_email payload) None) 401 ''Invalid reset token'') (\<lambda>email.
     bind_act (query (\<lambda>a. find_person a person_id)) (\<lambda>found.
     bind_act (need found 401 ''Invalid reset token'') (\<lambda>p.
     then_act (guard_act (p_email p = email) (HttpError 401 ''Invalid reset token''))
     (bind_act (query (\<lambda>a. first_where (active_credential (p_id p)) (c_credentials a))) (\<lambda>credential.
     bind_act (need credential 404 ''No credentials found'') (\<lambda>c.
     then_act (set_credential (u_id c) (\<lambda>r. unlocked_row (new_password_row x now new_password r)))
     (then_act (revoke_sessions_for_person (p_id p) None now)
        (ret now))))))))))"

section \<open>Handlers\<close>

text \<open>
  What a handler commits: \<open>saved\<close> commits whatever the service did, also before an
  \<^verbatim>\<open>HTTPException\<close> it passes on; \<open>saved_on_success\<close> commits only after a normal return; \<open>unsaved\<close>
  never commits. Secrets stay drawn.
\<close>

definition saved :: "'a auth_act \<Rightarrow> 'a auth_act" where
  "saved h = (\<lambda>s. case h s of
     (Inl (HttpError code detail), s') \<Rightarrow> (Inl (HttpError code detail), s')
   | (Inl e, s') \<Rightarrow> (Inl e, s'\<lparr>adb := adb s\<rparr>)
   | (Inr r, s') \<Rightarrow> (Inr r, s'))"

definition saved_on_success :: "'a auth_act \<Rightarrow> 'a auth_act" where
  "saved_on_success h = (\<lambda>s. case h s of
     (Inl e, s') \<Rightarrow> (Inl e, s'\<lparr>adb := adb s\<rparr>)
   | (Inr r, s') \<Rightarrow> (Inr r, s'))"

definition unsaved :: "'a auth_act \<Rightarrow> 'a auth_act" where
  "unsaved h = (\<lambda>s. case h s of (r, s') \<Rightarrow> (r, s'\<lparr>adb := adb s\<rparr>))"

text \<open>A reply with the refresh token moved into a cookie (\<^verbatim>\<open>_response_with_refresh_cookie\<close>).\<close>

record cookie_reply =
  rp_body :: token_reply
  rp_cookie :: "(cookie_settings \<times> string) option"

definition with_refresh_cookie :: "auth_ctx \<Rightarrow> token_reply auth_act \<Rightarrow> cookie_reply auth_act" where
  "with_refresh_cookie x h =
     bind_act h (\<lambda>r. bind_act (query (refresh_cookie_settings x)) (\<lambda>ck.
       ret (case py_or (tk_refresh r) None of
              Some t \<Rightarrow> \<lparr>rp_body = r\<lparr>tk_refresh := None\<rparr>, rp_cookie = Some (ck, t)\<rparr>
            | None \<Rightarrow> \<lparr>rp_body = r, rp_cookie = None\<rparr>)))"

definition api_login ::
  "auth_ctx \<Rightarrow> int \<Rightarrow> string \<Rightarrow> string \<Rightarrow> http_request \<Rightarrow> string option \<Rightarrow> cookie_reply auth_act" where
  "api_login x now username password req provider =
     saved (with_refresh_cookie x (login x now username password req provider))"

definition api_mfa_setup :: "auth_ctx \<Rightarrow> auth_info \<Rightarrow> nat \<Rightarrow> string option \<Rightarrow> mfa_offer auth_act" where
  "api_mfa_setup x auth person_id label =
     then_act (guard_act (person_id = au_person auth) (HttpError 403 ''Forbidden''))
       (saved_on_success (mfa_setup x (au_person auth) label))"

definition api_mfa_confirm :: "auth_ctx \<Rightarrow> auth_info \<Rightarrow> int \<Rightarrow> nat \<Rightarrow> string \<Rightarrow> mfa_method auth_act" where
  "api_mfa_confirm x auth now method_id code =
     saved_on_success (mfa_confirm x now method_id code (Some (au_person auth)))"

definition api_mfa_verify :: "auth_ctx \<Rightarrow> int \<Rightarrow> string \<Rightarrow> string \<Rightarrow> http_request \<Rightarrow> cookie_reply auth_act" where
  "api_mfa_verify x now mfa_token code req =
     saved_on_success (with_refresh_cookie x (mfa_verify x now mfa_token code req))"

definition api_refresh :: "auth_ctx \<Rightarrow> int \<Rightarrow> string option \<Rightarrow> http_request \<Rightarrow> cookie_reply auth_act" where
  "api_refresh x now refresh_token req =
     saved (bind_act (query (\<lambda>a. resolve_refresh_token x a req refresh_token)) (\<lambda>resolved.
       bind_act (need (py_or resolved None) 401 ''Missing refresh token'') (\<lambda>t.
         with_refresh_cookie x (refresh x now t req))))"

definition api_logout :: "auth_ctx \<Rightarrow> int \<Rightarrow> string option \<Rightarrow> http_request \<Rightarrow> int auth_act" where
  "api_logout x now refresh_token req =
     saved_on_success (bind_act (query (\<lambda>a. resolve_refresh_token x a req refresh_token)) (\<lambda>resolved.
       bind_act (need (py_or resolved None) 404 ''Session not found'') (\<lambda>t.
         logout x now t)))"

definition api_revoke_session :: "auth_info \<Rightarrow> int \<Rightarrow> nat \<Rightarrow> int auth_act" where
  "api_revoke_session auth now session_id = saved_on_success (revoke_session auth now session_id)"

definition api_revoke_all_other_sessions :: "auth_info \<Rightarrow> int \<Rightarrow> (int \<times> nat) auth_act" where
  "api_revoke_all_other_sessions auth now = saved_on_success (revoke_all_other_sessions auth now)"

definition api_change_password :: "auth_ctx \<Rightarrow> auth_info \<Rightarrow> int \<Rightarrow> string \<Rightarrow> string \<Rightarrow> int auth_act" where
  "api_change_password x auth now current_password new_password =
     saved_on_success (change_password x auth now current_password new_password)"

definition api_reset_password :: "auth_ctx \<Rightarrow> int \<Rightarrow> string \<Rightarrow> string \<Rightarrow> int auth_act" where
  "api_reset_password x now reset_token new_password =
     saved_on_success (reset_password x now reset_token new_password)"

end
