(* ===== verification/AuthAccess.thy ===== *)
theory AuthAccess
  imports AuthFlow
begin

text \<open>
  Who may do what: the dependencies of \<^verbatim>\<open>app/services/auth_dependencies.py\<close> (bearer tokens,
  session tokens, API keys, roles and permissions), the cookie authentication of
  \<^verbatim>\<open>app/web/deps.py\<close>, and the login and logout pages of \<^verbatim>\<open>app/web/auth.py\<close>.
\<close>

section \<open>Tokens in headers\<close>

text \<open>\<^verbatim>\<open>authorization.split(" ", 1)\<close>: at most two parts.\<close>

definition extract_bearer_token :: "string option \<Rightarrow> string option" where
  "extract_bearer_token authorization =
     (case py_or authorization None of
        None \<Rightarrow> None
      | Some h \<Rightarrow>
          (case dropWhile (\<lambda>c. c \<noteq> CHR '' '') h of
             [] \<Rightarrow> None
           | _ # rest \<Rightarrow>
               if lower_str (takeWhile (\<lambda>c. c \<noteq> CHR '' '') h) = ''bearer'' then Some (strip rest) else None))"

definition is_jwt :: "string \<Rightarrow> bool" where
  "is_jwt t \<longleftrightarrow> length (filter (\<lambda>c. c = CHR ''.'') t) = 2"

section \<open>Users\<close>

definition usable_session :: "int \<Rightarrow> auth_session \<Rightarrow> bool" where
  "usable_session now r \<longleftrightarrow> live_session r \<and> s_expires r > now"

definition find_session :: "auth_db \<Rightarrow> nat \<Rightarrow> auth_session option" where
  "find_session a key = first_where (\<lambda>r. s_id r = key) (c_sessions a)"

definition unauthorized :: "'a res" where
  "unauthorized = Inl (HttpError 401 ''Unauthorized'')"

definition require_user_auth :: "auth_ctx \<Rightarrow> auth_db \<Rightarrow> int \<Rightarrow> string option \<Rightarrow> auth_info res" where
  "require_user_auth x a now authorization =
     (case py_or (extract_bearer_token authorization) None of
        None \<Rightarrow> unauthorized
      | Some t \<Rightarrow>
          bind_res (decode_access_token x a t now) (\<lambda>payload.
            case (cl_sub payload, cl_session payload) of
              (Some p, Some k) \<Rightarrow>
                (case first_where (\<lambda>r. s_id r = k \<and> s_person r = p \<and> usable_session now r) (c_sessions a) of
                   None \<Rightarrow> unauthorized
                 | Some r \<Rightarrow> Inr \<lparr>au_person = p, au_session = k, au_roles = cl_roles payload,
                                    au_scopes = cl_scopes payload\<rparr>)
            | _ \<Rightarrow> unauthorized))"

text \<open>\<^verbatim>\<open>resolve_active_session_person_id\<close>: any failure is \<^verbatim>\<open>None\<close>.\<close>

definition resolve_active_session_person_id :: "auth_ctx \<Rightarrow> auth_db \<Rightarrow> int \<Rightarrow> string \<Rightarrow> nat option" where
  "resolve_active_session_person_id x a now t =
     (if t = [] then None
      else case decode_access_token x a t now of
        Inl _ \<Rightarrow> None
      | Inr payload \<Rightarrow>
          (case (cl_sub payload, cl_session payload) of
             (Some p, Some k) \<Rightarrow>
               (case first_where (\<lambda>r. s_id r = k \<and> s_person r = p \<and> usable_session now r) (c_sessions a) of
                  None \<Rightarrow> None
                | Some r \<Rightarrow> Some p)
           | _ \<Rightarrow> None))"

section \<open>Roles and permissions\<close>

definition person_has_role :: "auth_db \<Rightarrow> nat \<Rightarrow> string \<Rightarrow> bool" where
  "person_has_role a p name \<longleftrightarrow> list_ex (\<lambda>r. r_name r = name) (roles_of a p)"

definition require_role :: "auth_db \<Rightarrow> string \<Rightarrow> auth_info \<Rightarrow> auth_info res" where
  "require_role a name auth =
     (case first_where (\<lambda>r. r_name r = name \<and> r_active r) (c_roles a) of
        None \<Rightarrow> Inl (HttpError 403 ''Role not found'')
      | Some r \<Rightarrow>
          if list_ex (\<lambda>l. pr_person l = au_person auth \<and> pr_role l = r_id r) (c_person_roles a)
          then Inr auth else Inl (HttpError 403 ''Forbidden''))"

definition require_permission :: "auth_db \<Rightarrow> string \<Rightarrow> auth_info \<Rightarrow> auth_info res" where
  "require_permission a key auth =
     (if person_has_role a (au_person auth) ''admin'' then Inr auth
      else case first_where (\<lambda>p. pm_key p = key \<and> pm_active p) (c_permissions a) of
        None \<Rightarrow> Inl (HttpError 403 ''Permission not found'')
      | Some p \<Rightarrow>
          if list_ex (\<lambda>r. list_ex (\<lambda>l. rp_role l = r_id r \<and> rp_permission l = pm_id p) (c_role_permissions a))
               (roles_of a (au_person auth))
          then Inr auth else Inl (HttpError 403 ''Forbidden''))"

definition person_has_audit_scope :: "auth_db \<Rightarrow> nat \<Rightarrow> bool" where
  "person_has_audit_scope a p \<longleftrightarrow>
     list_ex (\<lambda>r. r_name r \<in> set [''admin'', ''auditor'']) (roles_of a p) \<or>
     list_ex (\<lambda>q. pm_key q \<in> set [''audit:read'', ''audit:*'']) (permissions_of a p)"

section \<open>The audit log's three credentials\<close>

datatype actor = UserActor nat | KeyActor nat

text \<open>\<^verbatim>\<open>hash_api_key\<close> of \<^verbatim>\<open>app/services/auth.py\<close>\<close>

definition hash_api_key :: "auth_ctx \<Rightarrow> string \<Rightarrow> string res" where
  "hash_api_key x v =
     bind_res (resolve_secret x (py_or (x_env x ''API_KEY_HASH_SECRET'')
        (py_or (x_env x ''JWT_SECRET'') (x_env x ''SECRET_KEY'')))) (\<lambda>s.
       case py_or s None of
         None \<Rightarrow> Inl (Unavailable ''API key hash secret not configured'')
       | Some t \<Rightarrow> Inr (cr_hmac (x_crypto x) t v))"

definition needs_audit_scope :: "auth_db \<Rightarrow> nat \<Rightarrow> actor \<Rightarrow> actor res" where
  "needs_audit_scope a p who =
     (if person_has_audit_scope a p then Inr who else Inl (HttpError 403 ''Insufficient scope''))"

definition session_check :: "int \<Rightarrow> auth_session option \<Rightarrow> unit res" where
  "session_check now found =
     (case found of
        None \<Rightarrow> Inl (HttpError 401 ''Invalid session'')
      | Some r \<Rightarrow>
          if \<not> live_session r then Inl (HttpError 401 ''Invalid session'')
          else if s_expires r \<le> now then Inl (HttpError 401 ''Session expired'') else Inr ())"

text \<open>A JWT is for a person; \<^verbatim>\<open>str(None)\<close> as an actor is no person and fails in \<^verbatim>\<open>coerce_uuid\<close>.\<close>

definition audit_by_jwt :: "auth_ctx \<Rightarrow> auth_db \<Rightarrow> int \<Rightarrow> string \<Rightarrow> actor res" where
  "audit_by_jwt x a now t =
     bind_res (decode_access_token x a t now) (\<lambda>payload.
     bind_res (case cl_session payload of None \<Rightarrow> Inr () | Some k \<Rightarrow> session_check now (find_session a k)) (\<lambda>_.
       case cl_sub payload of
         None \<Rightarrow> Inl ValueErr
       | Some p \<Rightarrow> needs_audit_scope a p (UserActor p)))"

definition usable_key :: "int \<Rightarrow> api_key \<Rightarrow> bool" where
  "usable_key now k \<longleftrightarrow> k_active k \<and> k_revoked k = None \<and>
     (case k_expires k of None \<Rightarrow> True | Some t \<Rightarrow> t > now)"

definition audit_by_key :: "auth_ctx \<Rightarrow> auth_db \<Rightarrow> int \<Rightarrow> string option \<Rightarrow> actor res" where
  "audit_by_key x a now v =
     (case py_or v None of
        None \<Rightarrow> unauthorized
      | Some s \<Rightarrow>
          bind_res (hash_api_key x s) (\<lambda>h.
            case first_where (\<lambda>k. k_hash k = h \<and> usable_key now k) (c_api_keys a) of
              None \<Rightarrow> unauthorized
            | Some k \<Rightarrow>
                (case k_person k of
                   None \<Rightarrow> Inl (HttpError 403 ''Insufficient scope'')
                 | Some p \<Rightarrow> needs_audit_scope a p (KeyActor (k_id k)))))"

definition require_audit_auth ::
  "auth_ctx \<Rightarrow> auth_db \<Rightarrow> int \<Rightarrow> string option \<Rightarrow> string option \<Rightarrow> string option \<Rightarrow> actor res" where
  "require_audit_auth x a now authorization session_header key_header =
     (case py_or (py_or (extract_bearer_token authorization) session_header) None of
        None \<Rightarrow> audit_by_key x a now key_header
      | Some t \<Rightarrow>
          if is_jwt t then audit_by_jwt x a now t
          else bind_res (hash_candidates x a t) (\<lambda>hashes.
            case first_where (\<lambda>r. s_hash r \<in> set hashes \<and> usable_session now r) (c_sessions a) of
              Some r \<Rightarrow> needs_audit_scope a (s_person r) (UserActor (s_person r))
            | None \<Rightarrow> audit_by_key x a now key_header))"

section \<open>The web pages\<close>

datatype 'a page = Shown 'a | Login_redirect | Forbidden

text \<open>\<^verbatim>\<open>require_web_auth\<close>: the cookie's token, its session, its person, the admin role.\<close>

definition require_web_auth :: "auth_ctx \<Rightarrow> auth_db \<Rightarrow> int \<Rightarrow> http_request \<Rightarrow> auth_info page" where
  "require_web_auth x a now req =
     (case py_or (q_cookies req ''access_token'') None of
        None \<Rightarrow> Login_redirect
      | Some t \<Rightarrow>
          (case decode_access_token x a t now of
             Inl _ \<Rightarrow> Login_redirect
           | Inr payload \<Rightarrow>
               (case (cl_sub payload, cl_session payload) of
                  (Some p, Some k) \<Rightarrow>
                    (case find_session a k of
                       None \<Rightarrow> Login_redirect
                     | Some r \<Rightarrow>
                         if s_person r \<noteq> p \<or> \<not> usable_session now r then Login_redirect
                         else if find_person a p = None then Login_redirect
                         else let roles = map r_name (roles_of a p) in
                           if ''admin'' \<notin> set roles then Forbidden
                           else Shown \<lparr>au_person = p, au_session = k, au_roles = roles, au_scopes = []\<rparr>)
                | _ \<Rightarrow> Login_redirect)))"

definition safe_next_url :: "string \<Rightarrow> string" where
  "safe_next_url url =
     (if starts_with url ''/'' \<and> \<not> starts_with url ''//'' \<and> \<not> contains_sub url ''://'' then url else ''/admin'')"

datatype web_reply =
    Login_error string
  | Redirect string "(string \<times> string) list"

text \<open>\<^verbatim>\<open>login_submit\<close>: the handler that calls \<^verbatim>\<open>AuthFlow.login\<close> and never commits.\<close>

definition login_submit_reply :: "string \<Rightarrow> token_reply res \<Rightarrow> web_reply res" where
  "login_submit_reply next_url r =
     (case r of
        Inl (HttpError code detail) \<Rightarrow> Inr (Login_error ''Invalid username or password'')
      | Inl e \<Rightarrow> Inl e
      | Inr t \<Rightarrow>
          if tk_mfa_required t then Inr (Login_error ''MFA is not yet supported in web login'')
          else (case py_or (tk_access t) None of
                  None \<Rightarrow> Inr (Login_error ''Login failed'')
                | Some access \<Rightarrow> Inr (Redirect next_url
                    ((''access_token'', access) #
                     (case py_or (tk_refresh t) None of None \<Rightarrow> [] | Some f \<Rightarrow> [(''refresh_token'', f)])))))"

definition login_submit ::
  "auth_ctx \<Rightarrow> int \<Rightarrow> string \<Rightarrow> string \<Rightarrow> string \<Rightarrow> http_request \<Rightarrow> web_reply auth_act" where
  "login_submit x now raw_username password raw_next req =
     (let username = strip raw_username; next_url = safe_next_url raw_next in
      if username = [] \<or> password = [] then ret (Login_error ''Username and password are required'')
      else unsaved (\<lambda>s. case login x now username password req None s of
        (r, s') \<Rightarrow> (login_submit_reply next_url r, s')))"

text \<open>\<^verbatim>\<open>logout\<close> of the web pages: the session of the access token, else of the refresh token.\<close>

definition web_logout_session :: "auth_ctx \<Rightarrow> auth_db \<Rightarrow> int \<Rightarrow> http_request \<Rightarrow> auth_session option res" where
  "web_logout_session x a now req =
     bind_res (case py_or (q_cookies req ''access_token'') None of
         None \<Rightarrow> Inr None
       | Some t \<Rightarrow> bind_res (decode_access_token x a t now) (\<lambda>payload.
           Inr (case cl_session payload of None \<Rightarrow> None | Some k \<Rightarrow> find_session a k))) (\<lambda>by_access.
     case (by_access, py_or (q_cookies req ''refresh_token'') None) of
       (None, Some t) \<Rightarrow> bind_res (hash_candidates x a t) (\<lambda>hashes.
         Inr (first_where (\<lambda>r. s_hash r \<in> set hashes \<and> s_revoked r = None) (c_sessions a)))
     | _ \<Rightarrow> Inr by_access)"

definition web_logout :: "auth_ctx \<Rightarrow> int \<Rightarrow> http_request \<Rightarrow> unit auth_act" where
  "web_logout x now req = (\<lambda>s.
     case web_logout_session x (adb s) now req of
       Inr (Some r) \<Rightarrow> if s_revoked r = None then set_session (s_id r) (revoked_at now) s else (Inr (), s)
     | _ \<Rightarrow> (Inr (), s))"

end
