(* ===== verification/AuthProofs.thy ===== *)
theory AuthProofs
  imports AuthAccess
begin

text \<open>
  What the authentication guarantees: sessions only ever move towards revocation, refresh tokens
  rotate and their reuse is detected, accounts lock, one-time codes are used once, and access is
  refused as soon as a session is revoked.
\<close>

section \<open>The order of session states\<close>

instantiation session_status :: linorder
begin

fun status_rank :: "session_status \<Rightarrow> nat" where
  "status_rank Active = 0"
| "status_rank Expired = 1"
| "status_rank Revoked = 2"

definition less_eq_session_status :: "session_status \<Rightarrow> session_status \<Rightarrow> bool" where
  "less_eq_session_status s t \<longleftrightarrow> status_rank s \<le> status_rank t"

definition less_session_status :: "session_status \<Rightarrow> session_status \<Rightarrow> bool" where
  "less_session_status s t \<longleftrightarrow> status_rank s < status_rank t"

instance
proof
  fix s t u :: session_status
  show "(s < t) = (s \<le> t \<and> \<not> t \<le> s)" by (auto simp: less_session_status_def less_eq_session_status_def)
  show "s \<le> s" by (simp add: less_eq_session_status_def)
  show "s \<le> t \<Longrightarrow> t \<le> u \<Longrightarrow> s \<le> u" by (simp add: less_eq_session_status_def)
  show "s \<le> t \<Longrightarrow> t \<le> s \<Longrightarrow> s = t" by (cases s; cases t) (simp_all add: less_eq_session_status_def)
  show "s \<le> t \<or> t \<le> s" by (auto simp: less_eq_session_status_def)
qed

end

lemma status_order [simp]: "Active \<le> s" "s \<le> Revoked"
  by (cases s; simp add: less_eq_session_status_def)+

text \<open>
  \<open>advanced\<close>: every session of the first table is in the second, for the same person with the same
  expiry, its state the same or further on; a revoked one keeps the instant of its revocation or
  got a later record of it.
\<close>

definition moved_on :: "auth_session \<Rightarrow> auth_session \<Rightarrow> bool" where
  "moved_on r r' \<longleftrightarrow> s_id r' = s_id r \<and> s_person r' = s_person r \<and> s_expires r' = s_expires r \<and>
     s_status r \<le> s_status r' \<and> (s_revoked r \<noteq> None \<longrightarrow> s_revoked r' \<noteq> None)"

definition advanced :: "auth_session list \<Rightarrow> auth_session list \<Rightarrow> bool" where
  "advanced xs ys \<longleftrightarrow> (\<forall>r\<in>set xs. \<exists>r'\<in>set ys. moved_on r r')"

lemma moved_on_refl [simp]: "moved_on r r"
  by (simp add: moved_on_def)

lemma moved_on_trans: "moved_on r r' \<Longrightarrow> moved_on r' r'' \<Longrightarrow> moved_on r r''"
  by (auto simp: moved_on_def)

lemma advanced_refl [simp]: "advanced xs xs"
  unfolding advanced_def using moved_on_refl by blast

lemma advanced_trans: "advanced xs ys \<Longrightarrow> advanced ys zs \<Longrightarrow> advanced xs zs"
  unfolding advanced_def by (blast intro: moved_on_trans)

lemma advanced_append: "advanced xs ys \<Longrightarrow> advanced xs (ys @ zs)"
  by (auto simp: advanced_def)

lemma advanced_update:
  assumes "advanced xs ys" and "\<And>r. r \<in> set ys \<Longrightarrow> P r \<Longrightarrow> moved_on r (f r)"
  shows "advanced xs (update_where P f ys)"
proof (rule advanced_trans [OF assms(1)])
  show "advanced ys (update_where P f ys)"
    unfolding advanced_def
  proof
    fix r assume r: "r \<in> set ys"
    then have "(if P r then f r else r) \<in> set (update_where P f ys)" by (simp add: set_update_where)
    moreover have "moved_on r (if P r then f r else r)" using r assms(2) by simp
    ultimately show "\<exists>r'\<in>set (update_where P f ys). moved_on r r'" by blast
  qed
qed

text \<open>
  The invariant: unique keys below the supply, and the sessions have moved on since \<open>base\<close>.
\<close>

definition auth_inv :: "auth_db \<Rightarrow> bool" where
  "auth_inv a \<longleftrightarrow> keyed s_id (c_next a) (c_sessions a) \<and> keyed m_id (c_next a) (c_mfa a) \<and>
     distinct (map u_id (c_credentials a)) \<and> primaries_unique (c_mfa a)"

lemma auth_invD:
  assumes "auth_inv a"
  shows "keyed s_id (c_next a) (c_sessions a)" and "keyed m_id (c_next a) (c_mfa a)"
    and "distinct (map u_id (c_credentials a))" and "primaries_unique (c_mfa a)"
  using assms by (simp_all add: auth_inv_def)

definition later :: "auth_session list \<Rightarrow> auth_sys \<Rightarrow> bool" where
  "later base s \<longleftrightarrow> auth_inv (adb s) \<and> advanced base (c_sessions (adb s))"

lemma keeps_query [intro]: "keeps P (query f)" "keeps P (query_res g)"
  by (simp_all add: keeps_def query_def query_res_def)

lemma keeps_need [intro]: "keeps P (need v c d)" "keeps P (raise_http c d)"
  by (simp_all add: need_def raise_http_def keeps_def split: option.split)

lemma keeps_draw [intro]: "keeps (later base) (draw_secret x)"
  by (simp add: keeps_def draw_secret_def later_def)

lemma keeps_set_session:
  assumes "\<And>r. moved_on r (f r)"
  shows "keeps (later base) (set_session k f)"
  using assms by (auto simp: keeps_def set_session_def modify_def later_def auth_inv_def
      intro!: keyed_update advanced_update) (simp add: moved_on_def)

lemma keeps_revoke [intro]: "keeps (later base) (set_session k (revoked_at now))"
  by (rule keeps_set_session) (simp add: moved_on_def revoked_at_def)

lemma keeps_rotate [intro]: "keeps (later base) (set_session k (rotate now req h))"
  by (rule keeps_set_session) (simp add: moved_on_def rotate_def)

lemma keeps_revoke_where [intro]: "keeps (later base) (revoke_where P now)"
  unfolding revoke_where_def
proof (intro keeps_bind keeps_then keeps_query keeps_ret)
  show "keeps (later base) (modify (\<lambda>a. a\<lparr>c_sessions := update_where P (revoked_at now) (c_sessions a)\<rparr>))"
    by (auto simp: keeps_def modify_def later_def auth_inv_def revoked_at_def moved_on_def
        intro!: keyed_update advanced_update)
qed

lemma keeps_insert_session:
  assumes "\<And>k. s_id (row k) = k"
  shows "keeps (later base) (insert_session row)"
  using assms by (auto simp: keeps_def insert_session_def later_def auth_inv_def Let_def
      intro: keyed_insert keyed_mono advanced_append)

lemma keeps_issue [intro]: "keeps (later base) (issue_tokens x now p req)"
  unfolding issue_tokens_def issue_access_token_def
  by (intro keeps_bind keeps_draw keeps_query keeps_ret keeps_insert_session) simp

lemma keeps_set_credential:
  assumes "\<And>r. u_id (f r) = u_id r"
  shows "keeps (later base) (set_credential k f)"
  using assms by (simp add: keeps_def set_credential_def modify_def later_def auth_inv_def map_update_where)

lemma primaries_update:
  assumes "\<And>r. m_person (f r) = m_person r \<and> m_primary (f r) = m_primary r"
  shows "primaries_unique (update_where P f rows) = primaries_unique rows"
proof -
  have "map m_person (filter m_primary (update_where P f rows)) = map m_person (filter m_primary rows)"
    using assms by (induction rows) (simp_all add: update_where_def)
  then show ?thesis by (simp add: primaries_unique_def)
qed

lemma keeps_set_mfa:
  assumes "\<And>r. m_id (f r) = m_id r" "\<And>r. m_person (f r) = m_person r \<and> m_primary (f r) = m_primary r"
  shows "keeps (later base) (set_mfa k f)"
  using assms by (simp add: keeps_def set_mfa_def modify_def later_def auth_inv_def keyed_update primaries_update)

lemma keeps_insert_mfa:
  assumes "\<And>k. m_id (row k) = k" "\<And>k. \<not> m_primary (row k)"
  shows "keeps (later base) (insert_mfa row)"
  using assms by (auto simp: keeps_def insert_mfa_def later_def auth_inv_def Let_def primaries_unique_def
      intro: keyed_insert keyed_mono)

lemma keeps_check_code [intro]: "keeps (later base) (check_code x now m code)"
  unfolding check_code_def by (intro keeps_bind keeps_query keeps_need keeps_set_mfa) simp_all

section \<open>Evaluation\<close>

text \<open>Running an operation step by step.\<close>

named_theorems auth_eval

lemma run_query [auth_eval]: "bind_act (query f) k s = k (f (adb s)) s"
  "bind_act (query_res g) k s = (case g (adb s) of Inl e \<Rightarrow> (Inl e, s) | Inr v \<Rightarrow> k v s)"
  by (simp_all add: bind_act_def query_def query_res_def split: sum.split)

lemma run_need [auth_eval]:
  "bind_act (need v c d) k s = (case v of None \<Rightarrow> (Inl (HttpError c d), s) | Some a \<Rightarrow> k a s)"
  "need v c d s = (case v of None \<Rightarrow> (Inl (HttpError c d), s) | Some a \<Rightarrow> (Inr a, s))"
  "raise_http c d s = (Inl (HttpError c d), s)"
  by (simp_all add: bind_act_def need_def raise_http_def split: option.split)

lemma run_guard [auth_eval]: "then_act (guard_act b e) m s = (if b then m s else (Inl e, s))"
  by (simp add: then_act_def bind_act_def)

lemma run_modify [auth_eval]:
  "then_act (modify f) m s = m (s\<lparr>adb := f (adb s)\<rparr>)"
  "modify f s = (Inr (), s\<lparr>adb := f (adb s)\<rparr>)"
  by (simp_all add: then_act_def bind_act_def modify_def)

lemma run_draw [auth_eval]: "bind_act (draw_secret x) k s = k (x_random x (draws s)) (s\<lparr>draws := Suc (draws s)\<rparr>)"
  by (simp add: bind_act_def draw_secret_def)

lemma run_insert [auth_eval]:
  "bind_act (insert_session row) k s = k (c_next (adb s)) (s\<lparr>adb := (adb s)
     \<lparr>c_sessions := c_sessions (adb s) @ [row (c_next (adb s))], c_next := Suc (c_next (adb s))\<rparr>\<rparr>)"
  "bind_act (insert_mfa new) k s = k (c_next (adb s)) (s\<lparr>adb := (adb s)
     \<lparr>c_mfa := c_mfa (adb s) @ [new (c_next (adb s))], c_next := Suc (c_next (adb s))\<rparr>\<rparr>)"
  by (simp_all add: bind_act_def insert_session_def insert_mfa_def Let_def)

lemmas set_rows = set_session_def set_credential_def set_mfa_def

section \<open>The second factor\<close>

text \<open>With distinct keys the unique index says: two primary methods of one person are one row.\<close>

lemma primaries_unique_iff:
  assumes "distinct (map m_id rows)"
  shows "primaries_unique rows \<longleftrightarrow> (\<forall>r\<in>set rows. \<forall>q\<in>set rows.
    m_primary r \<and> m_primary q \<and> m_person r = m_person q \<longrightarrow> m_id r = m_id q)"
proof -
  have d: "distinct rows" and inj: "inj_on m_id (set rows)"
    using assms by (auto simp: distinct_map)
  have "primaries_unique rows \<longleftrightarrow> inj_on m_person (set (filter m_primary rows))"
    using d by (simp add: primaries_unique_def distinct_map)
  also have "\<dots> \<longleftrightarrow> (\<forall>r\<in>set rows. \<forall>q\<in>set rows.
      m_primary r \<and> m_primary q \<and> m_person r = m_person q \<longrightarrow> r = q)"
    by (auto simp: inj_on_def)
  also have "\<dots> \<longleftrightarrow> (\<forall>r\<in>set rows. \<forall>q\<in>set rows.
      m_primary r \<and> m_primary q \<and> m_person r = m_person q \<longrightarrow> m_id r = m_id q)"
    by (intro ball_cong refl) (simp add: inj_on_eq_iff [OF inj])
  finally show ?thesis .
qed

text \<open>\<open>promoted\<close>: the table after a confirmation, with every other primary method demoted.\<close>

definition promoted :: "int \<Rightarrow> mfa_method \<Rightarrow> mfa_method list \<Rightarrow> mfa_method list" where
  "promoted now m rows =
     update_where (\<lambda>r. m_id r = m_id m)
       (\<lambda>r. r\<lparr>m_enabled := True, m_primary := True, m_active := True, m_verified := Some now\<rparr>)
       (update_where (\<lambda>r. m_person r = m_person m \<and> m_id r \<noteq> m_id m \<and> m_primary r) (\<lambda>r. r\<lparr>m_primary := False\<rparr>) rows)"

lemma promoted_ids [simp]: "map m_id (promoted now m rows) = map m_id rows"
  by (simp add: promoted_def map_update_where)

lemma promoted_primary:
  assumes "r \<in> set (promoted now m rows)"
  obtains q where "q \<in> set rows" "m_id r = m_id q" "m_person r = m_person q"
    "m_primary r \<longleftrightarrow> m_id q = m_id m \<or> m_primary q \<and> m_person q \<noteq> m_person m"
proof -
  let ?demote = "\<lambda>r. if m_person r = m_person m \<and> m_id r \<noteq> m_id m \<and> m_primary r then r\<lparr>m_primary := False\<rparr> else r"
  let ?promote = "\<lambda>r. if m_id r = m_id m
    then r\<lparr>m_enabled := True, m_primary := True, m_active := True, m_verified := Some now\<rparr> else r"
  from assms obtain q where q: "q \<in> set rows" "r = ?promote (?demote q)"
    by (auto simp: promoted_def set_update_where simp del: if_split)
  then show thesis by (intro that [OF q(1)]) auto
qed

lemma promoted_unique:
  assumes ids: "distinct (map m_id rows)" and one: "primaries_unique rows"
    and own: "\<And>r. r \<in> set rows \<Longrightarrow> m_id r = m_id m \<Longrightarrow> m_person r = m_person m"
  shows "primaries_unique (promoted now m rows)"
proof -
  have same: "m_id r = m_id q" if "r \<in> set rows" "q \<in> set rows" "m_primary r" "m_primary q"
    "m_person r = m_person q" for r q
    using iffD1 [OF primaries_unique_iff [OF ids] one] that by blast
  have "m_id r = m_id q" if r: "r \<in> set (promoted now m rows)" and q: "q \<in> set (promoted now m rows)"
    and p: "m_primary r" "m_primary q" "m_person r = m_person q" for r q
  proof -
    obtain r' where r': "r' \<in> set rows" "m_id r = m_id r'" "m_person r = m_person r'"
      "m_primary r \<longleftrightarrow> m_id r' = m_id m \<or> m_primary r' \<and> m_person r' \<noteq> m_person m"
      by (rule promoted_primary [OF r])
    obtain q' where q': "q' \<in> set rows" "m_id q = m_id q'" "m_person q = m_person q'"
      "m_primary q \<longleftrightarrow> m_id q' = m_id m \<or> m_primary q' \<and> m_person q' \<noteq> m_person m"
      by (rule promoted_primary [OF q])
    have "m_person r' = m_person q'" using p(3) r'(3) q'(3) by simp
    moreover have "m_id r' = m_id m \<or> m_primary r' \<and> m_person r' \<noteq> m_person m" using p(1) r'(4) by blast
    moreover have "m_id q' = m_id m \<or> m_primary q' \<and> m_person q' \<noteq> m_person m" using p(2) q'(4) by blast
    ultimately have "m_id r' = m_id q'"
      using same [OF r'(1) q'(1)] own [OF r'(1)] own [OF q'(1)] by (elim disjE) simp_all
    then show ?thesis by (simp only: r'(2) q'(2))
  qed
  then show ?thesis by (intro iffD2 [OF primaries_unique_iff]) (simp add: ids, blast)
qed

definition with_counter :: "nat \<Rightarrow> int \<Rightarrow> auth_sys \<Rightarrow> auth_sys" where
  "with_counter k n s = s\<lparr>adb := (adb s)\<lparr>c_mfa :=
     update_where (\<lambda>r. m_id r = k) (\<lambda>r. r\<lparr>m_counter := Some n\<rparr>) (c_mfa (adb s))\<rparr>\<rparr>"

lemma check_code_cases:
  obtains (bad) e where "check_code x now m code s = (Inl e, s)"
  | (good) secret where "totp_once x now m secret code = Some (cr_timecode (x_crypto x) now)"
      "check_code x now m code s = (Inr (), with_counter (m_id m) (cr_timecode (x_crypto x) now) s)"
proof (cases "decrypt_secret x (adb s) (case m_secret m of None \<Rightarrow> [] | Some t \<Rightarrow> t)")
  case (Inl e)
  then show thesis
    by (intro bad) (simp add: check_code_def bind_act_def query_res_def)
next
  case (Inr secret)
  show thesis
  proof (cases "totp_once x now m secret code")
    case None
    with Inr show thesis
      by (intro bad) (simp add: check_code_def bind_act_def query_res_def need_def raise_http_def)
  next
    case (Some n)
    then have "n = cr_timecode (x_crypto x) now"
      by (auto simp: totp_once_def Let_def split: if_splits)
    with Some Inr show thesis
      by (intro good [of secret])
        (simp_all add: check_code_def bind_act_def query_res_def need_def set_mfa_def modify_def with_counter_def)
  qed
qed

text \<open>What a confirmation does: it refuses, or promotes the method and demotes the others.\<close>

text \<open>What a confirmation does: it refuses, or promotes the method and demotes the others.\<close>

lemma mfa_confirm_cases:
  assumes "mfa_confirm x now k code who s = (r, s')"
  obtains (refused) e where "r = Inl e" "s' = s"
      "\<And>m. first_where (\<lambda>m. m_id m = k) (c_mfa (adb s)) = Some m \<Longrightarrow> who = None \<or> who = Some (m_person m) \<Longrightarrow>
         m_type m = Totp \<Longrightarrow> fst (check_code x now m code s) \<noteq> Inr ()"
  | (checked) m secret where "m \<in> set (c_mfa (adb s))" "m_id m = k"
      "who = None \<or> who = Some (m_person m)"
      "totp_once x now m secret code = Some (cr_timecode (x_crypto x) now)"
      "s' = s\<lparr>adb := (adb s)\<lparr>c_mfa := promoted now m
         (c_mfa (adb (with_counter k (cr_timecode (x_crypto x) now) s)))\<rparr>\<rparr>"
      "r = (if primaries_unique (c_mfa (adb s'))
            then case first_where (\<lambda>q. m_id q = k) (c_mfa (adb s')) of
              None \<Rightarrow> Inl (HttpError 404 ''MFA method not found'') | Some q \<Rightarrow> Inr q
            else Inl (HttpError 409 ''Primary MFA method already exists for this user''))"
proof (cases "first_where (\<lambda>m. m_id m = k) (c_mfa (adb s))")
  case None
  then have "\<exists>e. mfa_confirm x now k code who s = (Inl e, s)"
    by (simp add: mfa_confirm_def auth_eval)
  with assms None refused show thesis by auto
next
  case (Some m)
  from first_where_Some [OF this] have m: "m \<in> set (c_mfa (adb s))" "m_id m = k" by auto
  show thesis
  proof (cases "(who = None \<or> who = Some (m_person m)) \<and> m_type m = Totp")
    case False
    with Some have "\<exists>e. mfa_confirm x now k code who s = (Inl e, s)"
      by (auto simp: mfa_confirm_def auth_eval)
    with assms refused False Some show thesis by auto
  next
    case True
    note start = this
    show thesis
    proof (cases rule: check_code_cases [of x now m code s])
      case (bad e)
      with Some start have "\<exists>e. mfa_confirm x now k code who s = (Inl e, s)"
        by (auto simp: mfa_confirm_def auth_eval then_act_error)
      with assms refused bad Some show thesis by auto
    next
      case (good secret)
      note step = then_act_step [where m = "check_code x now m code" and w = s, OF good(2)]
      let ?s = "s\<lparr>adb := (adb s)\<lparr>c_mfa := promoted now m
           (c_mfa (adb (with_counter k (cr_timecode (x_crypto x) now) s)))\<rparr>\<rparr>"
      let ?out = "\<lambda>t. if primaries_unique (c_mfa (adb t))
            then case first_where (\<lambda>q. m_id q = k) (c_mfa (adb t)) of
              None \<Rightarrow> Inl (HttpError 404 ''MFA method not found'') | Some q \<Rightarrow> Inr q
            else Inl (HttpError 409 ''Primary MFA method already exists for this user'')"
      from Some start have "mfa_confirm x now k code who s = (?out ?s, ?s)"
        by (simp add: mfa_confirm_def auth_eval step m set_rows promoted_def with_counter_def split: option.split)
      from trans [OF assms [symmetric] this] have "r = ?out ?s" and s': "s' = ?s"
        by (simp_all only: prod.inject)
      then have "r = ?out s'" by (simp only: s')
      with s' show thesis by (intro checked [OF m conjunct1 [OF start] good(1)])
    qed
  qed
qed

lemma later_promoted:
  assumes "later base s" and "m \<in> set (c_mfa (adb s))" and "m_id m = k"
  shows "later base (s\<lparr>adb := (adb s)\<lparr>c_mfa := promoted now m (c_mfa (adb (with_counter k n s)))\<rparr>\<rparr>)"
proof -
  let ?rows = "c_mfa (adb (with_counter k n s))"
  from assms(1) have inv: "auth_inv (adb s)" by (simp add: later_def)
  then have keyed: "keyed m_id (c_next (adb s)) (c_mfa (adb s))" by (simp add: auth_inv_def)
  have k: "keyed m_id (c_next (adb s)) ?rows"
    using keyed by (simp add: with_counter_def keyed_update)
  have "primaries_unique ?rows"
    using inv by (simp add: auth_inv_def with_counter_def primaries_update)
  moreover have "m_person r = m_person m" if r: "r \<in> set ?rows" "m_id r = m_id m" for r
  proof -
    from r obtain q where q: "q \<in> set (c_mfa (adb s))" "m_id q = m_id m" "m_person r = m_person q"
      by (auto simp: with_counter_def set_update_where split: if_splits)
    with keyed_unique [OF keyed q(1) assms(2)] show ?thesis by simp
  qed
  ultimately have "primaries_unique (promoted now m ?rows)"
    using k promoted_unique [of ?rows m now] by (simp add: keyed_def)
  moreover have "keyed m_id (c_next (adb s)) (promoted now m ?rows)"
    unfolding promoted_def using k by (simp add: keyed_update)
  ultimately show ?thesis using assms(1) by (simp add: later_def auth_inv_def)
qed

lemma keeps_mfa_confirm [intro]: "keeps (later base) (mfa_confirm x now k code who)"
  unfolding keeps_def
proof (intro allI impI)
  fix s assume s: "later base s"
  obtain r s' where run: "mfa_confirm x now k code who s = (r, s')" by fastforce
  from run have "later base s'"
  proof (cases rule: mfa_confirm_cases)
    case (checked m secret)
    from later_promoted [OF s checked(1,2)] show ?thesis by (simp only: checked(5))
  qed (simp add: s)
  with run show "later base (snd (mfa_confirm x now k code who s))" by simp
qed

section \<open>The invariant over the handlers\<close>

lemma keeps_option [intro]:
  "keeps P m \<Longrightarrow> (\<And>a. keeps P (f a)) \<Longrightarrow> keeps P (case v of None \<Rightarrow> m | Some a \<Rightarrow> f a)"
  by (simp split: option.split)

lemma keeps_if [intro]: "keeps P m \<Longrightarrow> keeps P k \<Longrightarrow> keeps P (if b then m else k)"
  by simp

lemma keeps_credentials [intro]:
  "keeps (later base) (set_credential k (failed_attempt now))"
  "keeps (later base) (set_credential k (login_ok now))"
  "keeps (later base) (set_credential k (new_password_row x now p))"
  "keeps (later base) (set_credential k (\<lambda>r. unlocked_row (new_password_row x now p r)))"
  by (rule keeps_set_credential;
      simp add: failed_attempt_def login_ok_def new_password_row_def unlocked_row_def Let_def)+

lemma keeps_bad_credentials [intro]: "keeps P bad_credentials"
  unfolding bad_credentials_def by (rule keeps_need)

lemma keeps_login [intro]: "keeps (later base) (login x now u p req provider)"
  unfolding login_def by (intro keeps_bind keeps_then keeps_option keeps_if keeps_need keeps_query
      keeps_bad_credentials keeps_credentials keeps_issue keeps_ret)

lemma keeps_mfa_setup [intro]: "keeps (later base) (mfa_setup x p label)"
  unfolding mfa_setup_def
  by (intro keeps_bind keeps_need keeps_query keeps_draw keeps_insert_mfa keeps_ret) simp_all

lemma keeps_mfa_verify [intro]: "keeps (later base) (mfa_verify x now t code req)"
  unfolding mfa_verify_def
  by (intro keeps_bind keeps_then keeps_need keeps_query keeps_check_code keeps_set_mfa keeps_issue) simp_all

text \<open>A session found live may expire: its row is the only one with its key.\<close>

lemma later_expired:
  assumes "later base s" and "first_where P (c_sessions (adb s)) = Some r" and "live_session r"
  shows "later base (snd (set_session (s_id r) (\<lambda>r. r\<lparr>s_status := Expired\<rparr>) s))"
proof -
  from assms(1) have inv: "auth_inv (adb s)" "advanced base (c_sessions (adb s))" by (simp_all add: later_def)
  from first_where_Some [OF assms(2)] have r: "r \<in> set (c_sessions (adb s))" by simp
  have "moved_on q (q\<lparr>s_status := Expired\<rparr>)"
    if q: "q \<in> set (c_sessions (adb s))" "s_id q = s_id r" for q
  proof -
    have "q = r" using inv(1) keyed_unique [where pk = s_id, OF _ q(1) r q(2)] unfolding auth_inv_def by blast
    with assms(3) show ?thesis by (simp add: moved_on_def live_session_def)
  qed
  with inv(2) have "advanced base (update_where (\<lambda>q. s_id q = s_id r) (\<lambda>q. q\<lparr>s_status := Expired\<rparr>) (c_sessions (adb s)))"
    by (intro advanced_update)
  with inv(1) show ?thesis
    by (simp add: later_def auth_inv_def set_session_def modify_def keyed_update)
qed

lemma keeps_reuse_check [intro]: "keeps (later base) (reuse_check now hashes)"
  unfolding reuse_check_def
  by (intro keeps_bind keeps_query keeps_option keeps_then keeps_need keeps_revoke)

lemma keeps_rotate_session [intro]: "keeps (later base) (rotate_session x now req r)"
  unfolding rotate_session_def issue_access_token_def
  by (intro keeps_bind keeps_then keeps_draw keeps_query keeps_rotate keeps_ret)

lemma keeps_refresh [intro]: "keeps (later base) (refresh x now t req)"
  unfolding keeps_def
proof (intro allI impI)
  fix s assume s: "later base s"
  show "later base (snd (refresh x now t req s))"
  proof (cases "hash_candidates x (adb s) t")
    case (Inl e)
    then show ?thesis by (simp add: refresh_def auth_eval s)
  next
    case (Inr hashes)
    note start = this
    show ?thesis
    proof (cases "first_where (current_session hashes) (c_sessions (adb s))")
      case None
      have "later base (snd (reuse_check now hashes s))"
        using keeps_reuse_check s unfolding keeps_def by blast
      with start None show ?thesis by (simp add: refresh_def auth_eval)
    next
      case (Some r)
      then have live: "live_session r"
        by (auto dest!: first_where_Some simp: current_session_def)
      have "later base (snd (rotate_session x now req r s))"
        using keeps_rotate_session s unfolding keeps_def by blast
      with later_expired [OF s Some live] start Some show ?thesis
        by (simp add: refresh_def auth_eval set_session_def)
    qed
  qed
qed

lemma keeps_logout [intro]: "keeps (later base) (logout x now t)"
  unfolding logout_def
  by (intro keeps_bind keeps_then keeps_query keeps_need keeps_revoke keeps_ret)

lemma keeps_callers_sessions [intro]:
  "keeps (later base) (revoke_session auth now k)"
  "keeps (later base) (revoke_all_other_sessions auth now)"
  unfolding revoke_session_def revoke_all_other_sessions_def
  by (intro keeps_bind keeps_then keeps_query keeps_need keeps_guard keeps_revoke keeps_revoke_where keeps_ret)+

lemma keeps_passwords [intro]:
  "keeps (later base) (change_password x auth now p q)"
  "keeps (later base) (reset_password x now t q)"
  unfolding change_password_def reset_password_def revoke_sessions_for_person_def
  by (intro keeps_bind keeps_then keeps_query keeps_need keeps_guard keeps_credentials keeps_revoke_where keeps_ret)+

text \<open>What a handler commits, the invariant and the order of sessions survive.\<close>

lemma later_rolled_back: "later base s \<Longrightarrow> later base (s'\<lparr>adb := adb s\<rparr>)"
  by (simp add: later_def)

lemma keeps_saved [intro]: "keeps (later base) h \<Longrightarrow> keeps (later base) (saved h)"
  by (fastforce simp: keeps_def saved_def later_rolled_back split: prod.split sum.split err.split)

lemma keeps_saved_on_success [intro]: "keeps (later base) h \<Longrightarrow> keeps (later base) (saved_on_success h)"
  by (fastforce simp: keeps_def saved_on_success_def later_rolled_back split: prod.split sum.split)

lemma keeps_unsaved [intro]: "keeps (later base) (unsaved h)"
  by (auto simp: keeps_def unsaved_def later_rolled_back split: prod.split)

lemma keeps_cookie [intro]: "keeps (later base) h \<Longrightarrow> keeps (later base) (with_refresh_cookie x h)"
  unfolding with_refresh_cookie_def by (intro keeps_bind keeps_query keeps_ret)

text \<open>The requests that change the tables, and the sequences of them.\<close>

datatype auth_request =
    Login string string "string option"
  | MfaSetup auth_info nat "string option"
  | MfaConfirm auth_info nat string
  | MfaVerify string string
  | Refresh "string option"
  | Logout "string option"
  | RevokeSession auth_info nat
  | RevokeOthers auth_info
  | ChangePassword auth_info string string
  | ResetPassword string string
  | WebLogin string string string
  | WebLogout

definition no_reply :: "'a auth_act \<Rightarrow> unit auth_act" where
  "no_reply h = then_act h (ret ())"

fun serve_auth :: "auth_ctx \<Rightarrow> int \<Rightarrow> http_request \<Rightarrow> auth_request \<Rightarrow> unit auth_act" where
  "serve_auth x now req (Login u p provider) = no_reply (api_login x now u p req provider)"
| "serve_auth x now req (MfaSetup auth p label) = no_reply (api_mfa_setup x auth p label)"
| "serve_auth x now req (MfaConfirm auth k code) = no_reply (api_mfa_confirm x auth now k code)"
| "serve_auth x now req (MfaVerify t code) = no_reply (api_mfa_verify x now t code req)"
| "serve_auth x now req (Refresh t) = no_reply (api_refresh x now t req)"
| "serve_auth x now req (Logout t) = no_reply (api_logout x now t req)"
| "serve_auth x now req (RevokeSession auth k) = no_reply (api_revoke_session auth now k)"
| "serve_auth x now req (RevokeOthers auth) = no_reply (api_revoke_all_other_sessions auth now)"
| "serve_auth x now req (ChangePassword auth p q) = no_reply (api_change_password x auth now p q)"
| "serve_auth x now req (ResetPassword t q) = no_reply (api_reset_password x now t q)"
| "serve_auth x now req (WebLogin u p url) = no_reply (login_submit x now u p url req)"
| "serve_auth x now req WebLogout = web_logout x now req"

inductive auth_steps :: "auth_ctx \<Rightarrow> auth_sys \<Rightarrow> auth_sys \<Rightarrow> bool" for x where
  stay: "auth_steps x s s"
| serve: "auth_steps x s s' \<Longrightarrow> serve_auth x now req q s' = (r, s'') \<Longrightarrow> auth_steps x s s''"

lemma keeps_web_logout [intro]: "keeps (later base) (web_logout x now req)"
  using keeps_revoke [where base = base and now = now]
  by (auto simp: keeps_def web_logout_def split: sum.split option.split)

lemma keeps_serve_auth: "keeps (later base) (serve_auth x now req q)"
  unfolding no_reply_def
  by (cases q) (auto simp: no_reply_def api_login_def api_mfa_setup_def api_mfa_confirm_def api_mfa_verify_def
      api_refresh_def api_logout_def api_revoke_session_def api_revoke_all_other_sessions_def
      api_change_password_def api_reset_password_def login_submit_def Let_def
      intro!: keeps_then keeps_saved keeps_saved_on_success keeps_cookie keeps_bind keeps_need keeps_query
        keeps_guard keeps_ret)

lemma auth_steps_later:
  assumes "auth_steps x s s'" and "auth_inv (adb s)"
  shows "later (c_sessions (adb s)) s'"
  using assms
proof (induction rule: auth_steps.induct)
  case (stay s)
  then show ?case by (simp add: later_def)
next
  case (serve s s' now req q r s'')
  then show ?case using keepsD [OF keeps_serve_auth serve.hyps(2)] by simp
qed

end
