(* ===== verification/AuthSafety.thy ===== *)
theory AuthSafety
  imports AuthProofs
begin

text \<open>
  The guarantees of the authentication, over the handlers and every sequence of them: revoked
  sessions stay revoked and are refused, a refresh token that comes twice ends its session, accounts
  lock, a second factor is asked for and its codes count once, and the guards agree with the rows.
\<close>

section \<open>Sessions\<close>

lemma live_usable: "usable_session now r \<Longrightarrow> live_session r \<and> now < s_expires r"
  by (simp add: usable_session_def)


text \<open>Who passes the guards has a usable session of its own.\<close>

lemma user_auth_session:
  assumes "require_user_auth x a now h = Inr info"
  obtains r where "r \<in> set (c_sessions a)" "s_id r = au_session info" "s_person r = au_person info"
    "usable_session now r"
  using assms
  by (auto simp: require_user_auth_def unauthorized_def bind_res_def
      split: option.splits sum.splits prod.splits dest!: first_where_Some)

lemma web_auth_session:
  assumes "require_web_auth x a now req = Shown info"
  obtains r where "r \<in> set (c_sessions a)" "s_id r = au_session info" "s_person r = au_person info"
    "usable_session now r"
  using assms
  by (auto simp: require_web_auth_def find_session_def Let_def
      split: option.splits sum.splits prod.splits if_splits dest!: first_where_Some)

lemma dead_stays_dead:
  assumes "moved_on r r'" and "\<not> usable_session now r"
  shows "\<not> usable_session now r'"
proof -
  have "s_status r' \<noteq> Active" if "s_status r \<noteq> Active"
    using assms(1) that by (cases "s_status r"; cases "s_status r'") (auto simp: moved_on_def less_eq_session_status_def)
  with assms show ?thesis by (auto simp: usable_session_def live_session_def moved_on_def)
qed

lemma dead_never_back:
  assumes "auth_steps x s s'" and "auth_inv (adb s)"
    and "r \<in> set (c_sessions (adb s))" and "\<not> usable_session now r"
    and "q \<in> set (c_sessions (adb s'))" and "s_id q = s_id r"
  shows "\<not> usable_session now q"
proof -
  from auth_steps_later [OF assms(1,2)] assms(3) obtain r' where
    r': "r' \<in> set (c_sessions (adb s'))" "moved_on r r'" and inv: "auth_inv (adb s')"
    by (auto simp: later_def advanced_def)
  have "s_id q = s_id r'" using r'(2) assms(6) by (simp add: moved_on_def)
  with inv r'(1) assms(5) have "q = r'" unfolding auth_inv_def
    using keyed_unique [where pk = s_id] by blast
  with dead_stays_dead [OF r'(2) assms(4)] show ?thesis by simp
qed

text \<open>
  Property C14. Sessions only move towards their end: after any sequence of requests, whatever they
  carry and however they end, the tables are well formed and every session there was is still
  there, of the same person with the same expiry, its status the same or further on from active to
  expired to revoked, and a revocation is never taken back.
\<close>

theorem sessions_never_revive:
  assumes "auth_steps x s s'" and "auth_inv (adb s)"
  shows "auth_inv (adb s') \<and> (\<forall>r\<in>set (c_sessions (adb s)). \<exists>r'\<in>set (c_sessions (adb s')).
    s_id r' = s_id r \<and> s_person r' = s_person r \<and> s_expires r' = s_expires r \<and>
    s_status r \<le> s_status r' \<and> (s_revoked r \<noteq> None \<longrightarrow> s_revoked r' \<noteq> None))"
  using auth_steps_later [OF assms] by (simp add: later_def advanced_def moved_on_def)

text \<open>
  Property C15. A session that is revoked, expired or past its end is refused: after any further
  requests of the authentication flow (logins, second factors, refreshes, logouts, sessions,
  passwords, resets, the web login) no access token of it passes the bearer guard or the guard of the web
  pages. The administration of sessions is not among these requests: its update can make a session
  active again.
\<close>

theorem dead_session_refused:
  assumes "auth_steps x s s'" and "auth_inv (adb s)"
    and "r \<in> set (c_sessions (adb s))" and "\<not> usable_session now r"
  shows "(\<forall>info. require_user_auth x (adb s') now h = Inr info \<longrightarrow> au_session info \<noteq> s_id r) \<and>
    (\<forall>info. require_web_auth x (adb s') now req = Shown info \<longrightarrow> au_session info \<noteq> s_id r)"
proof (intro conjI allI impI notI)
  fix info assume ok: "require_user_auth x (adb s') now h = Inr info" and k: "au_session info = s_id r"
  from ok obtain q where "q \<in> set (c_sessions (adb s'))" "s_id q = au_session info" "usable_session now q"
    by (rule user_auth_session)
  with dead_never_back [OF assms] k show False by simp
next
  fix info assume ok: "require_web_auth x (adb s') now req = Shown info" and k: "au_session info = s_id r"
  from ok obtain q where "q \<in> set (c_sessions (adb s'))" "s_id q = au_session info" "usable_session now q"
    by (rule web_auth_session)
  with dead_never_back [OF assms] k show False by simp
qed

section \<open>Passwords\<close>

text \<open>A new password revokes every live session of its person.\<close>

text \<open>The tables after it, and after a new password.\<close>

definition logged_out :: "nat \<Rightarrow> int \<Rightarrow> auth_sys \<Rightarrow> auth_sys" where
  "logged_out p now s = s\<lparr>adb := (adb s)\<lparr>c_sessions :=
     update_where (\<lambda>r. s_person r = p \<and> live_session r) (revoked_at now) (c_sessions (adb s))\<rparr>\<rparr>"

lemma run_revoke [auth_eval]:
  "then_act (revoke_sessions_for_person p None now) k s = k (logged_out p now s)"
  by (simp add: revoke_sessions_for_person_def revoke_where_def logged_out_def then_act_def bind_act_def
      query_def modify_def)




text \<open>Nothing of these changes the settings, so tokens and hashes mean the same afterwards.\<close>

lemma config_settings:
  assumes "c_settings a = c_settings b"
  shows "decode_jwt x a = decode_jwt x b" and "hash_token x a = hash_token x b"
    and "hash_candidates x a = hash_candidates x b"
proof -
  have v: "setting_value a k = setting_value b k" for k
    by (simp add: setting_value_def assms)
  then show "decode_jwt x a = decode_jwt x b"
    by (simp add: fun_eq_iff decode_jwt_def jwt_secret_def jwt_algorithm_def config_def)
  from v show h: "hash_token x a = hash_token x b"
    by (simp add: fun_eq_iff hash_token_def session_hash_secret_def)
  from h show "hash_candidates x a = hash_candidates x b"
    by (simp add: fun_eq_iff hash_candidates_def)
qed

lemma reset_password_Inr:
  assumes "reset_password x now tok p s = (Inr t, s')"
  shows "\<exists>cl who email q c. decode_jwt x (adb s) tok ''password_reset'' now = Inr cl \<and>
    cl_sub cl = Some who \<and> py_or (cl_email cl) None = Some email \<and>
    find_person (adb s) who = Some q \<and> p_email q = email \<and>
    first_where (active_credential (p_id q)) (c_credentials (adb s)) = Some c \<and> t = now \<and>
    s' = logged_out (p_id q) now (s\<lparr>adb := (adb s)\<lparr>c_credentials :=
      update_where (\<lambda>r. u_id r = u_id c) (\<lambda>r. unlocked_row (new_password_row x now p r)) (c_credentials (adb s))\<rparr>\<rparr>)"
  using assms
  by (auto simp: reset_password_def auth_eval set_rows split: option.splits sum.splits if_splits)

lemma reset_password_run:
  assumes "decode_jwt x (adb s) tok ''password_reset'' now = Inr cl" "cl_sub cl = Some who"
    "py_or (cl_email cl) None = Some email" "find_person (adb s) who = Some q" "p_email q = email"
    "first_where (active_credential (p_id q)) (c_credentials (adb s)) = Some c"
  shows "reset_password x now tok p s = (Inr now, logged_out (p_id q) now (s\<lparr>adb := (adb s)\<lparr>c_credentials :=
      update_where (\<lambda>r. u_id r = u_id c) (\<lambda>r. unlocked_row (new_password_row x now p r)) (c_credentials (adb s))\<rparr>\<rparr>))"
  using assms by (simp add: reset_password_def auth_eval set_rows)

text \<open>
  A reset token is not used up: after a successful reset the same token, while it has
  not expired, sets another password once more.
\<close>

theorem reset_token_reusable:
  assumes "api_reset_password x now tok p s = (Inr t, s1)"
    and "decode_jwt x (adb s) tok ''password_reset'' later_on = decode_jwt x (adb s) tok ''password_reset'' now"
  shows "\<exists>s2. api_reset_password x later_on tok q s1 = (Inr later_on, s2) \<and>
    (\<exists>c\<in>set (c_credentials (adb s2)). u_hash c = Some (cr_hash_password (x_crypto x) q))"
proof -
  from assms(1) have "reset_password x now tok p s = (Inr t, s1)"
    by (auto simp: api_reset_password_def saved_on_success_def split: prod.splits sum.splits)
  from reset_password_Inr [OF this] obtain cl who email z c where
    cl: "decode_jwt x (adb s) tok ''password_reset'' now = Inr cl" "cl_sub cl = Some who"
      "py_or (cl_email cl) None = Some email" "find_person (adb s) who = Some z" "p_email z = email"
      "first_where (active_credential (p_id z)) (c_credentials (adb s)) = Some c" and
    s1: "s1 = logged_out (p_id z) now (s\<lparr>adb := (adb s)\<lparr>c_credentials :=
      update_where (\<lambda>r. u_id r = u_id c) (\<lambda>r. unlocked_row (new_password_row x now p r)) (c_credentials (adb s))\<rparr>\<rparr>)"
    by blast
  let ?f = "\<lambda>w r. unlocked_row (new_password_row x now w r)"
  let ?c = "unlocked_row (new_password_row x now p c)"
  have same: "c_settings (adb s1) = c_settings (adb s)" "c_people (adb s1) = c_people (adb s)"
    "c_credentials (adb s1) = update_where (\<lambda>r. u_id r = u_id c) (?f p) (c_credentials (adb s))"
    by (simp_all add: s1 logged_out_def)
  have found: "first_where (active_credential (p_id z)) (c_credentials (adb s1)) = Some ?c"
    unfolding same(3) using cl(6)
    by (subst first_where_update_id)
      (simp_all add: active_credential_def unlocked_row_def new_password_row_def)
  have "decode_jwt x (adb s1) tok ''password_reset'' later_on = Inr cl"
    using config_settings(1) [OF same(1)] assms(2) cl(1) by simp
  from reset_password_run [OF this cl(2,3) _ cl(5) found, of q] same(2) cl(4)
  have run: "reset_password x later_on tok q s1 = (Inr later_on, logged_out (p_id z) later_on (s1\<lparr>adb := (adb s1)\<lparr>c_credentials :=
      update_where (\<lambda>r. u_id r = u_id ?c) (\<lambda>r. unlocked_row (new_password_row x later_on q r)) (c_credentials (adb s1))\<rparr>\<rparr>))"
    by (simp add: find_person_def)
  have memb: "?c \<in> set (c_credentials (adb s1))" using first_where_Some [OF found] by simp
  have "\<exists>c\<in>set (update_where (\<lambda>r. u_id r = u_id ?c) (\<lambda>r. unlocked_row (new_password_row x later_on q r)) (c_credentials (adb s1))).
      u_hash c = Some (cr_hash_password (x_crypto x) q)"
    by (rule bexI [OF _ update_where_hit [OF memb]]) (simp_all add: unlocked_row_def new_password_row_def)
  with run show ?thesis
    by (simp add: api_reset_password_def saved_on_success_def logged_out_def)
qed

section \<open>Refresh tokens\<close>

lemma run_saved:
  "saved h s = (Inr r, s') \<longleftrightarrow> h s = (Inr r, s')"
  "h s = (Inl (HttpError c d), s') \<Longrightarrow> saved h s = (Inl (HttpError c d), s')"
  by (auto simp: saved_def split: prod.splits sum.splits err.splits)

lemma saved_error:
  "h s = (Inl e, s') \<Longrightarrow> fst (saved h s) = Inl e \<and> (adb (snd (saved h s)) = adb s' \<or> adb (snd (saved h s)) = adb s)"
  by (simp add: saved_def split: err.split)

lemma api_refresh_body:
  assumes "t \<noteq> []"
  shows "api_refresh x now (Some t) req = saved (with_refresh_cookie x (refresh x now t req))"
  by (rule ext) (simp add: api_refresh_def saved_def auth_eval resolve_refresh_token_def py_or_def assms)

text \<open>The session a refresh rotates, and the tables after it.\<close>

definition rotated :: "int \<Rightarrow> http_request \<Rightarrow> string \<Rightarrow> auth_session \<Rightarrow> auth_sys \<Rightarrow> auth_sys" where
  "rotated now req h r s = s\<lparr>draws := Suc (draws s), adb := (adb s)\<lparr>c_sessions :=
     update_where (\<lambda>q. s_id q = s_id r) (rotate now req h) (c_sessions (adb s))\<rparr>\<rparr>"

lemma reuse_check_fails: "\<exists>e s'. reuse_check now hs s = (Inl e, s')"
  by (simp add: reuse_check_def auth_eval set_session_def split: option.split)

lemma refresh_Inr:
  assumes "refresh x now t req s = (Inr reply, s')"
  shows "\<exists>hs r h. hash_candidates x (adb s) t = Inr hs \<and>
    first_where (current_session hs) (c_sessions (adb s)) = Some r \<and> now < s_expires r \<and>
    hash_token x (adb s) (x_random x (draws s)) = Inr h \<and> s' = rotated now req h r s \<and>
    tk_refresh reply = Some (x_random x (draws s))"
proof (cases "hash_candidates x (adb s) t")
  case (Inr hs)
  show ?thesis
  proof (cases "first_where (current_session hs) (c_sessions (adb s))")
    case None
    with Inr assms reuse_check_fails [of now hs s] show ?thesis
      by (auto simp: refresh_def auth_eval)
  next
    case (Some r)
    with Inr assms show ?thesis
      by (auto simp: refresh_def auth_eval rotate_session_def issue_access_token_def set_session_def
          rotated_def tokens_def split: if_splits sum.splits)
  qed
qed (use assms in \<open>simp add: refresh_def auth_eval\<close>)

lemma rotated_sessions:
  assumes "auth_inv (adb s)" and "r \<in> set (c_sessions (adb s))"
    and "q \<in> set (c_sessions (adb (rotated now req h r s)))"
  shows "q = rotate now req h r \<or> q \<in> set (c_sessions (adb s)) \<and> s_id q \<noteq> s_id r"
proof -
  from assms(3) have "q \<in> set (update_where (\<lambda>q. s_id q = s_id r) (rotate now req h) (c_sessions (adb s)))"
    by (simp add: rotated_def)
  then show ?thesis
  proof (cases rule: update_where_cases)
    case (updated z)
    have "keyed s_id (c_next (adb s)) (c_sessions (adb s))" using assms(1) by (simp add: auth_inv_def)
    from keyed_unique [OF this updated(1) assms(2) updated(2)] updated(3) show ?thesis by simp
  qed simp
qed

text \<open>
  Property C17. A refresh token works once: a refresh gives the client a new token, and when the old
  one comes again, from whom it may be, it is refused, its session is revoked, and the revocation
  is committed although the request fails. The hypotheses say what the hash is for: the token's
  hashes belong to one live session, and the new token's hash is none of them.
\<close>

theorem refresh_reuse_ends_session:
  assumes "api_refresh x now (Some t) req s = (Inr reply, s1)" and "t \<noteq> []" and inv: "auth_inv (adb s)"
    and hs: "hash_candidates x (adb s) t = Inr hs"
    and other: "hash_token x (adb s) (x_random x (draws s)) = Inr h" "h \<notin> set hs"
    and only: "\<forall>r\<in>set (c_sessions (adb s)). \<forall>q\<in>set (c_sessions (adb s)).
      current_session hs r \<and> (current_session hs q \<or> replayed_session hs q) \<longrightarrow> q = r"
  shows "\<exists>r\<in>set (c_sessions (adb s)). current_session hs r \<and> now < s_expires r \<and>
    (x_random x (draws s) \<noteq> [] \<longrightarrow> map_option snd (rp_cookie reply) = Some (x_random x (draws s))) \<and>
    (\<exists>s2. api_refresh x again (Some t) req' s1 = (Inl (HttpError 401 ''Refresh token reuse detected''), s2) \<and>
      (\<forall>q\<in>set (c_sessions (adb s2)). s_id q = s_id r \<longrightarrow> s_status q = Revoked \<and> s_revoked q = Some again))"
proof -
  from assms(1) obtain rep where run: "refresh x now t req s = (Inr rep, s1)" and
    cookie: "x_random x (draws s) \<noteq> [] \<longrightarrow> tk_refresh rep = Some (x_random x (draws s)) \<longrightarrow>
      map_option snd (rp_cookie reply) = Some (x_random x (draws s))"
    by (auto simp: api_refresh_body [OF assms(2)] run_saved with_refresh_cookie_def bind_act_Inr query_def py_or_def)
  from refresh_Inr [OF run] hs other(1) obtain r where
    r: "first_where (current_session hs) (c_sessions (adb s)) = Some r" "now < s_expires r" and
    s1: "s1 = rotated now req h r s" and new: "tk_refresh rep = Some (x_random x (draws s))"
    by auto
  from first_where_Some [OF r(1)] have rs: "r \<in> set (c_sessions (adb s))" and cur: "current_session hs r" by auto
  let ?r = "rotate now req h r"
  have r1: "?r \<in> set (c_sessions (adb s1))" and rep1: "replayed_session hs ?r"
    using rs cur update_where_hit [OF rs, of "\<lambda>q. s_id q = s_id r" "rotate now req h"]
    by (simp_all add: s1 rotated_def replayed_session_def current_session_def rotate_def live_session_def)
  have sole: "q = r" if "q \<in> set (c_sessions (adb s))" "current_session hs q \<or> replayed_session hs q" for q
    using only rs cur that by blast
  have fresh_hash: "\<not> current_session hs ?r" using other(2) by (simp add: current_session_def rotate_def)
  have whose: "q = ?r \<or> \<not> (current_session hs q \<or> replayed_session hs q)" if q: "q \<in> set (c_sessions (adb s1))" for q
    using rotated_sessions [OF inv rs q [unfolded s1]] sole by blast
  have none: "\<not> current_session hs q" and one: "replayed_session hs q \<Longrightarrow> q = ?r"
    if "q \<in> set (c_sessions (adb s1))" for q
    using whose [OF that] fresh_hash by blast+
  have "first_where (current_session hs) (c_sessions (adb s1)) = None"
    using none by (simp add: first_where_None)
  moreover obtain q where q: "first_where (replayed_session hs) (c_sessions (adb s1)) = Some q"
    using r1 rep1 by (cases "first_where (replayed_session hs) (c_sessions (adb s1))") (auto simp: first_where_None)
  moreover have "s_id q = s_id r"
  proof -
    have "q = ?r" using first_where_Some [OF q] one by blast
    then show ?thesis by (simp add: rotate_def)
  qed
  moreover have "hash_candidates x (adb s1) t = Inr hs"
    using config_settings(3) [of "adb s1" "adb s"] hs by (simp add: s1 rotated_def)
  ultimately have "refresh x again t req' s1 = (Inl (HttpError 401 ''Refresh token reuse detected''),
      s1\<lparr>adb := (adb s1)\<lparr>c_sessions := update_where (\<lambda>z. s_id z = s_id r) (revoked_at again) (c_sessions (adb s1))\<rparr>\<rparr>)"
    by (simp add: refresh_def auth_eval reuse_check_def set_session_def)
  then have "api_refresh x again (Some t) req' s1 = (Inl (HttpError 401 ''Refresh token reuse detected''),
      s1\<lparr>adb := (adb s1)\<lparr>c_sessions := update_where (\<lambda>z. s_id z = s_id r) (revoked_at again) (c_sessions (adb s1))\<rparr>\<rparr>)"
    by (simp add: api_refresh_body [OF assms(2)] run_saved with_refresh_cookie_def bind_act_error)
  moreover have "s_status z = Revoked \<and> s_revoked z = Some again"
    if "z \<in> set (update_where (\<lambda>z. s_id z = s_id r) (revoked_at again) (c_sessions (adb s1)))" "s_id z = s_id r" for z
    using that(1) by (cases rule: update_where_cases) (use that(2) in \<open>auto simp: revoked_at_def\<close>)
  ultimately show ?thesis using rs cur r(2) cookie new by auto
qed

section \<open>Login\<close>

text \<open>Logins of one name in a row, each with its instant and password.\<close>

definition attempts :: "auth_ctx \<Rightarrow> string \<Rightarrow> http_request \<Rightarrow> (int \<times> string) list \<Rightarrow> auth_sys \<Rightarrow> auth_sys" where
  "attempts x name req ws s = fold (\<lambda>w s. snd (api_login x (fst w) name (snd w) req None s)) ws s"

abbreviation found_credential :: "string \<Rightarrow> auth_sys \<Rightarrow> credential option" where
  "found_credential name s \<equiv> first_where (login_credential name Local) (c_credentials (adb s))"

lemma failed_login:
  assumes "found_credential name s = Some c" and "\<not> is_locked t c" and "\<not> verify_password x p (u_hash c)"
  shows "found_credential name (snd (api_login x t name p req None s)) = Some (failed_attempt t c)"
proof -
  have "login x t name p req None s = (Inl (HttpError 401 ''Invalid credentials''),
      s\<lparr>adb := (adb s)\<lparr>c_credentials := update_where (\<lambda>r. u_id r = u_id c) (failed_attempt t) (c_credentials (adb s))\<rparr>\<rparr>)"
    using assms by (simp add: login_def auth_eval provider_named_def py_or_def set_rows bad_credentials_def)
  then have "snd (api_login x t name p req None s) =
      s\<lparr>adb := (adb s)\<lparr>c_credentials := update_where (\<lambda>r. u_id r = u_id c) (failed_attempt t) (c_credentials (adb s))\<rparr>\<rparr>"
    by (simp add: api_login_def with_refresh_cookie_def bind_act_error run_saved(2))
  moreover have "login_credential name Local (failed_attempt t r) = login_credential name Local r" for r
    by (simp add: login_credential_def failed_attempt_def Let_def)
  ultimately show ?thesis using assms(1) by (simp add: first_where_update_id)
qed

lemma attempts_unlocked:
  assumes "found_credential name s = Some c" and "u_locked c = None" and "u_failed c + int (length ws) < 5"
    and "\<forall>w\<in>set ws. \<not> verify_password x (snd w) (u_hash c)"
  shows "found_credential name (attempts x name req ws s) = Some (c\<lparr>u_failed := u_failed c + int (length ws)\<rparr>)"
  using assms
proof (induction ws arbitrary: s c)
  case (Cons w ws)
  let ?s = "snd (api_login x (fst w) name (snd w) req None s)"
  let ?c = "c\<lparr>u_failed := u_failed c + 1\<rparr>"
  have "failed_attempt (fst w) c = ?c" using Cons.prems(3) by (simp add: failed_attempt_def)
  then have "found_credential name ?s = Some ?c"
    using failed_login [OF Cons.prems(1), of "fst w" x "snd w" req] Cons.prems(2,4) by (simp add: is_locked_def)
  from Cons.IH [OF this] Cons.prems show ?case by (simp add: attempts_def algebra_simps)
qed (simp add: attempts_def)

text \<open>
  Property C18. Five wrong passwords lock the account: from a clean credential, after five failing
  logins at whatever instants the account is locked for fifteen minutes from the last one; until
  then every login is refused, with the right password too and with the same answer as before,
  and leaves the tables as they are.
\<close>

theorem five_failures_lock:
  assumes "found_credential name s = Some c" and "u_failed c = 0" and "u_locked c = None"
    and "length ws = 5" and "\<forall>w\<in>set ws. \<not> verify_password x (snd w) (u_hash c)"
    and "now < fst (last ws) + 15 * 60"
  shows "api_login x now name p req None (attempts x name req' ws s) =
    (Inl (HttpError 401 ''Invalid credentials''), attempts x name req' ws s)"
proof -
  let ?ws = "butlast ws" and ?w = "last ws"
  have ws: "ws = ?ws @ [?w]" using assms(4) by (cases ws rule: rev_cases) auto
  let ?s = "attempts x name req' ?ws s" and ?c = "c\<lparr>u_failed := 4\<rparr>"
  have "found_credential name ?s = Some ?c"
    using attempts_unlocked [OF assms(1,3), of ?ws x req'] assms(2,4,5) by (auto dest: in_set_butlastD)
  moreover have "\<not> verify_password x (snd ?w) (u_hash ?c)" using assms(4,5) by (cases ws rule: rev_cases) auto
  ultimately have "found_credential name (snd (api_login x (fst ?w) name (snd ?w) req' None ?s)) =
      Some (failed_attempt (fst ?w) ?c)"
    using assms(3) by (intro failed_login) (simp_all add: is_locked_def)
  moreover have "attempts x name req' ws s = snd (api_login x (fst ?w) name (snd ?w) req' None ?s)"
    by (subst ws) (simp add: attempts_def)
  ultimately have found: "found_credential name (attempts x name req' ws s) = Some (failed_attempt (fst ?w) ?c)"
    by simp
  have "is_locked now (failed_attempt (fst ?w) ?c)"
    using assms(6) by (simp add: is_locked_def failed_attempt_def Let_def)
  with found have "login x now name p req None (attempts x name req' ws s) =
      (Inl (HttpError 401 ''Invalid credentials''), attempts x name req' ws s)"
    by (simp add: login_def auth_eval provider_named_def py_or_def bad_credentials_def)
  then show ?thesis by (simp add: api_login_def with_refresh_cookie_def bind_act_error run_saved(2))
qed

text \<open>
  Where a second factor is set up a password alone opens nothing: whatever the login
  answers, no session appears, and a normal answer carries no access token and no cookie, only the
  token to continue with.
\<close>

theorem login_asks_second_factor:
  assumes "provider_named provider = Some kind"
    and "first_where (login_credential name kind) (c_credentials (adb s)) = Some c"
    and "primary_totp_method (adb s) (u_person c) = Some m"
  shows "c_sessions (adb (snd (api_login x now name p req provider s))) = c_sessions (adb s) \<and>
    (case fst (api_login x now name p req provider s) of
       Inl _ \<Rightarrow> True
     | Inr r \<Rightarrow> tk_mfa_required (rp_body r) \<and> tk_access (rp_body r) = None \<and> tk_refresh (rp_body r) = None \<and>
         rp_cookie r = None)"
proof -
  let ?a = "(adb s)\<lparr>c_credentials := update_where (\<lambda>r. u_id r = u_id c) (login_ok now) (c_credentials (adb s))\<rparr>"
  have "primary_totp_method ?a (u_person c) = Some m" using assms(3) by (simp add: primary_totp_method_def)
  then have "\<exists>r s'. login x now name p req provider s = (r, s') \<and> c_sessions (adb s') = c_sessions (adb s) \<and>
      (\<forall>t. r = Inr t \<longrightarrow> (\<exists>k. t = \<lparr>tk_mfa_required = True, tk_mfa_token = Some k, tk_access = None, tk_refresh = None\<rparr>))"
    using assms(1,2) by (auto simp: login_def auth_eval set_rows bad_credentials_def split: sum.split)
  then obtain r s' where run: "login x now name p req provider s = (r, s')" "c_sessions (adb s') = c_sessions (adb s)"
    and r: "\<And>t. r = Inr t \<Longrightarrow> \<exists>k. t = \<lparr>tk_mfa_required = True, tk_mfa_token = Some k, tk_access = None, tk_refresh = None\<rparr>"
    by blast
  show ?thesis
  proof (cases r)
    case (Inl e)
    with run(1) have "with_refresh_cookie x (login x now name p req provider) s = (Inl e, s')"
      by (simp add: with_refresh_cookie_def bind_act_error)
    from saved_error [where h = "with_refresh_cookie x (login x now name p req provider)" and s = s, OF this] run(2) show ?thesis by (auto simp: api_login_def)
  next
    case (Inr t)
    from r [OF this] obtain k where
      t: "t = \<lparr>tk_mfa_required = True, tk_mfa_token = Some k, tk_access = None, tk_refresh = None\<rparr>" ..
    from run(1) have "api_login x now name p req provider s = (Inr \<lparr>rp_body = t, rp_cookie = None\<rparr>, s')"
      by (simp add: api_login_def run_saved with_refresh_cookie_def bind_act_def query_def py_or_def Inr t)
    with run(2) t show ?thesis by simp
  qed
qed

section \<open>One-time codes\<close>

lemma issue_frame:
  assumes "issue_tokens x now p req s = (r, s')"
  shows "c_mfa (adb s') = c_mfa (adb s)" and "c_settings (adb s') = c_settings (adb s)"
    and "c_credentials (adb s') = c_credentials (adb s)"
  using assms by (auto simp: issue_tokens_def issue_access_token_def auth_eval split: sum.splits)

lemma mfa_verify_Inr:
  assumes "mfa_verify x now tok code req s = (Inr reply, s')"
  shows "\<exists>cl who m secret. decode_jwt x (adb s) tok ''mfa'' now = Inr cl \<and> cl_sub cl = Some who \<and>
    primary_totp_method (adb s) who = Some m \<and>
    totp_once x now m secret code = Some (cr_timecode (x_crypto x) now) \<and>
    c_settings (adb s') = c_settings (adb s) \<and>
    c_mfa (adb s') = update_where (\<lambda>r. m_id r = m_id m) (\<lambda>r. r\<lparr>m_used := Some now\<rparr>)
      (c_mfa (adb (with_counter (m_id m) (cr_timecode (x_crypto x) now) s)))"
proof -
  from assms obtain cl who m where
    start: "decode_jwt x (adb s) tok ''mfa'' now = Inr cl" "cl_sub cl = Some who"
      "primary_totp_method (adb s) who = Some m" and
    run: "then_act (check_code x now m code)
      (then_act (set_mfa (m_id m) (\<lambda>r. r\<lparr>m_used := Some now\<rparr>)) (issue_tokens x now who req)) s = (Inr reply, s')"
    by (auto simp: mfa_verify_def auth_eval split: sum.splits option.splits)
  show ?thesis
  proof (cases rule: check_code_cases [of x now m code s])
    case (bad e)
    note stop = then_act_error [where m = "check_code x now m code" and w = s, OF bad]
    from run show ?thesis unfolding stop by simp
  next
    case (good secret)
    note step = then_act_step [where m = "check_code x now m code" and w = s, OF good(2)]
    let ?s = "with_counter (m_id m) (cr_timecode (x_crypto x) now) s"
    from run have "issue_tokens x now who req (?s\<lparr>adb := (adb ?s)\<lparr>c_mfa :=
        update_where (\<lambda>r. m_id r = m_id m) (\<lambda>r. r\<lparr>m_used := Some now\<rparr>) (c_mfa (adb ?s))\<rparr>\<rparr>) = (Inr reply, s')"
      unfolding step by (simp add: set_mfa_def auth_eval)
    from issue_frame [OF this] start good(1) show ?thesis by (auto simp: with_counter_def)
  qed
qed

text \<open>
  Property C19. A one-time code counts once: after a successful second step no code of the same or
  an earlier time step is accepted for that person, whatever token and code come; the refused
  request changes nothing.
\<close>

theorem totp_code_once:
  assumes "api_mfa_verify x now tok code req s = (Inr reply, s1)"
    and "decode_jwt x (adb s) tok ''mfa'' now = Inr cl" and "cl_sub cl = Some who"
    and "decode_jwt x (adb s) tok' ''mfa'' again = Inr cl'" and "cl_sub cl' = Some who"
    and "cr_timecode (x_crypto x) again \<le> cr_timecode (x_crypto x) now"
  shows "\<exists>e. api_mfa_verify x again tok' code' req' s1 = (Inl e, s1)"
proof -
  from assms(1) obtain rep where "mfa_verify x now tok code req s = (Inr rep, s1)"
    by (auto simp: api_mfa_verify_def saved_on_success_def with_refresh_cookie_def bind_act_Inr query_def
        split: prod.splits sum.splits)
  from mfa_verify_Inr [OF this] assms(2,3) obtain m where
    m: "primary_totp_method (adb s) who = Some m" and
    settings: "c_settings (adb s1) = c_settings (adb s)" and
    rows: "c_mfa (adb s1) = update_where (\<lambda>r. m_id r = m_id m) (\<lambda>r. r\<lparr>m_used := Some now\<rparr>)
      (c_mfa (adb (with_counter (m_id m) (cr_timecode (x_crypto x) now) s)))"
    by auto
  let ?m = "m\<lparr>m_counter := Some (cr_timecode (x_crypto x) now), m_used := Some now\<rparr>"
  have found: "primary_totp_method (adb s1) who = Some ?m"
    using m unfolding primary_totp_method_def rows
    by (simp add: with_counter_def first_where_update_id is_primary_totp_def)
  have old: "totp_once x again ?m secret code' = None" for secret
    using assms(6) by (simp add: totp_once_def Let_def)
  have "\<exists>e. check_code x again ?m code' s1 = (Inl e, s1)"
    by (cases rule: check_code_cases [of x again ?m code' s1]) (simp_all add: old)
  then obtain e where e: "check_code x again ?m code' s1 = (Inl e, s1)" ..
  note stop = then_act_error [where m = "check_code x again ?m code'" and w = s1, OF e]
  have "decode_jwt x (adb s1) tok' ''mfa'' again = Inr cl'"
    using config_settings(1) [OF settings] assms(4) by simp
  with found assms(5) have "mfa_verify x again tok' code' req' s1 = (Inl e, s1)"
    by (simp add: mfa_verify_def auth_eval stop)
  then show ?thesis
    by (simp add: api_mfa_verify_def saved_on_success_def with_refresh_cookie_def bind_act_error)
qed

lemma promoted_row:
  assumes "r \<in> set (promoted now m rows)" and "m_id r = m_id m"
  shows "m_primary r \<and> m_enabled r \<and> (\<exists>q\<in>set rows. m_id q = m_id m \<and> m_person r = m_person q)"
  using assms(1) unfolding promoted_def
proof (cases rule: update_where_cases)
  case (updated q)
  from updated(1) show ?thesis
    by (cases rule: update_where_cases) (use updated(2,3) in auto)
qed (use assms(2) in simp)

lemma promoted_inv:
  assumes "auth_inv (adb s)" and "m \<in> set (c_mfa (adb s))" and "m_id m = k"
  shows "auth_inv ((adb s)\<lparr>c_mfa := promoted now m (c_mfa (adb (with_counter k n s)))\<rparr>)"
proof -
  have "later [] s" using assms(1) by (simp add: later_def advanced_def)
  from later_promoted [OF this assms(2,3)] show ?thesis by (simp add: later_def)
qed

lemma mfa_confirm_not_refused:
  assumes "auth_inv (adb s)" and "mfa_confirm x now k code (Some who) s = (Inl e, s')"
    and "m \<in> set (c_mfa (adb s))" "m_id m = k" "m_person m = who" "m_type m = Totp"
  shows "fst (check_code x now m code s) \<noteq> Inr ()"
  using assms(2)
proof (cases rule: mfa_confirm_cases)
  case (refused e')
  have "first_where (\<lambda>m. m_id m = k) (c_mfa (adb s)) = Some m"
    by (rule first_where_key [OF auth_invD(2) [OF assms(1)] assms(3,4)])
  from refused(3) [OF this] assms(5,6) show ?thesis by simp
next
  case (checked z secret)
  from promoted_inv [OF assms(1) checked(1,2)] have "primaries_unique (c_mfa (adb s'))"
    by (simp add: auth_inv_def checked(5))
  moreover have "k \<in> m_id ` set (c_mfa (adb s'))"
  proof -
    have "map m_id (c_mfa (adb s')) = map m_id (c_mfa (adb s))"
      by (simp add: checked(5) with_counter_def map_update_where)
    then have "m_id ` set (c_mfa (adb s')) = m_id ` set (c_mfa (adb s))" by (metis image_set)
    with assms(3,4) show ?thesis by auto
  qed
  then have "first_where (\<lambda>q. m_id q = k) (c_mfa (adb s')) \<noteq> None"
    by (auto simp: first_where_None)
  ultimately show ?thesis using checked(6) by auto
qed

lemma mfa_confirm_Inr:
  assumes "auth_inv (adb s)" and "mfa_confirm x now k code (Some who) s = (Inr q, s')"
  shows "m_id q = k \<and> m_person q = who \<and> m_primary q \<and> m_enabled q \<and> q \<in> set (c_mfa (adb s')) \<and>
    (\<forall>z\<in>set (c_mfa (adb s')). m_primary z \<and> m_person z = m_person q \<longrightarrow> z = q)"
  using assms(2)
proof (cases rule: mfa_confirm_cases)
  case (checked m secret)
  from promoted_inv [OF assms(1) checked(1,2)] have inv: "auth_inv (adb s')"
    by (simp add: checked(5))
  then have ids: "distinct (map m_id (c_mfa (adb s')))" by (simp add: auth_inv_def keyed_def)
  from checked(6) have "first_where (\<lambda>q. m_id q = k) (c_mfa (adb s')) = Some q"
    by (simp split: if_splits option.splits)
  from first_where_Some [OF this] have q: "q \<in> set (c_mfa (adb s'))" "m_id q = k" by auto
  have "q \<in> set (promoted now m (c_mfa (adb (with_counter k (cr_timecode (x_crypto x) now) s))))"
    using q(1) by (simp add: checked(5))
  from promoted_row [OF this] q(2) checked(2) obtain z where
    new: "m_primary q" "m_enabled q" and z: "z \<in> set (c_mfa (adb (with_counter k (cr_timecode (x_crypto x) now) s)))"
      "m_id z = k" "m_person q = m_person z"
    by auto
  from z(1) have "z \<in> set (update_where (\<lambda>r. m_id r = k) (\<lambda>r. r\<lparr>m_counter := Some (cr_timecode (x_crypto x) now)\<rparr>) (c_mfa (adb s)))"
    by (simp add: with_counter_def)
  then obtain y where y: "y \<in> set (c_mfa (adb s))" "m_id y = k" "m_person z = m_person y"
    by (cases rule: update_where_cases) (use z(2) in auto)
  have "y = m" using assms(1) checked(1,2) y(1,2) unfolding auth_inv_def
    using keyed_unique [where pk = m_id] by blast
  with y(3) z(3) checked(3) have "m_person q = who" by simp
  moreover have "a = q" if a: "a \<in> set (c_mfa (adb s'))" "m_primary a" "m_person a = m_person q" for a
  proof -
    have "m_id a = m_id q"
      using inv a q(1) new(1) iffD1 [OF primaries_unique_iff [OF ids]] unfolding auth_inv_def by blast
    with ids a(1) q(1) show ?thesis by (simp add: distinct_map inj_on_def)
  qed
  ultimately show ?thesis using q new by blast
qed simp

text \<open>
  A confirmed method is the only primary one: with the tables well formed an accepted
  code always confirms its method, so the unique index is never met; the method is the caller's
  own, enabled, and the single primary method of its person, and a refusal changes nothing.
\<close>

theorem confirmed_method_is_primary:
  assumes "auth_inv (adb s)" and "api_mfa_confirm x auth now k code s = (r, s')"
  shows "(\<forall>m\<in>set (c_mfa (adb s)). m_id m = k \<and> m_person m = au_person auth \<and> m_type m = Totp \<and>
      fst (check_code x now m code s) = Inr () \<longrightarrow> (\<exists>q. r = Inr q)) \<and>
    (case r of Inl _ \<Rightarrow> adb s' = adb s
     | Inr m \<Rightarrow> m_id m = k \<and> m_person m = au_person auth \<and> m_primary m \<and> m_enabled m \<and>
         m \<in> set (c_mfa (adb s')) \<and>
         (\<forall>q\<in>set (c_mfa (adb s')). m_primary q \<and> m_person q = m_person m \<longrightarrow> q = m))"
proof (cases "fst (mfa_confirm x now k code (Some (au_person auth)) s)")
  case (Inl e)
  then obtain s0 where run: "mfa_confirm x now k code (Some (au_person auth)) s = (Inl e, s0)"
    by (cases "mfa_confirm x now k code (Some (au_person auth)) s") simp
  with assms(2) have r: "r = Inl e" "adb s' = adb s"
    by (auto simp: api_mfa_confirm_def saved_on_success_def)
  have no: "\<not> (m \<in> set (c_mfa (adb s)) \<and> m_id m = k \<and> m_person m = au_person auth \<and> m_type m = Totp \<and>
      fst (check_code x now m code s) = Inr ())" for m
    using mfa_confirm_not_refused [OF assms(1) run] by blast
  with r(2) show ?thesis by (auto simp: r(1))
next
  case (Inr q)
  then obtain s0 where run: "mfa_confirm x now k code (Some (au_person auth)) s = (Inr q, s0)"
    by (cases "mfa_confirm x now k code (Some (au_person auth)) s") simp
  with assms(2) have r: "r = Inr q" "s' = s0"
    by (simp_all add: api_mfa_confirm_def saved_on_success_def)
  from mfa_confirm_Inr [OF assms(1) run] show ?thesis by (simp add: r)
qed

end
