(* ===== verification/AuthGuards.thy ===== *)
theory AuthGuards
  imports AuthSafety
begin

text \<open>
  The guards: which of them let whom in, that they agree with each other and with the rows and
  claims they rest on, and two properties of the web pages that the code should not have.
\<close>

section \<open>Roles and permissions\<close>

lemma first_where_unique:
  assumes "distinct (map f rows)" and "r \<in> set rows" and "f r = k" and "P r"
  shows "first_where (\<lambda>q. f q = k \<and> P q) rows = Some r"
proof (cases "first_where (\<lambda>q. f q = k \<and> P q) rows")
  case None
  with assms(2-4) show ?thesis by (auto simp: first_where_None)
next
  case (Some q)
  from first_where_Some [OF this] assms have "q = r"
    by (auto simp: distinct_map inj_on_def)
  with Some show ?thesis by simp
qed

lemma roles_of_iff:
  "r \<in> set (roles_of a p) \<longleftrightarrow> r \<in> set (c_roles a) \<and> r_active r \<and>
    (\<exists>l\<in>set (c_person_roles a). pr_person l = p \<and> pr_role l = r_id r)"
  by (auto simp: roles_of_def)

lemma permissions_of_iff:
  "q \<in> set (permissions_of a p) \<longleftrightarrow> q \<in> set (c_permissions a) \<and> pm_active q \<and>
    (\<exists>r\<in>set (roles_of a p). \<exists>l\<in>set (c_role_permissions a). rp_role l = r_id r \<and> rp_permission l = pm_id q)"
  by (fastforce simp: permissions_of_def)

lemma claims_iff:
  "name \<in> set (fst (rbac_claims a p)) \<longleftrightarrow> (\<exists>r\<in>set (roles_of a p). r_name r = name)"
  "key \<in> set (snd (rbac_claims a p)) \<longleftrightarrow> (\<exists>q\<in>set (permissions_of a p). pm_key q = key)"
  by (force simp: rbac_claims_def)+

text \<open>
  Property C20. The guards agree with the claims: with unique role names and permission keys,
  \<open>require_role\<close> lets a caller in exactly when a fresh access token of that person would carry the
  role, and \<open>require_permission\<close> exactly when it would carry the permission or the person is an
  administrator. The rows decide, not the claims in the caller's token.
\<close>

theorem guards_agree_with_claims:
  assumes "distinct (map r_name (c_roles a))" and "distinct (map pm_key (c_permissions a))"
  shows "(require_role a name auth = Inr auth \<longleftrightarrow> name \<in> set (fst (rbac_claims a (au_person auth)))) \<and>
    (require_permission a key auth = Inr auth \<longleftrightarrow>
       ''admin'' \<in> set (fst (rbac_claims a (au_person auth))) \<or> key \<in> set (snd (rbac_claims a (au_person auth))))"
proof (intro conjI)
  show "require_role a name auth = Inr auth \<longleftrightarrow> name \<in> set (fst (rbac_claims a (au_person auth)))"
  proof
    assume "require_role a name auth = Inr auth"
    then obtain r where r: "first_where (\<lambda>r. r_name r = name \<and> r_active r) (c_roles a) = Some r"
      and "list_ex (\<lambda>l. pr_person l = au_person auth \<and> pr_role l = r_id r) (c_person_roles a)"
      by (auto simp: require_role_def split: option.splits if_splits)
    with first_where_Some [OF r] have "r \<in> set (roles_of a (au_person auth))" "r_name r = name"
      by (auto simp: roles_of_iff list_ex_iff)
    then show "name \<in> set (fst (rbac_claims a (au_person auth)))" by (auto simp: claims_iff)
  next
    assume "name \<in> set (fst (rbac_claims a (au_person auth)))"
    then obtain r where "r \<in> set (roles_of a (au_person auth))" and name: "r_name r = name"
      by (auto simp: claims_iff)
    then have r: "r \<in> set (c_roles a)" "r_name r = name" "r_active r" and
      l: "\<exists>l\<in>set (c_person_roles a). pr_person l = au_person auth \<and> pr_role l = r_id r"
      by (simp_all add: roles_of_iff)
    from first_where_unique [where f = r_name and P = r_active, OF assms(1) r] l show "require_role a name auth = Inr auth"
      by (auto simp: require_role_def list_ex_iff)
  qed
  have admin: "person_has_role a (au_person auth) ''admin'' \<longleftrightarrow> ''admin'' \<in> set (fst (rbac_claims a (au_person auth)))"
    by (auto simp: person_has_role_def claims_iff list_ex_iff)
  show "require_permission a key auth = Inr auth \<longleftrightarrow>
      ''admin'' \<in> set (fst (rbac_claims a (au_person auth))) \<or> key \<in> set (snd (rbac_claims a (au_person auth)))"
  proof (cases "person_has_role a (au_person auth) ''admin''")
    case True
    with admin show ?thesis by (simp add: require_permission_def)
  next
    case False
    have "require_permission a key auth = Inr auth \<longleftrightarrow> key \<in> set (snd (rbac_claims a (au_person auth)))"
    proof
      assume "require_permission a key auth = Inr auth"
      with False obtain q where "first_where (\<lambda>p. pm_key p = key \<and> pm_active p) (c_permissions a) = Some q"
        and "list_ex (\<lambda>r. list_ex (\<lambda>l. rp_role l = r_id r \<and> rp_permission l = pm_id q) (c_role_permissions a))
          (roles_of a (au_person auth))"
        by (auto simp: require_permission_def split: option.splits if_splits)
      then show "key \<in> set (snd (rbac_claims a (au_person auth)))"
        by (force simp: claims_iff permissions_of_iff list_ex_iff dest!: first_where_Some)
    next
      assume "key \<in> set (snd (rbac_claims a (au_person auth)))"
      then obtain q where "q \<in> set (permissions_of a (au_person auth))" and key: "pm_key q = key"
        by (auto simp: claims_iff)
      then have q: "q \<in> set (c_permissions a)" "pm_key q = key" "pm_active q" and
        l: "\<exists>r\<in>set (roles_of a (au_person auth)). \<exists>l\<in>set (c_role_permissions a). rp_role l = r_id r \<and> rp_permission l = pm_id q"
        by (simp_all add: permissions_of_iff)
      from first_where_unique [where f = pm_key and P = pm_active, OF assms(2) q] l False
      show "require_permission a key auth = Inr auth"
        by (auto simp: require_permission_def list_ex_iff)
    qed
    with False admin show ?thesis by simp
  qed
qed

section \<open>One caller, three guards\<close>

lemma bearer_header: "t \<noteq> [] \<Longrightarrow> strip t = t \<Longrightarrow> extract_bearer_token (Some (''Bearer '' @ t)) = Some t"
proof -
  assume t: "t \<noteq> []" "strip t = t"
  have "lower_str ''Bearer'' = ''bearer''" by code_simp
  with t show ?thesis by (simp add: extract_bearer_token_def py_or_def)
qed

text \<open>The session the guards look up, in the words of both queries.\<close>

lemma session_lookup:
  assumes "keyed s_id n (c_sessions a)"
  shows "first_where (\<lambda>r. s_id r = k \<and> s_person r = p \<and> usable_session now r) (c_sessions a) =
    (case find_session a k of None \<Rightarrow> None
     | Some r \<Rightarrow> if s_person r = p \<and> usable_session now r then Some r else None)"
proof (cases "find_session a k")
  case None
  then have "first_where (\<lambda>r. s_id r = k \<and> s_person r = p \<and> usable_session now r) (c_sessions a) = None"
    by (auto simp: find_session_def first_where_None)
  with None show ?thesis by simp
next
  case (Some r)
  then have r: "r \<in> set (c_sessions a)" "s_id r = k" by (auto simp: find_session_def dest: first_where_Some)
  have only: "q = r" if "q \<in> set (c_sessions a)" "s_id q = k" for q
    using keyed_unique [OF assms that(1) r(1)] that(2) r(2) by simp
  show ?thesis
  proof (cases "s_person r = p \<and> usable_session now r")
    case True
    with first_where_unique [of s_id "c_sessions a" r k "\<lambda>r. s_person r = p \<and> usable_session now r"] r assms Some
    show ?thesis by (simp add: keyed_def)
  next
    case False
    then have "first_where (\<lambda>r. s_id r = k \<and> s_person r = p \<and> usable_session now r) (c_sessions a) = None"
      using only by (auto simp: first_where_None)
    with False Some show ?thesis by simp
  qed
qed

lemma guards_agree:
  assumes "auth_inv a" and "t \<noteq> []" and header: "extract_bearer_token header = Some t"
    and "q_cookies req ''access_token'' = Some t"
  shows "(resolve_active_session_person_id x a now t = Some p \<longleftrightarrow>
      (\<exists>info. require_user_auth x a now header = Inr info \<and> au_person info = p)) \<and>
    ((\<exists>info. require_web_auth x a now req = Shown info \<and> au_person info = p) \<longleftrightarrow>
      resolve_active_session_person_id x a now t = Some p \<and> find_person a p \<noteq> None \<and>
      person_has_role a p ''admin'')"
proof -
  have h: "py_or (extract_bearer_token header) None = Some t"
    using header assms(2) by (simp add: py_or_def)
  have c: "py_or (q_cookies req ''access_token'') None = Some t" using assms(2,4) by (simp add: py_or_def)
  have admin: "person_has_role a u ''admin'' \<longleftrightarrow> ''admin'' \<in> r_name ` set (roles_of a u)" for u
    by (force simp: person_has_role_def list_ex_iff)
  note lookup = session_lookup [OF auth_invD(1) [OF assms(1)]]
  show ?thesis
  proof (cases "decode_access_token x a t now")
    case (Inl e)
    then show ?thesis
      by (simp add: require_user_auth_def resolve_active_session_person_id_def require_web_auth_def h c assms(2) bind_res_def)
  next
    case (Inr cl)
    note start = require_user_auth_def resolve_active_session_person_id_def require_web_auth_def h c assms(2)
      bind_res_def Inr lookup unauthorized_def
    show ?thesis
    proof (cases "cl_sub cl")
      case None
      then show ?thesis by (simp add: start)
    next
      case (Some u)
      note u = this
      show ?thesis
      proof (cases "cl_session cl")
        case None
        with u show ?thesis by (simp add: start)
      next
        case (Some k)
        with u show ?thesis
          by (cases "find_session a k") (auto simp: start admin Let_def)
      qed
    qed
  qed
qed

text \<open>
  The three guards agree on who an access token is: the bearer guard, the lookup that
  websockets share, and the guard of the web pages, which besides asks that the person is there and
  is an administrator.
\<close>

theorem authenticators_agree:
  assumes "auth_inv a" and "t \<noteq> []" and "strip t = t" and "q_cookies req ''access_token'' = Some t"
  shows "(resolve_active_session_person_id x a now t = Some p \<longleftrightarrow>
      (\<exists>info. require_user_auth x a now (Some (''Bearer '' @ t)) = Inr info \<and> au_person info = p)) \<and>
    ((\<exists>info. require_web_auth x a now req = Shown info \<and> au_person info = p) \<longleftrightarrow>
      resolve_active_session_person_id x a now t = Some p \<and> find_person a p \<noteq> None \<and>
      person_has_role a p ''admin'')"
  by (rule guards_agree [OF assms(1,2) bearer_header [OF assms(2,3)] assms(4)])

section \<open>The web pages\<close>

text \<open>What the login page relies on of the JWT package: a decoded access token names its session.\<close>

definition names_session :: "crypto \<Rightarrow> bool" where
  "names_session c \<longleftrightarrow> (\<forall>secret alg now cl cl'. cl_typ cl = Some ''access'' \<longrightarrow>
     cr_decode c secret alg now (cr_encode c secret alg cl) = Some cl' \<longrightarrow> cl_session cl' = cl_session cl)"

lemma names_sessionD:
  "names_session c \<Longrightarrow> cl_typ cl = Some ''access'' \<Longrightarrow>
    cr_decode c secret alg now (cr_encode c secret alg cl) = Some cl' \<Longrightarrow> cl_session cl' = cl_session cl"
  unfolding names_session_def by blast

lemma login_access_token:
  assumes "login x now u p req provider s = (Inr tk, s')" and "\<not> tk_mfa_required tk"
  shows "\<exists>a secret person roles permissions. jwt_secret x (adb s) = Inr secret \<and>
    tk_access tk = Some (cr_encode (x_crypto x) secret (jwt_algorithm x (adb s))
      (access_claims x a person (c_next (adb s)) roles permissions now))"
proof -
  from assms(1) obtain kind c where start: "provider_named provider = Some kind"
    "first_where (login_credential u kind) (c_credentials (adb s)) = Some c"
    by (auto simp: login_def auth_eval bad_credentials_def split: option.splits)
  let ?s = "s\<lparr>adb := (adb s)\<lparr>c_credentials :=
    update_where (\<lambda>r. u_id r = u_id c) (login_ok now) (c_credentials (adb s))\<rparr>\<rparr>"
  from start assms have "issue_tokens x now (u_person c) req ?s = (Inr tk, s')"
    by (auto simp: login_def auth_eval set_rows bad_credentials_def then_act_error
        split: option.splits if_splits sum.splits)
  then show ?thesis
    by (fastforce simp: issue_tokens_def issue_access_token_def auth_eval encode_claims_def bind_res_def tokens_def
        jwt_secret_def jwt_algorithm_def config_def setting_value_def split: sum.splits prod.splits)
qed

text \<open>
  Property C21. The login form logs nobody in: what a successful login wrote is never committed, so
  the cookies it sets name a session that does not exist, and the next page redirects to the login
  again, whenever it is asked for.
\<close>

theorem web_login_never_authenticates:
  assumes "names_session (x_crypto x)" and "auth_inv (adb s)"
    and "login_submit x now u p url req s = (Inr (Redirect next cookies), s1)"
    and "map_of cookies ''access_token'' = Some t" and "q_cookies req' ''access_token'' = Some t"
  shows "adb s1 = adb s \<and> require_web_auth x (adb s1) later_on req' = Login_redirect"
proof -
  let ?u = "strip u"
  obtain r s' where run: "login x now ?u p req None s = (r, s')" by fastforce
  with assms(3) have reply: "login_submit_reply (safe_next_url url) r = Inr (Redirect next cookies)"
    and same: "adb s1 = adb s"
    by (auto simp: login_submit_def Let_def unsaved_def split: if_splits)
  from reply obtain tk where tk: "r = Inr tk" "\<not> tk_mfa_required tk" "tk_access tk = Some t" "t \<noteq> []"
    using assms(4) by (auto simp: login_submit_reply_def py_or_def split: sum.splits err.splits if_splits option.splits)
  from login_access_token [OF run [unfolded tk(1)] tk(2)] tk(3) obtain a secret person roles permissions where
    secret: "jwt_secret x (adb s) = Inr secret" and
    t: "t = cr_encode (x_crypto x) secret (jwt_algorithm x (adb s))
      (access_claims x a person (c_next (adb s)) roles permissions now)"
    by auto
  have none: "find_session (adb s) (c_next (adb s)) = None"
    using auth_invD(1) [OF assms(2)] by (auto simp: find_session_def first_where_None keyed_def)
  have "require_web_auth x (adb s) later_on req' = Login_redirect"
  proof (cases "decode_access_token x (adb s) t later_on")
    case (Inl e)
    then show ?thesis by (simp add: require_web_auth_def assms(5) py_or_def tk(4))
  next
    case (Inr cl)
    then have "cr_decode (x_crypto x) secret (jwt_algorithm x (adb s)) later_on t = Some cl"
      by (auto simp: decode_access_token_def decode_jwt_def secret bind_res_def split: option.splits if_splits)
    from names_sessionD [OF assms(1) _ this [unfolded t]] have "cl_session cl = Some (c_next (adb s))"
      by (simp add: access_claims_def)
    with Inr none show ?thesis
      by (simp add: require_web_auth_def assms(5) py_or_def tk(4) split: option.split)
  qed
  with same show ?thesis by simp
qed

text \<open>
  The logout page forgets the refresh token: with an access token that has expired, or
  is not valid any more, nothing is revoked, while the same request without that cookie revokes the
  session of the refresh token.
\<close>

theorem web_logout_needs_valid_access:
  assumes "q_cookies req ''access_token'' = Some t" and "t \<noteq> []"
    and "decode_access_token x (adb s) t now = Inl e"
    and "q_cookies req ''refresh_token'' = Some f" and "f \<noteq> []"
    and "hash_candidates x (adb s) f = Inr hs"
    and "first_where (current_session hs) (c_sessions (adb s)) = Some r"
    and "auth_inv (adb s)"
  shows "web_logout x now req s = (Inr (), s) \<and>
    (\<exists>q\<in>set (c_sessions (adb s)). s_hash q \<in> set hs \<and> s_revoked q = None \<and>
      web_logout x now (req\<lparr>q_cookies := (q_cookies req)(''access_token'' := None)\<rparr>) s =
        (Inr (), s\<lparr>adb := (adb s)\<lparr>c_sessions :=
          update_where (\<lambda>z. s_id z = s_id q) (revoked_at now) (c_sessions (adb s))\<rparr>\<rparr>))"
proof -
  from first_where_Some [OF assms(7)] have r: "r \<in> set (c_sessions (adb s))" "s_hash r \<in> set hs" "s_revoked r = None"
    by (auto simp: current_session_def live_session_def)
  let ?P = "\<lambda>r. s_hash r \<in> set hs \<and> s_revoked r = None"
  from r obtain q where q: "first_where ?P (c_sessions (adb s)) = Some q"
    by (cases "first_where ?P (c_sessions (adb s))") (auto simp: first_where_None)
  from first_where_Some [OF q] have m: "q \<in> set (c_sessions (adb s))" "s_hash q \<in> set hs" "s_revoked q = None" by auto
  have "web_logout x now req s = (Inr (), s)"
    using assms(1-3) by (simp add: web_logout_def web_logout_session_def py_or_def bind_res_def)
  moreover have "web_logout x now (req\<lparr>q_cookies := (q_cookies req)(''access_token'' := None)\<rparr>) s =
      (Inr (), s\<lparr>adb := (adb s)\<lparr>c_sessions :=
        update_where (\<lambda>z. s_id z = s_id q) (revoked_at now) (c_sessions (adb s))\<rparr>\<rparr>)"
    using assms(4-6) q m(3)
    by (simp add: web_logout_def web_logout_session_def py_or_def bind_res_def set_session_def modify_def)
  ultimately show ?thesis using m by blast
qed

end
