(* ===== verification/AuthExamples.thy ===== *)
theory AuthExamples
  imports AuthGuards
begin

text \<open>
  One concrete installation, with small computable stand-ins for the packages, on which the
  properties of the authentication are applied: an administrator with a live session, and a person
  with a second factor.
\<close>

section \<open>The installation\<close>

definition dotless :: "string \<Rightarrow> string" where
  "dotless s = filter (\<lambda>c. c \<noteq> CHR ''.'') s"

definition unary :: "char \<Rightarrow> nat option \<Rightarrow> string" where
  "unary c v = (case v of None \<Rightarrow> [] | Some n \<Rightarrow> replicate (Suc n) c)"

definition of_unary :: "string \<Rightarrow> nat option" where
  "of_unary s = (if s = [] then None else Some (length s - 1))"

definition sample_encode :: "string \<Rightarrow> string \<Rightarrow> claims \<Rightarrow> string" where
  "sample_encode secret alg c = join ''.'' [dotless (with_default (cl_typ c) []), unary (CHR ''u'') (cl_sub c),
     unary (CHR ''s'') (cl_session c), dotless (with_default (cl_email c) [])]"

definition sample_decode :: "string \<Rightarrow> string \<Rightarrow> int \<Rightarrow> string \<Rightarrow> claims option" where
  "sample_decode secret alg now t =
     (case split_on (CHR ''.'') t of
        [typ, sub, session, email] \<Rightarrow>
          Some \<lparr>cl_sub = of_unary sub, cl_session = of_unary session, cl_typ = Some typ, cl_email = Some email,
            cl_iat = 0, cl_exp = 0, cl_roles = [], cl_scopes = []\<rparr>
      | _ \<Rightarrow> None)"

definition sample_crypto :: crypto where
  "sample_crypto = \<lparr>cr_password_ok = (\<lambda>p h. h = ''h:'' @ p), cr_hash_password = (\<lambda>p. ''h:'' @ p),
     cr_hmac = (\<lambda>k t. ''m:'' @ k @ '':'' @ t), cr_sha256 = (\<lambda>t. ''s:'' @ t),
     cr_encode = sample_encode, cr_decode = sample_decode,
     cr_totp_ok = (\<lambda>secret now code. code = ''123456''), cr_timecode = (\<lambda>t. t div 30),
     cr_otp_uri = (\<lambda>secret name issuer. name), cr_key_ok = (\<lambda>k. True),
     cr_encrypt = (\<lambda>k s. s), cr_decrypt = (\<lambda>k s. Some s),
     cr_openbao = (\<lambda>ref. Inl (HttpError 500 ''OpenBao request failed''))\<rparr>"

definition sample_ctx :: auth_ctx where
  "sample_ctx = \<lparr>x_env = (\<lambda>n. if n = ''JWT_SECRET'' \<or> n = ''TOTP_ENCRYPTION_KEY'' then Some ''k'' else None),
     x_crypto = sample_crypto, x_random = (\<lambda>n. ''fresh'' @ replicate n (CHR ''x''))\<rparr>"

definition sample_req :: http_request where
  "sample_req = \<lparr>q_client = Some ''10.0.0.9'', q_user_agent = None, q_cookies = (\<lambda>n. None)\<rparr>"

definition sample_credential :: "nat \<Rightarrow> nat \<Rightarrow> string \<Rightarrow> credential" where
  "sample_credential k who name = \<lparr>u_id = k, u_person = who, u_provider = Local, u_username = Some name,
     u_hash = Some ''h:pw'', u_must_change = False, u_changed_at = None, u_failed = 0, u_locked = None,
     u_last_login = None, u_active = True\<rparr>"

definition sample_session :: auth_session where
  "sample_session = \<lparr>s_id = 2, s_person = 1, s_status = Active, s_hash = ''m:k:tok'', s_prev = None,
     s_rotated = None, s_ip = None, s_agent = None, s_created = 0, s_seen = None, s_expires = 1000, s_revoked = None\<rparr>"

definition sample_method :: mfa_method where
  "sample_method = \<lparr>m_id = 3, m_person = 2, m_type = Totp, m_label = None, m_secret = Some ''base32'',
     m_primary = True, m_enabled = True, m_active = True, m_verified = Some 0, m_used = None, m_counter = None\<rparr>"

definition sample_auth :: auth_sys where
  "sample_auth = \<lparr>adb = \<lparr>c_credentials = [sample_credential 1 1 ''ann'', sample_credential 4 2 ''bob''],
     c_mfa = [sample_method], c_sessions = [sample_session], c_api_keys = [],
     c_people = [\<lparr>p_id = 1, p_email = ''ann@x'', p_first = ''Ann'', p_display = None\<rparr>,
                 \<lparr>p_id = 2, p_email = ''bob@x'', p_first = ''Bob'', p_display = None\<rparr>],
     c_roles = [\<lparr>r_id = 0, r_name = ''admin'', r_active = True\<rparr>],
     c_permissions = [\<lparr>pm_id = 0, pm_key = ''voice:read'', pm_active = True\<rparr>],
     c_person_roles = [\<lparr>pr_person = 1, pr_role = 0\<rparr>], c_role_permissions = [], c_settings = [],
     c_next = 10\<rparr>, draws = 0\<rparr>"

definition sample_info :: auth_info where
  "sample_info = \<lparr>au_person = 1, au_session = 2, au_roles = [''admin''], au_scopes = []\<rparr>"

section \<open>What it satisfies\<close>

lemma sample_auth_inv: "auth_inv (adb sample_auth)"
  by code_simp

lemma sample_session_there: "sample_session \<in> set (c_sessions (adb sample_auth))"
  by (simp add: sample_auth_def)

lemma ran: "\<not> isl (fst m) \<Longrightarrow> m = (Inr (projr (fst m)), snd m)"
  by (cases m; cases "fst m") simp_all

lemma split_dotless: "CHR ''.'' \<notin> set s \<Longrightarrow> split_on (CHR ''.'') (s @ CHR ''.'' # t) = s # split_on (CHR ''.'') t"
  by (rule split_on_append)

lemma sample_names_session: "names_session (x_crypto sample_ctx)"
proof -
  have d: "CHR ''.'' \<notin> set (dotless s)" for s by (simp add: dotless_def)
  have u: "CHR ''.'' \<notin> set (unary (CHR ''u'') v)" "CHR ''.'' \<notin> set (unary (CHR ''s'') v)" for v
    by (simp_all add: unary_def split: option.split)
  have k: "of_unary (unary c v) = v" for c v by (simp add: of_unary_def unary_def split: option.split)
  have "sample_decode secret alg now (sample_encode secret alg cl) =
      Some \<lparr>cl_sub = cl_sub cl, cl_session = cl_session cl, cl_typ = Some (dotless (with_default (cl_typ cl) [])),
        cl_email = Some (dotless (with_default (cl_email cl) [])), cl_iat = 0, cl_exp = 0, cl_roles = [], cl_scopes = []\<rparr>"
    for secret alg now cl
    by (simp add: sample_decode_def sample_encode_def split_dotless d u split_on_all k)
  then show ?thesis by (auto simp: names_session_def sample_ctx_def sample_crypto_def)
qed

abbreviation after :: "'a auth_act \<Rightarrow> auth_sys" where "after h \<equiv> snd (h sample_auth)"

section \<open>Sessions\<close>

abbreviation sample_logout :: "int auth_act" where
  "sample_logout \<equiv> api_logout sample_ctx 100 (Some ''tok'') sample_req"

lemma sample_logout_steps: "auth_steps sample_ctx sample_auth (after sample_logout)"
proof -
  have "serve_auth sample_ctx 100 sample_req (Logout (Some ''tok'')) sample_auth = (Inr (), after sample_logout)"
    by code_simp
  from auth_steps.serve [OF auth_steps.stay this] show ?thesis .
qed

theorem sessions_never_revive_witness:
  "auth_inv (adb (after sample_logout)) \<and>
    (\<exists>r\<in>set (c_sessions (adb (after sample_logout))). s_id r = 2 \<and> s_person r = 1 \<and> s_expires r = 1000 \<and>
      Active \<le> s_status r)"
proof -
  note outcome = sessions_never_revive [OF sample_logout_steps sample_auth_inv]
  from bspec [OF conjunct2 [OF outcome] sample_session_there] conjunct1 [OF outcome] show ?thesis
    by (auto simp: sample_session_def)
qed

lemma sample_revoked:
  "sample_session\<lparr>s_status := Revoked, s_revoked := Some 100\<rparr> \<in> set (c_sessions (adb (after sample_logout)))"
  "auth_inv (adb (after sample_logout))"
  by code_simp+

abbreviation sample_header :: "string option" where
  "sample_header \<equiv> Some ''Bearer access.uu.sss.''"

definition cookie_req :: "string \<Rightarrow> string \<Rightarrow> http_request" where
  "cookie_req access refresh_token = sample_req\<lparr>q_cookies := (\<lambda>n. None)(''access_token'' \<mapsto> access, ''refresh_token'' \<mapsto> refresh_token)\<rparr>"

theorem dead_session_refused_witness:
  "require_user_auth sample_ctx (adb sample_auth) 200 sample_header =
      Inr \<lparr>au_person = 1, au_session = 2, au_roles = [], au_scopes = []\<rparr> \<and>
    \<not> (\<exists>info. require_user_auth sample_ctx (adb (after sample_logout)) 200 sample_header = Inr info \<and> au_session info = 2) \<and>
    \<not> (\<exists>info. require_web_auth sample_ctx (adb (after sample_logout)) 200 (cookie_req ''access.uu.sss.'' ''tok'') = Shown info \<and>
        au_session info = 2)"
proof -
  have "\<not> usable_session 200 (sample_session\<lparr>s_status := Revoked, s_revoked := Some 100\<rparr>)" by code_simp
  from dead_session_refused [OF auth_steps.stay sample_revoked(2,1) this, of sample_ctx sample_header
      "cookie_req ''access.uu.sss.'' ''tok''"]
  have "\<not> (\<exists>info. require_user_auth sample_ctx (adb (after sample_logout)) 200 sample_header = Inr info \<and> au_session info = 2)"
    "\<not> (\<exists>info. require_web_auth sample_ctx (adb (after sample_logout)) 200 (cookie_req ''access.uu.sss.'' ''tok'') = Shown info \<and>
        au_session info = 2)"
    by (auto simp: sample_session_def)
  moreover have "require_user_auth sample_ctx (adb sample_auth) 200 sample_header =
      Inr \<lparr>au_person = 1, au_session = 2, au_roles = [], au_scopes = []\<rparr>" by code_simp
  ultimately show ?thesis by simp
qed



abbreviation sample_reset :: "string \<Rightarrow> int auth_act" where
  "sample_reset p \<equiv> api_reset_password sample_ctx 100 ''password_reset.uu..ann@x'' p"

theorem reset_token_reusable_witness:
  "\<exists>s2. api_reset_password sample_ctx 200 ''password_reset.uu..ann@x'' ''third'' (after (sample_reset ''second'')) = (Inr 200, s2) \<and>
    (\<exists>c\<in>set (c_credentials (adb s2)). u_hash c = Some ''h:third'')"
proof -
  have ok: "sample_reset ''second'' sample_auth = (Inr 100, after (sample_reset ''second''))" by code_simp
  have same: "decode_jwt sample_ctx (adb sample_auth) ''password_reset.uu..ann@x'' ''password_reset'' 200 =
      decode_jwt sample_ctx (adb sample_auth) ''password_reset.uu..ann@x'' ''password_reset'' 100" by code_simp
  have hash: "cr_hash_password (x_crypto sample_ctx) ''third'' = ''h:third''" by code_simp
  show ?thesis using reset_token_reusable [OF ok same, of "''third''"] unfolding hash .
qed

abbreviation sample_refresh :: "cookie_reply auth_act" where
  "sample_refresh \<equiv> api_refresh sample_ctx 100 (Some ''tok'') sample_req"

theorem refresh_reuse_ends_session_witness:
  "\<exists>s2. api_refresh sample_ctx 110 (Some ''tok'') sample_req (after sample_refresh) =
      (Inl (HttpError 401 ''Refresh token reuse detected''), s2) \<and>
    \<not> (\<exists>q\<in>set (c_sessions (adb s2)). s_id q = 2 \<and> s_status q \<noteq> Revoked)"
proof -
  have "\<not> isl (fst (sample_refresh sample_auth))" by code_simp
  note ok = ran [OF this]
  have hs: "hash_candidates sample_ctx (adb sample_auth) ''tok'' = Inr [''m:k:tok'', ''s:tok'']" by code_simp
  have h: "hash_token sample_ctx (adb sample_auth) (x_random sample_ctx (draws sample_auth)) = Inr ''m:k:fresh''" by code_simp
  have sole: "c_sessions (adb sample_auth) = [sample_session]" by (simp add: sample_auth_def)
  from refresh_reuse_ends_session [OF ok _ sample_auth_inv hs h, of 110 sample_req] show ?thesis
    by (auto simp: sole) (auto simp: sample_session_def)
qed

section \<open>Login\<close>

definition bad_tries :: "(int \<times> string) list" where
  "bad_tries = map (\<lambda>t. (t, ''guess'')) [10, 20, 30, 40, 50]"

theorem five_failures_lock_witness:
  "api_login sample_ctx 900 ''ann'' ''pw'' sample_req None (attempts sample_ctx ''ann'' sample_req bad_tries sample_auth) =
    (Inl (HttpError 401 ''Invalid credentials''), attempts sample_ctx ''ann'' sample_req bad_tries sample_auth)"
proof (rule five_failures_lock)
  show "found_credential ''ann'' sample_auth = Some (sample_credential 1 1 ''ann'')" by code_simp
  show "u_failed (sample_credential 1 1 ''ann'') = 0" "u_locked (sample_credential 1 1 ''ann'') = None" by code_simp+
  show "\<forall>w\<in>set bad_tries. \<not> verify_password sample_ctx (snd w) (u_hash (sample_credential 1 1 ''ann''))" by code_simp
qed (simp_all add: bad_tries_def)

theorem login_asks_second_factor_witness:
  "c_sessions (adb (after (api_login sample_ctx 100 ''bob'' ''pw'' sample_req None))) = c_sessions (adb sample_auth)"
proof -
  have "provider_named None = Some Local"
    "first_where (login_credential ''bob'' Local) (c_credentials (adb sample_auth)) = Some (sample_credential 4 2 ''bob'')"
    "primary_totp_method (adb sample_auth) (u_person (sample_credential 4 2 ''bob'')) = Some sample_method"
    by code_simp+
  from login_asks_second_factor [OF this] show ?thesis by blast
qed

abbreviation sample_second_step :: "cookie_reply auth_act" where
  "sample_second_step \<equiv> api_mfa_verify sample_ctx 100 ''mfa.uuu..'' ''123456'' sample_req"

theorem totp_code_once_witness:
  "\<exists>e. api_mfa_verify sample_ctx 110 ''mfa.uuu..'' ''123456'' sample_req (after sample_second_step) =
    (Inl e, after sample_second_step)"
proof -
  let ?c = "\<lparr>cl_sub = Some 2, cl_session = None, cl_typ = Some ''mfa'', cl_email = Some [], cl_iat = 0, cl_exp = 0,
    cl_roles = [], cl_scopes = []\<rparr>"
  have "\<not> isl (fst (sample_second_step sample_auth))" by code_simp
  note ok = ran [OF this]
  have "decode_jwt sample_ctx (adb sample_auth) ''mfa.uuu..'' ''mfa'' 100 = Inr ?c"
    "decode_jwt sample_ctx (adb sample_auth) ''mfa.uuu..'' ''mfa'' 110 = Inr ?c"
    "cr_timecode (x_crypto sample_ctx) 110 \<le> cr_timecode (x_crypto sample_ctx) 100" by code_simp+
  with totp_code_once [OF ok, of ?c 2 _ _ ?c] show ?thesis by simp
qed

abbreviation bob_info :: auth_info where "bob_info \<equiv> sample_info\<lparr>au_person := 2\<rparr>"

theorem confirmed_method_is_primary_witness:
  "\<exists>m. fst (api_mfa_confirm sample_ctx bob_info 100 3 ''123456'' sample_auth) = Inr m \<and> m_id m = 3 \<and> m_primary m"
proof -
  let ?run = "api_mfa_confirm sample_ctx bob_info 100 3 ''123456'' sample_auth"
  have run: "?run = (fst ?run, snd ?run)" by simp
  note out = confirmed_method_is_primary [OF sample_auth_inv run]
  have there: "sample_method \<in> set (c_mfa (adb sample_auth))" by code_simp
  have "m_id sample_method = 3 \<and> m_person sample_method = au_person bob_info \<and> m_type sample_method = Totp \<and>
      fst (check_code sample_ctx 100 sample_method ''123456'' sample_auth) = Inr ()" by code_simp
  with bspec [OF conjunct1 [OF out] there] obtain m where m: "fst ?run = Inr m" by blast
  with conjunct2 [OF out] show ?thesis by simp
qed

section \<open>Guards\<close>

theorem guards_agree_with_claims_witness:
  "(require_role (adb sample_auth) ''admin'' sample_info = Inr sample_info) =
     (''admin'' \<in> set (fst (rbac_claims (adb sample_auth) 1)))"
proof -
  have "distinct (map r_name (c_roles (adb sample_auth)))" "distinct (map pm_key (c_permissions (adb sample_auth)))"
    by code_simp+
  from guards_agree_with_claims [OF this, of "''admin''" sample_info] show ?thesis by (simp add: sample_info_def)
qed

theorem authenticators_agree_witness:
  "\<exists>info. require_user_auth sample_ctx (adb sample_auth) 100 (Some (''Bearer '' @ ''access.uu.sss.'')) = Inr info \<and> au_person info = 1"
proof -
  have "strip ''access.uu.sss.'' = ''access.uu.sss.''" by code_simp
  moreover have "q_cookies (cookie_req ''access.uu.sss.'' ''tok'') ''access_token'' = Some ''access.uu.sss.''" by code_simp
  moreover have "resolve_active_session_person_id sample_ctx (adb sample_auth) 100 ''access.uu.sss.'' = Some 1" by code_simp
  ultimately show ?thesis
    using authenticators_agree [OF sample_auth_inv, of "''access.uu.sss.''" _ sample_ctx 100 1] by blast
qed

abbreviation web_login :: "web_reply auth_act" where
  "web_login \<equiv> login_submit sample_ctx 100 ''ann'' ''pw'' ''/admin'' sample_req"

theorem web_login_never_authenticates_witness:
  "require_web_auth sample_ctx (adb (after web_login)) 101
    (cookie_req ''access.uu.sssssssssss.'' ''fresh'') = Login_redirect"
proof -
  have run: "web_login sample_auth = (Inr (Redirect ''/admin''
      [(''access_token'', ''access.uu.sssssssssss.''), (''refresh_token'', ''fresh'')]), after web_login)"
    by code_simp
  have t: "map_of [(''access_token'', ''access.uu.sssssssssss.''), (''refresh_token'', ''fresh'')] ''access_token'' =
      Some ''access.uu.sssssssssss.''" by code_simp
  have c: "q_cookies (cookie_req ''access.uu.sssssssssss.'' ''fresh'') ''access_token'' = Some ''access.uu.sssssssssss.''"
    by code_simp
  show ?thesis
    by (rule conjunct2 [OF web_login_never_authenticates [OF sample_names_session sample_auth_inv run t c]])
qed

theorem web_logout_needs_valid_access_witness:
  "web_logout sample_ctx 100 (cookie_req ''expired'' ''tok'') sample_auth = (Inr (), sample_auth)"
proof -
  have a: "q_cookies (cookie_req ''expired'' ''tok'') ''access_token'' = Some ''expired''" by code_simp
  have d: "decode_access_token sample_ctx (adb sample_auth) ''expired'' 100 = Inl (HttpError 401 ''Invalid token'')" by code_simp
  have f: "q_cookies (cookie_req ''expired'' ''tok'') ''refresh_token'' = Some ''tok''" by code_simp
  have hs: "hash_candidates sample_ctx (adb sample_auth) ''tok'' = Inr [''m:k:tok'', ''s:tok'']" by code_simp
  have r: "first_where (current_session [''m:k:tok'', ''s:tok'']) (c_sessions (adb sample_auth)) = Some sample_session" by code_simp
  from web_logout_needs_valid_access [OF a _ d f _ hs r sample_auth_inv] show ?thesis by simp
qed

end
