(* ===== verification/JsonText.thy ===== *)
theory JsonText
  imports PyText
begin

text \<open>
  The JSON text of Python's \<^verbatim>\<open>json.dumps\<close> for the payload of a webhook, a flat dict of
  strings and nulls (\<^verbatim>\<open>app/services/webhooks/delivery.py\<close>, \<open>attempt_delivery\<close>; the
  payload is built by \<open>build_event_payload\<close> of \<^verbatim>\<open>app/services/events/dispatch.py\<close>), with
  the default settings: \<^verbatim>\<open>ensure_ascii\<close>, separators \<^verbatim>\<open>", "\<close> and \<^verbatim>\<open>": "\<close>. A character
  is a code point below 256. A reader of that text shows that nothing of a payload is lost.
\<close>

section \<open>Writing\<close>

datatype json = JNull | JString string

type_synonym payload = "(string \<times> json) list"

definition hex_digit :: "nat \<Rightarrow> char" where
  "hex_digit n = (''0123456789abcdef'') ! n"

text \<open>\<^verbatim>\<open>ESCAPE_DCT\<close> of the standard library: the quote, the backslash and six control
  characters have a short form; whatever is outside \<^verbatim>\<open>' '..'~'\<close> is \<^verbatim>\<open>\uXXXX\<close>.\<close>

definition json_char :: "char \<Rightarrow> string" where
  "json_char c =
     (if c = CHR 0x22 then [CHR 0x5C, CHR 0x22]
      else if c = CHR 0x5C then [CHR 0x5C, CHR 0x5C]
      else if c = CHR 0x0A then [CHR 0x5C, CHR ''n'']
      else if c = CHR 0x0D then [CHR 0x5C, CHR ''r'']
      else if c = CHR 0x09 then [CHR 0x5C, CHR ''t'']
      else if c = CHR 0x0C then [CHR 0x5C, CHR ''f'']
      else if c = CHR 0x08 then [CHR 0x5C, CHR ''b'']
      else if of_char c < (32::nat) \<or> (126::nat) < of_char c
      then [CHR 0x5C, CHR ''u'', CHR ''0'', CHR ''0'',
            hex_digit (of_char c div 16), hex_digit (of_char c mod 16)]
      else [c])"

definition json_string :: "string \<Rightarrow> string" where
  "json_string s = CHR 0x22 # concat (map json_char s) @ [CHR 0x22]"

fun json_value :: "json \<Rightarrow> string" where
  "json_value JNull = ''null''"
| "json_value (JString s) = json_string s"

definition json_member :: "string \<times> json \<Rightarrow> string" where
  "json_member kv = json_string (fst kv) @ '': '' @ json_value (snd kv)"

definition json_dumps :: "payload \<Rightarrow> string" where
  "json_dumps p = ''{'' @ join '', '' (map json_member p) @ ''}''"

section \<open>Reading\<close>

text \<open>The reader of a receiver, each part returning what it read and the rest of the text.\<close>

definition unhex :: "char \<Rightarrow> nat option" where
  "unhex c = (let n = (of_char c :: nat) in
     if 48 \<le> n \<and> n \<le> 57 then Some (n - 48)
     else if 97 \<le> n \<and> n \<le> 102 then Some (n - 87) else None)"

definition unescape :: "char \<Rightarrow> char option" where
  "unescape c =
     map_of [(CHR 0x22, CHR 0x22), (CHR 0x5C, CHR 0x5C), (CHR ''n'', CHR 0x0A),
             (CHR ''r'', CHR 0x0D), (CHR ''t'', CHR 0x09), (CHR ''f'', CHR 0x0C),
             (CHR ''b'', CHR 0x08)] c"

fun read_chars :: "string \<Rightarrow> (string \<times> string) option" where
  "read_chars [] = None"
| "read_chars (c # s) =
     (if c = CHR 0x22 then Some ([], s)
      else if c \<noteq> CHR 0x5C then map_option (apfst (Cons c)) (read_chars s)
      else (case s of
          [] \<Rightarrow> None
        | e # s1 \<Rightarrow>
            (if e \<noteq> CHR ''u''
             then (case unescape e of None \<Rightarrow> None
                   | Some d \<Rightarrow> map_option (apfst (Cons d)) (read_chars s1))
             else (case s1 of
                 z1 # z2 # h # l # s2 \<Rightarrow>
                   (case (unhex h, unhex l) of
                      (Some a, Some b) \<Rightarrow>
                        (if z1 = CHR ''0'' \<and> z2 = CHR ''0''
                         then map_option (apfst (Cons (char_of (16 * a + b)))) (read_chars s2)
                         else None)
                    | _ \<Rightarrow> None)
               | _ \<Rightarrow> None))))"

fun read_string :: "string \<Rightarrow> (string \<times> string) option" where
  "read_string (c # s) = (if c = CHR 0x22 then read_chars s else None)"
| "read_string [] = None"

definition read_value :: "string \<Rightarrow> (json \<times> string) option" where
  "read_value s = (if starts_with s ''null'' then Some (JNull, drop 4 s)
                   else map_option (apfst JString) (read_string s))"

definition read_member :: "string \<Rightarrow> ((string \<times> json) \<times> string) option" where
  "read_member s = (case read_string s of None \<Rightarrow> None
     | Some (k, s1) \<Rightarrow> (if \<not> starts_with s1 '': '' then None
         else map_option (apfst (Pair k)) (read_value (drop 2 s1))))"

text \<open>The members after an opening brace. Each takes at least one character, so the length
  of the text bounds their number.\<close>

fun read_members :: "nat \<Rightarrow> string \<Rightarrow> (payload \<times> string) option" where
  "read_members 0 s = None"
| "read_members (Suc n) s = (case read_member s of None \<Rightarrow> None
     | Some (m, s1) \<Rightarrow>
         (if starts_with s1 '', '' then map_option (apfst (Cons m)) (read_members n (drop 2 s1))
          else if starts_with s1 ''}'' then Some ([m], drop 1 s1) else None))"

definition json_loads :: "string \<Rightarrow> payload option" where
  "json_loads s =
     (if s = ''{}'' then Some []
      else if \<not> starts_with s ''{'' then None
      else (case read_members (length s) (drop 1 s) of
              Some (p, []) \<Rightarrow> Some p | _ \<Rightarrow> None))"

section \<open>Reading what was written\<close>

lemma unhex_hex_digit: "n < 16 \<Longrightarrow> unhex (hex_digit n) = Some n"
proof -
  have "\<forall>n\<in>set [0..<16]. unhex (hex_digit n) = Some n"
    by code_simp
  then show "n < 16 \<Longrightarrow> unhex (hex_digit n) = Some n" by simp
qed

lemma read_json_char: "read_chars (json_char c @ s) = map_option (apfst (Cons c)) (read_chars s)"
proof -
  have lt: "(of_char c :: nat) < 256" by simp
  then have d: "(of_char c :: nat) div 16 < 16" by linarith
  have m: "(of_char c :: nat) mod 16 < 16" by simp
  have whole: "char_of (16 * ((of_char c :: nat) div 16) + of_char c mod 16) = c"
    by simp
  show ?thesis
    using whole unhex_hex_digit [OF d] unhex_hex_digit [OF m]
    by (simp add: json_char_def unescape_def)
qed

lemma read_json_string: "read_string (json_string x @ s) = Some (x, s)"
proof -
  have "read_chars (concat (map json_char x) @ CHR 0x22 # s) = Some (x, s)"
    by (induction x) (simp_all add: read_json_char del: read_chars.simps(2), simp)
  then show ?thesis by (simp add: json_string_def)
qed

lemma read_json_value: "read_value (json_value v @ s) = Some (v, s)"
  by (cases v) (simp_all add: read_value_def read_json_string, simp add: json_string_def)

lemma read_json_member: "read_member (json_member m @ s) = Some (m, s)"
  by (simp add: read_member_def json_member_def read_json_string read_json_value)

lemma read_json_members:
  "p \<noteq> [] \<Longrightarrow> length p \<le> n \<Longrightarrow>
   read_members n (join '', '' (map json_member p) @ ''}'' @ s) = Some (p, s)"
proof (induction p arbitrary: n)
  case (Cons m p)
  then obtain k where n: "n = Suc k" by (cases n) auto
  show ?case
  proof (cases p)
    case Nil
    then show ?thesis using read_json_member [of m "''}'' @ s"] by (simp add: n)
  next
    case (Cons m' p')
    let ?t = "join '', '' (map json_member p) @ ''}'' @ s"
    have "read_members n (json_member m @ '', '' @ ?t)
            = map_option (apfst (Cons m)) (read_members k ?t)"
      using read_json_member [of m "'', '' @ ?t"] by (simp add: n)
    moreover have "read_members k ?t = Some (p, s)"
      using Cons.prems Cons by (intro Cons.IH) (simp_all add: n)
    ultimately show ?thesis by (simp add: Cons)
  qed
qed simp

lemma json_string_not_Nil [simp]: "json_string s \<noteq> []"
  by (simp add: json_string_def)

lemma length_json_members: "length p \<le> length (join '', '' (map json_member p))"
proof (induction p)
  case (Cons m p)
  have "1 \<le> length (json_member m)" by (simp add: json_member_def)
  then show ?case using Cons by (cases p) simp_all
qed simp

lemma json_loads_dumps: "json_loads (json_dumps p) = Some p"
proof (cases "p = []")
  case True
  then show ?thesis by (simp add: json_dumps_def json_loads_def)
next
  case False
  let ?t = "join '', '' (map json_member p) @ ''}''"
  have dumped: "json_dumps p = CHR ''{'' # ?t" by (simp add: json_dumps_def)
  have le: "length p \<le> length (json_dumps p)"
    using length_json_members [of p] by (simp add: json_dumps_def)
  have "read_members (length (json_dumps p)) (drop 1 (json_dumps p)) = Some (p, [])"
    using read_json_members [OF False le, of "[]"] unfolding dumped by simp
  moreover have "json_dumps p \<noteq> ''{}''"
    using length_json_members [of p] False by (auto simp: json_dumps_def)
  moreover have "starts_with (json_dumps p) ''{''" by (simp add: dumped)
  ultimately show ?thesis by (simp add: json_loads_def del: drop_Suc_Cons)
qed

end
