(* ===== verification/Webhooks.thy ===== *)
theory Webhooks
  imports JsonText
begin

text \<open>
  Outbound webhooks: the normalisation of FreeSWITCH events (\<open>normalize_event\<close> of
  \<^verbatim>\<open>app/services/freeswitch/esl.py\<close>), their dispatch to the subscribed endpoints
  (\<^verbatim>\<open>app/services/events/dispatch.py\<close>, \<open>handle_event\<close> of
  \<^verbatim>\<open>app/services/freeswitch/consumer.py\<close>), the signed delivery with its attempts and the
  sweep (\<^verbatim>\<open>app/services/webhooks/delivery.py\<close>), the Celery tasks
  (\<^verbatim>\<open>app/tasks/webhook_deliver.py\<close>) and the registration of endpoints
  (\<^verbatim>\<open>app/api/webhooks.py\<close>). The state holds the two tables of
  \<^verbatim>\<open>app/models/webhook.py\<close>, the rows of an event that are flushed and not committed yet,
  the clock, the calls of \<^verbatim>\<open>client.post\<close> and the messages given to the broker. What the
  receiver answers is a parameter of the delivery, the HMAC another.
\<close>

section \<open>Call events\<close>

record call_event =
  ev_uuid :: string
  ev_name :: string
  ev_direction :: string
  ev_caller :: string
  ev_callee :: string
  ev_subscriber :: "string option"

definition relevant_events :: "string list" where
  "relevant_events = [''CHANNEL_CREATE'', ''CHANNEL_ANSWER'', ''CHANNEL_HANGUP'',
                      ''CHANNEL_HANGUP_COMPLETE'']"

type_synonym headers = "string \<Rightarrow> string option"

definition header_or_empty :: "headers \<Rightarrow> string \<Rightarrow> string" where
  "header_or_empty raw k = (case raw k of None \<Rightarrow> [] | Some v \<Rightarrow> v)"

definition normalize_event :: "headers \<Rightarrow> call_event option" where
  "normalize_event raw =
     (let name = header_or_empty raw ''Event-Name'' in
      if name \<notin> set relevant_events then None
      else Some \<lparr>ev_uuid = header_or_empty raw ''Unique-ID'',
                 ev_name = name,
                 ev_direction = header_or_empty raw ''Call-Direction'',
                 ev_caller = header_or_empty raw ''Caller-Caller-ID-Number'',
                 ev_callee = header_or_empty raw ''Caller-Destination-Number'',
                 ev_subscriber = py_or (raw ''variable_dotmac_subscriber_id'') None\<rparr>)"

definition event_type_map :: "(string \<times> string) list" where
  "event_type_map = [(''CHANNEL_CREATE'', ''call.ringing''),
                     (''CHANNEL_ANSWER'', ''call.answered''),
                     (''CHANNEL_HANGUP_COMPLETE'', ''call.ended'')]"

definition event_type_for :: "string \<Rightarrow> string option" where
  "event_type_for name = map_of event_type_map name"

definition build_event_payload :: "call_event \<Rightarrow> string \<Rightarrow> payload" where
  "build_event_payload ev et =
     [(''event_type'', JString et),
      (''event_name'', JString (ev_name ev)),
      (''call_uuid'', JString (ev_uuid ev)),
      (''direction'', JString (ev_direction ev)),
      (''caller'', JString (ev_caller ev)),
      (''callee'', JString (ev_callee ev)),
      (''subscriber_id'', (case ev_subscriber ev of None \<Rightarrow> JNull | Some s \<Rightarrow> JString s))]"

section \<open>The tables\<close>

record webhook_endpoint =
  we_id :: nat
  we_url :: string
  we_secret :: string
  we_event_types :: "string list"
  we_active :: bool

datatype delivery_status = DPending | DDelivered | DFailed

record webhook_delivery =
  wd_id :: nat
  wd_endpoint :: nat
  wd_event_type :: string
  wd_payload :: payload
  wd_status :: delivery_status
  wd_attempts :: nat
  wd_last_code :: "nat option"
  wd_last_error :: "string option"
  wd_updated :: nat

text \<open>A call of \<^verbatim>\<open>client.post\<close> with its three variable headers, and how it ends: a
  response, an \<^verbatim>\<open>httpx.TransportError\<close>, or another exception, as for an invalid URL or a
  response that cannot be decoded.\<close>

record post_request =
  rq_url :: string
  rq_body :: string
  rq_event :: string
  rq_delivery :: nat
  rq_signature :: string

datatype post_outcome = Response nat | TransportError string | OtherError string

record hooks =
  hk_endpoints :: "webhook_endpoint list"
  hk_deliveries :: "webhook_delivery list"
  hk_session :: "webhook_delivery list"
  hk_next :: nat
  hk_clock :: nat
  hk_posts :: "post_request list"
  hk_queue :: "nat list"

definition no_hooks :: hooks where
  "no_hooks = \<lparr>hk_endpoints = [], hk_deliveries = [], hk_session = [], hk_next = 0,
               hk_clock = 0, hk_posts = [], hk_queue = []\<rparr>"

section \<open>Dispatch\<close>

definition endpoints_for_event :: "hooks \<Rightarrow> string \<Rightarrow> webhook_endpoint list" where
  "endpoints_for_event h et =
     filter (\<lambda>e. et \<in> set (we_event_types e)) (filter we_active (hk_endpoints h))"

definition new_delivery :: "string \<Rightarrow> payload \<Rightarrow> nat \<Rightarrow> nat \<Rightarrow> webhook_endpoint \<Rightarrow> webhook_delivery"
  where
  "new_delivery et pl now i e =
     \<lparr>wd_id = i, wd_endpoint = we_id e, wd_event_type = et, wd_payload = pl,
      wd_status = DPending, wd_attempts = 0, wd_last_code = None, wd_last_error = None,
      wd_updated = now\<rparr>"

text \<open>\<open>dispatch_call_event\<close>: the rows are flushed into the session; keys and the time of the
  flush come with them.\<close>

definition dispatch_call_event :: "call_event \<Rightarrow> hooks \<Rightarrow> webhook_delivery list \<times> hooks" where
  "dispatch_call_event ev h =
     (case event_type_for (ev_name ev) of
        None \<Rightarrow> ([], h)
      | Some et \<Rightarrow>
          let eps = endpoints_for_event h et;
              ds = map2 (new_delivery et (build_event_payload ev et) (hk_clock h))
                     [hk_next h..<hk_next h + length eps] eps
          in (ds, h\<lparr>hk_session := hk_session h @ ds, hk_next := hk_next h + length eps\<rparr>))"

text \<open>\<open>dispatch_and_enqueue\<close>: \<open>broker i\<close> says whether the message of delivery \<open>i\<close> reaches
  the broker; a failure there is logged and swallowed.\<close>

definition dispatch_and_enqueue :: "(nat \<Rightarrow> bool) \<Rightarrow> call_event \<Rightarrow> hooks \<Rightarrow>
    webhook_delivery list \<times> hooks" where
  "dispatch_and_enqueue broker ev h =
     (case dispatch_call_event ev h of (ds, h1) \<Rightarrow>
        (ds, h1\<lparr>hk_queue := hk_queue h1 @ filter broker (map wd_id ds)\<rparr>))"

text \<open>\<open>handle_event\<close> in its two observable parts, between which a worker can run: the dispatch
  in an open session, then the commit. A failure of the flush leaves nothing; a failure of
  the commit, or of anything after the flush, drops the rows of the session and not the
  messages already with the broker. Neither raises into the event stream.\<close>

definition begin_event :: "(nat \<Rightarrow> bool) \<Rightarrow> bool \<Rightarrow> call_event \<Rightarrow> hooks \<Rightarrow> hooks" where
  "begin_event broker flush_ok ev h =
     (if flush_ok then snd (dispatch_and_enqueue broker ev h) else h)"

definition end_event :: "bool \<Rightarrow> hooks \<Rightarrow> hooks" where
  "end_event commit_ok h =
     (if commit_ok
      then h\<lparr>hk_deliveries := hk_deliveries h @ hk_session h, hk_session := []\<rparr>
      else h\<lparr>hk_session := []\<rparr>)"

definition handle_event :: "(nat \<Rightarrow> bool) \<Rightarrow> bool \<Rightarrow> bool \<Rightarrow> call_event \<Rightarrow> hooks \<Rightarrow> hooks" where
  "handle_event broker flush_ok commit_ok ev h =
     end_event commit_ok (begin_event broker flush_ok ev h)"

text \<open>\<open>EslBridge._dispatch\<close> with the handler of the consumer installed.\<close>

definition esl_dispatch :: "(nat \<Rightarrow> bool) \<Rightarrow> bool \<Rightarrow> bool \<Rightarrow> headers \<Rightarrow> hooks \<Rightarrow> hooks" where
  "esl_dispatch broker flush_ok commit_ok raw h =
     (case normalize_event raw of None \<Rightarrow> h
      | Some ev \<Rightarrow> handle_event broker flush_ok commit_ok ev h)"

section \<open>Delivery\<close>

type_synonym receiver = "nat \<Rightarrow> post_request \<Rightarrow> post_outcome"

definition sign_body :: "(string \<Rightarrow> string \<Rightarrow> string) \<Rightarrow> string \<Rightarrow> string \<Rightarrow> string" where
  "sign_body hmac_hex secret body = ''sha256='' @ hmac_hex secret body"

definition is_success :: "nat \<Rightarrow> bool" where
  "is_success code \<longleftrightarrow> 200 \<le> code \<and> code \<le> 299"

text \<open>\<^verbatim>\<open>db.flush()\<close> of a changed delivery: \<^verbatim>\<open>onupdate\<close> sets \<open>updated_at\<close>. The clock is
  read there, and a later flush reads a later time.\<close>

definition save_delivery :: "webhook_delivery \<Rightarrow> hooks \<Rightarrow> hooks" where
  "save_delivery d h =
     h\<lparr>hk_deliveries := update_where (\<lambda>r. wd_id r = wd_id d)
          (\<lambda>_. d\<lparr>wd_updated := hk_clock h\<rparr>) (hk_deliveries h),
       hk_clock := Suc (hk_clock h)\<rparr>"

definition attempted :: "webhook_delivery \<Rightarrow> webhook_delivery" where
  "attempted d = d\<lparr>wd_attempts := wd_attempts d + 1\<rparr>"

definition fail_at :: "nat \<Rightarrow> webhook_delivery \<Rightarrow> webhook_delivery" where
  "fail_at max_attempts d =
     (if max_attempts \<le> wd_attempts d then d\<lparr>wd_status := DFailed\<rparr> else d)"

definition delivery_request :: "(string \<Rightarrow> string \<Rightarrow> string) \<Rightarrow> webhook_endpoint \<Rightarrow>
    webhook_delivery \<Rightarrow> post_request" where
  "delivery_request hmac_hex e d =
     (let body = json_dumps (wd_payload d) in
      \<lparr>rq_url = we_url e, rq_body = body, rq_event = wd_event_type d,
       rq_delivery = wd_id d, rq_signature = sign_body hmac_hex (we_secret e) body\<rparr>)"

definition after_response :: "nat \<Rightarrow> nat \<Rightarrow> webhook_delivery \<Rightarrow> webhook_delivery" where
  "after_response max_attempts code d =
     (if is_success code then (attempted d)\<lparr>wd_status := DDelivered\<rparr>
      else fail_at max_attempts ((attempted d)\<lparr>wd_last_code := Some code\<rparr>))"

definition after_error :: "nat \<Rightarrow> string \<Rightarrow> webhook_delivery \<Rightarrow> webhook_delivery" where
  "after_error max_attempts msg d =
     fail_at max_attempts ((attempted d)\<lparr>wd_last_error := Some msg\<rparr>)"

definition attempt_delivery :: "receiver \<Rightarrow> (string \<Rightarrow> string \<Rightarrow> string) \<Rightarrow> nat \<Rightarrow>
    webhook_delivery \<Rightarrow> (hooks, bool) act" where
  "attempt_delivery post hmac_hex max_attempts d h =
     (case first_where (\<lambda>e. we_id e = wd_endpoint d) (hk_endpoints h) of
        None \<Rightarrow>
          (Inr False, save_delivery (after_error max_attempts ''endpoint not found'' d) h)
      | Some e \<Rightarrow>
          let rq = delivery_request hmac_hex e d;
              h1 = h\<lparr>hk_posts := hk_posts h @ [rq]\<rparr>
          in case post (length (hk_posts h)) rq of
               Response code \<Rightarrow>
                 (Inr (is_success code), save_delivery (after_response max_attempts code d) h1)
             | TransportError msg \<Rightarrow>
                 (Inr False, save_delivery (after_error max_attempts (take 512 msg) d) h1)
             | OtherError cls \<Rightarrow> (Inl (Raised cls), h1))"

text \<open>The default of \<open>attempt_delivery\<close> and \<open>sweep_deliveries\<close>, and the batch of the sweep.\<close>

definition default_max_attempts :: nat where
  "default_max_attempts = 5"

definition sweep_limit :: nat where
  "sweep_limit = 100"

definition due :: "nat \<Rightarrow> webhook_delivery \<Rightarrow> bool" where
  "due max_attempts d \<longleftrightarrow> wd_status d = DPending \<and> wd_attempts d < max_attempts"

definition sweep_rows :: "nat \<Rightarrow> nat \<Rightarrow> hooks \<Rightarrow> webhook_delivery list" where
  "sweep_rows max_attempts limit h =
     take limit (sort_key wd_updated (filter (due max_attempts) (hk_deliveries h)))"

definition sweep_deliveries :: "receiver \<Rightarrow> (string \<Rightarrow> string \<Rightarrow> string) \<Rightarrow> nat \<Rightarrow> nat \<Rightarrow>
    (hooks, nat) act" where
  "sweep_deliveries post hmac_hex max_attempts limit h =
     (let rows = sweep_rows max_attempts limit h in
      bind_act (for_each (attempt_delivery post hmac_hex max_attempts) rows)
        (\<lambda>_. ret (length rows)) h)"

section \<open>The tasks\<close>

text \<open>What a rollback undoes and what it does not: the tables are those of the start, the
  requests have been sent.\<close>

definition rolled_back :: "hooks \<Rightarrow> hooks \<Rightarrow> hooks" where
  "rolled_back h h' = h'\<lparr>hk_deliveries := hk_deliveries h\<rparr>"

text \<open>\<open>sweep\<close> commits when \<open>sweep_deliveries\<close> returns; an exception closes the session, which
  rolls back.\<close>

definition sweep_task :: "receiver \<Rightarrow> (string \<Rightarrow> string \<Rightarrow> string) \<Rightarrow> (hooks, nat) act" where
  "sweep_task post hmac_hex h =
     (case sweep_deliveries post hmac_hex default_max_attempts sweep_limit h of
        (Inl e, h') \<Rightarrow> (Inl e, rolled_back h h')
      | (Inr n, h') \<Rightarrow> (Inr n, h'))"

datatype task_result = Skipped | Finished | RetryIn nat | GaveUp | TaskRaised err

text \<open>Celery's \<open>self.retry\<close> with \<^verbatim>\<open>max_retries=5\<close>: it raises \<open>MaxRetriesExceededError\<close> when
  the task has been retried that often.\<close>

definition max_retries :: nat where
  "max_retries = 5"

definition deliver :: "receiver \<Rightarrow> (string \<Rightarrow> string \<Rightarrow> string) \<Rightarrow> nat \<Rightarrow> nat \<Rightarrow> hooks \<Rightarrow>
    task_result \<times> hooks" where
  "deliver post hmac_hex retries did h =
     (case first_where (\<lambda>d. wd_id d = did) (hk_deliveries h) of
        None \<Rightarrow> (Skipped, h)
      | Some d \<Rightarrow>
          (case attempt_delivery post hmac_hex default_max_attempts d h of
             (Inl e, h') \<Rightarrow> (TaskRaised e, rolled_back h h')
           | (Inr ok, h') \<Rightarrow>
               let status = (case first_where (\<lambda>d. wd_id d = did) (hk_deliveries h') of
                               None \<Rightarrow> wd_status d | Some d' \<Rightarrow> wd_status d')
               in if \<not> ok \<and> status \<noteq> DFailed
                  then (if max_retries \<le> retries then GaveUp
                        else RetryIn (min (2 ^ retries) 300), h')
                  else (Finished, h')))"

text \<open>A message of the queue is consumed by running the task and running it again for every
  retry it asks for.\<close>

lemma deliver_retry_bound: "deliver post hm retries did h = (RetryIn c, h') \<Longrightarrow> retries < max_retries"
  by (auto simp: deliver_def Let_def split: option.splits prod.splits sum.splits if_splits)

function deliver_chain :: "receiver \<Rightarrow> (string \<Rightarrow> string \<Rightarrow> string) \<Rightarrow> nat \<Rightarrow> nat \<Rightarrow> hooks \<Rightarrow>
    task_result \<times> hooks" where
  "deliver_chain post hmac_hex retries did h =
     (case deliver post hmac_hex retries did h of
        (RetryIn c, h') \<Rightarrow> deliver_chain post hmac_hex (Suc retries) did h'
      | (r, h') \<Rightarrow> (r, h'))"
  by pat_completeness auto

termination
  by (relation "measure (\<lambda>(post, hm, retries, did, h). max_retries - retries)")
     (auto dest!: deliver_retry_bound [OF sym])

declare deliver_chain.simps [simp del]

section \<open>The registration API\<close>

record endpoint_create =
  ec_url :: string
  ec_secret :: string
  ec_event_types :: "string list"
  ec_active :: bool

text \<open>PostgreSQL refuses a value longer than its column (\<^verbatim>\<open>String(512)\<close>, \<^verbatim>\<open>String(128)\<close>).\<close>

definition create_endpoint :: "endpoint_create \<Rightarrow> (hooks, webhook_endpoint) act" where
  "create_endpoint body h =
     (if 512 < length (ec_url body) \<or> 128 < length (ec_secret body)
      then (Inl (Raised ''DataError''), h)
      else let e = \<lparr>we_id = hk_next h, we_url = ec_url body, we_secret = ec_secret body,
                    we_event_types = ec_event_types body, we_active = ec_active body\<rparr>
           in (Inr e, h\<lparr>hk_endpoints := hk_endpoints h @ [e], hk_next := Suc (hk_next h)\<rparr>))"

definition list_endpoints :: "hooks \<Rightarrow> (nat \<times> string \<times> string list \<times> bool) list" where
  "list_endpoints h =
     map (\<lambda>e. (we_id e, we_url e, we_event_types e, we_active e)) (hk_endpoints h)"

text \<open>\<open>delete_endpoint\<close>: a delivery that refers to the endpoint, committed or not, keeps it
  (the foreign key has no \<^verbatim>\<open>ON DELETE\<close>, the commit fails).\<close>

definition delete_endpoint :: "nat \<Rightarrow> (hooks, unit) act" where
  "delete_endpoint eid h =
     (if first_where (\<lambda>e. we_id e = eid) (hk_endpoints h) = None
      then (Inl (HttpError 404 ''endpoint not found''), h)
      else if \<exists>d\<in>set (hk_deliveries h @ hk_session h). wd_endpoint d = eid
      then (Inl IntegrityErr, h)
      else (Inr (), h\<lparr>hk_endpoints := delete_where (\<lambda>e. we_id e = eid) (hk_endpoints h)\<rparr>))"

end
