(* ===== verification/WebhookProofs.thy ===== *)
theory WebhookProofs
  imports Webhooks
begin

text \<open>
  The invariant of the webhook tables over every interleaving of API requests, events, tasks
  and sweeps, and what a single attempt does to the row it is about and to the others.
\<close>

section \<open>Steps\<close>

inductive hook_step :: "receiver \<Rightarrow> (string \<Rightarrow> string \<Rightarrow> string) \<Rightarrow> hooks \<Rightarrow> hooks \<Rightarrow> bool"
  for post :: receiver and hm :: "string \<Rightarrow> string \<Rightarrow> string" where
  Create: "hook_step post hm h (snd (create_endpoint body h))"
| Delete: "hook_step post hm h (snd (delete_endpoint eid h))"
| Event: "normalize_event raw = Some ev \<Longrightarrow> hk_session h = [] \<Longrightarrow>
    hook_step post hm h (begin_event broker flush_ok ev h)"
| Commit: "hook_step post hm h (end_event commit_ok h)"
| Deliver: "hook_step post hm h (snd (deliver post hm retries did h))"
| Sweep: "hook_step post hm h (snd (sweep_task post hm h))"

inductive hook_reach :: "receiver \<Rightarrow> (string \<Rightarrow> string \<Rightarrow> string) \<Rightarrow> hooks \<Rightarrow> bool"
  for post :: receiver and hm :: "string \<Rightarrow> string \<Rightarrow> string" where
  Start: "hook_reach post hm no_hooks"
| Step: "hook_reach post hm h \<Longrightarrow> hook_step post hm h h' \<Longrightarrow> hook_reach post hm h'"

section \<open>The invariant\<close>

definition row_ok :: "webhook_endpoint list \<Rightarrow> webhook_delivery \<Rightarrow> bool" where
  "row_ok eps d \<longleftrightarrow>
     (\<exists>e\<in>set eps. we_id e = wd_endpoint d) \<and>
     wd_event_type d \<in> set (map snd event_type_map) \<and>
     (wd_status d = DPending \<longrightarrow> wd_attempts d < default_max_attempts) \<and>
     (wd_status d = DFailed \<longrightarrow> default_max_attempts \<le> wd_attempts d) \<and>
     (wd_status d = DDelivered \<longrightarrow> 0 < wd_attempts d)"

definition hook_inv :: "hooks \<Rightarrow> bool" where
  "hook_inv h \<longleftrightarrow>
     keyed we_id (hk_next h) (hk_endpoints h) \<and>
     keyed wd_id (hk_next h) (hk_deliveries h @ hk_session h) \<and>
     (\<forall>d\<in>set (hk_deliveries h @ hk_session h). row_ok (hk_endpoints h) d) \<and>
     (\<forall>d\<in>set (hk_session h). wd_status d = DPending \<and> wd_attempts d = 0)"

text \<open>Rows keep their identity through an attempt.\<close>

named_theorems row_simps \<open>what the changes of a row leave alone\<close>

lemma attempted_simps [row_simps]:
  "wd_id (attempted d) = wd_id d" "wd_endpoint (attempted d) = wd_endpoint d"
  "wd_event_type (attempted d) = wd_event_type d" "wd_payload (attempted d) = wd_payload d"
  "wd_status (attempted d) = wd_status d" "wd_attempts (attempted d) = Suc (wd_attempts d)"
  by (simp_all add: attempted_def)

lemma fail_at_simps [row_simps]:
  "wd_id (fail_at m d) = wd_id d" "wd_endpoint (fail_at m d) = wd_endpoint d"
  "wd_event_type (fail_at m d) = wd_event_type d" "wd_payload (fail_at m d) = wd_payload d"
  "wd_attempts (fail_at m d) = wd_attempts d"
  "wd_status (fail_at m d) = (if m \<le> wd_attempts d then DFailed else wd_status d)"
  by (simp_all add: fail_at_def)

lemma after_error_simps [row_simps]:
  "wd_id (after_error m msg d) = wd_id d" "wd_endpoint (after_error m msg d) = wd_endpoint d"
  "wd_event_type (after_error m msg d) = wd_event_type d"
  "wd_payload (after_error m msg d) = wd_payload d"
  "wd_attempts (after_error m msg d) = Suc (wd_attempts d)"
  "wd_status (after_error m msg d) = (if m \<le> Suc (wd_attempts d) then DFailed else wd_status d)"
  by (simp_all add: after_error_def row_simps)

lemma after_response_simps [row_simps]:
  "wd_id (after_response m c d) = wd_id d" "wd_endpoint (after_response m c d) = wd_endpoint d"
  "wd_event_type (after_response m c d) = wd_event_type d"
  "wd_payload (after_response m c d) = wd_payload d"
  "wd_attempts (after_response m c d) = Suc (wd_attempts d)"
  "wd_status (after_response m c d) =
     (if is_success c then DDelivered else if m \<le> Suc (wd_attempts d) then DFailed else wd_status d)"
  by (simp_all add: after_response_def row_simps)

lemma row_ok_cong:
  "row_ok eps d \<Longrightarrow> wd_endpoint d' = wd_endpoint d \<Longrightarrow> wd_event_type d' = wd_event_type d \<Longrightarrow>
   (wd_status d' = DPending \<longrightarrow> wd_attempts d' < default_max_attempts) \<Longrightarrow>
   (wd_status d' = DFailed \<longrightarrow> default_max_attempts \<le> wd_attempts d') \<Longrightarrow>
   (wd_status d' = DDelivered \<longrightarrow> 0 < wd_attempts d') \<Longrightarrow> row_ok eps d'"
  by (simp add: row_ok_def)

lemma row_ok_attempt:
  assumes "row_ok eps d"
  shows "row_ok eps ((after_error default_max_attempts msg d)\<lparr>wd_updated := t\<rparr>)"
    and "row_ok eps ((after_response default_max_attempts c d)\<lparr>wd_updated := t\<rparr>)"
  using assms by (auto intro!: row_ok_cong [OF assms] simp: row_simps row_ok_def)

section \<open>One attempt\<close>

text \<open>\<open>wrote d d' h h'\<close>: the only change of the tables is that the row \<open>d\<close> is now \<open>d'\<close>.\<close>

definition wrote :: "webhook_delivery \<Rightarrow> webhook_delivery \<Rightarrow> hooks \<Rightarrow> hooks \<Rightarrow> bool" where
  "wrote d d' h h' \<longleftrightarrow>
     hk_deliveries h' = update_where (\<lambda>r. wd_id r = wd_id d) (\<lambda>_. d') (hk_deliveries h) \<and>
     hk_endpoints h' = hk_endpoints h \<and> hk_session h' = hk_session h \<and>
     hk_next h' = hk_next h \<and> hk_queue h' = hk_queue h \<and> wd_id d' = wd_id d"

lemma wrote_save: "wd_id d' = wd_id d \<Longrightarrow> hk_deliveries h1 = hk_deliveries h \<Longrightarrow>
    hk_endpoints h1 = hk_endpoints h \<Longrightarrow> hk_session h1 = hk_session h \<Longrightarrow>
    hk_next h1 = hk_next h \<Longrightarrow> hk_queue h1 = hk_queue h \<Longrightarrow>
    wrote d (d'\<lparr>wd_updated := hk_clock h1\<rparr>) h (save_delivery d' h1)"
  by (simp add: wrote_def save_delivery_def)

text \<open>The two ways an attempt returns, and the one it raises.\<close>

lemma attempt_cases:
  obtains (ok) d' h' t c where "attempt_delivery post hm m d h = (Inr True, h')"
      "wrote d d' h h'" "d' = (after_response m c d)\<lparr>wd_updated := t\<rparr>" "is_success c"
    | (no) d' h' t c msg where "attempt_delivery post hm m d h = (Inr False, h')"
      "wrote d d' h h'" "\<not> is_success c"
      "d' = (after_error m msg d)\<lparr>wd_updated := t\<rparr> \<or> d' = (after_response m c d)\<lparr>wd_updated := t\<rparr>"
    | (raised) h' cls where "attempt_delivery post hm m d h = (Inl (Raised cls), h')"
      "hk_deliveries h' = hk_deliveries h" "hk_endpoints h' = hk_endpoints h"
      "hk_session h' = hk_session h" "hk_next h' = hk_next h" "hk_queue h' = hk_queue h"
      "\<exists>n rq. post n rq = OtherError cls"
proof (cases "first_where (\<lambda>e. we_id e = wd_endpoint d) (hk_endpoints h)")
  case None
  have "\<not> is_success 0" by (simp add: is_success_def)
  show thesis
    by (rule no [OF _ wrote_save \<open>\<not> is_success 0\<close> disjI1])
       (simp_all add: attempt_delivery_def None row_simps)
next
  case (Some e)
  let ?rq = "delivery_request hm e d"
  let ?h1 = "h\<lparr>hk_posts := hk_posts h @ [?rq]\<rparr>"
  show thesis
  proof (cases "post (length (hk_posts h)) ?rq")
    case (Response c)
    note run = Some Response
    show thesis
    proof (cases "is_success c")
      case True
      show thesis
        by (rule ok [OF _ wrote_save [of "after_response m c d" d ?h1 h] refl True])
           (simp_all add: attempt_delivery_def run True row_simps)
    next
      case False
      show thesis
        by (rule no [OF _ wrote_save [of "after_response m c d" d ?h1 h] False disjI2])
           (simp_all add: attempt_delivery_def run False row_simps)
    qed
  next
    case (TransportError msg)
    have "\<not> is_success 0" by (simp add: is_success_def)
    show thesis
      by (rule no [OF _ wrote_save [of "after_error m (take 512 msg) d" d ?h1 h]
            \<open>\<not> is_success 0\<close> disjI1])
         (simp_all add: attempt_delivery_def Some TransportError row_simps)
  next
    case (OtherError cls)
    show thesis
      by (rule raised [of cls ?h1])
         (simp_all add: attempt_delivery_def Some OtherError, rule exI, rule exI, rule OtherError)
  qed
qed


text \<open>An attempt at a stored row keeps the invariant and every other row.\<close>

lemma wrote_inv:
  assumes "hook_inv h" and "wrote d d' h h'" and "row_ok (hk_endpoints h) d'"
  shows "hook_inv h'"
proof -
  let ?up = "update_where (\<lambda>r. wd_id r = wd_id d) (\<lambda>_. d') (hk_deliveries h)"
  have ids: "map wd_id ?up = map wd_id (hk_deliveries h)"
    using assms(2) by (auto simp: wrote_def update_where_def)
  have "set (map wd_id (?up @ hk_session h)) = set (map wd_id (hk_deliveries h @ hk_session h))"
    unfolding map_append ids ..
  then have "keyed wd_id (hk_next h) (?up @ hk_session h)"
    using assms(1) ids unfolding hook_inv_def keyed_def map_append
    by (metis (no_types, lifting) image_eqI image_iff list.set_map map_append)
  moreover have "\<forall>r\<in>set ?up. row_ok (hk_endpoints h) r"
    using assms(1,3) by (auto simp: hook_inv_def update_where_def)
  ultimately show ?thesis
    using assms(1,2) by (auto simp: hook_inv_def wrote_def)
qed

lemma rolled_back_inv:
  "hook_inv h \<Longrightarrow> hk_endpoints h' = hk_endpoints h \<Longrightarrow> hk_session h' = hk_session h \<Longrightarrow>
   hk_next h' = hk_next h \<Longrightarrow> hk_deliveries h' = hk_deliveries h \<Longrightarrow> hook_inv h'"
  by (simp add: hook_inv_def)

lemma attempt_inv:
  assumes "hook_inv h" and "d \<in> set (hk_deliveries h)"
    and "attempt_delivery post hm default_max_attempts d h = (r, h')"
  shows "hook_inv h'"
proof -
  have ok: "row_ok (hk_endpoints h) d" using assms(1,2) by (simp add: hook_inv_def)
  show ?thesis
  proof (cases rule: attempt_cases [of post hm default_max_attempts d h])
    case (ok d' h1 t c)
    then show ?thesis using assms row_ok_attempt(2) [OF \<open>row_ok (hk_endpoints h) d\<close>]
      by (auto intro: wrote_inv)
  next
    case (no d' h1 t c msg)
    then show ?thesis using assms row_ok_attempt [OF \<open>row_ok (hk_endpoints h) d\<close>]
      by (auto intro: wrote_inv)
  next
    case (raised h1 cls)
    then show ?thesis using assms by (auto intro: rolled_back_inv)
  qed
qed

lemma attempt_frame:
  assumes "attempt_delivery post hm m d h = (r, h')"
  shows "hk_endpoints h' = hk_endpoints h" "hk_session h' = hk_session h"
    "hk_next h' = hk_next h" "hk_queue h' = hk_queue h"
  by (cases rule: attempt_cases [of post hm m d h]; use assms in \<open>simp add: wrote_def\<close>)+

lemma attempt_others:
  assumes "attempt_delivery post hm m d h = (r, h')" and "q \<in> set (hk_deliveries h)"
    and "wd_id q \<noteq> wd_id d"
  shows "q \<in> set (hk_deliveries h')"
  by (cases rule: attempt_cases [of post hm m d h])
     (use assms in \<open>auto simp: wrote_def update_where_def\<close>)

section \<open>A batch of attempts\<close>

lemma for_each_inv:
  assumes "hook_inv h" and "distinct (map wd_id ds)" and "set ds \<subseteq> set (hk_deliveries h)"
    and "for_each (attempt_delivery post hm default_max_attempts) ds h = (r, h')"
  shows "hook_inv h' \<and> hk_endpoints h' = hk_endpoints h \<and> hk_session h' = hk_session h \<and>
    hk_next h' = hk_next h \<and> hk_queue h' = hk_queue h"
  using assms
proof (induction ds arbitrary: h)
  case (Cons d ds)
  obtain r1 h1 where run: "attempt_delivery post hm default_max_attempts d h = (r1, h1)"
    by (cases "attempt_delivery post hm default_max_attempts d h")
  note frame = attempt_frame [OF run]
  have inv: "hook_inv h1" using attempt_inv [OF Cons.prems(1) _ run] Cons.prems(3) by simp
  show ?case
  proof (cases r1)
    case (Inl e)
    then show ?thesis using Cons.prems(4) run inv frame by (simp add: bind_act_def)
  next
    case (Inr b)
    have "set ds \<subseteq> set (hk_deliveries h1)"
      using Cons.prems(2,3) attempt_others [OF run] by auto (metis image_eqI subsetD)
    then show ?thesis
      using Cons.IH [OF inv] Cons.prems(2,4) run Inr frame by (simp add: bind_act_def)
  qed
qed simp

lemma sweep_rows_props:
  assumes "hook_inv h"
  shows "distinct (map wd_id (sweep_rows m n h))" "set (sweep_rows m n h) \<subseteq> set (hk_deliveries h)"
    "d \<in> set (sweep_rows m n h) \<Longrightarrow> due m d"
proof -
  have "distinct (map wd_id (hk_deliveries h))" using assms by (simp add: hook_inv_def keyed_def)
  then have "distinct (map wd_id (filter (due m) (hk_deliveries h)))"
    by (rule distinct_map_filter)
  then have "distinct (map wd_id (sort_key wd_updated (filter (due m) (hk_deliveries h))))"
    by (simp add: distinct_map)
  then show "distinct (map wd_id (sweep_rows m n h))"
    by (simp add: sweep_rows_def take_map [symmetric] distinct_take)
  have "set (sweep_rows m n h) \<subseteq> {d \<in> set (hk_deliveries h). due m d}"
    unfolding sweep_rows_def by (rule subset_trans [OF set_take_subset]) auto
  then show "set (sweep_rows m n h) \<subseteq> set (hk_deliveries h)"
    "d \<in> set (sweep_rows m n h) \<Longrightarrow> due m d" by auto
qed

lemma sweep_task_inv:
  assumes "hook_inv h" and "sweep_task post hm h = (r, h')"
  shows "hook_inv h'"
proof -
  let ?rows = "sweep_rows default_max_attempts sweep_limit h"
  obtain r1 h1 where run:
    "for_each (attempt_delivery post hm default_max_attempts) ?rows h = (r1, h1)"
    by (cases "for_each (attempt_delivery post hm default_max_attempts) ?rows h")
  note all = for_each_inv [OF assms(1) sweep_rows_props(1,2) [OF assms(1)] run]
  show ?thesis
  proof (cases r1)
    case (Inl e)
    then have "h' = rolled_back h h1"
      using assms(2) run by (simp add: sweep_task_def sweep_deliveries_def bind_act_def)
    then show ?thesis using rolled_back_inv [OF assms(1), of h'] all by (simp add: rolled_back_def)
  next
    case (Inr u)
    then have "h' = h1"
      using assms(2) run by (simp add: sweep_task_def sweep_deliveries_def bind_act_def)
    then show ?thesis using all by simp
  qed
qed

lemma deliver_inv:
  assumes "hook_inv h" and "deliver post hm retries did h = (r, h')"
  shows "hook_inv h'"
proof (cases "first_where (\<lambda>d. wd_id d = did) (hk_deliveries h)")
  case None
  then show ?thesis using assms by (simp add: deliver_def)
next
  case (Some d)
  obtain r1 h1 where run: "attempt_delivery post hm default_max_attempts d h = (r1, h1)"
    by (cases "attempt_delivery post hm default_max_attempts d h")
  have inv: "hook_inv h1"
    using attempt_inv [OF assms(1) _ run] first_where_Some [OF Some] by simp
  have "h' = h1 \<or> h' = rolled_back h h1"
    using assms(2) run Some by (auto simp: deliver_def Let_def split: sum.splits if_splits)
  then show ?thesis
    using inv rolled_back_inv [OF assms(1), of h'] attempt_frame [OF run]
    by (auto simp: rolled_back_def)
qed


section \<open>The other operations\<close>

lemma new_delivery_simps [row_simps]:
  "wd_id (new_delivery et pl now i e) = i" "wd_endpoint (new_delivery et pl now i e) = we_id e"
  "wd_event_type (new_delivery et pl now i e) = et" "wd_payload (new_delivery et pl now i e) = pl"
  "wd_status (new_delivery et pl now i e) = DPending"
  "wd_attempts (new_delivery et pl now i e) = 0"
  by (simp_all add: new_delivery_def)

lemma map_new_delivery:
  "length ids = length eps \<Longrightarrow>
     map wd_id (map2 (new_delivery et pl now) ids eps) = ids \<and>
     map wd_endpoint (map2 (new_delivery et pl now) ids eps) = map we_id eps"
  by (induction ids eps rule: list_induct2) (simp_all add: row_simps)

lemma set_new_delivery:
  "d \<in> set (map2 (new_delivery et pl now) ids eps) \<Longrightarrow>
   \<exists>i e. e \<in> set eps \<and> d = new_delivery et pl now i e"
  by (auto dest: set_zip_rightD)

lemma dispatch_call_event_Some:
  assumes "event_type_for (ev_name ev) = Some et"
  shows "dispatch_call_event ev h =
    (let ds = map2 (new_delivery et (build_event_payload ev et) (hk_clock h))
                [hk_next h..<hk_next h + length (endpoints_for_event h et)] (endpoints_for_event h et)
     in (ds, h\<lparr>hk_session := hk_session h @ ds,
               hk_next := hk_next h + length (endpoints_for_event h et)\<rparr>))"
  using assms by (simp add: dispatch_call_event_def Let_def)

lemma keyed_append:
  assumes "keyed pk n xs" and "keyed pk m ys" and "\<And>y. y \<in> set ys \<Longrightarrow> n \<le> pk y" and "n \<le> m"
  shows "keyed pk m (xs @ ys)"
  using assms by (fastforce simp: keyed_def)

lemma keyed_range:
  assumes "keyed pk n xs" and ids: "map pk ys = [n..<m]" and "n \<le> m"
  shows "keyed pk m (xs @ ys)"
proof (rule keyed_append [OF assms(1)])
  have "pk ` set ys = set [n..<m]" unfolding ids [symmetric] by simp
  then have range: "pk ` set ys = {n..<m}" by simp
  then show "keyed pk m ys" by (auto simp: keyed_def ids)
  show "n \<le> pk y" if "y \<in> set ys" for y
    using range that by (metis atLeastLessThan_iff image_eqI)
qed (rule assms(3))

lemma begin_event_inv:
  assumes "hook_inv h" and "hk_session h = []"
  shows "hook_inv (begin_event broker flush_ok ev h)"
proof (cases "event_type_for (ev_name ev)")
  case None
  then show ?thesis
    using assms by (simp add: begin_event_def dispatch_and_enqueue_def dispatch_call_event_def hook_inv_def)
next
  case (Some et)
  let ?eps = "endpoints_for_event h et"
  let ?ids = "[hk_next h..<hk_next h + length ?eps]"
  let ?ds = "map2 (new_delivery et (build_event_payload ev et) (hk_clock h)) ?ids ?eps"
  have et: "et \<in> set (map snd event_type_map)"
    using map_of_SomeD [OF Some [unfolded event_type_for_def]] by force
  have new: "row_ok (hk_endpoints h) d \<and> wd_status d = DPending \<and> wd_attempts d = 0"
    if "d \<in> set ?ds" for d
    using set_new_delivery [OF that] et
    by (auto simp: row_ok_def row_simps endpoints_for_event_def default_max_attempts_def
        simp del: set_map)
  have ids: "map wd_id ?ds = ?ids" using map_new_delivery by simp
  have old: "keyed wd_id (hk_next h) (hk_deliveries h)"
    using assms by (simp add: hook_inv_def)
  have "keyed wd_id (hk_next h + length ?eps) (hk_deliveries h @ ?ds)"
    by (rule keyed_range [OF old ids]) simp
  moreover have "keyed we_id (hk_next h + length ?eps) (hk_endpoints h)"
    using assms by (auto simp: hook_inv_def intro: keyed_mono)
  ultimately have "hook_inv (h\<lparr>hk_session := ?ds, hk_next := hk_next h + length ?eps,
      hk_queue := hk_queue h @ filter broker (map wd_id ?ds)\<rparr>)"
    using assms new by (auto simp: hook_inv_def)
  then show ?thesis
    using assms by (simp add: begin_event_def dispatch_and_enqueue_def dispatch_call_event_Some [OF Some]
        Let_def)
qed

lemma end_event_inv: "hook_inv h \<Longrightarrow> hook_inv (end_event ok h)"
  by (auto simp: hook_inv_def end_event_def keyed_def)

lemma create_endpoint_inv: "hook_inv h \<Longrightarrow> hook_inv (snd (create_endpoint body h))"
  by (auto simp: create_endpoint_def hook_inv_def Let_def row_ok_def keyed_def less_Suc_eq
      intro: less_SucI)

lemma delete_endpoint_inv: "hook_inv h \<Longrightarrow> hook_inv (snd (delete_endpoint eid h))"
proof -
  assume inv: "hook_inv h"
  let ?eps = "delete_where (\<lambda>e. we_id e = eid) (hk_endpoints h)"
  have "row_ok ?eps d" if "row_ok (hk_endpoints h) d" "wd_endpoint d \<noteq> eid" for d
    using that by (auto simp: row_ok_def table_simps)
  then have "hook_inv (h\<lparr>hk_endpoints := ?eps\<rparr>)"
    if "\<forall>d\<in>set (hk_deliveries h @ hk_session h). wd_endpoint d \<noteq> eid"
    using inv that by (auto simp: hook_inv_def intro: keyed_delete)
  then show ?thesis using inv by (auto simp: delete_endpoint_def)
qed

lemma hook_step_inv: "hook_step post hm h h' \<Longrightarrow> hook_inv h \<Longrightarrow> hook_inv h'"
proof (induction rule: hook_step.induct)
  case (Deliver h retries did)
  then show ?case by (metis deliver_inv prod.collapse)
next
  case (Sweep h)
  then show ?case by (metis sweep_task_inv prod.collapse)
qed (simp_all add: begin_event_inv end_event_inv create_endpoint_inv delete_endpoint_inv)

lemma no_hooks_inv: "hook_inv no_hooks"
  by (simp add: no_hooks_def hook_inv_def keyed_def)

lemma hook_reach_inv: "hook_reach post hm h \<Longrightarrow> hook_inv h"
  by (induction rule: hook_reach.induct) (simp_all add: hook_step_inv no_hooks_inv)

section \<open>Progress\<close>

text \<open>\<open>stepped d d'\<close>: the row has one attempt more and has not become pending again.\<close>

definition stepped :: "webhook_delivery \<Rightarrow> webhook_delivery \<Rightarrow> bool" where
  "stepped d d' \<longleftrightarrow> wd_id d' = wd_id d \<and> wd_attempts d' = Suc (wd_attempts d) \<and>
     (wd_status d' = DPending \<longrightarrow> wd_status d = DPending)"

definition polite :: "receiver \<Rightarrow> bool" where
  "polite post \<longleftrightarrow> (\<forall>n rq cls. post n rq \<noteq> OtherError cls)"

definition stepped_on :: "nat set \<Rightarrow> webhook_delivery list \<Rightarrow> webhook_delivery list \<Rightarrow> bool" where
  "stepped_on ids = list_all2 (\<lambda>r r'. if wd_id r \<in> ids then stepped r r' else r' = r)"

lemma polite_attempt:
  assumes "polite post"
  obtains b d' h' where "attempt_delivery post hm m d h = (Inr b, h')" "wrote d d' h h'" "stepped d d'"
  by (cases rule: attempt_cases [of post hm m d h])
     (use assms in \<open>auto simp: polite_def stepped_def row_simps split: if_splits intro!: that\<close>)

lemma wrote_stepped:
  assumes "wrote d d' h h'" and "stepped d d'" and "d \<in> set (hk_deliveries h)"
    and "distinct (map wd_id (hk_deliveries h))"
  shows "stepped_on {wd_id d} (hk_deliveries h) (hk_deliveries h')"
proof -
  have "r = d" if "r \<in> set (hk_deliveries h)" "wd_id r = wd_id d" for r
    using that assms(3,4) by (auto simp: distinct_map dest: inj_onD)
  then show ?thesis
    using assms(1,2) unfolding stepped_on_def wrote_def update_where_def
    by (auto simp: list_all2_conv_all_nth set_conv_nth)
qed

lemma stepped_on_trans:
  assumes "stepped_on A xs ys" and "stepped_on B ys zs" and "A \<inter> B = {}"
  shows "stepped_on (A \<union> B) xs zs"
  using assms(1,2) unfolding stepped_on_def
  by (rule list_all2_trans [rotated 1]) (use assms(3) in \<open>auto simp: stepped_def split: if_splits\<close>)

lemma polite_batch:
  assumes "polite post" and "hook_inv h" and "distinct (map wd_id ds)"
    and "set ds \<subseteq> set (hk_deliveries h)"
  shows "\<exists>h'. for_each (attempt_delivery post hm default_max_attempts) ds h = (Inr (), h') \<and>
    stepped_on (set (map wd_id ds)) (hk_deliveries h) (hk_deliveries h')"
  using assms(2-)
proof (induction ds arbitrary: h)
  case Nil
  then show ?case by (simp add: stepped_on_def list.rel_refl)
next
  case (Cons d ds)
  obtain b d' h1 where run: "attempt_delivery post hm default_max_attempts d h = (Inr b, h1)"
    and w: "wrote d d' h h1" and st: "stepped d d'"
    using polite_attempt [OF assms(1)] by metis
  have inv: "hook_inv h1" using attempt_inv [OF Cons.prems(1) _ run] Cons.prems(3) by simp
  have "set ds \<subseteq> set (hk_deliveries h1)"
    using Cons.prems(2,3) attempt_others [OF run] by auto (metis image_eqI subsetD)
  then obtain h2 where more: "for_each (attempt_delivery post hm default_max_attempts) ds h1 = (Inr (), h2)"
    and on: "stepped_on (set (map wd_id ds)) (hk_deliveries h1) (hk_deliveries h2)"
    using Cons.IH [OF inv] Cons.prems(2) by auto
  have "stepped_on {wd_id d} (hk_deliveries h) (hk_deliveries h1)"
    using wrote_stepped [OF w st] Cons.prems by (simp add: hook_inv_def keyed_def)
  from stepped_on_trans [OF this on] Cons.prems(2)
  have "stepped_on (set (map wd_id (d # ds))) (hk_deliveries h) (hk_deliveries h2)"
    by simp
  then show ?case using run more by (simp add: bind_act_def)
qed

lemma polite_sweep:
  assumes "polite post" and "hook_inv h"
  obtains h' where
    "sweep_task post hm h = (Inr (length (sweep_rows default_max_attempts sweep_limit h)), h')"
    "stepped_on (wd_id ` set (sweep_rows default_max_attempts sweep_limit h))
       (hk_deliveries h) (hk_deliveries h')"
proof -
  obtain h' where
    "for_each (attempt_delivery post hm default_max_attempts)
       (sweep_rows default_max_attempts sweep_limit h) h = (Inr (), h')"
    "stepped_on (set (map wd_id (sweep_rows default_max_attempts sweep_limit h)))
       (hk_deliveries h) (hk_deliveries h')"
    using polite_batch [OF assms sweep_rows_props(1,2) [OF assms(2)]] by blast
  then show thesis
    by (intro that [of h']) (simp_all add: sweep_task_def sweep_deliveries_def bind_act_def)
qed

text \<open>The attempts the pending rows have left, and how a batch lowers them.\<close>

definition left_of :: "webhook_delivery \<Rightarrow> nat" where
  "left_of d = (if wd_status d = DPending then default_max_attempts - wd_attempts d else 0)"

definition attempts_left :: "hooks \<Rightarrow> nat" where
  "attempts_left h = sum_list (map left_of (hk_deliveries h))"

definition due_count :: "hooks \<Rightarrow> nat" where
  "due_count h = length (filter (due default_max_attempts) (hk_deliveries h))"

lemma left_of_pos: "0 < left_of d \<longleftrightarrow> due default_max_attempts d"
  by (simp add: left_of_def due_def)

lemma stepped_left: "stepped d d' \<Longrightarrow> left_of d' \<le> left_of d - 1"
  by (auto simp: stepped_def left_of_def)

lemma stepped_due: "stepped d d' \<Longrightarrow> due m d' \<Longrightarrow> due m d"
  by (auto simp: stepped_def due_def)

lemma stepped_on_left:
  "stepped_on ids xs ys \<Longrightarrow> (\<And>d. d \<in> set xs \<Longrightarrow> wd_id d \<in> ids \<Longrightarrow> due default_max_attempts d) \<Longrightarrow>
   sum_list (map left_of ys) + length (filter (\<lambda>d. wd_id d \<in> ids) xs) \<le> sum_list (map left_of xs)"
  unfolding stepped_on_def
proof (induction rule: list_all2_induct)
  case (Cons x xs y ys)
  have "sum_list (map left_of ys) + length (filter (\<lambda>d. wd_id d \<in> ids) xs) \<le> sum_list (map left_of xs)"
    using Cons by simp
  moreover have "left_of y + (if wd_id x \<in> ids then 1 else 0) \<le> left_of x"
    using Cons.hyps(1) Cons.prems [of x] stepped_left [of x y] left_of_pos [of x]
    by (auto split: if_splits)
  ultimately show ?case by (auto split: if_splits)
qed simp

lemma stepped_on_due:
  "stepped_on ids xs ys \<Longrightarrow>
   length (filter (due m) ys) \<le> length (filter (due m) xs)"
  unfolding stepped_on_def
  by (induction rule: list_all2_induct) (auto dest: stepped_due split: if_splits)

lemma due_le_left: "due_count h \<le> attempts_left h"
proof -
  have "length (filter (due default_max_attempts) ds) \<le> sum_list (map left_of ds)" for ds
  proof (induction ds)
    case (Cons d ds)
    then show ?case using left_of_pos [of d] by (cases "due default_max_attempts d") simp_all
  qed simp
  then show ?thesis by (simp add: due_count_def attempts_left_def)
qed

end
