(* ===== verification/WebhookSafety.thy ===== *)
theory WebhookSafety
  imports WebhookProofs
begin

text \<open>
  The properties of the webhooks: what an event creates, the invariant of the tables, the end
  of every sweep and of every chain of task retries with a receiver that answers, what an
  answer that is neither a response nor a transport error does, a delivered row that fails
  afterwards, and the body a receiver can read back.
\<close>

section \<open>The chain of retries\<close>

lemma attempt_posts:
  assumes "attempt_delivery post hm m d h = (r, h')"
  shows "length (hk_posts h) \<le> length (hk_posts h')" "length (hk_posts h') \<le> Suc (length (hk_posts h))"
  using assms
  by (auto simp: attempt_delivery_def save_delivery_def Let_def split: option.splits post_outcome.splits)

text \<open>What one run of the task does to a row that is found.\<close>

lemma deliver_run:
  assumes inv: "hook_inv h" and d: "d \<in> set (hk_deliveries h)"
    and run: "attempt_delivery post hm default_max_attempts d h = (Inr b, h')"
    and w: "wrote d d' h h'"
  shows "deliver post hm retries (wd_id d) h =
    (if \<not> b \<and> wd_status d' \<noteq> DFailed
     then (if max_retries \<le> retries then GaveUp else RetryIn (min (2 ^ retries) 300), h')
     else (Finished, h'))" and "d' \<in> set (hk_deliveries h')"
proof -
  show d': "d' \<in> set (hk_deliveries h')"
    using w d by (auto simp: wrote_def intro: update_where_hit)
  have "hook_inv h'" by (rule attempt_inv [OF inv d run])
  then have "keyed wd_id (hk_next h') (hk_deliveries h')"
    by (auto simp: hook_inv_def keyed_def)
  from first_where_key [OF this d'] w
  have new: "first_where (\<lambda>q. wd_id q = wd_id d) (hk_deliveries h') = Some d'"
    by (simp add: wrote_def)
  have "keyed wd_id (hk_next h) (hk_deliveries h)"
    using inv by (auto simp: hook_inv_def keyed_def)
  from first_where_key [OF this d refl]
  have old: "first_where (\<lambda>q. wd_id q = wd_id d) (hk_deliveries h) = Some d" .
  show "deliver post hm retries (wd_id d) h =
    (if \<not> b \<and> wd_status d' \<noteq> DFailed
     then (if max_retries \<le> retries then GaveUp else RetryIn (min (2 ^ retries) 300), h')
     else (Finished, h'))"
    by (simp add: deliver_def old new run)
qed

lemma wrote_others: "wrote d d' h h' \<Longrightarrow> q \<in> set (hk_deliveries h) \<Longrightarrow> wd_id q \<noteq> wd_id d \<Longrightarrow>
    q \<in> set (hk_deliveries h')"
  by (auto simp: wrote_def intro: update_where_miss)

lemma deliver_chain_pending:
  assumes "polite post" and "hook_inv h" and "d \<in> set (hk_deliveries h)"
    and "wd_status d = DPending" and "retries \<le> wd_attempts d"
  shows "\<exists>h' d'. deliver_chain post hm retries (wd_id d) h = (Finished, h') \<and>
     d' \<in> set (hk_deliveries h') \<and> wd_id d' = wd_id d \<and> wd_status d' \<noteq> DPending \<and>
     wd_attempts d' \<le> default_max_attempts \<and>
     length (hk_posts h') + wd_attempts d \<le> length (hk_posts h) + wd_attempts d' \<and>
     (\<forall>q\<in>set (hk_deliveries h). wd_id q \<noteq> wd_id d \<longrightarrow> q \<in> set (hk_deliveries h'))"
  using assms(2-)
proof (induction "default_max_attempts - wd_attempts d" arbitrary: h d retries rule: less_induct)
  case less
  have lt: "wd_attempts d < default_max_attempts"
    using less.prems by (auto simp: hook_inv_def row_ok_def)
  obtain b d' h1 where run: "attempt_delivery post hm default_max_attempts d h = (Inr b, h1)"
    and w: "wrote d d' h h1" and st: "stepped d d'"
    and ok: "b \<Longrightarrow> wd_status d' = DDelivered"
    and no: "\<not> b \<Longrightarrow> wd_status d' = (if default_max_attempts \<le> Suc (wd_attempts d) then DFailed else DPending)"
    by (cases rule: attempt_cases [of post hm default_max_attempts d h])
       (use assms(1) less.prems(3) in
         \<open>auto simp: polite_def stepped_def row_simps split: if_splits intro!: that\<close>)
  note del = deliver_run [OF less.prems(1,2) run w]
  have id: "wd_id d' = wd_id d" and att: "wd_attempts d' = Suc (wd_attempts d)"
    using st by (simp_all add: stepped_def)
  note posts = attempt_posts(2) [OF run]
  show ?case
  proof (cases "b \<or> default_max_attempts \<le> Suc (wd_attempts d)")
    case True
    then have "deliver_chain post hm retries (wd_id d) h = (Finished, h1)"
      using ok no by (subst deliver_chain.simps) (cases b; simp add: del(1))
    moreover have "wd_status d' \<noteq> DPending"
      using True ok no by (cases b) simp_all
    ultimately show ?thesis
      using del(2) id att lt posts wrote_others [OF w]
      by (intro exI [of _ h1] exI [of _ d']) auto
  next
    case False
    have fewer: "default_max_attempts - wd_attempts d' < default_max_attempts - wd_attempts d"
      using att lt by simp
    have pend: "wd_status d' = DPending" and "\<not> max_retries \<le> retries"
      using False no less.prems(4) by (auto simp: max_retries_def default_max_attempts_def)
    then have chain: "deliver_chain post hm retries (wd_id d) h
        = deliver_chain post hm (Suc retries) (wd_id d') h1"
      using False by (subst deliver_chain.simps) (simp add: del(1) id)
    obtain h2 d2 where "deliver_chain post hm (Suc retries) (wd_id d') h1 = (Finished, h2)"
      and d2: "d2 \<in> set (hk_deliveries h2)" "wd_id d2 = wd_id d'" "wd_status d2 \<noteq> DPending"
        "wd_attempts d2 \<le> default_max_attempts"
        "length (hk_posts h2) + wd_attempts d' \<le> length (hk_posts h1) + wd_attempts d2"
      and others: "\<forall>q\<in>set (hk_deliveries h1). wd_id q \<noteq> wd_id d' \<longrightarrow> q \<in> set (hk_deliveries h2)"
      using less.hyps [OF fewer attempt_inv [OF less.prems(1,2) run] del(2) pend, of "Suc retries"]
        att less.prems(4) by auto
    then show ?thesis
      using chain id att posts wrote_others [OF w]
      by (intro exI [of _ h2] exI [of _ d2]) auto
  qed
qed

text \<open>\<open>refusing n post\<close>: from the \<open>n\<close>-th request on, the receiver answers without success or not
  at all.\<close>

definition refusing :: "nat \<Rightarrow> receiver \<Rightarrow> bool" where
  "refusing n post \<longleftrightarrow> (\<forall>k\<ge>n. \<forall>rq. case post k rq of
     Response c \<Rightarrow> \<not> is_success c | TransportError _ \<Rightarrow> True | OtherError _ \<Rightarrow> False)"

lemma refusing_attempt:
  assumes "refusing (length (hk_posts h)) post"
  obtains d' h' where "attempt_delivery post hm m d h = (Inr False, h')" "wrote d d' h h'"
    "wd_attempts d' = Suc (wd_attempts d)"
    "wd_status d' = (if m \<le> Suc (wd_attempts d) then DFailed else wd_status d)"
proof (cases "first_where (\<lambda>e. we_id e = wd_endpoint d) (hk_endpoints h)")
  case None
  show thesis
    by (rule that [OF _ wrote_save [of "after_error m ''endpoint not found'' d" d h h]])
       (simp_all add: attempt_delivery_def None row_simps)
next
  case (Some e)
  let ?rq = "delivery_request hm e d"
  let ?h1 = "h\<lparr>hk_posts := hk_posts h @ [?rq]\<rparr>"
  have r: "case post (length (hk_posts h)) ?rq of
     Response c \<Rightarrow> \<not> is_success c | TransportError _ \<Rightarrow> True | OtherError _ \<Rightarrow> False"
    using assms by (simp add: refusing_def)
  show thesis
  proof (cases "post (length (hk_posts h)) ?rq")
    case (Response c)
    then show thesis using r
      by (intro that [OF _ wrote_save [of "after_response m c d" d ?h1 h]])
         (simp_all add: attempt_delivery_def Some row_simps)
  next
    case (TransportError msg)
    show thesis
      by (rule that [OF _ wrote_save [of "after_error m (take 512 msg) d" d ?h1 h]])
         (simp_all add: attempt_delivery_def Some TransportError row_simps)
  qed (use r in simp)
qed

lemma refusing_mono: "refusing n post \<Longrightarrow> n \<le> m \<Longrightarrow> refusing m post"
  by (auto simp: refusing_def)

lemma deliver_chain_delivered:
  assumes "hook_inv h" and "d \<in> set (hk_deliveries h)" and "wd_status d = DDelivered"
    and "retries \<le> wd_attempts d" and "retries < max_retries"
    and "refusing (length (hk_posts h)) post"
  shows "\<exists>h' d'. deliver_chain post hm retries (wd_id d) h = (Finished, h') \<and>
     d' \<in> set (hk_deliveries h') \<and> wd_id d' = wd_id d \<and> wd_status d' = DFailed"
  using assms
proof (induction "max_retries - retries" arbitrary: h d retries rule: less_induct)
  case less
  obtain d' h1 where run: "attempt_delivery post hm default_max_attempts d h = (Inr False, h1)"
    and w: "wrote d d' h h1" and att: "wd_attempts d' = Suc (wd_attempts d)"
    and st: "wd_status d' = (if default_max_attempts \<le> Suc (wd_attempts d) then DFailed else wd_status d)"
    using refusing_attempt [OF less.prems(6)] by blast
  note del = deliver_run [OF less.prems(1,2) run w]
  have id: "wd_id d' = wd_id d" using w by (simp add: wrote_def)
  show ?case
  proof (cases "default_max_attempts \<le> Suc (wd_attempts d)")
    case True
    then have "deliver_chain post hm retries (wd_id d) h = (Finished, h1)"
      using st by (subst deliver_chain.simps) (simp add: del(1))
    then show ?thesis using del(2) id st True by (intro exI [of _ h1] exI [of _ d']) simp
  next
    case False
    then have "deliver_chain post hm retries (wd_id d) h
        = deliver_chain post hm (Suc retries) (wd_id d') h1"
      using st less.prems(3,5) by (subst deliver_chain.simps) (simp add: del(1) id)
    moreover have "Suc retries < max_retries"
      using False less.prems(4) by (simp add: default_max_attempts_def max_retries_def)
    then have "\<exists>h' d''. deliver_chain post hm (Suc retries) (wd_id d') h1 = (Finished, h') \<and>
        d'' \<in> set (hk_deliveries h') \<and> wd_id d'' = wd_id d' \<and> wd_status d'' = DFailed"
      using less.prems st False att
      by (intro less.hyps [OF _ attempt_inv [OF less.prems(1,2) run] del(2)]
            refusing_mono [OF _ attempt_posts(1) [OF run]]) auto
    ultimately show ?thesis by (simp add: id)
  qed
qed


section \<open>Sweeps\<close>

text \<open>\<open>sweeps n\<close>: the scheduled task run \<open>n\<close> times, with nothing else in between.\<close>

definition sweeps :: "receiver \<Rightarrow> (string \<Rightarrow> string \<Rightarrow> string) \<Rightarrow> nat \<Rightarrow> hooks \<Rightarrow> hooks" where
  "sweeps post hm n = (\<lambda>h. snd (sweep_task post hm h)) ^^ n"

lemma sweeps_simps:
  "sweeps post hm 0 h = h"
  "sweeps post hm (Suc n) h = snd (sweep_task post hm (sweeps post hm n h))"
  "sweeps post hm (m + n) h = sweeps post hm m (sweeps post hm n h)"
  by (simp_all add: sweeps_def funpow_add)

lemma sweeps_inv: "hook_inv h \<Longrightarrow> hook_inv (sweeps post hm n h)"
  by (induction n) (auto simp: sweeps_simps intro: sweep_task_inv [OF _ prod.collapse [symmetric]])

lemma sweep_rows_length: "length (sweep_rows default_max_attempts sweep_limit h) = min (due_count h) sweep_limit"
  by (simp add: sweep_rows_def due_count_def)

lemma count_rows:
  assumes "hook_inv h"
  shows "length (filter (\<lambda>d. wd_id d \<in> wd_id ` set (sweep_rows m n h)) (hk_deliveries h))
    = length (sweep_rows m n h)"
proof -
  note p = sweep_rows_props [OF assms, where m = m and n = n]
  have dist: "distinct (map wd_id (hk_deliveries h))" using assms by (simp add: hook_inv_def keyed_def)
  have "set (filter (\<lambda>d. wd_id d \<in> wd_id ` set (sweep_rows m n h)) (hk_deliveries h))
      = set (sweep_rows m n h)"
    using p(2) dist by (auto simp: distinct_map dest: inj_onD)
  moreover have "distinct (filter (\<lambda>d. wd_id d \<in> wd_id ` set (sweep_rows m n h)) (hk_deliveries h))"
    using dist by (simp add: distinct_map)
  moreover have "distinct (sweep_rows m n h)" using p(1) by (simp add: distinct_map)
  ultimately show ?thesis by (metis distinct_card)
qed

text \<open>A sweep lowers the attempts left by the size of its batch, and no row becomes due.\<close>

lemma sweep_lowers:
  assumes "polite post" and "hook_inv h"
  shows "attempts_left (snd (sweep_task post hm h)) + min (due_count h) sweep_limit \<le> attempts_left h"
    and "due_count (snd (sweep_task post hm h)) \<le> due_count h"
proof -
  let ?rows = "sweep_rows default_max_attempts sweep_limit h"
  obtain h' where run: "sweep_task post hm h = (Inr (length ?rows), h')"
    and on: "stepped_on (wd_id ` set ?rows) (hk_deliveries h) (hk_deliveries h')"
    using polite_sweep [OF assms] by blast
  have keyed: "inj_on wd_id (set (hk_deliveries h))"
    using assms(2) by (simp add: hook_inv_def keyed_def distinct_map)
  have "due default_max_attempts d"
    if stored: "d \<in> set (hk_deliveries h)" and hit: "wd_id d \<in> wd_id ` set ?rows" for d
  proof -
    obtain q where q: "wd_id d = wd_id q" "q \<in> set ?rows" using hit by (rule imageE)
    have "q \<in> set (hk_deliveries h)" using sweep_rows_props(2) [OF assms(2)] q(2) by (rule subsetD)
    then have "d = q" using inj_onD [OF keyed q(1)] stored by simp
    then show ?thesis using sweep_rows_props(3) [OF assms(2) q(2)] by simp
  qed
  from stepped_on_left [OF on this]
  show "attempts_left (snd (sweep_task post hm h)) + min (due_count h) sweep_limit \<le> attempts_left h"
    by (simp add: run attempts_left_def count_rows [OF assms(2)] sweep_rows_length)
  show "due_count (snd (sweep_task post hm h)) \<le> due_count h"
    using stepped_on_due [OF on] by (simp add: run due_count_def)
qed

lemma stepped_on_origin:
  assumes "stepped_on ids xs ys" and "y \<in> set ys"
  shows "\<exists>x\<in>set xs. if wd_id x \<in> ids then stepped x y else y = x"
proof -
  obtain i where i: "i < length ys" "y = ys ! i" using assms(2) by (auto simp: in_set_conv_nth)
  then have "if wd_id (xs ! i) \<in> ids then stepped (xs ! i) y else y = xs ! i" "i < length xs"
    using assms(1) unfolding stepped_on_def by (simp_all add: list_all2_conv_all_nth)
  then show ?thesis by (intro bexI [of _ "xs ! i"]) simp_all
qed

text \<open>With at most a batch of rows due, a sweep takes one attempt from each of them.\<close>

lemma sweep_whole:
  assumes "polite post" and "hook_inv h" and "due_count h \<le> sweep_limit"
    and "\<forall>d\<in>set (hk_deliveries h). left_of d \<le> Suc k"
  shows "\<forall>d\<in>set (hk_deliveries (snd (sweep_task post hm h))). left_of d \<le> k"
proof -
  let ?rows = "sweep_rows default_max_attempts sweep_limit h"
  obtain h' where run: "sweep_task post hm h = (Inr (length ?rows), h')"
    and on: "stepped_on (wd_id ` set ?rows) (hk_deliveries h) (hk_deliveries h')"
    using polite_sweep [OF assms(1,2)] by blast
  have rows: "set ?rows = {d \<in> set (hk_deliveries h). due default_max_attempts d}"
    using assms(3) by (simp add: sweep_rows_def due_count_def set_filter)
  have "left_of d' \<le> k" if new: "d' \<in> set (hk_deliveries h')" for d'
  proof -
    obtain d where d: "d \<in> set (hk_deliveries h)"
      and s: "if wd_id d \<in> wd_id ` set ?rows then stepped d d' else d' = d"
      using stepped_on_origin [OF on new] by blast
    show ?thesis
    proof (cases "due default_max_attempts d")
      case True
      then have "stepped d d'" using s d rows by auto
      then show ?thesis using stepped_left [of d d'] assms(4) d by fastforce
    next
      case False
      then have "left_of d = 0" using left_of_pos [of d] by simp
      then show ?thesis using s stepped_left [of d d'] by (auto split: if_splits)
    qed
  qed
  then show ?thesis by (simp add: run)
qed

lemma sweeps_whole:
  assumes "polite post" and "hook_inv h" and "due_count h \<le> sweep_limit"
    and "\<forall>d\<in>set (hk_deliveries h). left_of d \<le> k + n"
  shows "\<forall>d\<in>set (hk_deliveries (sweeps post hm n h)). left_of d \<le> k"
  using assms(4)
proof (induction n arbitrary: k)
  case (Suc n)
  have "due_count (sweeps post hm m h) \<le> sweep_limit" for m
  proof (induction m)
    case (Suc m)
    from sweep_lowers(2) [OF assms(1) sweeps_inv [OF assms(2)]] this
    show ?case unfolding sweeps_simps(2) by (rule le_trans)
  qed (simp add: sweeps_simps assms(3))
  moreover have "\<forall>d\<in>set (hk_deliveries (sweeps post hm n h)). left_of d \<le> Suc k"
    using Suc.IH [of "Suc k"] Suc.prems by simp
  ultimately show ?case
    unfolding sweeps_simps(2) by (rule sweep_whole [OF assms(1) sweeps_inv [OF assms(2)]])
qed (simp add: sweeps_simps)

lemma sweeps_backlog:
  assumes "polite post" and "hook_inv h"
  shows "due_count (sweeps post hm n h) \<le> sweep_limit \<or>
    attempts_left (sweeps post hm n h) + n * sweep_limit \<le> attempts_left h"
proof (induction n)
  case (Suc n)
  note low = sweep_lowers [OF assms(1) sweeps_inv [OF assms(2)], of hm post hm n]
  show ?case
  proof (cases "due_count (sweeps post hm n h) \<le> sweep_limit")
    case True
    then show ?thesis using low(2) by (simp add: sweeps_simps)
  next
    case False
    then show ?thesis using Suc low(1) by (simp add: sweeps_simps min_def)
  qed
qed (simp add: sweeps_simps)

lemma left_le_max: "left_of d \<le> default_max_attempts"
  by (simp add: left_of_def)

lemma attempts_left_le:
  "attempts_left h \<le> default_max_attempts * length (filter (\<lambda>d. wd_status d = DPending) (hk_deliveries h))"
proof -
  have "sum_list (map left_of ds) \<le> default_max_attempts * length (filter (\<lambda>d. wd_status d = DPending) ds)" for ds
    by (induction ds) (auto simp: left_of_def)
  then show ?thesis by (simp add: attempts_left_def)
qed

lemma sweeps_settle:
  assumes "polite post" and "hook_inv h" and "attempts_left h div sweep_limit + default_max_attempts \<le> n"
  shows "\<forall>d\<in>set (hk_deliveries (sweeps post hm n h)). left_of d = 0"
proof -
  let ?m = "n - default_max_attempts"
  let ?g = "sweeps post hm ?m h"
  have n: "n = default_max_attempts + ?m" using assms(3) by simp
  have "due_count ?g \<le> sweep_limit"
  proof (rule ccontr)
    assume "\<not> due_count ?g \<le> sweep_limit"
    then have "due_count ?g + ?m * sweep_limit \<le> attempts_left h" "sweep_limit < due_count ?g"
      using sweeps_backlog [OF assms(1,2), of hm ?m] due_le_left [of ?g] by simp_all
    then have "Suc ?m * sweep_limit \<le> attempts_left h" by simp
    then have "Suc ?m \<le> attempts_left h div sweep_limit"
      by (metis div_le_mono nonzero_mult_div_cancel_right sweep_limit_def zero_neq_numeral)
    with assms(3) show False by simp
  qed
  from sweeps_whole [OF assms(1) sweeps_inv [OF assms(2)] this, of 0 default_max_attempts hm]
  have "\<forall>d\<in>set (hk_deliveries (sweeps post hm default_max_attempts ?g)). left_of d \<le> 0"
    using left_le_max by simp
  then show ?thesis using n sweeps_simps(3) by (metis le_zero_eq)
qed


section \<open>A request that raises something else\<close>

text \<open>\<open>poisoned post u\<close>: every request to that URL raises an exception that is no transport
  error.\<close>

definition poisoned :: "receiver \<Rightarrow> string \<Rightarrow> bool" where
  "poisoned post u \<longleftrightarrow>
     (\<forall>n rq. rq_url rq = u \<longrightarrow> (case post n rq of OtherError _ \<Rightarrow> True | _ \<Rightarrow> False))"

definition endpoint_of :: "hooks \<Rightarrow> webhook_delivery \<Rightarrow> webhook_endpoint option" where
  "endpoint_of h d = first_where (\<lambda>e. we_id e = wd_endpoint d) (hk_endpoints h)"

lemma poisoned_attempt:
  assumes "poisoned post (we_url e)" and "endpoint_of h d = Some e"
  obtains cls where "attempt_delivery post hm m d h =
    (Inl (Raised cls), h\<lparr>hk_posts := hk_posts h @ [delivery_request hm e d]\<rparr>)"
proof -
  have "case post (length (hk_posts h)) (delivery_request hm e d) of OtherError _ \<Rightarrow> True | _ \<Rightarrow> False"
    using assms(1) by (simp add: poisoned_def delivery_request_def Let_def)
  then show thesis
    using assms(2) that by (auto simp: attempt_delivery_def endpoint_of_def split: post_outcome.splits)
qed

lemma poisoned_batch:
  assumes "poisoned post (we_url e)" and "endpoint_of h d = Some e" and "d \<in> set ds"
  obtains x h' where "for_each (attempt_delivery post hm m) ds h = (Inl x, h')"
    "length (hk_posts h) < length (hk_posts h')" "hk_endpoints h' = hk_endpoints h"
    "hk_session h' = hk_session h"
  using assms(2,3)
proof (induction ds arbitrary: h thesis)
  case (Cons q ds)
  obtain r h1 where run: "attempt_delivery post hm m q h = (r, h1)"
    by (cases "attempt_delivery post hm m q h")
  note frame = attempt_frame [OF run] and posts = attempt_posts(1) [OF run]
  show ?case
  proof (cases "q = d")
    case True
    obtain cls where "attempt_delivery post hm m d h =
        (Inl (Raised cls), h\<lparr>hk_posts := hk_posts h @ [delivery_request hm e d]\<rparr>)"
      using poisoned_attempt [OF assms(1) Cons.prems(2)] by blast
    then show ?thesis
      by (intro Cons.prems(1) [of "Raised cls" "h\<lparr>hk_posts := hk_posts h @ [delivery_request hm e d]\<rparr>"])
         (simp_all add: True bind_act_def)
  next
    case False
    show ?thesis
    proof (cases r)
      case (Inl x)
      then have "length (hk_posts h) < length (hk_posts h1)"
        using run by (auto simp: attempt_delivery_def Let_def split: option.splits post_outcome.splits)
      then show ?thesis
        using frame run Inl by (intro Cons.prems(1) [of x h1]) (simp_all add: bind_act_def)
    next
      case (Inr b)
      have "endpoint_of h1 d = Some e" using Cons.prems(2) frame by (simp add: endpoint_of_def)
      moreover have "d \<in> set ds" using Cons.prems(3) False by simp
      ultimately obtain x h2 where more: "for_each (attempt_delivery post hm m) ds h1 = (Inl x, h2)"
        and rest: "length (hk_posts h1) < length (hk_posts h2)" "hk_endpoints h2 = hk_endpoints h1"
          "hk_session h2 = hk_session h1"
        using Cons.IH by blast
      show ?thesis
        using run Inr more rest frame posts
        by (intro Cons.prems(1) [of x h2]) (simp_all add: bind_act_def)
    qed
  qed
qed simp

lemma poisoned_sweep:
  assumes "poisoned post (we_url e)" and "endpoint_of h d = Some e"
    and "d \<in> set (sweep_rows default_max_attempts sweep_limit h)"
  obtains x h' where "sweep_task post hm h = (Inl x, h')" "hk_deliveries h' = hk_deliveries h"
    "hk_endpoints h' = hk_endpoints h" "length (hk_posts h) < length (hk_posts h')"
proof -
  obtain x h1 where
    "for_each (attempt_delivery post hm default_max_attempts)
       (sweep_rows default_max_attempts sweep_limit h) h = (Inl x, h1)"
    "length (hk_posts h) < length (hk_posts h1)" "hk_endpoints h1 = hk_endpoints h"
    by (rule poisoned_batch [OF assms])
  then show thesis
    by (intro that [of x "rolled_back h h1"])
       (simp_all add: sweep_task_def sweep_deliveries_def bind_act_def rolled_back_def)
qed

lemma poisoned_sweeps:
  assumes "poisoned post (we_url e)" and "endpoint_of h d = Some e"
    and "d \<in> set (sweep_rows default_max_attempts sweep_limit h)"
  shows "hk_deliveries (sweeps post hm n h) = hk_deliveries h \<and>
    hk_endpoints (sweeps post hm n h) = hk_endpoints h \<and>
    length (hk_posts h) + n \<le> length (hk_posts (sweeps post hm n h))"
proof (induction n)
  case (Suc n)
  let ?g = "sweeps post hm n h"
  have "endpoint_of ?g d = Some e" "d \<in> set (sweep_rows default_max_attempts sweep_limit ?g)"
    using Suc assms(2,3) by (simp_all add: endpoint_of_def sweep_rows_def)
  from poisoned_sweep [OF assms(1) this]
  obtain x h' where "sweep_task post hm ?g = (Inl x, h')" "hk_deliveries h' = hk_deliveries ?g"
    "hk_endpoints h' = hk_endpoints ?g" "length (hk_posts ?g) < length (hk_posts h')" .
  then show ?case using Suc by (simp add: sweeps_simps)
qed (simp add: sweeps_simps)

section \<open>The body\<close>

lemma build_event_payload_inj:
  "build_event_payload ev et = build_event_payload ev' et' \<longleftrightarrow> ev = ev' \<and> et = et'"
  by (cases ev; cases ev') (auto simp: build_event_payload_def split: option.splits)

definition plain_ascii :: "char \<Rightarrow> bool" where
  "plain_ascii c \<longleftrightarrow> 32 \<le> (of_char c :: nat) \<and> of_char c \<le> (126 :: nat)"

lemma plain_hex: "n < 16 \<Longrightarrow> plain_ascii (hex_digit n)"
proof -
  have "\<forall>n\<in>set [0..<16]. plain_ascii (hex_digit n)" by code_simp
  then show "n < 16 \<Longrightarrow> plain_ascii (hex_digit n)" by simp
qed

lemma plain_marks [simp]:
  "plain_ascii (CHR 0x22)" "plain_ascii (CHR 0x5C)" "plain_ascii (CHR ''n'')"
  "plain_ascii (CHR ''r'')" "plain_ascii (CHR ''t'')" "plain_ascii (CHR ''f'')"
  "plain_ascii (CHR ''b'')" "plain_ascii (CHR ''u'')" "plain_ascii (CHR ''l'')"
  "plain_ascii (CHR ''0'')" "plain_ascii (CHR ''{'')" "plain_ascii (CHR ''}'')"
  "plain_ascii (CHR '':'')" "plain_ascii (CHR '','')" "plain_ascii (CHR '' '')"
  by (simp_all add: plain_ascii_def)

lemma plain_json_char: "\<forall>x\<in>set (json_char c). plain_ascii x"
proof -
  have "(of_char c :: nat) < 256" by simp
  then have hex: "plain_ascii (hex_digit (of_char c div 16))" "plain_ascii (hex_digit (of_char c mod 16))"
    by (intro plain_hex; linarith)+
  have "plain_ascii c" if "\<not> (of_char c < (32::nat) \<or> (126::nat) < of_char c)"
    using that by (simp add: plain_ascii_def)
  then show ?thesis using hex by (simp add: json_char_def)
qed

lemma plain_json_string: "\<forall>x\<in>set (json_string s). plain_ascii x"
  using plain_json_char by (simp add: json_string_def)

lemma plain_json_member: "\<forall>x\<in>set (json_member m). plain_ascii x"
proof -
  have "\<forall>x\<in>set (json_value v). plain_ascii x" for v
    by (cases v) (simp_all add: plain_json_string)
  then show ?thesis
    using plain_json_string by (auto simp: json_member_def)
qed

lemma plain_json_dumps: "\<forall>x\<in>set (json_dumps p). plain_ascii x"
proof -
  have "\<forall>x\<in>set (join '', '' (map json_member q)). plain_ascii x" for q
  proof (induction q)
    case (Cons m q)
    then show ?case using plain_json_member [of m] by (cases q) auto
  qed simp
  then show ?thesis by (auto simp: json_dumps_def)
qed

section \<open>A small installation\<close>

definition sample_headers :: headers where
  "sample_headers = map_of
     [(''Event-Name'', ''CHANNEL_ANSWER''), (''Unique-ID'', ''u1''), (''Call-Direction'', ''inbound''),
      (''Caller-Caller-ID-Number'', ''100''), (''Caller-Destination-Number'', ''200'')]"

definition sample_event :: call_event where
  "sample_event = \<lparr>ev_uuid = ''u1'', ev_name = ''CHANNEL_ANSWER'', ev_direction = ''inbound'',
     ev_caller = ''100'', ev_callee = ''200'', ev_subscriber = None\<rparr>"

definition sample_endpoint :: endpoint_create where
  "sample_endpoint = \<lparr>ec_url = ''http://crm'', ec_secret = ''s'',
     ec_event_types = [''call.answered''], ec_active = True\<rparr>"

definition sample_registered :: hooks where
  "sample_registered = snd (create_endpoint sample_endpoint no_hooks)"

definition sample_hooks :: hooks where
  "sample_hooks = end_event True (begin_event (\<lambda>_. True) True sample_event sample_registered)"

definition sample_hmac :: "string \<Rightarrow> string \<Rightarrow> string" where
  "sample_hmac secret body = ''00''"

text \<open>Receivers that answer 200 once, at the request of that number, and 500 otherwise; and one
  whose URL cannot be posted to.\<close>

definition once_at :: "nat \<Rightarrow> receiver" where
  "once_at k = (\<lambda>n _. if n = k then Response 200 else Response 500)"

definition bad_url :: receiver where
  "bad_url = (\<lambda>_ _. OtherError ''InvalidURL'')"

lemma sample_normalized: "normalize_event sample_headers = Some sample_event"
  by code_simp

lemma sample_registered_reach: "hook_reach post hm sample_registered"
  unfolding sample_registered_def by (rule hook_reach.Step [OF hook_reach.Start hook_step.Create])

lemma sample_reach: "hook_reach post hm sample_hooks"
proof -
  have "hk_session sample_registered = []" by code_simp
  from hook_reach.Step [OF sample_registered_reach hook_step.Event [OF sample_normalized this]]
  show ?thesis unfolding sample_hooks_def by (rule hook_reach.Step) (rule hook_step.Commit)
qed



section \<open>Properties\<close>

text \<open>
  What an event does to the tables: a mapped FreeSWITCH event adds exactly one
  pending delivery, with no attempt yet, for every active endpoint that subscribes to its
  webhook type, carrying the identity of the call; an event that is irrelevant or unmapped
  (a plain hang-up among them) adds none; nothing is posted, and a message is queued for every
  new delivery the broker takes.
\<close>

theorem event_creates_deliveries:
  assumes "hk_session h = []"
  shows "\<exists>new. hk_deliveries (esl_dispatch broker True True raw h) = hk_deliveries h @ new \<and>
    hk_queue (esl_dispatch broker True True raw h) = hk_queue h @ filter broker (map wd_id new) \<and>
    hk_posts (esl_dispatch broker True True raw h) = hk_posts h \<and>
    map wd_endpoint new = (case event_type_for (header_or_empty raw ''Event-Name'') of
        None \<Rightarrow> []
      | Some et \<Rightarrow> map we_id (filter (\<lambda>e. we_active e \<and> et \<in> set (we_event_types e)) (hk_endpoints h))) \<and>
    (\<forall>d\<in>set new. event_type_for (header_or_empty raw ''Event-Name'') = Some (wd_event_type d) \<and>
       wd_status d = DPending \<and> wd_attempts d = 0 \<and>
       map_of (wd_payload d) ''call_uuid'' = Some (JString (header_or_empty raw ''Unique-ID'')))"
proof (cases "event_type_for (header_or_empty raw ''Event-Name'')")
  case None
  have "hk_deliveries (esl_dispatch broker True True raw h) = hk_deliveries h \<and>
      hk_queue (esl_dispatch broker True True raw h) = hk_queue h \<and>
      hk_posts (esl_dispatch broker True True raw h) = hk_posts h"
    using None assms
    by (simp add: esl_dispatch_def normalize_event_def Let_def handle_event_def end_event_def
        begin_event_def dispatch_and_enqueue_def dispatch_call_event_def)
  then show ?thesis using None by (intro exI [of _ "[]"]) simp
next
  case (Some et)
  have "header_or_empty raw ''Event-Name'' \<in> set (map fst event_type_map)"
    using map_of_SomeD [OF Some [unfolded event_type_for_def]] by force
  then have "header_or_empty raw ''Event-Name'' \<in> set relevant_events"
    by (auto simp: event_type_map_def relevant_events_def)
  then obtain ev where ev: "normalize_event raw = Some ev"
    and name: "ev_name ev = header_or_empty raw ''Event-Name''"
    and uuid: "ev_uuid ev = header_or_empty raw ''Unique-ID''"
    by (simp add: normalize_event_def Let_def)
  let ?eps = "endpoints_for_event h et"
  let ?ids = "[hk_next h..<hk_next h + length ?eps]"
  let ?new = "map2 (new_delivery et (build_event_payload ev et) (hk_clock h)) ?ids ?eps"
  have run: "hk_deliveries (esl_dispatch broker True True raw h) = hk_deliveries h @ ?new"
      "hk_queue (esl_dispatch broker True True raw h) = hk_queue h @ filter broker (map wd_id ?new)"
      "hk_posts (esl_dispatch broker True True raw h) = hk_posts h"
    using assms dispatch_call_event_Some [of ev et h] Some
    by (simp_all add: esl_dispatch_def ev handle_event_def end_event_def begin_event_def
        dispatch_and_enqueue_def name Let_def)
  have ids: "map wd_endpoint ?new = map we_id ?eps" using map_new_delivery by simp
  have "wd_event_type d = et \<and> wd_status d = DPending \<and> wd_attempts d = 0 \<and>
      map_of (wd_payload d) ''call_uuid'' = Some (JString (header_or_empty raw ''Unique-ID''))"
    if new: "d \<in> set ?new" for d
    using set_new_delivery [OF new] by (auto simp: row_simps build_event_payload_def uuid)
  moreover have "?eps = filter (\<lambda>e. we_active e \<and> et \<in> set (we_event_types e)) (hk_endpoints h)"
    by (simp add: endpoints_for_event_def conj_commute)
  ultimately show ?thesis using run ids Some by (intro exI [of _ ?new]) simp
qed

theorem event_creates_deliveries_witness:
  "map wd_endpoint (hk_deliveries (esl_dispatch (\<lambda>_. True) True True sample_headers sample_registered)) = [0]"
proof -
  have "hk_session sample_registered = []" "hk_deliveries sample_registered = []" by code_simp+
  moreover have "event_type_for (header_or_empty sample_headers ''Event-Name'') = Some ''call.answered''"
    "map we_id (filter (\<lambda>e. we_active e \<and> ''call.answered'' \<in> set (we_event_types e))
       (hk_endpoints sample_registered)) = [0]" by code_simp+
  ultimately show ?thesis
    using event_creates_deliveries [of sample_registered "\<lambda>_. True" sample_headers] by auto
qed



text \<open>
  Property C11. The sweep settles every delivery: with receivers that answer or fail to be
  reached, \<open>N\<close> pending rows are all delivered or failed after \<open>N / 20 + 5\<close> sweeps, whatever the
  answers; a sweep takes a hundred rows, and a row five attempts.
\<close>

theorem sweeps_drain:
  assumes "hook_reach post hm h" and "polite post"
    and "length (filter (\<lambda>d. wd_status d = DPending) (hk_deliveries h)) + 100 \<le> 20 * n"
  shows "\<forall>d\<in>set (hk_deliveries (sweeps post hm n h)). wd_status d \<noteq> DPending"
proof -
  let ?N = "length (filter (\<lambda>d. wd_status d = DPending) (hk_deliveries h))"
  note inv = hook_reach_inv [OF assms(1)]
  have "attempts_left h \<le> 5 * ?N"
    using attempts_left_le [of h] by (simp add: default_max_attempts_def)
  then have "attempts_left h div sweep_limit + default_max_attempts \<le> n"
    using assms(3) unfolding sweep_limit_def default_max_attempts_def by linarith
  from sweeps_settle [OF assms(2) inv this]
  have "\<forall>d\<in>set (hk_deliveries (sweeps post hm n h)). left_of d = 0" .
  moreover have "hook_inv (sweeps post hm n h)" by (rule sweeps_inv [OF inv])
  then have "\<forall>d\<in>set (hk_deliveries (sweeps post hm n h)). wd_status d = DPending \<longrightarrow> 0 < left_of d"
    by (simp add: hook_inv_def row_ok_def left_of_def)
  ultimately show ?thesis by fastforce
qed

theorem sweeps_drain_witness:
  "\<not> (\<exists>d\<in>set (hk_deliveries (sweeps (once_at 2) sample_hmac 6 sample_hooks)). wd_status d = DPending)"
proof -
  have "polite (once_at 2)" by (simp add: polite_def once_at_def)
  moreover have "length (filter (\<lambda>d. wd_status d = DPending) (hk_deliveries sample_hooks)) + 100 \<le> 20 * 6"
    by code_simp
  ultimately show ?thesis using sweeps_drain [OF sample_reach] by blast
qed

text \<open>
  Property C12. With a receiver that answers, with any status, or cannot be reached (an
  \<^verbatim>\<open>httpx.TransportError\<close>), a delivery task and the retries Celery runs for it come to an end, and end
  with the row delivered or failed after at most five attempts in all, without giving up on
  the retry limit and without touching another row; each request sent is counted as an
  attempt. Nothing is claimed of a post that raises another exception (an invalid address, a body that
  cannot be decoded): \<open>attempt_delivery\<close> lets it escape and the row stays pending.
\<close>

theorem deliver_chain_settles:
  assumes "hook_reach post hm h" and "polite post" and "d \<in> set (hk_deliveries h)"
    and "wd_status d = DPending"
  shows "\<exists>h' d'. deliver_chain post hm 0 (wd_id d) h = (Finished, h') \<and>
    d' \<in> set (hk_deliveries h') \<and> wd_id d' = wd_id d \<and>
    wd_status d' \<in> {DDelivered, DFailed} \<and> wd_attempts d' \<le> 5 \<and>
    length (hk_posts h') - length (hk_posts h) \<le> wd_attempts d' - wd_attempts d \<and>
    (\<forall>q\<in>set (hk_deliveries h). wd_id q \<noteq> wd_id d \<longrightarrow> q \<in> set (hk_deliveries h'))"
proof -
  obtain h' d' where chain: "deliver_chain post hm 0 (wd_id d) h = (Finished, h')"
    and d': "d' \<in> set (hk_deliveries h')" "wd_id d' = wd_id d" "wd_status d' \<noteq> DPending"
      "wd_attempts d' \<le> default_max_attempts"
    and posts: "length (hk_posts h') + wd_attempts d \<le> length (hk_posts h) + wd_attempts d'"
    and others: "\<forall>q\<in>set (hk_deliveries h). wd_id q \<noteq> wd_id d \<longrightarrow> q \<in> set (hk_deliveries h')"
    using deliver_chain_pending [OF assms(2) hook_reach_inv [OF assms(1)] assms(3,4), of 0 hm] by auto
  have "length (hk_posts h') - length (hk_posts h) \<le> wd_attempts d' - wd_attempts d"
    using posts by linarith
  moreover have "wd_status d' \<in> {DDelivered, DFailed}" using d'(3) by (cases "wd_status d'") auto
  ultimately show ?thesis
    using chain d' others by (intro exI [of _ h'] exI [of _ d']) (simp add: default_max_attempts_def)
qed

theorem deliver_chain_settles_witness:
  "fst (deliver_chain (once_at 3) sample_hmac 0 1 sample_hooks) = Finished"
proof -
  have "polite (once_at 3)" by (simp add: polite_def once_at_def)
  moreover have "hd (hk_deliveries sample_hooks) \<in> set (hk_deliveries sample_hooks)"
    "wd_status (hd (hk_deliveries sample_hooks)) = DPending" by code_simp+
  ultimately obtain h' where
    "deliver_chain (once_at 3) sample_hmac 0 (wd_id (hd (hk_deliveries sample_hooks))) sample_hooks
       = (Finished, h')"
    using deliver_chain_settles [OF sample_reach, of "once_at 3" "hd (hk_deliveries sample_hooks)" sample_hmac]
    by blast
  moreover have "wd_id (hd (hk_deliveries sample_hooks)) = 1" by code_simp
  ultimately show ?thesis by simp
qed

text \<open>
  A delivered webhook can still be recorded as failed: the task does not look at
  the status of the row, so that a retry that runs after a sweep has delivered it posts again,
  and a receiver that no longer answers with success drives the row to failed.
\<close>

theorem delivered_row_fails:
  assumes "hook_reach post hm h" and "d \<in> set (hk_deliveries h)" and "wd_status d = DDelivered"
    and "retries \<le> wd_attempts d" and "retries < max_retries"
    and "refusing (length (hk_posts h)) post"
  shows "\<exists>h' d'. deliver_chain post hm retries (wd_id d) h = (Finished, h') \<and>
    d' \<in> set (hk_deliveries h') \<and> wd_id d' = wd_id d \<and> wd_status d' = DFailed"
  by (rule deliver_chain_delivered [OF hook_reach_inv [OF assms(1)] assms(2-6)])

text \<open>The run: the first task posts and is answered 500, the sweep posts and is answered 200, the
  retry of the task posts on.\<close>

definition sample_delivered :: hooks where
  "sample_delivered = snd (sweep_task (once_at 1) sample_hmac
     (snd (deliver (once_at 1) sample_hmac 0 1 sample_hooks)))"

theorem delivered_row_fails_witness:
  "\<exists>d'\<in>set (hk_deliveries (snd (deliver_chain (once_at 1) sample_hmac 1 1 sample_delivered))).
     wd_status d' = DFailed"
proof -
  have "hook_reach (once_at 1) sample_hmac sample_delivered"
    unfolding sample_delivered_def
    by (rule hook_reach.Step [OF hook_reach.Step [OF sample_reach hook_step.Deliver] hook_step.Sweep])
  moreover have "map (\<lambda>d. (wd_id d, wd_status d, wd_attempts d)) (hk_deliveries sample_delivered) = [(1, DDelivered, 2)] \<and>
      length (hk_posts sample_delivered) = 2" by code_simp
  then have "\<exists>d. hk_deliveries sample_delivered = [d] \<and> wd_id d = 1 \<and> wd_status d = DDelivered \<and>
      wd_attempts d = 2" and posts: "length (hk_posts sample_delivered) = 2" by auto
  then obtain d where "d \<in> set (hk_deliveries sample_delivered)" "wd_status d = DDelivered"
    "wd_id d = 1" "1 \<le> wd_attempts d" by auto
  moreover have "1 < max_retries" by (simp add: max_retries_def)
  moreover from posts have "refusing (length (hk_posts sample_delivered)) (once_at 1)"
    by (simp add: refusing_def once_at_def is_success_def)
  ultimately obtain h' d' where
    "deliver_chain (once_at 1) sample_hmac 1 (wd_id d) sample_delivered = (Finished, h')"
    "d' \<in> set (hk_deliveries h')" "wd_status d' = DFailed"
    using delivered_row_fails by blast
  then show ?thesis by (intro bexI [of _ d']) (simp_all add: \<open>wd_id d = 1\<close>)
qed

text \<open>
  One delivery whose request raises something other than a transport error (an
  invalid URL, an answer that cannot be decoded) stops the sweep for everybody as long as it is
  in the batch: every sweep ends with the exception and rolls back, no row advances, and the
  requests already sent for other rows in that batch are sent again by the next sweep.
\<close>

theorem poisoned_delivery_blocks_sweep:
  assumes "poisoned post (we_url e)" and "endpoint_of h d = Some e"
    and "d \<in> set (sweep_rows default_max_attempts sweep_limit h)"
  shows "isl (fst (sweep_task post hm (sweeps post hm n h))) \<and>
    hk_deliveries (sweeps post hm n h) = hk_deliveries h \<and>
    length (hk_posts h) + n \<le> length (hk_posts (sweeps post hm n h))"
proof -
  note run = poisoned_sweeps [OF assms, of hm n]
  have "endpoint_of (sweeps post hm n h) d = Some e"
    "d \<in> set (sweep_rows default_max_attempts sweep_limit (sweeps post hm n h))"
    using run assms(2,3) by (simp_all add: endpoint_of_def sweep_rows_def)
  then obtain x h' where "sweep_task post hm (sweeps post hm n h) = (Inl x, h')"
    using poisoned_sweep [OF assms(1)] by blast
  then show ?thesis using run by simp
qed

theorem poisoned_delivery_blocks_sweep_witness:
  "hk_deliveries (sweeps bad_url sample_hmac 7 sample_hooks) = hk_deliveries sample_hooks \<and>
   7 \<le> length (hk_posts (sweeps bad_url sample_hmac 7 sample_hooks))"
proof -
  have "poisoned bad_url (we_url (hd (hk_endpoints sample_hooks)))"
    by (simp add: poisoned_def bad_url_def)
  moreover have "endpoint_of sample_hooks (hd (hk_deliveries sample_hooks)) = Some (hd (hk_endpoints sample_hooks))"
    "hd (hk_deliveries sample_hooks) \<in> set (sweep_rows default_max_attempts sweep_limit sample_hooks)"
    by code_simp+
  ultimately have "hk_deliveries (sweeps bad_url sample_hmac 7 sample_hooks) = hk_deliveries sample_hooks \<and>
      length (hk_posts sample_hooks) + 7 \<le> length (hk_posts (sweeps bad_url sample_hmac 7 sample_hooks))"
    using poisoned_delivery_blocks_sweep by blast
  then show ?thesis by linarith
qed

text \<open>
  Property C13. The body of a delivery is faithful: it is printable ASCII, a JSON reader gets
  the stored payload back from it, and the payloads of two events agree only if the events and
  the webhook types do; the signature is the HMAC of exactly that body.
\<close>

theorem body_roundtrip:
  "json_loads (rq_body (delivery_request hm e d)) = Some (wd_payload d) \<and>
   (\<forall>c\<in>set (rq_body (delivery_request hm e d)). plain_ascii c) \<and>
   rq_signature (delivery_request hm e d)
     = ''sha256='' @ hm (we_secret e) (rq_body (delivery_request hm e d)) \<and>
   (json_dumps (build_event_payload ev et) = json_dumps (build_event_payload ev' et')
      \<longleftrightarrow> ev = ev' \<and> et = et')"
proof -
  have "json_dumps p = json_dumps q \<longleftrightarrow> p = q" for p q
    by (metis json_loads_dumps option.inject)
  then show ?thesis
    by (simp add: delivery_request_def Let_def json_loads_dumps plain_json_dumps sign_body_def
        build_event_payload_inj)
qed

theorem body_roundtrip_witness:
  "json_loads (rq_body (delivery_request sample_hmac (hd (hk_endpoints sample_hooks))
     (hd (hk_deliveries sample_hooks)))) = Some (build_event_payload sample_event ''call.answered'')"
proof -
  have "wd_payload (hd (hk_deliveries sample_hooks)) = build_event_payload sample_event ''call.answered''"
    by code_simp
  then show ?thesis
    using body_roundtrip [of sample_hmac "hd (hk_endpoints sample_hooks)" "hd (hk_deliveries sample_hooks)"]
    by simp
qed

end
