(* ===== verification/Cdr.thy ===== *)
theory Cdr
  imports JsonText
begin

text \<open>
  Call detail records: the ingest of a \<^verbatim>\<open>mod_json_cdr\<close> payload
  (\<^verbatim>\<open>app/services/cdr/ingest.py\<close>), the feed and the marking for billing
  (\<^verbatim>\<open>app/api/cdr.py\<close>) over the table \<^verbatim>\<open>voice_cdrs\<close> of \<^verbatim>\<open>app/models/voice.py\<close>. A payload is
  a dict of texts and nulls, which is what the module sends; a time is in seconds since the
  epoch, the creation time of a row a reading of the clock.
\<close>

section \<open>The table\<close>

datatype rating_status = Raw | Rated | Fed

record cdr =
  cd_id :: nat
  cd_call_uuid :: string
  cd_customer :: "string option"
  cd_direction :: string
  cd_caller :: string
  cd_callee :: string
  cd_duration :: int
  cd_billsec :: int
  cd_hangup_cause :: string
  cd_start :: "int option"
  cd_answer :: "int option"
  cd_end :: "int option"
  cd_recording :: "string option"
  cd_rating :: rating_status
  cd_created :: nat

record cdr_db =
  cdrs :: "cdr list"
  cdr_next :: nat
  cdr_clock :: nat

section \<open>Reading a payload\<close>

type_synonym cdr_dict = "string \<Rightarrow> json option"

text \<open>The payload: the dict under \<^verbatim>\<open>"variables"\<close>, if it is there, and the top-level one.\<close>

record cdr_payload =
  cp_variables :: "cdr_dict option"
  cp_top :: cdr_dict

definition cdr_vars :: "cdr_payload \<Rightarrow> cdr_dict" where
  "cdr_vars p = (case cp_variables p of None \<Rightarrow> cp_top p | Some v \<Rightarrow> v)"

text \<open>\<^verbatim>\<open>vars.get(k)\<close> and \<^verbatim>\<open>vars.get(k, "")\<close>: a key that is there with a null is null in both.\<close>

definition text_of :: "json option \<Rightarrow> string option" where
  "text_of v = (case v of Some (JString s) \<Rightarrow> Some s | _ \<Rightarrow> None)"

definition get_text :: "cdr_dict \<Rightarrow> string \<Rightarrow> string option" where
  "get_text vars k = text_of (vars k)"

definition get_or_empty :: "cdr_dict \<Rightarrow> string \<Rightarrow> string option" where
  "get_or_empty vars k = (case vars k of None \<Rightarrow> Some [] | Some v \<Rightarrow> text_of (Some v))"

definition to_int :: "string option \<Rightarrow> int" where
  "to_int v = (case v of None \<Rightarrow> 0
     | Some s \<Rightarrow> (case py_int s of None \<Rightarrow> 0 | Some i \<Rightarrow> i))"

text \<open>\<^verbatim>\<open>datetime.fromtimestamp(epoch, tz=UTC)\<close> exists for the years 1 to 9999; it raises
  otherwise, and nothing catches that.\<close>

definition min_epoch :: int where
  "min_epoch = - 62135596800"

definition max_epoch :: int where
  "max_epoch = 253402300799"

definition epoch_to_dt :: "string option \<Rightarrow> int option res" where
  "epoch_to_dt v = (case v of None \<Rightarrow> Inr None
     | Some s \<Rightarrow> (case py_int s of None \<Rightarrow> Inr None
        | Some e \<Rightarrow> if e = 0 then Inr None
            else if e < min_epoch \<or> max_epoch < e then Inl ValueErr
            else Inr (Some e)))"

record cdr_fields =
  cf_customer :: "string option"
  cf_direction :: "string option"
  cf_caller :: "string option"
  cf_callee :: "string option"
  cf_duration :: int
  cf_billsec :: int
  cf_hangup_cause :: "string option"
  cf_start :: "int option"
  cf_answer :: "int option"
  cf_end :: "int option"
  cf_recording :: "string option"

definition cdr_fields_of :: "cdr_dict \<Rightarrow> cdr_fields res" where
  "cdr_fields_of vars =
     bind_res (epoch_to_dt (get_text vars ''start_epoch'')) (\<lambda>start.
     bind_res (epoch_to_dt (get_text vars ''answer_epoch'')) (\<lambda>answer.
     bind_res (epoch_to_dt (get_text vars ''end_epoch'')) (\<lambda>end_at.
     Inr \<lparr>cf_customer = py_or (get_text vars ''variable_dotmac_subscriber_id'')
                              (get_text vars ''dotmac_subscriber_id''),
          cf_direction = get_or_empty vars ''direction'',
          cf_caller = get_or_empty vars ''caller_id_number'',
          cf_callee = get_or_empty vars ''destination_number'',
          cf_duration = to_int (get_text vars ''duration''),
          cf_billsec = to_int (get_text vars ''billsec''),
          cf_hangup_cause = get_or_empty vars ''hangup_cause'',
          cf_start = start, cf_answer = answer, cf_end = end_at,
          cf_recording = py_or (get_text vars ''variable_recording_file'')
                               (get_text vars ''recording_file'')\<rparr>)))"

section \<open>Writing a row\<close>

text \<open>What PostgreSQL accepts at the flush: no null in a column that must not be, texts within
  their columns, integers of 32 bits.\<close>

definition fits :: "nat \<Rightarrow> string option \<Rightarrow> bool" where
  "fits n v = (case v of None \<Rightarrow> True | Some s \<Rightarrow> length s \<le> n)"

definition int32 :: "int \<Rightarrow> bool" where
  "int32 i \<longleftrightarrow> - (2 ^ 31) \<le> i \<and> i < 2 ^ 31"

definition flush_check :: "string option \<Rightarrow> cdr_fields \<Rightarrow> unit res" where
  "flush_check call_uuid f =
     (if call_uuid = None \<or> cf_direction f = None \<or> cf_caller f = None \<or> cf_callee f = None
         \<or> cf_hangup_cause f = None
      then Inl IntegrityErr
      else if \<not> (fits 64 call_uuid \<and> fits 64 (cf_customer f) \<and> fits 16 (cf_direction f)
              \<and> fits 64 (cf_caller f) \<and> fits 64 (cf_callee f) \<and> fits 64 (cf_hangup_cause f)
              \<and> fits 512 (cf_recording f) \<and> int32 (cf_duration f) \<and> int32 (cf_billsec f))
      then Inl (Raised ''DataError'')
      else Inr ())"

definition set_fields :: "cdr_fields \<Rightarrow> cdr \<Rightarrow> cdr" where
  "set_fields f r = r\<lparr>
     cd_customer := cf_customer f, cd_direction := the (cf_direction f),
     cd_caller := the (cf_caller f), cd_callee := the (cf_callee f),
     cd_duration := cf_duration f, cd_billsec := cf_billsec f,
     cd_hangup_cause := the (cf_hangup_cause f), cd_start := cf_start f,
     cd_answer := cf_answer f, cd_end := cf_end f, cd_recording := cf_recording f\<rparr>"

definition new_cdr :: "nat \<Rightarrow> nat \<Rightarrow> string \<Rightarrow> cdr_fields \<Rightarrow> cdr" where
  "new_cdr i now call_uuid f = set_fields f
     \<lparr>cd_id = i, cd_call_uuid = call_uuid, cd_customer = None, cd_direction = [],
      cd_caller = [], cd_callee = [], cd_duration = 0, cd_billsec = 0, cd_hangup_cause = [],
      cd_start = None, cd_answer = None, cd_end = None, cd_recording = None,
      cd_rating = Raw, cd_created = now\<rparr>"

text \<open>\<open>ingest_cdr\<close> and the handler \<open>post_ingest\<close>, which commits what it returns; after an error
  nothing is committed.\<close>

definition ingest_cdr :: "cdr_payload \<Rightarrow> (cdr_db, cdr) act" where
  "ingest_cdr p s =
     (let vars = cdr_vars p; call_uuid = get_or_empty vars ''uuid'' in
      case cdr_fields_of vars of Inl e \<Rightarrow> (Inl e, s)
      | Inr f \<Rightarrow>
         let found = (case call_uuid of None \<Rightarrow> None
               | Some u \<Rightarrow> if u \<noteq> [] then first_where (\<lambda>r. cd_call_uuid r = u) (cdrs s) else None)
         in case flush_check call_uuid f of Inl e \<Rightarrow> (Inl e, s)
            | Inr _ \<Rightarrow>
               (case found of
                  None \<Rightarrow>
                    let r = new_cdr (cdr_next s) (cdr_clock s) (the call_uuid) f
                    in (Inr r, s\<lparr>cdrs := cdrs s @ [r], cdr_next := Suc (cdr_next s),
                                 cdr_clock := Suc (cdr_clock s)\<rparr>)
                | Some r \<Rightarrow>
                    let r' = set_fields f r
                    in (Inr r', s\<lparr>cdrs := update_where (\<lambda>q. cd_id q = cd_id r) (\<lambda>_. r') (cdrs s)\<rparr>)))"

definition post_ingest :: "cdr_payload \<Rightarrow> (cdr_db, string \<times> rating_status) act" where
  "post_ingest p =
     bind_act (ingest_cdr p) (\<lambda>r. ret (cd_call_uuid r, cd_rating r))"

section \<open>The feed and the marking\<close>

definition rating_value :: "rating_status \<Rightarrow> string" where
  "rating_value r = (case r of Raw \<Rightarrow> ''raw'' | Rated \<Rightarrow> ''rated'' | Fed \<Rightarrow> ''fed'')"

definition rating_of :: "string \<Rightarrow> rating_status option" where
  "rating_of s = (if s = ''raw'' then Some Raw else if s = ''rated'' then Some Rated
                  else if s = ''fed'' then Some Fed else None)"

text \<open>\<open>get_cdrs\<close>: newest first; a limit outside 1 to 1000 is refused by the query parameter.\<close>

definition get_cdrs :: "string \<Rightarrow> string option \<Rightarrow> int \<Rightarrow> (cdr_db, cdr list) act" where
  "get_cdrs rating customer limit s =
     (if limit < 1 \<or> 1000 < limit then (Inl (HttpError 422 ''limit''), s)
      else let wanted = (case customer of
              Some c \<Rightarrow> (\<lambda>r. cd_customer r = Some c)
            | None \<Rightarrow> (let status = (case rating_of rating of None \<Rightarrow> Raw | Some st \<Rightarrow> st)
                       in (\<lambda>r. cd_rating r = status)))
           in (Inr (take (nat limit) (sort_key (\<lambda>r. - int (cd_created r)) (filter wanted (cdrs s)))), s))"

definition mark_cdrs :: "string list \<Rightarrow> string \<Rightarrow> (cdr_db, nat) act" where
  "mark_cdrs call_uuids rating s =
     (case rating_of rating of
        None \<Rightarrow> (Inl (BadRequest (''invalid rating_status: '' @ rating)), s)
      | Some status \<Rightarrow>
          let hit = (\<lambda>r. cd_call_uuid r \<in> set call_uuids)
          in (Inr (rowcount hit (cdrs s)),
              s\<lparr>cdrs := update_where hit (\<lambda>r. r\<lparr>cd_rating := status\<rparr>) (cdrs s)\<rparr>))"

text \<open>One round of the billing pipeline: read the feed of a status, mark what came.\<close>

definition feed_round :: "int \<Rightarrow> string \<Rightarrow> string \<Rightarrow> (cdr_db, cdr list) act" where
  "feed_round limit from_rating to_rating =
     bind_act (get_cdrs from_rating None limit) (\<lambda>rows.
       then_act (mark_cdrs (map cd_call_uuid rows) to_rating) (ret rows))"

section \<open>Well-formed tables\<close>

definition cdr_inv :: "cdr_db \<Rightarrow> bool" where
  "cdr_inv s \<longleftrightarrow> keyed cd_id (cdr_next s) (cdrs s) \<and>
     distinct (map cd_call_uuid (filter (\<lambda>r. cd_call_uuid r \<noteq> []) (cdrs s))) \<and>
     (\<forall>r\<in>set (cdrs s). cd_created r < cdr_clock s)"

lemma set_fields_simps [simp]:
  "cd_id (set_fields f r) = cd_id r" "cd_call_uuid (set_fields f r) = cd_call_uuid r"
  "cd_rating (set_fields f r) = cd_rating r" "cd_created (set_fields f r) = cd_created r"
  "cd_billsec (set_fields f r) = cf_billsec f"
  by (simp_all add: set_fields_def)

lemma set_fields_twice [simp]: "set_fields f (set_fields g r) = set_fields f r"
  by (simp add: set_fields_def)

lemma new_cdr_simps [simp]:
  "cd_id (new_cdr i now u f) = i" "cd_call_uuid (new_cdr i now u f) = u"
  "cd_rating (new_cdr i now u f) = Raw" "cd_created (new_cdr i now u f) = now"
  "set_fields f (new_cdr i now u f) = new_cdr i now u f"
  by (simp_all add: new_cdr_def)

text \<open>The two ways an ingest succeeds.\<close>

lemma ingest_cases:
  assumes "ingest_cdr p s = (Inr r, s')"
  obtains (insert) f u where "cdr_fields_of (cdr_vars p) = Inr f"
      "get_or_empty (cdr_vars p) ''uuid'' = Some u" "flush_check (Some u) f = Inr ()"
      "u = [] \<or> (\<forall>q\<in>set (cdrs s). cd_call_uuid q \<noteq> u)"
      "r = new_cdr (cdr_next s) (cdr_clock s) u f"
      "s' = s\<lparr>cdrs := cdrs s @ [r], cdr_next := Suc (cdr_next s), cdr_clock := Suc (cdr_clock s)\<rparr>"
    | (update) f u q where "cdr_fields_of (cdr_vars p) = Inr f"
      "get_or_empty (cdr_vars p) ''uuid'' = Some u" "flush_check (Some u) f = Inr ()" "u \<noteq> []"
      "first_where (\<lambda>r. cd_call_uuid r = u) (cdrs s) = Some q" "r = set_fields f q"
      "s' = s\<lparr>cdrs := update_where (\<lambda>x. cd_id x = cd_id q) (\<lambda>_. r) (cdrs s)\<rparr>"
proof -
  obtain f where f: "cdr_fields_of (cdr_vars p) = Inr f"
    using assms by (cases "cdr_fields_of (cdr_vars p)") (auto simp: ingest_cdr_def)
  obtain u where u: "get_or_empty (cdr_vars p) ''uuid'' = Some u"
  proof (cases "get_or_empty (cdr_vars p) ''uuid''")
    case None
    then show thesis using assms f by (simp add: ingest_cdr_def flush_check_def)
  qed (use that in blast)
  have ok: "flush_check (Some u) f = Inr ()"
    using assms f u by (cases "flush_check (Some u) f") (simp_all add: ingest_cdr_def Let_def)
  show thesis
  proof (cases "u = [] \<or> first_where (\<lambda>r. cd_call_uuid r = u) (cdrs s) = None")
    case True
    then have "(if u \<noteq> [] then first_where (\<lambda>r. cd_call_uuid r = u) (cdrs s) else None) = None" by auto
    then have "r = new_cdr (cdr_next s) (cdr_clock s) u f"
      "s' = s\<lparr>cdrs := cdrs s @ [r], cdr_next := Suc (cdr_next s), cdr_clock := Suc (cdr_clock s)\<rparr>"
      using assms f u ok by (auto simp: ingest_cdr_def Let_def)
    then show thesis using True by (intro insert [OF f u ok]) (auto simp: first_where_None)
  next
    case False
    then obtain q where "first_where (\<lambda>r. cd_call_uuid r = u) (cdrs s) = Some q" by auto
    then show thesis
      using assms f u ok False by (intro update [OF f u ok]) (auto simp: ingest_cdr_def Let_def)
  qed
qed

lemma post_ingest_Inr: "post_ingest p s = (Inr x, s') \<Longrightarrow>
   \<exists>r. ingest_cdr p s = (Inr r, s') \<and> x = (cd_call_uuid r, cd_rating r)"
  by (auto simp: post_ingest_def bind_act_Inr)

lemma ingest_inv:
  assumes "cdr_inv s" and "ingest_cdr p s = (Inr r, s')"
  shows "cdr_inv s'"
  using assms(2)
proof (cases rule: ingest_cases)
  case (insert f u)
  have "keyed cd_id (Suc (cdr_next s)) (cdrs s @ [r])"
    using assms(1) insert by (auto simp: cdr_inv_def intro: keyed_insert)
  then show ?thesis using assms(1) insert by (auto simp: cdr_inv_def less_SucI)
next
  case (update f u q)
  note q = first_where_Some [OF update(5)]
  have upd: "update_where (\<lambda>x. cd_id x = cd_id q) (\<lambda>_. r) (cdrs s)
      = update_where (\<lambda>x. cd_id x = cd_id q) (set_fields f) (cdrs s)"
    unfolding update_where_def
    using keyed_unique [OF conjunct1 [OF assms(1) [unfolded cdr_inv_def]] _ conjunct1 [OF q]] update(6)
    by (intro map_cong) auto
  have "filter (\<lambda>r. cd_call_uuid r \<noteq> []) (map (\<lambda>r. if cd_id r = cd_id q then set_fields f r else r) rows)
      = map (\<lambda>r. if cd_id r = cd_id q then set_fields f r else r) (filter (\<lambda>r. cd_call_uuid r \<noteq> []) rows)"
    for rows by (induction rows) auto
  then have "map cd_call_uuid (filter (\<lambda>r. cd_call_uuid r \<noteq> [])
        (update_where (\<lambda>x. cd_id x = cd_id q) (set_fields f) (cdrs s)))
      = map cd_call_uuid (filter (\<lambda>r. cd_call_uuid r \<noteq> []) (cdrs s))"
    by (simp add: update_where_def)
  then show ?thesis
    using assms(1) update(7) unfolding upd
    by (auto simp: cdr_inv_def set_update_where intro: keyed_update)
qed

lemma mark_inv:
  assumes "cdr_inv s" and "mark_cdrs us rating s = (r, s')"
  shows "cdr_inv s'"
proof (cases "rating_of rating")
  case None
  then show ?thesis using assms by (simp add: mark_cdrs_def)
next
  case (Some st)
  let ?up = "update_where (\<lambda>r. cd_call_uuid r \<in> set us) (\<lambda>r. r\<lparr>cd_rating := st\<rparr>) (cdrs s)"
  have s': "s' = s\<lparr>cdrs := ?up\<rparr>" using assms(2) Some by (simp add: mark_cdrs_def Let_def)
  have "keyed cd_id (cdr_next s) ?up" using assms(1) by (intro keyed_update) (simp_all add: cdr_inv_def)
  moreover have "map cd_call_uuid (filter (\<lambda>r. cd_call_uuid r \<noteq> []) ?up)
      = map cd_call_uuid (filter (\<lambda>r. cd_call_uuid r \<noteq> []) (cdrs s))"
    by (induction "cdrs s") (auto simp: update_where_def filter_map o_def)
  moreover have "\<forall>r\<in>set ?up. cd_created r < cdr_clock s"
    using assms(1) by (auto simp: cdr_inv_def set_update_where)
  ultimately show ?thesis using assms(1) by (simp add: cdr_inv_def s')
qed

text \<open>The row of a call after it was ingested is found again.\<close>

lemma ingest_found:
  assumes "cdr_inv s" and "ingest_cdr p s = (Inr r, s')" and "cd_call_uuid r \<noteq> []"
  shows "first_where (\<lambda>q. cd_call_uuid q = cd_call_uuid r) (cdrs s') = Some r"
    and "r \<in> set (cdrs s')"
proof -
  show mem: "r \<in> set (cdrs s')"
    using assms(2)
    by (cases rule: ingest_cases) (auto dest: first_where_Some intro: update_where_hit)
  have dist: "distinct (map cd_call_uuid (filter (\<lambda>r. cd_call_uuid r \<noteq> []) (cdrs s')))"
    using ingest_inv [OF assms(1,2)] by (simp add: cdr_inv_def)
  have unique: "q = r" if "q \<in> set (cdrs s')" "cd_call_uuid q = cd_call_uuid r" for q
    using dist mem that assms(3) by (auto simp: distinct_map dest: inj_onD)
  show "first_where (\<lambda>q. cd_call_uuid q = cd_call_uuid r) (cdrs s') = Some r"
  proof (cases "first_where (\<lambda>q. cd_call_uuid q = cd_call_uuid r) (cdrs s')")
    case None
    then show ?thesis using mem by (auto simp: first_where_None)
  next
    case (Some q)
    then show ?thesis using unique first_where_Some [OF Some] by simp
  qed
qed

text \<open>Ingesting once more what is stored changes nothing.\<close>

lemma ingest_again:
  assumes "cdr_inv s" and "first_where (\<lambda>q. cd_call_uuid q = u) (cdrs s) = Some r"
    and "cdr_fields_of (cdr_vars p) = Inr f" and "set_fields f r = r" and "u \<noteq> []"
    and "get_or_empty (cdr_vars p) ''uuid'' = Some u" and "flush_check (Some u) f = Inr ()"
  shows "ingest_cdr p s = (Inr r, s)"
proof -
  have "q = r" if "q \<in> set (cdrs s)" "cd_id q = cd_id r" for q
    using that assms(1) first_where_Some [OF assms(2)] by (auto simp: cdr_inv_def dest: keyed_unique)
  then have "update_where (\<lambda>q. cd_id q = cd_id r) (\<lambda>_. r) (cdrs s) = cdrs s"
    by (intro update_where_none) auto
  then show ?thesis using assms(2-) by (simp add: ingest_cdr_def Let_def)
qed

text \<open>What the ingest of a call leaves of the others, and the rating it leaves.\<close>

lemma ingest_rest:
  assumes "cdr_inv s" and "ingest_cdr p s = (Inr r, s')" and "cd_call_uuid r \<noteq> []"
  shows "filter (\<lambda>q. cd_call_uuid q \<noteq> cd_call_uuid r) (cdrs s')
      = filter (\<lambda>q. cd_call_uuid q \<noteq> cd_call_uuid r) (cdrs s) \<and>
    cd_rating r = (case first_where (\<lambda>q. cd_call_uuid q = cd_call_uuid r) (cdrs s) of
           None \<Rightarrow> Raw | Some q \<Rightarrow> cd_rating q) \<and>
    (\<exists>f. cdr_fields_of (cdr_vars p) = Inr f \<and> set_fields f r = r \<and>
      get_or_empty (cdr_vars p) ''uuid'' = Some (cd_call_uuid r) \<and>
      flush_check (Some (cd_call_uuid r)) f = Inr ())"
  using assms(2)
proof (cases rule: ingest_cases)
  case (insert f u)
  have "first_where (\<lambda>q. cd_call_uuid q = cd_call_uuid r) (cdrs s) = None"
    using insert(4,5) assms(3) by (auto simp: first_where_None)
  then show ?thesis using insert by auto
next
  case (update f u q)
  note q = first_where_Some [OF update(5)]
  have same: "x = q" if "x \<in> set (cdrs s)" "cd_id x = cd_id q" for x
    using that assms(1) q by (auto simp: cdr_inv_def dest: keyed_unique)
  have "filter (\<lambda>q. cd_call_uuid q \<noteq> cd_call_uuid r) (cdrs s')
      = filter (\<lambda>q. cd_call_uuid q \<noteq> cd_call_uuid r) (cdrs s)"
    unfolding update(7) by simp (rule filter_update_where, use same update(6) in auto)
  then show ?thesis using update q by auto
qed

section \<open>Rounds of the feed\<close>

lemma take_sorted_le:
  fixes f :: "'a \<Rightarrow> int"
  assumes "sorted (map f ys)" and "x \<in> set (take n ys)" and "y \<in> set ys" and "y \<notin> set (take n ys)"
  shows "f x \<le> f y"
proof -
  have "y \<in> set (drop n ys)" using assms(3,4) by (metis Un_iff append_take_drop_id set_append)
  moreover have "sorted (map f (take n ys) @ map f (drop n ys))"
    using assms(1) by (simp flip: map_append)
  ultimately show ?thesis using assms(2) by (auto simp: sorted_append)
qed

lemma get_cdrs_feed:
  assumes "1 \<le> limit" and "limit \<le> 1000" and "rating_of rating = Some a"
  obtains rows where "get_cdrs rating None limit s = (Inr rows, s)"
    "set rows \<subseteq> {r \<in> set (cdrs s). cd_rating r = a}"
    "length rows = min (nat limit) (rowcount (\<lambda>r. cd_rating r = a) (cdrs s))"
    "\<And>r q. r \<in> set rows \<Longrightarrow> q \<in> set (cdrs s) \<Longrightarrow> cd_rating q = a \<Longrightarrow> q \<notin> set rows \<Longrightarrow>
       cd_created q \<le> cd_created r"
proof -
  let ?new = "\<lambda>r. - int (cd_created r)"
  let ?all = "sort_key ?new (filter (\<lambda>r. cd_rating r = a) (cdrs s))"
  let ?rows = "take (nat limit) ?all"
  have run: "get_cdrs rating None limit s = (Inr ?rows, s)"
    using assms by (simp add: get_cdrs_def Let_def)
  have sub: "set ?rows \<subseteq> {r \<in> set (cdrs s). cd_rating r = a}"
    by (rule subset_trans [OF set_take_subset]) auto
  have "cd_created q \<le> cd_created r"
    if "r \<in> set ?rows" "q \<in> set (cdrs s)" "cd_rating q = a" "q \<notin> set ?rows" for r q
    using take_sorted_le [of ?new ?all r "nat limit" q] that by simp
  then show thesis
    by (intro that [OF run sub]) (auto simp: rowcount_def)
qed

section \<open>Properties\<close>

text \<open>
  Property C40. Ingesting a call that has an identifier into sound tables: when it is accepted, exactly
  one row of the table is for that call afterwards, holding the fields of the payload; its rating
  is the one it had, or raw for a new call; every row of another call is as before. Delivering the
  same payload again, as the module does when it retries, changes nothing. (Calls without an
  identifier are not covered: each delivery of one adds a row.)
\<close>

theorem ingest_idempotent:
  assumes "cdr_inv s" and "post_ingest p s = (Inr (u, rating), s')" and "u \<noteq> []"
  shows "cdr_inv s' \<and>
    (\<exists>r f. filter (\<lambda>q. cd_call_uuid q = u) (cdrs s') = [r] \<and> cdr_fields_of (cdr_vars p) = Inr f \<and>
       set_fields f r = r \<and> cd_rating r = rating \<and>
       rating = (case first_where (\<lambda>q. cd_call_uuid q = u) (cdrs s) of None \<Rightarrow> Raw | Some q \<Rightarrow> cd_rating q)) \<and>
    filter (\<lambda>q. cd_call_uuid q \<noteq> u) (cdrs s') = filter (\<lambda>q. cd_call_uuid q \<noteq> u) (cdrs s) \<and>
    post_ingest p s' = (Inr (u, rating), s')"
proof -
  obtain r where run: "ingest_cdr p s = (Inr r, s')" and r: "u = cd_call_uuid r" "rating = cd_rating r"
    using post_ingest_Inr [OF assms(2)] by auto
  have inv: "cdr_inv s'" by (rule ingest_inv [OF assms(1) run])
  have found: "first_where (\<lambda>q. cd_call_uuid q = u) (cdrs s') = Some r"
    using ingest_found(1) [OF assms(1) run] assms(3) r by simp
  have dist: "distinct (map cd_call_uuid (filter (\<lambda>r. cd_call_uuid r \<noteq> []) (cdrs s')))"
    using inv by (simp add: cdr_inv_def)
  have one: "filter (\<lambda>q. cd_call_uuid q = u) (cdrs s') = [r]"
  proof -
    have "filter (\<lambda>q. cd_call_uuid q = u) (filter (\<lambda>r. cd_call_uuid r \<noteq> []) (cdrs s'))
        = filter (\<lambda>q. cd_call_uuid q = u) (cdrs s')"
      using assms(3) by (auto simp: filter_filter intro: filter_cong)
    then have "length (filter (\<lambda>q. cd_call_uuid q = u) (cdrs s')) \<le> 1"
      using filter_key_le_1 [OF dist, of u] by simp
    then show ?thesis
      using found by (cases "filter (\<lambda>q. cd_call_uuid q = u) (cdrs s')") (auto simp: first_where_def)
  qed
  have ne: "cd_call_uuid r \<noteq> []" using assms(3) r by simp
  obtain f where f: "cdr_fields_of (cdr_vars p) = Inr f" and fr: "set_fields f r = r"
    and uu: "get_or_empty (cdr_vars p) ''uuid'' = Some u" and ok: "flush_check (Some u) f = Inr ()"
    using ingest_rest [OF assms(1) run ne] r by auto
  have rest: "filter (\<lambda>q. cd_call_uuid q \<noteq> u) (cdrs s') = filter (\<lambda>q. cd_call_uuid q \<noteq> u) (cdrs s)"
    "rating = (case first_where (\<lambda>q. cd_call_uuid q = u) (cdrs s) of None \<Rightarrow> Raw | Some q \<Rightarrow> cd_rating q)"
    using ingest_rest [OF assms(1) run ne] r by simp_all
  have "ingest_cdr p s' = (Inr r, s')"
    by (rule ingest_again [OF inv found f fr assms(3) uu ok])
  then have "post_ingest p s' = (Inr (u, rating), s')"
    by (simp add: post_ingest_def bind_act_def r)
  then show ?thesis using inv one f fr rest r by auto
qed


text \<open>A row of a call that is being billed, and a later payload for the call.\<close>

definition sample_cdr_payload :: "string \<Rightarrow> cdr_payload" where
  "sample_cdr_payload secs = \<lparr>cp_variables = Some (map_of
     [(''uuid'', JString ''c1''), (''direction'', JString ''inbound''),
      (''billsec'', JString secs), (''start_epoch'', JString ''1700000000'')]),
     cp_top = (\<lambda>_. None)\<rparr>"

definition no_cdrs :: cdr_db where
  "no_cdrs = \<lparr>cdrs = [], cdr_next = 0, cdr_clock = 0\<rparr>"

definition sample_cdrs :: cdr_db where
  "sample_cdrs = snd (mark_cdrs [''c1''] ''fed'' (snd (post_ingest (sample_cdr_payload ''60'') no_cdrs)))"

lemma no_cdrs_inv: "cdr_inv no_cdrs"
  by (simp add: cdr_inv_def no_cdrs_def keyed_def)

lemma sample_cdrs_inv: "cdr_inv sample_cdrs"
proof -
  have ok: "\<not> isl (fst (ingest_cdr (sample_cdr_payload ''60'') no_cdrs))" by code_simp
  obtain r s where run: "ingest_cdr (sample_cdr_payload ''60'') no_cdrs = (Inr r, s)"
    using ok by (cases "ingest_cdr (sample_cdr_payload ''60'') no_cdrs";
        cases "fst (ingest_cdr (sample_cdr_payload ''60'') no_cdrs)") auto
  have "sample_cdrs = snd (mark_cdrs [''c1''] ''fed'' s)"
    by (simp add: sample_cdrs_def post_ingest_def bind_act_def run)
  then show ?thesis
    using mark_inv [OF ingest_inv [OF no_cdrs_inv run]] by (metis prod.collapse)
qed

theorem ingest_idempotent_witness:
  "\<exists>r\<in>set (cdrs (snd (post_ingest (sample_cdr_payload ''90'') sample_cdrs))).
     cd_rating r = Fed \<and> cd_billsec r = 90"
proof -
  let ?p = "sample_cdr_payload ''90''"
  have "fst (post_ingest ?p sample_cdrs) = Inr (''c1'', Fed)" by code_simp
  then have run: "post_ingest ?p sample_cdrs = (Inr (''c1'', Fed), snd (post_ingest ?p sample_cdrs))"
    by (metis prod.collapse)
  have "case cdr_fields_of (cdr_vars ?p) of Inl _ \<Rightarrow> False | Inr f \<Rightarrow> cf_billsec f = 90" by code_simp
  moreover obtain r f where "filter (\<lambda>q. cd_call_uuid q = ''c1'') (cdrs (snd (post_ingest ?p sample_cdrs))) = [r]"
    and "cdr_fields_of (cdr_vars ?p) = Inr f" "set_fields f r = r" "cd_rating r = Fed"
    using ingest_idempotent [OF sample_cdrs_inv run] by auto
  ultimately have bill: "cf_billsec f = 90" and same: "set_fields f r = r" "cd_rating r = Fed"
    and mem: "r \<in> set (filter (\<lambda>q. cd_call_uuid q = ''c1'') (cdrs (snd (post_ingest ?p sample_cdrs))))"
    by simp_all
  have "cd_billsec r = 90" using set_fields_simps(5) [of f r] unfolding same(1) bill .
  moreover have "r \<in> set (cdrs (snd (post_ingest ?p sample_cdrs)))" using mem unfolding set_filter by blast
  ultimately show ?thesis using same(2) by blast
qed

text \<open>
  A round of the billing pipeline, reading the feed of one rating and marking what came:
  it moves exactly the rows it returned, which are the newest with that rating, as many as
  the limit allows; no other row changes. The calls must have identifiers: all rows without
  one are marked together.
\<close>

theorem feed_round_exact:
  assumes "cdr_inv s" and "\<forall>r\<in>set (cdrs s). cd_call_uuid r \<noteq> []"
    and "1 \<le> limit" and "limit \<le> 1000" and "rating_of old = Some a" and "rating_of new = Some b"
  shows "\<exists>rows s'. feed_round limit old new s = (Inr rows, s') \<and>
    set rows \<subseteq> {r \<in> set (cdrs s). cd_rating r = a} \<and>
    length rows = min (nat limit) (rowcount (\<lambda>r. cd_rating r = a) (cdrs s)) \<and>
    (\<forall>r\<in>set rows. \<forall>q\<in>set (cdrs s) - set rows. cd_rating q = a \<longrightarrow> cd_created q \<le> cd_created r) \<and>
    cdrs s' = map (\<lambda>r. if r \<in> set rows then r\<lparr>cd_rating := b\<rparr> else r) (cdrs s)"
proof -
  obtain rows where get: "get_cdrs old None limit s = (Inr rows, s)"
    and sub: "set rows \<subseteq> {r \<in> set (cdrs s). cd_rating r = a}"
    and len: "length rows = min (nat limit) (rowcount (\<lambda>r. cd_rating r = a) (cdrs s))"
    and newest: "\<And>r q. r \<in> set rows \<Longrightarrow> q \<in> set (cdrs s) \<Longrightarrow> cd_rating q = a \<Longrightarrow> q \<notin> set rows \<Longrightarrow>
       cd_created q \<le> cd_created r"
    by (rule get_cdrs_feed [OF assms(3-5), of s]) (rule that)
  have "filter (\<lambda>r. cd_call_uuid r \<noteq> []) (cdrs s) = cdrs s" using assms(2) by (simp add: filter_id_conv)
  then have inj: "inj_on cd_call_uuid (set (cdrs s))"
    using assms(1) by (simp add: cdr_inv_def distinct_map)
  have hit: "cd_call_uuid r \<in> set (map cd_call_uuid rows) \<longleftrightarrow> r \<in> set rows" if "r \<in> set (cdrs s)" for r
    using inj_on_image_mem_iff [OF inj that, of "set rows"] sub by auto
  have up: "update_where (\<lambda>r. cd_call_uuid r \<in> set (map cd_call_uuid rows)) (\<lambda>r. r\<lparr>cd_rating := b\<rparr>) (cdrs s)
      = map (\<lambda>r. if r \<in> set rows then r\<lparr>cd_rating := b\<rparr> else r) (cdrs s)"
    unfolding update_where_def by (rule map_cong [OF refl]) (simp only: hit)
  have "snd (mark_cdrs (map cd_call_uuid rows) new s)
      = s\<lparr>cdrs := map (\<lambda>r. if r \<in> set rows then r\<lparr>cd_rating := b\<rparr> else r) (cdrs s)\<rparr>"
    "\<not> isl (fst (mark_cdrs (map cd_call_uuid rows) new s))"
    unfolding mark_cdrs_def assms(6) option.case Let_def up snd_conv fst_conv by simp_all
  then have "feed_round limit old new s
      = (Inr rows, s\<lparr>cdrs := map (\<lambda>r. if r \<in> set rows then r\<lparr>cd_rating := b\<rparr> else r) (cdrs s)\<rparr>)"
    by (cases "mark_cdrs (map cd_call_uuid rows) new s")
       (auto simp: feed_round_def bind_act_def then_act_def get split: sum.splits)
  moreover have "\<forall>r\<in>set rows. \<forall>q\<in>set (cdrs s) - set rows. cd_rating q = a \<longrightarrow> cd_created q \<le> cd_created r"
    using newest by simp
  ultimately show ?thesis using sub len
    by (intro exI [of _ rows] exI [of _ "s\<lparr>cdrs := map (\<lambda>r. if r \<in> set rows then r\<lparr>cd_rating := b\<rparr> else r) (cdrs s)\<rparr>"])
       simp
qed

theorem feed_round_exact_witness:
  "\<exists>rows s'. feed_round 10 ''fed'' ''raw'' sample_cdrs = (Inr rows, s') \<and> length rows = 1"
proof -
  have "list_all (\<lambda>r. cd_call_uuid r \<noteq> []) (cdrs sample_cdrs)" by code_simp
  then have named: "\<forall>r\<in>set (cdrs sample_cdrs). cd_call_uuid r \<noteq> []" by (simp add: list_all_iff)
  have one: "min (nat 10) (rowcount (\<lambda>r. cd_rating r = Fed) (cdrs sample_cdrs)) = 1" by code_simp
  have "rating_of ''fed'' = Some Fed" "rating_of ''raw'' = Some Raw" by code_simp+
  from feed_round_exact [OF sample_cdrs_inv named _ _ this, of 10]
  obtain rows s' where "feed_round 10 ''fed'' ''raw'' sample_cdrs = (Inr rows, s')"
    "length rows = min (nat 10) (rowcount (\<lambda>r. cd_rating r = Fed) (cdrs sample_cdrs))"
    by auto
  then show ?thesis unfolding one by blast
qed

end
