(* ===== verification/Ingress.thy ===== *)
theory Ingress
  imports PyText
begin

text \<open>
  What a request meets before its handler: the sliding-window rate limiter of
  \<^verbatim>\<open>app/middleware/rate_limit.py\<close> with its script on Redis, the double-submit check of
  \<^verbatim>\<open>app/middleware/csrf.py\<close>, and the key and address check of
  \<^verbatim>\<open>app/services/ingress_auth.py\<close>. Times are in microseconds. Whether a text is an IP address,
  and one of a trusted proxy (\<^verbatim>\<open>TRUSTED_PROXY_CIDRS\<close>), are parameters, and so is the decoding
  of a base64 text.
\<close>

section \<open>The script on Redis\<close>

text \<open>A sorted set with the times of the admitted requests as scores, and when the key expires.\<close>

record bucket =
  bk_scores :: "int list"
  bk_expires :: int

definition no_bucket :: bucket where
  "no_bucket = \<lparr>bk_scores = [], bk_expires = 0\<rparr>"

definition live_scores :: "int \<Rightarrow> bucket \<Rightarrow> int list" where
  "live_scores now b = (if bk_expires b \<le> now then [] else bk_scores b)"

text \<open>\<^verbatim>\<open>ZREMRANGEBYSCORE key 0 (now - window)\<close>, \<^verbatim>\<open>ZCARD\<close>, and \<^verbatim>\<open>ZADD\<close> below the maximum; the
  key expires a window later either way. The result is the flag and the count.\<close>

definition sliding_window :: "int \<Rightarrow> int \<Rightarrow> nat \<Rightarrow> bucket \<Rightarrow> (bool \<times> nat) \<times> bucket" where
  "sliding_window now window max_requests b =
     (let kept = filter (\<lambda>t. \<not> (0 \<le> t \<and> t \<le> now - window)) (live_scores now b);
          current = length kept
      in if max_requests \<le> current
         then ((False, current), \<lparr>bk_scores = kept, bk_expires = now + window\<rparr>)
         else ((True, current + 1), \<lparr>bk_scores = kept @ [now], bk_expires = now + window\<rparr>))"

section \<open>The rate limiter\<close>

definition rate_limit_paths :: "(string \<times> nat \<times> nat) list" where
  "rate_limit_paths =
     [(''/auth/login'', 10, 60), (''/auth/password-reset'', 5, 300),
      (''/auth/mfa/verify'', 10, 60), (''/auth/register'', 5, 300)]"

definition auth_paths :: "string list" where
  "auth_paths = [''/auth/login'', ''/auth/mfa'', ''/auth/register'', ''/auth/password-reset'']"

definition is_auth_path :: "string \<Rightarrow> bool" where
  "is_auth_path path = list_ex (\<lambda>a. starts_with path a \<or> contains_sub path a) auth_paths"

definition clean_path :: "string \<Rightarrow> string" where
  "clean_path path = (if starts_with path ''/api/v1'' then drop 7 path else path)"

record limited_request =
  hr_method :: string
  hr_path :: string
  hr_host :: "string option"
  hr_forwarded :: "string option"
  hr_real_ip :: "string option"

text \<open>\<open>_get_client_ip\<close>\<close>

definition get_client_ip :: "(string \<Rightarrow> bool) \<Rightarrow> (string \<Rightarrow> bool) \<Rightarrow> limited_request \<Rightarrow> string" where
  "get_client_ip is_ip trusted rq =
     (case hr_host rq of None \<Rightarrow> ''unknown''
      | Some direct \<Rightarrow>
         if \<not> (is_ip direct \<and> trusted direct) then direct
         else (let forwarded = (case hr_forwarded rq of None \<Rightarrow> []
                     | Some f \<Rightarrow> if f = [] then [] else strip (hd (split_on (CHR '','') f)));
                   real = (case hr_real_ip rq of None \<Rightarrow> [] | Some r \<Rightarrow> strip r)
               in if (case hr_forwarded rq of None \<Rightarrow> False | Some f \<Rightarrow> f \<noteq> []) \<and> is_ip forwarded
                  then forwarded
                  else if (case hr_real_ip rq of None \<Rightarrow> False | Some r \<Rightarrow> r \<noteq> []) \<and> is_ip real
                  then real else direct))"

definition bucket_key :: "string \<Rightarrow> string \<Rightarrow> string" where
  "bucket_key path client_ip = ''rate_limit:'' @ path @ '':'' @ client_ip"

text \<open>Redis answers, is not configured, or raises. What the middleware does: the request goes on,
  with the limit, the remaining requests and the reset time as headers when it was counted; or
  it is refused.\<close>

datatype redis = RedisUp | RedisAbsent | RedisFails

datatype gate = PassOn | Counted nat nat int | TooMany nat | NoService

type_synonym buckets = "string \<Rightarrow> bucket"

definition no_buckets :: buckets where
  "no_buckets = (\<lambda>_. no_bucket)"

definition microseconds :: "nat \<Rightarrow> int" where
  "microseconds s = int s * 1000000"

definition limit_dispatch :: "(string \<Rightarrow> bool) \<Rightarrow> (string \<Rightarrow> bool) \<Rightarrow> redis \<Rightarrow> int \<Rightarrow>
    limited_request \<Rightarrow> buckets \<Rightarrow> gate \<times> buckets" where
  "limit_dispatch is_ip trusted redis now rq st =
     (if hr_method rq \<noteq> ''POST'' then (PassOn, st)
      else (let path = clean_path (hr_path rq) in
        case map_of rate_limit_paths path of
          None \<Rightarrow> (PassOn, st)
        | Some (max_requests, window_seconds) \<Rightarrow>
            (if redis \<noteq> RedisUp
             then (if is_auth_path path then (NoService, st) else (PassOn, st))
             else (let key = bucket_key path (get_client_ip is_ip trusted rq);
                       res = sliding_window now (microseconds window_seconds) max_requests (st key);
                       count = snd (fst res)
                   in (if fst (fst res)
                       then Counted max_requests (max_requests - count)
                              ((now + microseconds window_seconds) div 1000000)
                       else TooMany window_seconds, st(key := snd res))))))"

definition admitted :: "gate \<Rightarrow> bool" where
  "admitted g = (case g of PassOn \<Rightarrow> True | Counted _ _ _ \<Rightarrow> True | _ \<Rightarrow> False)"

text \<open>Requests one after the other, each with its time.\<close>

fun serve_limited :: "(string \<Rightarrow> bool) \<Rightarrow> (string \<Rightarrow> bool) \<Rightarrow> (int \<times> limited_request) list \<Rightarrow> buckets \<Rightarrow>
    gate list \<times> buckets" where
  "serve_limited is_ip trusted [] st = ([], st)"
| "serve_limited is_ip trusted ((now, rq) # rqs) st =
     (case limit_dispatch is_ip trusted RedisUp now rq st of (g, st1) \<Rightarrow>
       (case serve_limited is_ip trusted rqs st1 of (gs, st2) \<Rightarrow> (g # gs, st2)))"

section \<open>CSRF\<close>

definition token_char :: "char \<Rightarrow> bool" where
  "token_char c \<longleftrightarrow> alnum_char c \<or> c = CHR ''_'' \<or> c = CHR ''-''"

definition is_valid_token :: "string \<Rightarrow> bool" where
  "is_valid_token t \<longleftrightarrow> 32 \<le> length t \<and> list_all token_char t"

definition safe_methods :: "string list" where
  "safe_methods = [''GET'', ''HEAD'', ''OPTIONS'', ''TRACE'']"

definition form_content_types :: "string list" where
  "form_content_types = [''application/x-www-form-urlencoded'', ''multipart/form-data'', ''text/plain'']"

record form_request =
  fq_method :: string
  fq_path :: string
  fq_content_type :: string
  fq_cookie :: string
  fq_header_token :: string
  fq_form_token :: string

text \<open>\<open>_ensure_token\<close>: the cookie if it has the format, otherwise a fresh token that is set.\<close>

definition ensure_token :: "string \<Rightarrow> form_request \<Rightarrow> string \<times> bool" where
  "ensure_token fresh_token rq =
     (if fq_cookie rq \<noteq> [] \<and> is_valid_token (fq_cookie rq) then (fq_cookie rq, False)
      else (fresh_token, True))"

definition is_exempt_path :: "string \<Rightarrow> bool" where
  "is_exempt_path path \<longleftrightarrow> starts_with path ''/static'' \<or> starts_with path ''/health'' \<or> path = ''/metrics''"

definition requires_csrf :: "form_request \<Rightarrow> bool" where
  "requires_csrf rq \<longleftrightarrow> fq_method rq \<notin> set safe_methods \<and> \<not> is_exempt_path (fq_path rq) \<and>
     lower_str (strip (hd (split_on (CHR '';'') (fq_content_type rq)))) \<in> set form_content_types"

definition submitted_token :: "form_request \<Rightarrow> string" where
  "submitted_token rq = (if fq_header_token rq \<noteq> [] then fq_header_token rq else fq_form_token rq)"

text \<open>\<open>Some c\<close>: the request goes on, and \<open>c\<close> is the cookie to set; \<open>None\<close>: 403.\<close>

definition csrf_dispatch :: "string \<Rightarrow> form_request \<Rightarrow> string option option" where
  "csrf_dispatch fresh_token rq =
     (case ensure_token fresh_token rq of (token, set_cookie) \<Rightarrow>
        if requires_csrf rq \<and> (submitted_token rq = [] \<or> \<not> is_valid_token (submitted_token rq))
        then None
        else if requires_csrf rq \<and> submitted_token rq \<noteq> token then None
        else Some (if set_cookie then Some token else None))"

section \<open>The ingress key\<close>

definition csv :: "string \<Rightarrow> string list" where
  "csv value = filter (\<lambda>v. v \<noteq> []) (map strip (split_on (CHR '','') value))"

text \<open>\<^verbatim>\<open>secrets.compare_digest\<close> on texts raises a \<^verbatim>\<open>TypeError\<close> unless both are ASCII; \<^verbatim>\<open>any\<close>
  stops at the first equal key.\<close>

definition ascii_text :: "string \<Rightarrow> bool" where
  "ascii_text s = list_all (\<lambda>c. of_char c < (128::nat)) s"

fun allowed_api_key :: "string \<Rightarrow> string list \<Rightarrow> bool res" where
  "allowed_api_key candidate [] = Inr False"
| "allowed_api_key candidate (k # ks) =
     (if \<not> (ascii_text candidate \<and> ascii_text k) then Inl (Raised ''TypeError'')
      else if candidate = k then Inr True else allowed_api_key candidate ks)"

definition key_from_basic_auth :: "(string \<Rightarrow> string option) \<Rightarrow> string option \<Rightarrow> string option" where
  "key_from_basic_auth b64 authorization =
     (case authorization of None \<Rightarrow> None
      | Some a \<Rightarrow>
          if a = [] \<or> \<not> starts_with (lower_str a) ''basic '' then None
          else (case b64 (strip (drop 6 a)) of
                  None \<Rightarrow> None
                | Some decoded \<Rightarrow>
                    if CHR '':'' \<notin> set decoded then None
                    else (let password = drop 1 (dropWhile (\<lambda>c. c \<noteq> CHR '':'') decoded)
                          in if password = [] then None else Some password)))"

record ingress_settings =
  ig_api_keys :: string
  ig_allowed_ips :: string

definition require_ingress :: "(string \<Rightarrow> bool) \<Rightarrow> (string \<Rightarrow> bool) \<Rightarrow> (string \<Rightarrow> string option) \<Rightarrow>
    ingress_settings \<Rightarrow> limited_request \<Rightarrow> string option \<Rightarrow> string option \<Rightarrow> unit res" where
  "require_ingress is_ip trusted b64 cfg rq x_api_key authorization =
     (let allowed_keys = csv (ig_api_keys cfg);
          candidate = py_or x_api_key (key_from_basic_auth b64 authorization)
      in case candidate of
           None \<Rightarrow> Inl (HttpError 401 ''invalid api key'')
         | Some c \<Rightarrow>
             if c = [] then Inl (HttpError 401 ''invalid api key'')
             else bind_res (allowed_api_key c allowed_keys) (\<lambda>ok.
               if \<not> ok then Inl (HttpError 401 ''invalid api key'')
               else (let ips = csv (ig_allowed_ips cfg) in
                     if ips \<noteq> [] \<and> get_client_ip is_ip trusted rq \<notin> set ips
                     then Inl (HttpError 403 ''ip not allowed'') else Inr ())))"


section \<open>Buckets and histories\<close>

definition counted :: "gate \<Rightarrow> bool" where
  "counted g = (case g of Counted _ _ _ \<Rightarrow> True | _ \<Rightarrow> False)"

definition key_of :: "(string \<Rightarrow> bool) \<Rightarrow> (string \<Rightarrow> bool) \<Rightarrow> limited_request \<Rightarrow> string" where
  "key_of is_ip trusted rq = bucket_key (clean_path (hr_path rq)) (get_client_ip is_ip trusted rq)"

text \<open>The times at which requests of a key were admitted.\<close>

definition history :: "(string \<Rightarrow> bool) \<Rightarrow> (string \<Rightarrow> bool) \<Rightarrow> string \<Rightarrow>
    (int \<times> limited_request) list \<Rightarrow> gate list \<Rightarrow> int list" where
  "history is_ip trusted key rqs gs =
     map (fst \<circ> fst) (filter (\<lambda>((t, q), g). counted g \<and> key_of is_ip trusted q = key) (zip rqs gs))"

text \<open>\<open>follows w since H b\<close>: from the time \<open>since\<close> on, the bucket knows of a history \<open>H\<close> what lies
  in the window.\<close>

definition follows :: "int \<Rightarrow> int \<Rightarrow> int list \<Rightarrow> bucket \<Rightarrow> bool" where
  "follows w since H b \<longleftrightarrow> (\<forall>t\<in>set H. 0 \<le> t \<and> t \<le> since) \<and> (\<forall>t\<in>set (bk_scores b). 0 \<le> t) \<and>
     (\<forall>now\<ge>since. filter (\<lambda>t. now - w < t) (live_scores now b) = filter (\<lambda>t. now - w < t) H)"

lemma follows_none: "follows w since [] no_bucket"
  by (simp add: follows_def no_bucket_def live_scores_def)

lemma follows_later: "follows w since H b \<Longrightarrow> since \<le> now \<Longrightarrow> follows w now H b"
  by (fastforce simp: follows_def)

lemma filter_narrow:
  assumes "a \<le> (b :: int)"
  shows "filter (\<lambda>t. b < t) (filter (\<lambda>t. a < t) xs) = filter (\<lambda>t. b < t) xs"
  using assms by (auto simp: filter_filter intro!: filter_cong)

lemma follows_window:
  assumes f: "follows w since H b" and "since \<le> now" and "0 \<le> now" and "0 < w"
    and run: "sliding_window now w m b = ((ok, n), b')"
  shows "ok \<longleftrightarrow> length (filter (\<lambda>t. now - w < t) H) < m"
    and "follows w now (if ok then H @ [now] else H) b'"
proof -
  let ?kept = "filter (\<lambda>t. now - w < t) H"
  have pos: "\<forall>t\<in>set (live_scores now b). 0 \<le> t" using f by (simp add: follows_def live_scores_def)
  then have "filter (\<lambda>t. \<not> (0 \<le> t \<and> t \<le> now - w)) (live_scores now b)
      = filter (\<lambda>t. now - w < t) (live_scores now b)" by (intro filter_cong) auto
  also have "\<dots> = ?kept" using f assms(2) by (simp add: follows_def)
  finally have kept: "filter (\<lambda>t. \<not> (0 \<le> t \<and> t \<le> now - w)) (live_scores now b) = ?kept" .
  note out = run [unfolded sliding_window_def Let_def kept]
  show ok: "ok \<longleftrightarrow> length ?kept < m"
    using out by (auto split: if_splits)
  have b': "b' = \<lparr>bk_scores = (if ok then ?kept @ [now] else ?kept), bk_expires = now + w\<rparr>"
    using out by (auto split: if_splits)
  have le: "\<forall>t\<in>set H. 0 \<le> t \<and> t \<le> now" using f assms(2) by (fastforce simp: follows_def)
  have "filter (\<lambda>t. u - w < t) (live_scores u b') = filter (\<lambda>t. u - w < t) (if ok then H @ [now] else H)"
    if "now \<le> u" for u
  proof (cases "now + w \<le> u")
    case True
    then have "filter (\<lambda>t. u - w < t) H = []" using le by (fastforce simp: filter_empty_conv)
    then show ?thesis using True by (simp add: live_scores_def b')
  next
    case False
    then show ?thesis
      using filter_narrow [of "now - w" "u - w" H] that by (simp add: live_scores_def b')
  qed
  then show "follows w now (if ok then H @ [now] else H) b'"
    using le assms(3) by (auto simp: follows_def b')
qed

text \<open>The key of a limited request determines its path: no limited path has a colon.\<close>

lemma bucket_key_path:
  assumes "map_of rate_limit_paths p = Some c" and "map_of rate_limit_paths q = Some d"
    and "bucket_key p i = bucket_key q j"
  shows "p = q"
proof -
  have plain: "CHR '':'' \<notin> set r" if "map_of rate_limit_paths r = Some e" for r e
    using map_of_SomeD [OF that] by (auto simp: rate_limit_paths_def)
  have cut: "takeWhile (\<lambda>c. c \<noteq> CHR '':'') (r @ CHR '':'' # t) = r" if "CHR '':'' \<notin> set r" for r t
    using that by (induction r) auto
  have "p @ CHR '':'' # i = q @ CHR '':'' # j" using assms(3) by (simp add: bucket_key_def)
  then show ?thesis using cut [OF plain [OF assms(1)]] cut [OF plain [OF assms(2)]] by metis
qed

lemma limit_counted:
  "hr_method rq = ''POST'' \<Longrightarrow> map_of rate_limit_paths (clean_path (hr_path rq)) = Some (m, w) \<Longrightarrow>
   sliding_window now (microseconds w) m (st (key_of is_ip trusted rq)) = ((ok, n), b) \<Longrightarrow>
   limit_dispatch is_ip trusted RedisUp now rq st
     = (if ok then Counted m (m - n) ((now + microseconds w) div 1000000) else TooMany w,
        st(key_of is_ip trusted rq := b))"
  by (simp add: limit_dispatch_def key_of_def Let_def)

lemma limit_other:
  assumes "limit_dispatch is_ip trusted r now rq st = (g, st')"
  shows "st' key = st key \<and> (counted g \<longrightarrow> key_of is_ip trusted rq \<noteq> key) \<or>
    key_of is_ip trusted rq = key \<and> hr_method rq = ''POST'' \<and>
    (\<exists>c. map_of rate_limit_paths (clean_path (hr_path rq)) = Some c)"
  using assms by (auto simp: limit_dispatch_def Let_def counted_def key_of_def split: if_splits option.splits)

lemma limit_step:
  assumes lim: "map_of rate_limit_paths path = Some (m, w)" and key: "key = bucket_key path ip"
    and f: "follows (microseconds w) since H (st key)" and "since \<le> now" and "0 \<le> now"
    and run: "limit_dispatch is_ip trusted RedisUp now rq st = (g, st')"
  shows "follows (microseconds w) now (H @ history is_ip trusted key [(now, rq)] [g]) (st' key)"
proof (cases "key_of is_ip trusted rq = key \<and> hr_method rq = ''POST'' \<and>
    (\<exists>c. map_of rate_limit_paths (clean_path (hr_path rq)) = Some c)")
  case True
  have path: "map_of rate_limit_paths (clean_path (hr_path rq)) = Some (m, w)"
  proof -
    obtain c where c: "map_of rate_limit_paths (clean_path (hr_path rq)) = Some c" using True by blast
    have "clean_path (hr_path rq) = path"
      using bucket_key_path [OF c lim, of "get_client_ip is_ip trusted rq" ip] True
      by (simp add: key key_of_def)
    then show ?thesis using lim by simp
  qed
  have w: "0 < microseconds w" using map_of_SomeD [OF lim] by (auto simp: rate_limit_paths_def microseconds_def)
  obtain ok n b where sw: "sliding_window now (microseconds w) m (st (key_of is_ip trusted rq)) = ((ok, n), b)"
    by (metis prod.collapse)
  have st': "st' key = b" and g: "counted g \<longleftrightarrow> ok"
    using run limit_counted [where st = st and is_ip = is_ip and trusted = trusted and now = now, OF _ path sw] True by (auto simp: counted_def split: if_splits)
  from follows_window(2) [OF f assms(4,5) w] sw True
  have "follows (microseconds w) now (if ok then H @ [now] else H) b" by simp
  then show ?thesis using True by (auto simp: st' history_def g)
next
  case False
  then have "st' key = st key" "\<not> (counted g \<and> key_of is_ip trusted rq = key)"
    using limit_other [OF run, of key] by auto
  then show ?thesis using follows_later [OF f assms(4)] by (auto simp: history_def)
qed

lemma history_Cons:
  "history is_ip trusted key (x # rqs) (g # gs)
     = history is_ip trusted key [x] [g] @ history is_ip trusted key rqs gs"
  by (simp add: history_def)

lemma serve_follows:
  assumes lim: "map_of rate_limit_paths path = Some (m, w)" and key: "key = bucket_key path ip"
    and "follows (microseconds w) since H (st key)" and "sorted (since # map fst rqs)" and "0 \<le> since"
    and "serve_limited is_ip trusted rqs st = (gs, st')"
  shows "follows (microseconds w) (last (since # map fst rqs)) (H @ history is_ip trusted key rqs gs) (st' key)"
  using assms(3-)
proof (induction rqs arbitrary: since H st gs)
  case Nil
  then show ?case by (simp add: history_def)
next
  case (Cons x rqs)
  obtain now rq where x: "x = (now, rq)" by (cases x)
  obtain g st1 where one: "limit_dispatch is_ip trusted RedisUp now rq st = (g, st1)"
    by (cases "limit_dispatch is_ip trusted RedisUp now rq st")
  obtain gs' where rest: "serve_limited is_ip trusted rqs st1 = (gs', st')" and gs: "gs = g # gs'"
    using Cons.prems(4) one by (auto simp: x split: prod.splits)
  have "since \<le> now" "0 \<le> now" using Cons.prems(2,3) by (auto simp: x)
  from limit_step [OF lim key Cons.prems(1) this one]
  have "follows (microseconds w) now (H @ history is_ip trusted key [x] [g]) (st1 key)" by (simp add: x)
  from Cons.IH [OF this _ \<open>0 \<le> now\<close> rest] Cons.prems(2)
  show ?case by (simp add: x gs history_Cons [of _ _ _ "(now, rq)" rqs g gs'])
qed


lemma serve_follows_start:
  assumes "map_of rate_limit_paths path = Some (m, w)" and "sorted (0 # map fst rqs)"
    and "serve_limited is_ip trusted rqs no_buckets = (gs, st)"
  shows "follows (microseconds w) (last (0 # map fst rqs))
    (history is_ip trusted (bucket_key path ip) rqs gs) (st (bucket_key path ip))"
  using serve_follows [OF assms(1) refl _ assms(2) _ assms(3), of "[]"] follows_none
  by (simp add: no_buckets_def)

lemma serve_snoc:
  "serve_limited is_ip trusted (rqs @ [(now, rq)]) st =
     (case serve_limited is_ip trusted rqs st of (gs, st1) \<Rightarrow>
       (case limit_dispatch is_ip trusted RedisUp now rq st1 of (g, st2) \<Rightarrow> (gs @ [g], st2)))"
  by (induction rqs arbitrary: st) (auto split: prod.splits)

lemma serve_length: "serve_limited is_ip trusted rqs st = (gs, st') \<Longrightarrow> length gs = length rqs"
  by (induction rqs arbitrary: st gs) (auto split: prod.splits)

lemma limit_exact:
  assumes lim: "map_of rate_limit_paths (clean_path (hr_path rq)) = Some (m, w)"
    and post: "hr_method rq = ''POST''" and times: "sorted (0 # map fst rqs @ [now])"
    and run: "serve_limited is_ip trusted rqs no_buckets = (gs, st)"
  shows "counted (fst (limit_dispatch is_ip trusted RedisUp now rq st)) \<longleftrightarrow>
    length (filter (\<lambda>t. now - microseconds w < t) (history is_ip trusted (key_of is_ip trusted rq) rqs gs)) < m"
    and "admitted (fst (limit_dispatch is_ip trusted RedisUp now rq st)) \<longleftrightarrow>
      counted (fst (limit_dispatch is_ip trusted RedisUp now rq st))"
proof -
  have sorted: "sorted (0 # map fst rqs)" "last (0 # map fst rqs) \<le> now" "0 \<le> now"
    using times by (auto simp: sorted_append last_map)
  have w: "0 < microseconds w" using map_of_SomeD [OF lim] by (auto simp: rate_limit_paths_def microseconds_def)
  obtain ok n b where sw: "sliding_window now (microseconds w) m (st (key_of is_ip trusted rq)) = ((ok, n), b)"
    by (metis prod.collapse)
  note step = limit_counted [where st = st and is_ip = is_ip and trusted = trusted and now = now, OF post lim sw]
  show "counted (fst (limit_dispatch is_ip trusted RedisUp now rq st)) \<longleftrightarrow>
    length (filter (\<lambda>t. now - microseconds w < t) (history is_ip trusted (key_of is_ip trusted rq) rqs gs)) < m"
    using follows_window(1) [OF serve_follows_start [OF lim sorted(1) run] sorted(2,3) w]
      sw unfolding key_of_def step [unfolded key_of_def] by (auto simp: counted_def)
  show "admitted (fst (limit_dispatch is_ip trusted RedisUp now rq st)) \<longleftrightarrow>
      counted (fst (limit_dispatch is_ip trusted RedisUp now rq st))"
    unfolding step by (simp add: admitted_def counted_def)
qed

section \<open>Properties\<close>

text \<open>The clients of the examples: a proxy, trusted, and addresses with dots.\<close>

definition sample_is_ip :: "string \<Rightarrow> bool" where
  "sample_is_ip s = contains_sub s ''.''"

definition sample_trusted :: "string \<Rightarrow> bool" where
  "sample_trusted s \<longleftrightarrow> s = ''10.0.0.1''"

definition direct_login :: "string \<Rightarrow> limited_request" where
  "direct_login ip = \<lparr>hr_method = ''POST'', hr_path = ''/api/v1/auth/login'', hr_host = Some ip,
     hr_forwarded = Some ''1.1.1.1'', hr_real_ip = None\<rparr>"

text \<open>
  The rate limit of a path holds in every window, wherever it starts: of the
  requests of one client to a limited path, in the order of their times, at most the configured
  number is admitted within the configured seconds.
\<close>

theorem rate_limit_bound:
  assumes "map_of rate_limit_paths path = Some (m, w)" and "sorted (0 # map fst rqs)"
    and "serve_limited is_ip trusted rqs no_buckets = (gs, st)"
  shows "length (filter (\<lambda>t. start < t \<and> t \<le> start + microseconds w)
           (history is_ip trusted (bucket_key path ip) rqs gs)) \<le> m"
  using assms(2,3)
proof (induction rqs arbitrary: gs st rule: rev_induct)
  case Nil
  then show ?case by (simp add: history_def)
next
  case (snoc x rqs)
  let ?key = "bucket_key path ip" and ?in = "\<lambda>t. start < t \<and> t \<le> start + microseconds w"
  obtain now rq where x: "x = (now, rq)" by (cases x)
  obtain gs1 st1 where before: "serve_limited is_ip trusted rqs no_buckets = (gs1, st1)"
    by (cases "serve_limited is_ip trusted rqs no_buckets")
  obtain g st2 where step: "limit_dispatch is_ip trusted RedisUp now rq st1 = (g, st2)"
    by (cases "limit_dispatch is_ip trusted RedisUp now rq st1")
  have gs: "gs = gs1 @ [g]" using snoc.prems(2) before step by (simp add: x serve_snoc)
  have hist: "history is_ip trusted ?key (rqs @ [x]) gs
      = history is_ip trusted ?key rqs gs1 @ history is_ip trusted ?key [x] [g]"
    using serve_length [OF before] by (simp add: history_def gs)
  have sorted: "sorted (0 # map fst rqs)" "sorted (0 # map fst rqs @ [now])"
    using snoc.prems(1) by (auto simp: x sorted_append)
  note IH = snoc.IH [OF sorted(1) before]
  show ?case
  proof (cases "counted g \<and> key_of is_ip trusted rq = ?key \<and> ?in now")
    case False
    then show ?thesis using IH unfolding hist by (auto simp: history_def x)
  next
    case True
    then obtain c where post: "hr_method rq = ''POST''"
      and c: "map_of rate_limit_paths (clean_path (hr_path rq)) = Some c"
      using limit_other [OF step, of ?key] by auto
    have "clean_path (hr_path rq) = path"
      using bucket_key_path [OF c assms(1), of "get_client_ip is_ip trusted rq" ip] True
      by (simp add: key_of_def)
    then have lim: "map_of rate_limit_paths (clean_path (hr_path rq)) = Some (m, w)" using assms(1) by simp
    have "length (filter (\<lambda>t. now - microseconds w < t) (history is_ip trusted ?key rqs gs1)) < m"
      using limit_exact(1) [OF lim post sorted(2) before] step True by simp
    moreover have "length (filter ?in H) \<le> length (filter (\<lambda>t. now - microseconds w < t) H)" for H
      using True by (induction H) auto
    ultimately have "length (filter ?in (history is_ip trusted ?key rqs gs1)) < m"
      using le_less_trans by blast
    then show ?thesis using True unfolding hist by (simp add: history_def x)
  qed
qed

theorem rate_limit_bound_witness:
  "\<exists>gs. length gs = 12 \<and> length (filter (\<lambda>t. 0 < t \<and> t \<le> microseconds 60)
     (history sample_is_ip sample_trusted (bucket_key ''/auth/login'' ''2.2.2.2'')
        (replicate 12 (5, direct_login ''2.2.2.2'')) gs)) \<le> 10"
proof -
  let ?rqs = "replicate 12 (5 :: int, direct_login ''2.2.2.2'')"
  obtain gs st where run: "serve_limited sample_is_ip sample_trusted ?rqs no_buckets = (gs, st)"
    by (cases "serve_limited sample_is_ip sample_trusted ?rqs no_buckets")
  have "map_of rate_limit_paths ''/auth/login'' = Some (10, 60)" by code_simp
  moreover have "sorted (0 # map fst ?rqs)" by simp
  ultimately have "length (filter (\<lambda>t. 0 < t \<and> t \<le> 0 + microseconds 60)
     (history sample_is_ip sample_trusted (bucket_key ''/auth/login'' ''2.2.2.2'') ?rqs gs)) \<le> 10"
    using run by (rule rate_limit_bound)
  moreover have "length gs = 12" using serve_length [OF run] by simp
  ultimately show ?thesis by auto
qed

text \<open>
  Property C22. The limiter never refuses without cause: with Redis reachable, a request to a limited
  path is admitted exactly if fewer than the configured number of requests of that client were
  admitted in the last window.
\<close>

theorem rate_limit_exact:
  assumes "map_of rate_limit_paths (clean_path (hr_path rq)) = Some (m, w)"
    and "hr_method rq = ''POST''" and "sorted (0 # map fst rqs @ [now])"
    and "serve_limited is_ip trusted rqs no_buckets = (gs, st)"
  shows "admitted (fst (limit_dispatch is_ip trusted RedisUp now rq st)) \<longleftrightarrow>
    length (filter (\<lambda>t. now - microseconds w < t)
      (history is_ip trusted (bucket_key (clean_path (hr_path rq)) (get_client_ip is_ip trusted rq)) rqs gs)) < m"
  using limit_exact [OF assms] by (simp add: key_of_def)

theorem rate_limit_exact_witness:
  "admitted (fst (limit_dispatch sample_is_ip sample_trusted RedisUp 6 (direct_login ''2.2.2.2'')
     (snd (serve_limited sample_is_ip sample_trusted [(5, direct_login ''3.3.3.3'')] no_buckets))))"
proof -
  let ?run = "serve_limited sample_is_ip sample_trusted [(5, direct_login ''3.3.3.3'')] no_buckets"
  have lim: "map_of rate_limit_paths (clean_path (hr_path (direct_login ''2.2.2.2''))) = Some (10, 60)" by code_simp
  have post: "hr_method (direct_login ''2.2.2.2'') = ''POST''" by code_simp
  have times: "sorted (0 # map fst [(5 :: int, direct_login ''3.3.3.3'')] @ [6])" by simp
  have "?run = (fst ?run, snd ?run)" by simp
  from rate_limit_exact [OF lim post times this]
  show ?thesis by (simp add: history_def less_le_trans [OF le_imp_less_Suc [OF length_filter_le]])
qed

text \<open>A login through a trusted proxy that appended the address of the client.\<close>

definition forged :: "string \<Rightarrow> string \<Rightarrow> string \<Rightarrow> string \<Rightarrow> limited_request" where
  "forged path proxy client ip =
     \<lparr>hr_method = ''POST'', hr_path = path, hr_host = Some proxy,
      hr_forwarded = Some (ip @ '', '' @ client), hr_real_ip = Some client\<rparr>"

lemma forged_key:
  assumes "is_ip proxy" and "trusted proxy" and "is_ip ip" and "CHR '','' \<notin> set ip" and "strip ip = ip"
  shows "key_of is_ip trusted (forged path proxy client ip) = bucket_key (clean_path path) ip"
  using assms split_on_append [of "CHR '',''" ip "'' '' @ client"]
  by (simp add: key_of_def forged_def get_client_ip_def)

lemma forged_served:
  assumes "map_of rate_limit_paths (clean_path path) = Some (m, w)"
    and "is_ip proxy" and "trusted proxy"
    and "distinct ips" and "\<forall>ip\<in>set ips. is_ip ip \<and> CHR '','' \<notin> set ip \<and> strip ip = ip"
    and "\<forall>ip\<in>set ips. st (bucket_key (clean_path path) ip) = no_bucket"
  shows "\<forall>g\<in>set (fst (serve_limited is_ip trusted (map (\<lambda>ip. (now, forged path proxy client ip)) ips) st)). admitted g"
  using assms(4-)
proof (induction ips arbitrary: st)
  case (Cons ip ips)
  have m: "0 < m" using map_of_SomeD [OF assms(1)] by (auto simp: rate_limit_paths_def)
  let ?key = "bucket_key (clean_path path) ip"
  have key: "key_of is_ip trusted (forged path proxy client ip) = ?key"
    using Cons.prems(2) by (intro forged_key assms(2,3)) auto
  obtain n b where "sliding_window now (microseconds w) m (st ?key) = ((True, n), b)"
    using Cons.prems(3) m by (simp add: sliding_window_def no_bucket_def live_scores_def Let_def)
  then have run: "limit_dispatch is_ip trusted RedisUp now (forged path proxy client ip) st
      = (Counted m (m - n) ((now + microseconds w) div 1000000), st(?key := b))"
    using limit_counted [of "forged path proxy client ip" m w now st is_ip trusted True n b] key assms(1)
    by (simp add: forged_def)
  have "\<forall>i\<in>set ips. (st(?key := b)) (bucket_key (clean_path path) i) = no_bucket"
    using Cons.prems(1,3) by (auto simp: bucket_key_def)
  then have "\<forall>g\<in>set (fst (serve_limited is_ip trusted (map (\<lambda>ip. (now, forged path proxy client ip)) ips) (st(?key := b)))). admitted g"
    by (rule Cons.IH [rotated 2]) (use Cons.prems(1,2) in simp_all)
  then show ?case by (auto simp: run admitted_def split: prod.splits)
qed simp

text \<open>
  Behind a trusted proxy that appends to \<^verbatim>\<open>X-Forwarded-For\<close> the limit is void:
  the limiter takes the first address, which the client writes, so that a client that writes
  another address each time is always admitted.
\<close>

theorem forwarded_for_spoof:
  assumes "map_of rate_limit_paths (clean_path path) = Some (m, w)"
    and "is_ip proxy" and "trusted proxy"
    and "distinct ips" and "\<forall>ip\<in>set ips. is_ip ip \<and> CHR '','' \<notin> set ip \<and> strip ip = ip"
  shows "\<forall>g\<in>set (fst (serve_limited is_ip trusted
           (map (\<lambda>ip. (now, forged path proxy client ip)) ips) no_buckets)). admitted g"
  by (rule forged_served [where is_ip = is_ip and trusted = trusted, OF assms]) (simp add: no_buckets_def)

theorem forwarded_for_spoof_witness:
  "\<not> (\<exists>g\<in>set (fst (serve_limited sample_is_ip sample_trusted
     (map (\<lambda>ip. (9, forged ''/auth/login'' ''10.0.0.1'' ''6.6.6.6'' ip)) [''1.1'', ''2.2'', ''3.3''])
     no_buckets)). \<not> admitted g)"
proof -
  have "map_of rate_limit_paths (clean_path ''/auth/login'') = Some (10, 60)" by code_simp
  moreover have "sample_is_ip ''10.0.0.1''" "sample_trusted ''10.0.0.1''" by code_simp+
  moreover have "distinct [''1.1'', ''2.2'', ''3.3'']" by simp
  moreover have "\<forall>ip\<in>set [''1.1'', ''2.2'', ''3.3'']. sample_is_ip ip \<and> CHR '','' \<notin> set ip \<and> strip ip = ip"
    by code_simp
  ultimately show ?thesis using forwarded_for_spoof by blast
qed

text \<open>
  A form post reaches its handler exactly if it carries, in the header or else in
  the form, the token of its own cookie, in the format of a token; a request without such a
  cookie never does, whatever it carries, and gets a cookie for the next time when it is not a
  form post. Safe methods, exempt paths and other content types are not checked.
\<close>

theorem csrf_exact:
  assumes "is_valid_token fresh_token" and "submitted_token rq \<noteq> fresh_token"
  shows "(csrf_dispatch fresh_token rq \<noteq> None \<longleftrightarrow>
      (requires_csrf rq \<longrightarrow> is_valid_token (fq_cookie rq) \<and> submitted_token rq = fq_cookie rq)) \<and>
    (\<forall>t. csrf_dispatch fresh_token rq = Some (Some t) \<longrightarrow>
       t = fresh_token \<and> \<not> is_valid_token (fq_cookie rq) \<and> \<not> requires_csrf rq)"
  using assms by (auto simp: csrf_dispatch_def ensure_token_def is_valid_token_def split: if_splits)

definition sample_token :: string where
  "sample_token = replicate 32 (CHR ''a'')"

definition sample_form :: "string \<Rightarrow> form_request" where
  "sample_form token = \<lparr>fq_method = ''POST'', fq_path = ''/admin/login'',
     fq_content_type = ''application/x-www-form-urlencoded; charset=utf-8'', fq_cookie = sample_token,
     fq_header_token = [], fq_form_token = token\<rparr>"

theorem csrf_exact_witness:
  "csrf_dispatch (replicate 32 (CHR ''b'')) (sample_form sample_token) \<noteq> None \<and>
   csrf_dispatch (replicate 32 (CHR ''b'')) (sample_form ''x'') = None"
proof -
  have "is_valid_token (replicate 32 (CHR ''b''))" by code_simp
  moreover have "submitted_token (sample_form sample_token) \<noteq> replicate 32 (CHR ''b'')"
    "submitted_token (sample_form ''x'') \<noteq> replicate 32 (CHR ''b'')" by code_simp+
  moreover have "is_valid_token (fq_cookie (sample_form sample_token))"
    "submitted_token (sample_form sample_token) = fq_cookie (sample_form sample_token)"
    "requires_csrf (sample_form ''x'')" "submitted_token (sample_form ''x'') \<noteq> fq_cookie (sample_form ''x'')"
    by code_simp+
  ultimately show ?thesis using csrf_exact by blast
qed

text \<open>
  The ingress lets a request in exactly if it carries a configured key, in
  \<^verbatim>\<open>X-API-Key\<close> or else as the password of basic authentication, and, where addresses are
  configured, comes from one of them; with no key configured nobody gets in. Keys are ASCII here.
\<close>

theorem ingress_exact:
  assumes "\<forall>k\<in>set (csv (ig_api_keys cfg)). ascii_text k"
    and "\<forall>c. py_or x_api_key (key_from_basic_auth b64 authorization) = Some c \<longrightarrow> ascii_text c"
  shows "require_ingress is_ip trusted b64 cfg rq x_api_key authorization = Inr () \<longleftrightarrow>
    (\<exists>c. py_or x_api_key (key_from_basic_auth b64 authorization) = Some c \<and>
       c \<in> set (csv (ig_api_keys cfg)) \<and>
       (csv (ig_allowed_ips cfg) = [] \<or> get_client_ip is_ip trusted rq \<in> set (csv (ig_allowed_ips cfg))))"
proof -
  have any: "allowed_api_key c ks = Inr (c \<in> set ks)" if "ascii_text c" "\<forall>k\<in>set ks. ascii_text k" for c ks
    using that by (induction ks) auto
  have "[] \<notin> set (csv (ig_api_keys cfg))" by (simp add: csv_def)
  then show ?thesis
    using any assms by (auto simp: require_ingress_def Let_def bind_res_def split: option.splits)
qed

theorem ingress_exact_witness:
  "require_ingress sample_is_ip sample_trusted (\<lambda>_. Some ''user:k2'')
     \<lparr>ig_api_keys = ''k1, k2'', ig_allowed_ips = []\<rparr> (direct_login ''2.2.2.2'') None (Some ''Basic eA'') = Inr ()"
proof -
  let ?cfg = "\<lparr>ig_api_keys = ''k1, k2'', ig_allowed_ips = []\<rparr>" and ?b64 = "\<lambda>_. Some ''user:k2''"
  have "\<forall>k\<in>set (csv (ig_api_keys ?cfg)). ascii_text k" by code_simp
  moreover have key: "py_or None (key_from_basic_auth ?b64 (Some ''Basic eA'')) = Some ''k2''" by code_simp
  moreover have "ascii_text ''k2''" "''k2'' \<in> set (csv (ig_api_keys ?cfg))" "csv (ig_allowed_ips ?cfg) = []"
    by code_simp+
  ultimately show ?thesis using ingress_exact [of ?cfg None ?b64 "Some ''Basic eA''"] by auto
qed

end
