(* ===== verification/CrudModel.thy ===== *)
theory CrudModel
  imports PyText
begin

text \<open>
  The services that keep rows, once for all their tables. The classes of
  \<^verbatim>\<open>app/services/billing.py\<close>, \<^verbatim>\<open>app/services/rbac.py\<close>, \<^verbatim>\<open>app/services/person.py\<close> and
  \<^verbatim>\<open>app/services/auth.py\<close> differ in their table, in the references a create or an update
  checks, in how a delete works and in the filters and orderings of their listings, and treat
  rows and payloads as mappings from names to values (\<^verbatim>\<open>Model(**payload.model_dump())\<close>,
  \<^verbatim>\<open>setattr(item, key, value)\<close>). So a service is a record of those differences, a row a mapping
  from column names to values, and each operation one definition over a service. The tables
  themselves, their schemas and their services are in \<open>AccessTables\<close> and \<open>BillingTables\<close>.
\<close>

section \<open>Values, columns and fields\<close>

datatype tname =
    Products | Prices | Customers | Subscriptions | SubscriptionItems | Invoices | InvoiceItems
  | PaymentMethods | PaymentIntents | UsageRecords | Coupons | Discounts | Entitlements
  | WebhookEvents
  | People | UserCredentials | MfaMethods | Sessions | ApiKeys
  | Roles | Permissions | RolePermissions | PersonRoles

definition all_tables :: "tname list" where
  "all_tables = [Products, Prices, Customers, Subscriptions, SubscriptionItems, Invoices,
     InvoiceItems, PaymentMethods, PaymentIntents, UsageRecords, Coupons, Discounts, Entitlements,
     WebhookEvents, People, UserCredentials, MfaMethods, Sessions, ApiKeys, Roles, Permissions,
     RolePermissions, PersonRoles]"

datatype bval =
  BNull | BText string | BInt int | BBool bool | BTime int | BJson string | BRef nat

type_synonym bvals = "string \<Rightarrow> bval"

text \<open>The columns of a table as the migration creates them.\<close>

datatype coltype =
    ColText "nat option" | ColInt | ColBool | ColTime | ColJson | ColEnum "string list"
  | ColRef tname

record db_column =
  dc_name :: string
  dc_type :: coltype
  dc_nullable :: bool

text \<open>A unique constraint: its columns, and for a partial index the flag it is restricted to.\<close>

type_synonym unique_key = "string list \<times> string option"

record db_table =
  dt_columns :: "db_column list"
  dt_unique :: "unique_key list"

text \<open>The default of a mapped column in the ORM: a value or the current time.\<close>

datatype col_default = DefaultValue bval | DefaultNow

text \<open>The fields of a pydantic schema: what they accept, whether they accept null, their default
  (none for a required field) and their constraints.\<close>

datatype field_kind =
  FText | FInt | FBool | FTime | FDict | FUuid | FEmail | FLiteral "string list"

record field_spec =
  fs_name :: string
  fs_kind :: field_kind
  fs_null :: bool
  fs_default :: "bval option"
  fs_min_len :: "nat option"
  fs_max_len :: "nat option"
  fs_ge :: "int option"
  fs_le :: "int option"

definition plain_field :: "string \<Rightarrow> field_kind \<Rightarrow> bool \<Rightarrow> bval option \<Rightarrow> field_spec" where
  "plain_field n k nu d = \<lparr>fs_name = n, fs_kind = k, fs_null = nu, fs_default = d,
     fs_min_len = None, fs_max_len = None, fs_ge = None, fs_le = None\<rparr>"

section \<open>Services\<close>

datatype delete_kind = NoDelete | SoftDelete "(string \<times> col_default) list" | HardDelete

datatype bfilter =
    FilterRef string | FilterEnum string "string list" | FilterText string | FilterBool string
  | FilterLike string | FilterActive string

text \<open>\<open>req_field\<close> of the payload must name a row of \<open>req_table\<close>. A null is skipped, is the text
  \<^verbatim>\<open>None\<close>, which is no UUID, or is looked up and not found.\<close>

datatype null_reference = NullSkipped | NullNoUuid | NullNotFound

record requirement =
  req_field :: string
  req_table :: tname
  req_message :: string
  req_null :: null_reference

record service =
  sv_table :: tname
  sv_missing :: string
  sv_defaults :: "(string \<times> col_default) list"
  sv_create :: "field_spec list"
  sv_update :: "field_spec list option"
  sv_read :: "field_spec list"
  sv_requires :: "requirement list"
  sv_update_requires :: "requirement list"
  sv_delete :: delete_kind
  sv_filters :: "bfilter list"
  sv_orders :: "string list"
  sv_counts :: bool

section \<open>The state\<close>

record trow =
  br_id :: nat
  br_vals :: bvals
  br_created :: int
  br_updated :: int

record app_tables =
  bl_rows :: "tname \<Rightarrow> trow list"
  bl_next :: nat
  bl_clock :: int

text \<open>The identifiers of a path or a query are texts; \<open>None\<close> is a text that is no UUID.\<close>

type_synonym uuid_text = "nat option"

section \<open>What the database accepts\<close>

definition fits_column :: "coltype \<Rightarrow> bval \<Rightarrow> bool" where
  "fits_column t v = (case (t, v) of
      (ColText None, BText s) \<Rightarrow> True
    | (ColText (Some n), BText s) \<Rightarrow> length s \<le> n
    | (ColInt, BInt i) \<Rightarrow> - (2 ^ 31) \<le> i \<and> i < 2 ^ 31
    | (ColBool, BBool b) \<Rightarrow> True
    | (ColTime, BTime i) \<Rightarrow> True
    | (ColJson, BJson s) \<Rightarrow> True
    | (ColEnum vs, BText s) \<Rightarrow> s \<in> set vs
    | (ColRef t, BRef i) \<Rightarrow> True
    | _ \<Rightarrow> False)"

definition column_data_ok :: "bvals \<Rightarrow> db_column \<Rightarrow> bool" where
  "column_data_ok vals c \<longleftrightarrow> vals (dc_name c) = BNull \<or> fits_column (dc_type c) (vals (dc_name c))"

definition column_null_ok :: "bvals \<Rightarrow> db_column \<Rightarrow> bool" where
  "column_null_ok vals c \<longleftrightarrow> dc_nullable c \<or> vals (dc_name c) \<noteq> BNull"

definition has_row :: "app_tables \<Rightarrow> tname \<Rightarrow> nat \<Rightarrow> bool" where
  "has_row st t i = list_ex (\<lambda>r. br_id r = i) (bl_rows st t)"

definition reference_ok :: "app_tables \<Rightarrow> bvals \<Rightarrow> db_column \<Rightarrow> bool" where
  "reference_ok st vals c = (case (dc_type c, vals (dc_name c)) of
      (ColRef t, BRef i) \<Rightarrow> has_row st t i | _ \<Rightarrow> True)"

text \<open>Two rows clash on a unique constraint when they agree on its columns, none of them null, and
  both have its flag.\<close>

definition clash :: "unique_key \<Rightarrow> bvals \<Rightarrow> bvals \<Rightarrow> bool" where
  "clash u v w \<longleftrightarrow> list_all (\<lambda>c. v c \<noteq> BNull \<and> v c = w c) (fst u) \<and>
     (case snd u of None \<Rightarrow> True | Some f \<Rightarrow> v f = BBool True \<and> w f = BBool True)"

definition unique_ok :: "trow list \<Rightarrow> nat \<Rightarrow> bvals \<Rightarrow> unique_key \<Rightarrow> bool" where
  "unique_ok rows i vals u = list_all (\<lambda>r. br_id r = i \<or> \<not> clash u vals (br_vals r)) rows"

text \<open>A value that its column does not take: too long, too big, or outside an enumeration (there it
  is SQLAlchemy that refuses).\<close>

definition check_row :: "db_table \<Rightarrow> app_tables \<Rightarrow> tname \<Rightarrow> nat \<Rightarrow> bvals \<Rightarrow> unit res" where
  "check_row d st t i vals =
     (if \<not> list_all (column_data_ok vals) (dt_columns d) then Inl (Raised ''DataError'')
      else if \<not> list_all (column_null_ok vals) (dt_columns d) then Inl IntegrityErr
      else if \<not> list_all (unique_ok (bl_rows st t) i vals) (dt_unique d) then Inl IntegrityErr
      else if \<not> list_all (reference_ok st vals) (dt_columns d) then Inl IntegrityErr
      else Inr ())"

section \<open>Validation of payloads\<close>

definition kind_ok :: "field_kind \<Rightarrow> bval \<Rightarrow> bool" where
  "kind_ok k v = (case (k, v) of
      (FText, BText s) \<Rightarrow> True | (FInt, BInt i) \<Rightarrow> True | (FBool, BBool b) \<Rightarrow> True
    | (FTime, BTime i) \<Rightarrow> True | (FDict, BJson s) \<Rightarrow> True | (FUuid, BRef i) \<Rightarrow> True
    | (FEmail, BText s) \<Rightarrow> True
    | (FLiteral vs, BText s) \<Rightarrow> s \<in> set vs | _ \<Rightarrow> False)"

definition bound_ok :: "field_spec \<Rightarrow> bval \<Rightarrow> bool" where
  "bound_ok f v = (case v of
      BText s \<Rightarrow> (case fs_min_len f of None \<Rightarrow> True | Some n \<Rightarrow> n \<le> length s) \<and>
                 (case fs_max_len f of None \<Rightarrow> True | Some n \<Rightarrow> length s \<le> n)
    | BInt i \<Rightarrow> (case fs_ge f of None \<Rightarrow> True | Some n \<Rightarrow> n \<le> i) \<and>
                (case fs_le f of None \<Rightarrow> True | Some n \<Rightarrow> i \<le> n)
    | _ \<Rightarrow> True)"

definition value_ok :: "field_spec \<Rightarrow> bval \<Rightarrow> bool" where
  "value_ok f v = (if v = BNull then fs_null f else kind_ok (fs_kind f) v \<and> bound_ok f v)"

text \<open>A JSON body: the keys it has, with their values. Keys that are no field are ignored. Values
  are as pydantic reads them for their field: a UUID, an instant, or the text of an address that
  \<^verbatim>\<open>EmailStr\<close> accepts; what it cannot read is a value of another kind.\<close>

type_synonym body = "string \<Rightarrow> bval option"

definition body_ok :: "field_spec list \<Rightarrow> body \<Rightarrow> bool" where
  "body_ok fs b = list_all (\<lambda>f. case b (fs_name f) of
      None \<Rightarrow> fs_default f \<noteq> None | Some v \<Rightarrow> value_ok f v) fs"

text \<open>\<^verbatim>\<open>payload.model_dump()\<close> and \<^verbatim>\<open>payload.model_dump(exclude_unset=True)\<close>\<close>

definition field_named :: "field_spec list \<Rightarrow> string \<Rightarrow> field_spec option" where
  "field_named fs k = first_where (\<lambda>f. fs_name f = k) fs"

definition dump :: "field_spec list \<Rightarrow> body \<Rightarrow> bvals" where
  "dump fs b k = (case field_named fs k of None \<Rightarrow> BNull
     | Some f \<Rightarrow> (case b k of Some v \<Rightarrow> v
                 | None \<Rightarrow> (case fs_default f of None \<Rightarrow> BNull | Some v \<Rightarrow> v)))"

definition dump_set :: "field_spec list \<Rightarrow> body \<Rightarrow> body" where
  "dump_set fs b k = (if field_named fs k = None then None else b k)"

text \<open>The validation of a response against the read schema.\<close>

definition read_ok :: "field_spec list \<Rightarrow> bvals \<Rightarrow> bool" where
  "read_ok fs vals = list_all (\<lambda>f. value_ok f (vals (fs_name f))) fs"

section \<open>The operations of a service\<close>

text \<open>\<open>_get\<close>: a text that is no UUID raises a \<^verbatim>\<open>ValueError\<close>.\<close>

definition svc_get :: "service \<Rightarrow> uuid_text \<Rightarrow> (app_tables, trow) act" where
  "svc_get svc uid st = (case uid of None \<Rightarrow> (Inl ValueErr, st)
     | Some i \<Rightarrow> (case first_where (\<lambda>r. br_id r = i) (bl_rows st (sv_table svc)) of
          None \<Rightarrow> (Inl (NotFound (sv_missing svc)), st) | Some r \<Rightarrow> (Inr r, st)))"

definition require_exists :: "app_tables \<Rightarrow> bvals \<Rightarrow> requirement \<Rightarrow> unit res" where
  "require_exists st vals q = (case vals (req_field q) of
      BRef i \<Rightarrow> if has_row st (req_table q) i then Inr () else Inl (NotFound (req_message q))
    | _ \<Rightarrow> (case req_null q of NullSkipped \<Rightarrow> Inr () | NullNoUuid \<Rightarrow> Inl ValueErr
             | NullNotFound \<Rightarrow> Inl (NotFound (req_message q))))"

text \<open>The checks of an update: of the fields that are set.\<close>

definition require_set :: "app_tables \<Rightarrow> body \<Rightarrow> requirement \<Rightarrow> unit res" where
  "require_set st b q = (case b (req_field q) of None \<Rightarrow> Inr ()
     | Some v \<Rightarrow> require_exists st (\<lambda>_. v) q)"

text \<open>What an insert stores for an attribute: its value, or the default of its column if that is
  null.\<close>

definition insert_vals :: "(string \<times> col_default) list \<Rightarrow> int \<Rightarrow> bvals \<Rightarrow> bvals" where
  "insert_vals ds now vals k =
     (if vals k \<noteq> BNull then vals k
      else (case map_of ds k of None \<Rightarrow> BNull
            | Some (DefaultValue v) \<Rightarrow> v | Some DefaultNow \<Rightarrow> BTime now))"

definition store_rows :: "tname \<Rightarrow> trow list \<Rightarrow> app_tables \<Rightarrow> app_tables" where
  "store_rows t rows st = st\<lparr>bl_rows := (bl_rows st)(t := rows), bl_clock := bl_clock st + 1\<rparr>"

definition insert_row :: "(tname \<Rightarrow> db_table) \<Rightarrow> tname \<Rightarrow> (string \<times> col_default) list \<Rightarrow> bvals \<Rightarrow>
    (app_tables, trow) act" where
  "insert_row db t ds given st =
     (let vals = insert_vals ds (bl_clock st) given in
      case check_row (db t) st t (bl_next st) vals of
        Inl e \<Rightarrow> (Inl e, st)
      | Inr _ \<Rightarrow>
          let r = \<lparr>br_id = bl_next st, br_vals = vals, br_created = bl_clock st, br_updated = bl_clock st\<rparr>
          in (Inr r, (store_rows t (bl_rows st t @ [r]) st)\<lparr>bl_next := Suc (bl_next st)\<rparr>))"

definition svc_create :: "(tname \<Rightarrow> db_table) \<Rightarrow> service \<Rightarrow> body \<Rightarrow> (app_tables, trow) act" where
  "svc_create db svc b st =
     (let given = dump (sv_create svc) b in
      case check_each (require_exists st given) (sv_requires svc) of
        Inl e \<Rightarrow> (Inl e, st)
      | Inr _ \<Rightarrow> insert_row db (sv_table svc) (sv_defaults svc) given st)"

text \<open>\<open>setattr\<close> for every key that is set, then the flush, which writes only what changed.\<close>

definition assign :: "body \<Rightarrow> bvals \<Rightarrow> bvals" where
  "assign b vals k = (case b k of None \<Rightarrow> vals k | Some v \<Rightarrow> v)"

definition same_columns :: "db_table \<Rightarrow> bvals \<Rightarrow> bvals \<Rightarrow> bool" where
  "same_columns d v w = list_all (\<lambda>c. v (dc_name c) = w (dc_name c)) (dt_columns d)"

definition write_row :: "(tname \<Rightarrow> db_table) \<Rightarrow> tname \<Rightarrow> body \<Rightarrow> trow \<Rightarrow> (app_tables, trow) act" where
  "write_row db t b r st =
     (let vals = assign b (br_vals r) in
      if same_columns (db t) vals (br_vals r) then (Inr r, st)
      else (case check_row (db t) st t (br_id r) vals of
              Inl e \<Rightarrow> (Inl e, st)
            | Inr _ \<Rightarrow>
                let r' = r\<lparr>br_vals := vals, br_updated := bl_clock st\<rparr>
                in (Inr r', store_rows t (update_where (\<lambda>q. br_id q = br_id r) (\<lambda>_. r') (bl_rows st t)) st)))"

definition svc_update :: "(tname \<Rightarrow> db_table) \<Rightarrow> service \<Rightarrow> field_spec list \<Rightarrow> uuid_text \<Rightarrow> body \<Rightarrow>
    (app_tables, trow) act" where
  "svc_update db svc fs uid b = bind_act (svc_get svc uid) (\<lambda>r st.
     case check_each (require_set st (dump_set fs b)) (sv_update_requires svc) of
       Inl e \<Rightarrow> (Inl e, st)
     | Inr _ \<Rightarrow> write_row db (sv_table svc) (dump_set fs b) r st)"

definition referenced :: "(tname \<Rightarrow> db_table) \<Rightarrow> app_tables \<Rightarrow> tname \<Rightarrow> nat \<Rightarrow> bool" where
  "referenced db st t i = list_ex (\<lambda>t'. list_ex (\<lambda>r. list_ex (\<lambda>c.
     dc_type c = ColRef t \<and> br_vals r (dc_name c) = BRef i) (dt_columns (db t'))) (bl_rows st t')) all_tables"

definition remove_row :: "(tname \<Rightarrow> db_table) \<Rightarrow> tname \<Rightarrow> trow \<Rightarrow> (app_tables, unit) act" where
  "remove_row db t r st =
     (if referenced db st t (br_id r) then (Inl IntegrityErr, st)
      else (Inr (), store_rows t (delete_where (\<lambda>q. br_id q = br_id r) (bl_rows st t)) st))"

text \<open>A soft delete writes fixed values or the time.\<close>

definition marks :: "(string \<times> col_default) list \<Rightarrow> int \<Rightarrow> body" where
  "marks cs now k = (case map_of cs k of None \<Rightarrow> None
     | Some (DefaultValue v) \<Rightarrow> Some v | Some DefaultNow \<Rightarrow> Some (BTime now))"

definition svc_delete :: "(tname \<Rightarrow> db_table) \<Rightarrow> service \<Rightarrow> uuid_text \<Rightarrow> (app_tables, unit) act" where
  "svc_delete db svc uid = (case sv_delete svc of
      NoDelete \<Rightarrow> fail (HttpError 405 ''Method Not Allowed'')
    | SoftDelete cs \<Rightarrow> bind_act (svc_get svc uid) (\<lambda>r st.
        then_act (write_row db (sv_table svc) (marks cs (bl_clock st)) r) (ret ()) st)
    | HardDelete \<Rightarrow> bind_act (svc_get svc uid) (remove_row db (sv_table svc)))"

section \<open>Listings\<close>

datatype fparam = PText string | PBool bool | PId uuid_text

record bquery =
  bq_params :: "string \<Rightarrow> fparam option"
  bq_order_by :: string
  bq_order_dir :: string
  bq_limit :: int
  bq_offset :: int

text \<open>\<^verbatim>\<open>LIKE\<close>: \<open>%\<close> is any text, \<open>_\<close> any character, a backslash takes the next character literally.\<close>

fun like :: "string \<Rightarrow> string \<Rightarrow> bool" where
  "like [] s = (s = [])"
| "like (p # ps) s =
     (if p = CHR ''%'' then like ps s \<or> (case s of [] \<Rightarrow> False | c # cs \<Rightarrow> like (p # ps) cs)
      else (case s of [] \<Rightarrow> False
            | c # cs \<Rightarrow>
                if p = CHR ''_'' then like ps cs
                else if p = CHR 0x5C
                then (case ps of [] \<Rightarrow> False | q # qs \<Rightarrow> q = c \<and> like qs cs)
                else p = c \<and> like ps cs))"

text \<open>One filter: a parameter that is absent or empty does not filter; a text that is no UUID
  raises, one that is no value of the enumeration is a bad request.\<close>

definition apply_filter :: "(string \<Rightarrow> fparam option) \<Rightarrow> bfilter \<Rightarrow> (bvals \<Rightarrow> bool) res" where
  "apply_filter ps f = (case f of
      FilterRef c \<Rightarrow> (case ps c of
          Some (PId None) \<Rightarrow> Inl ValueErr
        | Some (PId (Some i)) \<Rightarrow> Inr (\<lambda>v. v c = BRef i) | _ \<Rightarrow> Inr (\<lambda>_. True))
    | FilterEnum c vs \<Rightarrow> (case ps c of
          Some (PText s) \<Rightarrow> if s = [] then Inr (\<lambda>_. True)
             else if s \<in> set vs then Inr (\<lambda>v. v c = BText s) else Inl (BadRequest (''Invalid '' @ c))
        | _ \<Rightarrow> Inr (\<lambda>_. True))
    | FilterText c \<Rightarrow> (case ps c of
          Some (PText s) \<Rightarrow> if s = [] then Inr (\<lambda>_. True) else Inr (\<lambda>v. v c = BText s)
        | _ \<Rightarrow> Inr (\<lambda>_. True))
    | FilterActive c \<Rightarrow> (case ps c of Some (PBool b) \<Rightarrow> Inr (\<lambda>v. v c = BBool b)
        | _ \<Rightarrow> Inr (\<lambda>v. v c = BBool True))
    | FilterBool c \<Rightarrow> (case ps c of Some (PBool b) \<Rightarrow> Inr (\<lambda>v. v c = BBool b) | _ \<Rightarrow> Inr (\<lambda>_. True))
    | FilterLike c \<Rightarrow> (case ps c of
          Some (PText s) \<Rightarrow> if s = [] then Inr (\<lambda>_. True)
             else Inr (\<lambda>v. case v c of
                 BText w \<Rightarrow> like (lower_str (''%'' @ s @ ''%'')) (lower_str w) | _ \<Rightarrow> False)
        | _ \<Rightarrow> Inr (\<lambda>_. True)))"

fun apply_filters :: "(string \<Rightarrow> fparam option) \<Rightarrow> bfilter list \<Rightarrow> (bvals \<Rightarrow> bool) res" where
  "apply_filters ps [] = Inr (\<lambda>_. True)"
| "apply_filters ps (f # fs) = bind_res (apply_filter ps f) (\<lambda>p.
     bind_res (apply_filters ps fs) (\<lambda>q. Inr (\<lambda>v. p v \<and> q v)))"

text \<open>The ordering columns hold times, numbers, flags, texts or values of an enumeration, which are
  ordered as declared. Nulls come last, and first in a descending order.\<close>

fun position :: "'a \<Rightarrow> 'a list \<Rightarrow> int" where
  "position x [] = 0"
| "position x (y # ys) = (if x = y then 0 else 1 + position x ys)"

definition enumeration :: "db_table \<Rightarrow> string \<Rightarrow> string list option" where
  "enumeration d c = (case first_where (\<lambda>k. dc_name k = c) (dt_columns d) of
      None \<Rightarrow> None | Some k \<Rightarrow> (case dc_type k of ColEnum vs \<Rightarrow> Some vs | _ \<Rightarrow> None))"

definition order_null :: "string \<Rightarrow> trow \<Rightarrow> nat" where
  "order_null c r = (if c \<noteq> ''created_at'' \<and> br_vals r c = BNull then 1 else 0)"

definition order_number :: "db_table \<Rightarrow> string \<Rightarrow> trow \<Rightarrow> int" where
  "order_number d c r = (if c = ''created_at'' then br_created r
     else (case br_vals r c of BInt i \<Rightarrow> i | BTime i \<Rightarrow> i | BBool b \<Rightarrow> if b then 1 else 0
           | BRef i \<Rightarrow> int i
           | BText s \<Rightarrow> (case enumeration d c of None \<Rightarrow> 0 | Some vs \<Rightarrow> position s vs) | _ \<Rightarrow> 0))"

definition order_text :: "string \<Rightarrow> trow \<Rightarrow> string" where
  "order_text c r = (if c = ''created_at'' then []
     else (case br_vals r c of BText s \<Rightarrow> s | _ \<Rightarrow> []))"

definition apply_ordering :: "db_table \<Rightarrow> string \<Rightarrow> string \<Rightarrow> string list \<Rightarrow> trow list \<Rightarrow> trow list res" where
  "apply_ordering d order_by order_dir allowed rows =
     (if order_by \<notin> set allowed
      then Inl (BadRequest (''Invalid order_by. Allowed: '' @ join '', '' (sort allowed)))
      else (let up = sort_key (order_null order_by) (sort_key (order_number d order_by)
                       (sort_key (order_text order_by) rows))
            in Inr (if order_dir = ''desc'' then rev up else up)))"

definition apply_pagination :: "int \<Rightarrow> int \<Rightarrow> 'a list \<Rightarrow> 'a list" where
  "apply_pagination limit offset rows = take (nat limit) (drop (nat offset) rows)"

text \<open>\<open>list_response\<close>: the total is counted by \<open>_list\<close> of the billing; where \<open>list\<close> returns only
  the rows, it is their number.\<close>

definition svc_list :: "db_table \<Rightarrow> service \<Rightarrow> bquery \<Rightarrow> app_tables \<Rightarrow> (trow list \<times> nat) res" where
  "svc_list d svc q st =
     bind_res (apply_filters (bq_params q) (sv_filters svc)) (\<lambda>p.
       let rows = filter (\<lambda>r. p (br_vals r)) (bl_rows st (sv_table svc)) in
       bind_res (apply_ordering d (bq_order_by q) (bq_order_dir q) (sv_orders svc) rows) (\<lambda>ordered.
         let page = apply_pagination (bq_limit q) (bq_offset q) ordered
         in Inr (page, if sv_counts svc then length rows else length page)))"

section \<open>The API\<close>

text \<open>\<^verbatim>\<open>Query(ge=1, le=200)\<close>, \<^verbatim>\<open>Query(ge=0)\<close> and \<^verbatim>\<open>pattern="^(asc|desc)$"\<close>\<close>

definition query_ok :: "bquery \<Rightarrow> bool" where
  "query_ok q \<longleftrightarrow> bq_order_dir q \<in> {''asc'', ''desc''} \<and> 1 \<le> bq_limit q \<and> bq_limit q \<le> 200 \<and>
     0 \<le> bq_offset q"

datatype brequest =
    BCreate body | BGet uuid_text | BUpdate uuid_text body | BDelete uuid_text | BList bquery

datatype breply = Item trow | Page "trow list" nat | Done

text \<open>The reply is validated against the read schema after the commit: a row that does not pass is
  an error of the server, and stays.\<close>

definition respond :: "service \<Rightarrow> trow \<Rightarrow> breply res" where
  "respond svc r = (if read_ok (sv_read svc) (br_vals r) then Inr (Item r)
     else Inl (Raised ''ResponseValidationError''))"

definition unprocessable :: err where
  "unprocessable = HttpError 422 ''validation error''"

definition serve_crud :: "(tname \<Rightarrow> db_table) \<Rightarrow> service \<Rightarrow> brequest \<Rightarrow> (app_tables, breply) act" where
  "serve_crud db svc rq st = (case rq of
      BCreate b \<Rightarrow>
        if \<not> body_ok (sv_create svc) b then (Inl unprocessable, st)
        else bind_act (svc_create db svc b) (\<lambda>r. lift_res (respond svc r)) st
    | BGet uid \<Rightarrow> bind_act (svc_get svc uid) (\<lambda>r. lift_res (respond svc r)) st
    | BUpdate uid b \<Rightarrow>
        (case sv_update svc of None \<Rightarrow> (Inl (HttpError 405 ''Method Not Allowed''), st)
         | Some fs \<Rightarrow>
            if \<not> body_ok fs b then (Inl unprocessable, st)
            else bind_act (svc_update db svc fs uid b) (\<lambda>r. lift_res (respond svc r)) st)
    | BDelete uid \<Rightarrow> bind_act (svc_delete db svc uid) (\<lambda>_. ret Done) st
    | BList q \<Rightarrow>
        if \<not> query_ok q then (Inl unprocessable, st)
        else (bind_res (svc_list (db (sv_table svc)) svc q st) (\<lambda>(rows, total).
                if list_all (\<lambda>r. read_ok (sv_read svc) (br_vals r)) rows then Inr (Page rows total)
                else Inl (Raised ''ResponseValidationError'')), st))"

end
