(* ===== verification/CrudApi.thy ===== *)
theory CrudApi
  imports CrudModel
begin

text \<open>
  Routers over services: for each resource its path, its service, its routes with their status
  codes, and how its listing hands the query parameters to the service, by position. A router is
  mounted twice (\<^verbatim>\<open>_include_api_router\<close> of \<^verbatim>\<open>app/main.py\<close>) behind a guard, and errors become
  replies in \<^verbatim>\<open>app/errors.py\<close>. The parsing of a UUID is a parameter.
\<close>

section \<open>Errors as replies\<close>

text \<open>\<^verbatim>\<open>register_error_handlers\<close>: the status, the code and the message of the envelope.\<close>

definition error_reply :: "err \<Rightarrow> nat \<times> string \<times> string" where
  "error_reply e = (case e of
      BadRequest m \<Rightarrow> (400, ''bad_request'', m)
    | Conflict m \<Rightarrow> (409, ''conflict'', m)
    | NotFound m \<Rightarrow> (404, ''not_found'', m)
    | RateLimited m \<Rightarrow> (429, ''rate_limited'', m)
    | Unavailable m \<Rightarrow> (503, ''service_unavailable'', m)
    | HttpError n m \<Rightarrow> if e = unprocessable then (422, ''validation_error'', ''Validation error'')
        else (n, ''http_'' @ nat_str n, m)
    | _ \<Rightarrow> (500, ''internal_error'', ''Internal server error''))"

section \<open>Resources\<close>

datatype bop = OpCreate | OpGet | OpList | OpUpdate | OpDelete

text \<open>A route: its method, whether its path ends in an identifier, its operation and its status.\<close>

record resource =
  rs_path :: "string list"
  rs_service :: service
  rs_routes :: "(string \<times> bool \<times> bop \<times> nat) list"
  rs_args :: "string list"
  rs_params :: "string list"
  rs_order :: "string \<times> string"

section \<open>Requests\<close>

record bhttp =
  bh_method :: string
  bh_path :: string
  bh_body :: body
  bh_query :: "string \<Rightarrow> fparam option"
  bh_order_by :: "string option"
  bh_order_dir :: "string option"
  bh_limit :: "int option"
  bh_offset :: "int option"

text \<open>The defaults of the listing handlers, and the arguments in the places of the parameters.\<close>

definition bound_params :: "resource \<Rightarrow> (string \<Rightarrow> fparam option) \<Rightarrow> string \<Rightarrow> fparam option" where
  "bound_params rs ps k = (case map_of (zip (rs_params rs) (rs_args rs)) k of None \<Rightarrow> None | Some a \<Rightarrow> ps a)"

definition list_query :: "resource \<Rightarrow> bhttp \<Rightarrow> bquery" where
  "list_query rs h = \<lparr>bq_params = bound_params rs (bh_query h),
     bq_order_by = (case bh_order_by h of None \<Rightarrow> fst (rs_order rs) | Some s \<Rightarrow> s),
     bq_order_dir = (case bh_order_dir h of None \<Rightarrow> snd (rs_order rs) | Some s \<Rightarrow> s),
     bq_limit = (case bh_limit h of None \<Rightarrow> 50 | Some i \<Rightarrow> i),
     bq_offset = (case bh_offset h of None \<Rightarrow> 0 | Some i \<Rightarrow> i)\<rparr>"

definition request_of :: "resource \<Rightarrow> bop \<Rightarrow> uuid_text \<Rightarrow> bhttp \<Rightarrow> brequest" where
  "request_of rs op uid h = (case op of
      OpCreate \<Rightarrow> BCreate (bh_body h) | OpGet \<Rightarrow> BGet uid | OpList \<Rightarrow> BList (list_query rs h)
    | OpUpdate \<Rightarrow> BUpdate uid (bh_body h) | OpDelete \<Rightarrow> BDelete uid)"

text \<open>\<^verbatim>\<open>/products\<close> or \<^verbatim>\<open>/products/<id>\<close>, at the root or below \<^verbatim>\<open>/api/v1\<close>: the resource and the text of
  the identifier.\<close>

definition unmounted :: "string \<Rightarrow> string list" where
  "unmounted path = (case split_on (CHR ''/'') path of
      [] # ''api'' # ''v1'' # rest \<Rightarrow> rest | [] # rest \<Rightarrow> rest | _ \<Rightarrow> [])"

definition resource_at :: "resource list \<Rightarrow> string \<Rightarrow> (resource \<times> string option) option" where
  "resource_at rss path =
     (let segs = unmounted path in
      case first_where (\<lambda>rs. rs_path rs = segs) rss of
        Some rs \<Rightarrow> Some (rs, None)
      | None \<Rightarrow>
          if segs = [] \<or> last segs = [] then None
          else map_option (\<lambda>rs. (rs, Some (last segs))) (first_where (\<lambda>rs. rs_path rs = butlast segs) rss))"

text \<open>The route of a request: no path is 404, a path without the method 405.\<close>

definition find_route :: "resource \<Rightarrow> bool \<Rightarrow> string \<Rightarrow> (bop \<times> nat) res" where
  "find_route rs item meth = (case first_where (\<lambda>(m, i, op, c). m = meth \<and> i = item) (rs_routes rs) of
      Some (_, _, op, c) \<Rightarrow> Inr (op, c) | None \<Rightarrow> Inl (HttpError 405 ''Method Not Allowed''))"

text \<open>A path with slashes at its end that is a path without them is redirected.\<close>

definition no_resource :: "resource list \<Rightarrow> string \<Rightarrow> nat" where
  "no_resource rss path =
     (let trimmed = rev (dropWhile (\<lambda>c. c = CHR ''/'') (rev path)) in
      if trimmed \<noteq> path \<and> resource_at rss trimmed \<noteq> None then 307 else 404)"

definition item_id :: "(string \<Rightarrow> uuid_text) \<Rightarrow> string option \<Rightarrow> uuid_text" where
  "item_id parse_uuid i = (case i of None \<Rightarrow> None | Some t \<Rightarrow> parse_uuid t)"

text \<open>The guard of the mount is what \<^verbatim>\<open>require_role("admin")\<close> answers; the requests of a resource
  are served by \<open>serve\<close>.\<close>

definition serve_routes :: "resource list \<Rightarrow> (service \<Rightarrow> brequest \<Rightarrow> ('s, breply) act) \<Rightarrow>
    (string \<Rightarrow> uuid_text) \<Rightarrow> unit res \<Rightarrow> bhttp \<Rightarrow> 's \<Rightarrow> (nat \<times> breply option) \<times> 's" where
  "serve_routes rss serve parse_uuid guard h st =
     (case resource_at rss (bh_path h) of
        None \<Rightarrow> ((no_resource rss (bh_path h), None), st)
      | Some (rs, i) \<Rightarrow>
          (case find_route rs (i \<noteq> None) (bh_method h) of
             Inl e \<Rightarrow> ((fst (error_reply e), None), st)
           | Inr (op, code) \<Rightarrow>
              (case guard of
                 Inl e \<Rightarrow> ((fst (error_reply e), None), st)
               | Inr _ \<Rightarrow>
                  (case serve (rs_service rs) (request_of rs op (item_id parse_uuid i) h) st of
                     (Inl e, st') \<Rightarrow> ((fst (error_reply e), None), st')
                   | (Inr rep, st') \<Rightarrow> ((code, Some rep), st')))))"

text \<open>A request is answered without content and leaves the state, or passed the guard and is served.\<close>

lemma resource_at_in: "resource_at rss path = Some (rs, i) \<Longrightarrow> rs \<in> set rss"
  by (auto simp: resource_at_def Let_def split: option.splits if_splits dest: first_where_Some)

lemma serve_routes_cases:
  obtains (nothing) code where "serve_routes rss serve parse_uuid guard h st = ((code, None), st)"
  | (served) rs rq code rep where "rs \<in> set rss" "guard = Inr ()"
      "serve_routes rss serve parse_uuid guard h st = ((code, rep), snd (serve (rs_service rs) rq st))"
proof (cases "resource_at rss (bh_path h)")
  case None
  then have "serve_routes rss serve parse_uuid guard h st = ((no_resource rss (bh_path h), None), st)"
    by (simp add: serve_routes_def)
  then show ?thesis by (rule nothing)
next
  case (Some x)
  obtain rs i where at: "resource_at rss (bh_path h) = Some (rs, i)" using Some by (cases x) simp
  show ?thesis
  proof (cases "find_route rs (i \<noteq> None) (bh_method h)")
    case (Inl e)
    then have "serve_routes rss serve parse_uuid guard h st = ((fst (error_reply e), None), st)"
      using at by (simp add: serve_routes_def)
    then show ?thesis by (rule nothing)
  next
    case (Inr r)
    obtain op code where r: "r = (op, code)" by (cases r)
    show ?thesis
    proof (cases guard)
      case (Inl e)
      then have "serve_routes rss serve parse_uuid guard h st = ((fst (error_reply e), None), st)"
        using at Inr r by (simp add: serve_routes_def)
      then show ?thesis by (rule nothing)
    next
      case g: (Inr u)
      let ?rq = "request_of rs op (item_id parse_uuid i) h"
      obtain res st' where run: "serve (rs_service rs) ?rq st = (res, st')" by force
      show ?thesis
        by (rule served [of rs "case res of Inl e \<Rightarrow> fst (error_reply e) | Inr _ \<Rightarrow> code"
              "case res of Inl e \<Rightarrow> None | Inr rep \<Rightarrow> Some rep" ?rq])
          (use resource_at_in [OF at] at Inr r g run in \<open>auto simp: serve_routes_def split: sum.splits\<close>)
    qed
  qed
qed

end
