(* ===== verification/CrudProofs.thy ===== *)
theory CrudProofs
  imports CrudModel
begin

text \<open>
  The operations of a service on one row, and the invariant of the tables: keys are
  unique and every row passes the checks of the database again, whatever the tables and the
  service. The locale \<open>row_store\<close> is what the operations rely on in a table; it is interpreted
  on the lists of rows.
\<close>

section \<open>A table as a store\<close>

text \<open>The interface: a table with unique keys, seen as a map from keys to rows.\<close>

locale row_store =
  fixes find :: "'t \<Rightarrow> nat \<Rightarrow> 'r option"
    and key :: "'r \<Rightarrow> nat"
    and add :: "'r \<Rightarrow> 't \<Rightarrow> 't"
    and put :: "'r \<Rightarrow> 't \<Rightarrow> 't"
    and del :: "nat \<Rightarrow> 't \<Rightarrow> 't"
    and sound :: "nat \<Rightarrow> 't \<Rightarrow> bool"
  assumes find_key: "find t i = Some r \<Longrightarrow> key r = i"
    and sound_bound: "sound n t \<Longrightarrow> find t i = Some r \<Longrightarrow> i < n"
    and find_add: "sound n t \<Longrightarrow> key r = n \<Longrightarrow> find (add r t) = (find t)(n \<mapsto> r)"
    and sound_add: "sound n t \<Longrightarrow> key r = n \<Longrightarrow> sound (Suc n) (add r t)"
    and find_put: "sound n t \<Longrightarrow> find t i = Some r \<Longrightarrow> key q = i \<Longrightarrow> find (put q t) = (find t)(i \<mapsto> q)"
    and sound_put: "sound n t \<Longrightarrow> sound n (put q t)"
    and find_del: "find (del i t) = (find t)(i := None)"
    and sound_del: "sound n t \<Longrightarrow> sound n (del i t)"
begin

text \<open>A new key is fresh, so an insert overwrites nothing.\<close>

lemma fresh_key: "sound n t \<Longrightarrow> find t n = None"
  using sound_bound [of n t n] by (cases "find t n") auto

lemma add_keeps: "sound n t \<Longrightarrow> key r = n \<Longrightarrow> find t i = Some q \<Longrightarrow> find (add r t) i = Some q"
  using sound_bound [of n t i q] by (simp add: find_add)

lemma dom_add: "sound n t \<Longrightarrow> key r = n \<Longrightarrow> dom (find (add r t)) = insert n (dom (find t))"
  by (simp add: find_add)

lemma dom_put: "sound n t \<Longrightarrow> find t i = Some r \<Longrightarrow> key q = i \<Longrightarrow> dom (find (put q t)) = dom (find t)"
  by (auto simp: find_put)

lemma dom_del: "dom (find (del i t)) = dom (find t) - {i}"
  by (auto simp: find_del)

end

definition find_row :: "trow list \<Rightarrow> nat \<Rightarrow> trow option" where
  "find_row rows i = first_where (\<lambda>r. br_id r = i) rows"

definition add_row :: "trow \<Rightarrow> trow list \<Rightarrow> trow list" where
  "add_row r rows = rows @ [r]"

definition put_row :: "trow \<Rightarrow> trow list \<Rightarrow> trow list" where
  "put_row r rows = update_where (\<lambda>q. br_id q = br_id r) (\<lambda>_. r) rows"

definition del_row :: "nat \<Rightarrow> trow list \<Rightarrow> trow list" where
  "del_row i rows = delete_where (\<lambda>q. br_id q = i) rows"

lemma find_row_view: "find_row rows = view_of id (\<lambda>i r. br_id r = i) rows"
  by (simp add: find_row_def view_of_def fun_eq_iff option.map_id)

lemma keyed_put: "keyed br_id n rows \<Longrightarrow> keyed br_id n (put_row q rows)"
proof -
  assume k: "keyed br_id n rows"
  have "map br_id (put_row q rows) = map br_id rows" by (simp add: put_row_def update_where_def)
  then have "br_id ` set (put_row q rows) = br_id ` set rows" "distinct (map br_id (put_row q rows))"
    using k by (metis set_map) (metis k keyed_def \<open>map br_id (put_row q rows) = map br_id rows\<close>)
  then show ?thesis using k by (force simp: keyed_def)
qed

lemma find_row_put_other: "br_id q \<noteq> j \<Longrightarrow> find_row (put_row q rows) j = find_row rows j"
  by (induction rows) (auto simp: find_row_def put_row_def update_where_def)

lemma find_row_put_same: "find_row rows (br_id q) = Some r \<Longrightarrow> find_row (put_row q rows) (br_id q) = Some q"
  by (induction rows) (auto simp: find_row_def put_row_def update_where_def split: if_splits)

lemma find_row_put:
  "find_row rows i = Some r \<Longrightarrow> br_id q = i \<Longrightarrow> find_row (put_row q rows) = (find_row rows)(i \<mapsto> q)"
  using find_row_put_other find_row_put_same by (fastforce simp: fun_eq_iff)

interpretation rows: row_store find_row br_id add_row put_row del_row "keyed br_id"
proof unfold_locales
  show "find_row t i = Some r \<Longrightarrow> br_id r = i" for t i r
    by (auto simp: find_row_def dest: first_where_Some)
  show "keyed br_id n t \<Longrightarrow> find_row t i = Some r \<Longrightarrow> i < n" for n t i r
    by (auto simp: find_row_def keyed_def dest: first_where_Some)
  show "find_row (add_row r t) = (find_row t)(n \<mapsto> r)" if "keyed br_id n t" "br_id r = n" for n t r
  proof -
    have "first_where (\<lambda>r. br_id r = n) t = None" using that(1) by (auto simp: first_where_None keyed_def)
    then show ?thesis using that(2)
      by (simp add: find_row_view add_row_def view_of_insert [where K = "\<lambda>i r. br_id r = i"])
  qed
  show "keyed br_id n t \<Longrightarrow> br_id r = n \<Longrightarrow> keyed br_id (Suc n) (add_row r t)" for n t r
    by (auto simp: add_row_def intro: keyed_insert)
  show "keyed br_id n t \<Longrightarrow> find_row t i = Some r \<Longrightarrow> br_id q = i \<Longrightarrow> find_row (put_row q t) = (find_row t)(i \<mapsto> q)"
    for n t i r q by (rule find_row_put)
  show "keyed br_id n t \<Longrightarrow> keyed br_id n (put_row q t)" for n t q by (rule keyed_put)
  show "find_row (del_row i t) = (find_row t)(i := None)" for i t
    unfolding find_row_view del_row_def by (rule view_of_delete) simp
  show "keyed br_id n t \<Longrightarrow> keyed br_id n (del_row i t)" for n t i
    by (simp add: del_row_def keyed_delete)
qed

lemma has_row_find: "has_row st t i \<longleftrightarrow> find_row (bl_rows st t) i \<noteq> None"
  by (auto simp: has_row_def list_ex_iff find_row_def first_where_None)

lemma has_row_dom: "has_row st t i \<longleftrightarrow> i \<in> dom (find_row (bl_rows st t))"
  by (simp add: has_row_find domIff)

section \<open>The invariant\<close>

definition stored_ok :: "(tname \<Rightarrow> db_table) \<Rightarrow> app_tables \<Rightarrow> tname \<Rightarrow> nat \<Rightarrow> bvals \<Rightarrow> bool" where
  "stored_ok db st t i vals \<longleftrightarrow>
     (\<forall>c\<in>set (dt_columns (db t)). column_data_ok vals c \<and> column_null_ok vals c \<and> reference_ok st vals c) \<and>
     (\<forall>u\<in>set (dt_unique (db t)). unique_ok (bl_rows st t) i vals u)"

definition tables_ok :: "(tname \<Rightarrow> db_table) \<Rightarrow> app_tables \<Rightarrow> bool" where
  "tables_ok db st \<longleftrightarrow> (\<forall>t. keyed br_id (bl_next st) (bl_rows st t) \<and>
     (\<forall>r\<in>set (bl_rows st t). stored_ok db st t (br_id r) (br_vals r)))"

lemma check_stored_ok: "check_row (db t) st t i vals = Inr () \<longleftrightarrow> stored_ok db st t i vals"
  by (auto simp: check_row_def stored_ok_def list_all_iff)

lemma tables_okD:
  assumes "tables_ok db st"
  shows "keyed br_id (bl_next st) (bl_rows st t)"
    and "r \<in> set (bl_rows st t) \<Longrightarrow> stored_ok db st t (br_id r) (br_vals r)"
  using assms by (auto simp: tables_ok_def)

lemma clash_sym: "clash u v w \<longleftrightarrow> clash u w v"
  by (auto simp: clash_def list_all_iff split: option.splits)

lemma store_rows_simps [simp]:
  "bl_rows (store_rows t rows st) = (bl_rows st)(t := rows)"
  "bl_next (store_rows t rows st) = bl_next st"
  by (simp_all add: store_rows_def)

text \<open>A row stays good when its references keep resolving and the new rows do not clash with it.\<close>

lemma stored_ok_later:
  assumes "stored_ok db st t i vals"
    and "\<And>c t' j. c \<in> set (dt_columns (db t)) \<Longrightarrow> dc_type c = ColRef t' \<Longrightarrow> vals (dc_name c) = BRef j \<Longrightarrow>
      has_row st t' j \<Longrightarrow> has_row st' t' j"
    and "\<And>q u. u \<in> set (dt_unique (db t)) \<Longrightarrow> q \<in> set (bl_rows st' t) \<Longrightarrow> q \<notin> set (bl_rows st t) \<Longrightarrow>
      br_id q = i \<or> \<not> clash u vals (br_vals q)"
  shows "stored_ok db st' t i vals"
proof -
  have "reference_ok st' vals c" if "c \<in> set (dt_columns (db t))" for c
    using assms(1,2) that by (auto simp: stored_ok_def reference_ok_def split: coltype.splits bval.splits)
  moreover have "unique_ok (bl_rows st' t) i vals u" if u: "u \<in> set (dt_unique (db t))" for u
    unfolding unique_ok_def list_all_iff
  proof
    fix q assume "q \<in> set (bl_rows st' t)"
    then show "br_id q = i \<or> \<not> clash u vals (br_vals q)"
      using assms(1) assms(3) [OF u, of q] u
      by (cases "q \<in> set (bl_rows st t)") (auto simp: stored_ok_def unique_ok_def list_all_iff)
  qed
  ultimately show ?thesis using assms(1) by (simp add: stored_ok_def)
qed

section \<open>The steps that change a table\<close>

lemma insert_ok:
  assumes ok: "tables_ok db st" and row: "stored_ok db st t (bl_next st) vals"
    and r: "br_id r = bl_next st" "br_vals r = vals"
  shows "tables_ok db ((store_rows t (bl_rows st t @ [r]) st)\<lparr>bl_next := Suc (bl_next st)\<rparr>)" (is "tables_ok db ?s")
proof -
  have more: "has_row st t' j \<Longrightarrow> has_row ?s t' j" for t' j by (auto simp: has_row_def list_ex_iff)
  have "keyed br_id (Suc (bl_next st)) (bl_rows ?s t')" for t'
    using tables_okD(1) [OF ok, of t'] r by (auto intro: keyed_insert keyed_mono)
  moreover have "stored_ok db ?s t' (br_id q) (br_vals q)" if q: "q \<in> set (bl_rows ?s t')" for q t'
  proof (cases "q \<in> set (bl_rows st t')")
    case True
    have sep: "br_id q' = br_id q \<or> \<not> clash u (br_vals q) (br_vals q')"
      if "u \<in> set (dt_unique (db t'))" "q' \<in> set (bl_rows ?s t')" "q' \<notin> set (bl_rows st t')" for u q'
    proof -
      have "q' = r" "t' = t" using that(2,3) by (auto split: if_splits)
      moreover have "br_id q \<noteq> br_id r" using True tables_okD(1) [OF ok, of t'] r by (auto simp: keyed_def)
      ultimately show ?thesis
        using row that(1) True r by (auto simp: stored_ok_def unique_ok_def list_all_iff clash_sym)
    qed
    show ?thesis by (rule stored_ok_later [OF tables_okD(2) [OF ok True]]) (use more sep in blast)+
  next
    case False
    then have t: "q = r" "t' = t" using q by (auto split: if_splits)
    show ?thesis unfolding t r by (rule stored_ok_later [OF row]) (use more r in \<open>auto split: if_splits\<close>)
  qed
  ultimately show ?thesis by (simp add: tables_ok_def)
qed

lemma put_ok:
  assumes ok: "tables_ok db st" and old: "r \<in> set (bl_rows st t)" and row: "stored_ok db st t (br_id r) vals"
    and q: "br_id q = br_id r" "br_vals q = vals"
  shows "tables_ok db (store_rows t (put_row q (bl_rows st t)) st)" (is "tables_ok db ?s")
proof -
  have ids: "map br_id (put_row q (bl_rows st t)) = map br_id (bl_rows st t)"
    by (simp add: put_row_def update_where_def)
  have same: "has_row ?s t' j = has_row st t' j" for t' j
  proof -
    have "has_row st' t' j \<longleftrightarrow> j \<in> set (map br_id (bl_rows st' t'))" for st'
      by (auto simp: has_row_def list_ex_iff)
    moreover have "map br_id (bl_rows ?s t') = map br_id (bl_rows st t')" using ids by simp
    ultimately show ?thesis by metis
  qed
  have new: "p = q \<or> p \<in> set (bl_rows st t) \<and> br_id p \<noteq> br_id r" if "p \<in> set (put_row q (bl_rows st t))" for p
    using that q by (auto simp: put_row_def update_where_def)
  have "keyed br_id (bl_next st) (bl_rows ?s t')" for t'
    using tables_okD(1) [OF ok, of t'] keyed_put by auto
  moreover have "stored_ok db ?s t' (br_id p) (br_vals p)" if p: "p \<in> set (bl_rows ?s t')" for p t'
  proof (cases "t' = t \<and> p = q")
    case True
    then have t: "t' = t" "br_id p = br_id r" "br_vals p = vals" using q by auto
    show ?thesis unfolding t
      by (rule stored_ok_later [OF row]) (use same new q in auto)
  next
    case False
    then have old': "p \<in> set (bl_rows st t')" "t' = t \<Longrightarrow> br_id p \<noteq> br_id r"
      using p new by (auto split: if_splits)
    have sep: "br_id q' = br_id p \<or> \<not> clash u (br_vals p) (br_vals q')"
      if "u \<in> set (dt_unique (db t'))" "q' \<in> set (bl_rows ?s t')" "q' \<notin> set (bl_rows st t')" for u q'
    proof -
      have t: "q' = q" "t' = t" using that(2,3) new by (auto split: if_splits)
      then show ?thesis
        using row that(1) old' q by (auto simp: stored_ok_def unique_ok_def list_all_iff clash_sym)
    qed
    show ?thesis by (rule stored_ok_later [OF tables_okD(2) [OF ok old'(1)]]) (use same sep in blast)+
  qed
  ultimately show ?thesis by (simp add: tables_ok_def)
qed

lemma all_tables_complete: "t \<in> set all_tables"
  by (cases t) (simp_all add: all_tables_def)

lemma not_referenced:
  assumes "\<not> referenced db st t i" and "r \<in> set (bl_rows st t')" and "c \<in> set (dt_columns (db t'))"
    and "dc_type c = ColRef t"
  shows "br_vals r (dc_name c) \<noteq> BRef i"
  using assms all_tables_complete [of t'] by (auto simp: referenced_def list_ex_iff)

text \<open>Deleting rows that nothing refers to, any number of them.\<close>

lemma delete_ok:
  assumes ok: "tables_ok db st" and free: "\<And>r. r \<in> set (bl_rows st t) \<Longrightarrow> P r \<Longrightarrow> \<not> referenced db st t (br_id r)"
  shows "tables_ok db (store_rows t (delete_where P (bl_rows st t)) st)" (is "tables_ok db ?s")
proof -
  have sub: "p \<in> set (bl_rows st t')" if "p \<in> set (bl_rows ?s t')" for p t'
    using that by (auto simp: delete_where_def split: if_splits)
  have "keyed br_id (bl_next st) (bl_rows ?s t')" for t'
    using tables_okD(1) [OF ok, of t'] by (auto simp: keyed_delete)
  moreover have "stored_ok db ?s t' (br_id p) (br_vals p)" if p: "p \<in> set (bl_rows ?s t')" for p t'
  proof (rule stored_ok_later [OF tables_okD(2) [OF ok sub [OF p]]])
    show "has_row ?s t2 j" if "c \<in> set (dt_columns (db t'))" "dc_type c = ColRef t2"
      "br_vals p (dc_name c) = BRef j" "has_row st t2 j" for c t2 j
    proof (cases "t2 = t")
      note there = that(4)
      case True
      then obtain r where r: "r \<in> set (bl_rows st t)" "br_id r = j"
        using there by (auto simp: has_row_def list_ex_iff)
      have "\<not> P r"
        using free [OF r(1)] not_referenced [of db st t j p t' c] sub [OF p] that(1-3) r(2) True by auto
      then show ?thesis using r True by (auto simp: has_row_def list_ex_iff delete_where_def)
    next
      case False
      then show ?thesis using that(4) by (simp add: has_row_def)
    qed
  qed (use sub in blast)
  ultimately show ?thesis by (simp add: tables_ok_def)
qed

lemma del_ok: "tables_ok db st \<Longrightarrow> \<not> referenced db st t i \<Longrightarrow> tables_ok db (store_rows t (del_row i (bl_rows st t)) st)"
  unfolding del_row_def by (rule delete_ok) simp_all

end
