(* ===== verification/CrudStore.thy ===== *)
theory CrudStore
  imports CrudProofs
begin

text \<open>
  A service against its specification: the tables as maps from keys to values, and each
  request as a function on the map of the service's table. Only a request that is answered, or
  whose answer does not pass the read schema, changes anything.
\<close>

section \<open>The specification\<close>

definition contents :: "app_tables \<Rightarrow> tname \<Rightarrow> nat \<Rightarrow> bvals option" where
  "contents st t i = map_option br_vals (find_row (bl_rows st t) i)"

text \<open>What a request makes of the contents of its table; the key of a create is in its reply.\<close>

definition contents_after :: "service \<Rightarrow> brequest \<Rightarrow> nat \<Rightarrow> int \<Rightarrow> (nat \<Rightarrow> bvals option) \<Rightarrow>
    nat \<Rightarrow> bvals option" where
  "contents_after svc rq new now m = (case rq of
      BCreate b \<Rightarrow> m(new \<mapsto> insert_vals (sv_defaults svc) now (dump (sv_create svc) b))
    | BUpdate (Some i) b \<Rightarrow> (case (sv_update svc, m i) of
          (Some fs, Some v) \<Rightarrow> m(i \<mapsto> assign (dump_set fs b) v) | _ \<Rightarrow> m)
    | BDelete (Some i) \<Rightarrow> (case (sv_delete svc, m i) of
          (SoftDelete cs, Some v) \<Rightarrow> m(i \<mapsto> assign (marks cs now) v)
        | (HardDelete, _) \<Rightarrow> m(i := None) | _ \<Rightarrow> m)
    | _ \<Rightarrow> m)"

text \<open>The names a service writes are columns of its table.\<close>

definition column_names :: "db_table \<Rightarrow> string list" where
  "column_names d = map dc_name (dt_columns d)"

definition writes_columns :: "(tname \<Rightarrow> db_table) \<Rightarrow> service \<Rightarrow> bool" where
  "writes_columns db svc \<longleftrightarrow>
     (case sv_update svc of None \<Rightarrow> True
      | Some fs \<Rightarrow> set (map fs_name fs) \<subseteq> set (column_names (db (sv_table svc)))) \<and>
     (case sv_delete svc of SoftDelete cs \<Rightarrow> set (map fst cs) \<subseteq> set (column_names (db (sv_table svc))) | _ \<Rightarrow> True)"

section \<open>The operations\<close>

lemma contents_store_rows [simp]:
  "contents (store_rows t rows st) = (contents st)(t := (\<lambda>i. map_option br_vals (find_row rows i)))"
  "contents (store_rows t rows st\<lparr>bl_next := n\<rparr>) = (contents st)(t := (\<lambda>i. map_option br_vals (find_row rows i)))"
  by (simp_all add: contents_def fun_eq_iff)

lemma svc_get_find: "svc_get svc uid st = (case uid of None \<Rightarrow> (Inl ValueErr, st)
   | Some i \<Rightarrow> (case find_row (bl_rows st (sv_table svc)) i of
        None \<Rightarrow> (Inl (NotFound (sv_missing svc)), st) | Some r \<Rightarrow> (Inr r, st)))"
  unfolding svc_get_def find_row_def by (rule refl)

lemma svc_get_Inr: "svc_get svc uid st = (Inr r, st') \<longleftrightarrow>
    st' = st \<and> uid = Some (br_id r) \<and> find_row (bl_rows st (sv_table svc)) (br_id r) = Some r"
  by (auto simp: svc_get_find split: option.splits dest: rows.find_key)

lemma svc_get_state: "snd (svc_get svc uid st) = st"
  by (simp add: svc_get_find split: option.splits)

text \<open>An update of a row either writes it or leaves everything; what it leaves is what it would
  have written, as far as columns go.\<close>

lemma assign_same:
  assumes "same_columns d (assign b v) v" and "\<And>k. b k \<noteq> None \<Longrightarrow> k \<in> set (column_names d)"
  shows "assign b v = v"
proof (rule ext)
  fix k show "assign b v k = v k"
  proof (cases "b k")
    case (Some a)
    then have "k \<in> set (column_names d)" using assms(2) by simp
    then show ?thesis using assms(1) by (auto simp: same_columns_def list_all_iff column_names_def)
  qed (simp add: assign_def)
qed

lemma write_row_cases:
  assumes "write_row db t b r st = (res, st')"
  obtains (error) e where "res = Inl e" "st' = st"
  | (same) "res = Inr r" "st' = st" "same_columns (db t) (assign b (br_vals r)) (br_vals r)"
  | (written) q where "res = Inr q" "q = r\<lparr>br_vals := assign b (br_vals r), br_updated := bl_clock st\<rparr>"
      "stored_ok db st t (br_id r) (assign b (br_vals r))" "st' = store_rows t (put_row q (bl_rows st t)) st"
proof -
  let ?v = "assign b (br_vals r)"
  note run = assms [unfolded write_row_def Let_def]
  show thesis
  proof (cases "same_columns (db t) ?v (br_vals r)")
    case True
    then show ?thesis using same run by simp
  next
    case False
    show ?thesis
    proof (cases "check_row (db t) st t (br_id r) ?v")
      case (Inl e)
      then show ?thesis using error [of e] run False by simp
    next
      case (Inr u)
      then have "stored_ok db st t (br_id r) ?v"
        using check_stored_ok [of db t st "br_id r" ?v] by simp
      then show ?thesis using written run False Inr by (simp add: put_row_def)
    qed
  qed
qed

lemma write_row_ok:
  assumes "write_row db t b r st = (res, st')" and "tables_ok db st" and "r \<in> set (bl_rows st t)"
  shows "tables_ok db st'"
  using assms(1)
proof (cases rule: write_row_cases)
  case (written q)
  then show ?thesis using put_ok [OF assms(2,3)] by simp
qed (use assms(2) in simp_all)

lemma write_row_snd_ok: "tables_ok db st \<Longrightarrow> r \<in> set (bl_rows st t) \<Longrightarrow> tables_ok db (snd (write_row db t b r st))"
  using write_row_ok [OF surjective_pairing] .

lemma write_row_contents:
  assumes "write_row db t b r st = (Inr q, st')" and "find_row (bl_rows st t) (br_id r) = Some r"
    and "\<And>k. b k \<noteq> None \<Longrightarrow> k \<in> set (column_names (db t))"
  shows "br_id q = br_id r \<and> br_vals q = assign b (br_vals r) \<and>
    contents st' = (contents st)(t := (contents st t)(br_id r \<mapsto> br_vals q))"
  using assms(1)
proof (cases rule: write_row_cases)
  case same
  then show ?thesis using assms(2) assign_same [OF same(3) assms(3)]
    by (auto simp: contents_def fun_eq_iff)
next
  case (written q')
  have "find_row (put_row q (bl_rows st t)) = (find_row (bl_rows st t))(br_id r \<mapsto> q)"
    by (rule find_row_put [OF assms(2)]) (use written in simp)
  then show ?thesis using written by (auto simp: contents_def fun_eq_iff)
qed simp

lemma insert_row_cases:
  assumes "insert_row db t ds given st = (res, st')"
  obtains (error) e where "res = Inl e" "st' = st" "check_row (db t) st t (bl_next st) (insert_vals ds (bl_clock st) given) = Inl e"
  | (inserted) r where "res = Inr r"
      "r = \<lparr>br_id = bl_next st, br_vals = insert_vals ds (bl_clock st) given,
            br_created = bl_clock st, br_updated = bl_clock st\<rparr>"
      "stored_ok db st t (bl_next st) (br_vals r)"
      "st' = (store_rows t (bl_rows st t @ [r]) st)\<lparr>bl_next := Suc (bl_next st)\<rparr>"
proof -
  let ?v = "insert_vals ds (bl_clock st) given"
  note run = assms [unfolded insert_row_def Let_def]
  show thesis
  proof (cases "check_row (db t) st t (bl_next st) ?v")
    case (Inl e)
    then show ?thesis using error [of e] run by simp
  next
    case (Inr u)
    then have "stored_ok db st t (bl_next st) ?v"
      using check_stored_ok [of db t st "bl_next st" ?v] by simp
    then show ?thesis using inserted run Inr by simp
  qed
qed

lemma insert_row_ok:
  assumes "tables_ok db st" and "insert_row db t ds given st = (res, st')"
  shows "tables_ok db st'"
  using assms(2) by (cases rule: insert_row_cases) (use assms(1) insert_ok [OF assms(1)] in auto)

lemma svc_create_cases:
  assumes "svc_create db svc b st = (res, st')"
  obtains (error) e where "res = Inl e" "st' = st"
  | (inserted) r where "res = Inr r"
      "r = \<lparr>br_id = bl_next st, br_vals = insert_vals (sv_defaults svc) (bl_clock st) (dump (sv_create svc) b),
            br_created = bl_clock st, br_updated = bl_clock st\<rparr>"
      "stored_ok db st (sv_table svc) (bl_next st) (br_vals r)"
      "check_each (require_exists st (dump (sv_create svc) b)) (sv_requires svc) = Inr ()"
      "st' = (store_rows (sv_table svc) (bl_rows st (sv_table svc) @ [r]) st)\<lparr>bl_next := Suc (bl_next st)\<rparr>"
proof (cases "check_each (require_exists st (dump (sv_create svc) b)) (sv_requires svc)")
  case (Inl e)
  then show ?thesis using error [of e] assms by (simp add: svc_create_def)
next
  case (Inr u)
  then have run: "insert_row db (sv_table svc) (sv_defaults svc) (dump (sv_create svc) b) st = (res, st')"
    using assms by (simp add: svc_create_def)
  then show ?thesis
    by (cases rule: insert_row_cases) (use error inserted Inr in auto)
qed

lemma remove_row_cases:
  assumes "remove_row db t r st = (res, st')"
  obtains (error) e where "res = Inl e" "st' = st"
  | (removed) "res = Inr ()" "\<not> referenced db st t (br_id r)"
      "st' = store_rows t (del_row (br_id r) (bl_rows st t)) st"
  using assms by (auto simp: remove_row_def del_row_def split: if_splits)

section \<open>Every request keeps the invariant\<close>


lemma find_row_set: "find_row rows i = Some r \<Longrightarrow> r \<in> set rows \<and> br_id r = i"
  by (auto simp: find_row_def dest: first_where_Some)

lemma bind_get_ok:
  assumes "\<And>r. r \<in> set (bl_rows st (sv_table svc)) \<Longrightarrow> tables_ok db (snd (k r st))" and "tables_ok db st"
  shows "tables_ok db (snd (bind_act (svc_get svc uid) k st))"
  using assms by (auto simp: bind_act_def svc_get_find split: option.splits dest: find_row_set)

lemma lift_bind_snd: "snd (bind_act m (\<lambda>r. lift_res (f r)) st) = snd (m st)"
  by (auto simp: bind_act_def split: prod.splits sum.splits)

lemma ret_then_snd: "snd (then_act m (ret a) st) = snd (m st)"
  by (auto simp: then_act_def bind_act_def split: prod.splits sum.splits)

lemma ret_bind_snd: "snd (bind_act m (\<lambda>_. ret a) st) = snd (m st)"
  by (auto simp: bind_act_def split: prod.splits sum.splits)

lemma serve_ok:
  assumes ok: "tables_ok db st"
  shows "tables_ok db (snd (serve_crud db svc rq st))"
proof (cases rq)
  case (BCreate b)
  obtain res st' where run: "svc_create db svc b st = (res, st')" by force
  then have "tables_ok db st'"
    by (cases rule: svc_create_cases) (use ok insert_ok [OF ok] in auto)
  then show ?thesis using BCreate run ok by (simp add: serve_crud_def lift_bind_snd)
next
  case (BUpdate uid b)
  have "tables_ok db (snd (svc_update db svc fs uid b st))" for fs
    unfolding svc_update_def
    by (rule bind_get_ok [OF _ ok]) (auto simp: ok write_row_snd_ok [OF ok] split: sum.split)
  then show ?thesis using BUpdate ok by (simp add: serve_crud_def lift_bind_snd split: option.split)
next
  case (BDelete uid)
  have d: "tables_ok db (snd (remove_row db t r st))" for t r
  proof -
    obtain res st' where run: "remove_row db t r st = (res, st')" by force
    then show ?thesis by (cases rule: remove_row_cases) (use run ok del_ok [OF ok] in auto)
  qed
  have "tables_ok db (snd (svc_delete db svc uid st))"
  proof (cases "sv_delete svc")
    case (SoftDelete cs)
    show ?thesis unfolding svc_delete_def SoftDelete delete_kind.case
      by (rule bind_get_ok [OF _ ok]) (simp add: ret_then_snd write_row_snd_ok [OF ok])
  next
    case HardDelete
    show ?thesis unfolding svc_delete_def HardDelete delete_kind.case
      by (rule bind_get_ok [OF _ ok]) (rule d)
  qed (simp add: svc_delete_def ok)
  then show ?thesis using BDelete by (simp add: serve_crud_def ret_bind_snd)
next
  case (BGet uid)
  then show ?thesis using ok by (simp add: serve_crud_def lift_bind_snd svc_get_state)
next
  case (BList q)
  then show ?thesis using ok by (simp add: serve_crud_def)
qed

text \<open>A sequence of requests, each to one of the services.\<close>

fun serve_all :: "(tname \<Rightarrow> db_table) \<Rightarrow> (service \<times> brequest) list \<Rightarrow> app_tables \<Rightarrow> app_tables" where
  "serve_all db [] st = st"
| "serve_all db ((svc, rq) # rqs) st = serve_all db rqs (snd (serve_crud db svc rq st))"

lemma serve_all_ok: "tables_ok db st \<Longrightarrow> tables_ok db (serve_all db rqs st)"
  by (induction db rqs st rule: serve_all.induct) (auto intro: serve_ok)

section \<open>Requests refine functions on the contents\<close>

text \<open>The error of a reply that does not pass the read schema comes after the commit.\<close>

definition unreadable :: err where
  "unreadable = Raised ''ResponseValidationError''"

lemma respond_cases: "respond svc r = Inr (Item r) \<or> respond svc r = Inl unreadable"
  by (simp add: respond_def unreadable_def)

text \<open>\<open>request_effect\<close>: an error that is not about the reply changes nothing, any other outcome is the
  specified one.\<close>

definition request_effect :: "service \<Rightarrow> brequest \<Rightarrow> app_tables \<Rightarrow> breply res \<Rightarrow> app_tables \<Rightarrow> bool" where
  "request_effect svc rq st res st' \<longleftrightarrow>
     (if \<exists>e. res = Inl e \<and> e \<noteq> unreadable then contents st' = contents st
      else contents st' = (contents st)(sv_table svc :=
             contents_after svc rq (bl_next st) (bl_clock st) (contents st (sv_table svc))))"

lemma effect_same: "contents_after svc rq (bl_next st) (bl_clock st) (contents st (sv_table svc))
    = contents st (sv_table svc) \<Longrightarrow> request_effect svc rq st res st"
  by (simp add: request_effect_def)

lemma effect_error: "e \<noteq> unreadable \<Longrightarrow> request_effect svc rq st (Inl e) st"
  by (simp add: request_effect_def)

lemma svc_errors_readable:
  "svc_get svc uid st = (Inl e, st') \<Longrightarrow> e \<noteq> unreadable"
  "check_row d st t i v = Inl e \<Longrightarrow> e \<noteq> unreadable"
  "check_each (require_exists st v) rqs = Inl e \<Longrightarrow> e \<noteq> unreadable"
  "check_each (require_set st b) rqs = Inl e \<Longrightarrow> e \<noteq> unreadable"
proof -
  show "svc_get svc uid st = (Inl e, st') \<Longrightarrow> e \<noteq> unreadable"
    by (auto simp: svc_get_find unreadable_def split: option.splits)
  show "check_row d st t i v = Inl e \<Longrightarrow> e \<noteq> unreadable"
    by (auto simp: check_row_def unreadable_def split: if_splits)
  show "check_each (require_exists st v) rqs = Inl e \<Longrightarrow> e \<noteq> unreadable"
    by (induction rqs) (auto simp: require_exists_def bind_res_def unreadable_def
        split: bval.splits if_splits sum.splits null_reference.splits)
  show "check_each (require_set st b) rqs = Inl e \<Longrightarrow> e \<noteq> unreadable"
    by (induction rqs) (auto simp: require_set_def require_exists_def bind_res_def unreadable_def
        split: option.splits bval.splits if_splits sum.splits null_reference.splits)
qed

lemma write_row_error: "write_row db t b r st = (Inl e, st') \<Longrightarrow> e \<noteq> unreadable \<and> st' = st"
  by (auto simp: write_row_def Let_def split: if_splits sum.splits dest: svc_errors_readable(2))

lemma svc_create_error: "svc_create db svc b st = (Inl e, st') \<Longrightarrow> e \<noteq> unreadable \<and> st' = st"
  by (auto simp: svc_create_def insert_row_def Let_def split: sum.splits dest: svc_errors_readable(2,3))

lemma create_effect:
  assumes ok: "tables_ok db st" and run: "serve_crud db svc (BCreate b) st = (res, st')"
  shows "request_effect svc (BCreate b) st res st'"
proof (cases "body_ok (sv_create svc) b")
  case False
  then show ?thesis using run effect_error [of unprocessable]
    by (simp add: serve_crud_def unprocessable_def unreadable_def)
next
  case True
  obtain res1 st1 where cr: "svc_create db svc b st = (res1, st1)" by force
  show ?thesis
  proof (cases res1)
    case (Inl e)
    then show ?thesis using run True cr svc_create_error [of db svc b st e st1]
      by (auto simp: serve_crud_def bind_act_def intro: effect_error)
  next
    case (Inr r)
    have st': "st' = st1" and res: "res = respond svc r"
      using run True cr Inr by (simp_all add: serve_crud_def bind_act_def)
    let ?t = "sv_table svc"
    let ?v = "insert_vals (sv_defaults svc) (bl_clock st) (dump (sv_create svc) b)"
    have "contents st' = (contents st)(?t := (contents st ?t)(bl_next st \<mapsto> ?v))"
      using cr
    proof (cases rule: svc_create_cases)
      case (inserted q)
      have "find_row (bl_rows st ?t @ [q]) = (find_row (bl_rows st ?t))(bl_next st \<mapsto> q)"
        using rows.find_add [OF tables_okD(1) [OF ok, of ?t], of q] inserted by (simp add: add_row_def)
      then show ?thesis using inserted st' by (auto simp: contents_def fun_eq_iff)
    qed (use Inr in simp)
    then show ?thesis using respond_cases [of svc r] res
      by (auto simp: request_effect_def contents_after_def)
  qed
qed

text \<open>A request that reads a row first: what follows is on a row of the table.\<close>

lemma bind_get_effect:
  assumes run: "bind_act (svc_get svc uid) k st = (res, st')"
    and hit: "\<And>r. find_row (bl_rows st (sv_table svc)) (br_id r) = Some r \<Longrightarrow> uid = Some (br_id r) \<Longrightarrow>
      k r st = (res, st') \<Longrightarrow> request_effect svc rq st res st'"
  shows "request_effect svc rq st res st'"
proof (cases "fst (svc_get svc uid st)")
  case (Inl e)
  then have "svc_get svc uid st = (Inl e, st)" using svc_get_state [of svc uid st] by (metis prod.collapse)
  then show ?thesis using run svc_errors_readable(1) effect_error by (auto simp: bind_act_def)
next
  case (Inr r)
  then have g: "svc_get svc uid st = (Inr r, st)" using svc_get_state [of svc uid st] by (metis prod.collapse)
  moreover have "k r st = (res, st')" using run g by (simp add: bind_act_def)
  ultimately show ?thesis using hit [of r] by (simp add: svc_get_Inr)
qed

text \<open>What an update or a soft delete does once the row is found and its checks have passed.\<close>

lemma write_effect:
  assumes r: "find_row (bl_rows st (sv_table svc)) (br_id r) = Some r"
    and wr: "write_row db (sv_table svc) b r st = (res1, st1)"
    and cols: "\<And>k. b k \<noteq> None \<Longrightarrow> k \<in> set (column_names (db (sv_table svc)))"
    and after: "contents_after svc rq (bl_next st) (bl_clock st) (contents st (sv_table svc))
      = (contents st (sv_table svc))(br_id r \<mapsto> assign b (br_vals r))"
    and res: "\<And>e. res1 = Inl e \<Longrightarrow> res = Inl e"
      "\<And>q. res1 = Inr q \<Longrightarrow> res = Inl unreadable \<or> (\<exists>rep. res = Inr rep)"
  shows "request_effect svc rq st res st1"
proof (cases res1)
  case (Inl e)
  then show ?thesis using wr write_row_error [of db "sv_table svc" b r st e st1] res(1)
    by (auto intro: effect_error)
next
  case (Inr q)
  then have "contents st1 = (contents st)(sv_table svc :=
      (contents st (sv_table svc))(br_id r \<mapsto> assign b (br_vals r)))"
    using write_row_contents [of db "sv_table svc" b r st q st1] wr r cols by simp
  then show ?thesis using res(2) [OF Inr] after by (auto simp: request_effect_def)
qed

lemma update_effect:
  assumes "writes_columns db svc" and upd: "sv_update svc = Some fs" and "body_ok fs b"
    and run: "bind_act (svc_update db svc fs uid b) (\<lambda>r. lift_res (respond svc r)) st = (res, st')"
  shows "request_effect svc (BUpdate uid b) st res st'"
proof (rule bind_get_effect)
  let ?t = "sv_table svc" and ?b = "dump_set fs b"
  let ?w = "\<lambda>r st. case check_each (require_set st ?b) (sv_update_requires svc) of
      Inl e \<Rightarrow> (Inl e, st) | Inr _ \<Rightarrow> write_row db ?t ?b r st"
  show "bind_act (svc_get svc uid) (\<lambda>r. bind_act (?w r) (\<lambda>r. lift_res (respond svc r))) st = (res, st')"
    using run by (simp add: svc_update_def bind_act_assoc)
  fix r assume r: "find_row (bl_rows st ?t) (br_id r) = Some r" "uid = Some (br_id r)"
    and w: "bind_act (?w r) (\<lambda>r. lift_res (respond svc r)) st = (res, st')"
  show "request_effect svc (BUpdate uid b) st res st'"
  proof (cases "check_each (require_set st ?b) (sv_update_requires svc)")
    case (Inl e)
    then have "res = Inl e" "st' = st" using w by (simp_all add: bind_act_def)
    then show ?thesis using svc_errors_readable(4) [OF Inl] by (auto intro: effect_error)
  next
    case (Inr u)
    obtain res1 st1 where wr: "write_row db ?t ?b r st = (res1, st1)" by force
    have out: "st' = st1" "res1 = Inl e \<Longrightarrow> res = Inl e" "res1 = Inr q \<Longrightarrow> res = respond svc q" for e q
      using w wr Inr by (cases res1; simp add: bind_act_def)+
    have cols: "k \<in> set (column_names (db ?t))" if "?b k \<noteq> None" for k
    proof -
      have "field_named fs k \<noteq> None" using that by (auto simp: dump_set_def split: if_splits)
      then have "k \<in> set (map fs_name fs)" by (auto simp: field_named_def first_where_None)
      then show ?thesis using assms(1) upd by (auto simp: writes_columns_def)
    qed
    have "contents st ?t (br_id r) = Some (br_vals r)" using r(1) by (simp add: contents_def)
    then have after: "contents_after svc (BUpdate uid b) (bl_next st) (bl_clock st) (contents st ?t)
        = (contents st ?t)(br_id r \<mapsto> assign ?b (br_vals r))"
      using upd r(2) by (simp add: contents_after_def)
    show ?thesis unfolding out(1)
      by (rule write_effect [OF r(1) wr cols after]) (use out(2,3) respond_cases in blast)+
  qed
qed

lemma soft_delete_effect:
  assumes "writes_columns db svc" and del: "sv_delete svc = SoftDelete cs"
    and run: "bind_act (svc_delete db svc uid) (\<lambda>_. ret Done) st = (res, st')"
  shows "request_effect svc (BDelete uid) st res st'"
proof (rule bind_get_effect)
  let ?t = "sv_table svc" and ?b = "\<lambda>st. marks cs (bl_clock st)"
  let ?w = "\<lambda>r st. then_act (write_row db ?t (?b st) r) (ret ()) st"
  show "bind_act (svc_get svc uid) (\<lambda>r. bind_act (?w r) (\<lambda>_. ret Done)) st = (res, st')"
    using run by (simp add: svc_delete_def del bind_act_assoc)
  fix r assume r: "find_row (bl_rows st ?t) (br_id r) = Some r" "uid = Some (br_id r)"
    and w: "bind_act (?w r) (\<lambda>_. ret Done) st = (res, st')"
  obtain res1 st1 where wr: "write_row db ?t (?b st) r st = (res1, st1)" by force
  have out: "st' = st1" "res1 = Inl e \<Longrightarrow> res = Inl e" "res1 = Inr q \<Longrightarrow> res = Inr Done" for e q
    using w wr by (cases res1; simp add: bind_act_def then_act_def)+
  have cols: "k \<in> set (column_names (db ?t))" if k: "?b st k \<noteq> None" for k
  proof -
    have "map_of cs k \<noteq> None" using k by (auto simp: marks_def split: option.splits)
    then have "k \<in> set (map fst cs)" by (auto simp: map_of_eq_None_iff)
    then show ?thesis using assms(1) del by (auto simp: writes_columns_def)
  qed
  have "contents st ?t (br_id r) = Some (br_vals r)" using r(1) by (simp add: contents_def)
  then have after: "contents_after svc (BDelete uid) (bl_next st) (bl_clock st) (contents st ?t)
      = (contents st ?t)(br_id r \<mapsto> assign (?b st) (br_vals r))"
    using del r(2) by (simp add: contents_after_def)
  show "request_effect svc (BDelete uid) st res st'" unfolding out(1)
    by (rule write_effect [OF r(1) wr cols after]) (use out(2,3) in blast)+
qed

lemma hard_delete_effect:
  assumes del: "sv_delete svc = HardDelete"
    and run: "bind_act (svc_delete db svc uid) (\<lambda>_. ret Done) st = (res, st')"
  shows "request_effect svc (BDelete uid) st res st'"
proof (rule bind_get_effect)
  let ?t = "sv_table svc"
  show "bind_act (svc_get svc uid) (\<lambda>r. bind_act (remove_row db ?t r) (\<lambda>_. ret Done)) st = (res, st')"
    using run by (simp add: svc_delete_def del bind_act_assoc)
  fix r assume r: "find_row (bl_rows st ?t) (br_id r) = Some r" "uid = Some (br_id r)"
    and w: "bind_act (remove_row db ?t r) (\<lambda>_. ret Done) st = (res, st')"
  show "request_effect svc (BDelete uid) st res st'"
  proof (cases "referenced db st ?t (br_id r)")
    case True
    then show ?thesis using w by (auto simp: remove_row_def bind_act_def request_effect_def unreadable_def)
  next
    case False
    then have "res = Inr Done" "st' = store_rows ?t (del_row (br_id r) (bl_rows st ?t)) st"
      using w by (simp_all add: remove_row_def bind_act_def del_row_def)
    then show ?thesis using del r(2)
      by (auto simp: request_effect_def contents_after_def contents_def rows.find_del fun_eq_iff split: option.splits)
  qed
qed

lemma serve_effect:
  assumes ok: "tables_ok db st" and wc: "writes_columns db svc"
    and run: "serve_crud db svc rq st = (res, st')"
  shows "request_effect svc rq st res st'"
proof (cases rq)
  case (BCreate b)
  then show ?thesis using create_effect [OF ok] run by simp
next
  case (BUpdate uid b)
  show ?thesis
  proof (cases "sv_update svc")
    case None
    then show ?thesis using run BUpdate
      by (auto simp: serve_crud_def request_effect_def contents_after_def unreadable_def split: option.splits)
  next
    case (Some fs)
    then show ?thesis using run BUpdate update_effect [OF wc Some]
      by (auto simp: serve_crud_def request_effect_def unprocessable_def unreadable_def split: if_splits)
  qed
next
  case (BDelete uid)
  have run': "bind_act (svc_delete db svc uid) (\<lambda>_. ret Done) st = (res, st')"
    using run BDelete by (simp add: serve_crud_def)
  show ?thesis
  proof (cases "sv_delete svc")
    case NoDelete
    then show ?thesis using run' by (auto simp: svc_delete_def bind_act_def request_effect_def unreadable_def)
  next
    case (SoftDelete c)
    then show ?thesis using soft_delete_effect [OF wc _ run'] BDelete by simp
  next
    case HardDelete
    then show ?thesis using hard_delete_effect [OF _ run'] BDelete by simp
  qed
next
  case (BGet uid)
  have "st' = snd (serve_crud db svc rq st)" using run by simp
  then have "st' = st" using BGet by (simp add: serve_crud_def lift_bind_snd svc_get_state)
  then show ?thesis using BGet by (simp add: effect_same contents_after_def)
next
  case (BList q)
  then have "st' = st" using run by (auto simp: serve_crud_def split: if_splits)
  then show ?thesis using BList by (simp add: effect_same contents_after_def)
qed

end
