(* ===== verification/AccessTables.thy ===== *)
theory AccessTables
  imports CrudModel
begin

text \<open>
  The tables of people, credentials and roles as rows of named values: their columns as
  \<^verbatim>\<open>alembic/versions/799a0ecebdd4_initial_schema.py\<close> creates them, the defaults of
  \<^verbatim>\<open>app/models/person.py\<close>, \<^verbatim>\<open>app/models/auth.py\<close> and \<^verbatim>\<open>app/models/rbac.py\<close>, the schemas and the
  service classes of the same names. A date is the instant of its midnight. What the services do
  beyond the common operations is in \<open>AccessAdmin\<close>.
\<close>

section \<open>Enumerations\<close>

definition provider_values :: "string list" where
  "provider_values = [''local'', ''sso'']"

definition mfa_type_values :: "string list" where
  "mfa_type_values = [''totp'', ''sms'', ''email'']"

definition session_status_values :: "string list" where
  "session_status_values = [''active'', ''revoked'', ''expired'']"

definition gender_values :: "string list" where
  "gender_values = [''unknown'', ''female'', ''male'', ''non_binary'', ''other'']"

definition contact_method_values :: "string list" where
  "contact_method_values = [''email'', ''phone'', ''sms'', ''push'']"

definition person_status_values :: "string list" where
  "person_status_values = [''active'', ''inactive'', ''archived'']"

section \<open>Tables of the migration\<close>

definition person_table :: db_table where
  "person_table = \<lparr>dt_columns =
    [\<lparr>dc_name = ''first_name'', dc_type = ColText (Some 80), dc_nullable = False\<rparr>,
     \<lparr>dc_name = ''last_name'', dc_type = ColText (Some 80), dc_nullable = False\<rparr>,
     \<lparr>dc_name = ''display_name'', dc_type = ColText (Some 120), dc_nullable = True\<rparr>,
     \<lparr>dc_name = ''avatar_url'', dc_type = ColText (Some 512), dc_nullable = True\<rparr>,
     \<lparr>dc_name = ''bio'', dc_type = ColText None, dc_nullable = True\<rparr>,
     \<lparr>dc_name = ''email'', dc_type = ColText (Some 255), dc_nullable = False\<rparr>,
     \<lparr>dc_name = ''email_verified'', dc_type = ColBool, dc_nullable = False\<rparr>,
     \<lparr>dc_name = ''phone'', dc_type = ColText (Some 40), dc_nullable = True\<rparr>,
     \<lparr>dc_name = ''date_of_birth'', dc_type = ColTime, dc_nullable = True\<rparr>,
     \<lparr>dc_name = ''gender'', dc_type = ColEnum [''unknown'', ''female'', ''male'', ''non_binary'', ''other''], dc_nullable = True\<rparr>,
     \<lparr>dc_name = ''preferred_contact_method'', dc_type = ColEnum [''email'', ''phone'', ''sms'', ''push''], dc_nullable = True\<rparr>,
     \<lparr>dc_name = ''locale'', dc_type = ColText (Some 16), dc_nullable = True\<rparr>,
     \<lparr>dc_name = ''timezone'', dc_type = ColText (Some 64), dc_nullable = True\<rparr>,
     \<lparr>dc_name = ''address_line1'', dc_type = ColText (Some 120), dc_nullable = True\<rparr>,
     \<lparr>dc_name = ''address_line2'', dc_type = ColText (Some 120), dc_nullable = True\<rparr>,
     \<lparr>dc_name = ''city'', dc_type = ColText (Some 80), dc_nullable = True\<rparr>,
     \<lparr>dc_name = ''region'', dc_type = ColText (Some 80), dc_nullable = True\<rparr>,
     \<lparr>dc_name = ''postal_code'', dc_type = ColText (Some 20), dc_nullable = True\<rparr>,
     \<lparr>dc_name = ''country_code'', dc_type = ColText (Some 2), dc_nullable = True\<rparr>,
     \<lparr>dc_name = ''status'', dc_type = ColEnum [''active'', ''inactive'', ''archived''], dc_nullable = True\<rparr>,
     \<lparr>dc_name = ''is_active'', dc_type = ColBool, dc_nullable = False\<rparr>,
     \<lparr>dc_name = ''marketing_opt_in'', dc_type = ColBool, dc_nullable = False\<rparr>,
     \<lparr>dc_name = ''notes'', dc_type = ColText None, dc_nullable = True\<rparr>,
     \<lparr>dc_name = ''metadata_'', dc_type = ColJson, dc_nullable = True\<rparr>],
     dt_unique = [([''email''], None)]\<rparr>"

definition user_credential_table :: db_table where
  "user_credential_table = \<lparr>dt_columns =
    [\<lparr>dc_name = ''person_id'', dc_type = ColRef People, dc_nullable = False\<rparr>,
     \<lparr>dc_name = ''provider'', dc_type = ColEnum [''local'', ''sso''], dc_nullable = False\<rparr>,
     \<lparr>dc_name = ''username'', dc_type = ColText (Some 150), dc_nullable = True\<rparr>,
     \<lparr>dc_name = ''password_hash'', dc_type = ColText (Some 255), dc_nullable = True\<rparr>,
     \<lparr>dc_name = ''must_change_password'', dc_type = ColBool, dc_nullable = False\<rparr>,
     \<lparr>dc_name = ''password_updated_at'', dc_type = ColTime, dc_nullable = True\<rparr>,
     \<lparr>dc_name = ''failed_login_attempts'', dc_type = ColInt, dc_nullable = False\<rparr>,
     \<lparr>dc_name = ''locked_until'', dc_type = ColTime, dc_nullable = True\<rparr>,
     \<lparr>dc_name = ''last_login_at'', dc_type = ColTime, dc_nullable = True\<rparr>,
     \<lparr>dc_name = ''is_active'', dc_type = ColBool, dc_nullable = False\<rparr>],
     dt_unique = []\<rparr>"

definition mfa_method_table :: db_table where
  "mfa_method_table = \<lparr>dt_columns =
    [\<lparr>dc_name = ''person_id'', dc_type = ColRef People, dc_nullable = False\<rparr>,
     \<lparr>dc_name = ''method_type'', dc_type = ColEnum [''totp'', ''sms'', ''email''], dc_nullable = False\<rparr>,
     \<lparr>dc_name = ''label'', dc_type = ColText (Some 120), dc_nullable = True\<rparr>,
     \<lparr>dc_name = ''secret'', dc_type = ColText (Some 255), dc_nullable = True\<rparr>,
     \<lparr>dc_name = ''phone'', dc_type = ColText (Some 40), dc_nullable = True\<rparr>,
     \<lparr>dc_name = ''email'', dc_type = ColText (Some 255), dc_nullable = True\<rparr>,
     \<lparr>dc_name = ''is_primary'', dc_type = ColBool, dc_nullable = False\<rparr>,
     \<lparr>dc_name = ''enabled'', dc_type = ColBool, dc_nullable = False\<rparr>,
     \<lparr>dc_name = ''is_active'', dc_type = ColBool, dc_nullable = False\<rparr>,
     \<lparr>dc_name = ''verified_at'', dc_type = ColTime, dc_nullable = True\<rparr>,
     \<lparr>dc_name = ''last_used_at'', dc_type = ColTime, dc_nullable = True\<rparr>,
     \<lparr>dc_name = ''last_totp_counter'', dc_type = ColInt, dc_nullable = True\<rparr>],
     dt_unique = [([''person_id''], Some ''is_primary'')]\<rparr>"

definition session_table :: db_table where
  "session_table = \<lparr>dt_columns =
    [\<lparr>dc_name = ''person_id'', dc_type = ColRef People, dc_nullable = False\<rparr>,
     \<lparr>dc_name = ''status'', dc_type = ColEnum [''active'', ''revoked'', ''expired''], dc_nullable = False\<rparr>,
     \<lparr>dc_name = ''token_hash'', dc_type = ColText (Some 255), dc_nullable = False\<rparr>,
     \<lparr>dc_name = ''previous_token_hash'', dc_type = ColText (Some 255), dc_nullable = True\<rparr>,
     \<lparr>dc_name = ''token_rotated_at'', dc_type = ColTime, dc_nullable = True\<rparr>,
     \<lparr>dc_name = ''ip_address'', dc_type = ColText (Some 64), dc_nullable = True\<rparr>,
     \<lparr>dc_name = ''user_agent'', dc_type = ColText (Some 512), dc_nullable = True\<rparr>,
     \<lparr>dc_name = ''last_seen_at'', dc_type = ColTime, dc_nullable = True\<rparr>,
     \<lparr>dc_name = ''expires_at'', dc_type = ColTime, dc_nullable = False\<rparr>,
     \<lparr>dc_name = ''revoked_at'', dc_type = ColTime, dc_nullable = True\<rparr>],
     dt_unique = []\<rparr>"

definition api_key_table :: db_table where
  "api_key_table = \<lparr>dt_columns =
    [\<lparr>dc_name = ''person_id'', dc_type = ColRef People, dc_nullable = True\<rparr>,
     \<lparr>dc_name = ''label'', dc_type = ColText (Some 120), dc_nullable = True\<rparr>,
     \<lparr>dc_name = ''key_hash'', dc_type = ColText (Some 255), dc_nullable = False\<rparr>,
     \<lparr>dc_name = ''is_active'', dc_type = ColBool, dc_nullable = False\<rparr>,
     \<lparr>dc_name = ''last_used_at'', dc_type = ColTime, dc_nullable = True\<rparr>,
     \<lparr>dc_name = ''expires_at'', dc_type = ColTime, dc_nullable = True\<rparr>,
     \<lparr>dc_name = ''revoked_at'', dc_type = ColTime, dc_nullable = True\<rparr>],
     dt_unique = []\<rparr>"

definition role_table :: db_table where
  "role_table = \<lparr>dt_columns =
    [\<lparr>dc_name = ''name'', dc_type = ColText (Some 80), dc_nullable = False\<rparr>,
     \<lparr>dc_name = ''description'', dc_type = ColText None, dc_nullable = True\<rparr>,
     \<lparr>dc_name = ''is_active'', dc_type = ColBool, dc_nullable = False\<rparr>],
     dt_unique = [([''name''], None)]\<rparr>"

definition permission_table :: db_table where
  "permission_table = \<lparr>dt_columns =
    [\<lparr>dc_name = ''key'', dc_type = ColText (Some 120), dc_nullable = False\<rparr>,
     \<lparr>dc_name = ''description'', dc_type = ColText None, dc_nullable = True\<rparr>,
     \<lparr>dc_name = ''is_active'', dc_type = ColBool, dc_nullable = False\<rparr>],
     dt_unique = [([''key''], None)]\<rparr>"

definition role_permission_table :: db_table where
  "role_permission_table = \<lparr>dt_columns =
    [\<lparr>dc_name = ''role_id'', dc_type = ColRef Roles, dc_nullable = False\<rparr>,
     \<lparr>dc_name = ''permission_id'', dc_type = ColRef Permissions, dc_nullable = False\<rparr>],
     dt_unique = [([''role_id'', ''permission_id''], None)]\<rparr>"

definition person_role_table :: db_table where
  "person_role_table = \<lparr>dt_columns =
    [\<lparr>dc_name = ''person_id'', dc_type = ColRef People, dc_nullable = False\<rparr>,
     \<lparr>dc_name = ''role_id'', dc_type = ColRef Roles, dc_nullable = False\<rparr>,
     \<lparr>dc_name = ''assigned_at'', dc_type = ColTime, dc_nullable = False\<rparr>],
     dt_unique = [([''person_id'', ''role_id''], None)]\<rparr>"

section \<open>Defaults of the mapped columns\<close>

definition person_defaults :: "(string \<times> col_default) list" where
  "person_defaults =
    [(''email_verified'', DefaultValue (BBool False)),
     (''gender'', DefaultValue (BText ''unknown'')),
     (''status'', DefaultValue (BText ''active'')),
     (''is_active'', DefaultValue (BBool True)),
     (''marketing_opt_in'', DefaultValue (BBool False))]"

definition user_credential_defaults :: "(string \<times> col_default) list" where
  "user_credential_defaults =
    [(''provider'', DefaultValue (BText ''local'')),
     (''must_change_password'', DefaultValue (BBool False)),
     (''failed_login_attempts'', DefaultValue (BInt 0)),
     (''is_active'', DefaultValue (BBool True))]"

definition mfa_method_defaults :: "(string \<times> col_default) list" where
  "mfa_method_defaults =
    [(''is_primary'', DefaultValue (BBool False)),
     (''enabled'', DefaultValue (BBool True)),
     (''is_active'', DefaultValue (BBool True))]"

definition session_defaults :: "(string \<times> col_default) list" where
  "session_defaults =
    [(''status'', DefaultValue (BText ''active''))]"

definition api_key_defaults :: "(string \<times> col_default) list" where
  "api_key_defaults =
    [(''is_active'', DefaultValue (BBool True))]"

definition role_defaults :: "(string \<times> col_default) list" where
  "role_defaults =
    [(''is_active'', DefaultValue (BBool True))]"

definition permission_defaults :: "(string \<times> col_default) list" where
  "permission_defaults =
    [(''is_active'', DefaultValue (BBool True))]"

definition role_permission_defaults :: "(string \<times> col_default) list" where
  "role_permission_defaults =
    []"

definition person_role_defaults :: "(string \<times> col_default) list" where
  "person_role_defaults =
    [(''assigned_at'', DefaultNow)]"

section \<open>Schemas\<close>

definition person_create :: "field_spec list" where
  "person_create =
    [(plain_field ''first_name'' FText False None)\<lparr>fs_min_len := Some 1, fs_max_len := Some 80\<rparr>,
     (plain_field ''last_name'' FText False None)\<lparr>fs_min_len := Some 1, fs_max_len := Some 80\<rparr>,
     (plain_field ''display_name'' FText True (Some BNull))\<lparr>fs_max_len := Some 120\<rparr>,
     (plain_field ''avatar_url'' FText True (Some BNull))\<lparr>fs_max_len := Some 512\<rparr>,
     (plain_field ''bio'' FText True (Some BNull))\<lparr>fs_max_len := Some 5000\<rparr>,
     plain_field ''email'' FEmail False None,
     plain_field ''email_verified'' FBool False (Some (BBool False)),
     (plain_field ''phone'' FText True (Some BNull))\<lparr>fs_max_len := Some 40\<rparr>,
     plain_field ''date_of_birth'' FTime True (Some BNull),
     plain_field ''gender'' FText False (Some (BText ''unknown'')),
     plain_field ''preferred_contact_method'' FText True (Some BNull),
     (plain_field ''locale'' FText True (Some BNull))\<lparr>fs_max_len := Some 16\<rparr>,
     (plain_field ''timezone'' FText True (Some BNull))\<lparr>fs_max_len := Some 64\<rparr>,
     (plain_field ''address_line1'' FText True (Some BNull))\<lparr>fs_max_len := Some 120\<rparr>,
     (plain_field ''address_line2'' FText True (Some BNull))\<lparr>fs_max_len := Some 120\<rparr>,
     (plain_field ''city'' FText True (Some BNull))\<lparr>fs_max_len := Some 80\<rparr>,
     (plain_field ''region'' FText True (Some BNull))\<lparr>fs_max_len := Some 80\<rparr>,
     (plain_field ''postal_code'' FText True (Some BNull))\<lparr>fs_max_len := Some 20\<rparr>,
     (plain_field ''country_code'' FText True (Some BNull))\<lparr>fs_max_len := Some 2\<rparr>,
     plain_field ''status'' FText False (Some (BText ''active'')),
     plain_field ''is_active'' FBool False (Some (BBool True)),
     plain_field ''marketing_opt_in'' FBool False (Some (BBool False)),
     (plain_field ''notes'' FText True (Some BNull))\<lparr>fs_max_len := Some 5000\<rparr>,
     plain_field ''metadata_'' FDict True (Some BNull)]"

definition person_update :: "field_spec list" where
  "person_update =
    [(plain_field ''first_name'' FText True (Some BNull))\<lparr>fs_max_len := Some 80\<rparr>,
     (plain_field ''last_name'' FText True (Some BNull))\<lparr>fs_max_len := Some 80\<rparr>,
     (plain_field ''display_name'' FText True (Some BNull))\<lparr>fs_max_len := Some 120\<rparr>,
     (plain_field ''avatar_url'' FText True (Some BNull))\<lparr>fs_max_len := Some 512\<rparr>,
     (plain_field ''bio'' FText True (Some BNull))\<lparr>fs_max_len := Some 5000\<rparr>,
     plain_field ''email'' FEmail True (Some BNull),
     plain_field ''email_verified'' FBool True (Some BNull),
     (plain_field ''phone'' FText True (Some BNull))\<lparr>fs_max_len := Some 40\<rparr>,
     plain_field ''date_of_birth'' FTime True (Some BNull),
     plain_field ''gender'' FText True (Some BNull),
     plain_field ''preferred_contact_method'' FText True (Some BNull),
     (plain_field ''locale'' FText True (Some BNull))\<lparr>fs_max_len := Some 16\<rparr>,
     (plain_field ''timezone'' FText True (Some BNull))\<lparr>fs_max_len := Some 64\<rparr>,
     (plain_field ''address_line1'' FText True (Some BNull))\<lparr>fs_max_len := Some 120\<rparr>,
     (plain_field ''address_line2'' FText True (Some BNull))\<lparr>fs_max_len := Some 120\<rparr>,
     (plain_field ''city'' FText True (Some BNull))\<lparr>fs_max_len := Some 80\<rparr>,
     (plain_field ''region'' FText True (Some BNull))\<lparr>fs_max_len := Some 80\<rparr>,
     (plain_field ''postal_code'' FText True (Some BNull))\<lparr>fs_max_len := Some 20\<rparr>,
     (plain_field ''country_code'' FText True (Some BNull))\<lparr>fs_max_len := Some 2\<rparr>,
     plain_field ''status'' FText True (Some BNull),
     plain_field ''is_active'' FBool True (Some BNull),
     plain_field ''marketing_opt_in'' FBool True (Some BNull),
     (plain_field ''notes'' FText True (Some BNull))\<lparr>fs_max_len := Some 5000\<rparr>,
     plain_field ''metadata_'' FDict True (Some BNull)]"

definition person_read :: "field_spec list" where
  "person_read = person_create"

definition user_credential_fields :: "field_spec list" where
  "user_credential_fields =
    [plain_field ''person_id'' FUuid False None,
     plain_field ''provider'' (FLiteral provider_values) False (Some (BText ''local'')),
     (plain_field ''username'' FText True (Some BNull))\<lparr>fs_max_len := Some 150\<rparr>,
     plain_field ''must_change_password'' FBool False (Some (BBool False)),
     plain_field ''password_updated_at'' FTime True (Some BNull),
     plain_field ''failed_login_attempts'' FInt False (Some (BInt 0)),
     plain_field ''locked_until'' FTime True (Some BNull),
     plain_field ''last_login_at'' FTime True (Some BNull),
     plain_field ''is_active'' FBool False (Some (BBool True))]"

definition user_credential_create :: "field_spec list" where
  "user_credential_create =
    user_credential_fields @ [(plain_field ''password_hash'' FText True (Some BNull))\<lparr>fs_max_len := Some 255\<rparr>]"

definition user_credential_update :: "field_spec list" where
  "user_credential_update =
    [plain_field ''person_id'' FUuid True (Some BNull),
     plain_field ''provider'' (FLiteral provider_values) True (Some BNull),
     (plain_field ''username'' FText True (Some BNull))\<lparr>fs_max_len := Some 150\<rparr>,
     (plain_field ''password_hash'' FText True (Some BNull))\<lparr>fs_max_len := Some 255\<rparr>,
     plain_field ''must_change_password'' FBool True (Some BNull),
     plain_field ''password_updated_at'' FTime True (Some BNull),
     plain_field ''failed_login_attempts'' FInt True (Some BNull),
     plain_field ''locked_until'' FTime True (Some BNull),
     plain_field ''last_login_at'' FTime True (Some BNull),
     plain_field ''is_active'' FBool True (Some BNull)]"

definition user_credential_read :: "field_spec list" where
  "user_credential_read = user_credential_fields"

definition mfa_method_fields :: "field_spec list" where
  "mfa_method_fields =
    [plain_field ''person_id'' FUuid False None,
     plain_field ''method_type'' (FLiteral mfa_type_values) False None,
     (plain_field ''label'' FText True (Some BNull))\<lparr>fs_max_len := Some 120\<rparr>,
     (plain_field ''phone'' FText True (Some BNull))\<lparr>fs_max_len := Some 40\<rparr>,
     (plain_field ''email'' FText True (Some BNull))\<lparr>fs_max_len := Some 255\<rparr>,
     plain_field ''is_primary'' FBool False (Some (BBool False)),
     plain_field ''enabled'' FBool False (Some (BBool True)),
     plain_field ''is_active'' FBool False (Some (BBool True)),
     plain_field ''verified_at'' FTime True (Some BNull),
     plain_field ''last_used_at'' FTime True (Some BNull)]"

definition mfa_method_create :: "field_spec list" where
  "mfa_method_create =
    mfa_method_fields @ [(plain_field ''secret'' FText True (Some BNull))\<lparr>fs_max_len := Some 255\<rparr>]"

definition mfa_method_update :: "field_spec list" where
  "mfa_method_update =
    [plain_field ''person_id'' FUuid True (Some BNull),
     plain_field ''method_type'' (FLiteral mfa_type_values) True (Some BNull),
     (plain_field ''label'' FText True (Some BNull))\<lparr>fs_max_len := Some 120\<rparr>,
     (plain_field ''secret'' FText True (Some BNull))\<lparr>fs_max_len := Some 255\<rparr>,
     (plain_field ''phone'' FText True (Some BNull))\<lparr>fs_max_len := Some 40\<rparr>,
     (plain_field ''email'' FText True (Some BNull))\<lparr>fs_max_len := Some 255\<rparr>,
     plain_field ''is_primary'' FBool True (Some BNull),
     plain_field ''enabled'' FBool True (Some BNull),
     plain_field ''is_active'' FBool True (Some BNull),
     plain_field ''verified_at'' FTime True (Some BNull),
     plain_field ''last_used_at'' FTime True (Some BNull)]"

definition mfa_method_read :: "field_spec list" where
  "mfa_method_read = mfa_method_fields"

definition session_create :: "field_spec list" where
  "session_create =
    [plain_field ''person_id'' FUuid False None,
     plain_field ''status'' (FLiteral session_status_values) False (Some (BText ''active'')),
     (plain_field ''token_hash'' FText False None)\<lparr>fs_min_len := Some 1, fs_max_len := Some 255\<rparr>,
     (plain_field ''ip_address'' FText True (Some BNull))\<lparr>fs_max_len := Some 64\<rparr>,
     (plain_field ''user_agent'' FText True (Some BNull))\<lparr>fs_max_len := Some 512\<rparr>,
     plain_field ''last_seen_at'' FTime True (Some BNull),
     plain_field ''expires_at'' FTime False None,
     plain_field ''revoked_at'' FTime True (Some BNull)]"

definition session_update :: "field_spec list" where
  "session_update =
    [plain_field ''person_id'' FUuid True (Some BNull),
     plain_field ''status'' (FLiteral session_status_values) True (Some BNull),
     (plain_field ''token_hash'' FText True (Some BNull))\<lparr>fs_max_len := Some 255\<rparr>,
     (plain_field ''ip_address'' FText True (Some BNull))\<lparr>fs_max_len := Some 64\<rparr>,
     (plain_field ''user_agent'' FText True (Some BNull))\<lparr>fs_max_len := Some 512\<rparr>,
     plain_field ''last_seen_at'' FTime True (Some BNull),
     plain_field ''expires_at'' FTime True (Some BNull),
     plain_field ''revoked_at'' FTime True (Some BNull)]"

definition session_read :: "field_spec list" where
  "session_read = session_create"

definition api_key_create :: "field_spec list" where
  "api_key_create =
    [plain_field ''person_id'' FUuid True (Some BNull),
     (plain_field ''label'' FText True (Some BNull))\<lparr>fs_max_len := Some 120\<rparr>,
     (plain_field ''key_hash'' FText False None)\<lparr>fs_min_len := Some 1, fs_max_len := Some 255\<rparr>,
     plain_field ''is_active'' FBool False (Some (BBool True)),
     plain_field ''last_used_at'' FTime True (Some BNull),
     plain_field ''expires_at'' FTime True (Some BNull),
     plain_field ''revoked_at'' FTime True (Some BNull)]"

definition api_key_update :: "field_spec list" where
  "api_key_update =
    [plain_field ''person_id'' FUuid True (Some BNull),
     (plain_field ''label'' FText True (Some BNull))\<lparr>fs_max_len := Some 120\<rparr>,
     (plain_field ''key_hash'' FText True (Some BNull))\<lparr>fs_max_len := Some 255\<rparr>,
     plain_field ''is_active'' FBool True (Some BNull),
     plain_field ''last_used_at'' FTime True (Some BNull),
     plain_field ''expires_at'' FTime True (Some BNull),
     plain_field ''revoked_at'' FTime True (Some BNull)]"

definition api_key_read :: "field_spec list" where
  "api_key_read = api_key_create"

definition role_create :: "field_spec list" where
  "role_create =
    [(plain_field ''name'' FText False None)\<lparr>fs_min_len := Some 1, fs_max_len := Some 80\<rparr>,
     plain_field ''description'' FText True (Some BNull),
     plain_field ''is_active'' FBool False (Some (BBool True))]"

definition role_update :: "field_spec list" where
  "role_update =
    [(plain_field ''name'' FText True (Some BNull))\<lparr>fs_max_len := Some 80\<rparr>,
     plain_field ''description'' FText True (Some BNull),
     plain_field ''is_active'' FBool True (Some BNull)]"

definition role_read :: "field_spec list" where
  "role_read = role_create"

definition permission_create :: "field_spec list" where
  "permission_create =
    [(plain_field ''key'' FText False None)\<lparr>fs_min_len := Some 1, fs_max_len := Some 120\<rparr>,
     plain_field ''description'' FText True (Some BNull),
     plain_field ''is_active'' FBool False (Some (BBool True))]"

definition permission_update :: "field_spec list" where
  "permission_update =
    [(plain_field ''key'' FText True (Some BNull))\<lparr>fs_max_len := Some 120\<rparr>,
     plain_field ''description'' FText True (Some BNull),
     plain_field ''is_active'' FBool True (Some BNull)]"

definition permission_read :: "field_spec list" where
  "permission_read = permission_create"

definition role_permission_create :: "field_spec list" where
  "role_permission_create =
    [plain_field ''role_id'' FUuid False None,
     plain_field ''permission_id'' FUuid False None]"

definition role_permission_update :: "field_spec list" where
  "role_permission_update =
    [plain_field ''role_id'' FUuid True (Some BNull),
     plain_field ''permission_id'' FUuid True (Some BNull)]"

definition role_permission_read :: "field_spec list" where
  "role_permission_read = role_permission_create"

definition person_role_create :: "field_spec list" where
  "person_role_create =
    [plain_field ''person_id'' FUuid False None,
     plain_field ''role_id'' FUuid False None]"

definition person_role_update :: "field_spec list" where
  "person_role_update =
    [plain_field ''person_id'' FUuid True (Some BNull),
     plain_field ''role_id'' FUuid True (Some BNull)]"

definition person_role_read :: "field_spec list" where
  "person_role_read = person_role_create @ [plain_field ''assigned_at'' FTime False None]"

section \<open>Services\<close>

definition person_service :: service where
  "person_service = \<lparr>sv_table = People, sv_missing = ''Person not found'',
     sv_defaults = person_defaults, sv_create = person_create,
     sv_update = Some person_update, sv_read = person_read,
     sv_requires =
    [],
     sv_update_requires =
    [],
     sv_delete = HardDelete,
     sv_filters = [FilterLike ''email'', FilterEnum ''status'' person_status_values, FilterBool ''is_active''],
     sv_orders = [''created_at'', ''last_name'', ''email''], sv_counts = False\<rparr>"

definition user_credential_service :: service where
  "user_credential_service = \<lparr>sv_table = UserCredentials, sv_missing = ''User credential not found'',
     sv_defaults = user_credential_defaults, sv_create = user_credential_create,
     sv_update = Some user_credential_update, sv_read = user_credential_read,
     sv_requires =
    [\<lparr>req_field = ''person_id'', req_table = People, req_message = ''Person not found'', req_null = NullNoUuid\<rparr>],
     sv_update_requires =
    [\<lparr>req_field = ''person_id'', req_table = People, req_message = ''Person not found'', req_null = NullNoUuid\<rparr>],
     sv_delete = SoftDelete [(''is_active'', DefaultValue (BBool False))],
     sv_filters = [FilterRef ''person_id'', FilterEnum ''provider'' provider_values, FilterActive ''is_active''],
     sv_orders = [''created_at'', ''username'', ''last_login_at''], sv_counts = False\<rparr>"

definition mfa_method_service :: service where
  "mfa_method_service = \<lparr>sv_table = MfaMethods, sv_missing = ''MFA method not found'',
     sv_defaults = mfa_method_defaults, sv_create = mfa_method_create,
     sv_update = Some mfa_method_update, sv_read = mfa_method_read,
     sv_requires =
    [\<lparr>req_field = ''person_id'', req_table = People, req_message = ''Person not found'', req_null = NullNoUuid\<rparr>],
     sv_update_requires =
    [\<lparr>req_field = ''person_id'', req_table = People, req_message = ''Person not found'', req_null = NullNoUuid\<rparr>],
     sv_delete = SoftDelete [(''is_active'', DefaultValue (BBool False)), (''enabled'', DefaultValue (BBool False)), (''is_primary'', DefaultValue (BBool False))],
     sv_filters = [FilterRef ''person_id'', FilterEnum ''method_type'' mfa_type_values, FilterBool ''is_primary'', FilterBool ''enabled'', FilterActive ''is_active''],
     sv_orders = [''created_at'', ''method_type'', ''is_primary''], sv_counts = False\<rparr>"

definition session_service :: service where
  "session_service = \<lparr>sv_table = Sessions, sv_missing = ''Session not found'',
     sv_defaults = session_defaults, sv_create = session_create,
     sv_update = Some session_update, sv_read = session_read,
     sv_requires =
    [\<lparr>req_field = ''person_id'', req_table = People, req_message = ''Person not found'', req_null = NullNoUuid\<rparr>],
     sv_update_requires =
    [\<lparr>req_field = ''person_id'', req_table = People, req_message = ''Person not found'', req_null = NullNoUuid\<rparr>],
     sv_delete = SoftDelete [(''status'', DefaultValue (BText ''revoked'')), (''revoked_at'', DefaultNow)],
     sv_filters = [FilterRef ''person_id'', FilterEnum ''status'' session_status_values],
     sv_orders = [''created_at'', ''last_seen_at'', ''status''], sv_counts = False\<rparr>"

definition api_key_service :: service where
  "api_key_service = \<lparr>sv_table = ApiKeys, sv_missing = ''API key not found'',
     sv_defaults = api_key_defaults, sv_create = api_key_create,
     sv_update = Some api_key_update, sv_read = api_key_read,
     sv_requires =
    [\<lparr>req_field = ''person_id'', req_table = People, req_message = ''Person not found'', req_null = NullSkipped\<rparr>],
     sv_update_requires =
    [\<lparr>req_field = ''person_id'', req_table = People, req_message = ''Person not found'', req_null = NullSkipped\<rparr>],
     sv_delete = SoftDelete [(''is_active'', DefaultValue (BBool False)), (''revoked_at'', DefaultNow)],
     sv_filters = [FilterRef ''person_id'', FilterActive ''is_active''],
     sv_orders = [''created_at'', ''label''], sv_counts = False\<rparr>"

definition role_service :: service where
  "role_service = \<lparr>sv_table = Roles, sv_missing = ''Role not found'',
     sv_defaults = role_defaults, sv_create = role_create,
     sv_update = Some role_update, sv_read = role_read,
     sv_requires =
    [],
     sv_update_requires =
    [],
     sv_delete = SoftDelete [(''is_active'', DefaultValue (BBool False))],
     sv_filters = [FilterActive ''is_active''],
     sv_orders = [''created_at'', ''name''], sv_counts = False\<rparr>"

definition permission_service :: service where
  "permission_service = \<lparr>sv_table = Permissions, sv_missing = ''Permission not found'',
     sv_defaults = permission_defaults, sv_create = permission_create,
     sv_update = Some permission_update, sv_read = permission_read,
     sv_requires =
    [],
     sv_update_requires =
    [],
     sv_delete = SoftDelete [(''is_active'', DefaultValue (BBool False))],
     sv_filters = [FilterActive ''is_active''],
     sv_orders = [''created_at'', ''key''], sv_counts = False\<rparr>"

definition role_permission_service :: service where
  "role_permission_service = \<lparr>sv_table = RolePermissions, sv_missing = ''Role permission not found'',
     sv_defaults = role_permission_defaults, sv_create = role_permission_create,
     sv_update = Some role_permission_update, sv_read = role_permission_read,
     sv_requires =
    [\<lparr>req_field = ''role_id'', req_table = Roles, req_message = ''Role not found'', req_null = NullNotFound\<rparr>,
     \<lparr>req_field = ''permission_id'', req_table = Permissions, req_message = ''Permission not found'', req_null = NullNotFound\<rparr>],
     sv_update_requires =
    [\<lparr>req_field = ''role_id'', req_table = Roles, req_message = ''Role not found'', req_null = NullNotFound\<rparr>,
     \<lparr>req_field = ''permission_id'', req_table = Permissions, req_message = ''Permission not found'', req_null = NullNotFound\<rparr>],
     sv_delete = HardDelete,
     sv_filters = [FilterRef ''role_id'', FilterRef ''permission_id''],
     sv_orders = [''role_id''], sv_counts = False\<rparr>"

definition person_role_service :: service where
  "person_role_service = \<lparr>sv_table = PersonRoles, sv_missing = ''Person role not found'',
     sv_defaults = person_role_defaults, sv_create = person_role_create,
     sv_update = Some person_role_update, sv_read = person_role_read,
     sv_requires =
    [\<lparr>req_field = ''person_id'', req_table = People, req_message = ''Person not found'', req_null = NullNotFound\<rparr>,
     \<lparr>req_field = ''role_id'', req_table = Roles, req_message = ''Role not found'', req_null = NullNotFound\<rparr>],
     sv_update_requires =
    [\<lparr>req_field = ''person_id'', req_table = People, req_message = ''Person not found'', req_null = NullNotFound\<rparr>,
     \<lparr>req_field = ''role_id'', req_table = Roles, req_message = ''Role not found'', req_null = NullNotFound\<rparr>],
     sv_delete = HardDelete,
     sv_filters = [FilterRef ''person_id'', FilterRef ''role_id''],
     sv_orders = [''assigned_at''], sv_counts = False\<rparr>"

definition access_services :: "service list" where
  "access_services =
    [person_service,
     user_credential_service,
     mfa_method_service,
     session_service,
     api_key_service,
     role_service,
     permission_service,
     role_permission_service,
     person_role_service]"

end
