(* ===== verification/BillingTables.thy ===== *)
theory BillingTables
  imports CrudModel
begin

text \<open>
  The fourteen tables of the billing: their columns as \<^verbatim>\<open>alembic/versions/002_billing_schema.py\<close>
  creates them, the defaults of \<^verbatim>\<open>app/models/billing.py\<close>, the schemas of
  \<^verbatim>\<open>app/schemas/billing.py\<close> (create, update and read) and the classes of
  \<^verbatim>\<open>app/services/billing.py\<close>. The key and the two time stamps, which every table has, are in
  the rows themselves; the attribute of the column \<^verbatim>\<open>metadata\<close> is \<^verbatim>\<open>metadata_\<close>.
\<close>

section \<open>Enumerations\<close>

definition price_type :: "string list" where
  "price_type = [''one_time'', ''recurring'']"

definition billing_scheme :: "string list" where
  "billing_scheme = [''per_unit'', ''tiered'']"

definition recurring_interval :: "string list" where
  "recurring_interval = [''day'', ''week'', ''month'', ''year'']"

definition subscription_status :: "string list" where
  "subscription_status = [''incomplete'', ''trialing'', ''active'', ''past_due'', ''canceled'', ''unpaid'', ''paused'']"

definition invoice_status :: "string list" where
  "invoice_status = [''draft'', ''open'', ''paid'', ''void'', ''uncollectible'']"

definition payment_method_type :: "string list" where
  "payment_method_type = [''card'', ''bank_account'', ''wallet'', ''other'']"

definition payment_intent_status :: "string list" where
  "payment_intent_status = [''requires_payment_method'', ''requires_confirmation'', ''processing'', ''succeeded'', ''canceled'', ''requires_action'']"

definition usage_action :: "string list" where
  "usage_action = [''increment'', ''set'']"

definition coupon_duration :: "string list" where
  "coupon_duration = [''once'', ''repeating'', ''forever'']"

definition entitlement_value_type :: "string list" where
  "entitlement_value_type = [''boolean'', ''numeric'', ''string'', ''unlimited'']"

definition webhook_event_status :: "string list" where
  "webhook_event_status = [''pending'', ''processed'', ''failed'']"

section \<open>Tables of the migration\<close>

definition product_table :: db_table where
  "product_table = \<lparr>dt_columns =
    [\<lparr>dc_name = ''name'', dc_type = ColText (Some 255), dc_nullable = False\<rparr>,
     \<lparr>dc_name = ''description'', dc_type = ColText None, dc_nullable = True\<rparr>,
     \<lparr>dc_name = ''is_active'', dc_type = ColBool, dc_nullable = False\<rparr>,
     \<lparr>dc_name = ''metadata_'', dc_type = ColJson, dc_nullable = True\<rparr>],
     dt_unique = []\<rparr>"

definition price_table :: db_table where
  "price_table = \<lparr>dt_columns =
    [\<lparr>dc_name = ''product_id'', dc_type = ColRef Products, dc_nullable = False\<rparr>,
     \<lparr>dc_name = ''currency'', dc_type = ColText (Some 3), dc_nullable = False\<rparr>,
     \<lparr>dc_name = ''unit_amount'', dc_type = ColInt, dc_nullable = False\<rparr>,
     \<lparr>dc_name = ''type'', dc_type = ColEnum [''one_time'', ''recurring''], dc_nullable = False\<rparr>,
     \<lparr>dc_name = ''billing_scheme'', dc_type = ColEnum [''per_unit'', ''tiered''], dc_nullable = True\<rparr>,
     \<lparr>dc_name = ''recurring_interval'', dc_type = ColEnum [''day'', ''week'', ''month'', ''year''], dc_nullable = True\<rparr>,
     \<lparr>dc_name = ''recurring_interval_count'', dc_type = ColInt, dc_nullable = True\<rparr>,
     \<lparr>dc_name = ''trial_period_days'', dc_type = ColInt, dc_nullable = True\<rparr>,
     \<lparr>dc_name = ''tiers_json'', dc_type = ColJson, dc_nullable = True\<rparr>,
     \<lparr>dc_name = ''lookup_key'', dc_type = ColText (Some 255), dc_nullable = True\<rparr>,
     \<lparr>dc_name = ''is_active'', dc_type = ColBool, dc_nullable = False\<rparr>,
     \<lparr>dc_name = ''metadata_'', dc_type = ColJson, dc_nullable = True\<rparr>],
     dt_unique = [([''lookup_key''], None)]\<rparr>"

definition customer_table :: db_table where
  "customer_table = \<lparr>dt_columns =
    [\<lparr>dc_name = ''person_id'', dc_type = ColRef People, dc_nullable = True\<rparr>,
     \<lparr>dc_name = ''name'', dc_type = ColText (Some 255), dc_nullable = False\<rparr>,
     \<lparr>dc_name = ''email'', dc_type = ColText (Some 255), dc_nullable = False\<rparr>,
     \<lparr>dc_name = ''currency'', dc_type = ColText (Some 3), dc_nullable = True\<rparr>,
     \<lparr>dc_name = ''balance'', dc_type = ColInt, dc_nullable = True\<rparr>,
     \<lparr>dc_name = ''tax_id'', dc_type = ColText (Some 80), dc_nullable = True\<rparr>,
     \<lparr>dc_name = ''external_id'', dc_type = ColText (Some 255), dc_nullable = True\<rparr>,
     \<lparr>dc_name = ''is_active'', dc_type = ColBool, dc_nullable = False\<rparr>,
     \<lparr>dc_name = ''metadata_'', dc_type = ColJson, dc_nullable = True\<rparr>],
     dt_unique = [([''person_id''], None)]\<rparr>"

definition subscription_table :: db_table where
  "subscription_table = \<lparr>dt_columns =
    [\<lparr>dc_name = ''customer_id'', dc_type = ColRef Customers, dc_nullable = False\<rparr>,
     \<lparr>dc_name = ''status'', dc_type = ColEnum [''incomplete'', ''trialing'', ''active'', ''past_due'', ''canceled'', ''unpaid'', ''paused''], dc_nullable = True\<rparr>,
     \<lparr>dc_name = ''current_period_start'', dc_type = ColTime, dc_nullable = True\<rparr>,
     \<lparr>dc_name = ''current_period_end'', dc_type = ColTime, dc_nullable = True\<rparr>,
     \<lparr>dc_name = ''trial_start'', dc_type = ColTime, dc_nullable = True\<rparr>,
     \<lparr>dc_name = ''trial_end'', dc_type = ColTime, dc_nullable = True\<rparr>,
     \<lparr>dc_name = ''cancel_at_period_end'', dc_type = ColBool, dc_nullable = True\<rparr>,
     \<lparr>dc_name = ''cancel_at'', dc_type = ColTime, dc_nullable = True\<rparr>,
     \<lparr>dc_name = ''canceled_at'', dc_type = ColTime, dc_nullable = True\<rparr>,
     \<lparr>dc_name = ''ended_at'', dc_type = ColTime, dc_nullable = True\<rparr>,
     \<lparr>dc_name = ''external_id'', dc_type = ColText (Some 255), dc_nullable = True\<rparr>,
     \<lparr>dc_name = ''is_active'', dc_type = ColBool, dc_nullable = False\<rparr>,
     \<lparr>dc_name = ''metadata_'', dc_type = ColJson, dc_nullable = True\<rparr>],
     dt_unique = []\<rparr>"

definition subscription_item_table :: db_table where
  "subscription_item_table = \<lparr>dt_columns =
    [\<lparr>dc_name = ''subscription_id'', dc_type = ColRef Subscriptions, dc_nullable = False\<rparr>,
     \<lparr>dc_name = ''price_id'', dc_type = ColRef Prices, dc_nullable = False\<rparr>,
     \<lparr>dc_name = ''quantity'', dc_type = ColInt, dc_nullable = True\<rparr>,
     \<lparr>dc_name = ''is_active'', dc_type = ColBool, dc_nullable = False\<rparr>,
     \<lparr>dc_name = ''metadata_'', dc_type = ColJson, dc_nullable = True\<rparr>],
     dt_unique = [([''subscription_id'', ''price_id''], None)]\<rparr>"

definition invoice_table :: db_table where
  "invoice_table = \<lparr>dt_columns =
    [\<lparr>dc_name = ''customer_id'', dc_type = ColRef Customers, dc_nullable = False\<rparr>,
     \<lparr>dc_name = ''subscription_id'', dc_type = ColRef Subscriptions, dc_nullable = True\<rparr>,
     \<lparr>dc_name = ''number'', dc_type = ColText (Some 80), dc_nullable = True\<rparr>,
     \<lparr>dc_name = ''status'', dc_type = ColEnum [''draft'', ''open'', ''paid'', ''void'', ''uncollectible''], dc_nullable = True\<rparr>,
     \<lparr>dc_name = ''currency'', dc_type = ColText (Some 3), dc_nullable = True\<rparr>,
     \<lparr>dc_name = ''subtotal'', dc_type = ColInt, dc_nullable = True\<rparr>,
     \<lparr>dc_name = ''tax'', dc_type = ColInt, dc_nullable = True\<rparr>,
     \<lparr>dc_name = ''total'', dc_type = ColInt, dc_nullable = True\<rparr>,
     \<lparr>dc_name = ''amount_due'', dc_type = ColInt, dc_nullable = True\<rparr>,
     \<lparr>dc_name = ''amount_paid'', dc_type = ColInt, dc_nullable = True\<rparr>,
     \<lparr>dc_name = ''due_date'', dc_type = ColTime, dc_nullable = True\<rparr>,
     \<lparr>dc_name = ''paid_at'', dc_type = ColTime, dc_nullable = True\<rparr>,
     \<lparr>dc_name = ''period_start'', dc_type = ColTime, dc_nullable = True\<rparr>,
     \<lparr>dc_name = ''period_end'', dc_type = ColTime, dc_nullable = True\<rparr>,
     \<lparr>dc_name = ''external_id'', dc_type = ColText (Some 255), dc_nullable = True\<rparr>,
     \<lparr>dc_name = ''is_active'', dc_type = ColBool, dc_nullable = False\<rparr>,
     \<lparr>dc_name = ''metadata_'', dc_type = ColJson, dc_nullable = True\<rparr>],
     dt_unique = [([''number''], None)]\<rparr>"

definition invoice_item_table :: db_table where
  "invoice_item_table = \<lparr>dt_columns =
    [\<lparr>dc_name = ''invoice_id'', dc_type = ColRef Invoices, dc_nullable = False\<rparr>,
     \<lparr>dc_name = ''price_id'', dc_type = ColRef Prices, dc_nullable = True\<rparr>,
     \<lparr>dc_name = ''subscription_item_id'', dc_type = ColRef SubscriptionItems, dc_nullable = True\<rparr>,
     \<lparr>dc_name = ''description'', dc_type = ColText None, dc_nullable = True\<rparr>,
     \<lparr>dc_name = ''quantity'', dc_type = ColInt, dc_nullable = True\<rparr>,
     \<lparr>dc_name = ''unit_amount'', dc_type = ColInt, dc_nullable = True\<rparr>,
     \<lparr>dc_name = ''amount'', dc_type = ColInt, dc_nullable = True\<rparr>,
     \<lparr>dc_name = ''period_start'', dc_type = ColTime, dc_nullable = True\<rparr>,
     \<lparr>dc_name = ''period_end'', dc_type = ColTime, dc_nullable = True\<rparr>,
     \<lparr>dc_name = ''metadata_'', dc_type = ColJson, dc_nullable = True\<rparr>],
     dt_unique = []\<rparr>"

definition payment_method_table :: db_table where
  "payment_method_table = \<lparr>dt_columns =
    [\<lparr>dc_name = ''customer_id'', dc_type = ColRef Customers, dc_nullable = False\<rparr>,
     \<lparr>dc_name = ''type'', dc_type = ColEnum [''card'', ''bank_account'', ''wallet'', ''other''], dc_nullable = False\<rparr>,
     \<lparr>dc_name = ''details'', dc_type = ColJson, dc_nullable = True\<rparr>,
     \<lparr>dc_name = ''is_default'', dc_type = ColBool, dc_nullable = True\<rparr>,
     \<lparr>dc_name = ''is_active'', dc_type = ColBool, dc_nullable = False\<rparr>,
     \<lparr>dc_name = ''external_id'', dc_type = ColText (Some 255), dc_nullable = True\<rparr>],
     dt_unique = []\<rparr>"

definition payment_intent_table :: db_table where
  "payment_intent_table = \<lparr>dt_columns =
    [\<lparr>dc_name = ''customer_id'', dc_type = ColRef Customers, dc_nullable = False\<rparr>,
     \<lparr>dc_name = ''invoice_id'', dc_type = ColRef Invoices, dc_nullable = True\<rparr>,
     \<lparr>dc_name = ''payment_method_id'', dc_type = ColRef PaymentMethods, dc_nullable = True\<rparr>,
     \<lparr>dc_name = ''amount'', dc_type = ColInt, dc_nullable = False\<rparr>,
     \<lparr>dc_name = ''currency'', dc_type = ColText (Some 3), dc_nullable = False\<rparr>,
     \<lparr>dc_name = ''status'', dc_type = ColEnum [''requires_payment_method'', ''requires_confirmation'', ''processing'', ''succeeded'', ''canceled'', ''requires_action''], dc_nullable = True\<rparr>,
     \<lparr>dc_name = ''failure_code'', dc_type = ColText (Some 80), dc_nullable = True\<rparr>,
     \<lparr>dc_name = ''failure_message'', dc_type = ColText None, dc_nullable = True\<rparr>,
     \<lparr>dc_name = ''external_id'', dc_type = ColText (Some 255), dc_nullable = True\<rparr>,
     \<lparr>dc_name = ''metadata_'', dc_type = ColJson, dc_nullable = True\<rparr>],
     dt_unique = []\<rparr>"

definition usage_record_table :: db_table where
  "usage_record_table = \<lparr>dt_columns =
    [\<lparr>dc_name = ''subscription_item_id'', dc_type = ColRef SubscriptionItems, dc_nullable = False\<rparr>,
     \<lparr>dc_name = ''quantity'', dc_type = ColInt, dc_nullable = False\<rparr>,
     \<lparr>dc_name = ''action'', dc_type = ColEnum [''increment'', ''set''], dc_nullable = True\<rparr>,
     \<lparr>dc_name = ''recorded_at'', dc_type = ColTime, dc_nullable = False\<rparr>,
     \<lparr>dc_name = ''idempotency_key'', dc_type = ColText (Some 255), dc_nullable = False\<rparr>],
     dt_unique = [([''idempotency_key''], None)]\<rparr>"

definition coupon_table :: db_table where
  "coupon_table = \<lparr>dt_columns =
    [\<lparr>dc_name = ''name'', dc_type = ColText (Some 255), dc_nullable = False\<rparr>,
     \<lparr>dc_name = ''code'', dc_type = ColText (Some 80), dc_nullable = False\<rparr>,
     \<lparr>dc_name = ''percent_off'', dc_type = ColInt, dc_nullable = True\<rparr>,
     \<lparr>dc_name = ''amount_off'', dc_type = ColInt, dc_nullable = True\<rparr>,
     \<lparr>dc_name = ''currency'', dc_type = ColText (Some 3), dc_nullable = True\<rparr>,
     \<lparr>dc_name = ''duration'', dc_type = ColEnum [''once'', ''repeating'', ''forever''], dc_nullable = False\<rparr>,
     \<lparr>dc_name = ''duration_in_months'', dc_type = ColInt, dc_nullable = True\<rparr>,
     \<lparr>dc_name = ''max_redemptions'', dc_type = ColInt, dc_nullable = True\<rparr>,
     \<lparr>dc_name = ''times_redeemed'', dc_type = ColInt, dc_nullable = True\<rparr>,
     \<lparr>dc_name = ''valid'', dc_type = ColBool, dc_nullable = True\<rparr>,
     \<lparr>dc_name = ''redeem_by'', dc_type = ColTime, dc_nullable = True\<rparr>,
     \<lparr>dc_name = ''metadata_'', dc_type = ColJson, dc_nullable = True\<rparr>],
     dt_unique = [([''code''], None)]\<rparr>"

definition discount_table :: db_table where
  "discount_table = \<lparr>dt_columns =
    [\<lparr>dc_name = ''coupon_id'', dc_type = ColRef Coupons, dc_nullable = False\<rparr>,
     \<lparr>dc_name = ''customer_id'', dc_type = ColRef Customers, dc_nullable = True\<rparr>,
     \<lparr>dc_name = ''subscription_id'', dc_type = ColRef Subscriptions, dc_nullable = True\<rparr>,
     \<lparr>dc_name = ''start'', dc_type = ColTime, dc_nullable = False\<rparr>,
     \<lparr>dc_name = ''end'', dc_type = ColTime, dc_nullable = True\<rparr>,
     \<lparr>dc_name = ''external_id'', dc_type = ColText (Some 255), dc_nullable = True\<rparr>],
     dt_unique = []\<rparr>"

definition entitlement_table :: db_table where
  "entitlement_table = \<lparr>dt_columns =
    [\<lparr>dc_name = ''product_id'', dc_type = ColRef Products, dc_nullable = False\<rparr>,
     \<lparr>dc_name = ''feature_key'', dc_type = ColText (Some 120), dc_nullable = False\<rparr>,
     \<lparr>dc_name = ''value_type'', dc_type = ColEnum [''boolean'', ''numeric'', ''string'', ''unlimited''], dc_nullable = False\<rparr>,
     \<lparr>dc_name = ''value_text'', dc_type = ColText None, dc_nullable = True\<rparr>,
     \<lparr>dc_name = ''value_numeric'', dc_type = ColInt, dc_nullable = True\<rparr>,
     \<lparr>dc_name = ''metadata_'', dc_type = ColJson, dc_nullable = True\<rparr>],
     dt_unique = [([''product_id'', ''feature_key''], None)]\<rparr>"

definition webhook_event_table :: db_table where
  "webhook_event_table = \<lparr>dt_columns =
    [\<lparr>dc_name = ''provider'', dc_type = ColText (Some 80), dc_nullable = False\<rparr>,
     \<lparr>dc_name = ''event_type'', dc_type = ColText (Some 120), dc_nullable = False\<rparr>,
     \<lparr>dc_name = ''event_id'', dc_type = ColText (Some 255), dc_nullable = False\<rparr>,
     \<lparr>dc_name = ''payload'', dc_type = ColJson, dc_nullable = True\<rparr>,
     \<lparr>dc_name = ''status'', dc_type = ColEnum [''pending'', ''processed'', ''failed''], dc_nullable = True\<rparr>,
     \<lparr>dc_name = ''error_message'', dc_type = ColText None, dc_nullable = True\<rparr>,
     \<lparr>dc_name = ''processed_at'', dc_type = ColTime, dc_nullable = True\<rparr>],
     dt_unique = [([''event_id''], None)]\<rparr>"

section \<open>Defaults of the mapped columns\<close>

definition product_defaults :: "(string \<times> col_default) list" where
  "product_defaults =
    [(''is_active'', DefaultValue (BBool True))]"

definition price_defaults :: "(string \<times> col_default) list" where
  "price_defaults =
    [(''billing_scheme'', DefaultValue (BText ''per_unit'')),
     (''recurring_interval_count'', DefaultValue (BInt 1)),
     (''is_active'', DefaultValue (BBool True))]"

definition customer_defaults :: "(string \<times> col_default) list" where
  "customer_defaults =
    [(''currency'', DefaultValue (BText ''usd'')),
     (''balance'', DefaultValue (BInt 0)),
     (''is_active'', DefaultValue (BBool True))]"

definition subscription_defaults :: "(string \<times> col_default) list" where
  "subscription_defaults =
    [(''status'', DefaultValue (BText ''incomplete'')),
     (''cancel_at_period_end'', DefaultValue (BBool False)),
     (''is_active'', DefaultValue (BBool True))]"

definition subscription_item_defaults :: "(string \<times> col_default) list" where
  "subscription_item_defaults =
    [(''quantity'', DefaultValue (BInt 1)),
     (''is_active'', DefaultValue (BBool True))]"

definition invoice_defaults :: "(string \<times> col_default) list" where
  "invoice_defaults =
    [(''status'', DefaultValue (BText ''draft'')),
     (''currency'', DefaultValue (BText ''usd'')),
     (''subtotal'', DefaultValue (BInt 0)),
     (''tax'', DefaultValue (BInt 0)),
     (''total'', DefaultValue (BInt 0)),
     (''amount_due'', DefaultValue (BInt 0)),
     (''amount_paid'', DefaultValue (BInt 0)),
     (''is_active'', DefaultValue (BBool True))]"

definition invoice_item_defaults :: "(string \<times> col_default) list" where
  "invoice_item_defaults =
    [(''quantity'', DefaultValue (BInt 1)),
     (''unit_amount'', DefaultValue (BInt 0)),
     (''amount'', DefaultValue (BInt 0))]"

definition payment_method_defaults :: "(string \<times> col_default) list" where
  "payment_method_defaults =
    [(''is_default'', DefaultValue (BBool False)),
     (''is_active'', DefaultValue (BBool True))]"

definition payment_intent_defaults :: "(string \<times> col_default) list" where
  "payment_intent_defaults =
    [(''status'', DefaultValue (BText ''requires_payment_method''))]"

definition usage_record_defaults :: "(string \<times> col_default) list" where
  "usage_record_defaults =
    [(''action'', DefaultValue (BText ''increment'')),
     (''recorded_at'', DefaultNow)]"

definition coupon_defaults :: "(string \<times> col_default) list" where
  "coupon_defaults =
    [(''times_redeemed'', DefaultValue (BInt 0)),
     (''valid'', DefaultValue (BBool True))]"

definition discount_defaults :: "(string \<times> col_default) list" where
  "discount_defaults =
    [(''start'', DefaultNow)]"

definition entitlement_defaults :: "(string \<times> col_default) list" where
  "entitlement_defaults =
    []"

definition webhook_event_defaults :: "(string \<times> col_default) list" where
  "webhook_event_defaults =
    [(''status'', DefaultValue (BText ''pending''))]"

section \<open>Schemas\<close>

definition product_create :: "field_spec list" where
  "product_create =
    [(plain_field ''name'' FText False None)\<lparr>fs_min_len := Some 1, fs_max_len := Some 255\<rparr>,
     plain_field ''description'' FText True (Some BNull),
     plain_field ''is_active'' FBool False (Some (BBool True)),
     plain_field ''metadata_'' FDict True (Some BNull)]"

definition product_update :: "field_spec list" where
  "product_update =
    [(plain_field ''name'' FText True (Some BNull))\<lparr>fs_max_len := Some 255\<rparr>,
     plain_field ''description'' FText True (Some BNull),
     plain_field ''is_active'' FBool True (Some BNull),
     plain_field ''metadata_'' FDict True (Some BNull)]"

definition product_read :: "field_spec list" where
  "product_read =
    product_create"

definition price_create :: "field_spec list" where
  "price_create =
    [plain_field ''product_id'' FUuid False None,
     (plain_field ''currency'' FText False None)\<lparr>fs_min_len := Some 3, fs_max_len := Some 3\<rparr>,
     (plain_field ''unit_amount'' FInt False None)\<lparr>fs_ge := Some 0\<rparr>,
     plain_field ''type'' (FLiteral [''one_time'', ''recurring'']) False None,
     plain_field ''billing_scheme'' (FLiteral [''per_unit'', ''tiered'']) False (Some (BText ''per_unit'')),
     plain_field ''recurring_interval'' (FLiteral [''day'', ''week'', ''month'', ''year'']) True (Some BNull),
     (plain_field ''recurring_interval_count'' FInt False (Some (BInt 1)))\<lparr>fs_ge := Some 1\<rparr>,
     (plain_field ''trial_period_days'' FInt True (Some BNull))\<lparr>fs_ge := Some 0\<rparr>,
     plain_field ''tiers_json'' FDict True (Some BNull),
     (plain_field ''lookup_key'' FText True (Some BNull))\<lparr>fs_max_len := Some 255\<rparr>,
     plain_field ''is_active'' FBool False (Some (BBool True)),
     plain_field ''metadata_'' FDict True (Some BNull)]"

definition price_update :: "field_spec list" where
  "price_update =
    [(plain_field ''currency'' FText True (Some BNull))\<lparr>fs_min_len := Some 3, fs_max_len := Some 3\<rparr>,
     (plain_field ''unit_amount'' FInt True (Some BNull))\<lparr>fs_ge := Some 0\<rparr>,
     plain_field ''type'' (FLiteral [''one_time'', ''recurring'']) True (Some BNull),
     plain_field ''billing_scheme'' (FLiteral [''per_unit'', ''tiered'']) True (Some BNull),
     plain_field ''recurring_interval'' (FLiteral [''day'', ''week'', ''month'', ''year'']) True (Some BNull),
     (plain_field ''recurring_interval_count'' FInt True (Some BNull))\<lparr>fs_ge := Some 1\<rparr>,
     (plain_field ''trial_period_days'' FInt True (Some BNull))\<lparr>fs_ge := Some 0\<rparr>,
     plain_field ''tiers_json'' FDict True (Some BNull),
     (plain_field ''lookup_key'' FText True (Some BNull))\<lparr>fs_max_len := Some 255\<rparr>,
     plain_field ''is_active'' FBool True (Some BNull),
     plain_field ''metadata_'' FDict True (Some BNull)]"

definition price_read :: "field_spec list" where
  "price_read =
    filter (\<lambda>f. fs_name f \<notin> {''type'', ''billing_scheme'', ''recurring_interval''}) price_create @
    [plain_field ''type'' FText False None,
     plain_field ''billing_scheme'' FText False None,
     plain_field ''recurring_interval'' FText True (Some BNull)]"

definition customer_create :: "field_spec list" where
  "customer_create =
    [plain_field ''person_id'' FUuid True (Some BNull),
     (plain_field ''name'' FText False None)\<lparr>fs_min_len := Some 1, fs_max_len := Some 255\<rparr>,
     (plain_field ''email'' FText False None)\<lparr>fs_max_len := Some 255\<rparr>,
     (plain_field ''currency'' FText False (Some (BText ''usd'')))\<lparr>fs_max_len := Some 3\<rparr>,
     plain_field ''balance'' FInt False (Some (BInt 0)),
     (plain_field ''tax_id'' FText True (Some BNull))\<lparr>fs_max_len := Some 80\<rparr>,
     (plain_field ''external_id'' FText True (Some BNull))\<lparr>fs_max_len := Some 255\<rparr>,
     plain_field ''is_active'' FBool False (Some (BBool True)),
     plain_field ''metadata_'' FDict True (Some BNull)]"

definition customer_update :: "field_spec list" where
  "customer_update =
    [plain_field ''person_id'' FUuid True (Some BNull),
     (plain_field ''name'' FText True (Some BNull))\<lparr>fs_max_len := Some 255\<rparr>,
     (plain_field ''email'' FText True (Some BNull))\<lparr>fs_max_len := Some 255\<rparr>,
     (plain_field ''currency'' FText True (Some BNull))\<lparr>fs_min_len := Some 3, fs_max_len := Some 3\<rparr>,
     plain_field ''balance'' FInt True (Some BNull),
     (plain_field ''tax_id'' FText True (Some BNull))\<lparr>fs_max_len := Some 80\<rparr>,
     (plain_field ''external_id'' FText True (Some BNull))\<lparr>fs_max_len := Some 255\<rparr>,
     plain_field ''is_active'' FBool True (Some BNull),
     plain_field ''metadata_'' FDict True (Some BNull)]"

definition customer_read :: "field_spec list" where
  "customer_read =
    customer_create"

definition subscription_create :: "field_spec list" where
  "subscription_create =
    [plain_field ''customer_id'' FUuid False None,
     plain_field ''status'' (FLiteral [''incomplete'', ''trialing'', ''active'', ''past_due'', ''canceled'', ''unpaid'', ''paused'']) False (Some (BText ''incomplete'')),
     plain_field ''current_period_start'' FTime True (Some BNull),
     plain_field ''current_period_end'' FTime True (Some BNull),
     plain_field ''trial_start'' FTime True (Some BNull),
     plain_field ''trial_end'' FTime True (Some BNull),
     plain_field ''cancel_at_period_end'' FBool False (Some (BBool False)),
     plain_field ''cancel_at'' FTime True (Some BNull),
     plain_field ''canceled_at'' FTime True (Some BNull),
     plain_field ''ended_at'' FTime True (Some BNull),
     (plain_field ''external_id'' FText True (Some BNull))\<lparr>fs_max_len := Some 255\<rparr>,
     plain_field ''is_active'' FBool False (Some (BBool True)),
     plain_field ''metadata_'' FDict True (Some BNull)]"

definition subscription_update :: "field_spec list" where
  "subscription_update =
    [plain_field ''status'' (FLiteral [''incomplete'', ''trialing'', ''active'', ''past_due'', ''canceled'', ''unpaid'', ''paused'']) True (Some BNull),
     plain_field ''current_period_start'' FTime True (Some BNull),
     plain_field ''current_period_end'' FTime True (Some BNull),
     plain_field ''trial_start'' FTime True (Some BNull),
     plain_field ''trial_end'' FTime True (Some BNull),
     plain_field ''cancel_at_period_end'' FBool True (Some BNull),
     plain_field ''cancel_at'' FTime True (Some BNull),
     plain_field ''canceled_at'' FTime True (Some BNull),
     plain_field ''ended_at'' FTime True (Some BNull),
     (plain_field ''external_id'' FText True (Some BNull))\<lparr>fs_max_len := Some 255\<rparr>,
     plain_field ''is_active'' FBool True (Some BNull),
     plain_field ''metadata_'' FDict True (Some BNull)]"

definition subscription_read :: "field_spec list" where
  "subscription_read =
    filter (\<lambda>f. fs_name f \<notin> {''status''}) subscription_create @
    [plain_field ''status'' FText False None]"

definition subscription_item_create :: "field_spec list" where
  "subscription_item_create =
    [plain_field ''subscription_id'' FUuid False None,
     plain_field ''price_id'' FUuid False None,
     (plain_field ''quantity'' FInt False (Some (BInt 1)))\<lparr>fs_ge := Some 1\<rparr>,
     plain_field ''is_active'' FBool False (Some (BBool True)),
     plain_field ''metadata_'' FDict True (Some BNull)]"

definition subscription_item_update :: "field_spec list" where
  "subscription_item_update =
    [(plain_field ''quantity'' FInt True (Some BNull))\<lparr>fs_ge := Some 1\<rparr>,
     plain_field ''is_active'' FBool True (Some BNull),
     plain_field ''metadata_'' FDict True (Some BNull)]"

definition subscription_item_read :: "field_spec list" where
  "subscription_item_read =
    subscription_item_create"

definition invoice_create :: "field_spec list" where
  "invoice_create =
    [plain_field ''customer_id'' FUuid False None,
     plain_field ''subscription_id'' FUuid True (Some BNull),
     (plain_field ''number'' FText True (Some BNull))\<lparr>fs_max_len := Some 80\<rparr>,
     plain_field ''status'' (FLiteral [''draft'', ''open'', ''paid'', ''void'', ''uncollectible'']) False (Some (BText ''draft'')),
     (plain_field ''currency'' FText False (Some (BText ''usd'')))\<lparr>fs_min_len := Some 3, fs_max_len := Some 3\<rparr>,
     (plain_field ''subtotal'' FInt False (Some (BInt 0)))\<lparr>fs_ge := Some 0\<rparr>,
     (plain_field ''tax'' FInt False (Some (BInt 0)))\<lparr>fs_ge := Some 0\<rparr>,
     (plain_field ''total'' FInt False (Some (BInt 0)))\<lparr>fs_ge := Some 0\<rparr>,
     (plain_field ''amount_due'' FInt False (Some (BInt 0)))\<lparr>fs_ge := Some 0\<rparr>,
     (plain_field ''amount_paid'' FInt False (Some (BInt 0)))\<lparr>fs_ge := Some 0\<rparr>,
     plain_field ''due_date'' FTime True (Some BNull),
     plain_field ''paid_at'' FTime True (Some BNull),
     plain_field ''period_start'' FTime True (Some BNull),
     plain_field ''period_end'' FTime True (Some BNull),
     (plain_field ''external_id'' FText True (Some BNull))\<lparr>fs_max_len := Some 255\<rparr>,
     plain_field ''is_active'' FBool False (Some (BBool True)),
     plain_field ''metadata_'' FDict True (Some BNull)]"

definition invoice_update :: "field_spec list" where
  "invoice_update =
    [(plain_field ''number'' FText True (Some BNull))\<lparr>fs_max_len := Some 80\<rparr>,
     plain_field ''status'' (FLiteral [''draft'', ''open'', ''paid'', ''void'', ''uncollectible'']) True (Some BNull),
     (plain_field ''currency'' FText True (Some BNull))\<lparr>fs_min_len := Some 3, fs_max_len := Some 3\<rparr>,
     (plain_field ''subtotal'' FInt True (Some BNull))\<lparr>fs_ge := Some 0\<rparr>,
     (plain_field ''tax'' FInt True (Some BNull))\<lparr>fs_ge := Some 0\<rparr>,
     (plain_field ''total'' FInt True (Some BNull))\<lparr>fs_ge := Some 0\<rparr>,
     (plain_field ''amount_due'' FInt True (Some BNull))\<lparr>fs_ge := Some 0\<rparr>,
     (plain_field ''amount_paid'' FInt True (Some BNull))\<lparr>fs_ge := Some 0\<rparr>,
     plain_field ''due_date'' FTime True (Some BNull),
     plain_field ''paid_at'' FTime True (Some BNull),
     plain_field ''period_start'' FTime True (Some BNull),
     plain_field ''period_end'' FTime True (Some BNull),
     (plain_field ''external_id'' FText True (Some BNull))\<lparr>fs_max_len := Some 255\<rparr>,
     plain_field ''is_active'' FBool True (Some BNull),
     plain_field ''metadata_'' FDict True (Some BNull)]"

definition invoice_read :: "field_spec list" where
  "invoice_read =
    filter (\<lambda>f. fs_name f \<notin> {''status''}) invoice_create @
    [plain_field ''status'' FText False None]"

definition invoice_item_create :: "field_spec list" where
  "invoice_item_create =
    [plain_field ''invoice_id'' FUuid False None,
     plain_field ''price_id'' FUuid True (Some BNull),
     plain_field ''subscription_item_id'' FUuid True (Some BNull),
     plain_field ''description'' FText True (Some BNull),
     (plain_field ''quantity'' FInt False (Some (BInt 1)))\<lparr>fs_ge := Some 1\<rparr>,
     (plain_field ''unit_amount'' FInt False (Some (BInt 0)))\<lparr>fs_ge := Some 0\<rparr>,
     (plain_field ''amount'' FInt False (Some (BInt 0)))\<lparr>fs_ge := Some 0\<rparr>,
     plain_field ''period_start'' FTime True (Some BNull),
     plain_field ''period_end'' FTime True (Some BNull),
     plain_field ''metadata_'' FDict True (Some BNull)]"

definition invoice_item_update :: "field_spec list" where
  "invoice_item_update =
    [plain_field ''description'' FText True (Some BNull),
     (plain_field ''quantity'' FInt True (Some BNull))\<lparr>fs_ge := Some 1\<rparr>,
     (plain_field ''unit_amount'' FInt True (Some BNull))\<lparr>fs_ge := Some 0\<rparr>,
     (plain_field ''amount'' FInt True (Some BNull))\<lparr>fs_ge := Some 0\<rparr>,
     plain_field ''period_start'' FTime True (Some BNull),
     plain_field ''period_end'' FTime True (Some BNull),
     plain_field ''metadata_'' FDict True (Some BNull)]"

definition invoice_item_read :: "field_spec list" where
  "invoice_item_read =
    invoice_item_create"

definition payment_method_create :: "field_spec list" where
  "payment_method_create =
    [plain_field ''customer_id'' FUuid False None,
     plain_field ''type'' (FLiteral [''card'', ''bank_account'', ''wallet'', ''other'']) False None,
     plain_field ''details'' FDict True (Some BNull),
     plain_field ''is_default'' FBool False (Some (BBool False)),
     plain_field ''is_active'' FBool False (Some (BBool True)),
     (plain_field ''external_id'' FText True (Some BNull))\<lparr>fs_max_len := Some 255\<rparr>]"

definition payment_method_update :: "field_spec list" where
  "payment_method_update =
    [plain_field ''type'' (FLiteral [''card'', ''bank_account'', ''wallet'', ''other'']) True (Some BNull),
     plain_field ''details'' FDict True (Some BNull),
     plain_field ''is_default'' FBool True (Some BNull),
     plain_field ''is_active'' FBool True (Some BNull),
     (plain_field ''external_id'' FText True (Some BNull))\<lparr>fs_max_len := Some 255\<rparr>]"

definition payment_method_read :: "field_spec list" where
  "payment_method_read =
    filter (\<lambda>f. fs_name f \<notin> {''type''}) payment_method_create @
    [plain_field ''type'' FText False None]"

definition payment_intent_create :: "field_spec list" where
  "payment_intent_create =
    [plain_field ''customer_id'' FUuid False None,
     plain_field ''invoice_id'' FUuid True (Some BNull),
     plain_field ''payment_method_id'' FUuid True (Some BNull),
     (plain_field ''amount'' FInt False None)\<lparr>fs_ge := Some 1\<rparr>,
     (plain_field ''currency'' FText False None)\<lparr>fs_min_len := Some 3, fs_max_len := Some 3\<rparr>,
     plain_field ''status'' (FLiteral [''requires_payment_method'', ''requires_confirmation'', ''processing'', ''succeeded'', ''canceled'', ''requires_action'']) False (Some (BText ''requires_payment_method'')),
     (plain_field ''failure_code'' FText True (Some BNull))\<lparr>fs_max_len := Some 80\<rparr>,
     plain_field ''failure_message'' FText True (Some BNull),
     (plain_field ''external_id'' FText True (Some BNull))\<lparr>fs_max_len := Some 255\<rparr>,
     plain_field ''metadata_'' FDict True (Some BNull)]"

definition payment_intent_update :: "field_spec list" where
  "payment_intent_update =
    [plain_field ''status'' (FLiteral [''requires_payment_method'', ''requires_confirmation'', ''processing'', ''succeeded'', ''canceled'', ''requires_action'']) True (Some BNull),
     plain_field ''payment_method_id'' FUuid True (Some BNull),
     (plain_field ''failure_code'' FText True (Some BNull))\<lparr>fs_max_len := Some 80\<rparr>,
     plain_field ''failure_message'' FText True (Some BNull),
     (plain_field ''external_id'' FText True (Some BNull))\<lparr>fs_max_len := Some 255\<rparr>,
     plain_field ''metadata_'' FDict True (Some BNull)]"

definition payment_intent_read :: "field_spec list" where
  "payment_intent_read =
    filter (\<lambda>f. fs_name f \<notin> {''status''}) payment_intent_create @
    [plain_field ''status'' FText False None]"

definition usage_record_create :: "field_spec list" where
  "usage_record_create =
    [plain_field ''subscription_item_id'' FUuid False None,
     (plain_field ''quantity'' FInt False None)\<lparr>fs_ge := Some 0\<rparr>,
     plain_field ''action'' (FLiteral [''increment'', ''set'']) False (Some (BText ''increment'')),
     plain_field ''recorded_at'' FTime True (Some BNull),
     (plain_field ''idempotency_key'' FText False None)\<lparr>fs_max_len := Some 255\<rparr>]"

definition usage_record_read :: "field_spec list" where
  "usage_record_read =
    filter (\<lambda>f. fs_name f \<notin> {''action''}) usage_record_create @
    [plain_field ''action'' FText False None]"

definition coupon_create :: "field_spec list" where
  "coupon_create =
    [(plain_field ''name'' FText False None)\<lparr>fs_min_len := Some 1, fs_max_len := Some 255\<rparr>,
     (plain_field ''code'' FText False None)\<lparr>fs_min_len := Some 1, fs_max_len := Some 80\<rparr>,
     (plain_field ''percent_off'' FInt True (Some BNull))\<lparr>fs_ge := Some 0, fs_le := Some 100\<rparr>,
     (plain_field ''amount_off'' FInt True (Some BNull))\<lparr>fs_ge := Some 0\<rparr>,
     (plain_field ''currency'' FText True (Some BNull))\<lparr>fs_min_len := Some 3, fs_max_len := Some 3\<rparr>,
     plain_field ''duration'' (FLiteral [''once'', ''repeating'', ''forever'']) False None,
     (plain_field ''duration_in_months'' FInt True (Some BNull))\<lparr>fs_ge := Some 1\<rparr>,
     (plain_field ''max_redemptions'' FInt True (Some BNull))\<lparr>fs_ge := Some 0\<rparr>,
     (plain_field ''times_redeemed'' FInt False (Some (BInt 0)))\<lparr>fs_ge := Some 0\<rparr>,
     plain_field ''valid'' FBool False (Some (BBool True)),
     plain_field ''redeem_by'' FTime True (Some BNull),
     plain_field ''metadata_'' FDict True (Some BNull)]"

definition coupon_update :: "field_spec list" where
  "coupon_update =
    [(plain_field ''name'' FText True (Some BNull))\<lparr>fs_max_len := Some 255\<rparr>,
     (plain_field ''percent_off'' FInt True (Some BNull))\<lparr>fs_ge := Some 0, fs_le := Some 100\<rparr>,
     (plain_field ''amount_off'' FInt True (Some BNull))\<lparr>fs_ge := Some 0\<rparr>,
     (plain_field ''currency'' FText True (Some BNull))\<lparr>fs_min_len := Some 3, fs_max_len := Some 3\<rparr>,
     plain_field ''duration'' (FLiteral [''once'', ''repeating'', ''forever'']) True (Some BNull),
     (plain_field ''duration_in_months'' FInt True (Some BNull))\<lparr>fs_ge := Some 1\<rparr>,
     (plain_field ''max_redemptions'' FInt True (Some BNull))\<lparr>fs_ge := Some 0\<rparr>,
     (plain_field ''times_redeemed'' FInt True (Some BNull))\<lparr>fs_ge := Some 0\<rparr>,
     plain_field ''valid'' FBool True (Some BNull),
     plain_field ''redeem_by'' FTime True (Some BNull),
     plain_field ''metadata_'' FDict True (Some BNull)]"

definition coupon_read :: "field_spec list" where
  "coupon_read =
    filter (\<lambda>f. fs_name f \<notin> {''duration''}) coupon_create @
    [plain_field ''duration'' FText False None]"

definition discount_create :: "field_spec list" where
  "discount_create =
    [plain_field ''coupon_id'' FUuid False None,
     plain_field ''customer_id'' FUuid True (Some BNull),
     plain_field ''subscription_id'' FUuid True (Some BNull),
     plain_field ''start'' FTime True (Some BNull),
     plain_field ''end'' FTime True (Some BNull),
     (plain_field ''external_id'' FText True (Some BNull))\<lparr>fs_max_len := Some 255\<rparr>]"

definition discount_read :: "field_spec list" where
  "discount_read =
    discount_create"

definition entitlement_create :: "field_spec list" where
  "entitlement_create =
    [plain_field ''product_id'' FUuid False None,
     (plain_field ''feature_key'' FText False None)\<lparr>fs_min_len := Some 1, fs_max_len := Some 120\<rparr>,
     plain_field ''value_type'' (FLiteral [''boolean'', ''numeric'', ''string'', ''unlimited'']) False None,
     plain_field ''value_text'' FText True (Some BNull),
     (plain_field ''value_numeric'' FInt True (Some BNull))\<lparr>fs_ge := Some 0\<rparr>,
     plain_field ''metadata_'' FDict True (Some BNull)]"

definition entitlement_update :: "field_spec list" where
  "entitlement_update =
    [(plain_field ''feature_key'' FText True (Some BNull))\<lparr>fs_max_len := Some 120\<rparr>,
     plain_field ''value_type'' (FLiteral [''boolean'', ''numeric'', ''string'', ''unlimited'']) True (Some BNull),
     plain_field ''value_text'' FText True (Some BNull),
     (plain_field ''value_numeric'' FInt True (Some BNull))\<lparr>fs_ge := Some 0\<rparr>,
     plain_field ''metadata_'' FDict True (Some BNull)]"

definition entitlement_read :: "field_spec list" where
  "entitlement_read =
    filter (\<lambda>f. fs_name f \<notin> {''value_type''}) entitlement_create @
    [plain_field ''value_type'' FText False None]"

definition webhook_event_create :: "field_spec list" where
  "webhook_event_create =
    [(plain_field ''provider'' FText False None)\<lparr>fs_max_len := Some 80\<rparr>,
     (plain_field ''event_type'' FText False None)\<lparr>fs_max_len := Some 120\<rparr>,
     (plain_field ''event_id'' FText False None)\<lparr>fs_max_len := Some 255\<rparr>,
     plain_field ''payload'' FDict True (Some BNull),
     plain_field ''status'' (FLiteral [''pending'', ''processed'', ''failed'']) False (Some (BText ''pending'')),
     plain_field ''error_message'' FText True (Some BNull),
     plain_field ''processed_at'' FTime True (Some BNull)]"

definition webhook_event_update :: "field_spec list" where
  "webhook_event_update =
    [plain_field ''status'' (FLiteral [''pending'', ''processed'', ''failed'']) True (Some BNull),
     plain_field ''error_message'' FText True (Some BNull),
     plain_field ''processed_at'' FTime True (Some BNull)]"

definition webhook_event_read :: "field_spec list" where
  "webhook_event_read =
    filter (\<lambda>f. fs_name f \<notin> {''status''}) webhook_event_create @
    [plain_field ''status'' FText False None]"

section \<open>Services\<close>

definition product_service :: service where
  "product_service = \<lparr>sv_table = Products, sv_missing = ''Product not found'',
     sv_defaults = product_defaults, sv_create = product_create,
     sv_update = Some product_update, sv_read = product_read,
     sv_requires =
    [],
     sv_update_requires = [],
     sv_delete = SoftDelete [(''is_active'', DefaultValue (BBool False))],
     sv_filters = [FilterBool ''is_active''],
     sv_orders = [''created_at'', ''name''], sv_counts = True\<rparr>"

definition price_service :: service where
  "price_service = \<lparr>sv_table = Prices, sv_missing = ''Price not found'',
     sv_defaults = price_defaults, sv_create = price_create,
     sv_update = Some price_update, sv_read = price_read,
     sv_requires =
    [\<lparr>req_field = ''product_id'', req_table = Products, req_message = ''Product not found'', req_null = NullNoUuid\<rparr>],
     sv_update_requires = [],
     sv_delete = SoftDelete [(''is_active'', DefaultValue (BBool False))],
     sv_filters = [FilterRef ''product_id'', FilterEnum ''type'' price_type, FilterText ''currency'', FilterBool ''is_active''],
     sv_orders = [''created_at'', ''unit_amount''], sv_counts = True\<rparr>"

definition customer_service :: service where
  "customer_service = \<lparr>sv_table = Customers, sv_missing = ''Customer not found'',
     sv_defaults = customer_defaults, sv_create = customer_create,
     sv_update = Some customer_update, sv_read = customer_read,
     sv_requires =
    [],
     sv_update_requires = [],
     sv_delete = SoftDelete [(''is_active'', DefaultValue (BBool False))],
     sv_filters = [FilterRef ''person_id'', FilterLike ''email'', FilterBool ''is_active''],
     sv_orders = [''created_at'', ''name''], sv_counts = True\<rparr>"

definition subscription_service :: service where
  "subscription_service = \<lparr>sv_table = Subscriptions, sv_missing = ''Subscription not found'',
     sv_defaults = subscription_defaults, sv_create = subscription_create,
     sv_update = Some subscription_update, sv_read = subscription_read,
     sv_requires =
    [\<lparr>req_field = ''customer_id'', req_table = Customers, req_message = ''Customer not found'', req_null = NullNoUuid\<rparr>],
     sv_update_requires = [],
     sv_delete = SoftDelete [(''is_active'', DefaultValue (BBool False))],
     sv_filters = [FilterRef ''customer_id'', FilterEnum ''status'' subscription_status, FilterBool ''is_active''],
     sv_orders = [''created_at''], sv_counts = True\<rparr>"

definition subscription_item_service :: service where
  "subscription_item_service = \<lparr>sv_table = SubscriptionItems, sv_missing = ''Subscription item not found'',
     sv_defaults = subscription_item_defaults, sv_create = subscription_item_create,
     sv_update = Some subscription_item_update, sv_read = subscription_item_read,
     sv_requires =
    [\<lparr>req_field = ''subscription_id'', req_table = Subscriptions, req_message = ''Subscription not found'', req_null = NullNoUuid\<rparr>,
     \<lparr>req_field = ''price_id'', req_table = Prices, req_message = ''Price not found'', req_null = NullNoUuid\<rparr>],
     sv_update_requires = [],
     sv_delete = SoftDelete [(''is_active'', DefaultValue (BBool False))],
     sv_filters = [FilterRef ''subscription_id'', FilterRef ''price_id''],
     sv_orders = [''created_at''], sv_counts = True\<rparr>"

definition invoice_service :: service where
  "invoice_service = \<lparr>sv_table = Invoices, sv_missing = ''Invoice not found'',
     sv_defaults = invoice_defaults, sv_create = invoice_create,
     sv_update = Some invoice_update, sv_read = invoice_read,
     sv_requires =
    [\<lparr>req_field = ''customer_id'', req_table = Customers, req_message = ''Customer not found'', req_null = NullNoUuid\<rparr>,
     \<lparr>req_field = ''subscription_id'', req_table = Subscriptions, req_message = ''Subscription not found'', req_null = NullSkipped\<rparr>],
     sv_update_requires = [],
     sv_delete = SoftDelete [(''is_active'', DefaultValue (BBool False))],
     sv_filters = [FilterRef ''customer_id'', FilterRef ''subscription_id'', FilterEnum ''status'' invoice_status],
     sv_orders = [''created_at'', ''total''], sv_counts = True\<rparr>"

definition invoice_item_service :: service where
  "invoice_item_service = \<lparr>sv_table = InvoiceItems, sv_missing = ''Invoice item not found'',
     sv_defaults = invoice_item_defaults, sv_create = invoice_item_create,
     sv_update = Some invoice_item_update, sv_read = invoice_item_read,
     sv_requires =
    [\<lparr>req_field = ''invoice_id'', req_table = Invoices, req_message = ''Invoice not found'', req_null = NullNoUuid\<rparr>,
     \<lparr>req_field = ''price_id'', req_table = Prices, req_message = ''Price not found'', req_null = NullSkipped\<rparr>,
     \<lparr>req_field = ''subscription_item_id'', req_table = SubscriptionItems, req_message = ''Subscription item not found'', req_null = NullSkipped\<rparr>],
     sv_update_requires = [],
     sv_delete = HardDelete,
     sv_filters = [FilterRef ''invoice_id''],
     sv_orders = [''created_at''], sv_counts = True\<rparr>"

definition payment_method_service :: service where
  "payment_method_service = \<lparr>sv_table = PaymentMethods, sv_missing = ''Payment method not found'',
     sv_defaults = payment_method_defaults, sv_create = payment_method_create,
     sv_update = Some payment_method_update, sv_read = payment_method_read,
     sv_requires =
    [\<lparr>req_field = ''customer_id'', req_table = Customers, req_message = ''Customer not found'', req_null = NullNoUuid\<rparr>],
     sv_update_requires = [],
     sv_delete = SoftDelete [(''is_active'', DefaultValue (BBool False))],
     sv_filters = [FilterRef ''customer_id'', FilterEnum ''type'' payment_method_type, FilterBool ''is_active''],
     sv_orders = [''created_at''], sv_counts = True\<rparr>"

definition payment_intent_service :: service where
  "payment_intent_service = \<lparr>sv_table = PaymentIntents, sv_missing = ''Payment intent not found'',
     sv_defaults = payment_intent_defaults, sv_create = payment_intent_create,
     sv_update = Some payment_intent_update, sv_read = payment_intent_read,
     sv_requires =
    [\<lparr>req_field = ''customer_id'', req_table = Customers, req_message = ''Customer not found'', req_null = NullNoUuid\<rparr>,
     \<lparr>req_field = ''invoice_id'', req_table = Invoices, req_message = ''Invoice not found'', req_null = NullSkipped\<rparr>,
     \<lparr>req_field = ''payment_method_id'', req_table = PaymentMethods, req_message = ''Payment method not found'', req_null = NullSkipped\<rparr>],
     sv_update_requires = [],
     sv_delete = NoDelete,
     sv_filters = [FilterRef ''customer_id'', FilterRef ''invoice_id'', FilterEnum ''status'' payment_intent_status],
     sv_orders = [''created_at''], sv_counts = True\<rparr>"

definition usage_record_service :: service where
  "usage_record_service = \<lparr>sv_table = UsageRecords, sv_missing = ''Usage record not found'',
     sv_defaults = usage_record_defaults, sv_create = usage_record_create,
     sv_update = None, sv_read = usage_record_read,
     sv_requires =
    [\<lparr>req_field = ''subscription_item_id'', req_table = SubscriptionItems, req_message = ''Subscription item not found'', req_null = NullNoUuid\<rparr>],
     sv_update_requires = [],
     sv_delete = NoDelete,
     sv_filters = [FilterRef ''subscription_item_id''],
     sv_orders = [''created_at'', ''recorded_at''], sv_counts = True\<rparr>"

definition coupon_service :: service where
  "coupon_service = \<lparr>sv_table = Coupons, sv_missing = ''Coupon not found'',
     sv_defaults = coupon_defaults, sv_create = coupon_create,
     sv_update = Some coupon_update, sv_read = coupon_read,
     sv_requires =
    [],
     sv_update_requires = [],
     sv_delete = SoftDelete [(''valid'', DefaultValue (BBool False))],
     sv_filters = [FilterBool ''valid'', FilterText ''code''],
     sv_orders = [''created_at'', ''name''], sv_counts = True\<rparr>"

definition discount_service :: service where
  "discount_service = \<lparr>sv_table = Discounts, sv_missing = ''Discount not found'',
     sv_defaults = discount_defaults, sv_create = discount_create,
     sv_update = None, sv_read = discount_read,
     sv_requires =
    [\<lparr>req_field = ''coupon_id'', req_table = Coupons, req_message = ''Coupon not found'', req_null = NullNoUuid\<rparr>,
     \<lparr>req_field = ''customer_id'', req_table = Customers, req_message = ''Customer not found'', req_null = NullSkipped\<rparr>,
     \<lparr>req_field = ''subscription_id'', req_table = Subscriptions, req_message = ''Subscription not found'', req_null = NullSkipped\<rparr>],
     sv_update_requires = [],
     sv_delete = HardDelete,
     sv_filters = [FilterRef ''customer_id'', FilterRef ''subscription_id'', FilterRef ''coupon_id''],
     sv_orders = [''created_at''], sv_counts = True\<rparr>"

definition entitlement_service :: service where
  "entitlement_service = \<lparr>sv_table = Entitlements, sv_missing = ''Entitlement not found'',
     sv_defaults = entitlement_defaults, sv_create = entitlement_create,
     sv_update = Some entitlement_update, sv_read = entitlement_read,
     sv_requires =
    [\<lparr>req_field = ''product_id'', req_table = Products, req_message = ''Product not found'', req_null = NullNoUuid\<rparr>],
     sv_update_requires = [],
     sv_delete = HardDelete,
     sv_filters = [FilterRef ''product_id'', FilterText ''feature_key''],
     sv_orders = [''created_at''], sv_counts = True\<rparr>"

definition webhook_event_service :: service where
  "webhook_event_service = \<lparr>sv_table = WebhookEvents, sv_missing = ''Webhook event not found'',
     sv_defaults = webhook_event_defaults, sv_create = webhook_event_create,
     sv_update = Some webhook_event_update, sv_read = webhook_event_read,
     sv_requires =
    [],
     sv_update_requires = [],
     sv_delete = NoDelete,
     sv_filters = [FilterText ''provider'', FilterText ''event_type'', FilterEnum ''status'' webhook_event_status],
     sv_orders = [''created_at''], sv_counts = True\<rparr>"

definition billing_services :: "service list" where
  "billing_services =
    [product_service,
     price_service,
     customer_service,
     subscription_service,
     subscription_item_service,
     invoice_service,
     invoice_item_service,
     payment_method_service,
     payment_intent_service,
     usage_record_service,
     coupon_service,
     discount_service,
     entitlement_service,
     webhook_event_service]"

end
