(* ===== verification/AppTables.thy ===== *)
theory AppTables
  imports AccessTables BillingTables
begin

text \<open>The tables of the application that are kept as rows of named values, in one database.\<close>

definition app_db :: "tname \<Rightarrow> db_table" where
  "app_db t = (case t of
      Products \<Rightarrow> product_table
    | Prices \<Rightarrow> price_table
    | Customers \<Rightarrow> customer_table
    | Subscriptions \<Rightarrow> subscription_table
    | SubscriptionItems \<Rightarrow> subscription_item_table
    | Invoices \<Rightarrow> invoice_table
    | InvoiceItems \<Rightarrow> invoice_item_table
    | PaymentMethods \<Rightarrow> payment_method_table
    | PaymentIntents \<Rightarrow> payment_intent_table
    | UsageRecords \<Rightarrow> usage_record_table
    | Coupons \<Rightarrow> coupon_table
    | Discounts \<Rightarrow> discount_table
    | Entitlements \<Rightarrow> entitlement_table
    | WebhookEvents \<Rightarrow> webhook_event_table
    | People \<Rightarrow> person_table
    | UserCredentials \<Rightarrow> user_credential_table
    | MfaMethods \<Rightarrow> mfa_method_table
    | Sessions \<Rightarrow> session_table
    | ApiKeys \<Rightarrow> api_key_table
    | Roles \<Rightarrow> role_table
    | Permissions \<Rightarrow> permission_table
    | RolePermissions \<Rightarrow> role_permission_table
    | PersonRoles \<Rightarrow> person_role_table)"

end
