(* ===== verification/AccessAdmin.thy ===== *)
theory AccessAdmin
  imports CrudApi CrudStore AppTables AuthAccess
begin

text \<open>
  The administration of people, credentials, sessions, API keys, roles and permissions:
  \<^verbatim>\<open>app/services/auth.py\<close>, \<^verbatim>\<open>app/services/rbac.py\<close> and \<^verbatim>\<open>app/services/person.py\<close> beyond the
  common operations, and their routers \<^verbatim>\<open>app/api/auth.py\<close>, \<^verbatim>\<open>app/api/rbac.py\<close> and
  \<^verbatim>\<open>app/api/persons.py\<close>. The setting of the default provider is a parameter (nothing when it does
  not resolve); the hash of API keys is that of the guards.
\<close>

section \<open>Credentials\<close>

definition with_provider :: "string option \<Rightarrow> body \<Rightarrow> body res" where
  "with_provider default_provider b =
     (if b ''provider'' \<noteq> None then Inr b
      else case py_or default_provider None of
        None \<Rightarrow> Inr b
      | Some p \<Rightarrow> if p \<in> set provider_values then Inr (b(''provider'' \<mapsto> BText p))
                  else Inl (BadRequest ''Invalid provider''))"

definition create_credential :: "string option \<Rightarrow> body \<Rightarrow> (app_tables, trow) act" where
  "create_credential default_provider b st =
     (case check_each (require_exists st (dump user_credential_create b)) (sv_requires user_credential_service) of
        Inl e \<Rightarrow> (Inl e, st)
      | Inr _ \<Rightarrow> (case with_provider default_provider b of
            Inl e \<Rightarrow> (Inl e, st) | Inr b' \<Rightarrow> svc_create app_db user_credential_service b' st))"

section \<open>Second factors\<close>

text \<open>\<^verbatim>\<open>update(MFAMethod).where(person_id == p, id != keep, is_primary).values(is_primary=False)\<close>\<close>

definition is_primary_of :: "bval \<Rightarrow> trow \<Rightarrow> bool" where
  "is_primary_of p r \<longleftrightarrow> p \<noteq> BNull \<and> br_vals r ''person_id'' = p \<and> br_vals r ''is_primary'' = BBool True"

definition unset_primary :: "app_tables \<Rightarrow> trow \<Rightarrow> trow" where
  "unset_primary st r = r\<lparr>br_vals := (br_vals r)(''is_primary'' := BBool False), br_updated := bl_clock st\<rparr>"

definition demote_primaries :: "bval \<Rightarrow> nat option \<Rightarrow> app_tables \<Rightarrow> app_tables" where
  "demote_primaries p keep st = store_rows MfaMethods
     (update_where (\<lambda>r. is_primary_of p r \<and> keep \<noteq> Some (br_id r)) (unset_primary st) (bl_rows st MfaMethods)) st"

definition primary_conflict :: "'a res \<times> app_tables \<Rightarrow> 'a res \<times> app_tables" where
  "primary_conflict out = (case out of
      (Inl IntegrityErr, st) \<Rightarrow> (Inl (Conflict ''Primary MFA method already exists for this user''), st)
    | _ \<Rightarrow> out)"

definition create_mfa_method :: "body \<Rightarrow> (app_tables, trow) act" where
  "create_mfa_method b st =
     (let given = dump mfa_method_create b in
      case check_each (require_exists st given) (sv_requires mfa_method_service) of
        Inl e \<Rightarrow> (Inl e, st)
      | Inr _ \<Rightarrow>
          let st1 = if given ''is_primary'' = BBool True
                    then demote_primaries (given ''person_id'') None st else st
          in primary_conflict (insert_row app_db MfaMethods mfa_method_defaults given st1))"

definition update_mfa_method :: "uuid_text \<Rightarrow> body \<Rightarrow> (app_tables, trow) act" where
  "update_mfa_method uid b = bind_act (svc_get mfa_method_service uid) (\<lambda>r st.
     let data = dump_set mfa_method_update b in
     case check_each (require_set st data) (sv_update_requires mfa_method_service) of
       Inl e \<Rightarrow> (Inl e, st)
     | Inr _ \<Rightarrow>
         let person = (case data ''person_id'' of None \<Rightarrow> br_vals r ''person_id'' | Some p \<Rightarrow> p);
             st1 = if data ''is_primary'' = Some (BBool True)
                   then demote_primaries person (Some (br_id r)) st else st
         in primary_conflict (write_row app_db MfaMethods data r st1))"

section \<open>API keys\<close>

definition hashed :: "auth_ctx \<Rightarrow> bval \<Rightarrow> bval res" where
  "hashed x v = (case v of BText s \<Rightarrow> bind_res (hash_api_key x s) (\<lambda>h. Inr (BText h)) | _ \<Rightarrow> Inr v)"

definition create_api_key :: "auth_ctx \<Rightarrow> body \<Rightarrow> (app_tables, trow) act" where
  "create_api_key x b st =
     (let given = dump api_key_create b in
      case check_each (require_exists st given) (sv_requires api_key_service) of
        Inl e \<Rightarrow> (Inl e, st)
      | Inr _ \<Rightarrow> (case hashed x (given ''key_hash'') of
            Inl e \<Rightarrow> (Inl e, st)
          | Inr h \<Rightarrow> insert_row app_db ApiKeys api_key_defaults (given(''key_hash'' := h)) st))"

definition update_api_key :: "auth_ctx \<Rightarrow> uuid_text \<Rightarrow> body \<Rightarrow> (app_tables, trow) act" where
  "update_api_key x uid b = bind_act (svc_get api_key_service uid) (\<lambda>r st.
     let data = dump_set api_key_update b in
     case check_each (require_set st data) (sv_update_requires api_key_service) of
       Inl e \<Rightarrow> (Inl e, st)
     | Inr _ \<Rightarrow>
         (case data ''key_hash'' of
            Some (BText s) \<Rightarrow>
              if s = [] then write_row app_db ApiKeys data r st
              else (case hash_api_key x s of Inl e \<Rightarrow> (Inl e, st)
                    | Inr h \<Rightarrow> write_row app_db ApiKeys (data(''key_hash'' \<mapsto> BText h)) r st)
          | _ \<Rightarrow> write_row app_db ApiKeys data r st))"

text \<open>\<^verbatim>\<open>generate\<close>: a random key, of which only the hash is stored.\<close>

definition api_key_generate :: "field_spec list" where
  "api_key_generate =
    [plain_field ''person_id'' FUuid True (Some BNull),
     (plain_field ''label'' FText True (Some BNull))\<lparr>fs_max_len := Some 120\<rparr>,
     plain_field ''expires_at'' FTime True (Some BNull)]"

definition generate_api_key :: "auth_ctx \<Rightarrow> string \<Rightarrow> body \<Rightarrow> (app_tables, trow \<times> string) act" where
  "generate_api_key x raw_key b st =
     (let data = dump api_key_generate b in
      case hash_api_key x raw_key of
        Inl e \<Rightarrow> (Inl e, st)
      | Inr h \<Rightarrow>
          (case check_each (require_exists st data) (sv_requires api_key_service) of
             Inl e \<Rightarrow> (Inl e, st)
           | Inr _ \<Rightarrow>
               bind_act (insert_row app_db ApiKeys api_key_defaults
                   (data(''key_hash'' := BText h, ''is_active'' := BBool True)))
                 (\<lambda>r. ret (r, raw_key)) st))"

text \<open>The fixed window on Redis: one counter per address and window.\<close>

type_synonym counters = "string \<Rightarrow> nat"

definition auth_setting :: "auth_db \<Rightarrow> string \<Rightarrow> string option" where
  "auth_setting a key =
     (case first_where (\<lambda>r. st_domain r = AuthDomain \<and> st_key r = key \<and> st_active r) (c_settings a) of
        None \<Rightarrow> None
      | Some r \<Rightarrow> (case st_text r of Some t \<Rightarrow> Some t | None \<Rightarrow> st_json r))"

definition auth_int_setting :: "auth_db \<Rightarrow> string \<Rightarrow> int \<Rightarrow> int" where
  "auth_int_setting a key fallback =
     (case auth_setting a key of None \<Rightarrow> fallback
      | Some v \<Rightarrow> (case py_int v of None \<Rightarrow> fallback | Some i \<Rightarrow> i))"

definition rate_key :: "auth_db \<Rightarrow> int \<Rightarrow> string option \<Rightarrow> string" where
  "rate_key a now client =
     ''api_key_rl:'' @ (case client of None \<Rightarrow> ''unknown'' | Some ip \<Rightarrow> ip) @ '':'' @
     int_str (now div max (auth_int_setting a ''api_key_rate_window_seconds'' 60) 1)"

datatype redis_client = RedisThere counters | RedisMissing | RedisBroken

definition generate_with_rate_limit :: "auth_ctx \<Rightarrow> auth_db \<Rightarrow> int \<Rightarrow> string option \<Rightarrow> string \<Rightarrow> body \<Rightarrow>
    (redis_client \<times> app_tables, trow \<times> string) act" where
  "generate_with_rate_limit x a now client raw_key b s =
     (case s of (redis, st) \<Rightarrow>
        (case redis of
           RedisMissing \<Rightarrow> (Inl (Unavailable ''Rate limiting unavailable (Redis required)''), s)
         | RedisBroken \<Rightarrow> (Inl (Unavailable ''Rate limiting unavailable (Redis error)''), s)
         | RedisThere n \<Rightarrow>
             let max_per_window = auth_int_setting a ''api_key_rate_max'' 5;
                 key = rate_key a now client;
                 n' = n(key := n key + 1)
             in if int (n' key) > max max_per_window 1
                then (Inl (RateLimited ''Rate limit exceeded''), (RedisThere n', st))
                else (case generate_api_key x raw_key b st of
                        (res, st') \<Rightarrow> (res, (RedisThere n', st')))))"

section \<open>Permissions of a role\<close>

definition link_body :: "nat \<Rightarrow> nat \<Rightarrow> body" where
  "link_body role_id permission_id = [''role_id'' \<mapsto> BRef role_id, ''permission_id'' \<mapsto> BRef permission_id]"

definition drop_links :: "nat \<Rightarrow> app_tables \<Rightarrow> app_tables" where
  "drop_links role_id st = store_rows RolePermissions
     (delete_where (\<lambda>r. br_vals r ''role_id'' = BRef role_id) (bl_rows st RolePermissions)) st"

text \<open>\<^verbatim>\<open>replace_permissions\<close>: an identifier that is no UUID raises.\<close>

definition add_link :: "nat \<Rightarrow> uuid_text \<Rightarrow> (app_tables, trow) act" where
  "add_link role_id p = (case p of None \<Rightarrow> fail ValueErr
     | Some i \<Rightarrow> svc_create app_db role_permission_service (link_body role_id i))"

definition replace_permissions :: "nat \<Rightarrow> uuid_text list \<Rightarrow> (app_tables, unit) act" where
  "replace_permissions role_id ps st = for_each (add_link role_id) ps (drop_links role_id st)"

definition create_with_permissions :: "body \<Rightarrow> uuid_text list \<Rightarrow> (app_tables, trow) act" where
  "create_with_permissions b ps = bind_act (svc_create app_db role_service b) (\<lambda>r.
     then_act (replace_permissions (br_id r) ps) (ret r))"

definition update_with_permissions :: "uuid_text \<Rightarrow> body \<Rightarrow> uuid_text list \<Rightarrow> (app_tables, trow) act" where
  "update_with_permissions uid b ps = bind_act (svc_update app_db role_service role_update uid b) (\<lambda>r.
     then_act (replace_permissions (br_id r) ps) (ret r))"

section \<open>The services behind the routers\<close>

definition access_create :: "string option \<Rightarrow> auth_ctx \<Rightarrow> service \<Rightarrow> body \<Rightarrow> (app_tables, trow) act" where
  "access_create default_provider x svc b =
     (case sv_table svc of
        UserCredentials \<Rightarrow> create_credential default_provider b
      | MfaMethods \<Rightarrow> create_mfa_method b
      | ApiKeys \<Rightarrow> create_api_key x b
      | _ \<Rightarrow> svc_create app_db svc b)"

definition access_update :: "auth_ctx \<Rightarrow> service \<Rightarrow> field_spec list \<Rightarrow> uuid_text \<Rightarrow> body \<Rightarrow> (app_tables, trow) act" where
  "access_update x svc fs uid b =
     (case sv_table svc of
        MfaMethods \<Rightarrow> update_mfa_method uid b
      | ApiKeys \<Rightarrow> update_api_key x uid b
      | _ \<Rightarrow> svc_update app_db svc fs uid b)"

text \<open>\<open>_to_http_error\<close> of \<^verbatim>\<open>app/api/auth.py\<close>; the other two routers leave the errors to the
  handlers of the application.\<close>

definition to_http_error :: "err \<Rightarrow> err" where
  "to_http_error e = (case e of
      NotFound m \<Rightarrow> HttpError 404 m | Conflict m \<Rightarrow> HttpError 409 m
    | RateLimited m \<Rightarrow> HttpError 429 m | Unavailable m \<Rightarrow> HttpError 503 m | _ \<Rightarrow> e)"

definition auth_router :: "service \<Rightarrow> bool" where
  "auth_router svc \<longleftrightarrow> sv_table svc \<in> {UserCredentials, MfaMethods, Sessions, ApiKeys}"

definition router_error :: "service \<Rightarrow> err \<Rightarrow> err" where
  "router_error svc e = (if auth_router svc then to_http_error e else e)"

text \<open>\<open>_commit_and_refresh\<close>: an error comes before the commit and rolls everything back; the reply
  is made after it.\<close>

definition answer :: "service \<Rightarrow> (trow \<Rightarrow> breply res) \<Rightarrow> (app_tables, trow) act \<Rightarrow> (app_tables, breply) act" where
  "answer svc reply act st = (case act st of
      (Inl e, _) \<Rightarrow> (Inl (router_error svc e), st)
    | (Inr r, st') \<Rightarrow> (reply r, st'))"

definition serve_access :: "string option \<Rightarrow> auth_ctx \<Rightarrow> service \<Rightarrow> brequest \<Rightarrow> (app_tables, breply) act" where
  "serve_access default_provider x svc rq st = (case rq of
      BCreate b \<Rightarrow>
        if \<not> body_ok (sv_create svc) b then (Inl unprocessable, st)
        else answer svc (respond svc) (access_create default_provider x svc b) st
    | BGet uid \<Rightarrow> answer svc (respond svc) (svc_get svc uid) st
    | BUpdate uid b \<Rightarrow>
        (case sv_update svc of None \<Rightarrow> (Inl (HttpError 405 ''Method Not Allowed''), st)
         | Some fs \<Rightarrow>
            if \<not> body_ok fs b then (Inl unprocessable, st)
            else answer svc (respond svc) (access_update x svc fs uid b) st)
    | BDelete uid \<Rightarrow>
        (case svc_delete app_db svc uid st of
           (Inl e, _) \<Rightarrow> (Inl (router_error svc e), st) | (Inr _, st') \<Rightarrow> (Inr Done, st'))
    | BList q \<Rightarrow> serve_crud app_db svc rq st)"

text \<open>\<^verbatim>\<open>POST /api-keys/generate\<close>\<close>

definition serve_generate :: "auth_ctx \<Rightarrow> auth_db \<Rightarrow> int \<Rightarrow> string option \<Rightarrow> string \<Rightarrow> body \<Rightarrow>
    (redis_client \<times> app_tables, trow \<times> string) act" where
  "serve_generate x a now client raw_key b s =
     (if \<not> body_ok api_key_generate b then (Inl unprocessable, s)
      else (case generate_with_rate_limit x a now client raw_key b s of
          (Inl e, s') \<Rightarrow> (Inl (to_http_error e), (fst s', snd s))
        | (Inr (r, k), s') \<Rightarrow>
            (if read_ok api_key_read (br_vals r) then Inr (r, k) else Inl (Raised ''ResponseValidationError''), s')))"

end
