(* ===== verification/AccessApi.thy ===== *)
theory AccessApi
  imports AccessAdmin
begin

text \<open>
  The routers of \<^verbatim>\<open>app/api/auth.py\<close>, \<^verbatim>\<open>app/api/rbac.py\<close> and \<^verbatim>\<open>app/api/persons.py\<close>: their nine
  resources, and the one route that is not of the common kind, the generation of an API key.
\<close>

section \<open>Resources\<close>

definition user_credential_api :: resource where
  "user_credential_api = \<lparr>rs_path = [''user-credentials''], rs_service = user_credential_service,
     rs_routes =
      [(''POST'', False, OpCreate, 201),
       (''GET'', True, OpGet, 200),
       (''GET'', False, OpList, 200),
       (''PATCH'', True, OpUpdate, 200),
       (''DELETE'', True, OpDelete, 204)],
     rs_args = [''person_id'', ''provider'', ''is_active''],
     rs_params = [''person_id'', ''provider'', ''is_active''],
     rs_order = (''created_at'', ''desc'')\<rparr>"

definition mfa_method_api :: resource where
  "mfa_method_api = \<lparr>rs_path = [''mfa-methods''], rs_service = mfa_method_service,
     rs_routes =
      [(''POST'', False, OpCreate, 201),
       (''GET'', True, OpGet, 200),
       (''GET'', False, OpList, 200),
       (''PATCH'', True, OpUpdate, 200),
       (''DELETE'', True, OpDelete, 204)],
     rs_args = [''person_id'', ''method_type'', ''is_primary'', ''enabled'', ''is_active''],
     rs_params = [''person_id'', ''method_type'', ''is_primary'', ''enabled'', ''is_active''],
     rs_order = (''created_at'', ''desc'')\<rparr>"

definition session_api :: resource where
  "session_api = \<lparr>rs_path = [''sessions''], rs_service = session_service,
     rs_routes =
      [(''POST'', False, OpCreate, 201),
       (''GET'', True, OpGet, 200),
       (''GET'', False, OpList, 200),
       (''PATCH'', True, OpUpdate, 200),
       (''DELETE'', True, OpDelete, 204)],
     rs_args = [''person_id'', ''status''],
     rs_params = [''person_id'', ''status''],
     rs_order = (''created_at'', ''desc'')\<rparr>"

definition api_key_api :: resource where
  "api_key_api = \<lparr>rs_path = [''api-keys''], rs_service = api_key_service,
     rs_routes =
      [(''POST'', False, OpCreate, 201),
       (''GET'', True, OpGet, 200),
       (''GET'', False, OpList, 200),
       (''PATCH'', True, OpUpdate, 200),
       (''DELETE'', True, OpDelete, 204)],
     rs_args = [''person_id'', ''is_active''],
     rs_params = [''person_id'', ''is_active''],
     rs_order = (''created_at'', ''desc'')\<rparr>"

definition role_api :: resource where
  "role_api = \<lparr>rs_path = [''rbac'', ''roles''], rs_service = role_service,
     rs_routes =
      [(''POST'', False, OpCreate, 201),
       (''GET'', True, OpGet, 200),
       (''GET'', False, OpList, 200),
       (''PATCH'', True, OpUpdate, 200),
       (''DELETE'', True, OpDelete, 204)],
     rs_args = [''is_active''],
     rs_params = [''is_active''],
     rs_order = (''name'', ''asc'')\<rparr>"

definition permission_api :: resource where
  "permission_api = \<lparr>rs_path = [''rbac'', ''permissions''], rs_service = permission_service,
     rs_routes =
      [(''POST'', False, OpCreate, 201),
       (''GET'', True, OpGet, 200),
       (''GET'', False, OpList, 200),
       (''PATCH'', True, OpUpdate, 200),
       (''DELETE'', True, OpDelete, 204)],
     rs_args = [''is_active''],
     rs_params = [''is_active''],
     rs_order = (''key'', ''asc'')\<rparr>"

definition role_permission_api :: resource where
  "role_permission_api = \<lparr>rs_path = [''rbac'', ''role-permissions''], rs_service = role_permission_service,
     rs_routes =
      [(''POST'', False, OpCreate, 201),
       (''GET'', True, OpGet, 200),
       (''GET'', False, OpList, 200),
       (''PATCH'', True, OpUpdate, 200),
       (''DELETE'', True, OpDelete, 204)],
     rs_args = [''role_id'', ''permission_id''],
     rs_params = [''role_id'', ''permission_id''],
     rs_order = (''role_id'', ''asc'')\<rparr>"

definition person_role_api :: resource where
  "person_role_api = \<lparr>rs_path = [''rbac'', ''person-roles''], rs_service = person_role_service,
     rs_routes =
      [(''POST'', False, OpCreate, 201),
       (''GET'', True, OpGet, 200),
       (''GET'', False, OpList, 200),
       (''PATCH'', True, OpUpdate, 200),
       (''DELETE'', True, OpDelete, 204)],
     rs_args = [''person_id'', ''role_id''],
     rs_params = [''person_id'', ''role_id''],
     rs_order = (''assigned_at'', ''desc'')\<rparr>"

definition person_api :: resource where
  "person_api = \<lparr>rs_path = [''people''], rs_service = person_service,
     rs_routes =
      [(''POST'', False, OpCreate, 201),
       (''GET'', True, OpGet, 200),
       (''GET'', False, OpList, 200),
       (''PATCH'', True, OpUpdate, 200),
       (''DELETE'', True, OpDelete, 204)],
     rs_args = [''email'', ''status'', ''is_active''],
     rs_params = [''email'', ''status'', ''is_active''],
     rs_order = (''created_at'', ''desc'')\<rparr>"

definition access_resources :: "resource list" where
  "access_resources =
    [user_credential_api,
     mfa_method_api,
     session_api,
     api_key_api,
     role_api,
     permission_api,
     role_permission_api,
     person_role_api,
     person_api]"

section \<open>Requests\<close>

text \<open>What a handler reads besides the request: the settings, the time in seconds, the address of
  the client, and the random key it would draw.\<close>

record access_env =
  ae_ctx :: auth_ctx
  ae_default_provider :: "string option"
  ae_settings :: auth_db
  ae_now :: int
  ae_client :: "string option"
  ae_key :: string

datatype access_reply = Plain breply | KeyGenerated trow string

definition serve_rows :: "access_env \<Rightarrow> (string \<Rightarrow> uuid_text) \<Rightarrow> unit res \<Rightarrow> bhttp \<Rightarrow> app_tables \<Rightarrow>
    (nat \<times> breply option) \<times> app_tables" where
  "serve_rows ae = serve_routes access_resources (serve_access (ae_default_provider ae) (ae_ctx ae))"

definition is_generate :: "bhttp \<Rightarrow> bool" where
  "is_generate h \<longleftrightarrow> bh_method h = ''POST'' \<and> unmounted (bh_path h) = [''api-keys'', ''generate'']"

definition serve_ahttp :: "access_env \<Rightarrow> (string \<Rightarrow> uuid_text) \<Rightarrow> unit res \<Rightarrow> bhttp \<Rightarrow>
    redis_client \<times> app_tables \<Rightarrow> (nat \<times> access_reply option) \<times> (redis_client \<times> app_tables)" where
  "serve_ahttp ae parse_uuid guard h s =
     (if is_generate h
      then (case guard of
          Inl e \<Rightarrow> ((fst (error_reply e), None), s)
        | Inr _ \<Rightarrow>
            (case serve_generate (ae_ctx ae) (ae_settings ae) (ae_now ae) (ae_client ae) (ae_key ae) (bh_body h) s of
               (Inl e, s') \<Rightarrow> ((fst (error_reply e), None), s')
             | (Inr (r, k), s') \<Rightarrow> ((201, Some (KeyGenerated r k)), s')))
      else (case serve_rows ae parse_uuid guard h (snd s) of
          ((code, rep), st') \<Rightarrow> ((code, map_option Plain rep), (fst s, st'))))"

end
