(* ===== verification/CrudCreate.thy ===== *)
theory CrudCreate
  imports CrudStore
begin

text \<open>
  What can go wrong in a create. A service whose schema, defaults, references and table fit
  together (\<open>creates_fit\<close>, which evaluates) refuses a valid body only for a missing reference,
  a number beyond the column, a unique clash or an unknown person, and its replies are readable.
\<close>

section \<open>Schemas that fit a table\<close>

text \<open>What is stored for a null: the default of the mapped column, or null.\<close>

definition default_ok :: "db_column \<Rightarrow> col_default option \<Rightarrow> bool" where
  "default_ok c d = (case d of None \<Rightarrow> dc_nullable c
     | Some (DefaultValue v) \<Rightarrow> v \<noteq> BNull \<and> fits_column (dc_type c) v
     | Some DefaultNow \<Rightarrow> dc_type c = ColTime)"

definition kind_fits :: "field_spec \<Rightarrow> coltype \<Rightarrow> bool" where
  "kind_fits f t = (case (fs_kind f, t) of
      (FText, ColText None) \<Rightarrow> True
    | (FText, ColText (Some n)) \<Rightarrow> (case fs_max_len f of None \<Rightarrow> False | Some m \<Rightarrow> m \<le> n)
    | (FInt, ColInt) \<Rightarrow> True | (FBool, ColBool) \<Rightarrow> True | (FTime, ColTime) \<Rightarrow> True
    | (FDict, ColJson) \<Rightarrow> True | (FUuid, ColRef _) \<Rightarrow> True
    | (FLiteral vs, ColEnum ws) \<Rightarrow> list_all (\<lambda>v. v \<in> set ws) vs
    | _ \<Rightarrow> False)"

definition may_be_null :: "field_spec \<Rightarrow> bool" where
  "may_be_null f \<longleftrightarrow> fs_null f \<or> fs_default f = Some BNull"

definition column_covered :: "service \<Rightarrow> db_column \<Rightarrow> bool" where
  "column_covered svc c =
     (let d = map_of (sv_defaults svc) (dc_name c) in
      case field_named (sv_create svc) (dc_name c) of
        None \<Rightarrow> default_ok c d
      | Some f \<Rightarrow> kind_fits f (dc_type c) \<and> (may_be_null f \<longrightarrow> default_ok c d) \<and>
          (case fs_default f of None \<Rightarrow> True | Some v \<Rightarrow> v = BNull \<or> fits_column (dc_type c) v))"

text \<open>Every reference but that to a person is checked first, and no default stands in for it.\<close>

definition reference_covered :: "service \<Rightarrow> db_column \<Rightarrow> bool" where
  "reference_covered svc c = (case dc_type c of
      ColRef t \<Rightarrow> map_of (sv_defaults svc) (dc_name c) = None \<and>
        (t = People \<or> list_ex (\<lambda>q. req_field q = dc_name c \<and> req_table q = t) (sv_requires svc))
    | _ \<Rightarrow> True)"

definition requirement_ok :: "service \<Rightarrow> requirement \<Rightarrow> bool" where
  "requirement_ok svc q = (case field_named (sv_create svc) (req_field q) of
      None \<Rightarrow> False
    | Some f \<Rightarrow> fs_kind f = FUuid \<and> (case fs_default f of None \<Rightarrow> True | Some v \<Rightarrow> v = BNull) \<and>
        (req_null q = NullSkipped \<or> \<not> may_be_null f))"

definition creates_fit :: "(tname \<Rightarrow> db_table) \<Rightarrow> service \<Rightarrow> bool" where
  "creates_fit db svc =
     (list_all (\<lambda>c. column_covered svc c \<and> reference_covered svc c) (dt_columns (db (sv_table svc))) \<and>
      list_all (requirement_ok svc) (sv_requires svc))"

text \<open>A field of the read schema that takes whatever a create stores.\<close>

definition null_read :: "field_spec \<Rightarrow> col_default option \<Rightarrow> bool" where
  "null_read f d = (case d of None \<Rightarrow> fs_null f | Some (DefaultValue v) \<Rightarrow> value_ok f v
     | Some DefaultNow \<Rightarrow> fs_kind f = FTime)"

definition no_tighter :: "'a option \<Rightarrow> 'a option \<Rightarrow> bool" where
  "no_tighter b a \<longleftrightarrow> b = None \<or> b = a"

definition bounds_wider :: "field_spec \<Rightarrow> field_spec \<Rightarrow> bool" where
  "bounds_wider f' f \<longleftrightarrow> no_tighter (fs_min_len f') (fs_min_len f) \<and> no_tighter (fs_max_len f') (fs_max_len f) \<and>
     no_tighter (fs_ge f') (fs_ge f) \<and> no_tighter (fs_le f') (fs_le f)"

definition kind_wider :: "field_spec \<Rightarrow> field_spec \<Rightarrow> bool" where
  "kind_wider f' f \<longleftrightarrow> fs_kind f' = fs_kind f \<or>
     fs_kind f' = FText \<and> (case fs_kind f of FLiteral _ \<Rightarrow> True | _ \<Rightarrow> False)"

definition reads_field :: "service \<Rightarrow> field_spec \<Rightarrow> bool" where
  "reads_field svc f' =
     (let d = map_of (sv_defaults svc) (fs_name f') in
      case field_named (sv_create svc) (fs_name f') of
        None \<Rightarrow> null_read f' d
      | Some f \<Rightarrow> kind_wider f' f \<and> bounds_wider f' f \<and> (may_be_null f \<longrightarrow> null_read f' d) \<and>
          (case fs_default f of None \<Rightarrow> True | Some v \<Rightarrow> v = BNull \<or> value_ok f' v))"

definition reads_fit :: "service \<Rightarrow> bool" where
  "reads_fit svc = list_all (reads_field svc) (sv_read svc)"

section \<open>What a valid body stores\<close>

lemma field_named_set: "field_named fs k = Some f \<Longrightarrow> f \<in> set fs \<and> fs_name f = k"
  by (auto simp: field_named_def dest: first_where_Some)

text \<open>The value of a field in the dump: given and valid, or its default.\<close>

lemma dump_value:
  assumes body: "body_ok fs b" and f: "field_named fs k = Some f"
  shows "dump fs b k = BNull \<and> may_be_null f \<or> dump fs b k \<noteq> BNull \<and> value_ok f (dump fs b k) \<or>
    dump fs b k \<noteq> BNull \<and> fs_default f = Some (dump fs b k)"
proof -
  have valid: "case b (fs_name f) of None \<Rightarrow> fs_default f \<noteq> None | Some v \<Rightarrow> value_ok f v"
    using body field_named_set [OF f] by (auto simp: body_ok_def list_all_iff)
  show ?thesis
  proof (cases "b k")
    case None
    then obtain v where v: "fs_default f = Some v" using valid field_named_set [OF f] by auto
    then show ?thesis using None f by (cases "v = BNull") (auto simp: dump_def may_be_null_def)
  next
    case (Some v)
    then have "value_ok f v" using valid field_named_set [OF f] by simp
    then show ?thesis using Some f by (cases "v = BNull") (auto simp: dump_def may_be_null_def value_ok_def)
  qed
qed

lemma dump_none: "field_named fs k = None \<Longrightarrow> dump fs b k = BNull"
  by (simp add: dump_def)

definition stored_default :: "int \<Rightarrow> col_default option \<Rightarrow> bval" where
  "stored_default now d = (case d of None \<Rightarrow> BNull | Some (DefaultValue v) \<Rightarrow> v | Some DefaultNow \<Rightarrow> BTime now)"

lemma insert_default:
  "given k = BNull \<Longrightarrow> insert_vals ds now given k = stored_default now (map_of ds k)"
  by (simp add: insert_vals_def stored_default_def)

lemma insert_given: "given k \<noteq> BNull \<Longrightarrow> insert_vals ds now given k = given k"
  by (simp add: insert_vals_def)

text \<open>A number beyond the 32 bits of its column.\<close>

definition too_big :: "db_column \<Rightarrow> bvals \<Rightarrow> bool" where
  "too_big c vals \<longleftrightarrow> dc_type c = ColInt \<and>
     (case vals (dc_name c) of BInt i \<Rightarrow> i < - (2 ^ 31) \<or> 2 ^ 31 \<le> i | _ \<Rightarrow> False)"

lemma fits_not_big:
  assumes "fits_column (dc_type c) (vals (dc_name c))"
  shows "\<not> too_big c vals"
proof (cases "dc_type c = ColInt")
  case True
  then show ?thesis using assms
    by (cases "vals (dc_name c)") (simp_all add: fits_column_def too_big_def)
qed (simp add: too_big_def)

lemma big_int:
  "dc_type c = ColInt \<Longrightarrow> vals (dc_name c) = BInt i \<Longrightarrow> \<not> too_big c vals \<Longrightarrow>
   fits_column (dc_type c) (vals (dc_name c))"
  by (simp add: fits_column_def too_big_def)

lemma null_not_big: "vals (dc_name c) = BNull \<Longrightarrow> \<not> too_big c vals"
  by (simp add: too_big_def)

lemma kind_fits_value:
  assumes "kind_fits f t" and "value_ok f v" and "v \<noteq> BNull"
  shows "fits_column t v \<or> t = ColInt \<and> (\<exists>i. v = BInt i)"
proof -
  have k: "kind_ok (fs_kind f) v" "bound_ok f v" using assms(2,3) by (auto simp: value_ok_def)
  show ?thesis
  proof (cases t)
    case (ColText n)
    then show ?thesis using assms(1) k
      by (cases "fs_kind f"; cases v; cases n) (auto simp: kind_fits_def kind_ok_def bound_ok_def fits_column_def split: option.splits)
  next
    case (ColEnum ws)
    then show ?thesis using assms(1) k
      by (cases "fs_kind f"; cases v) (auto simp: kind_fits_def kind_ok_def fits_column_def list_all_iff)
  qed (use assms(1) k in \<open>cases "fs_kind f"; cases v; auto simp: kind_fits_def kind_ok_def fits_column_def\<close>)+
qed

lemma default_ok_stored:
  assumes "default_ok c d"
  shows "stored_default now d = BNull \<and> dc_nullable c \<or>
    stored_default now d \<noteq> BNull \<and> fits_column (dc_type c) (stored_default now d)"
proof (cases d)
  case (Some e)
  then show ?thesis using assms by (cases e) (simp_all add: default_ok_def stored_default_def fits_column_def)
qed (use assms in \<open>simp add: default_ok_def stored_default_def\<close>)

lemma stored_column:
  fixes svc b now
  defines "vals \<equiv> insert_vals (sv_defaults svc) now (dump (sv_create svc) b)"
  assumes body: "body_ok (sv_create svc) b" and cov: "column_covered svc c"
  shows "column_null_ok vals c" and "column_data_ok vals c \<longleftrightarrow> \<not> too_big c vals"
proof -
  let ?k = "dc_name c" and ?g = "dump (sv_create svc) b"
  have "vals ?k = BNull \<and> dc_nullable c \<or> vals ?k \<noteq> BNull \<and>
      (fits_column (dc_type c) (vals ?k) \<or> dc_type c = ColInt \<and> (\<exists>i. vals ?k = BInt i))"
  proof (cases "?g ?k = BNull")
    case True
    have "default_ok c (map_of (sv_defaults svc) ?k)"
    proof (cases "field_named (sv_create svc) ?k")
      case None
      then show ?thesis using cov by (simp add: column_covered_def Let_def)
    next
      case (Some f)
      then have "may_be_null f" using dump_value [OF body Some] True by auto
      then show ?thesis using cov Some by (simp add: column_covered_def Let_def)
    qed
    from default_ok_stored [OF this, of now] show ?thesis
      unfolding vals_def insert_default [of ?g ?k, OF True] by blast
  next
    case False
    then obtain f where f: "field_named (sv_create svc) ?k = Some f"
      using dump_none [of "sv_create svc" ?k b] by (cases "field_named (sv_create svc) ?k") auto
    have v: "vals ?k = ?g ?k" using insert_given [of ?g ?k] False by (simp add: vals_def)
    have "kind_fits f (dc_type c)" using cov f by (simp add: column_covered_def Let_def)
    moreover have "value_ok f (?g ?k) \<or> fits_column (dc_type c) (?g ?k)"
      using dump_value [OF body f] False cov f by (auto simp: column_covered_def Let_def)
    ultimately show ?thesis using kind_fits_value False v by auto
  qed
  then show "column_null_ok vals c" "column_data_ok vals c \<longleftrightarrow> \<not> too_big c vals"
    using fits_not_big [of c vals] big_int [of c vals] null_not_big [of vals c]
    by (auto simp: column_null_ok_def column_data_ok_def)
qed

section \<open>References\<close>

definition missing :: "app_tables \<Rightarrow> bvals \<Rightarrow> requirement \<Rightarrow> bool" where
  "missing st vals q = (case vals (req_field q) of BRef i \<Rightarrow> \<not> has_row st (req_table q) i | _ \<Rightarrow> False)"

lemma required_value:
  assumes body: "body_ok (sv_create svc) b" and q: "requirement_ok svc q"
  shows "(\<exists>i. dump (sv_create svc) b (req_field q) = BRef i) \<or>
    dump (sv_create svc) b (req_field q) = BNull \<and> req_null q = NullSkipped"
proof -
  obtain f where f: "field_named (sv_create svc) (req_field q) = Some f" "fs_kind f = FUuid"
      "case fs_default f of None \<Rightarrow> True | Some v \<Rightarrow> v = BNull" "req_null q = NullSkipped \<or> \<not> may_be_null f"
    using q by (auto simp: requirement_ok_def split: option.splits)
  show ?thesis using dump_value [OF body f(1)] f(2-4)
    by (auto simp: value_ok_def kind_ok_def split: option.splits bval.splits)
qed

lemma require_missing:
  assumes body: "body_ok (sv_create svc) b" and q: "requirement_ok svc q"
  shows "require_exists st (dump (sv_create svc) b) q =
    (if missing st (dump (sv_create svc) b) q then Inl (NotFound (req_message q)) else Inr ())"
  using required_value [OF assms] by (auto simp: require_exists_def missing_def)

lemma requires_missing:
  assumes body: "body_ok (sv_create svc) b" and qs: "list_all (requirement_ok svc) qs"
  shows "check_each (require_exists st (dump (sv_create svc) b)) qs =
    (case first_where (missing st (dump (sv_create svc) b)) qs of None \<Rightarrow> Inr ()
     | Some q \<Rightarrow> Inl (NotFound (req_message q)))"
  using qs by (induction qs) (simp_all add: require_missing [OF body])

text \<open>A person that a row names and that is not there.\<close>

definition unknown_person :: "app_tables \<Rightarrow> db_table \<Rightarrow> bvals \<Rightarrow> bool" where
  "unknown_person st d vals = list_ex (\<lambda>c. dc_type c = ColRef People \<and>
     (case vals (dc_name c) of BRef i \<Rightarrow> \<not> has_row st People i | _ \<Rightarrow> False)) (dt_columns d)"

definition clashes :: "app_tables \<Rightarrow> tname \<Rightarrow> db_table \<Rightarrow> bvals \<Rightarrow> bool" where
  "clashes st t d vals = list_ex (\<lambda>r. list_ex (\<lambda>u. clash u vals (br_vals r)) (dt_unique d)) (bl_rows st t)"

text \<open>The verdict on a create, in the order the checks come.\<close>

definition create_verdict :: "(tname \<Rightarrow> db_table) \<Rightarrow> service \<Rightarrow> body \<Rightarrow> app_tables \<Rightarrow> unit res" where
  "create_verdict db svc b st =
     (let given = dump (sv_create svc) b; t = sv_table svc;
          vals = insert_vals (sv_defaults svc) (bl_clock st) given
      in if \<not> body_ok (sv_create svc) b then Inl unprocessable
         else (case first_where (missing st given) (sv_requires svc) of
            Some q \<Rightarrow> Inl (NotFound (req_message q))
          | None \<Rightarrow>
              if list_ex (\<lambda>c. too_big c vals) (dt_columns (db t)) then Inl (Raised ''DataError'')
              else if clashes st t (db t) vals \<or> unknown_person st (db t) vals then Inl IntegrityErr
              else Inr ()))"

lemma references_hold:
  fixes svc b now
  defines "vals \<equiv> insert_vals (sv_defaults svc) now (dump (sv_create svc) b)"
  assumes req: "first_where (missing st (dump (sv_create svc) b)) (sv_requires svc) = None"
    and cov: "list_all (reference_covered svc) (dt_columns d)"
  shows "list_all (reference_ok st vals) (dt_columns d) \<longleftrightarrow> \<not> unknown_person st d vals"
proof -
  have other: "reference_ok st vals c" if c: "c \<in> set (dt_columns d)" "dc_type c \<noteq> ColRef People" for c
  proof (cases "dc_type c")
    case (ColRef t)
    then obtain q where q: "q \<in> set (sv_requires svc)" "req_field q = dc_name c" "req_table q = t"
        "map_of (sv_defaults svc) (dc_name c) = None"
      using bspec [OF cov [unfolded list_all_iff] c(1)] c(2)
      by (auto simp: list_ex_iff reference_covered_def)
    then have "vals (dc_name c) = dump (sv_create svc) b (dc_name c)"
      by (simp add: vals_def insert_vals_def)
    moreover have "\<not> missing st (dump (sv_create svc) b) q" using req q(1) by (auto simp: first_where_None)
    ultimately show ?thesis using ColRef q by (auto simp: reference_ok_def missing_def split: bval.splits)
  qed (simp_all add: reference_ok_def)
  show ?thesis
  proof
    show "list_all (reference_ok st vals) (dt_columns d) \<Longrightarrow> \<not> unknown_person st d vals"
      by (auto simp: list_all_iff unknown_person_def list_ex_iff reference_ok_def split: bval.splits)
    show "list_all (reference_ok st vals) (dt_columns d)" if "\<not> unknown_person st d vals"
      unfolding list_all_iff
    proof
      fix c assume c: "c \<in> set (dt_columns d)"
      show "reference_ok st vals c"
      proof (cases "dc_type c = ColRef People")
        case True
        then show ?thesis using that c
          by (auto simp: unknown_person_def list_ex_iff reference_ok_def split: bval.splits)
      qed (use other c in simp)
    qed
  qed
qed

lemma unique_fresh:
  assumes "keyed br_id n rows"
  shows "list_all (unique_ok rows n vals) us \<longleftrightarrow>
    \<not> list_ex (\<lambda>r. list_ex (\<lambda>u. clash u vals (br_vals r)) us) rows"
  using assms by (force simp: list_all_iff list_ex_iff unique_ok_def keyed_def)

section \<open>Creates and their replies\<close>

lemma svc_create_verdict:
  assumes ok: "tables_ok db st" and fit: "creates_fit db svc" and body: "body_ok (sv_create svc) b"
  shows "create_verdict db svc b st = Inr () \<Longrightarrow> \<exists>r. fst (svc_create db svc b st) = Inr r"
    and "create_verdict db svc b st = Inl e \<Longrightarrow> svc_create db svc b st = (Inl e, st)"
proof -
  let ?t = "sv_table svc" and ?g = "dump (sv_create svc) b"
  let ?v = "insert_vals (sv_defaults svc) (bl_clock st) ?g"
  have cols: "list_all (column_covered svc) (dt_columns (db ?t))" "list_all (reference_covered svc) (dt_columns (db ?t))"
    and reqs: "list_all (requirement_ok svc) (sv_requires svc)"
    using fit by (auto simp: creates_fit_def list_all_iff)
  have data: "list_all (column_data_ok ?v) (dt_columns (db ?t)) \<longleftrightarrow> \<not> list_ex (\<lambda>c. too_big c ?v) (dt_columns (db ?t))"
    and nulls: "list_all (column_null_ok ?v) (dt_columns (db ?t))"
    using stored_column [OF body, of _ "bl_clock st"] cols(1) by (auto simp: list_all_iff list_ex_iff)
  have uniq: "list_all (unique_ok (bl_rows st ?t) (bl_next st) ?v) (dt_unique (db ?t)) \<longleftrightarrow> \<not> clashes st ?t (db ?t) ?v"
    using unique_fresh [OF tables_okD(1) [OF ok]] by (simp add: clashes_def)
  note req = requires_missing [OF body reqs, of st]
  note refs = references_hold [OF _ cols(2), of st b "bl_clock st"]
  show "\<exists>r. fst (svc_create db svc b st) = Inr r" if "create_verdict db svc b st = Inr ()"
  proof -
    have m: "first_where (missing st ?g) (sv_requires svc) = None"
      using that body by (auto simp: create_verdict_def Let_def split: option.splits)
    then have "check_row (db ?t) st ?t (bl_next st) ?v = Inr ()"
      using that body data nulls uniq refs [OF m]
      by (auto simp: create_verdict_def Let_def check_row_def split: if_splits)
    then show ?thesis using m req by (simp add: svc_create_def insert_row_def Let_def)
  qed
  show "svc_create db svc b st = (Inl e, st)" if v: "create_verdict db svc b st = Inl e"
  proof (cases "first_where (missing st ?g) (sv_requires svc)")
    case (Some q)
    then show ?thesis using v body req by (simp add: create_verdict_def Let_def svc_create_def insert_row_def)
  next
    case None
    then have "check_row (db ?t) st ?t (bl_next st) ?v = Inl e"
      using v body data nulls uniq refs [OF None]
      by (auto simp: create_verdict_def Let_def check_row_def split: if_splits)
    then show ?thesis using None req by (simp add: svc_create_def insert_row_def Let_def)
  qed
qed

text \<open>A reply to a create passes the read schema.\<close>

lemma bound_wider_ok: "bounds_wider f' f \<Longrightarrow> bound_ok f v \<Longrightarrow> bound_ok f' v"
  by (cases v) (auto simp: bounds_wider_def no_tighter_def bound_ok_def split: option.splits)

lemma value_wider:
  assumes "kind_wider f' f" and "bounds_wider f' f" and "value_ok f v" and "v \<noteq> BNull"
  shows "value_ok f' v"
proof -
  have "kind_ok (fs_kind f') v"
    using assms(1,3,4) by (cases "fs_kind f"; cases v) (auto simp: kind_wider_def kind_ok_def value_ok_def)
  then show ?thesis using assms bound_wider_ok by (simp add: value_ok_def)
qed

lemma null_read_stored:
  assumes "null_read f d"
  shows "value_ok f (stored_default now d)"
proof (cases d)
  case None
  then show ?thesis using assms by (simp add: null_read_def stored_default_def value_ok_def)
next
  case (Some e)
  then show ?thesis using assms
    by (cases e) (simp_all add: null_read_def stored_default_def value_ok_def kind_ok_def bound_ok_def)
qed

lemma reads_created:
  assumes fit: "reads_fit svc" and body: "body_ok (sv_create svc) b"
  shows "read_ok (sv_read svc) (insert_vals (sv_defaults svc) now (dump (sv_create svc) b))"
  unfolding read_ok_def list_all_iff
proof
  fix f' assume f': "f' \<in> set (sv_read svc)"
  let ?k = "fs_name f'" and ?g = "dump (sv_create svc) b"
  let ?v = "insert_vals (sv_defaults svc) now ?g ?k"
  have fits: "reads_field svc f'" using fit f' by (simp add: reads_fit_def list_all_iff)
  show "value_ok f' ?v"
  proof (cases "?g ?k = BNull")
    case True
    have "null_read f' (map_of (sv_defaults svc) ?k)"
    proof (cases "field_named (sv_create svc) ?k")
      case None
      then show ?thesis using fits by (simp add: reads_field_def Let_def)
    next
      case (Some f)
      then have "may_be_null f" using dump_value [OF body Some] True by auto
      then show ?thesis using fits Some by (simp add: reads_field_def Let_def)
    qed
    then show ?thesis unfolding insert_default [of ?g ?k, OF True] by (rule null_read_stored)
  next
    case False
    then obtain f where f: "field_named (sv_create svc) ?k = Some f"
      using dump_none [of "sv_create svc" ?k b] by (cases "field_named (sv_create svc) ?k") auto
    have v: "?v = ?g ?k" using insert_given [of ?g ?k] False by simp
    have w: "kind_wider f' f" "bounds_wider f' f"
      "case fs_default f of None \<Rightarrow> True | Some v \<Rightarrow> v = BNull \<or> value_ok f' v"
      using fits f by (auto simp: reads_field_def Let_def)
    show ?thesis
      using dump_value [OF body f] False w value_wider [OF w(1,2)] v by auto
  qed
qed

lemma svc_create_readable:
  assumes "reads_fit svc" and "body_ok (sv_create svc) b" and "svc_create db svc b st = (Inr r, st')"
  shows "respond svc r = Inr (Item r)"
  using assms(3)
  by (cases rule: svc_create_cases) (use reads_created [OF assms(1,2)] in \<open>simp_all add: respond_def\<close>)

lemma create_served:
  assumes ok: "tables_ok db st" and fit: "creates_fit db svc" "reads_fit svc"
    and run: "serve_crud db svc (BCreate b) st = (res, st')"
  shows "case create_verdict db svc b st of Inl e \<Rightarrow> res = Inl e \<and> st' = st
    | Inr _ \<Rightarrow> \<exists>r. res = Inr (Item r) \<and> r \<in> set (bl_rows st' (sv_table svc)) \<and>
        br_vals r = insert_vals (sv_defaults svc) (bl_clock st) (dump (sv_create svc) b)"
proof (cases "body_ok (sv_create svc) b")
  case False
  then show ?thesis using run by (simp add: create_verdict_def Let_def serve_crud_def)
next
  case body: True
  show ?thesis
  proof (cases "create_verdict db svc b st")
    case (Inl e)
    then show ?thesis using svc_create_verdict(2) [OF ok fit(1) body Inl] run body
      by (simp add: serve_crud_def bind_act_def)
  next
    case (Inr u)
    then obtain r st1 where cr: "svc_create db svc b st = (Inr r, st1)"
      using svc_create_verdict(1) [OF ok fit(1) body] by (metis (full_types) old.unit.exhaust prod.collapse)
    then have "res = Inr (Item r)" "st' = st1"
      using run body svc_create_readable [OF fit(2) body cr] by (simp_all add: serve_crud_def bind_act_def)
    moreover have "r \<in> set (bl_rows st1 (sv_table svc)) \<and>
        br_vals r = insert_vals (sv_defaults svc) (bl_clock st) (dump (sv_create svc) b)"
      using cr by (cases rule: svc_create_cases) simp_all
    ultimately show ?thesis using Inr by simp
  qed
qed

end
