(* ===== verification/AccessProofs.thy ===== *)
theory AccessProofs
  imports AccessApi CrudCreate
begin

text \<open>
  The administration keeps the tables sound: the bulk statements on second factors and on the
  links of a role, and every operation of the services behind the three routers.
\<close>

section \<open>The services fit their tables\<close>

lemma access_fit: "list_all (\<lambda>svc. creates_fit app_db svc \<and> reads_fit svc \<and> writes_columns app_db svc)
    [user_credential_service, mfa_method_service, session_service, api_key_service, role_service,
     permission_service, role_permission_service, person_role_service]"
  by code_simp

section \<open>Bulk statements\<close>

lemma bval_flag: "fits_column ColBool (BBool b)"
  by (simp add: fits_column_def)

lemma mfa_unset_stored:
  assumes "stored_ok app_db st MfaMethods i v"
    and "\<And>t j. has_row st' t j = has_row st t j"
  shows "stored_ok app_db st' MfaMethods i (v(''is_primary'' := BBool False))"
proof -
  let ?v = "v(''is_primary'' := BBool False)"
  have "column_data_ok ?v c \<and> column_null_ok ?v c \<and> reference_ok st' ?v c"
    if "c \<in> set (dt_columns mfa_method_table)" for c
  proof (cases "dc_name c = ''is_primary''")
    case True
    then have "dc_type c = ColBool" using that by (auto simp: mfa_method_table_def)
    then show ?thesis using True
      by (simp add: column_data_ok_def column_null_ok_def reference_ok_def bval_flag)
  next
    case False
    then show ?thesis using assms that
      by (auto simp: stored_ok_def app_db_def column_data_ok_def column_null_ok_def reference_ok_def
          split: coltype.splits bval.splits)
  qed
  moreover have "unique_ok rows i ?v u" if "u \<in> set (dt_unique mfa_method_table)" for u rows
    using that by (auto simp: mfa_method_table_def unique_ok_def clash_def list_all_iff)
  ultimately show ?thesis by (simp add: stored_ok_def app_db_def)
qed

lemma demote_ids: "map br_id (bl_rows (demote_primaries p keep st) t) = map br_id (bl_rows st t)"
  by (simp add: demote_primaries_def update_where_def unset_primary_def)

lemma same_ids_rows: "map br_id (bl_rows st' t) = map br_id (bl_rows st t) \<Longrightarrow> has_row st' t j = has_row st t j"
proof -
  have "has_row s t j \<longleftrightarrow> j \<in> set (map br_id (bl_rows s t))" for s
    by (auto simp: has_row_def list_ex_iff)
  then show "map br_id (bl_rows st' t) = map br_id (bl_rows st t) \<Longrightarrow> has_row st' t j = has_row st t j" by metis
qed

lemma demote_has [simp]: "has_row (demote_primaries p keep st) t j = has_row st t j"
  by (rule same_ids_rows) (rule demote_ids)

lemma demote_simps [simp]:
  "bl_next (demote_primaries p keep st) = bl_next st"
  "t \<noteq> MfaMethods \<Longrightarrow> bl_rows (demote_primaries p keep st) t = bl_rows st t"
  by (simp_all add: demote_primaries_def)

lemma demote_row:
  assumes "q \<in> set (bl_rows (demote_primaries p keep st) MfaMethods)"
  obtains (kept) "q \<in> set (bl_rows st MfaMethods)" "\<not> (is_primary_of p q \<and> keep \<noteq> Some (br_id q))"
  | (unset) r where "r \<in> set (bl_rows st MfaMethods)" "br_id q = br_id r"
      "br_vals q = (br_vals r)(''is_primary'' := BBool False)"
proof -
  have "q \<in> set (update_where (\<lambda>r. is_primary_of p r \<and> keep \<noteq> Some (br_id r)) (unset_primary st) (bl_rows st MfaMethods))"
    using assms by (simp add: demote_primaries_def)
  then show thesis
    by (cases rule: update_where_cases) (use that in \<open>auto simp: unset_primary_def\<close>)
qed

lemma clash_primary:
  "u \<in> set (dt_unique (app_db MfaMethods)) \<Longrightarrow> clash u v w \<Longrightarrow>
    v ''is_primary'' = BBool True \<and> w ''is_primary'' = BBool True \<and> v ''person_id'' = w ''person_id'' \<and> v ''person_id'' \<noteq> BNull"
  by (auto simp: app_db_def mfa_method_table_def clash_def)

lemma demote_ok:
  assumes ok: "tables_ok app_db st"
  shows "tables_ok app_db (demote_primaries p keep st)" (is "tables_ok app_db ?s")
proof -
  have "keyed br_id (bl_next st) (bl_rows ?s t)" for t
    using tables_okD(1) [OF ok, of t] unfolding keyed_ids demote_ids .
  moreover have "stored_ok app_db ?s t (br_id q) (br_vals q)" if q: "q \<in> set (bl_rows ?s t)" for t q
  proof (cases "t = MfaMethods")
    case False
    then have "q \<in> set (bl_rows st t)" using q by simp
    from tables_okD(2) [OF ok this] False show ?thesis
      by (auto simp: stored_ok_def reference_ok_def split: coltype.splits bval.splits)
  next
    case True
    from q [unfolded True] show ?thesis
    proof (cases rule: demote_row)
      case kept
      have old: "stored_ok app_db st MfaMethods (br_id q) (br_vals q)"
        by (rule tables_okD(2) [OF ok kept(1)])
      show ?thesis unfolding True
      proof (rule stored_ok_later [OF old])
        fix z u assume u: "u \<in> set (dt_unique (app_db MfaMethods))" and z: "z \<in> set (bl_rows ?s MfaMethods)"
          and new: "z \<notin> set (bl_rows st MfaMethods)"
        from z show "br_id z = br_id q \<or> \<not> clash u (br_vals q) (br_vals z)"
          by (cases rule: demote_row) (use new clash_primary [OF u, of "br_vals q" "br_vals z"] in auto)
      qed simp
    next
      case (unset r)
      show ?thesis unfolding True unset(2,3)
        by (rule mfa_unset_stored [OF tables_okD(2) [OF ok unset(1)]]) simp
    qed
  qed
  ultimately show ?thesis by (simp add: tables_ok_def)
qed

lemma links_free: "\<not> referenced app_db st RolePermissions i"
proof -
  have "list_all (\<lambda>t. list_all (\<lambda>c. dc_type c \<noteq> ColRef RolePermissions) (dt_columns (app_db t))) all_tables"
    by code_simp
  then show ?thesis by (auto simp: referenced_def list_ex_iff list_all_iff)
qed

lemma drop_links_ok: "tables_ok app_db st \<Longrightarrow> tables_ok app_db (drop_links i st)"
  unfolding drop_links_def by (rule delete_ok) (auto simp: links_free)

section \<open>The operations keep the invariant\<close>

abbreviation sound :: "app_tables \<Rightarrow> bool" where
  "sound \<equiv> tables_ok app_db"

lemma sound_insert: "sound st \<Longrightarrow> sound (snd (insert_row app_db t ds given st))"
  using insert_row_ok [OF _ surjective_pairing] .

lemma sound_create: "sound st \<Longrightarrow> sound (snd (svc_create app_db svc b st))"
  by (auto simp: svc_create_def Let_def sound_insert split: sum.split)

lemma sound_conflict: "snd (primary_conflict out) = snd out"
  by (cases out) (auto simp: primary_conflict_def split: sum.splits err.splits)

lemma sound_credential: "sound st \<Longrightarrow> sound (snd (create_credential dp b st))"
  by (auto simp: create_credential_def sound_create split: sum.split)

lemma sound_mfa_create: "sound st \<Longrightarrow> sound (snd (create_mfa_method b st))"
  by (auto simp: create_mfa_method_def Let_def sound_conflict sound_insert demote_ok split: sum.split)

lemma mfa_row_demoted:
  "r \<in> set (bl_rows st MfaMethods) \<Longrightarrow> r \<in> set (bl_rows (demote_primaries p (Some (br_id r)) st) MfaMethods)"
  by (simp add: demote_primaries_def update_where_miss)

lemma sound_mfa_update: "sound st \<Longrightarrow> sound (snd (update_mfa_method uid b st))"
  unfolding update_mfa_method_def
  by (rule bind_get_ok [where svc = mfa_method_service])
    (auto simp: Let_def sound_conflict demote_ok write_row_snd_ok mfa_row_demoted mfa_method_service_def split: sum.split)

lemma sound_key_create: "sound st \<Longrightarrow> sound (snd (create_api_key x b st))"
  by (auto simp: create_api_key_def Let_def sound_insert split: sum.split)

lemma sound_key_update: "sound st \<Longrightarrow> sound (snd (update_api_key x uid b st))"
  unfolding update_api_key_def
  by (rule bind_get_ok [where svc = api_key_service])
    (auto simp: Let_def write_row_snd_ok api_key_service_def split: sum.split option.split bval.split)

lemma sound_key_generate: "sound st \<Longrightarrow> sound (snd (generate_api_key x k b st))"
  by (auto simp: generate_api_key_def Let_def bind_act_def sound_insert split: sum.splits prod.splits)
    (metis sound_insert snd_conv)+

lemma sound_update: "sound st \<Longrightarrow> sound (snd (svc_update app_db svc fs uid b st))"
  unfolding svc_update_def
  by (rule bind_get_ok) (auto simp: write_row_snd_ok split: sum.split)

lemma sound_delete: "sound st \<Longrightarrow> sound (snd (svc_delete app_db svc uid st))"
  using serve_ok [of app_db st svc "BDelete uid"] by (simp add: serve_crud_def ret_bind_snd)

lemma sound_access_create: "sound st \<Longrightarrow> sound (snd (access_create dp x svc b st))"
  by (auto simp: access_create_def sound_credential sound_mfa_create sound_key_create sound_create split: tname.split)

lemma sound_access_update: "sound st \<Longrightarrow> sound (snd (access_update x svc fs uid b st))"
  by (auto simp: access_update_def sound_mfa_update sound_key_update sound_update split: tname.split)

lemma answer_sound: "sound st \<Longrightarrow> sound (snd (act st)) \<Longrightarrow> sound (snd (answer svc reply act st))"
  by (auto simp: answer_def split: prod.splits sum.splits)

lemma sound_access: "sound st \<Longrightarrow> sound (snd (serve_access dp x svc rq st))"
proof (cases rq)
  case (BDelete uid)
  assume "sound st"
  then show ?thesis using BDelete sound_delete [of st svc uid]
    by (auto simp: serve_access_def split: prod.splits sum.splits)
next
  case (BUpdate uid b)
  assume "sound st"
  then show ?thesis using BUpdate
    by (auto simp: serve_access_def answer_sound sound_access_update split: option.split)
next
  case (BCreate b)
  assume "sound st"
  then show ?thesis using BCreate by (simp add: serve_access_def answer_sound sound_access_create)
next
  case (BGet uid)
  assume "sound st"
  then show ?thesis using BGet by (simp add: serve_access_def answer_sound svc_get_state)
next
  case (BList q)
  assume "sound st"
  then show ?thesis using BList serve_ok by (simp add: serve_access_def)
qed

lemma generate_limited_sound:
  "sound (snd s) \<Longrightarrow> sound (snd (snd (generate_with_rate_limit x a now client k b s)))"
  using sound_key_generate [of "snd s" x k b]
  by (auto simp: generate_with_rate_limit_def Let_def split: prod.splits redis_client.splits sum.splits)

lemma serve_generate_sound:
  "sound (snd s) \<Longrightarrow> sound (snd (snd (serve_generate x a now client k b s)))"
  using generate_limited_sound [of s x a now client k b]
  by (auto simp: serve_generate_def split: prod.splits sum.splits)

lemma serve_ahttp_sound:
  assumes "sound (snd s)"
  shows "sound (snd (snd (serve_ahttp ae parse_uuid guard h s)))"
proof (cases "is_generate h")
  case True
  then show ?thesis
    using assms serve_generate_sound [OF assms, of "ae_ctx ae" "ae_settings ae" "ae_now ae" "ae_client ae" "ae_key ae" "bh_body h"]
    by (auto simp: serve_ahttp_def split: sum.splits prod.splits)
next
  case False
  have "sound (snd (serve_rows ae parse_uuid guard h (snd s)))"
    unfolding serve_rows_def
    by (rule serve_routes_cases [of access_resources "serve_access (ae_default_provider ae) (ae_ctx ae)" parse_uuid guard h "snd s"])
      (simp_all add: assms sound_access)
  then show ?thesis using False by (auto simp: serve_ahttp_def split: prod.split)
qed

end
