(* ===== verification/AccessView.thy ===== *)
theory AccessView
  imports AccessProofs AuthGuards
begin

text \<open>
  The rows as the guards read them: the mapped classes of \<^verbatim>\<open>app/models/auth.py\<close> and
  \<^verbatim>\<open>app/models/rbac.py\<close> as a view of the tables, and what the guards answer in terms of the
  contents of the tables.
\<close>

section \<open>Values as attributes\<close>

definition text_of :: "bval \<Rightarrow> string option" where
  "text_of v = (case v of BText s \<Rightarrow> Some s | _ \<Rightarrow> None)"

definition time_of :: "bval \<Rightarrow> int option" where
  "time_of v = (case v of BTime t \<Rightarrow> Some t | _ \<Rightarrow> None)"

definition int_of :: "bval \<Rightarrow> int option" where
  "int_of v = (case v of BInt i \<Rightarrow> Some i | _ \<Rightarrow> None)"

definition ref_of :: "bval \<Rightarrow> nat option" where
  "ref_of v = (case v of BRef i \<Rightarrow> Some i | _ \<Rightarrow> None)"

definition flag_of :: "bval \<Rightarrow> bool" where
  "flag_of v \<longleftrightarrow> v = BBool True"

section \<open>The rows of the models\<close>

definition credential_of :: "trow \<Rightarrow> credential" where
  "credential_of r = (let v = br_vals r in
     \<lparr>u_id = br_id r, u_person = the (ref_of (v ''person_id'')),
      u_provider = (if v ''provider'' = BText ''sso'' then Sso else Local),
      u_username = text_of (v ''username''), u_hash = text_of (v ''password_hash''),
      u_must_change = flag_of (v ''must_change_password''), u_changed_at = time_of (v ''password_updated_at''),
      u_failed = the (int_of (v ''failed_login_attempts'')), u_locked = time_of (v ''locked_until''),
      u_last_login = time_of (v ''last_login_at''), u_active = flag_of (v ''is_active'')\<rparr>)"

definition mfa_method_of :: "trow \<Rightarrow> mfa_method" where
  "mfa_method_of r = (let v = br_vals r in
     \<lparr>m_id = br_id r, m_person = the (ref_of (v ''person_id'')),
      m_type = (if v ''method_type'' = BText ''totp'' then Totp
                else if v ''method_type'' = BText ''sms'' then Sms else EmailCode),
      m_label = text_of (v ''label''), m_secret = text_of (v ''secret''),
      m_primary = flag_of (v ''is_primary''), m_enabled = flag_of (v ''enabled''),
      m_active = flag_of (v ''is_active''), m_verified = time_of (v ''verified_at''),
      m_used = time_of (v ''last_used_at''), m_counter = int_of (v ''last_totp_counter'')\<rparr>)"

definition status_of :: "bval \<Rightarrow> session_status" where
  "status_of v = (if v = BText ''active'' then Active else if v = BText ''expired'' then Expired else Revoked)"

definition session_of :: "trow \<Rightarrow> auth_session" where
  "session_of r = (let v = br_vals r in
     \<lparr>s_id = br_id r, s_person = the (ref_of (v ''person_id'')), s_status = status_of (v ''status''),
      s_hash = the (text_of (v ''token_hash'')), s_prev = text_of (v ''previous_token_hash''),
      s_rotated = time_of (v ''token_rotated_at''), s_ip = text_of (v ''ip_address''),
      s_agent = text_of (v ''user_agent''), s_created = br_created r, s_seen = time_of (v ''last_seen_at''),
      s_expires = the (time_of (v ''expires_at'')), s_revoked = time_of (v ''revoked_at'')\<rparr>)"

definition api_key_of :: "trow \<Rightarrow> api_key" where
  "api_key_of r = (let v = br_vals r in
     \<lparr>k_id = br_id r, k_person = ref_of (v ''person_id''), k_hash = the (text_of (v ''key_hash'')),
      k_active = flag_of (v ''is_active''), k_expires = time_of (v ''expires_at''),
      k_revoked = time_of (v ''revoked_at'')\<rparr>)"

definition person_of :: "trow \<Rightarrow> person" where
  "person_of r = (let v = br_vals r in
     \<lparr>p_id = br_id r, p_email = the (text_of (v ''email'')), p_first = the (text_of (v ''first_name'')),
      p_display = text_of (v ''display_name'')\<rparr>)"

definition role_of :: "trow \<Rightarrow> role" where
  "role_of r = \<lparr>r_id = br_id r, r_name = the (text_of (br_vals r ''name'')), r_active = flag_of (br_vals r ''is_active'')\<rparr>"

definition permission_of :: "trow \<Rightarrow> permission" where
  "permission_of r =
     \<lparr>pm_id = br_id r, pm_key = the (text_of (br_vals r ''key'')), pm_active = flag_of (br_vals r ''is_active'')\<rparr>"

definition person_role_of :: "trow \<Rightarrow> person_role" where
  "person_role_of r =
     \<lparr>pr_person = the (ref_of (br_vals r ''person_id'')), pr_role = the (ref_of (br_vals r ''role_id''))\<rparr>"

definition role_permission_of :: "trow \<Rightarrow> role_permission" where
  "role_permission_of r =
     \<lparr>rp_role = the (ref_of (br_vals r ''role_id'')), rp_permission = the (ref_of (br_vals r ''permission_id''))\<rparr>"

definition auth_view :: "domain_setting list \<Rightarrow> app_tables \<Rightarrow> auth_db" where
  "auth_view settings st =
     \<lparr>c_credentials = map credential_of (bl_rows st UserCredentials),
      c_mfa = map mfa_method_of (bl_rows st MfaMethods),
      c_sessions = map session_of (bl_rows st Sessions),
      c_api_keys = map api_key_of (bl_rows st ApiKeys),
      c_people = map person_of (bl_rows st People),
      c_roles = map role_of (bl_rows st Roles),
      c_permissions = map permission_of (bl_rows st Permissions),
      c_person_roles = map person_role_of (bl_rows st PersonRoles),
      c_role_permissions = map role_permission_of (bl_rows st RolePermissions),
      c_settings = settings,
      c_next = bl_next st\<rparr>"

section \<open>Stored values have their type\<close>

lemma stored_value:
  assumes ok: "tables_ok db st" and v: "contents st t i = Some v" and c: "c \<in> set (dt_columns (db t))"
  shows "(v (dc_name c) = BNull \<and> dc_nullable c) \<or> fits_column (dc_type c) (v (dc_name c))"
proof -
  obtain r where r: "find_row (bl_rows st t) i = Some r" "br_vals r = v" using v by (auto simp: contents_def)
  then have "stored_ok db st t (br_id r) v" using tables_okD(2) [OF ok, of r t] find_row_set by blast
  then show ?thesis using c by (auto simp: stored_ok_def column_data_ok_def column_null_ok_def)
qed

lemma stored_reference:
  assumes ok: "tables_ok db st" and v: "contents st t i = Some v"
    and c: "c \<in> set (dt_columns (db t))" "dc_type c = ColRef t'" "\<not> dc_nullable c"
  obtains j where "v (dc_name c) = BRef j"
  using stored_value [OF ok v c(1)] c(2,3) that by (cases "v (dc_name c)") (auto simp: fits_column_def)

lemma fits_text: "fits_column (ColText n) w \<Longrightarrow> \<exists>s. w = BText s"
  by (cases w; cases n) (auto simp: fits_column_def)

lemma stored_text:
  assumes ok: "tables_ok db st" and v: "contents st t i = Some v"
    and c: "c \<in> set (dt_columns (db t))" "dc_type c = ColText n" "\<not> dc_nullable c"
  obtains s where "v (dc_name c) = BText s"
  using stored_value [OF ok v c(1)] c(2,3) that fits_text [of n "v (dc_name c)"] by auto

lemma contents_row:
  assumes "tables_ok db st"
  shows "contents st t i = Some v \<longleftrightarrow> (\<exists>r\<in>set (bl_rows st t). br_id r = i \<and> br_vals r = v)"
proof
  assume "contents st t i = Some v"
  then show "\<exists>r\<in>set (bl_rows st t). br_id r = i \<and> br_vals r = v"
    by (auto simp: contents_def dest: find_row_set)
next
  assume "\<exists>r\<in>set (bl_rows st t). br_id r = i \<and> br_vals r = v"
  then obtain r where r: "r \<in> set (bl_rows st t)" "br_id r = i" "br_vals r = v" by blast
  have "find_row (bl_rows st t) i = Some r"
    unfolding find_row_def by (rule first_where_key [OF tables_okD(1) [OF assms] r(1,2)])
  then show "contents st t i = Some v" using r by (simp add: contents_def)
qed

lemma has_row_contents: "has_row st t i \<longleftrightarrow> contents st t i \<noteq> None"
  by (simp add: has_row_find contents_def)

text \<open>Two rows that agree on a unique column without a flag are one.\<close>

lemma unique_rows:
  assumes ok: "tables_ok db st" and u: "(cs, None) \<in> set (dt_unique (db t))"
    and v: "contents st t i = Some v" and w: "contents st t j = Some w"
    and same: "\<And>c. c \<in> set cs \<Longrightarrow> v c \<noteq> BNull \<and> v c = w c"
  shows "i = j"
proof -
  obtain r q where r: "r \<in> set (bl_rows st t)" "br_id r = i" "br_vals r = v"
    and q: "q \<in> set (bl_rows st t)" "br_id q = j" "br_vals q = w"
    using v w contents_row [OF ok] by metis
  have "unique_ok (bl_rows st t) i v (cs, None)"
    using tables_okD(2) [OF ok r(1)] r u by (auto simp: stored_ok_def)
  then have "br_id q = i \<or> \<not> clash (cs, None) v (br_vals q)"
    using q(1) by (auto simp: unique_ok_def list_all_iff)
  moreover have "\<forall>c\<in>set cs. v c \<noteq> BNull \<and> v c = w c" using same by blast
  then have "clash (cs, None) v w" by (simp only: clash_def list_all_iff fst_conv snd_conv option.case simp_thms)
  ultimately show ?thesis using q by simp
qed

section \<open>Sessions\<close>

lemma decode_view: "decode_access_token x (auth_view S st) t now = decode_access_token x (auth_view S st') t now"
  by (simp add: decode_access_token_def decode_jwt_def jwt_secret_def jwt_algorithm_def config_def
      setting_value_def auth_view_def)

text \<open>A session that is open for a person, in the contents of the table.\<close>

definition session_open :: "app_tables \<Rightarrow> int \<Rightarrow> nat \<Rightarrow> nat \<Rightarrow> bool" where
  "session_open st now p k \<longleftrightarrow> (case contents st Sessions k of None \<Rightarrow> False
     | Some v \<Rightarrow> the (ref_of (v ''person_id'')) = p \<and> v ''status'' = BText ''active'' \<and>
         time_of (v ''revoked_at'') = None \<and> now < the (time_of (v ''expires_at'')))"

lemma usable_session_of:
  "usable_session now (session_of r) \<longleftrightarrow> br_vals r ''status'' = BText ''active'' \<and>
     time_of (br_vals r ''revoked_at'') = None \<and> now < the (time_of (br_vals r ''expires_at''))"
  by (auto simp: usable_session_def live_session_def session_of_def status_of_def Let_def)

lemma session_view:
  assumes ok: "tables_ok db st"
  shows "first_where (\<lambda>r. s_id r = k \<and> s_person r = p \<and> usable_session now r) (c_sessions (auth_view S st)) = None
    \<longleftrightarrow> \<not> session_open st now p k"
proof -
  have ids: "s_id (session_of r) = br_id r" "s_person (session_of r) = the (ref_of (br_vals r ''person_id''))" for r
    by (simp_all add: session_of_def Let_def)
  have "session_open st now p k \<longleftrightarrow> (\<exists>v. contents st Sessions k = Some v \<and> the (ref_of (v ''person_id'')) = p \<and>
      v ''status'' = BText ''active'' \<and> time_of (v ''revoked_at'') = None \<and> now < the (time_of (v ''expires_at'')))"
    by (auto simp: session_open_def split: option.splits)
  also have "\<dots> \<longleftrightarrow> (\<exists>r\<in>set (bl_rows st Sessions). br_id r = k \<and> the (ref_of (br_vals r ''person_id'')) = p \<and>
      usable_session now (session_of r))"
    unfolding contents_row [OF ok] usable_session_of by auto
  finally show ?thesis by (auto simp: first_where_None auth_view_def ids)
qed

text \<open>Who the caller of a request is, by the contents of the sessions.\<close>

lemma user_auth_view:
  assumes ok: "tables_ok db st"
  shows "require_user_auth x (auth_view S st) now h =
     (case py_or (extract_bearer_token h) None of
        None \<Rightarrow> unauthorized
      | Some t \<Rightarrow>
          bind_res (decode_access_token x (auth_view S st) t now) (\<lambda>payload.
            case (cl_sub payload, cl_session payload) of
              (Some p, Some k) \<Rightarrow>
                if session_open st now p k
                then Inr \<lparr>au_person = p, au_session = k, au_roles = cl_roles payload, au_scopes = cl_scopes payload\<rparr>
                else unauthorized
            | _ \<Rightarrow> unauthorized))"
proof -
  have look: "(case first_where (\<lambda>r. s_id r = k \<and> s_person r = p \<and> usable_session now r) (c_sessions (auth_view S st)) of
      None \<Rightarrow> unauthorized | Some r \<Rightarrow> Inr a) = (if session_open st now p k then Inr a else unauthorized)" for p k and a :: auth_info
    using session_view [OF ok, of k p now S]
    by (cases "first_where (\<lambda>r. s_id r = k \<and> s_person r = p \<and> usable_session now r) (c_sessions (auth_view S st))") auto
  show ?thesis unfolding require_user_auth_def look by (rule refl)
qed

section \<open>Roles\<close>

text \<open>A person holds the active role of a name, in the contents of the tables.\<close>

definition holds_role :: "app_tables \<Rightarrow> nat \<Rightarrow> string \<Rightarrow> bool" where
  "holds_role st p name \<longleftrightarrow> (\<exists>i v l w. contents st Roles i = Some v \<and> v ''name'' = BText name \<and>
     v ''is_active'' = BBool True \<and> contents st PersonRoles l = Some w \<and> w ''person_id'' = BRef p \<and>
     w ''role_id'' = BRef i)"

lemma role_name: "tables_ok app_db st \<Longrightarrow> contents st Roles i = Some v \<Longrightarrow> \<exists>s. v ''name'' = BText s"
  by (erule stored_text [where c = "\<lparr>dc_name = ''name'', dc_type = ColText (Some 80), dc_nullable = False\<rparr>"])
    (auto simp: app_db_def role_table_def)

lemma link_refs:
  assumes "tables_ok app_db st" and "contents st PersonRoles l = Some w"
  shows "\<exists>p. w ''person_id'' = BRef p" and "\<exists>i. w ''role_id'' = BRef i"
  by (rule stored_reference [OF assms, where c = "\<lparr>dc_name = ''person_id'', dc_type = ColRef People, dc_nullable = False\<rparr>"],
      auto simp: app_db_def person_role_table_def)
    (rule stored_reference [OF assms, where c = "\<lparr>dc_name = ''role_id'', dc_type = ColRef Roles, dc_nullable = False\<rparr>"],
      auto simp: app_db_def person_role_table_def)

lemma role_names_unique:
  "tables_ok app_db st \<Longrightarrow> contents st Roles i = Some v \<Longrightarrow> contents st Roles j = Some w \<Longrightarrow>
    v ''name'' = BText n \<Longrightarrow> w ''name'' = BText n \<Longrightarrow> i = j"
  by (rule unique_rows [where cs = "[''name'']" and t = Roles and v = v and w = w])
    (auto simp: app_db_def role_table_def)

lemma require_role_view:
  assumes ok: "tables_ok app_db st"
  shows "require_role (auth_view S st) name info = Inr info \<longleftrightarrow> holds_role st (au_person info) name"
proof -
  let ?roles = "c_roles (auth_view S st)" and ?links = "c_person_roles (auth_view S st)"
  have role: "r \<in> set ?roles \<and> r_name r = name \<and> r_active r \<longleftrightarrow>
      (\<exists>v. contents st Roles (r_id r) = Some v \<and> v ''name'' = BText name \<and> v ''is_active'' = BBool True \<and>
        r = \<lparr>r_id = r_id r, r_name = name, r_active = True\<rparr>)" for r
  proof
    assume a: "r \<in> set ?roles \<and> r_name r = name \<and> r_active r"
    then obtain q where q: "q \<in> set (bl_rows st Roles)" "r = role_of q" by (auto simp: auth_view_def)
    have c: "contents st Roles (br_id q) = Some (br_vals q)" using q(1) contents_row [OF ok] by blast
    obtain s where s: "br_vals q ''name'' = BText s" using role_name [OF ok c] by blast
    show "\<exists>v. contents st Roles (r_id r) = Some v \<and> v ''name'' = BText name \<and> v ''is_active'' = BBool True \<and>
        r = \<lparr>r_id = r_id r, r_name = name, r_active = True\<rparr>"
      using a c s q(2) by (auto simp: role_of_def flag_of_def text_of_def)
  next
    assume "\<exists>v. contents st Roles (r_id r) = Some v \<and> v ''name'' = BText name \<and> v ''is_active'' = BBool True \<and>
        r = \<lparr>r_id = r_id r, r_name = name, r_active = True\<rparr>"
    then obtain q where q: "q \<in> set (bl_rows st Roles)" "br_id q = r_id r" "br_vals q ''name'' = BText name"
        "br_vals q ''is_active'' = BBool True" and r: "r = \<lparr>r_id = r_id r, r_name = name, r_active = True\<rparr>"
      unfolding contents_row [OF ok] by blast
    have "role_of q = r" by (subst r) (simp add: role_of_def text_of_def flag_of_def q)
    moreover have "role_of q \<in> set ?roles" using q(1) by (simp add: auth_view_def)
    moreover have "r_name r = name" "r_active r" using r by (metis role.select_convs(2)) (metis r role.select_convs(3))
    ultimately show "r \<in> set ?roles \<and> r_name r = name \<and> r_active r" by simp
  qed
  have link: "list_ex (\<lambda>l. pr_person l = p \<and> pr_role l = i) ?links \<longleftrightarrow>
      (\<exists>l w. contents st PersonRoles l = Some w \<and> w ''person_id'' = BRef p \<and> w ''role_id'' = BRef i)" for p i
  proof
    assume "list_ex (\<lambda>l. pr_person l = p \<and> pr_role l = i) ?links"
    then obtain q where q: "q \<in> set (bl_rows st PersonRoles)" "pr_person (person_role_of q) = p" "pr_role (person_role_of q) = i"
      by (auto simp: list_ex_iff auth_view_def)
    have c: "contents st PersonRoles (br_id q) = Some (br_vals q)" using q(1) contents_row [OF ok] by blast
    have "br_vals q ''person_id'' = BRef p" "br_vals q ''role_id'' = BRef i"
      using link_refs [OF ok c] q(2,3) by (auto simp: person_role_of_def ref_of_def)
    then show "\<exists>l w. contents st PersonRoles l = Some w \<and> w ''person_id'' = BRef p \<and> w ''role_id'' = BRef i"
      using c by blast
  next
    assume "\<exists>l w. contents st PersonRoles l = Some w \<and> w ''person_id'' = BRef p \<and> w ''role_id'' = BRef i"
    then show "list_ex (\<lambda>l. pr_person l = p \<and> pr_role l = i) ?links"
      unfolding contents_row [OF ok] by (force simp: list_ex_iff auth_view_def person_role_of_def ref_of_def)
  qed
  show ?thesis
  proof (cases "first_where (\<lambda>r. r_name r = name \<and> r_active r) ?roles")
    case None
    then have "\<not> (r \<in> set ?roles \<and> r_name r = name \<and> r_active r)" for r by (auto simp: first_where_None)
    then have "\<not> holds_role st (au_person info) name"
      unfolding role holds_role_def by (metis role.select_convs(1))
    then show ?thesis using None by (simp add: require_role_def)
  next
    case (Some r)
    then have "r \<in> set ?roles \<and> r_name r = name \<and> r_active r" by (rule first_where_Some)
    then obtain v where v: "contents st Roles (r_id r) = Some v" "v ''name'' = BText name" "v ''is_active'' = BBool True"
      unfolding role by blast
    have "holds_role st (au_person info) name \<longleftrightarrow>
        (\<exists>l w. contents st PersonRoles l = Some w \<and> w ''person_id'' = BRef (au_person info) \<and> w ''role_id'' = BRef (r_id r))"
      using v role_names_unique [OF ok _ v(1) _ v(2)] unfolding holds_role_def by blast
    then show ?thesis using Some link [of "au_person info" "r_id r"] by (simp add: require_role_def)
  qed
qed

end
