(* ===== verification/BillingApi.thy ===== *)
theory BillingApi
  imports CrudApi AppTables
begin

text \<open>The router of \<^verbatim>\<open>app/api/billing.py\<close>: its fourteen resources, in the order of the file.\<close>

section \<open>Resources\<close>

definition product_api :: resource where
  "product_api = \<lparr>rs_path = [''products''], rs_service = product_service,
     rs_routes =
      [(''POST'', False, OpCreate, 201),
       (''GET'', True, OpGet, 200),
       (''GET'', False, OpList, 200),
       (''PATCH'', True, OpUpdate, 200),
       (''DELETE'', True, OpDelete, 204)],
     rs_args = [''is_active''],
     rs_params = [''is_active''],
     rs_order = (''created_at'', ''desc'')\<rparr>"

definition price_api :: resource where
  "price_api = \<lparr>rs_path = [''prices''], rs_service = price_service,
     rs_routes =
      [(''POST'', False, OpCreate, 201),
       (''GET'', True, OpGet, 200),
       (''GET'', False, OpList, 200),
       (''PATCH'', True, OpUpdate, 200),
       (''DELETE'', True, OpDelete, 204)],
     rs_args = [''product_id'', ''type'', ''currency'', ''is_active''],
     rs_params = [''product_id'', ''type'', ''currency'', ''is_active''],
     rs_order = (''created_at'', ''desc'')\<rparr>"

definition customer_api :: resource where
  "customer_api = \<lparr>rs_path = [''customers''], rs_service = customer_service,
     rs_routes =
      [(''POST'', False, OpCreate, 201),
       (''GET'', True, OpGet, 200),
       (''GET'', False, OpList, 200),
       (''PATCH'', True, OpUpdate, 200),
       (''DELETE'', True, OpDelete, 204)],
     rs_args = [''person_id'', ''email'', ''is_active''],
     rs_params = [''person_id'', ''email'', ''is_active''],
     rs_order = (''created_at'', ''desc'')\<rparr>"

definition subscription_api :: resource where
  "subscription_api = \<lparr>rs_path = [''subscriptions''], rs_service = subscription_service,
     rs_routes =
      [(''POST'', False, OpCreate, 201),
       (''GET'', True, OpGet, 200),
       (''GET'', False, OpList, 200),
       (''PATCH'', True, OpUpdate, 200),
       (''DELETE'', True, OpDelete, 204)],
     rs_args = [''customer_id'', ''status'', ''is_active''],
     rs_params = [''customer_id'', ''status'', ''is_active''],
     rs_order = (''created_at'', ''desc'')\<rparr>"

definition subscription_item_api :: resource where
  "subscription_item_api = \<lparr>rs_path = [''subscription-items''], rs_service = subscription_item_service,
     rs_routes =
      [(''POST'', False, OpCreate, 201),
       (''GET'', True, OpGet, 200),
       (''GET'', False, OpList, 200),
       (''PATCH'', True, OpUpdate, 200),
       (''DELETE'', True, OpDelete, 204)],
     rs_args = [''subscription_id'', ''price_id''],
     rs_params = [''subscription_id'', ''price_id''],
     rs_order = (''created_at'', ''desc'')\<rparr>"

definition invoice_api :: resource where
  "invoice_api = \<lparr>rs_path = [''invoices''], rs_service = invoice_service,
     rs_routes =
      [(''POST'', False, OpCreate, 201),
       (''GET'', True, OpGet, 200),
       (''GET'', False, OpList, 200),
       (''PATCH'', True, OpUpdate, 200),
       (''DELETE'', True, OpDelete, 204)],
     rs_args = [''customer_id'', ''subscription_id'', ''status''],
     rs_params = [''customer_id'', ''subscription_id'', ''status''],
     rs_order = (''created_at'', ''desc'')\<rparr>"

definition invoice_item_api :: resource where
  "invoice_item_api = \<lparr>rs_path = [''invoice-items''], rs_service = invoice_item_service,
     rs_routes =
      [(''POST'', False, OpCreate, 201),
       (''GET'', True, OpGet, 200),
       (''GET'', False, OpList, 200),
       (''PATCH'', True, OpUpdate, 200),
       (''DELETE'', True, OpDelete, 204)],
     rs_args = [''invoice_id''],
     rs_params = [''invoice_id''],
     rs_order = (''created_at'', ''desc'')\<rparr>"

definition payment_method_api :: resource where
  "payment_method_api = \<lparr>rs_path = [''payment-methods''], rs_service = payment_method_service,
     rs_routes =
      [(''POST'', False, OpCreate, 201),
       (''GET'', True, OpGet, 200),
       (''GET'', False, OpList, 200),
       (''PATCH'', True, OpUpdate, 200),
       (''DELETE'', True, OpDelete, 204)],
     rs_args = [''customer_id'', ''type'', ''is_active''],
     rs_params = [''customer_id'', ''type'', ''is_active''],
     rs_order = (''created_at'', ''desc'')\<rparr>"

definition payment_intent_api :: resource where
  "payment_intent_api = \<lparr>rs_path = [''payment-intents''], rs_service = payment_intent_service,
     rs_routes =
      [(''POST'', False, OpCreate, 201),
       (''GET'', True, OpGet, 200),
       (''GET'', False, OpList, 200),
       (''PATCH'', True, OpUpdate, 200)],
     rs_args = [''customer_id'', ''invoice_id'', ''status''],
     rs_params = [''customer_id'', ''invoice_id'', ''status''],
     rs_order = (''created_at'', ''desc'')\<rparr>"

definition usage_record_api :: resource where
  "usage_record_api = \<lparr>rs_path = [''usage-records''], rs_service = usage_record_service,
     rs_routes =
      [(''POST'', False, OpCreate, 201),
       (''GET'', True, OpGet, 200),
       (''GET'', False, OpList, 200)],
     rs_args = [''subscription_item_id''],
     rs_params = [''subscription_item_id''],
     rs_order = (''created_at'', ''desc'')\<rparr>"

definition coupon_api :: resource where
  "coupon_api = \<lparr>rs_path = [''coupons''], rs_service = coupon_service,
     rs_routes =
      [(''POST'', False, OpCreate, 201),
       (''GET'', True, OpGet, 200),
       (''GET'', False, OpList, 200),
       (''PATCH'', True, OpUpdate, 200),
       (''DELETE'', True, OpDelete, 204)],
     rs_args = [''valid'', ''code''],
     rs_params = [''valid'', ''code''],
     rs_order = (''created_at'', ''desc'')\<rparr>"

definition discount_api :: resource where
  "discount_api = \<lparr>rs_path = [''discounts''], rs_service = discount_service,
     rs_routes =
      [(''POST'', False, OpCreate, 201),
       (''GET'', True, OpGet, 200),
       (''GET'', False, OpList, 200),
       (''DELETE'', True, OpDelete, 204)],
     rs_args = [''customer_id'', ''subscription_id'', ''coupon_id''],
     rs_params = [''customer_id'', ''subscription_id'', ''coupon_id''],
     rs_order = (''created_at'', ''desc'')\<rparr>"

definition entitlement_api :: resource where
  "entitlement_api = \<lparr>rs_path = [''entitlements''], rs_service = entitlement_service,
     rs_routes =
      [(''POST'', False, OpCreate, 201),
       (''GET'', True, OpGet, 200),
       (''GET'', False, OpList, 200),
       (''PATCH'', True, OpUpdate, 200),
       (''DELETE'', True, OpDelete, 204)],
     rs_args = [''product_id'', ''feature_key''],
     rs_params = [''product_id'', ''feature_key''],
     rs_order = (''created_at'', ''desc'')\<rparr>"

definition webhook_event_api :: resource where
  "webhook_event_api = \<lparr>rs_path = [''webhook-events''], rs_service = webhook_event_service,
     rs_routes =
      [(''POST'', False, OpCreate, 201),
       (''GET'', True, OpGet, 200),
       (''GET'', False, OpList, 200),
       (''PATCH'', True, OpUpdate, 200)],
     rs_args = [''provider'', ''event_type'', ''status''],
     rs_params = [''provider'', ''event_type'', ''status''],
     rs_order = (''created_at'', ''desc'')\<rparr>"

definition billing_resources :: "resource list" where
  "billing_resources =
    [product_api,
     price_api,
     customer_api,
     subscription_api,
     subscription_item_api,
     invoice_api,
     invoice_item_api,
     payment_method_api,
     payment_intent_api,
     usage_record_api,
     coupon_api,
     discount_api,
     entitlement_api,
     webhook_event_api]"

definition serve_bhttp :: "(string \<Rightarrow> uuid_text) \<Rightarrow> unit res \<Rightarrow> bhttp \<Rightarrow> app_tables \<Rightarrow>
    (nat \<times> breply option) \<times> app_tables" where
  "serve_bhttp = serve_routes billing_resources (serve_crud app_db)"

end
