(* ===== verification/BillingSafety.thy ===== *)
theory BillingSafety
  imports BillingApi CrudCreate AuthGuards
begin

text \<open>
  The properties of the billing: its tables over any sequence of requests, the requests as
  functions on maps, the exact verdict on a create, who gets in, and two behaviours that the
  schemas cause.
\<close>

section \<open>The fourteen services\<close>

lemmas table_defs = product_table_def price_table_def customer_table_def subscription_table_def
  subscription_item_table_def invoice_table_def invoice_item_table_def payment_method_table_def
  payment_intent_table_def usage_record_table_def coupon_table_def discount_table_def
  entitlement_table_def webhook_event_table_def person_table_def

lemma services_fit: "list_all (\<lambda>svc. creates_fit app_db svc \<and> reads_fit svc \<and> writes_columns app_db svc) billing_services"
  by code_simp

lemma service_fits:
  assumes "svc \<in> set billing_services"
  shows "creates_fit app_db svc" and "reads_fit svc" and "writes_columns app_db svc"
  using services_fit assms by (auto simp: list_all_iff)

lemma resource_services: "list_all (\<lambda>rs. rs_service rs \<in> set billing_services) billing_resources"
  by (simp add: billing_resources_def billing_services_def product_api_def price_api_def customer_api_def
      subscription_api_def subscription_item_api_def invoice_api_def invoice_item_api_def payment_method_api_def
      payment_intent_api_def usage_record_api_def coupon_api_def discount_api_def entitlement_api_def
      webhook_event_api_def)

section \<open>Requests over HTTP\<close>

fun serve_bhttps :: "(string \<Rightarrow> uuid_text) \<Rightarrow> (unit res \<times> bhttp) list \<Rightarrow> app_tables \<Rightarrow> app_tables" where
  "serve_bhttps parse_uuid [] st = st"
| "serve_bhttps parse_uuid ((guard, h) # hs) st =
     serve_bhttps parse_uuid hs (snd (serve_bhttp parse_uuid guard h st))"

lemma resource_service: "rs \<in> set billing_resources \<Longrightarrow> rs_service rs \<in> set billing_services"
  using resource_services by (simp add: list_all_iff)

lemma serve_bhttp_cases:
  obtains (nothing) code where "serve_bhttp parse_uuid guard h st = ((code, None), st)"
  | (served) rs rq code rep where "rs \<in> set billing_resources" "guard = Inr ()"
      "serve_bhttp parse_uuid guard h st = ((code, rep), snd (serve_crud app_db (rs_service rs) rq st))"
  by (rule serve_routes_cases [of billing_resources "serve_crud app_db" parse_uuid guard h st,
        folded serve_bhttp_def]) (use that in blast)+

lemma serve_bhttp_ok: "tables_ok app_db st \<Longrightarrow> tables_ok app_db (snd (serve_bhttp parse_uuid guard h st))"
  by (rule serve_bhttp_cases [of parse_uuid guard h st]) (simp_all add: serve_ok)

definition no_rows :: app_tables where
  "no_rows = \<lparr>bl_rows = (\<lambda>_. []), bl_next = 0, bl_clock = 0\<rparr>"

lemma no_rows_ok: "tables_ok db no_rows"
  by (simp add: tables_ok_def no_rows_def keyed_def)

text \<open>
  Whatever requests come in whatever order, with whatever bodies, the tables stay
  sound: keys are unique and below the supply, and every row of every table fits its columns, has
  a null only where the column allows it, clashes with no other row on a unique constraint, and
  refers only to rows that are there (deletes included, soft and hard).
\<close>

theorem billing_tables_sound:
  assumes "tables_ok app_db st"
  shows "tables_ok app_db (serve_bhttps parse_uuid hs st)"
  using assms by (induction parse_uuid hs st rule: serve_bhttps.induct) (simp_all add: serve_bhttp_ok)

definition sample_body :: body where
  "sample_body = [''name'' \<mapsto> BText ''SIM'', ''is_active'' \<mapsto> BBool True]"

definition sample_request :: "string \<Rightarrow> string \<Rightarrow> bhttp" where
  "sample_request meth path = \<lparr>bh_method = meth, bh_path = path, bh_body = sample_body,
     bh_query = (\<lambda>_. None), bh_order_by = None, bh_order_dir = None, bh_limit = None, bh_offset = None\<rparr>"

theorem billing_tables_sound_witness:
  "tables_ok app_db (serve_bhttps (\<lambda>_. Some 0)
     [(Inr (), sample_request ''POST'' ''/products''), (Inr (), sample_request ''DELETE'' ''/products/1'')] no_rows)"
  by (rule billing_tables_sound [OF no_rows_ok])

text \<open>
  Property C26. The services implement maps from identifiers to values. An answered request of any
  kind to any of the fourteen services changes the contents of its table as the function
  \<open>contents_after\<close> says: a create adds its values, with the defaults for what is null, under a
  key that was free, an update assigns exactly the fields that the body sets, a soft delete only
  clears the flag, a hard delete removes the key; a get and a listing change nothing. No other table
  changes. A request that fails changes nothing, with one exception, which the statement treats as
  an answered request: when the change is done and only its reply cannot be built, because the row
  does not pass the schema of replies (\<open>unreadable\<close>, a 500), the change stays.
\<close>

theorem billing_refines_maps:
  assumes "tables_ok app_db st" and "svc \<in> set billing_services"
    and "serve_crud app_db svc rq st = (res, st')"
  shows "(if \<exists>e. res = Inl e \<and> e \<noteq> unreadable then contents st' = contents st
      else contents st' = (contents st)(sv_table svc :=
             contents_after svc rq (bl_next st) (bl_clock st) (contents st (sv_table svc)))) \<and>
    contents st (sv_table svc) (bl_next st) = None"
proof
  show "if \<exists>e. res = Inl e \<and> e \<noteq> unreadable then contents st' = contents st
      else contents st' = (contents st)(sv_table svc :=
             contents_after svc rq (bl_next st) (bl_clock st) (contents st (sv_table svc)))"
    using serve_effect [OF assms(1) service_fits(3) [OF assms(2)] assms(3)] by (simp add: request_effect_def)
  show "contents st (sv_table svc) (bl_next st) = None"
    using rows.fresh_key [OF tables_okD(1) [OF assms(1)]] by (simp add: contents_def)
qed

lemma product_is_service: "product_service \<in> set billing_services"
  by (simp add: billing_services_def)

theorem billing_refines_maps_witness:
  "\<exists>res st'. serve_crud app_db product_service (BCreate sample_body) no_rows = (res, st') \<and>
     (if \<exists>e. res = Inl e \<and> e \<noteq> unreadable then contents st' = contents no_rows
      else contents st' = (contents no_rows)(Products :=
             contents_after product_service (BCreate sample_body) 0 0 (contents no_rows Products)))"
proof -
  obtain res st' where run: "serve_crud app_db product_service (BCreate sample_body) no_rows = (res, st')"
    by force
  from billing_refines_maps [OF no_rows_ok product_is_service run] run show ?thesis
    by (auto simp: product_service_def no_rows_def)
qed

text \<open>
  Property C27. A create is decided in this order and no other way: a body that does not validate is
  422; the first reference that names no row is 404 with its message; a number beyond 32 bits is a
  \<^verbatim>\<open>DataError\<close> (500); a clash with a unique constraint or an unknown person is an
  \<^verbatim>\<open>IntegrityError\<close> (500). In each case nothing changes. Otherwise the row is stored with the values
  of the body and the defaults, and the reply always passes the read schema.
\<close>

theorem create_exact:
  assumes "tables_ok app_db st" and "svc \<in> set billing_services"
    and "serve_crud app_db svc (BCreate b) st = (res, st')"
  shows "case create_verdict app_db svc b st of Inl e \<Rightarrow> res = Inl e \<and> st' = st
    | Inr _ \<Rightarrow> \<exists>r. res = Inr (Item r) \<and> r \<in> set (bl_rows st' (sv_table svc)) \<and>
        br_vals r = insert_vals (sv_defaults svc) (bl_clock st) (dump (sv_create svc) b)"
  using create_served [OF assms(1) service_fits(1,2) [OF assms(2)] assms(3)] .

theorem create_exact_witness:
  "\<exists>r st'. serve_crud app_db product_service (BCreate sample_body) no_rows = (Inr (Item r), st') \<and>
     br_vals r ''name'' = BText ''SIM'' \<and> r \<in> set (bl_rows st' Products)"
proof -
  obtain res st' where run: "serve_crud app_db product_service (BCreate sample_body) no_rows = (res, st')"
    by force
  have v: "create_verdict app_db product_service sample_body no_rows = Inr ()" by code_simp
  have "insert_vals (sv_defaults product_service) 0 (dump (sv_create product_service) sample_body) ''name'' = BText ''SIM''"
    by code_simp
  then show ?thesis
    using create_exact [OF no_rows_ok product_is_service run] v run
    by (auto simp: no_rows_def product_service_def)
qed

section \<open>Who gets in\<close>

text \<open>The guard of the mount: \<open>require_user_auth\<close>, then \<open>require_role\<close> with \<^verbatim>\<open>admin\<close>.\<close>

definition billing_guard :: "auth_ctx \<Rightarrow> auth_db \<Rightarrow> int \<Rightarrow> string option \<Rightarrow> unit res" where
  "billing_guard x a now authorization =
     bind_res (require_user_auth x a now authorization) (\<lambda>auth.
       bind_res (require_role a ''admin'' auth) (\<lambda>_. Inr ()))"

lemma require_role_admin:
  "require_role a name auth = Inr auth' \<Longrightarrow> person_has_role a (au_person auth) name"
  by (fastforce simp: require_role_def person_has_role_def roles_of_def list_ex_iff
      split: option.splits if_splits dest: first_where_Some)

text \<open>
  Property C28. The billing is for administrators: a request over HTTP either is answered with an
  error or a redirect and no content and leaves the tables as they are, or its bearer token is accepted by
  \<open>require_user_auth\<close> for a usable session of a person that holds the active role \<^verbatim>\<open>admin\<close>,
  whatever the claims of the token say.
\<close>

theorem billing_only_for_admins:
  "(\<exists>code. serve_bhttp parse_uuid (billing_guard x a now authorization) h st = ((code, None), st)) \<or>
   (\<exists>auth. require_user_auth x a now authorization = Inr auth \<and>
      person_has_role a (au_person auth) ''admin'' \<and>
      (\<exists>s. s \<in> set (c_sessions a) \<and> s_id s = au_session auth \<and> s_person s = au_person auth \<and>
         usable_session now s))"
proof (cases rule: serve_bhttp_cases [of parse_uuid "billing_guard x a now authorization" h st])
  case (served rs rq code rep)
  then obtain auth auth' where "require_user_auth x a now authorization = Inr auth"
      "require_role a ''admin'' auth = Inr auth'"
    by (auto simp: billing_guard_def bind_res_Inr)
  moreover have "auth' = auth" using calculation(2) by (auto simp: require_role_def split: option.splits if_splits)
  ultimately have auth: "require_user_auth x a now authorization = Inr auth"
      "person_has_role a (au_person auth) ''admin''"
    using require_role_admin by auto
  obtain s where "s \<in> set (c_sessions a)" "s_id s = au_session auth" "s_person s = au_person auth"
      "usable_session now s"
    by (rule user_auth_session [OF auth(1)])
  then show ?thesis using auth by blast
qed blast

section \<open>Schemas that disagree\<close>

text \<open>An update of the name of a product to the empty text.\<close>

definition rename_empty :: body where
  "rename_empty = [''name'' \<mapsto> BText []]"

lemma rename_empty_valid: "body_ok product_update rename_empty"
  by (simp add: product_update_def rename_empty_def body_ok_def plain_field_def value_ok_def kind_ok_def bound_ok_def)

lemma empty_name_unreadable: "br_vals q ''name'' = BText [] \<Longrightarrow> \<not> read_ok product_read (br_vals q)"
  by (simp add: product_read_def product_create_def read_ok_def plain_field_def value_ok_def bound_ok_def)

lemma rename_empty_set: "dump_set product_update rename_empty k = (if k = ''name'' then Some (BText []) else None)"
  by (simp add: dump_set_def field_named_def product_update_def plain_field_def rename_empty_def)

lemma rename_empty_row:
  assumes "stored_ok app_db st Products i vals"
  shows "stored_ok app_db st Products i (assign (dump_set product_update rename_empty) vals)"
proof -
  have same: "assign (dump_set product_update rename_empty) vals k = vals k" if "k \<noteq> ''name''" for k
    using that by (simp add: assign_def rename_empty_set)
  have new: "assign (dump_set product_update rename_empty) vals ''name'' = BText []"
    by (simp add: assign_def rename_empty_set)
  show ?thesis using assms
    by (simp add: stored_ok_def app_db_def product_table_def same new column_data_ok_def
        column_null_ok_def reference_ok_def) (auto simp: fits_column_def)
qed

lemma rename_empty_effect:
  assumes ok: "tables_ok app_db st" and r: "find_row (bl_rows st Products) i = Some r"
    and name: "br_vals r ''name'' \<noteq> BText []"
  shows "\<exists>st' q. serve_crud app_db product_service (BUpdate (Some i) rename_empty) st = (Inl unreadable, st') \<and>
    find_row (bl_rows st' Products) i = Some q \<and> br_vals q ''name'' = BText [] \<and>
    bl_rows st' Products = put_row q (bl_rows st Products)"
proof -
  let ?b = "dump_set product_update rename_empty" and ?v = "assign (dump_set product_update rename_empty) (br_vals r)"
  let ?q = "r\<lparr>br_vals := ?v, br_updated := bl_clock st\<rparr>"
  have v: "?v ''name'' = BText []" by (simp add: assign_def rename_empty_set)
  have diff: "\<not> same_columns (app_db Products) ?v (br_vals r)"
    using name v by (simp add: same_columns_def app_db_def product_table_def)
  have id: "br_id r = i" "r \<in> set (bl_rows st Products)" using find_row_set [OF r] by simp_all
  have "check_row (app_db Products) st Products (br_id r) ?v = Inr ()"
    unfolding check_stored_ok by (rule rename_empty_row) (rule tables_okD(2) [OF ok id(2)])
  then have w: "write_row app_db Products ?b r st =
      (Inr ?q, store_rows Products (put_row ?q (bl_rows st Products)) st)"
    using diff by (simp add: write_row_def Let_def put_row_def)
  have g: "svc_get product_service (Some i) st = (Inr r, st)"
    using r by (simp add: svc_get_find product_service_def)
  have bad: "respond product_service ?q = Inl unreadable"
    using empty_name_unreadable [of ?q] v by (simp add: respond_def product_service_def unreadable_def)
  have "svc_update app_db product_service product_update (Some i) rename_empty st =
      (Inr ?q, store_rows Products (put_row ?q (bl_rows st Products)) st)"
    using g w by (simp add: svc_update_def bind_act_def product_service_def)
  then have "serve_crud app_db product_service (BUpdate (Some i) rename_empty) st =
      (Inl unreadable, store_rows Products (put_row ?q (bl_rows st Products)) st)"
    using bad rename_empty_valid by (simp add: serve_crud_def bind_act_def product_service_def)
  moreover have "find_row (put_row ?q (bl_rows st Products)) i = Some ?q"
    using find_row_put [OF r, of ?q] id by simp
  ultimately show ?thesis using v by (intro exI [of _ ?q] exI) (auto simp: v)
qed

text \<open>
  A valid update makes a product unreadable for good: \<^verbatim>\<open>PATCH {"name": ""}\<close> passes
  \<^verbatim>\<open>ProductUpdate\<close>, which has no minimal length, and is committed; its own reply is a 500, and so is
  every get of the product and every unfiltered listing that reaches it (all, with at most 200
  products) afterwards, because \<^verbatim>\<open>ProductRead\<close> asks for a character.
\<close>

theorem empty_name_breaks_reads:
  assumes "tables_ok app_db st" and "find_row (bl_rows st Products) i = Some r"
    and "br_vals r ''name'' \<noteq> BText []"
    and "serve_crud app_db product_service (BUpdate (Some i) rename_empty) st = (res, st')"
  shows "res = Inl unreadable \<and>
    fst (serve_crud app_db product_service (BGet (Some i)) st') = Inl unreadable \<and>
    (fst (serve_crud app_db product_service
      (BList \<lparr>bq_params = (\<lambda>_. None), bq_order_by = ''created_at'', bq_order_dir = ''asc'',
         bq_limit = 200, bq_offset = 0\<rparr>) st') = Inl unreadable \<or> 200 < length (bl_rows st Products))"
proof -
  obtain q where q: "res = Inl unreadable" "find_row (bl_rows st' Products) i = Some q"
      "br_vals q ''name'' = BText []" "bl_rows st' Products = put_row q (bl_rows st Products)"
    using rename_empty_effect [OF assms(1-3)] assms(4) by auto
  have bad: "\<not> read_ok product_read (br_vals q)" using empty_name_unreadable [of q] q(3) by simp
  have get: "fst (serve_crud app_db product_service (BGet (Some i)) st') = Inl unreadable"
    using q(2) bad by (simp add: serve_crud_def bind_act_def svc_get_find product_service_def respond_def unreadable_def)
  have len: "length (bl_rows st' Products) = length (bl_rows st Products)"
    using q(4) by (simp add: put_row_def update_where_def)
  have mem: "q \<in> set (bl_rows st' Products)" using find_row_set [OF q(2)] by simp
  show ?thesis
  proof (cases "length (bl_rows st Products) \<le> 200")
    case True
    then show ?thesis using q(1) get bad mem len
      by (auto simp: serve_crud_def svc_list_def product_service_def apply_filter_def apply_ordering_def
          apply_pagination_def query_ok_def Let_def list_all_iff unreadable_def)
  qed (use q(1) get in simp)
qed

definition sample_product :: trow where
  "sample_product = \<lparr>br_id = 0, br_vals = insert_vals product_defaults 0 (dump product_create sample_body),
     br_created = 0, br_updated = 0\<rparr>"

definition one_product :: app_tables where
  "one_product = (store_rows Products [sample_product] no_rows)\<lparr>bl_next := 1\<rparr>"

lemma sample_vals: "br_vals sample_product k =
    (if k = ''name'' then BText ''SIM'' else if k = ''is_active'' then BBool True else BNull)"
  by (simp add: sample_product_def insert_vals_def dump_def field_named_def product_create_def product_defaults_def
      plain_field_def sample_body_def)

lemma one_product_ok: "tables_ok app_db one_product"
proof -
  have "stored_ok app_db one_product Products 0 (br_vals sample_product)"
    by (simp add: stored_ok_def app_db_def product_table_def column_data_ok_def column_null_ok_def
        reference_ok_def fits_column_def sample_vals)
  then show ?thesis
    by (auto simp: tables_ok_def one_product_def no_rows_def keyed_def sample_product_def)
qed

theorem empty_name_breaks_reads_witness:
  "\<exists>st'. serve_crud app_db product_service (BUpdate (Some 0) rename_empty) one_product = (Inl unreadable, st') \<and>
     fst (serve_crud app_db product_service (BGet (Some 0)) st') = Inl unreadable"
proof -
  obtain res st' where run: "serve_crud app_db product_service (BUpdate (Some 0) rename_empty) one_product = (res, st')"
    by force
  have "find_row (bl_rows one_product Products) 0 = Some sample_product"
    by (simp add: find_row_def one_product_def sample_product_def)
  moreover have "br_vals sample_product ''name'' \<noteq> BText []" by (simp add: sample_vals)
  ultimately show ?thesis using empty_name_breaks_reads [OF one_product_ok _ _ run] run by auto
qed

text \<open>The key that the replies use for the metadata is no field of a body.\<close>

lemma no_metadata_field:
  "list_all (\<lambda>svc. ''metadata'' \<notin> set (map fs_name (sv_create svc)) \<and>
     (case sv_update svc of None \<Rightarrow> True | Some fs \<Rightarrow> ''metadata'' \<notin> set (map fs_name fs))) billing_services"
  by code_simp

lemma body_unread_key:
  assumes "k \<notin> set (map fs_name fs)"
  shows "body_ok fs (b(k := v)) = body_ok fs b" and "dump fs (b(k := v)) = dump fs b"
    and "dump_set fs (b(k := v)) = dump_set fs b"
proof -
  have ne: "fs_name f \<noteq> k" if "f \<in> set fs" for f using assms that by auto
  show "body_ok fs (b(k := v)) = body_ok fs b"
    unfolding body_ok_def list_all_iff using ne by (intro ball_cong refl) simp
  have none: "field_named fs k = None" using ne by (auto simp: field_named_def first_where_None)
  have "dump fs (b(k := v)) j = dump fs b j \<and> dump_set fs (b(k := v)) j = dump_set fs b j" for j
    using none by (cases "j = k") (simp_all add: dump_def dump_set_def split: option.split)
  then show "dump fs (b(k := v)) = dump fs b" "dump_set fs (b(k := v)) = dump_set fs b" by auto
qed

text \<open>
  The metadata of a reply cannot be written back: replies carry it under the key
  \<^verbatim>\<open>metadata\<close> (the serialization alias), but a create or an update of any of the fourteen
  resources with that key, whatever its value, does exactly what the body without it does, and
  reports success.
\<close>

theorem metadata_is_dropped:
  assumes "svc \<in> set billing_services"
  shows "serve_crud app_db svc (BCreate (b(''metadata'' := v))) st =
      serve_crud app_db svc (BCreate b) st \<and>
    serve_crud app_db svc (BUpdate uid (b(''metadata'' := v))) st =
      serve_crud app_db svc (BUpdate uid b) st"
proof -
  have n: "''metadata'' \<notin> set (map fs_name (sv_create svc))"
    "\<And>fs. sv_update svc = Some fs \<Longrightarrow> ''metadata'' \<notin> set (map fs_name fs)"
    using no_metadata_field assms by (auto simp: list_all_iff)
  have "serve_crud app_db svc (BCreate (b(''metadata'' := v))) st =
      serve_crud app_db svc (BCreate b) st"
    by (simp add: serve_crud_def svc_create_def bind_act_def body_unread_key [OF n(1)])
  moreover have "serve_crud app_db svc (BUpdate uid (b(''metadata'' := v))) st =
      serve_crud app_db svc (BUpdate uid b) st"
  proof (cases "sv_update svc")
    case (Some fs)
    have "svc_update app_db svc fs uid (b(''metadata'' := v)) = svc_update app_db svc fs uid b"
      unfolding svc_update_def body_unread_key(3) [OF n(2) [OF Some]] by (rule refl)
    then show ?thesis using Some
      by (simp add: serve_crud_def body_unread_key(1) [OF n(2) [OF Some]])
  qed (simp add: serve_crud_def)
  ultimately show ?thesis ..
qed

theorem metadata_is_dropped_witness:
  "serve_crud app_db product_service (BCreate (sample_body(''metadata'' \<mapsto> BJson ''a''))) no_rows =
     serve_crud app_db product_service (BCreate sample_body) no_rows"
  using metadata_is_dropped [OF product_is_service, of sample_body "Some (BJson ''a'')" no_rows] by simp

end
