(* ===== verification/WebPages.thy ===== *)
theory WebPages
  imports AccessAdmin AuthAccess
begin

text \<open>
  The pages of the administration (\<^verbatim>\<open>app/web\<close>), once for all resources: a listing with
  pages, a detail page with the rows it refers to, and forms that create, edit and delete. The files
  of \<^verbatim>\<open>app/web\<close> differ in a record \<open>web_page\<close>: the service, the fields of the forms with the way
  each is read, and the rows a page shows besides its own. A form becomes keyword arguments of a schema,
  the service writes, the handler commits and redirects; any exception shows the form again. A page
  is what is handed to its template; the branding and the template are left out.
\<close>

section \<open>Forms\<close>

text \<open>The fields that were sent, with the last value of each. The readings of a UUID, an instant and
  an e-mail address are parameters.\<close>

type_synonym form = "string \<Rightarrow> string option"

record form_ctx =
  fx_uuid :: "string \<Rightarrow> nat option"
  fx_time :: "string \<Rightarrow> int option"
  fx_email :: "string \<Rightarrow> string option"

text \<open>\<^verbatim>\<open>str(data.get(k, d))\<close>, \<^verbatim>\<open>str(data[k]) if data.get(k) else None\<close>, \<^verbatim>\<open>int(data.get(k, d))\<close>,
  \<^verbatim>\<open>int(data[k]) if data.get(k) else d\<close>, \<^verbatim>\<open>datetime.fromisoformat\<close>, \<^verbatim>\<open>UUID(str(data.get(k, "")))\<close>,
  \<^verbatim>\<open>data.get(k) == "on"\<close> and \<^verbatim>\<open>k in data\<close>.\<close>

datatype form_read =
    TextOr string | TextIf | EmailOr string | EmailIf | IntOr int | IntIf "int option" | TimeIf
  | UuidReq | FlagOn | FlagIn

definition given_text :: "form \<Rightarrow> string \<Rightarrow> string option" where
  "given_text form k = py_or (form k) None"

definition text_or :: "form \<Rightarrow> string \<Rightarrow> string \<Rightarrow> string" where
  "text_or form k d = (case form k of None \<Rightarrow> d | Some s \<Rightarrow> s)"

definition parsed :: "('a \<Rightarrow> bval) \<Rightarrow> 'a option \<Rightarrow> bval res" where
  "parsed f v = (case v of None \<Rightarrow> Inl ValueErr | Some a \<Rightarrow> Inr (f a))"

definition read_field :: "form_ctx \<Rightarrow> form \<Rightarrow> string \<Rightarrow> form_read \<Rightarrow> bval res" where
  "read_field fx form k r = (case r of
      TextOr d \<Rightarrow> Inr (BText (text_or form k d))
    | TextIf \<Rightarrow> Inr (case given_text form k of None \<Rightarrow> BNull | Some s \<Rightarrow> BText s)
    | EmailOr d \<Rightarrow> parsed BText (fx_email fx (text_or form k d))
    | EmailIf \<Rightarrow> (case given_text form k of None \<Rightarrow> Inr BNull | Some s \<Rightarrow> parsed BText (fx_email fx s))
    | IntOr d \<Rightarrow> (case form k of None \<Rightarrow> Inr (BInt d) | Some s \<Rightarrow> parsed BInt (py_int s))
    | IntIf d \<Rightarrow> (case given_text form k of
          None \<Rightarrow> Inr (case d of None \<Rightarrow> BNull | Some i \<Rightarrow> BInt i) | Some s \<Rightarrow> parsed BInt (py_int s))
    | TimeIf \<Rightarrow> (case given_text form k of None \<Rightarrow> Inr BNull | Some s \<Rightarrow> parsed BTime (fx_time fx s))
    | UuidReq \<Rightarrow> parsed BRef (fx_uuid fx (text_or form k []))
    | FlagOn \<Rightarrow> Inr (BBool (form k = Some ''on''))
    | FlagIn \<Rightarrow> Inr (BBool (form k \<noteq> None)))"

type_synonym form_fields = "(string \<times> form_read) list"

text \<open>The keyword arguments of the schema, all of them set.\<close>

fun form_body :: "form_ctx \<Rightarrow> form \<Rightarrow> form_fields \<Rightarrow> body res" where
  "form_body fx form [] = Inr (\<lambda>_. None)"
| "form_body fx form ((k, r) # fs) = bind_res (read_field fx form k r) (\<lambda>v.
     bind_res (form_body fx form fs) (\<lambda>b. Inr (b(k \<mapsto> v))))"

section \<open>What a page shows\<close>

text \<open>A listing beside the rows of the page: its arguments are the row of the page, a reference of
  that row, or a flag. A row beside it: the reference that names it.\<close>

datatype lookup_arg = OfItem | OfRef string | Only bool

record lookup =
  lk_name :: string
  lk_service :: service
  lk_args :: "(string \<times> lookup_arg) list"
  lk_order :: string
  lk_dir :: string
  lk_limit :: "int option"

type_synonym ref_lookup = "string \<times> service \<times> string"

definition ref_id :: "bval \<Rightarrow> uuid_text" where
  "ref_id v = (case v of BRef i \<Rightarrow> Some i | _ \<Rightarrow> None)"

definition lookup_param :: "nat \<Rightarrow> bvals \<Rightarrow> lookup_arg \<Rightarrow> fparam" where
  "lookup_param uid vals a = (case a of OfItem \<Rightarrow> PId (Some uid) | OfRef c \<Rightarrow> PId (ref_id (vals c)) | Only b \<Rightarrow> PBool b)"

definition run_lookup :: "app_tables \<Rightarrow> nat \<Rightarrow> bvals \<Rightarrow> lookup \<Rightarrow> (string \<times> trow list) res" where
  "run_lookup st uid vals l =
     (let t = sv_table (lk_service l);
          q = \<lparr>bq_params = (\<lambda>k. map_option (lookup_param uid vals) (map_of (lk_args l) k)),
               bq_order_by = lk_order l, bq_order_dir = lk_dir l,
               bq_limit = (case lk_limit l of None \<Rightarrow> int (length (bl_rows st t)) | Some i \<Rightarrow> i), bq_offset = 0\<rparr>
      in bind_res (svc_list (app_db t) (lk_service l) q st) (\<lambda>(rows, _). Inr (lk_name l, rows)))"

definition run_ref :: "app_tables \<Rightarrow> bvals \<Rightarrow> ref_lookup \<Rightarrow> (string \<times> trow) res" where
  "run_ref st vals q = (case q of (name, svc, c) \<Rightarrow>
     bind_res (fst (svc_get svc (ref_id (vals c)) st)) (\<lambda>r. Inr (name, r)))"

fun all_res :: "('a \<Rightarrow> 'b res) \<Rightarrow> 'a list \<Rightarrow> 'b list res" where
  "all_res f [] = Inr []"
| "all_res f (x # xs) = bind_res (f x) (\<lambda>y. bind_res (all_res f xs) (\<lambda>ys. Inr (y # ys)))"

record page_view =
  pv_item :: "trow option"
  pv_rows :: "trow list"
  pv_total :: int
  pv_page :: int
  pv_pages :: int
  pv_refs :: "(string \<times> trow) list"
  pv_lists :: "(string \<times> trow list) list"
  pv_error :: "err option"

definition item_view :: "trow option \<Rightarrow> (string \<times> trow) list \<Rightarrow> (string \<times> trow list) list \<Rightarrow> err option \<Rightarrow> page_view" where
  "item_view item refs ls e = \<lparr>pv_item = item, pv_rows = [], pv_total = 0, pv_page = 0, pv_pages = 0,
     pv_refs = refs, pv_lists = ls, pv_error = e\<rparr>"

section \<open>Pages\<close>

datatype list_param = TextParam | RefParam | FlagParam

record list_page =
  lp_params :: "(string \<times> list_param) list"
  lp_order :: string
  lp_dir :: string
  lp_lists :: "lookup list"

record item_page =
  ip_refs :: "ref_lookup list"
  ip_lists :: "lookup list"

record form_page =
  fp_fields :: form_fields
  fp_refs :: "ref_lookup list"
  fp_lists :: "lookup list"

text \<open>\<open>wp_to_item\<close>: an edit redirects to the row, or to the listing; \<open>wp_get_again\<close>: after an error the
  row is read by the service, which raises if it is gone, or by the session.\<close>

record web_page =
  wp_path :: string
  wp_word :: string
  wp_templates :: string
  wp_service :: service
  wp_list :: list_page
  wp_detail :: "item_page option"
  wp_create :: "form_page option"
  wp_edit :: "form_page option"
  wp_delete :: bool
  wp_to_item :: bool
  wp_get_again :: bool
  wp_permissions :: bool

text \<open>A redirect with its path, the row it ends in, and the message in its query.\<close>

datatype page_reply =
    Rendered string page_view | Moved string "nat option" string | MovedError string err
  | PageFailed nat | LoginPage

definition failed :: "err \<Rightarrow> page_reply" where
  "failed e = PageFailed (fst (error_reply e))"

definition page_size :: int where
  "page_size = 25"

definition list_param :: "form_ctx \<Rightarrow> (string \<Rightarrow> string option) \<Rightarrow> string \<Rightarrow> list_param \<Rightarrow> fparam option" where
  "list_param fx qs k p = (case py_or (qs k) None of None \<Rightarrow> None
     | Some s \<Rightarrow> (case p of TextParam \<Rightarrow> Some (PText s) | RefParam \<Rightarrow> Some (PId (fx_uuid fx s))
         | FlagParam \<Rightarrow> if s = ''true'' then Some (PBool True) else if s = ''false'' then Some (PBool False) else None))"

definition total_pages :: "int \<Rightarrow> int" where
  "total_pages n = max 1 ((n + page_size - 1) div page_size)"

definition page_query :: "form_ctx \<Rightarrow> web_page \<Rightarrow> (string \<Rightarrow> string option) \<Rightarrow> int \<Rightarrow> bquery" where
  "page_query fx p qs n = \<lparr>bq_params = (\<lambda>k. Option.bind (map_of (lp_params (wp_list p)) k) (list_param fx qs k)),
     bq_order_by = lp_order (wp_list p), bq_order_dir = lp_dir (wp_list p), bq_limit = page_size,
     bq_offset = (max 1 n - 1) * page_size\<rparr>"

definition show_list :: "form_ctx \<Rightarrow> web_page \<Rightarrow> (string \<Rightarrow> string option) \<Rightarrow> int \<Rightarrow> app_tables \<Rightarrow> page_reply" where
  "show_list fx p qs n st =
     (case bind_res (svc_list (app_db (sv_table (wp_service p))) ((wp_service p)\<lparr>sv_counts := True\<rparr>)
             (page_query fx p qs n) st) (\<lambda>(rows, count).
           bind_res (all_res (run_lookup st 0 (\<lambda>_. BNull)) (lp_lists (wp_list p))) (\<lambda>ls.
             Inr \<lparr>pv_item = None, pv_rows = rows, pv_total = int count, pv_page = max 1 n,
               pv_pages = total_pages (int count), pv_refs = [], pv_lists = ls, pv_error = None\<rparr>)) of
        Inl e \<Rightarrow> failed e | Inr v \<Rightarrow> Rendered (wp_templates p @ ''/list.html'') v)"

text \<open>A page around one row, and the rows it shows besides.\<close>

definition show_around :: "string \<Rightarrow> ref_lookup list \<Rightarrow> lookup list \<Rightarrow> nat \<Rightarrow> trow option \<Rightarrow> err option \<Rightarrow>
    app_tables \<Rightarrow> page_reply" where
  "show_around template refs lookups uid item e st =
     (let vals = (case item of None \<Rightarrow> (\<lambda>_. BNull) | Some r \<Rightarrow> br_vals r)
      in case bind_res (all_res (run_ref st vals) refs) (\<lambda>rs.
              bind_res (all_res (run_lookup st uid vals) lookups) (\<lambda>ls. Inr (item_view item rs ls e))) of
           Inl e' \<Rightarrow> failed e' | Inr v \<Rightarrow> Rendered template v)"

definition show_item :: "web_page \<Rightarrow> nat \<Rightarrow> app_tables \<Rightarrow> page_reply" where
  "show_item p uid st = (case wp_detail p of None \<Rightarrow> PageFailed 404
    | Some d \<Rightarrow> (case fst (svc_get (wp_service p) (Some uid) st) of
        Inl e \<Rightarrow> failed e
      | Inr r \<Rightarrow> show_around (wp_templates p @ ''/detail.html'') (ip_refs d) (ip_lists d) uid (Some r) None st))"

definition show_create :: "web_page \<Rightarrow> app_tables \<Rightarrow> page_reply" where
  "show_create p st = (case wp_create p of None \<Rightarrow> PageFailed 422
    | Some f \<Rightarrow> show_around (wp_templates p @ ''/create.html'') (fp_refs f) (fp_lists f) 0 None None st)"

definition show_edit :: "web_page \<Rightarrow> nat \<Rightarrow> app_tables \<Rightarrow> page_reply" where
  "show_edit p uid st = (case wp_edit p of None \<Rightarrow> PageFailed 404
    | Some f \<Rightarrow> (case fst (svc_get (wp_service p) (Some uid) st) of
        Inl e \<Rightarrow> failed e
      | Inr r \<Rightarrow> show_around (wp_templates p @ ''/edit.html'') (fp_refs f) (fp_lists f) uid (Some r) None st))"

section \<open>Submitted forms\<close>

text \<open>An error in a flush leaves the session in a state in which every further statement raises
  \<^verbatim>\<open>PendingRollbackError\<close>. The forms do not roll back before they read the rows (and the branding)
  for the page with the error.\<close>

definition flush_failed :: "err \<Rightarrow> bool" where
  "flush_failed e \<longleftrightarrow> e = IntegrityErr \<or> e = Raised ''DataError''"

definition create_failed :: "web_page \<Rightarrow> form_page \<Rightarrow> err \<Rightarrow> app_tables \<Rightarrow> page_reply" where
  "create_failed p f e st = (if flush_failed e then PageFailed 500
     else show_around (wp_templates p @ ''/create.html'') (fp_refs f) (fp_lists f) 0 None (Some e) st)"

definition edit_failed :: "web_page \<Rightarrow> form_page \<Rightarrow> nat \<Rightarrow> err \<Rightarrow> app_tables \<Rightarrow> page_reply" where
  "edit_failed p f uid e st = (if flush_failed e then PageFailed 500
     else (case fst (svc_get (wp_service p) (Some uid) st) of
        Inl e' \<Rightarrow> if wp_get_again p then failed e'
          else show_around (wp_templates p @ ''/edit.html'') (fp_refs f) (fp_lists f) uid None (Some e) st
      | Inr r \<Rightarrow> show_around (wp_templates p @ ''/edit.html'') (fp_refs f) (fp_lists f) uid (Some r) (Some e) st))"

text \<open>The write: of a role together with the permissions that are ticked.\<close>

definition page_create :: "web_page \<Rightarrow> uuid_text list \<Rightarrow> body \<Rightarrow> (app_tables, trow) act" where
  "page_create p ps b = (if \<not> body_ok (sv_create (wp_service p)) b then fail unprocessable
     else if wp_permissions p then create_with_permissions b ps
     else svc_create app_db (wp_service p) b)"

definition page_update :: "web_page \<Rightarrow> uuid_text list \<Rightarrow> nat \<Rightarrow> body \<Rightarrow> (app_tables, trow) act" where
  "page_update p ps uid b = (case sv_update (wp_service p) of None \<Rightarrow> fail unprocessable
    | Some fs \<Rightarrow> if \<not> body_ok fs b then fail unprocessable
        else if wp_permissions p then update_with_permissions (Some uid) b ps
        else svc_update app_db (wp_service p) fs (Some uid) b)"

definition submit_create :: "form_ctx \<Rightarrow> web_page \<Rightarrow> form \<Rightarrow> string list \<Rightarrow> app_tables \<Rightarrow> page_reply \<times> app_tables" where
  "submit_create fx p form ps st = (case wp_create p of None \<Rightarrow> (PageFailed 405, st)
    | Some f \<Rightarrow>
        (case form_body fx form (fp_fields f) of
           Inl e \<Rightarrow> (create_failed p f e st, st)
         | Inr b \<Rightarrow> (case page_create p (map (fx_uuid fx) ps) b st of
             (Inl e, _) \<Rightarrow> (create_failed p f e st, st)
           | (Inr r, st') \<Rightarrow> (Moved (wp_path p) None (wp_word p @ ''+created+successfully''), st'))))"

definition submit_edit :: "form_ctx \<Rightarrow> web_page \<Rightarrow> nat \<Rightarrow> form \<Rightarrow> string list \<Rightarrow> app_tables \<Rightarrow> page_reply \<times> app_tables" where
  "submit_edit fx p uid form ps st = (case wp_edit p of None \<Rightarrow> (PageFailed 404, st)
    | Some f \<Rightarrow>
        (case form_body fx form (fp_fields f) of
           Inl e \<Rightarrow> (edit_failed p f uid e st, st)
         | Inr b \<Rightarrow> (case page_update p (map (fx_uuid fx) ps) uid b st of
             (Inl e, _) \<Rightarrow> (edit_failed p f uid e st, st)
           | (Inr r, st') \<Rightarrow> (Moved (wp_path p) (if wp_to_item p then Some uid else None)
                (wp_word p @ ''+updated+successfully''), st'))))"

definition submit_delete :: "web_page \<Rightarrow> nat \<Rightarrow> app_tables \<Rightarrow> page_reply \<times> app_tables" where
  "submit_delete p uid st = (if \<not> wp_delete p then (PageFailed 404, st)
     else (case svc_delete app_db (wp_service p) (Some uid) st of
        (Inl e, _) \<Rightarrow> (MovedError (wp_path p) e, st)
      | (Inr u, st') \<Rightarrow> (Moved (wp_path p) None (wp_word p @ ''+deleted+successfully''), st')))"

section \<open>Requests\<close>

datatype page_request =
    ShowList "string \<Rightarrow> string option" int | ShowCreate | ShowItem nat | ShowEdit nat
  | SubmitCreate form "string list" | SubmitEdit nat form "string list" | SubmitDelete nat

text \<open>Every handler depends on \<^verbatim>\<open>require_web_auth\<close>, whose answer is the first argument.\<close>

definition serve_page :: "auth_info page \<Rightarrow> form_ctx \<Rightarrow> web_page \<Rightarrow> page_request \<Rightarrow> app_tables \<Rightarrow> page_reply \<times> app_tables" where
  "serve_page auth fx p rq st = (case auth of
      Login_redirect \<Rightarrow> (LoginPage, st)
    | Forbidden \<Rightarrow> (PageFailed 403, st)
    | Shown info \<Rightarrow> (case rq of
        ShowList qs n \<Rightarrow> (show_list fx p qs n st, st)
      | ShowCreate \<Rightarrow> (show_create p st, st)
      | ShowItem uid \<Rightarrow> (show_item p uid st, st)
      | ShowEdit uid \<Rightarrow> (show_edit p uid st, st)
      | SubmitCreate form ps \<Rightarrow> submit_create fx p form ps st
      | SubmitEdit uid form ps \<Rightarrow> submit_edit fx p uid form ps st
      | SubmitDelete uid \<Rightarrow> submit_delete p uid st))"

end
