(* ===== verification/WebTables.thy ===== *)
theory WebTables
  imports WebPages
begin

text \<open>
  The pages of people, roles, permissions and the billing, as their files declare them: filters
  and order of the listing, the rows that a page shows besides, and the fields of the forms.
\<close>

section \<open>\<^verbatim>\<open>app/web/billing/products.py\<close>\<close>

definition product_list_page :: list_page where
  "product_list_page = \<lparr>lp_params = [(''is_active'', FlagParam)], lp_order = ''created_at'', lp_dir = ''desc'',
     lp_lists = []\<rparr>"

definition product_item_page :: item_page where
  "product_item_page = \<lparr>ip_refs = [],
     ip_lists = [\<lparr>lk_name = ''prices'', lk_service = price_service, lk_args = [(''product_id'', OfItem)],
       lk_order = ''created_at'', lk_dir = ''desc'', lk_limit = Some 50\<rparr>]\<rparr>"

definition product_create_form :: form_page where
  "product_create_form = \<lparr>fp_fields =
      [(''name'', TextOr ''''),
      (''description'', TextIf),
      (''is_active'', FlagOn)],
     fp_refs = [],
     fp_lists = []\<rparr>"

definition product_edit_form :: form_page where
  "product_edit_form = \<lparr>fp_fields =
      [(''name'', TextIf),
      (''description'', TextIf),
      (''is_active'', FlagIn)],
     fp_refs = [],
     fp_lists = []\<rparr>"

definition product_pages :: web_page where
  "product_pages = \<lparr>wp_path = ''/admin/billing/products'', wp_word = ''Product'',
     wp_templates = ''admin/billing/products'', wp_service = product_service, wp_list = product_list_page,
     wp_detail = Some product_item_page, wp_create = Some product_create_form, wp_edit = Some product_edit_form,
     wp_delete = True, wp_to_item = True, wp_get_again = True, wp_permissions = False\<rparr>"

section \<open>\<^verbatim>\<open>app/web/billing/prices.py\<close>\<close>

definition price_list_page :: list_page where
  "price_list_page = \<lparr>lp_params = [(''product_id'', RefParam), (''is_active'', FlagParam)], lp_order = ''created_at'', lp_dir = ''desc'',
     lp_lists = [\<lparr>lk_name = ''products'', lk_service = product_service, lk_args = [],
       lk_order = ''name'', lk_dir = ''asc'', lk_limit = Some 500\<rparr>]\<rparr>"

definition price_item_page :: item_page where
  "price_item_page = \<lparr>ip_refs = [(''product'', product_service, ''product_id'')],
     ip_lists = []\<rparr>"

definition price_create_form :: form_page where
  "price_create_form = \<lparr>fp_fields =
      [(''product_id'', UuidReq),
      (''currency'', TextOr ''usd''),
      (''unit_amount'', IntOr 0),
      (''type'', TextOr ''one_time''),
      (''billing_scheme'', TextOr ''per_unit''),
      (''recurring_interval'', TextIf),
      (''recurring_interval_count'', IntIf (Some 1)),
      (''trial_period_days'', IntIf None),
      (''lookup_key'', TextIf),
      (''is_active'', FlagOn)],
     fp_refs = [],
     fp_lists = [\<lparr>lk_name = ''products'', lk_service = product_service, lk_args = [(''is_active'', Only True)],
       lk_order = ''name'', lk_dir = ''asc'', lk_limit = Some 500\<rparr>]\<rparr>"

definition price_edit_form :: form_page where
  "price_edit_form = \<lparr>fp_fields =
      [(''currency'', TextIf),
      (''unit_amount'', IntIf None),
      (''type'', TextIf),
      (''billing_scheme'', TextIf),
      (''recurring_interval'', TextIf),
      (''recurring_interval_count'', IntIf None),
      (''trial_period_days'', IntIf None),
      (''lookup_key'', TextIf),
      (''is_active'', FlagIn)],
     fp_refs = [],
     fp_lists = [\<lparr>lk_name = ''products'', lk_service = product_service, lk_args = [],
       lk_order = ''name'', lk_dir = ''asc'', lk_limit = Some 500\<rparr>]\<rparr>"

definition price_pages :: web_page where
  "price_pages = \<lparr>wp_path = ''/admin/billing/prices'', wp_word = ''Price'',
     wp_templates = ''admin/billing/prices'', wp_service = price_service, wp_list = price_list_page,
     wp_detail = Some price_item_page, wp_create = Some price_create_form, wp_edit = Some price_edit_form,
     wp_delete = True, wp_to_item = True, wp_get_again = True, wp_permissions = False\<rparr>"

section \<open>\<^verbatim>\<open>app/web/billing/customers.py\<close>\<close>

definition customer_list_page :: list_page where
  "customer_list_page = \<lparr>lp_params = [(''email'', TextParam), (''is_active'', FlagParam)], lp_order = ''created_at'', lp_dir = ''desc'',
     lp_lists = []\<rparr>"

definition customer_item_page :: item_page where
  "customer_item_page = \<lparr>ip_refs = [],
     ip_lists = [\<lparr>lk_name = ''subscriptions'', lk_service = subscription_service, lk_args = [(''customer_id'', OfItem)],
       lk_order = ''created_at'', lk_dir = ''desc'', lk_limit = Some 50\<rparr>,
      \<lparr>lk_name = ''payment_methods'', lk_service = payment_method_service, lk_args = [(''customer_id'', OfItem)],
       lk_order = ''created_at'', lk_dir = ''desc'', lk_limit = Some 50\<rparr>]\<rparr>"

definition customer_create_form :: form_page where
  "customer_create_form = \<lparr>fp_fields =
      [(''name'', TextOr ''''),
      (''email'', TextOr ''''),
      (''currency'', TextOr ''usd''),
      (''balance'', IntIf (Some 0)),
      (''tax_id'', TextIf),
      (''external_id'', TextIf),
      (''is_active'', FlagOn)],
     fp_refs = [],
     fp_lists = []\<rparr>"

definition customer_edit_form :: form_page where
  "customer_edit_form = \<lparr>fp_fields =
      [(''name'', TextIf),
      (''email'', TextIf),
      (''currency'', TextIf),
      (''balance'', IntIf None),
      (''tax_id'', TextIf),
      (''external_id'', TextIf),
      (''is_active'', FlagIn)],
     fp_refs = [],
     fp_lists = []\<rparr>"

definition customer_pages :: web_page where
  "customer_pages = \<lparr>wp_path = ''/admin/billing/customers'', wp_word = ''Customer'',
     wp_templates = ''admin/billing/customers'', wp_service = customer_service, wp_list = customer_list_page,
     wp_detail = Some customer_item_page, wp_create = Some customer_create_form, wp_edit = Some customer_edit_form,
     wp_delete = True, wp_to_item = True, wp_get_again = True, wp_permissions = False\<rparr>"

section \<open>\<^verbatim>\<open>app/web/billing/subscriptions.py\<close>\<close>

definition subscription_list_page :: list_page where
  "subscription_list_page = \<lparr>lp_params = [(''customer_id'', RefParam), (''status'', TextParam)], lp_order = ''created_at'', lp_dir = ''desc'',
     lp_lists = [\<lparr>lk_name = ''customers'', lk_service = customer_service, lk_args = [],
       lk_order = ''name'', lk_dir = ''asc'', lk_limit = Some 500\<rparr>]\<rparr>"

definition subscription_item_page :: item_page where
  "subscription_item_page = \<lparr>ip_refs = [(''customer'', customer_service, ''customer_id'')],
     ip_lists = [\<lparr>lk_name = ''subscription_items'', lk_service = subscription_item_service, lk_args = [(''subscription_id'', OfItem)],
       lk_order = ''created_at'', lk_dir = ''desc'', lk_limit = Some 50\<rparr>,
      \<lparr>lk_name = ''invoices'', lk_service = invoice_service, lk_args = [(''subscription_id'', OfItem)],
       lk_order = ''created_at'', lk_dir = ''desc'', lk_limit = Some 50\<rparr>]\<rparr>"

definition subscription_edit_form :: form_page where
  "subscription_edit_form = \<lparr>fp_fields =
      [(''status'', TextIf),
      (''cancel_at_period_end'', FlagIn),
      (''external_id'', TextIf),
      (''is_active'', FlagIn)],
     fp_refs = [(''customer'', customer_service, ''customer_id'')],
     fp_lists = []\<rparr>"

definition subscription_pages :: web_page where
  "subscription_pages = \<lparr>wp_path = ''/admin/billing/subscriptions'', wp_word = ''Subscription'',
     wp_templates = ''admin/billing/subscriptions'', wp_service = subscription_service, wp_list = subscription_list_page,
     wp_detail = Some subscription_item_page, wp_create = None, wp_edit = Some subscription_edit_form,
     wp_delete = True, wp_to_item = True, wp_get_again = True, wp_permissions = False\<rparr>"

section \<open>\<^verbatim>\<open>app/web/billing/invoices.py\<close>\<close>

definition invoice_list_page :: list_page where
  "invoice_list_page = \<lparr>lp_params = [(''customer_id'', RefParam), (''status'', TextParam)], lp_order = ''created_at'', lp_dir = ''desc'',
     lp_lists = [\<lparr>lk_name = ''customers'', lk_service = customer_service, lk_args = [],
       lk_order = ''name'', lk_dir = ''asc'', lk_limit = Some 500\<rparr>]\<rparr>"

definition invoice_item_page :: item_page where
  "invoice_item_page = \<lparr>ip_refs = [(''customer'', customer_service, ''customer_id'')],
     ip_lists = [\<lparr>lk_name = ''invoice_items'', lk_service = invoice_item_service, lk_args = [(''invoice_id'', OfItem)],
       lk_order = ''created_at'', lk_dir = ''asc'', lk_limit = Some 100\<rparr>,
      \<lparr>lk_name = ''payment_intents'', lk_service = payment_intent_service, lk_args = [(''customer_id'', OfRef ''customer_id''), (''invoice_id'', OfItem)],
       lk_order = ''created_at'', lk_dir = ''desc'', lk_limit = Some 50\<rparr>]\<rparr>"

definition invoice_edit_form :: form_page where
  "invoice_edit_form = \<lparr>fp_fields =
      [(''number'', TextIf),
      (''status'', TextIf),
      (''currency'', TextIf),
      (''subtotal'', IntIf None),
      (''tax'', IntIf None),
      (''total'', IntIf None),
      (''amount_due'', IntIf None),
      (''amount_paid'', IntIf None),
      (''external_id'', TextIf),
      (''is_active'', FlagIn)],
     fp_refs = [(''customer'', customer_service, ''customer_id'')],
     fp_lists = []\<rparr>"

definition invoice_pages :: web_page where
  "invoice_pages = \<lparr>wp_path = ''/admin/billing/invoices'', wp_word = ''Invoice'',
     wp_templates = ''admin/billing/invoices'', wp_service = invoice_service, wp_list = invoice_list_page,
     wp_detail = Some invoice_item_page, wp_create = None, wp_edit = Some invoice_edit_form,
     wp_delete = True, wp_to_item = True, wp_get_again = True, wp_permissions = False\<rparr>"

section \<open>\<^verbatim>\<open>app/web/billing/payment_methods.py\<close>\<close>

definition payment_method_list_page :: list_page where
  "payment_method_list_page = \<lparr>lp_params = [(''customer_id'', RefParam), (''type'', TextParam)], lp_order = ''created_at'', lp_dir = ''desc'',
     lp_lists = [\<lparr>lk_name = ''customers'', lk_service = customer_service, lk_args = [],
       lk_order = ''name'', lk_dir = ''asc'', lk_limit = Some 500\<rparr>]\<rparr>"

definition payment_method_item_page :: item_page where
  "payment_method_item_page = \<lparr>ip_refs = [(''customer'', customer_service, ''customer_id'')],
     ip_lists = []\<rparr>"

definition payment_method_pages :: web_page where
  "payment_method_pages = \<lparr>wp_path = ''/admin/billing/payment-methods'', wp_word = ''Payment+method'',
     wp_templates = ''admin/billing/payment_methods'', wp_service = payment_method_service, wp_list = payment_method_list_page,
     wp_detail = Some payment_method_item_page, wp_create = None, wp_edit = None,
     wp_delete = True, wp_to_item = False, wp_get_again = True, wp_permissions = False\<rparr>"

section \<open>\<^verbatim>\<open>app/web/billing/coupons.py\<close>\<close>

definition coupon_list_page :: list_page where
  "coupon_list_page = \<lparr>lp_params = [(''valid'', FlagParam)], lp_order = ''created_at'', lp_dir = ''desc'',
     lp_lists = []\<rparr>"

definition coupon_item_page :: item_page where
  "coupon_item_page = \<lparr>ip_refs = [],
     ip_lists = []\<rparr>"

definition coupon_create_form :: form_page where
  "coupon_create_form = \<lparr>fp_fields =
      [(''name'', TextOr ''''),
      (''code'', TextOr ''''),
      (''percent_off'', IntIf None),
      (''amount_off'', IntIf None),
      (''currency'', TextIf),
      (''duration'', TextOr ''once''),
      (''duration_in_months'', IntIf None),
      (''max_redemptions'', IntIf None),
      (''valid'', FlagOn),
      (''redeem_by'', TimeIf)],
     fp_refs = [],
     fp_lists = []\<rparr>"

definition coupon_edit_form :: form_page where
  "coupon_edit_form = \<lparr>fp_fields =
      [(''name'', TextIf),
      (''percent_off'', IntIf None),
      (''amount_off'', IntIf None),
      (''currency'', TextIf),
      (''duration'', TextIf),
      (''duration_in_months'', IntIf None),
      (''max_redemptions'', IntIf None),
      (''valid'', FlagIn),
      (''redeem_by'', TimeIf)],
     fp_refs = [],
     fp_lists = []\<rparr>"

definition coupon_pages :: web_page where
  "coupon_pages = \<lparr>wp_path = ''/admin/billing/coupons'', wp_word = ''Coupon'',
     wp_templates = ''admin/billing/coupons'', wp_service = coupon_service, wp_list = coupon_list_page,
     wp_detail = Some coupon_item_page, wp_create = Some coupon_create_form, wp_edit = Some coupon_edit_form,
     wp_delete = True, wp_to_item = True, wp_get_again = True, wp_permissions = False\<rparr>"

section \<open>\<^verbatim>\<open>app/web/billing/entitlements.py\<close>\<close>

definition entitlement_list_page :: list_page where
  "entitlement_list_page = \<lparr>lp_params = [(''product_id'', RefParam)], lp_order = ''created_at'', lp_dir = ''desc'',
     lp_lists = [\<lparr>lk_name = ''products'', lk_service = product_service, lk_args = [],
       lk_order = ''name'', lk_dir = ''asc'', lk_limit = Some 500\<rparr>]\<rparr>"

definition entitlement_item_page :: item_page where
  "entitlement_item_page = \<lparr>ip_refs = [(''product'', product_service, ''product_id'')],
     ip_lists = []\<rparr>"

definition entitlement_create_form :: form_page where
  "entitlement_create_form = \<lparr>fp_fields =
      [(''product_id'', UuidReq),
      (''feature_key'', TextOr ''''),
      (''value_type'', TextOr ''boolean''),
      (''value_text'', TextIf),
      (''value_numeric'', IntIf None)],
     fp_refs = [],
     fp_lists = [\<lparr>lk_name = ''products'', lk_service = product_service, lk_args = [(''is_active'', Only True)],
       lk_order = ''name'', lk_dir = ''asc'', lk_limit = Some 500\<rparr>]\<rparr>"

definition entitlement_edit_form :: form_page where
  "entitlement_edit_form = \<lparr>fp_fields =
      [(''feature_key'', TextIf),
      (''value_type'', TextIf),
      (''value_text'', TextIf),
      (''value_numeric'', IntIf None)],
     fp_refs = [],
     fp_lists = [\<lparr>lk_name = ''products'', lk_service = product_service, lk_args = [],
       lk_order = ''name'', lk_dir = ''asc'', lk_limit = Some 500\<rparr>]\<rparr>"

definition entitlement_pages :: web_page where
  "entitlement_pages = \<lparr>wp_path = ''/admin/billing/entitlements'', wp_word = ''Entitlement'',
     wp_templates = ''admin/billing/entitlements'', wp_service = entitlement_service, wp_list = entitlement_list_page,
     wp_detail = Some entitlement_item_page, wp_create = Some entitlement_create_form, wp_edit = Some entitlement_edit_form,
     wp_delete = True, wp_to_item = True, wp_get_again = True, wp_permissions = False\<rparr>"

section \<open>\<^verbatim>\<open>app/web/billing/webhook_events.py\<close>\<close>

definition webhook_event_list_page :: list_page where
  "webhook_event_list_page = \<lparr>lp_params = [(''provider'', TextParam), (''status'', TextParam)], lp_order = ''created_at'', lp_dir = ''desc'',
     lp_lists = []\<rparr>"

definition webhook_event_item_page :: item_page where
  "webhook_event_item_page = \<lparr>ip_refs = [],
     ip_lists = []\<rparr>"

definition webhook_event_pages :: web_page where
  "webhook_event_pages = \<lparr>wp_path = ''/admin/billing/webhook-events'', wp_word = ''Webhook+event'',
     wp_templates = ''admin/billing/webhook_events'', wp_service = webhook_event_service, wp_list = webhook_event_list_page,
     wp_detail = Some webhook_event_item_page, wp_create = None, wp_edit = None,
     wp_delete = False, wp_to_item = False, wp_get_again = True, wp_permissions = False\<rparr>"

section \<open>\<^verbatim>\<open>app/web/people.py\<close>\<close>

definition person_list_page :: list_page where
  "person_list_page = \<lparr>lp_params = [(''email'', TextParam)], lp_order = ''created_at'', lp_dir = ''desc'',
     lp_lists = []\<rparr>"

definition person_item_page :: item_page where
  "person_item_page = \<lparr>ip_refs = [],
     ip_lists = []\<rparr>"

definition person_create_form :: form_page where
  "person_create_form = \<lparr>fp_fields =
      [(''first_name'', TextOr ''''),
      (''last_name'', TextOr ''''),
      (''email'', EmailOr ''''),
      (''display_name'', TextIf),
      (''phone'', TextIf),
      (''status'', TextOr ''active''),
      (''is_active'', FlagOn)],
     fp_refs = [],
     fp_lists = []\<rparr>"

definition person_edit_form :: form_page where
  "person_edit_form = \<lparr>fp_fields =
      [(''first_name'', TextIf),
      (''last_name'', TextIf),
      (''email'', EmailIf),
      (''display_name'', TextIf),
      (''phone'', TextIf),
      (''status'', TextIf),
      (''is_active'', FlagIn)],
     fp_refs = [],
     fp_lists = []\<rparr>"

definition person_pages :: web_page where
  "person_pages = \<lparr>wp_path = ''/admin/people'', wp_word = ''Person'',
     wp_templates = ''admin/people'', wp_service = person_service, wp_list = person_list_page,
     wp_detail = Some person_item_page, wp_create = Some person_create_form, wp_edit = Some person_edit_form,
     wp_delete = True, wp_to_item = True, wp_get_again = False, wp_permissions = False\<rparr>"

section \<open>\<^verbatim>\<open>app/web/roles.py\<close>\<close>

definition role_list_page :: list_page where
  "role_list_page = \<lparr>lp_params = [], lp_order = ''name'', lp_dir = ''asc'',
     lp_lists = []\<rparr>"

definition role_create_form :: form_page where
  "role_create_form = \<lparr>fp_fields =
      [(''name'', TextOr ''''),
      (''description'', TextIf),
      (''is_active'', FlagOn)],
     fp_refs = [],
     fp_lists = [\<lparr>lk_name = ''all_permissions'', lk_service = permission_service, lk_args = [],
       lk_order = ''key'', lk_dir = ''asc'', lk_limit = None\<rparr>]\<rparr>"

definition role_edit_form :: form_page where
  "role_edit_form = \<lparr>fp_fields =
      [(''name'', TextIf),
      (''description'', TextIf),
      (''is_active'', FlagIn)],
     fp_refs = [],
     fp_lists = [\<lparr>lk_name = ''all_permissions'', lk_service = permission_service, lk_args = [],
       lk_order = ''key'', lk_dir = ''asc'', lk_limit = None\<rparr>,
      \<lparr>lk_name = ''current_permission_ids'', lk_service = role_permission_service, lk_args = [(''role_id'', OfItem)],
       lk_order = ''role_id'', lk_dir = ''asc'', lk_limit = None\<rparr>]\<rparr>"

definition role_pages :: web_page where
  "role_pages = \<lparr>wp_path = ''/admin/roles'', wp_word = ''Role'',
     wp_templates = ''admin/roles'', wp_service = role_service, wp_list = role_list_page,
     wp_detail = None, wp_create = Some role_create_form, wp_edit = Some role_edit_form,
     wp_delete = True, wp_to_item = False, wp_get_again = False, wp_permissions = True\<rparr>"

section \<open>\<^verbatim>\<open>app/web/permissions.py\<close>\<close>

definition permission_list_page :: list_page where
  "permission_list_page = \<lparr>lp_params = [], lp_order = ''key'', lp_dir = ''asc'',
     lp_lists = []\<rparr>"

definition permission_create_form :: form_page where
  "permission_create_form = \<lparr>fp_fields =
      [(''key'', TextOr ''''),
      (''description'', TextIf),
      (''is_active'', FlagOn)],
     fp_refs = [],
     fp_lists = []\<rparr>"

definition permission_edit_form :: form_page where
  "permission_edit_form = \<lparr>fp_fields =
      [(''key'', TextIf),
      (''description'', TextIf),
      (''is_active'', FlagIn)],
     fp_refs = [],
     fp_lists = []\<rparr>"

definition permission_pages :: web_page where
  "permission_pages = \<lparr>wp_path = ''/admin/permissions'', wp_word = ''Permission'',
     wp_templates = ''admin/permissions'', wp_service = permission_service, wp_list = permission_list_page,
     wp_detail = None, wp_create = Some permission_create_form, wp_edit = Some permission_edit_form,
     wp_delete = True, wp_to_item = False, wp_get_again = False, wp_permissions = False\<rparr>"

definition web_pages :: "web_page list" where
  "web_pages = [person_pages, role_pages, permission_pages, product_pages, price_pages, customer_pages, subscription_pages, invoice_pages, payment_method_pages, coupon_pages, entitlement_pages, webhook_event_pages]"

end
