(* ===== verification/WebProofs.thy ===== *)
theory WebProofs
  imports WebTables AccessProofs "HOL-Library.Multiset"
begin

text \<open>
  What holds of every page: it keeps the tables sound, a form that fails leaves them as they are,
  and the pages of a listing are consecutive pieces of one list.
\<close>

section \<open>Soundness\<close>

lemma keeps_links: "keeps sound (for_each (add_link i) ps)"
  by (rule keeps_for_each) (auto simp: keeps_def add_link_def fail_def sound_create split: option.split)

lemma sound_permissions: "sound st \<Longrightarrow> sound (snd (replace_permissions i ps st))"
  using keeps_links [of i ps] drop_links_ok by (simp add: replace_permissions_def keeps_def)

lemma sound_bind: "sound (snd (m st)) \<Longrightarrow> (\<And>a st'. sound st' \<Longrightarrow> sound (snd (k a st'))) \<Longrightarrow> sound (snd (bind_act m k st))"
  by (auto simp: bind_act_def split: prod.split sum.split)

lemma sound_page_create: "sound st \<Longrightarrow> sound (snd (page_create p ps b st))"
  by (auto simp: page_create_def fail_def create_with_permissions_def then_act_def ret_def sound_create sound_permissions
      intro!: sound_bind)

lemma sound_page_update: "sound st \<Longrightarrow> sound (snd (page_update p ps uid b st))"
  by (auto simp: page_update_def fail_def update_with_permissions_def then_act_def ret_def sound_update sound_permissions
      intro!: sound_bind split: option.split)

lemma sound_submit_create: "sound st \<Longrightarrow> sound (snd (submit_create fx p form ps st))"
  using sound_page_create [of st p "map (fx_uuid fx) ps"]
  by (auto simp: submit_create_def split: option.split sum.split prod.split) (metis snd_conv)

lemma sound_submit_edit: "sound st \<Longrightarrow> sound (snd (submit_edit fx p uid form ps st))"
  using sound_page_update [of st p "map (fx_uuid fx) ps"]
  by (auto simp: submit_edit_def split: option.split sum.split prod.split) (metis snd_conv)

lemma sound_submit_delete: "sound st \<Longrightarrow> sound (snd (submit_delete p uid st))"
  using sound_delete [of st "wp_service p" "Some uid"]
  by (auto simp: submit_delete_def split: sum.split prod.split)

lemma sound_page: "sound st \<Longrightarrow> sound (snd (serve_page auth fx p rq st))"
  by (auto simp: serve_page_def sound_submit_create sound_submit_edit sound_submit_delete
      split: page.split page_request.split)

section \<open>All or nothing\<close>

fun success :: "page_reply \<Rightarrow> bool" where
  "success (Moved path item message) = True"
| "success _ = False"

lemma show_around_success: "\<not> success (show_around t rs ls uid item e st)"
  by (auto simp: show_around_def Let_def failed_def split: sum.split)

lemma form_failed_success: "\<not> success (create_failed p f e st)" "\<not> success (edit_failed p f uid e st)"
  by (auto simp: create_failed_def edit_failed_def show_around_success failed_def split: sum.split)

lemma page_unchanged: "serve_page auth fx p rq st = (reply, st') \<Longrightarrow> \<not> success reply \<Longrightarrow> st' = st"
  by (auto simp: serve_page_def submit_create_def submit_edit_def submit_delete_def
      split: page.splits page_request.splits option.splits sum.splits prod.splits if_splits)

section \<open>The pages of a listing\<close>

lemma svc_list_rows:
  assumes "svc_list d (svc\<lparr>sv_counts := True\<rparr>) (page_query fx p qs n) st = Inr (page, cnt)"
  obtains P rows where "apply_filters (bq_params (page_query fx p qs n)) (sv_filters svc) = Inr P"
    "apply_ordering d (lp_order (wp_list p)) (lp_dir (wp_list p)) (sv_orders svc)
       (filter (\<lambda>r. P (br_vals r)) (bl_rows st (sv_table svc))) = Inr rows"
    "page = take 25 (drop (nat ((max 1 n - 1) * 25)) rows)"
    "cnt = length (filter (\<lambda>r. P (br_vals r)) (bl_rows st (sv_table svc)))"
  using assms by (auto simp: svc_list_def bind_res_Inr page_query_def apply_pagination_def page_size_def Let_def)

lemma ordering_mset: "apply_ordering d by dir allowed rows = Inr out \<Longrightarrow> mset out = mset rows"
  by (auto simp: apply_ordering_def Let_def split: if_splits)

lemma take_pieces: "concat (map (\<lambda>i. take k (drop (i * k) xs)) [0..<n]) = take (n * k) xs"
proof (induction n)
  case (Suc n)
  have "take (Suc n * k) xs = take (n * k) xs @ take k (drop (n * k) xs)"
    by (simp only: mult_Suc add.commute [of k] take_add)
  then show ?case using Suc by simp
qed simp

lemma enough_pages: "length xs \<le> nat (total_pages (int (length xs))) * 25"
proof -
  let ?n = "int (length xs)"
  have "?n \<le> 25 * ((?n + 24) div 25)" by presburger
  then have "?n \<le> total_pages ?n * 25" by (simp add: total_pages_def page_size_def max_def algebra_simps)
  moreover have "0 \<le> total_pages ?n" by (simp add: total_pages_def)
  ultimately have "nat ?n \<le> nat (total_pages ?n) * 25"
    using nat_mono [of ?n "total_pages ?n * 25"] by (simp add: nat_mult_distrib)
  then show ?thesis by simp
qed

end
