(* ===== verification/AccessSafety.thy ===== *)
theory AccessSafety
  imports AccessView BillingSafety AuthExamples WebProofs
begin

text \<open>
  The properties of the administration: sound tables over any sequence of requests, what deleting
  a session and granting or taking a role means to the guards, the single primary second
  factor, the permissions of a role, and the generated API keys.
\<close>

section \<open>Answered requests are requests of the common kind\<close>

definition common_service :: "service \<Rightarrow> bool" where
  "common_service svc \<longleftrightarrow> sv_table svc \<notin> {UserCredentials, MfaMethods, ApiKeys}"

lemma access_answered:
  assumes "common_service svc" and "serve_access dp x svc rq st = (Inr rep, st')"
  shows "serve_crud app_db svc rq st = (Inr rep, st')"
proof -
  have c: "access_create dp x svc b = svc_create app_db svc b" "access_update x svc fs uid b = svc_update app_db svc fs uid b"
    for b fs uid
    using assms(1) by (auto simp: access_create_def access_update_def common_service_def split: tname.split)
  show ?thesis using assms(2)
    by (auto simp: serve_access_def serve_crud_def c answer_def bind_act_def
        split: brequest.splits if_splits prod.splits sum.splits option.splits)
qed

lemma access_effect:
  assumes ok: "sound st" and svc: "common_service svc" "writes_columns app_db svc"
    and run: "serve_access dp x svc rq st = (Inr rep, st')"
  shows "contents st' = (contents st)(sv_table svc :=
      contents_after svc rq (bl_next st) (bl_clock st) (contents st (sv_table svc)))"
  using serve_effect [OF ok svc(2) access_answered [OF svc(1) run]] by (simp add: request_effect_def)

lemma access_columns: "svc \<in> set [session_service, role_service, permission_service, role_permission_service, person_role_service] \<Longrightarrow>
    writes_columns app_db svc"
  using access_fit by (auto simp: list_all_iff)

section \<open>All requests together\<close>

datatype app_request =
    BillingCall "unit res" bhttp | AccessCall access_env "unit res" bhttp
  | PageCall "auth_info page" form_ctx web_page page_request

fun app_run :: "(string \<Rightarrow> uuid_text) \<Rightarrow> app_request list \<Rightarrow> redis_client \<times> app_tables \<Rightarrow> redis_client \<times> app_tables" where
  "app_run parse_uuid [] s = s"
| "app_run parse_uuid (BillingCall g h # rqs) s =
     app_run parse_uuid rqs (fst s, snd (serve_bhttp parse_uuid g h (snd s)))"
| "app_run parse_uuid (AccessCall ae g h # rqs) s =
     app_run parse_uuid rqs (snd (serve_ahttp ae parse_uuid g h s))"
| "app_run parse_uuid (PageCall auth fx p rq # rqs) s =
     app_run parse_uuid rqs (fst s, snd (serve_page auth fx p rq (snd s)))"

text \<open>
  Whatever requests come to the billing, the administration and their web pages in
  whatever order, with whatever bodies and forms, the twenty-three tables stay sound: keys are unique and below the supply, and every
  row fits its columns, has a null only where the column allows it, clashes with no other row
  on a unique constraint (the partial one on the primary second factor included), and refers only to
  rows that are there.
\<close>

theorem app_tables_sound:
  assumes "tables_ok app_db (snd s)"
  shows "tables_ok app_db (snd (app_run parse_uuid rqs s))"
  using assms
  by (induction parse_uuid rqs s rule: app_run.induct) (simp_all add: serve_bhttp_ok serve_ahttp_sound sound_page)

definition vals_of :: "(string \<times> bval) list \<Rightarrow> bvals" where
  "vals_of kvs k = (case map_of kvs k of None \<Rightarrow> BNull | Some v \<Rightarrow> v)"

definition sample_row :: "nat \<Rightarrow> (string \<times> bval) list \<Rightarrow> trow" where
  "sample_row i kvs = \<lparr>br_id = i, br_vals = vals_of kvs, br_created = 0, br_updated = 0\<rparr>"

definition person_row :: trow where
  "person_row = sample_row 0 [(''first_name'', BText ''Ann''), (''last_name'', BText ''Lee''), (''email'', BText ''ann@x''),
     (''email_verified'', BBool False), (''is_active'', BBool True), (''marketing_opt_in'', BBool False)]"

definition role_row :: trow where
  "role_row = sample_row 1 [(''name'', BText ''admin''), (''is_active'', BBool True)]"

definition session_row :: trow where
  "session_row = sample_row 2 [(''person_id'', BRef 0), (''status'', BText ''active''), (''token_hash'', BText ''h''),
     (''expires_at'', BTime 1000)]"

definition link_row :: trow where
  "link_row = sample_row 3 [(''person_id'', BRef 0), (''role_id'', BRef 1), (''assigned_at'', BTime 0)]"

definition sample_world :: app_tables where
  "sample_world = \<lparr>bl_rows = (\<lambda>t. case t of People \<Rightarrow> [person_row] | Roles \<Rightarrow> [role_row] | Sessions \<Rightarrow> [session_row]
       | PersonRoles \<Rightarrow> [link_row] | _ \<Rightarrow> []), bl_next = 4, bl_clock = 5\<rparr>"

lemma sample_rows: "bl_rows sample_world t =
    (case t of People \<Rightarrow> [person_row] | Roles \<Rightarrow> [role_row] | Sessions \<Rightarrow> [session_row] | PersonRoles \<Rightarrow> [link_row] | _ \<Rightarrow> [])"
  "bl_next sample_world = 4" "bl_clock sample_world = 5"
  by (simp_all add: sample_world_def)

lemmas sample_row_defs = person_row_def role_row_def session_row_def link_row_def sample_row_def vals_of_def

lemma sample_world_sound: "sound sample_world"
proof -
  have "stored_ok app_db sample_world People 0 (br_vals person_row)"
    by (simp add: stored_ok_def app_db_def person_table_def column_data_ok_def column_null_ok_def
        reference_ok_def fits_column_def sample_row_defs sample_rows unique_ok_def)
  moreover have "stored_ok app_db sample_world Roles 1 (br_vals role_row)"
    by (simp add: stored_ok_def app_db_def role_table_def column_data_ok_def column_null_ok_def
        reference_ok_def fits_column_def sample_row_defs sample_rows unique_ok_def)
  moreover have "stored_ok app_db sample_world Sessions 2 (br_vals session_row)"
    by (simp add: stored_ok_def app_db_def session_table_def column_data_ok_def column_null_ok_def
        reference_ok_def fits_column_def sample_row_defs sample_rows has_row_def)
  moreover have "stored_ok app_db sample_world PersonRoles 3 (br_vals link_row)"
    by (simp add: stored_ok_def app_db_def person_role_table_def column_data_ok_def column_null_ok_def
        reference_ok_def fits_column_def sample_row_defs sample_rows has_row_def unique_ok_def)
  ultimately show ?thesis
    by (auto simp: tables_ok_def sample_rows keyed_def split: tname.split)
      (simp_all add: sample_row_defs)
qed

abbreviation sample_serve :: "service \<Rightarrow> brequest \<Rightarrow> app_tables \<Rightarrow> breply res \<times> app_tables" where
  "sample_serve \<equiv> serve_access None sample_ctx"

theorem app_tables_sound_witness:
  "tables_ok app_db (snd (app_run (\<lambda>_. Some 0)
     [BillingCall (Inr ()) (sample_request ''POST'' ''/products''),
      BillingCall (Inr ()) (sample_request ''DELETE'' ''/people/0'')] (RedisMissing, sample_world)))"
  by (rule app_tables_sound) (simp add: sample_world_sound)

section \<open>Ended sessions\<close>

lemma session_marks: "marks [(''status'', DefaultValue (BText ''revoked'')), (''revoked_at'', DefaultNow)] now =
    [''status'' \<mapsto> BText ''revoked'', ''revoked_at'' \<mapsto> BTime now]"
  by (auto simp: marks_def fun_eq_iff)

lemma session_deleted:
  assumes ok: "sound st" and run: "serve_access dp x session_service (BDelete (Some i)) st = (Inr rep, st')"
  shows "session_open st' now p k \<longleftrightarrow> session_open st now p k \<and> k \<noteq> i"
proof -
  have "contents st' = (contents st)(Sessions :=
      (case contents st Sessions i of None \<Rightarrow> contents st Sessions
       | Some v \<Rightarrow> (contents st Sessions)(i \<mapsto> assign [''status'' \<mapsto> BText ''revoked'', ''revoked_at'' \<mapsto> BTime (bl_clock st)] v)))"
    using access_effect [OF ok _ _ run] access_columns [of session_service]
    by (simp add: common_service_def session_service_def contents_after_def session_marks split: option.split)
  then show ?thesis
    by (cases "contents st Sessions i") (auto simp: session_open_def assign_def)
qed

text \<open>
  Property C23. Deleting a session is exact and immediate for the bearer guard: whatever header
  comes at whatever time, the answer is the one it was, except that a caller whose token
  names this session is now unauthorized. No other caller notices.
\<close>

theorem session_delete_exact:
  assumes "sound st" and "serve_access dp x session_service (BDelete (Some i)) st = (Inr rep, st')"
  shows "require_user_auth x (auth_view S st') now h =
    (case require_user_auth x (auth_view S st) now h of
       Inl e \<Rightarrow> Inl e
     | Inr info \<Rightarrow> if au_session info = i then unauthorized else Inr info)"
proof -
  have ok': "sound st'" using sound_access [OF assms(1), of dp x session_service "BDelete (Some i)"] assms(2) by simp
  note view = user_auth_view [OF assms(1), of x S now h] user_auth_view [OF ok', of x S now h]
  show ?thesis
  proof (cases "py_or (extract_bearer_token h) None")
    case None
    then show ?thesis by (simp add: view unauthorized_def)
  next
    case (Some t)
    show ?thesis
    proof (cases "decode_access_token x (auth_view S st) t now")
      case (Inl e)
      then show ?thesis using Some by (simp add: view decode_view [of x S st' t now st])
    next
      case (Inr c)
      then show ?thesis using Some session_deleted [OF assms]
        by (cases "cl_sub c"; cases "cl_session c")
          (auto simp: view decode_view [of x S st' t now st] unauthorized_def)
    qed
  qed
qed

abbreviation answered :: "'a res \<times> 's \<Rightarrow> bool" where
  "answered out \<equiv> (case fst out of Inl _ \<Rightarrow> False | Inr _ \<Rightarrow> True)"

lemma answeredE:
  assumes "answered out"
  obtains rep where "out = (Inr rep, snd out)"
  using assms by (cases out; cases "fst out") auto

lemma sample_delete_answered: "answered (sample_serve session_service (BDelete (Some 2)) sample_world)"
  by code_simp

theorem session_delete_exact_witness:
  "require_user_auth sample_ctx
      (auth_view [] (snd (sample_serve session_service (BDelete (Some 2)) sample_world))) 5 (Some ''Bearer access.u.sss.'') =
    (case require_user_auth sample_ctx (auth_view [] sample_world) 5 (Some ''Bearer access.u.sss.'') of
       Inl e \<Rightarrow> Inl e
     | Inr info \<Rightarrow> if au_session info = 2 then unauthorized else Inr info)"
  by (rule answeredE [OF sample_delete_answered]) (rule session_delete_exact [OF sample_world_sound])

section \<open>Granted and withdrawn roles\<close>

lemma person_role_stored:
  assumes "body_ok person_role_create b"
  obtains p i where "b ''person_id'' = Some (BRef p)" "b ''role_id'' = Some (BRef i)"
    "insert_vals person_role_defaults now (dump person_role_create b) ''person_id'' = BRef p"
    "insert_vals person_role_defaults now (dump person_role_create b) ''role_id'' = BRef i"
proof -
  obtain u v where uv: "b ''person_id'' = Some u" "b ''role_id'' = Some v"
      "kind_ok FUuid u" "kind_ok FUuid v" "u \<noteq> BNull" "v \<noteq> BNull"
    using assms by (auto simp: body_ok_def person_role_create_def plain_field_def value_ok_def split: option.splits if_splits)
  then obtain p i where "u = BRef p" "v = BRef i"
    by (cases u; cases v) (auto simp: kind_ok_def)
  then show ?thesis using uv that [of p i]
    by (simp add: insert_vals_def dump_def field_named_def person_role_create_def plain_field_def)
qed

lemma answered_body:
  "serve_access dp x svc (BCreate b) st = (Inr rep, st') \<Longrightarrow> body_ok (sv_create svc) b"
  by (auto simp: serve_access_def split: if_splits)

text \<open>The role of an identifier, if it is active and has the name.\<close>

definition active_role :: "app_tables \<Rightarrow> nat \<Rightarrow> string \<Rightarrow> bool" where
  "active_role st i name \<longleftrightarrow> (case contents st Roles i of None \<Rightarrow> False
     | Some v \<Rightarrow> v ''name'' = BText name \<and> v ''is_active'' = BBool True)"

definition linked :: "app_tables \<Rightarrow> nat \<Rightarrow> nat \<Rightarrow> bool" where
  "linked st p i \<longleftrightarrow> (\<exists>l w. contents st PersonRoles l = Some w \<and> w ''person_id'' = BRef p \<and> w ''role_id'' = BRef i)"

lemma active_role_iff: "active_role st i name \<longleftrightarrow>
    (\<exists>v. contents st Roles i = Some v \<and> v ''name'' = BText name \<and> v ''is_active'' = BBool True)"
  by (simp add: active_role_def split: option.split)

lemma holds_role_iff: "holds_role st p name \<longleftrightarrow> (\<exists>i. active_role st i name \<and> linked st p i)"
  unfolding holds_role_def active_role_iff linked_def by blast

lemma linked_granted:
  assumes ok: "sound st" and run: "serve_access dp x person_role_service (BCreate b) st = (Inr rep, st')"
    and b: "b ''person_id'' = Some (BRef p)" "b ''role_id'' = Some (BRef i)"
  shows "linked st' q j \<longleftrightarrow> linked st q j \<or> q = p \<and> j = i" and "contents st' Roles = contents st Roles"
proof -
  let ?v = "insert_vals person_role_defaults (bl_clock st) (dump person_role_create b)"
  have eff: "contents st' = (contents st)(PersonRoles := (contents st PersonRoles)(bl_next st \<mapsto> ?v))"
    using access_effect [OF ok _ _ run] access_columns [of person_role_service]
    by (simp add: common_service_def person_role_service_def contents_after_def)
  have "body_ok person_role_create b"
    using answered_body [OF run] by (simp add: person_role_service_def)
  then have v: "?v ''person_id'' = BRef p" "?v ''role_id'' = BRef i"
    by (rule person_role_stored [where now = "bl_clock st"]; use b in simp)+
  have fresh: "contents st PersonRoles (bl_next st) = None"
    using rows.fresh_key [OF tables_okD(1) [OF ok]] by (simp add: contents_def)
  have rows: "contents st' PersonRoles m = Some w \<longleftrightarrow>
      (if m = bl_next st then w = ?v else contents st PersonRoles m = Some w)" for m w
    using eff by auto
  show "linked st' q j \<longleftrightarrow> linked st q j \<or> q = p \<and> j = i"
  proof
    assume "linked st' q j"
    then obtain m w where m: "contents st' PersonRoles m = Some w" "w ''person_id'' = BRef q" "w ''role_id'' = BRef j"
      unfolding linked_def by blast
    show "linked st q j \<or> q = p \<and> j = i"
    proof (cases "m = bl_next st")
      case True
      then have "w = ?v" using m(1) unfolding rows by simp
      then show ?thesis using v m(2,3) by simp
    next
      case False
      then have "contents st PersonRoles m = Some w" using m(1) unfolding rows by simp
      then show ?thesis using m(2,3) unfolding linked_def by blast
    qed
  next
    assume "linked st q j \<or> q = p \<and> j = i"
    then show "linked st' q j"
    proof
      assume "linked st q j"
      then obtain m w where m: "contents st PersonRoles m = Some w" "w ''person_id'' = BRef q" "w ''role_id'' = BRef j"
        unfolding linked_def by blast
      then have "contents st' PersonRoles m = Some w" using fresh unfolding rows by auto
      then show ?thesis using m unfolding linked_def by blast
    next
      assume "q = p \<and> j = i"
      moreover have "contents st' PersonRoles (bl_next st) = Some ?v" unfolding rows by simp
      ultimately show ?thesis using v unfolding linked_def by blast
    qed
  qed
  show "contents st' Roles = contents st Roles" using eff by simp
qed

text \<open>
  Granting a role is exact and immediate for the role guard: after a link of a
  person to a role was created, the guard lets in for a name whom it let in before, and besides
  exactly that person for the name of that role if it is active.
\<close>

theorem role_grant_exact:
  assumes "sound st" and "serve_access dp x person_role_service (BCreate b) st = (Inr rep, st')"
    and "b ''person_id'' = Some (BRef p)" and "b ''role_id'' = Some (BRef i)"
  shows "require_role (auth_view S st') name info = Inr info \<longleftrightarrow>
    require_role (auth_view S st) name info = Inr info \<or> au_person info = p \<and> active_role st i name"
proof -
  have ok': "sound st'" using sound_access [OF assms(1), of dp x person_role_service "BCreate b"] assms(2) by simp
  have "active_role st' j name = active_role st j name" for j
    using linked_granted(2) [OF assms] by (simp add: active_role_def)
  then show ?thesis
    unfolding require_role_view [OF assms(1)] require_role_view [OF ok'] holds_role_iff
    using linked_granted(1) [OF assms] by auto
qed

definition new_link :: body where
  "new_link = [''person_id'' \<mapsto> BRef 0, ''role_id'' \<mapsto> BRef 1]"

definition unlinked_world :: app_tables where
  "unlinked_world = snd (sample_serve person_role_service (BDelete (Some 3)) sample_world)"

lemma unlinked_world_sound: "sound unlinked_world"
  by (simp add: unlinked_world_def sound_access sample_world_sound)

lemma sample_grant_answered: "answered (sample_serve person_role_service (BCreate new_link) unlinked_world)"
  by code_simp

theorem role_grant_exact_witness:
  "require_role (auth_view [] (snd (sample_serve person_role_service (BCreate new_link) unlinked_world)))
      ''admin'' sample_info = Inr sample_info \<longleftrightarrow>
    require_role (auth_view [] unlinked_world) ''admin'' sample_info = Inr sample_info \<or>
      au_person sample_info = 0 \<and> active_role unlinked_world 1 ''admin''"
proof -
  have "new_link ''person_id'' = Some (BRef 0)" "new_link ''role_id'' = Some (BRef 1)" by (simp_all add: new_link_def)
  note body = this
  obtain rep where "sample_serve person_role_service (BCreate new_link) unlinked_world =
      (Inr rep, snd (sample_serve person_role_service (BCreate new_link) unlinked_world))"
    by (rule answeredE [OF sample_grant_answered])
  from role_grant_exact [OF unlinked_world_sound this body] show ?thesis .
qed

lemma link_pairs_unique:
  assumes ok: "sound st" and v: "contents st PersonRoles l = Some v" and w: "contents st PersonRoles m = Some w"
    and same: "v ''person_id'' = w ''person_id''" "v ''role_id'' = w ''role_id''"
  shows "l = m"
proof (rule unique_rows [where cs = "[''person_id'', ''role_id'']", OF ok _ v w])
  show "([''person_id'', ''role_id''], None) \<in> set (dt_unique (app_db PersonRoles))"
    by (simp add: app_db_def person_role_table_def)
  show "c \<in> set [''person_id'', ''role_id''] \<Longrightarrow> v c \<noteq> BNull \<and> v c = w c" for c
    using link_refs [OF ok v] same by auto
qed

lemma linked_withdrawn:
  assumes ok: "sound st" and run: "serve_access dp x person_role_service (BDelete (Some l)) st = (Inr rep, st')"
    and w: "contents st PersonRoles l = Some w" "w ''person_id'' = BRef p" "w ''role_id'' = BRef i"
  shows "linked st' q j \<longleftrightarrow> linked st q j \<and> \<not> (q = p \<and> j = i)" and "contents st' Roles = contents st Roles"
proof -
  have eff: "contents st' = (contents st)(PersonRoles := (contents st PersonRoles)(l := None))"
    using access_effect [OF ok _ _ run] access_columns [of person_role_service]
    by (simp add: common_service_def person_role_service_def contents_after_def)
  show "linked st' q j \<longleftrightarrow> linked st q j \<and> \<not> (q = p \<and> j = i)"
  proof
    assume "linked st' q j"
    then obtain m v where m: "m \<noteq> l" "contents st PersonRoles m = Some v" "v ''person_id'' = BRef q" "v ''role_id'' = BRef j"
      using eff by (auto simp: linked_def split: if_splits)
    then show "linked st q j \<and> \<not> (q = p \<and> j = i)"
      using link_pairs_unique [OF ok m(2) w(1)] w by (auto simp: linked_def)
  next
    assume "linked st q j \<and> \<not> (q = p \<and> j = i)"
    then obtain m v where m: "contents st PersonRoles m = Some v" "v ''person_id'' = BRef q" "v ''role_id'' = BRef j" "\<not> (q = p \<and> j = i)"
      by (auto simp: linked_def)
    then have "m \<noteq> l" using w by auto
    then show "linked st' q j" using m eff by (auto simp: linked_def)
  qed
  show "contents st' Roles = contents st Roles" using eff by simp
qed

text \<open>
  Withdrawing a role is exact and immediate for the role guard, whatever the
  claims of the tokens still say: after the link of a person to a role was deleted, the guard lets
  in whom it let in before, except that person for the name of that role.
\<close>

theorem role_withdraw_exact:
  assumes "sound st" and "serve_access dp x person_role_service (BDelete (Some l)) st = (Inr rep, st')"
    and "contents st PersonRoles l = Some w" and "w ''person_id'' = BRef p" and "w ''role_id'' = BRef i"
  shows "require_role (auth_view S st') name info = Inr info \<longleftrightarrow>
    require_role (auth_view S st) name info = Inr info \<and> \<not> (au_person info = p \<and> active_role st i name)"
proof -
  have ok': "sound st'" using sound_access [OF assms(1), of dp x person_role_service "BDelete (Some l)"] assms(2) by simp
  have same: "active_role st' j name = active_role st j name" for j
    using linked_withdrawn(2) [OF assms] by (simp add: active_role_def)
  have one: "j = i" if "active_role st j name" "active_role st i name" for j
    using that role_names_unique [OF assms(1), of j _ i] by (auto simp: active_role_def split: option.splits)
  show ?thesis
    unfolding require_role_view [OF assms(1)] require_role_view [OF ok'] holds_role_iff same
    using linked_withdrawn(1) [OF assms] one by blast
qed

lemma sample_world_link:
  "answered (sample_serve person_role_service (BDelete (Some 3)) sample_world)"
  "contents sample_world PersonRoles 3 \<noteq> None"
  "the (contents sample_world PersonRoles 3) ''person_id'' = BRef 0"
  "the (contents sample_world PersonRoles 3) ''role_id'' = BRef 1"
  by code_simp+

theorem role_withdraw_exact_witness:
  "require_role (auth_view [] (snd (sample_serve person_role_service (BDelete (Some 3)) sample_world)))
      ''admin'' sample_info = Inr sample_info \<longleftrightarrow>
    require_role (auth_view [] sample_world) ''admin'' sample_info = Inr sample_info \<and>
      \<not> (au_person sample_info = 0 \<and> active_role sample_world 1 ''admin'')"
proof -
  obtain w where w: "contents sample_world PersonRoles 3 = Some w" using sample_world_link(2) by blast
  with sample_world_link(3,4) have "w ''person_id'' = BRef 0" "w ''role_id'' = BRef 1" by simp_all
  note link = this
  obtain rep where "sample_serve person_role_service (BDelete (Some 3)) sample_world =
      (Inr rep, snd (sample_serve person_role_service (BDelete (Some 3)) sample_world))"
    by (rule answeredE [OF sample_world_link(1)])
  from role_withdraw_exact [OF sample_world_sound this w link] show ?thesis .
qed

end
