(* ===== verification/AccessFactors.thy ===== *)
theory AccessFactors
  imports AccessSafety
begin

text \<open>
  The second factors, the permissions of a role and the generated API keys: what the operations
  beyond the common ones do, exactly.
\<close>

section \<open>The single primary second factor\<close>

lemma mfa_fit: "creates_fit app_db mfa_method_service" "reads_fit mfa_method_service"
  using access_fit by (auto simp: list_all_iff)

lemma mfa_service_simps [simp]:
  "sv_table mfa_method_service = MfaMethods" "sv_create mfa_method_service = mfa_method_create"
  "sv_defaults mfa_method_service = mfa_method_defaults" "sv_read mfa_method_service = mfa_method_read"
  by (simp_all add: mfa_method_service_def)

text \<open>What a valid body stores.\<close>

definition mfa_stored :: "body \<Rightarrow> int \<Rightarrow> bvals" where
  "mfa_stored b now = insert_vals mfa_method_defaults now (dump mfa_method_create b)"

lemma mfa_fields:
  "field_named mfa_method_create ''person_id'' = Some (plain_field ''person_id'' FUuid False None)"
  "field_named mfa_method_create ''is_primary'' = Some (plain_field ''is_primary'' FBool False (Some (BBool False)))"
  "field_named mfa_method_create ''last_totp_counter'' = None"
  by (simp_all add: field_named_def mfa_method_create_def mfa_method_fields_def plain_field_def)

lemma mfa_body:
  assumes body: "body_ok mfa_method_create b" and p: "b ''person_id'' = Some (BRef p)"
  obtains f where "dump mfa_method_create b ''person_id'' = BRef p" "mfa_stored b now ''person_id'' = BRef p"
    "dump mfa_method_create b ''is_primary'' = BBool f" "mfa_stored b now ''is_primary'' = BBool f"
    "mfa_stored b now ''last_totp_counter'' = BNull"
proof -
  let ?d = "dump mfa_method_create b"
  have "?d ''is_primary'' \<noteq> BNull \<and> kind_ok FBool (?d ''is_primary'')"
    using dump_value [OF body mfa_fields(2)]
    by (cases "?d ''is_primary''") (auto simp: may_be_null_def plain_field_def value_ok_def kind_ok_def)
  then obtain f where f: "?d ''is_primary'' = BBool f"
    by (cases "?d ''is_primary''") (auto simp: kind_ok_def)
  have d: "?d ''person_id'' = BRef p" "?d ''last_totp_counter'' = BNull"
    using p mfa_fields by (simp_all add: dump_def)
  have "mfa_stored b now ''person_id'' = BRef p" "mfa_stored b now ''is_primary'' = BBool f"
      "mfa_stored b now ''last_totp_counter'' = BNull"
    using d f by (simp_all add: mfa_stored_def insert_vals_def mfa_method_defaults_def)
  then show thesis using that d f by simp
qed

lemma mfa_requires:
  "dump mfa_method_create b ''person_id'' = BRef p \<Longrightarrow>
   check_each (require_exists st (dump mfa_method_create b)) (sv_requires mfa_method_service) =
    (if has_row st People p then Inr () else Inl (NotFound ''Person not found''))"
  by (simp add: mfa_method_service_def require_exists_def)

lemma demote_contents:
  assumes ok: "sound st"
  shows "contents (demote_primaries (BRef p) None st) MfaMethods i =
    map_option (\<lambda>v. if v ''person_id'' = BRef p \<and> v ''is_primary'' = BBool True
                    then v(''is_primary'' := BBool False) else v) (contents st MfaMethods i)"
proof -
  have "find_row (update_where P f rows) i = map_option (\<lambda>r. if P r then f r else r) (find_row rows i)"
    if "\<And>r. br_id (f r) = br_id r" for P f rows
    unfolding find_row_def by (rule first_where_update_id) (simp add: that)
  then show ?thesis
    by (cases "find_row (bl_rows st MfaMethods) i")
      (simp_all add: contents_def demote_primaries_def unset_primary_def is_primary_of_def)
qed

lemma mfa_verdict:
  assumes body: "body_ok mfa_method_create b" and p: "b ''person_id'' = Some (BRef p)" and there: "has_row st People p"
    and free: "\<And>r. dump mfa_method_create b ''is_primary'' = BBool True \<Longrightarrow> r \<in> set (bl_rows st MfaMethods) \<Longrightarrow>
      br_vals r ''person_id'' = BRef p \<Longrightarrow> br_vals r ''is_primary'' \<noteq> BBool True"
  shows "create_verdict app_db mfa_method_service b st = Inr ()"
proof -
  let ?v = "mfa_stored b (bl_clock st)"
  obtain f where v: "dump mfa_method_create b ''person_id'' = BRef p" "?v ''person_id'' = BRef p"
    "dump mfa_method_create b ''is_primary'' = BBool f" "?v ''is_primary'' = BBool f"
    "?v ''last_totp_counter'' = BNull" by (rule mfa_body [OF body p, where now = "bl_clock st"])
  have "first_where (missing st (dump mfa_method_create b)) (sv_requires mfa_method_service) = None"
    using v(1) there by (simp add: mfa_method_service_def missing_def)
  moreover have "\<not> list_ex (\<lambda>c. too_big c ?v) (dt_columns (app_db MfaMethods))"
    using v(5) by (simp add: app_db_def mfa_method_table_def too_big_def)
  moreover have "\<not> clashes st MfaMethods (app_db MfaMethods) ?v"
  proof
    assume "clashes st MfaMethods (app_db MfaMethods) ?v"
    then obtain r u where r: "r \<in> set (bl_rows st MfaMethods)" "u \<in> set (dt_unique (app_db MfaMethods))"
        "clash u ?v (br_vals r)" by (auto simp: clashes_def list_ex_iff)
    from clash_primary [OF r(2,3)] free [of r] r(1) v show False by auto
  qed
  moreover have "\<not> unknown_person st (app_db MfaMethods) ?v"
    using v(2) there by (simp add: unknown_person_def app_db_def mfa_method_table_def)
  ultimately show ?thesis using body by (simp add: create_verdict_def Let_def mfa_stored_def)
qed

text \<open>
  Property C24. Creating a second factor never meets the unique index. With a valid body it fails only
  if the person is not there; else it stores the body with its defaults and, if the body says that the
  method is primary, unsets the flag of the method of that person that had it; every other method is
  left as it was.
\<close>

theorem primary_method_exact:
  assumes ok: "sound st" and body: "body_ok mfa_method_create b" and p: "b ''person_id'' = Some (BRef p)"
    and run: "serve_access dp x mfa_method_service (BCreate b) st = (res, st')"
  shows "if \<not> has_row st People p then res = Inl (HttpError 404 ''Person not found'') \<and> st' = st
    else (\<exists>r now. res = Inr (Item r) \<and> br_id r = bl_next st \<and> br_vals r = mfa_stored b now \<and>
      contents st' MfaMethods = (\<lambda>i. map_option (\<lambda>v.
          if dump mfa_method_create b ''is_primary'' = BBool True \<and> v ''person_id'' = BRef p \<and>
             v ''is_primary'' = BBool True then v(''is_primary'' := BBool False) else v)
        (contents st MfaMethods i))(bl_next st \<mapsto> mfa_stored b now))"
proof -
  let ?d = "dump mfa_method_create b"
  obtain f where d: "?d ''person_id'' = BRef p" "?d ''is_primary'' = BBool f" by (rule mfa_body [OF body p])
  let ?st = "if f then demote_primaries (BRef p) None st else st"
  have same: "has_row ?st t j = has_row st t j" for t j by simp
  have ok': "sound ?st" using ok demote_ok by simp
  have create: "create_mfa_method b st = (if has_row st People p
      then primary_conflict (svc_create app_db mfa_method_service b ?st) else (Inl (NotFound ''Person not found''), st))"
    using mfa_requires [OF d(1), of st] mfa_requires [OF d(1), of ?st] d same
    by (simp add: create_mfa_method_def svc_create_def Let_def)
  have acc: "access_create dp x mfa_method_service b = create_mfa_method b" by (simp add: access_create_def)
  show ?thesis
  proof (cases "has_row st People p")
    case False
    then show ?thesis using run body create acc
      by (auto simp: serve_access_def answer_def router_error_def auth_router_def to_http_error_def)
  next
    case True
    have "create_verdict app_db mfa_method_service b ?st = Inr ()"
    proof (rule mfa_verdict [OF body p])
      show "has_row ?st People p" using True same by simp
      fix r assume "?d ''is_primary'' = BBool True" "r \<in> set (bl_rows ?st MfaMethods)" "br_vals r ''person_id'' = BRef p"
      then have "r \<in> set (bl_rows (demote_primaries (BRef p) None st) MfaMethods)" using d(2) by simp
      then show "br_vals r ''is_primary'' \<noteq> BBool True"
        by (cases rule: demote_row) (use \<open>br_vals r ''person_id'' = BRef p\<close> in \<open>auto simp: is_primary_of_def\<close>)
    qed
    then obtain r st1 where cr: "svc_create app_db mfa_method_service b ?st = (Inr r, st1)"
      using svc_create_verdict(1) [OF ok' mfa_fit(1)] body by (metis mfa_service_simps(2) prod.collapse)
    have res: "res = Inr (Item r)" "st' = st1"
      using run body create True cr acc svc_create_readable [OF mfa_fit(2) _ cr]
      by (simp_all add: serve_access_def answer_def primary_conflict_def)
    from cr show ?thesis
    proof (cases rule: svc_create_cases)
      case (inserted q)
      let ?now = "bl_clock ?st"
      have q: "q = r" "br_id r = bl_next st" "br_vals r = mfa_stored b ?now"
        using inserted by (auto simp: mfa_stored_def)
      have "find_row (bl_rows ?st MfaMethods @ [r]) = (find_row (bl_rows ?st MfaMethods))(bl_next st \<mapsto> r)"
        using rows.find_add [OF tables_okD(1) [OF ok', of MfaMethods], of r] q by (simp add: add_row_def)
      then have "contents st1 MfaMethods = (contents ?st MfaMethods)(bl_next st \<mapsto> mfa_stored b ?now)"
        using inserted(5) q by (simp add: contents_def fun_eq_iff)
      moreover have "contents ?st MfaMethods = (\<lambda>i. map_option (\<lambda>v.
          if ?d ''is_primary'' = BBool True \<and> v ''person_id'' = BRef p \<and>
             v ''is_primary'' = BBool True then v(''is_primary'' := BBool False) else v) (contents st MfaMethods i))"
        using demote_contents [OF ok, of p] d(2) by (simp add: fun_eq_iff option.map_ident)
      ultimately show ?thesis using True res q by auto
    qed simp
  qed
qed

definition new_method :: body where
  "new_method = [''person_id'' \<mapsto> BRef 0, ''method_type'' \<mapsto> BText ''totp'', ''is_primary'' \<mapsto> BBool True]"

theorem primary_method_exact_witness:
  "\<exists>r st'. sample_serve mfa_method_service (BCreate new_method) sample_world = (Inr (Item r), st') \<and> br_id r = 4"
proof -
  have "body_ok mfa_method_create new_method" "has_row sample_world People 0" by code_simp+
  moreover obtain res st' where "sample_serve mfa_method_service (BCreate new_method) sample_world = (res, st')" by force
  moreover have "new_method ''person_id'' = Some (BRef 0)" by (simp add: new_method_def)
  ultimately show ?thesis
    using primary_method_exact [OF sample_world_sound, of new_method 0 None sample_ctx res st'] by (auto simp: sample_rows)
qed

section \<open>The permissions of a role\<close>

definition role_links :: "app_tables \<Rightarrow> nat \<Rightarrow> nat set" where
  "role_links st r = {j. \<exists>q\<in>set (bl_rows st RolePermissions). br_vals q ''role_id'' = BRef r \<and> br_vals q ''permission_id'' = BRef j}"

lemma link_fit: "creates_fit app_db role_permission_service"
  using access_fit by (auto simp: list_all_iff)

lemma link_body_ok: "body_ok role_permission_create (link_body r j)"
  by (simp add: body_ok_def role_permission_create_def plain_field_def link_body_def value_ok_def kind_ok_def bound_ok_def)

lemma link_stored:
  "insert_vals role_permission_defaults now (dump role_permission_create (link_body r j)) =
    vals_of [(''role_id'', BRef r), (''permission_id'', BRef j)]"
  by (auto simp: fun_eq_iff insert_vals_def dump_def field_named_def role_permission_create_def plain_field_def
      link_body_def vals_of_def role_permission_defaults_def)

lemma link_verdict:
  assumes "has_row st Roles r"
  shows "create_verdict app_db role_permission_service (link_body r j) st =
    (if \<not> has_row st Permissions j then Inl (NotFound ''Permission not found'')
     else if j \<in> role_links st r then Inl IntegrityErr else Inr ())"
proof -
  let ?v = "vals_of [(''role_id'', BRef r), (''permission_id'', BRef j)]"
  have d: "dump role_permission_create (link_body r j) ''role_id'' = BRef r"
    "dump role_permission_create (link_body r j) ''permission_id'' = BRef j"
    by (simp_all add: dump_def field_named_def role_permission_create_def plain_field_def link_body_def)
  have m: "first_where (missing st (dump role_permission_create (link_body r j))) (sv_requires role_permission_service) =
      (if has_row st Permissions j then None else Some \<lparr>req_field = ''permission_id'', req_table = Permissions,
         req_message = ''Permission not found'', req_null = NullNotFound\<rparr>)"
    using assms d by (simp add: role_permission_service_def missing_def)
  have c: "clashes st RolePermissions (app_db RolePermissions) ?v \<longleftrightarrow> j \<in> role_links st r"
    by (auto simp: clashes_def list_ex_iff app_db_def role_permission_table_def clash_def vals_of_def role_links_def)
      metis+
  have "\<not> list_ex (\<lambda>c. too_big c ?v) (dt_columns (app_db RolePermissions))" "\<not> unknown_person st (app_db RolePermissions) ?v"
    by (simp_all add: app_db_def role_permission_table_def too_big_def unknown_person_def)
  then show ?thesis using m c link_body_ok [of r j]
    by (simp add: create_verdict_def Let_def role_permission_service_def link_stored)
qed

lemma add_link_step:
  assumes ok: "sound st" and there: "has_row st Roles r"
  shows "if has_row st Permissions j \<and> j \<notin> role_links st r
    then \<exists>q st'. add_link r (Some j) st = (Inr q, st') \<and> sound st' \<and> (\<forall>t i. t \<noteq> RolePermissions \<longrightarrow> has_row st' t i = has_row st t i) \<and>
      (\<forall>p. role_links st' p = (if p = r then insert j (role_links st r) else role_links st p))
    else \<exists>e. add_link r (Some j) st = (Inl e, st)"
proof (cases "create_verdict app_db role_permission_service (link_body r j) st")
  case (Inl e)
  then have "add_link r (Some j) st = (Inl e, st)"
    using svc_create_verdict(2) [OF ok link_fit] link_body_ok [of r j]
    by (simp add: add_link_def role_permission_service_def)
  then show ?thesis using Inl link_verdict [OF there, of j] by (auto split: if_splits)
next
  case (Inr u)
  obtain res st' where run: "svc_create app_db role_permission_service (link_body r j) st = (res, st')" by force
  then obtain q where cr: "svc_create app_db role_permission_service (link_body r j) st = (Inr q, st')"
    using svc_create_verdict(1) [OF ok link_fit, of "link_body r j"] link_body_ok [of r j] Inr
    by (auto simp: role_permission_service_def)
  have "sound st'" using sound_create [OF ok, of role_permission_service "link_body r j"] cr by simp
  moreover from cr have "(\<forall>t i. t \<noteq> RolePermissions \<longrightarrow> has_row st' t i = has_row st t i) \<and>
      (\<forall>p. role_links st' p = (if p = r then insert j (role_links st r) else role_links st p))"
  proof (cases rule: svc_create_cases)
    case (inserted z)
    then have rows: "bl_rows st' = (bl_rows st)(RolePermissions := bl_rows st RolePermissions @ [z])"
      and v: "br_vals z = vals_of [(''role_id'', BRef r), (''permission_id'', BRef j)]"
      by (simp_all add: role_permission_service_def link_stored)
    show ?thesis using v by (auto simp: has_row_def role_links_def rows vals_of_def)
  qed simp
  ultimately show ?thesis using cr Inr link_verdict [OF there, of j] by (auto simp: add_link_def split: if_splits)
qed

lemma add_links:
  assumes "sound st" and "has_row st Roles r" and "for_each (add_link r) ps st = (res, st')"
  shows "(res = Inr () \<longleftrightarrow> (\<forall>p\<in>set ps. \<exists>j. p = Some j \<and> has_row st Permissions j \<and> j \<notin> role_links st r) \<and> distinct ps) \<and>
    (res = Inr () \<longrightarrow> (\<forall>q. role_links st' q = (if q = r then role_links st r \<union> {j. Some j \<in> set ps} else role_links st q)))"
  using assms
proof (induction ps arbitrary: st)
  case (Cons p ps)
  show ?case
  proof (cases p)
    case None
    then show ?thesis using Cons.prems by (auto simp: add_link_def bind_act_def)
  next
    case (Some j)
    show ?thesis
    proof (cases "has_row st Permissions j \<and> j \<notin> role_links st r")
      case False
      then obtain e where "add_link r p st = (Inl e, st)" using add_link_step [OF Cons.prems(1,2), of j] Some by auto
      then show ?thesis using Cons.prems(3) False Some by (auto simp: bind_act_def)
    next
      case True
      then obtain q st1 where step: "add_link r p st = (Inr q, st1)" "sound st1"
          "\<forall>t i. t \<noteq> RolePermissions \<longrightarrow> has_row st1 t i = has_row st t i"
          "\<forall>p. role_links st1 p = (if p = r then insert j (role_links st r) else role_links st p)"
        using add_link_step [OF Cons.prems(1,2), of j] Some by auto
      have rest: "for_each (add_link r) ps st1 = (res, st')" using Cons.prems(3) step(1) by (simp add: bind_act_def)
      have same: "has_row st1 Permissions i = has_row st Permissions i" "has_row st1 Roles i = has_row st Roles i" for i
        using step(3) by simp_all
      note ih = Cons.IH [OF step(2) _ rest, unfolded same, OF Cons.prems(2)]
      have links: "role_links st1 r = insert j (role_links st r)" using step(4) by simp
      have a: "(\<forall>p\<in>set ps. \<exists>i. p = Some i \<and> has_row st Permissions i \<and> i \<notin> role_links st1 r) \<longleftrightarrow>
          (\<forall>p\<in>set ps. \<exists>i. p = Some i \<and> has_row st Permissions i \<and> i \<notin> role_links st r) \<and> Some j \<notin> set ps"
        unfolding links by auto
      show ?thesis using ih True Some step(4) unfolding a by auto
    qed
  qed
qed auto

text \<open>
  Replacing the permissions of a role works exactly if every identifier of the list
  is that of a permission and none comes twice (a repeated one fails on the unique
  constraint); then the role has exactly the permissions of the list, whatever it had before, and
  every other role has what it had.
\<close>

theorem replace_permissions_exact:
  assumes "sound st" and "has_row st Roles r" and "replace_permissions r ps st = (res, st')"
  shows "(res = Inr () \<longleftrightarrow> distinct ps \<and> (\<forall>p\<in>set ps. \<exists>j. p = Some j \<and> has_row st Permissions j)) \<and>
    (res = Inr () \<longrightarrow> (\<forall>q. role_links st' q = (if q = r then {j. Some j \<in> set ps} else role_links st q)))"
proof -
  let ?st = "drop_links r st"
  have rows: "bl_rows ?st = (bl_rows st)(RolePermissions :=
      delete_where (\<lambda>q. br_vals q ''role_id'' = BRef r) (bl_rows st RolePermissions))"
    by (simp add: drop_links_def)
  have same: "has_row ?st Roles i = has_row st Roles i" "has_row ?st Permissions i = has_row st Permissions i" for i
    by (simp_all add: has_row_def rows)
  have links: "role_links ?st q = (if q = r then {} else role_links st q)" for q
    by (auto simp: role_links_def rows delete_where_def)
  have "for_each (add_link r) ps ?st = (res, st')" using assms(3) by (simp add: replace_permissions_def)
  from add_links [OF drop_links_ok [OF assms(1)] _ this, unfolded same, OF assms(2)]
  show ?thesis unfolding links by auto
qed

theorem replace_permissions_exact_witness:
  "fst (replace_permissions 1 [Some 7] sample_world) \<noteq> Inr () \<and>
   (let out = replace_permissions 1 [] sample_world in fst out = Inr () \<and> role_links (snd out) 1 = {})"
proof -
  have there: "has_row sample_world Roles 1" by code_simp
  have none: "\<not> has_row sample_world Permissions 7" by code_simp
  obtain res st' where a: "replace_permissions 1 [Some 7] sample_world = (res, st')" by force
  obtain res2 st2 where b: "replace_permissions 1 [] sample_world = (res2, st2)" by force
  show ?thesis
    using replace_permissions_exact [OF sample_world_sound there a] replace_permissions_exact [OF sample_world_sound there b]
      a b none by auto
qed

section \<open>Generated API keys\<close>

text \<open>Requests for a key, one after the other, and which of them were answered with one.\<close>

type_synonym key_request = "int \<times> string option \<times> string \<times> body"

fun generate_all :: "auth_ctx \<Rightarrow> auth_db \<Rightarrow> key_request list \<Rightarrow> redis_client \<times> app_tables \<Rightarrow> bool list" where
  "generate_all x a [] s = []"
| "generate_all x a ((now, client, k, b) # rqs) s =
     answered (serve_generate x a now client k b s) # generate_all x a rqs (snd (serve_generate x a now client k b s))"

definition granted :: "auth_db \<Rightarrow> string \<Rightarrow> key_request list \<Rightarrow> bool list \<Rightarrow> nat" where
  "granted a key rqs oks = length (filter (\<lambda>((now, client, _), ok). ok \<and> rate_key a now client = key) (zip rqs oks))"

definition key_limit :: "auth_db \<Rightarrow> nat" where
  "key_limit a = nat (max (auth_int_setting a ''api_key_rate_max'' 5) 1)"

definition used :: "redis_client \<Rightarrow> string \<Rightarrow> nat" where
  "used rc key = (case rc of RedisThere n \<Rightarrow> n key | _ \<Rightarrow> 0)"

lemma generate_counts:
  fixes x a now client k b s
  defines "out \<equiv> serve_generate x a now client k b s"
  shows "used (fst s) key \<le> used (fst (snd out)) key \<and>
    (answered out \<longrightarrow> rate_key a now client = key \<longrightarrow>
       used (fst (snd out)) key = Suc (used (fst s) key) \<and> used (fst (snd out)) key \<le> key_limit a)"
proof (cases "body_ok api_key_generate b")
  case False
  then show ?thesis by (simp add: out_def serve_generate_def)
next
  case True
  obtain rc st where s: "s = (rc, st)" by (cases s)
  show ?thesis
  proof (cases rc)
    case (RedisThere n)
    let ?key = "rate_key a now client"
    obtain res st' where g: "generate_api_key x k b st = (res, st')" by force
    show ?thesis using True RedisThere g
      by (cases "int (Suc (n ?key)) > max (auth_int_setting a ''api_key_rate_max'' 5) 1")
        (auto simp: out_def serve_generate_def generate_with_rate_limit_def s used_def key_limit_def Let_def
          split: sum.split prod.split)
  qed (use True in \<open>simp_all add: out_def serve_generate_def generate_with_rate_limit_def s used_def\<close>)
qed

lemma granted_bound: "granted a key rqs (generate_all x a rqs s) + used (fst s) key \<le> max (key_limit a) (used (fst s) key)"
proof (induction rqs arbitrary: s)
  case Nil
  show ?case by (simp add: granted_def)
next
  case (Cons rq rqs)
  obtain now client k b where rq: "rq = (now, client, k, b)" by (cases rq)
  let ?out = "serve_generate x a now client k b s"
  have split: "granted a key (rq # rqs) (generate_all x a (rq # rqs) s) =
      (if answered ?out \<and> rate_key a now client = key then 1 else 0) + granted a key rqs (generate_all x a rqs (snd ?out))"
    by (simp add: granted_def rq)
  show ?case
    using Cons.IH [of "snd ?out"] generate_counts [of s key x a now client k b] unfolding split
    by (auto split: if_split)
qed

text \<open>
  Property C25. However many requests for an API key arrive, at most \<open>api_key_rate_max\<close> (at least
  one, five by default) are answered with a key per address and window, whatever other
  requests come between and whichever of them fail.
\<close>

theorem key_generation_bound:
  "granted a key rqs (generate_all x a rqs s) \<le> nat (max (auth_int_setting a ''api_key_rate_max'' 5) 1)"
  using granted_bound [of a key rqs x s] by (simp add: key_limit_def)

lemma generated_row:
  assumes "generate_api_key x raw b st = (Inr (r, k), st')"
  shows "k = raw \<and> (\<exists>h. hash_api_key x raw = Inr h \<and>
    br_vals r = insert_vals api_key_defaults (bl_clock st)
      ((dump api_key_generate b)(''key_hash'' := BText h, ''is_active'' := BBool True))) \<and>
    st' = (store_rows ApiKeys (bl_rows st ApiKeys @ [r]) st)\<lparr>bl_next := Suc (bl_next st)\<rparr>"
proof (cases "hash_api_key x raw")
  case (Inl e)
  then show ?thesis using assms by (simp add: generate_api_key_def Let_def)
next
  case (Inr h)
  let ?given = "(dump api_key_generate b)(''key_hash'' := BText h, ''is_active'' := BBool True)"
  show ?thesis
  proof (cases "check_each (require_exists st (dump api_key_generate b)) (sv_requires api_key_service)")
    case (Inl e)
    then show ?thesis using assms Inr by (simp add: generate_api_key_def Let_def)
  next
    case checked: (Inr u)
    obtain res st1 where ins: "insert_row app_db ApiKeys api_key_defaults ?given st = (res, st1)" by force
    with assms Inr checked have "res = Inr r" "k = raw" "st1 = st'"
      by (auto simp: generate_api_key_def Let_def bind_act_def split: sum.splits)
    with ins show ?thesis using Inr by (cases rule: insert_row_cases) auto
  qed
qed

lemma generate_body_values:
  assumes "body_ok api_key_generate b"
  shows "dump api_key_generate b ''expires_at'' = BNull \<or> (\<exists>t. dump api_key_generate b ''expires_at'' = BTime t)"
    and "dump api_key_generate b ''person_id'' = BNull \<or> (\<exists>p. dump api_key_generate b ''person_id'' = BRef p)"
    and "dump api_key_generate b ''revoked_at'' = BNull"
proof -
  have f: "field_named api_key_generate ''expires_at'' = Some (plain_field ''expires_at'' FTime True (Some BNull))"
    "field_named api_key_generate ''person_id'' = Some (plain_field ''person_id'' FUuid True (Some BNull))"
    "field_named api_key_generate ''revoked_at'' = None"
    by (simp_all add: field_named_def api_key_generate_def plain_field_def)
  show "dump api_key_generate b ''expires_at'' = BNull \<or> (\<exists>t. dump api_key_generate b ''expires_at'' = BTime t)"
    using dump_value [OF assms f(1)]
    by (cases "dump api_key_generate b ''expires_at''") (auto simp: plain_field_def value_ok_def kind_ok_def)
  show "dump api_key_generate b ''person_id'' = BNull \<or> (\<exists>p. dump api_key_generate b ''person_id'' = BRef p)"
    using dump_value [OF assms f(2)]
    by (cases "dump api_key_generate b ''person_id''") (auto simp: plain_field_def value_ok_def kind_ok_def)
  show "dump api_key_generate b ''revoked_at'' = BNull" using f(3) by (simp add: dump_def)
qed

lemma key_text: "sound st \<Longrightarrow> contents st ApiKeys i = Some v \<Longrightarrow> \<exists>s. v ''key_hash'' = BText s"
  by (erule stored_text [where c = "\<lparr>dc_name = ''key_hash'', dc_type = ColText (Some 255), dc_nullable = False\<rparr>"])
    (auto simp: app_db_def api_key_table_def)

text \<open>
  A generated key is given to the caller and only its hash is kept. Presented to the
  audit guard it is recognised until it expires, as the key of the person of the request, who then
  needs the scope; a key without a person opens nothing. The random key must not hash like one that is
  stored.
\<close>

theorem generated_key_recognised:
  assumes ok: "sound (snd s)" and run: "serve_generate x a now client raw b s = (Inr (r, k), s')"
    and raw: "raw \<noteq> []" and hash: "hash_api_key x raw = Inr h"
    and new: "\<forall>q\<in>set (bl_rows (snd s) ApiKeys). br_vals q ''key_hash'' \<noteq> BText h"
  shows "k = raw \<and> br_vals r ''key_hash'' = BText h \<and>
    audit_by_key x (auth_view S (snd s')) t (Some k) =
      (if \<exists>e. dump api_key_generate b ''expires_at'' = BTime e \<and> e \<le> t then unauthorized
       else case dump api_key_generate b ''person_id'' of
          BRef p \<Rightarrow> needs_audit_scope (auth_view S (snd s')) p (KeyActor (br_id r))
        | _ \<Rightarrow> Inl (HttpError 403 ''Insufficient scope''))"
proof -
  let ?d = "dump api_key_generate b"
  have body: "body_ok api_key_generate b" using run by (auto simp: serve_generate_def split: if_splits)
  obtain rc st where s: "s = (rc, st)" by (cases s)
  have "generate_api_key x raw b st = (Inr (r, k), snd s')"
    using run body
    by (auto simp: serve_generate_def generate_with_rate_limit_def s Let_def
        split: redis_client.splits if_splits prod.splits sum.splits)
  from generated_row [OF this] hash have k: "k = raw"
    and vals: "br_vals r = insert_vals api_key_defaults (bl_clock st) (?d(''key_hash'' := BText h, ''is_active'' := BBool True))"
    and st': "snd s' = (store_rows ApiKeys (bl_rows st ApiKeys @ [r]) st)\<lparr>bl_next := Suc (bl_next st)\<rparr>" by auto
  have v: "br_vals r ''key_hash'' = BText h" "br_vals r ''is_active'' = BBool True" "br_vals r ''revoked_at'' = BNull"
    "br_vals r ''expires_at'' = ?d ''expires_at''" "br_vals r ''person_id'' = ?d ''person_id''"
    using generate_body_values [OF body] by (auto simp: vals insert_vals_def api_key_defaults_def)
  have old: "k_hash (api_key_of q) \<noteq> h" if q: "q \<in> set (bl_rows st ApiKeys)" for q
  proof -
    have st: "sound st" using ok by (simp add: s)
    have "contents st ApiKeys (br_id q) = Some (br_vals q)"
      unfolding contents_row [OF st] using q by blast
    from key_text [OF st this] obtain u where "br_vals q ''key_hash'' = BText u" by blast
    then show ?thesis using new q by (auto simp: s api_key_of_def text_of_def Let_def)
  qed
  have k_of: "k_hash (api_key_of r) = h" "k_id (api_key_of r) = br_id r" "k_person (api_key_of r) = ref_of (?d ''person_id'')"
    using v by (simp_all add: api_key_of_def text_of_def Let_def)
  have usable: "usable_key t (api_key_of r) \<longleftrightarrow> \<not> (\<exists>e. ?d ''expires_at'' = BTime e \<and> e \<le> t)"
    using v generate_body_values(1) [OF body]
    by (auto simp: usable_key_def api_key_of_def flag_of_def time_of_def Let_def)
  have keys: "c_api_keys (auth_view S (snd s')) = map api_key_of (bl_rows st ApiKeys) @ [api_key_of r]"
    by (simp add: auth_view_def st')
  have "first_where (\<lambda>k. k_hash k = h \<and> usable_key t k) (map api_key_of (bl_rows st ApiKeys)) = None"
    using old by (auto simp: first_where_None)
  then have found: "first_where (\<lambda>k. k_hash k = h \<and> usable_key t k) (c_api_keys (auth_view S (snd s'))) =
      (if usable_key t (api_key_of r) then Some (api_key_of r) else None)"
    using k_of(1) by (simp add: keys)
  have "audit_by_key x (auth_view S (snd s')) t (Some k) =
      (if usable_key t (api_key_of r) then (case ref_of (?d ''person_id'') of
          None \<Rightarrow> Inl (HttpError 403 ''Insufficient scope'')
        | Some p \<Rightarrow> needs_audit_scope (auth_view S (snd s')) p (KeyActor (br_id r))) else unauthorized)"
    using raw hash k found k_of by (simp add: audit_by_key_def py_or_def split: option.split)
  then show ?thesis using k v(1) usable generate_body_values(2) [OF body]
    by (auto simp: ref_of_def)
qed

definition key_body :: body where
  "key_body = [''person_id'' \<mapsto> BRef 0, ''label'' \<mapsto> BText ''ci'']"

theorem generated_key_recognised_witness:
  "\<exists>r s'. serve_generate sample_ctx (adb sample_auth) 100 None ''raw'' key_body (RedisThere (\<lambda>_. 0), sample_world) =
      (Inr (r, ''raw''), s') \<and> br_vals r ''key_hash'' = BText ''m:k:raw'' \<and>
    audit_by_key sample_ctx (auth_view [] (snd s')) 200 (Some ''raw'') =
      needs_audit_scope (auth_view [] (snd s')) 0 (KeyActor (br_id r))"
proof -
  let ?out = "serve_generate sample_ctx (adb sample_auth) 100 None ''raw'' key_body (RedisThere (\<lambda>_. 0), sample_world)"
  have "answered ?out" by code_simp
  then obtain r k s' where run: "?out = (Inr (r, k), s')" by (rule answeredE) (metis prod.collapse)
  have hash: "hash_api_key sample_ctx ''raw'' = Inr ''m:k:raw''" by code_simp
  have d: "dump api_key_generate key_body ''expires_at'' = BNull" "dump api_key_generate key_body ''person_id'' = BRef 0"
    by code_simp+
  show ?thesis
    using generated_key_recognised [OF _ run _ hash, where t = 200 and S = "[]"] run d
    by (auto simp: sample_world_sound sample_rows)
qed

end
