(* ===== verification/Settings.thy ===== *)
theory Settings
  imports AccessAdmin
begin

text \<open>
  The settings of the application: their specifications and resolution
  (\<^verbatim>\<open>app/services/settings_spec.py\<close>), the table (\<^verbatim>\<open>app/services/domain_settings.py\<close>), the API with its
  validation (\<^verbatim>\<open>app/services/settings_api.py\<close>, \<^verbatim>\<open>app/api/settings.py\<close>, \<^verbatim>\<open>app/schemas/settings.py\<close>), the edit
  form of the web pages (\<^verbatim>\<open>app/web/settings.py\<close>) and the seeds (\<^verbatim>\<open>app/services/settings_seed.py\<close>).
  A dictionary or a list is its text as Python prints it; printing a list and
  parsing JSON are parameters.
\<close>

section \<open>Values and specifications\<close>

datatype value_type = TString | TInteger | TBoolean | TJson

datatype raw_value = RText string | RInt int | RBool bool | RJson string

record setting_spec =
  sp_domain :: setting_domain
  sp_key :: string
  sp_env :: string
  sp_type :: value_type
  sp_default :: "raw_value option"
  sp_required :: bool
  sp_allowed :: "string list"
  sp_min :: "int option"
  sp_max :: "int option"
  sp_secret :: bool

definition plain_spec :: "setting_domain \<Rightarrow> string \<Rightarrow> string \<Rightarrow> value_type \<Rightarrow> raw_value option \<Rightarrow> setting_spec" where
  "plain_spec domain key env t d = \<lparr>sp_domain = domain, sp_key = key, sp_env = env, sp_type = t, sp_default = d,
     sp_required = False, sp_allowed = [], sp_min = None, sp_max = None, sp_secret = False\<rparr>"

definition settings_specs :: "setting_spec list" where
  "settings_specs =
    [(plain_spec AuthDomain ''jwt_secret'' ''JWT_SECRET'' TString None)\<lparr>sp_required := True, sp_secret := True\<rparr>,
     plain_spec AuthDomain ''jwt_algorithm'' ''JWT_ALGORITHM'' TString (Some (RText ''HS256'')),
     (plain_spec AuthDomain ''jwt_access_ttl_minutes'' ''JWT_ACCESS_TTL_MINUTES'' TInteger (Some (RInt 15)))\<lparr>sp_min := Some 1\<rparr>,
     (plain_spec AuthDomain ''jwt_refresh_ttl_days'' ''JWT_REFRESH_TTL_DAYS'' TInteger (Some (RInt 30)))\<lparr>sp_min := Some 1\<rparr>,
     plain_spec AuthDomain ''refresh_cookie_name'' ''REFRESH_COOKIE_NAME'' TString (Some (RText ''refresh_token'')),
     plain_spec AuthDomain ''refresh_cookie_secure'' ''REFRESH_COOKIE_SECURE'' TBoolean (Some (RBool False)),
     (plain_spec AuthDomain ''refresh_cookie_samesite'' ''REFRESH_COOKIE_SAMESITE'' TString (Some (RText ''lax'')))\<lparr>sp_allowed := [''lax'', ''none'', ''strict'']\<rparr>,
     plain_spec AuthDomain ''refresh_cookie_domain'' ''REFRESH_COOKIE_DOMAIN'' TString None,
     plain_spec AuthDomain ''refresh_cookie_path'' ''REFRESH_COOKIE_PATH'' TString (Some (RText ''/auth'')),
     plain_spec AuthDomain ''totp_issuer'' ''TOTP_ISSUER'' TString (Some (RText ''dotmac_voice'')),
     (plain_spec AuthDomain ''totp_encryption_key'' ''TOTP_ENCRYPTION_KEY'' TString None)\<lparr>sp_required := True, sp_secret := True\<rparr>,
     (plain_spec AuthDomain ''api_key_rate_window_seconds'' ''API_KEY_RATE_WINDOW_SECONDS'' TInteger (Some (RInt 60)))\<lparr>sp_min := Some 1\<rparr>,
     (plain_spec AuthDomain ''api_key_rate_max'' ''API_KEY_RATE_MAX'' TInteger (Some (RInt 5)))\<lparr>sp_min := Some 1\<rparr>,
     (plain_spec AuthDomain ''default_auth_provider'' ''AUTH_DEFAULT_AUTH_PROVIDER'' TString (Some (RText ''local'')))\<lparr>sp_allowed := [''local'', ''sso'']\<rparr>,
     plain_spec AuditDomain ''enabled'' ''AUDIT_ENABLED'' TBoolean (Some (RBool True)),
     plain_spec AuditDomain ''methods'' ''AUDIT_METHODS'' TJson (Some (RJson ''['POST', 'PUT', 'PATCH', 'DELETE']'')),
     plain_spec AuditDomain ''skip_paths'' ''AUDIT_SKIP_PATHS'' TJson (Some (RJson ''['/static', '/web', '/health']'')),
     plain_spec AuditDomain ''read_trigger_header'' ''AUDIT_READ_TRIGGER_HEADER'' TString (Some (RText ''x-audit-read'')),
     plain_spec AuditDomain ''read_trigger_query'' ''AUDIT_READ_TRIGGER_QUERY'' TString (Some (RText ''audit'')),
     plain_spec SchedulerDomain ''broker_url'' ''CELERY_BROKER_URL'' TString None,
     plain_spec SchedulerDomain ''result_backend'' ''CELERY_RESULT_BACKEND'' TString None,
     plain_spec SchedulerDomain ''timezone'' ''CELERY_TIMEZONE'' TString (Some (RText ''UTC'')),
     (plain_spec SchedulerDomain ''beat_max_loop_interval'' ''CELERY_BEAT_MAX_LOOP_INTERVAL'' TInteger (Some (RInt 5)))\<lparr>sp_min := Some 1\<rparr>,
     (plain_spec SchedulerDomain ''beat_refresh_seconds'' ''CELERY_BEAT_REFRESH_SECONDS'' TInteger (Some (RInt 30)))\<lparr>sp_min := Some 1\<rparr>,
     plain_spec BillingDomain ''default_currency'' ''BILLING_DEFAULT_CURRENCY'' TString (Some (RText ''usd'')),
     (plain_spec BillingDomain ''tax_rate_percent'' ''BILLING_TAX_RATE_PERCENT'' TInteger (Some (RInt 0)))\<lparr>sp_min := Some 0, sp_max := Some 100\<rparr>,
     plain_spec BillingDomain ''invoice_prefix'' ''BILLING_INVOICE_PREFIX'' TString (Some (RText ''INV-'')),
     (plain_spec BillingDomain ''trial_period_days'' ''BILLING_TRIAL_PERIOD_DAYS'' TInteger (Some (RInt 14)))\<lparr>sp_min := Some 0\<rparr>,
     (plain_spec BillingDomain ''dunning_max_retries'' ''BILLING_DUNNING_MAX_RETRIES'' TInteger (Some (RInt 3)))\<lparr>sp_min := Some 0\<rparr>,
     (plain_spec BillingDomain ''grace_period_days'' ''BILLING_GRACE_PERIOD_DAYS'' TInteger (Some (RInt 3)))\<lparr>sp_min := Some 0\<rparr>,
     (plain_spec BillingDomain ''webhook_tolerance_seconds'' ''BILLING_WEBHOOK_TOLERANCE_SECONDS'' TInteger (Some (RInt 300)))\<lparr>sp_min := Some 1\<rparr>]"

definition get_spec :: "setting_domain \<Rightarrow> string \<Rightarrow> setting_spec option" where
  "get_spec domain key = first_where (\<lambda>s. sp_domain s = domain \<and> sp_key s = key) settings_specs"

definition list_specs :: "setting_domain \<Rightarrow> setting_spec list" where
  "list_specs domain = filter (\<lambda>s. sp_domain s = domain) settings_specs"

text \<open>\<^verbatim>\<open>str(value)\<close>\<close>

definition raw_str :: "raw_value \<Rightarrow> string" where
  "raw_str v = (case v of RText s \<Rightarrow> s | RInt i \<Rightarrow> int_str i
     | RBool b \<Rightarrow> if b then ''True'' else ''False'' | RJson s \<Rightarrow> s)"

text \<open>\<^verbatim>\<open>coerce_value\<close>: the value, and the error if there is one. A flag is an integer in Python.\<close>

definition coerce_value :: "setting_spec \<Rightarrow> raw_value option \<Rightarrow> raw_value option \<times> string option" where
  "coerce_value spec raw = (case raw of None \<Rightarrow> (None, None)
    | Some v \<Rightarrow> (case sp_type spec of
        TBoolean \<Rightarrow> (case v of
            RBool b \<Rightarrow> (Some v, None)
          | RText s \<Rightarrow>
              if lower_str (strip s) \<in> set [''1'', ''true'', ''yes'', ''on''] then (Some (RBool True), None)
              else if lower_str (strip s) \<in> set [''0'', ''false'', ''no'', ''off''] then (Some (RBool False), None)
              else (None, Some ''Value must be boolean'')
          | _ \<Rightarrow> (None, Some ''Value must be boolean''))
      | TInteger \<Rightarrow> (case v of
            RInt i \<Rightarrow> (Some v, None)
          | RBool b \<Rightarrow> (Some v, None)
          | RText s \<Rightarrow> (case py_int s of Some i \<Rightarrow> (Some (RInt i), None)
                      | None \<Rightarrow> (None, Some ''Value must be an integer''))
          | RJson s \<Rightarrow> (None, Some ''Value must be an integer''))
      | TString \<Rightarrow> (Some (RText (raw_str v)), None)
      | TJson \<Rightarrow> (Some v, None)))"

text \<open>\<^verbatim>\<open>int(value)\<close>; a dictionary or a list is a \<^verbatim>\<open>TypeError\<close>.\<close>

definition raw_int :: "raw_value \<Rightarrow> int option" where
  "raw_int v = (case v of RInt i \<Rightarrow> Some i | RBool b \<Rightarrow> Some (if b then 1 else 0)
     | RText s \<Rightarrow> py_int s | RJson s \<Rightarrow> None)"

definition default_int :: "setting_spec \<Rightarrow> int option" where
  "default_int spec = (case sp_default spec of Some (RInt i) \<Rightarrow> Some i
     | Some (RBool b) \<Rightarrow> Some (if b then 1 else 0) | _ \<Rightarrow> None)"

definition below_min :: "setting_spec \<Rightarrow> int \<Rightarrow> bool" where
  "below_min spec i = (case sp_min spec of None \<Rightarrow> False | Some m \<Rightarrow> i < m)"

definition above_max :: "setting_spec \<Rightarrow> int \<Rightarrow> bool" where
  "above_max spec i = (case sp_max spec of None \<Rightarrow> False | Some m \<Rightarrow> m < i)"

definition is_allowed :: "setting_spec \<Rightarrow> raw_value \<Rightarrow> bool" where
  "is_allowed spec v = (case v of RText s \<Rightarrow> s \<in> set (sp_allowed spec) | _ \<Rightarrow> False)"

section \<open>The table\<close>

record setting_row =
  sg_id :: nat
  sg_domain :: setting_domain
  sg_key :: string
  sg_type :: value_type
  sg_text :: "string option"
  sg_json :: "raw_value option"
  sg_secret :: bool
  sg_active :: bool
  sg_created :: int

record settings_db =
  sd_rows :: "setting_row list"
  sd_next :: nat
  sd_clock :: int

text \<open>The bodies of the schemas. In an update each field is absent, null or a value.\<close>

record setting_create =
  sc_domain :: "setting_domain option"
  sc_key :: string
  sc_type :: value_type
  sc_text :: "string option"
  sc_json :: "raw_value option"
  sc_secret :: bool
  sc_active :: bool

record setting_update =
  su_domain :: "setting_domain option option"
  su_key :: "string option option"
  su_type :: "value_type option option"
  su_text :: "string option option"
  su_json :: "raw_value option option"
  su_secret :: "bool option option"
  su_active :: "bool option option"

text \<open>The attribute of a field: null if it is absent.\<close>

definition attr :: "'a option option \<Rightarrow> 'a option" where
  "attr f = (case f of None \<Rightarrow> None | Some v \<Rightarrow> v)"

definition changed :: "'a option option \<Rightarrow> 'a option \<Rightarrow> 'a option" where
  "changed f old = (case f of None \<Rightarrow> old | Some v \<Rightarrow> v)"

definition resolve_domain :: "setting_domain option \<Rightarrow> setting_domain option \<Rightarrow> setting_domain res" where
  "resolve_domain self payload = (case self of
      Some d \<Rightarrow> if payload \<noteq> None \<and> payload \<noteq> Some d then Inl (BadRequest ''Setting domain mismatch'') else Inr d
    | None \<Rightarrow> (case payload of Some d \<Rightarrow> Inr d | None \<Rightarrow> Inl (BadRequest ''Setting domain is required'')))"

definition named :: "setting_domain \<Rightarrow> string \<Rightarrow> setting_row \<Rightarrow> bool" where
  "named domain key r \<longleftrightarrow> sg_domain r = domain \<and> sg_key r = key"

definition create_setting :: "setting_domain option \<Rightarrow> setting_create \<Rightarrow> (settings_db, setting_row) act" where
  "create_setting self p db = (case resolve_domain self (sc_domain p) of
      Inl e \<Rightarrow> (Inl e, db)
    | Inr d \<Rightarrow>
        if 120 < length (sc_key p) then (Inl (Raised ''DataError''), db)
        else if list_ex (named d (sc_key p)) (sd_rows db) then (Inl IntegrityErr, db)
        else (let r = \<lparr>sg_id = sd_next db, sg_domain = d, sg_key = sc_key p, sg_type = sc_type p, sg_text = sc_text p,
                sg_json = sc_json p, sg_secret = sc_secret p, sg_active = sc_active p, sg_created = sd_clock db\<rparr>
              in (Inr r, \<lparr>sd_rows = sd_rows db @ [r], sd_next = Suc (sd_next db), sd_clock = sd_clock db + 1\<rparr>)))"

definition get_setting :: "setting_domain option \<Rightarrow> uuid_text \<Rightarrow> (settings_db, setting_row) act" where
  "get_setting self uid db = (case uid of None \<Rightarrow> (Inl ValueErr, db)
    | Some i \<Rightarrow> (case first_where (\<lambda>r. sg_id r = i) (sd_rows db) of
        None \<Rightarrow> (Inl (NotFound ''Setting not found''), db)
      | Some r \<Rightarrow> if self \<noteq> None \<and> self \<noteq> Some (sg_domain r) then (Inl (NotFound ''Setting not found''), db)
                  else (Inr r, db)))"

text \<open>\<open>setattr\<close> and the flush: a null for a column that has none is refused.\<close>

definition store_setting :: "setting_row \<Rightarrow> settings_db \<Rightarrow> settings_db" where
  "store_setting r db =
     db\<lparr>sd_rows := update_where (\<lambda>q. sg_id q = sg_id r) (\<lambda>_. r) (sd_rows db), sd_clock := sd_clock db + 1\<rparr>"

definition write_setting :: "setting_update \<Rightarrow> setting_row \<Rightarrow> (settings_db, setting_row) act" where
  "write_setting p r db =
     (case (changed (su_type p) (Some (sg_type r)), changed (su_secret p) (Some (sg_secret r)),
            changed (su_active p) (Some (sg_active r))) of
        (Some t, Some s, Some a) \<Rightarrow>
          let q = r\<lparr>sg_type := t, sg_text := changed (su_text p) (sg_text r), sg_json := changed (su_json p) (sg_json r),
                    sg_secret := s, sg_active := a\<rparr>
          in (Inr q, store_setting q db)
      | _ \<Rightarrow> (Inl IntegrityErr, db))"

definition update_setting :: "setting_domain option \<Rightarrow> uuid_text \<Rightarrow> setting_update \<Rightarrow> (settings_db, setting_row) act" where
  "update_setting self uid p = bind_act (get_setting self uid) (\<lambda>r db.
     if su_domain p \<noteq> None \<and> su_domain p \<noteq> Some (Some (sg_domain r)) then (Inl (BadRequest ''Setting domain mismatch''), db)
     else (case changed (su_key p) (Some (sg_key r)) of
        None \<Rightarrow> (Inl IntegrityErr, db)
      | Some k \<Rightarrow>
          if 120 < length k then (Inl (Raised ''DataError''), db)
          else if list_ex (\<lambda>q. sg_id q \<noteq> sg_id r \<and> named (sg_domain r) k q) (sd_rows db) then (Inl IntegrityErr, db)
          else write_setting p (r\<lparr>sg_key := k\<rparr>) db))"

definition find_setting :: "settings_db \<Rightarrow> setting_domain \<Rightarrow> string \<Rightarrow> setting_row option" where
  "find_setting db domain key = first_where (named domain key) (sd_rows db)"

definition get_by_key :: "setting_domain option \<Rightarrow> string \<Rightarrow> (settings_db, setting_row) act" where
  "get_by_key self key db = (case self of None \<Rightarrow> (Inl (BadRequest ''Setting domain is required''), db)
    | Some d \<Rightarrow> (case find_setting db d key of None \<Rightarrow> (Inl (NotFound ''Setting not found''), db) | Some r \<Rightarrow> (Inr r, db)))"

definition upsert_by_key :: "setting_domain option \<Rightarrow> string \<Rightarrow> setting_update \<Rightarrow> (settings_db, setting_row) act" where
  "upsert_by_key self key p db = (case self of None \<Rightarrow> (Inl (BadRequest ''Setting domain is required''), db)
    | Some d \<Rightarrow> (case find_setting db d key of
        Some r \<Rightarrow> write_setting p r db
      | None \<Rightarrow> create_setting self
          \<lparr>sc_domain = Some d, sc_key = key,
           sc_type = (case attr (su_type p) of None \<Rightarrow> TString | Some t \<Rightarrow> t),
           sc_text = attr (su_text p), sc_json = attr (su_json p),
           sc_secret = (attr (su_secret p) = Some True),
           sc_active = (case attr (su_active p) of None \<Rightarrow> True | Some a \<Rightarrow> a)\<rparr> db))"

definition ensure_by_key :: "setting_domain option \<Rightarrow> string \<Rightarrow> value_type \<Rightarrow> string option \<Rightarrow> raw_value option \<Rightarrow> bool \<Rightarrow>
    (settings_db, setting_row) act" where
  "ensure_by_key self key t text json secret db = (case self of None \<Rightarrow> (Inl (BadRequest ''Setting domain is required''), db)
    | Some d \<Rightarrow> (case find_setting db d key of
        Some r \<Rightarrow> (Inr r, db)
      | None \<Rightarrow> create_setting self
          \<lparr>sc_domain = Some d, sc_key = key, sc_type = t, sc_text = text, sc_json = json, sc_secret = secret,
           sc_active = True\<rparr> db))"

definition delete_setting :: "setting_domain option \<Rightarrow> uuid_text \<Rightarrow> (settings_db, unit) act" where
  "delete_setting self uid = bind_act (get_setting self uid) (\<lambda>r db. (Inr (), store_setting (r\<lparr>sg_active := False\<rparr>) db))"

definition list_settings :: "setting_domain option \<Rightarrow> setting_domain option \<Rightarrow> bool option \<Rightarrow> string \<Rightarrow> string \<Rightarrow> int \<Rightarrow> int \<Rightarrow>
    settings_db \<Rightarrow> setting_row list res" where
  "list_settings self domain is_active order_by order_dir limit offset db =
     (let wanted = (case self of Some d \<Rightarrow> Some d | None \<Rightarrow> domain);
          rows = filter (\<lambda>r. (wanted = None \<or> wanted = Some (sg_domain r)) \<and>
            sg_active r = (case is_active of None \<Rightarrow> True | Some b \<Rightarrow> b)) (sd_rows db)
      in if order_by \<notin> set [''created_at'', ''key'']
         then Inl (BadRequest ''Invalid order_by. Allowed: created_at, key'')
         else (let up = (if order_by = ''key'' then sort_key sg_key rows else sort_key sg_created rows)
               in Inr (apply_pagination limit offset (if order_dir = ''desc'' then rev up else up))))"

section \<open>Resolution\<close>

text \<open>\<open>DOMAIN_SETTINGS_SERVICE\<close>: there is none for the branding.\<close>

definition domain_service :: "setting_domain \<Rightarrow> setting_domain option" where
  "domain_service d = (if d = BrandingDomain then None else Some d)"

definition extract_db_value :: "setting_row option \<Rightarrow> raw_value option" where
  "extract_db_value s = (case s of None \<Rightarrow> None
     | Some r \<Rightarrow> (case sg_text r of Some t \<Rightarrow> Some (RText t) | None \<Rightarrow> sg_json r))"

text \<open>What \<open>resolve_value\<close> makes of a raw value.\<close>

definition resolve_raw :: "setting_spec \<Rightarrow> raw_value option \<Rightarrow> raw_value option" where
  "resolve_raw spec db_value =
     (let raw = (case db_value of None \<Rightarrow> sp_default spec | Some v \<Rightarrow> Some v);
          (coerced, error) = coerce_value spec raw;
          value1 = (if error \<noteq> None then sp_default spec else coerced);
          value2 = (case value1 of None \<Rightarrow> None
             | Some v \<Rightarrow> if sp_allowed spec \<noteq> [] \<and> \<not> is_allowed spec v then sp_default spec else Some v)
      in case value2 of None \<Rightarrow> None
         | Some v \<Rightarrow>
            if sp_type spec \<noteq> TInteger then Some v
            else (let parsed = (case raw_int v of None \<Rightarrow> default_int spec | Some i \<Rightarrow> Some i);
                      floored = (case parsed of None \<Rightarrow> None
                        | Some i \<Rightarrow> if below_min spec i then default_int spec else Some i);
                      capped = (case floored of None \<Rightarrow> None
                        | Some i \<Rightarrow> if above_max spec i then default_int spec else Some i)
                  in map_option RInt capped))"

text \<open>The row that is not there raises \<^verbatim>\<open>NotFoundError\<close>, which is no \<^verbatim>\<open>HTTPException\<close> and escapes.\<close>

definition resolve_value :: "settings_db \<Rightarrow> setting_domain \<Rightarrow> string \<Rightarrow> raw_value option res" where
  "resolve_value db domain key = (case get_spec domain key of
      None \<Rightarrow> Inr None
    | Some spec \<Rightarrow> (case domain_service domain of
        None \<Rightarrow> Inr (resolve_raw spec None)
      | Some d \<Rightarrow> (case fst (get_by_key (Some d) key db) of
          Inl (HttpError code detail) \<Rightarrow> Inr (resolve_raw spec None)
        | Inl e \<Rightarrow> Inl e
        | Inr r \<Rightarrow> Inr (resolve_raw spec (extract_db_value (Some r))))))"

section \<open>The API\<close>

definition normalize_for_db :: "setting_spec \<Rightarrow> raw_value \<Rightarrow> string option \<times> raw_value option" where
  "normalize_for_db spec v = (case sp_type spec of
      TBoolean \<Rightarrow> (case v of RBool False \<Rightarrow> (Some ''false'', Some (RBool False)) | _ \<Rightarrow> (Some ''true'', Some (RBool True)))
    | TInteger \<Rightarrow> (map_option int_str (raw_int v), None)
    | TString \<Rightarrow> (Some (raw_str v), None)
    | TJson \<Rightarrow> (None, Some v))"

definition allowed_keys :: "setting_domain \<Rightarrow> string" where
  "allowed_keys domain = join '', '' (sort (map sp_key (list_specs domain)))"

text \<open>The value that \<open>_normalize_spec_setting\<close> accepts: choices are lowered, numbers are checked.\<close>

definition accept_coerced :: "setting_spec \<Rightarrow> raw_value \<Rightarrow> raw_value res" where
  "accept_coerced spec v =
     (let c = (case v of RText s \<Rightarrow> if sp_allowed spec \<noteq> [] then RText (lower_str (strip s)) else v | _ \<Rightarrow> v)
      in if sp_allowed spec \<noteq> [] \<and> \<not> is_allowed spec c
         then Inl (HttpError 400 (''Value must be one of: '' @ join '', '' (sort (sp_allowed spec))))
         else if sp_type spec \<noteq> TInteger then Inr c
         else (case raw_int c of None \<Rightarrow> Inl (HttpError 400 ''Value must be an integer'')
           | Some i \<Rightarrow>
              if below_min spec i then Inl (HttpError 400 (''Value must be >= '' @ int_str (the (sp_min spec))))
              else if above_max spec i then Inl (HttpError 400 (''Value must be <= '' @ int_str (the (sp_max spec))))
              else Inr (RInt i)))"

definition accepted_value :: "setting_spec \<Rightarrow> setting_update \<Rightarrow> raw_value res" where
  "accepted_value spec p =
     (case (case attr (su_text p) of Some t \<Rightarrow> Some (RText t) | None \<Rightarrow> attr (su_json p)) of
        None \<Rightarrow> Inl (HttpError 400 ''Value required'')
      | Some value \<Rightarrow>
          (case coerce_value spec (Some value) of
             (_, Some error) \<Rightarrow> Inl (HttpError 400 error)
           | (None, None) \<Rightarrow> Inl (HttpError 400 ''Value required'')
           | (Some v, None) \<Rightarrow> accept_coerced spec v))"

definition normalize_spec_setting :: "setting_domain \<Rightarrow> string \<Rightarrow> setting_update \<Rightarrow> setting_update res" where
  "normalize_spec_setting domain key p = (case get_spec domain key of
      None \<Rightarrow> Inl (HttpError 400 (''Invalid setting key. Allowed: '' @ allowed_keys domain))
    | Some spec \<Rightarrow> bind_res (accepted_value spec p) (\<lambda>v.
        let (text, json) = normalize_for_db spec v;
            q = p\<lparr>su_type := Some (Some (sp_type spec)), su_text := Some text, su_json := Some json\<rparr>
        in Inr (if sp_secret spec then q\<lparr>su_secret := Some (Some True)\<rparr> else q)))"

definition upsert_domain_setting :: "setting_domain \<Rightarrow> string \<Rightarrow> setting_update \<Rightarrow> (settings_db, setting_row) act" where
  "upsert_domain_setting domain key p db = (case normalize_spec_setting domain key p of
      Inl e \<Rightarrow> (Inl e, db)
    | Inr q \<Rightarrow> (case domain_service domain of
        None \<Rightarrow> (Inl (HttpError 400 ''Unknown settings domain''), db)
      | Some d \<Rightarrow> upsert_by_key (Some d) key q db))"

definition get_domain_setting :: "setting_domain \<Rightarrow> string \<Rightarrow> (settings_db, setting_row) act" where
  "get_domain_setting domain key db = (case get_spec domain key of
      None \<Rightarrow> (Inl (HttpError 400 (''Invalid setting key. Allowed: '' @ allowed_keys domain)), db)
    | Some spec \<Rightarrow> (case domain_service domain of
        None \<Rightarrow> (Inl (HttpError 400 ''Unknown settings domain''), db)
      | Some d \<Rightarrow> get_by_key (Some d) key db))"

text \<open>\<open>DomainSettingRead\<close>: the value of a secret is masked.\<close>

definition secret_mask :: string where
  "secret_mask = ''********''"

definition read_setting :: "setting_row \<Rightarrow> setting_row" where
  "read_setting r = (if sg_secret r
     then r\<lparr>sg_text := (if sg_text r \<noteq> None \<or> sg_json r \<noteq> None then Some secret_mask else None), sg_json := None\<rparr>
     else r)"

datatype settings_request =
    PutSetting setting_domain string setting_update
  | GetSetting setting_domain string
  | ListSettings setting_domain "bool option" string string int int

datatype settings_reply = OneSetting setting_row | SettingsPage "setting_row list"

text \<open>The routes are those of the authentication, the audit and the scheduler. An error rolls
  back.\<close>

definition routed_domain :: "setting_domain \<Rightarrow> bool" where
  "routed_domain d \<longleftrightarrow> d \<in> set [AuthDomain, AuditDomain, SchedulerDomain]"

definition serve_settings :: "settings_request \<Rightarrow> (settings_db, settings_reply) act" where
  "serve_settings rq db = (case rq of
      PutSetting d key p \<Rightarrow>
        if \<not> routed_domain d then (Inl (HttpError 404 ''Not Found''), db)
        else (case upsert_domain_setting d key p db of
            (Inl e, _) \<Rightarrow> (Inl e, db) | (Inr r, db') \<Rightarrow> (Inr (OneSetting (read_setting r)), db'))
    | GetSetting d key \<Rightarrow>
        if \<not> routed_domain d then (Inl (HttpError 404 ''Not Found''), db)
        else (case get_domain_setting d key db of
            (Inl e, _) \<Rightarrow> (Inl e, db) | (Inr r, db') \<Rightarrow> (Inr (OneSetting (read_setting r)), db'))
    | ListSettings d active order_by order_dir limit offset \<Rightarrow>
        if \<not> routed_domain d then (Inl (HttpError 404 ''Not Found''), db)
        else if order_dir \<notin> set [''asc'', ''desc''] \<or> limit < 1 \<or> 500 < limit \<or> offset < 0 then (Inl unprocessable, db)
        else (case list_settings (domain_service d) None active order_by order_dir limit offset db of
            Inl e \<Rightarrow> (Inl e, db) | Inr rows \<Rightarrow> (Inr (SettingsPage (map read_setting rows)), db)))"

section \<open>The edit form\<close>

text \<open>\<^verbatim>\<open>edit_setting_submit\<close>: the fields of the form that are there. An error is shown on the form,
  after a rollback.\<close>

datatype form_reply = Redirected string | FormShown string | PageError nat

definition edit_setting_submit :: "(string \<Rightarrow> raw_value option res) \<Rightarrow> (string \<Rightarrow> string option) \<Rightarrow> nat \<Rightarrow>
    settings_db \<Rightarrow> form_reply \<times> settings_db" where
  "edit_setting_submit json_loads form uid db =
     (case first_where (\<lambda>r. sg_id r = uid) (sd_rows db) of
        None \<Rightarrow> (Redirected ''/admin/settings?error=Setting+not+found'', db)
      | Some r \<Rightarrow>
          let text = (case form ''value_text'' of None \<Rightarrow> sg_text r | Some s \<Rightarrow> if s = [] then None else Some s);
              json = (case form ''value_json'' of None \<Rightarrow> Inr (sg_json r)
                 | Some s \<Rightarrow> if strip s = [] then Inr (sg_json r) else json_loads (strip s));
              active = (case form ''is_active'' of None \<Rightarrow> sg_active r | Some s \<Rightarrow> s = ''on'')
          in (case json of
                Inl e \<Rightarrow> (FormShown ''admin/settings/edit.html'', db)
              | Inr j \<Rightarrow> (Redirected ''/admin/settings?success=Setting+updated+successfully'',
                   store_setting (r\<lparr>sg_text := text, sg_json := j, sg_active := active\<rparr>) db)))"

section \<open>The seeds\<close>

definition getenv :: "(string \<Rightarrow> string option) \<Rightarrow> string \<Rightarrow> string \<Rightarrow> string option" where
  "getenv env name d = (case env name of None \<Rightarrow> Some d | Some v \<Rightarrow> Some v)"

definition seed_text :: "setting_domain \<Rightarrow> (string \<times> value_type \<times> string option) list \<Rightarrow> (settings_db, unit) act" where
  "seed_text d = for_each (\<lambda>(key, t, text). ensure_by_key (Some d) key t text None False)"

definition seed_secret :: "(string \<Rightarrow> string option) \<Rightarrow> string \<Rightarrow> string \<Rightarrow> (settings_db, unit) act" where
  "seed_secret env name key = (case py_or (env name) None of
      None \<Rightarrow> ret ()
    | Some v \<Rightarrow> if is_openbao_ref v
        then then_act (ensure_by_key (Some AuthDomain) key TString (Some v) None True) (ret ()) else ret ())"

definition seed_auth_settings :: "(string \<Rightarrow> string option) \<Rightarrow> (settings_db, unit) act" where
  "seed_auth_settings env = then_act (seed_text AuthDomain
    [(''jwt_algorithm'', TString, getenv env ''JWT_ALGORITHM'' ''HS256''),
     (''jwt_access_ttl_minutes'', TInteger, getenv env ''JWT_ACCESS_TTL_MINUTES'' ''15''),
     (''jwt_refresh_ttl_days'', TInteger, getenv env ''JWT_REFRESH_TTL_DAYS'' ''30''),
     (''refresh_cookie_name'', TString, getenv env ''REFRESH_COOKIE_NAME'' ''refresh_token''),
     (''refresh_cookie_secure'', TBoolean, getenv env ''REFRESH_COOKIE_SECURE'' ''true''),
     (''refresh_cookie_samesite'', TString, getenv env ''REFRESH_COOKIE_SAMESITE'' ''lax''),
     (''refresh_cookie_domain'', TString, env ''REFRESH_COOKIE_DOMAIN''),
     (''refresh_cookie_path'', TString, getenv env ''REFRESH_COOKIE_PATH'' ''/auth''),
     (''totp_issuer'', TString, getenv env ''TOTP_ISSUER'' ''dotmac_voice''),
     (''api_key_rate_window_seconds'', TInteger, getenv env ''API_KEY_RATE_WINDOW_SECONDS'' ''60''),
     (''api_key_rate_max'', TInteger, getenv env ''API_KEY_RATE_MAX'' ''5''),
     (''default_auth_provider'', TString, getenv env ''AUTH_DEFAULT_AUTH_PROVIDER'' ''local'')])
   (then_act (seed_secret env ''JWT_SECRET'' ''jwt_secret'')
     (seed_secret env ''TOTP_ENCRYPTION_KEY'' ''totp_encryption_key''))"

definition to_upper :: "char \<Rightarrow> char" where
  "to_upper c = (if lower_char c then char_of ((of_char c :: nat) - 32) else c)"

definition upper_str :: "string \<Rightarrow> string" where
  "upper_str s = map to_upper s"

definition csv_list :: "string option \<Rightarrow> bool \<Rightarrow> string list option" where
  "csv_list raw upper = (case py_or raw None of None \<Rightarrow> None
     | Some s \<Rightarrow>
        let items = filter (\<lambda>i. i \<noteq> []) (map strip (split_on (CHR '','') s))
        in Some (if upper then map upper_str items else items))"

definition listed_or :: "(string list \<Rightarrow> string) \<Rightarrow> string list option \<Rightarrow> string list \<Rightarrow> raw_value option" where
  "listed_or list_repr v d = Some (RJson (list_repr (case v of None \<Rightarrow> d | Some xs \<Rightarrow> if xs = [] then d else xs)))"

definition seed_audit_settings :: "(string list \<Rightarrow> string) \<Rightarrow> (string \<Rightarrow> string option) \<Rightarrow> (settings_db, unit) act" where
  "seed_audit_settings list_repr env =
     then_act (seed_text AuditDomain [(''enabled'', TBoolean, getenv env ''AUDIT_ENABLED'' ''true'')])
    (then_act (ensure_by_key (Some AuditDomain) ''methods'' TJson None
       (listed_or list_repr (csv_list (env ''AUDIT_METHODS'') True) [''POST'', ''PUT'', ''PATCH'', ''DELETE'']) False)
    (then_act (ensure_by_key (Some AuditDomain) ''skip_paths'' TJson None
       (listed_or list_repr (csv_list (env ''AUDIT_SKIP_PATHS'') False) [''/static'', ''/web'', ''/health'']) False)
      (seed_text AuditDomain
        [(''read_trigger_header'', TString, getenv env ''AUDIT_READ_TRIGGER_HEADER'' ''x-audit-read''),
         (''read_trigger_query'', TString, getenv env ''AUDIT_READ_TRIGGER_QUERY'' ''audit'')])))"

definition seed_scheduler_settings :: "(string \<Rightarrow> string option) \<Rightarrow> (settings_db, unit) act" where
  "seed_scheduler_settings env = seed_text SchedulerDomain
    [(''broker_url'', TString, py_or (env ''CELERY_BROKER_URL'') (py_or (env ''REDIS_URL'') (Some ''redis://localhost:6379/0''))),
     (''result_backend'', TString, py_or (env ''CELERY_RESULT_BACKEND'') (py_or (env ''REDIS_URL'') (Some ''redis://localhost:6379/1''))),
     (''timezone'', TString, getenv env ''CELERY_TIMEZONE'' ''UTC''),
     (''beat_max_loop_interval'', TInteger, getenv env ''CELERY_BEAT_MAX_LOOP_INTERVAL'' ''5''),
     (''beat_refresh_seconds'', TInteger, getenv env ''CELERY_BEAT_REFRESH_SECONDS'' ''30'')]"

definition seed_billing_settings :: "(string \<Rightarrow> string option) \<Rightarrow> (settings_db, unit) act" where
  "seed_billing_settings env = seed_text BillingDomain
    [(''default_currency'', TString, getenv env ''BILLING_DEFAULT_CURRENCY'' ''usd''),
     (''tax_rate_percent'', TInteger, getenv env ''BILLING_TAX_RATE_PERCENT'' ''0''),
     (''invoice_prefix'', TString, getenv env ''BILLING_INVOICE_PREFIX'' ''INV-''),
     (''trial_period_days'', TInteger, getenv env ''BILLING_TRIAL_PERIOD_DAYS'' ''14''),
     (''dunning_max_retries'', TInteger, getenv env ''BILLING_DUNNING_MAX_RETRIES'' ''3''),
     (''grace_period_days'', TInteger, getenv env ''BILLING_GRACE_PERIOD_DAYS'' ''3''),
     (''webhook_tolerance_seconds'', TInteger, getenv env ''BILLING_WEBHOOK_TOLERANCE_SECONDS'' ''300'')]"

text \<open>The start of the application: the seeds, then one commit.\<close>

definition seed_settings :: "(string list \<Rightarrow> string) \<Rightarrow> (string \<Rightarrow> string option) \<Rightarrow> (settings_db, unit) act" where
  "seed_settings list_repr env db =
     (case then_act (seed_auth_settings env) (then_act (seed_audit_settings list_repr env)
        (then_act (seed_scheduler_settings env) (seed_billing_settings env))) db of
        (Inl e, _) \<Rightarrow> (Inl e, db) | (Inr u, db') \<Rightarrow> (Inr u, db'))"

section \<open>What the authentication reads\<close>

text \<open>The rows as the records of the authentication.\<close>

definition settings_view :: "settings_db \<Rightarrow> domain_setting list" where
  "settings_view db = map (\<lambda>r. \<lparr>st_domain = sg_domain r, st_key = sg_key r, st_text = sg_text r,
     st_json = map_option raw_str (sg_json r), st_active = sg_active r\<rparr>) (sd_rows db)"

end
