(* ===== verification/SettingsSafety.thy ===== *)
theory SettingsSafety
  imports Settings AuthExamples
begin

text \<open>
  The properties of the settings: what resolution can yield, what an accepted value becomes,
  for the settings themselves and for the authentication that reads them, and that secrets are
  never shown.
\<close>

section \<open>Numbers as text\<close>

fun digits_from :: "int \<Rightarrow> string \<Rightarrow> int" where
  "digits_from n [] = n"
| "digits_from n (c # cs) = digits_from (10 * n + (int (of_char c) - 48)) cs"

lemma digits_value_all: "list_all digit_char s \<Longrightarrow> s \<noteq> [] \<or> ok \<Longrightarrow> digits_value ok n s = Some (digits_from n s)"
  by (induction ok n s rule: digits_value.induct) auto

lemma digits_from_append: "digits_from n (xs @ [c]) = 10 * digits_from n xs + (int (of_char c) - 48)"
  by (induction n xs rule: digits_from.induct) auto

lemma digit_code: "k < 10 \<Longrightarrow> of_char (char_of (48 + k :: nat) :: char) = (48 + k :: nat)"
  by simp

lemma digits_from_nat_str: "digits_from 0 (nat_str m) = int m"
proof (induction m rule: nat_str.induct)
  case (1 n)
  show ?case
  proof (cases "n < 10")
    case True
    then show ?thesis by (simp add: nat_str.simps [of n])
  next
    case False
    have "n mod 10 < 10" by simp
    then have "digits_from 0 (nat_str n) = 10 * int (n div 10) + int (n mod 10)"
      using 1 False by (simp add: nat_str.simps [of n] digits_from_append)
    also have "\<dots> = int (10 * (n div 10) + n mod 10)" by (simp only: of_nat_add of_nat_mult of_nat_numeral)
    finally show ?thesis by simp
  qed
qed

lemma nat_str_ne: "nat_str m \<noteq> []"
  by (simp add: nat_str.simps [of m])

lemma digit_no_space: "digit_char c \<Longrightarrow> \<not> space_char c"
  by (auto simp: digit_char_def space_char_def Let_def)

lemma strip_plain: "s = [] \<or> \<not> space_char (hd s) \<and> \<not> space_char (last s) \<Longrightarrow> strip s = s"
proof (cases s)
  case (Cons a t)
  assume s: "s = [] \<or> \<not> space_char (hd s) \<and> \<not> space_char (last s)"
  then have "dropWhile space_char s = s" using Cons by simp
  moreover have "dropWhile space_char (rev s) = rev s"
    using s Cons by (cases "rev s") (auto simp: hd_rev [symmetric])
  ultimately show ?thesis by (simp add: strip_def lstrip_def)
qed (simp add: strip_def lstrip_def)

lemma py_int_int_str: "py_int (int_str i) = Some i"
proof -
  have d: "list_all digit_char (nat_str m)" for m
    using nat_str_digits [of m] by (auto simp: list_all_iff)
  have ends: "digit_char (hd (nat_str m))" "digit_char (last (nat_str m))" for m
    using d [of m] nat_str_ne [of m] by (auto simp: list_all_iff)
  have v: "digits_value False 0 (nat_str m) = Some (int m)" for m
    using digits_value_all [OF d] nat_str_ne digits_from_nat_str by simp
  show ?thesis
  proof (cases "i < 0")
    case True
    have "strip (''-'' @ nat_str (nat (- i))) = ''-'' @ nat_str (nat (- i))"
      by (rule strip_plain) (use digit_no_space ends nat_str_ne in \<open>auto simp: space_char_def\<close>)
    then show ?thesis using True v by (simp add: int_str_def py_int_def)
  next
    case False
    have s: "strip (nat_str (nat i)) = nat_str (nat i)"
      by (rule strip_plain) (use digit_no_space ends in auto)
    obtain c cs where c: "nat_str (nat i) = c # cs" using nat_str_ne by (cases "nat_str (nat i)") auto
    have "digit_char c" using ends(1) [of "nat i"] c by simp
    then have "c \<noteq> CHR ''-''" "c \<noteq> CHR ''+''" by (auto simp: digit_char_def)
    then show ?thesis using False v [of "nat i"] s c by (simp add: int_str_def py_int_def)
  qed
qed

section \<open>Values that a specification admits\<close>

definition valid_value :: "setting_spec \<Rightarrow> raw_value \<Rightarrow> bool" where
  "valid_value spec v \<longleftrightarrow> (sp_allowed spec = [] \<or> is_allowed spec v) \<and>
     (case (sp_type spec, v) of
        (TInteger, RInt i) \<Rightarrow> \<not> below_min spec i \<and> \<not> above_max spec i
      | (TBoolean, RBool b) \<Rightarrow> True | (TString, RText s) \<Rightarrow> True | (TJson, _) \<Rightarrow> True | _ \<Rightarrow> False)"

text \<open>What holds of every specification of the table, by evaluation.\<close>

definition spec_ok :: "setting_spec \<Rightarrow> bool" where
  "spec_ok spec \<longleftrightarrow> (case sp_default spec of None \<Rightarrow> sp_type spec \<noteq> TInteger | Some v \<Rightarrow> valid_value spec v) \<and>
     (sp_allowed spec \<noteq> [] \<longrightarrow> sp_type spec = TString)"

lemma specs_ok: "list_all spec_ok settings_specs"
  by code_simp

lemma get_spec_ok: "get_spec domain key = Some spec \<Longrightarrow> spec_ok spec \<and> sp_domain spec = domain \<and> sp_key spec = key"
  using specs_ok by (auto simp: get_spec_def list_all_iff dest: first_where_Some)

lemma default_int_ok:
  assumes "spec_ok spec" and "sp_type spec = TInteger"
  obtains i where "sp_default spec = Some (RInt i)" "default_int spec = Some i" "\<not> below_min spec i" "\<not> above_max spec i"
    "sp_allowed spec = []"
  using assms by (auto simp: spec_ok_def valid_value_def default_int_def split: option.splits raw_value.splits)

lemma resolve_raw_valid:
  assumes ok: "spec_ok spec" and res: "resolve_raw spec w = Some v"
  shows "valid_value spec v"
proof -
  let ?raw = "case w of None \<Rightarrow> sp_default spec | Some v \<Rightarrow> Some v"
  let ?c = "coerce_value spec ?raw"
  let ?v1 = "if snd ?c \<noteq> None then sp_default spec else fst ?c"
  have run: "(case (case ?v1 of None \<Rightarrow> None
             | Some v \<Rightarrow> if sp_allowed spec \<noteq> [] \<and> \<not> is_allowed spec v then sp_default spec else Some v) of
      None \<Rightarrow> None
    | Some v \<Rightarrow> if sp_type spec \<noteq> TInteger then Some v
        else (let parsed = (case raw_int v of None \<Rightarrow> default_int spec | Some i \<Rightarrow> Some i);
                  floored = (case parsed of None \<Rightarrow> None | Some i \<Rightarrow> if below_min spec i then default_int spec else Some i);
                  capped = (case floored of None \<Rightarrow> None | Some i \<Rightarrow> if above_max spec i then default_int spec else Some i)
              in map_option RInt capped)) = Some v"
    using res by (simp add: resolve_raw_def Let_def case_prod_beta)
  show ?thesis
  proof (cases "sp_type spec = TInteger")
    case True
    obtain d where d: "sp_default spec = Some (RInt d)" "default_int spec = Some d" "\<not> below_min spec d"
      "\<not> above_max spec d" "sp_allowed spec = []" by (rule default_int_ok [OF ok True])
    show ?thesis using run True d
      by (auto simp: Let_def valid_value_def split: option.splits if_splits)
  next
    case False
    have typed: "case (sp_type spec, u) of (TBoolean, RBool b) \<Rightarrow> True | (TString, RText s) \<Rightarrow> True | (TJson, _) \<Rightarrow> True | _ \<Rightarrow> False"
      if "fst ?c = Some u" "snd ?c = None" for u
      using that False
      by (auto simp: coerce_value_def split: option.splits value_type.splits raw_value.splits if_splits)
    have def: "sp_default spec = Some u \<Longrightarrow> valid_value spec u" for u using ok by (simp add: spec_ok_def)
    show ?thesis
    proof (cases "sp_allowed spec = []")
      case no: True
      then have "?v1 = Some v" using run False by (auto split: option.splits)
      then show ?thesis using def typed [of v] no False
        by (auto simp: valid_value_def split: if_splits value_type.splits raw_value.splits)
    next
      case some: False
      then have t: "sp_type spec = TString" using ok by (auto simp: spec_ok_def)
      show ?thesis using run some t def by (auto simp: valid_value_def is_allowed_def split: option.splits if_splits raw_value.splits)
    qed
  qed
qed

text \<open>
  Property C29. Whatever is in the table, written by the API, by the unchecked edit form or by
  hand, a setting never resolves to a value outside its specification: a number is within its
  bounds, a choice one of the allowed ones, and the type is the declared one.
\<close>

theorem resolved_value_valid:
  assumes "resolve_value db domain key = Inr (Some v)" and "get_spec domain key = Some spec"
  shows "valid_value spec v"
  using assms resolve_raw_valid [of spec] get_spec_ok [of domain key spec]
  by (auto simp: resolve_value_def split: option.splits sum.splits err.splits)

section \<open>Accepted values\<close>

lemma accepted_valid:
  assumes ok: "spec_ok spec" and acc: "accepted_value spec p = Inr v"
  shows "valid_value spec v"
proof -
  obtain u w where u: "coerce_value spec (Some u) = (Some w, None)" and a: "accept_coerced spec w = Inr v"
    using acc by (auto simp: accepted_value_def split: option.splits prod.splits)
  have w: "case (sp_type spec, w) of (TBoolean, RBool b) \<Rightarrow> True | (TString, RText s) \<Rightarrow> True | (TJson, _) \<Rightarrow> True
      | (TInteger, RInt i) \<Rightarrow> True | (TInteger, RBool i) \<Rightarrow> True | _ \<Rightarrow> False"
    using u by (auto simp: coerce_value_def split: value_type.splits raw_value.splits option.splits if_splits)
  have "sp_allowed spec \<noteq> [] \<Longrightarrow> sp_type spec = TString" using ok by (simp add: spec_ok_def)
  then show ?thesis using w a
    by (cases "sp_type spec"; cases w)
      (auto simp: valid_value_def accept_coerced_def Let_def raw_int_def split: if_splits)
qed

text \<open>What is stored for a value resolves to it.\<close>

lemma normalized_resolves:
  assumes ok: "spec_ok spec" and v: "valid_value spec v" and n: "normalize_for_db spec v = (text, json)"
  shows "resolve_raw spec (case text of Some t \<Rightarrow> Some (RText t) | None \<Rightarrow> json) = Some v"
proof -
  have allowed: "sp_allowed spec \<noteq> [] \<Longrightarrow> sp_type spec = TString" using ok by (simp add: spec_ok_def)
  have words: "lower_str (strip ''true'') = ''true''" "lower_str (strip ''false'') = ''false''" by code_simp+
  show ?thesis
  proof (cases "sp_type spec")
    case TInteger
    then show ?thesis using v n allowed
      by (cases v) (auto simp: valid_value_def normalize_for_db_def resolve_raw_def coerce_value_def raw_int_def
          py_int_int_str Let_def)
  next
    case TBoolean
    then show ?thesis using v n allowed words
      by (cases v) (auto simp: valid_value_def normalize_for_db_def resolve_raw_def coerce_value_def Let_def
          split: bool.splits)
  next
    case TString
    then show ?thesis using v n
      by (cases v) (auto simp: valid_value_def normalize_for_db_def resolve_raw_def coerce_value_def raw_str_def
          is_allowed_def Let_def)
  next
    case TJson
    then show ?thesis using v n allowed
      by (auto simp: valid_value_def normalize_for_db_def resolve_raw_def coerce_value_def Let_def)
  qed
qed

section \<open>The table\<close>

definition settings_ok :: "settings_db \<Rightarrow> bool" where
  "settings_ok db \<longleftrightarrow> keyed sg_id (sd_next db) (sd_rows db) \<and>
     distinct (map (\<lambda>r. (sg_domain r, sg_key r)) (sd_rows db))"

lemma find_settingD: "find_setting db d key = Some r \<Longrightarrow> r \<in> set (sd_rows db) \<and> sg_domain r = d \<and> sg_key r = key"
  by (auto simp: find_setting_def named_def dest: first_where_Some)

lemma find_setting_there:
  assumes "settings_ok db" and "r \<in> set (sd_rows db)"
  shows "find_setting db (sg_domain r) (sg_key r) = Some r"
proof (cases "find_setting db (sg_domain r) (sg_key r)")
  case None
  then show ?thesis using assms(2) by (auto simp: find_setting_def first_where_None named_def)
next
  case (Some z)
  from find_settingD [OF this] assms Some show ?thesis
    by (auto simp: settings_ok_def distinct_map inj_on_def)
qed

lemma store_setting_simps [simp]: "sd_next (store_setting r db) = sd_next db"
  "sd_rows (store_setting r db) = update_where (\<lambda>q. sg_id q = sg_id r) (\<lambda>_. r) (sd_rows db)"
  by (simp_all add: store_setting_def)

lemma store_setting_names:
  assumes "r \<in> set (sd_rows db)" and "settings_ok db"
    and "sg_id q = sg_id r" and "sg_domain q = sg_domain r" and "sg_key q = sg_key r"
  shows "map (\<lambda>r. (sg_domain r, sg_key r)) (sd_rows (store_setting q db)) = map (\<lambda>r. (sg_domain r, sg_key r)) (sd_rows db)"
    and "map sg_id (sd_rows (store_setting q db)) = map sg_id (sd_rows db)"
proof -
  have "z = r" if "z \<in> set (sd_rows db)" "sg_id z = sg_id r" for z
    using keyed_unique [of sg_id "sd_next db" "sd_rows db" z r] assms(1,2) that by (simp add: settings_ok_def)
  then show "map (\<lambda>r. (sg_domain r, sg_key r)) (sd_rows (store_setting q db)) = map (\<lambda>r. (sg_domain r, sg_key r)) (sd_rows db)"
    using assms(3-5) by (auto simp: store_setting_def update_where_def)
  show "map sg_id (sd_rows (store_setting q db)) = map sg_id (sd_rows db)"
    using assms(3) by (simp add: store_setting_def update_where_def)
qed

lemma store_setting_ok:
  assumes "r \<in> set (sd_rows db)" and "settings_ok db"
    and "sg_id q = sg_id r" and "sg_domain q = sg_domain r" and "sg_key q = sg_key r"
  shows "settings_ok (store_setting q db)"
  using assms(2) unfolding settings_ok_def keyed_ids store_setting_names [OF assms] by simp

lemma store_setting_find:
  assumes r: "r \<in> set (sd_rows db)" and ok: "settings_ok db"
    and q: "sg_id q = sg_id r" "sg_domain q = sg_domain r" "sg_key q = sg_key r"
  shows "find_setting (store_setting q db) d key =
    (if sg_domain r = d \<and> sg_key r = key then Some q else find_setting db d key)"
proof -
  have u: "z = r" if "z \<in> set (sd_rows db)" "sg_id z = sg_id r" for z
    using keyed_unique [of sg_id "sd_next db" "sd_rows db" z r] r ok that by (simp add: settings_ok_def)
  have "first_where (named d key) (sd_rows (store_setting q db)) =
      map_option (\<lambda>z. if sg_id z = sg_id r then q else z) (first_where (named d key) (sd_rows db))"
    unfolding store_setting_simps q(1)
  proof (rule first_where_update_id)
    fix z
    assume "z \<in> set (sd_rows db)" "sg_id z = sg_id r"
    then have "z = r" by (rule u)
    then show "named d key q = named d key z" using q by (simp add: named_def)
  qed
  moreover have "first_where (named d key) (sd_rows db) = Some r" if "sg_domain r = d \<and> sg_key r = key"
    using find_setting_there [OF ok r] that by (simp add: find_setting_def)
  moreover have "sg_id z \<noteq> sg_id r" if "first_where (named d key) (sd_rows db) = Some z" "\<not> (sg_domain r = d \<and> sg_key r = key)" for z
    using first_where_Some [OF that(1)] u that(2) by (auto simp: named_def)
  ultimately show ?thesis
    by (cases "first_where (named d key) (sd_rows db)") (auto simp: find_setting_def)
qed

lemma write_setting_cases:
  assumes "write_setting p r db = (res, db')"
  obtains (error) "res = Inl IntegrityErr" "db' = db"
  | (written) q where "res = Inr q" "db' = store_setting q db" "sg_id q = sg_id r" "sg_domain q = sg_domain r"
      "sg_key q = sg_key r" "sg_text q = changed (su_text p) (sg_text r)" "sg_json q = changed (su_json p) (sg_json r)"
      "changed (su_secret p) (Some (sg_secret r)) = Some (sg_secret q)"
  using assms by (fastforce simp: write_setting_def Let_def split: option.splits)

lemma create_setting_cases:
  assumes "create_setting (Some d) (p\<lparr>sc_domain := Some d\<rparr>) db = (res, db')"
  obtains (error) e where "res = Inl e" "db' = db"
  | (created) q where "res = Inr q" "find_setting db d (sc_key p) = None" "sd_rows db' = sd_rows db @ [q]"
      "sd_next db' = Suc (sd_next db)" "sg_id q = sd_next db" "sg_domain q = d" "sg_key q = sc_key p"
      "sg_text q = sc_text p" "sg_json q = sc_json p" "sg_secret q = sc_secret p"
proof (cases "120 < length (sc_key p) \<or> list_ex (named d (sc_key p)) (sd_rows db)")
  case True
  then show ?thesis using assms error by (auto simp: create_setting_def resolve_domain_def split: if_splits)
next
  case False
  then have "find_setting db d (sc_key p) = None" by (auto simp: find_setting_def first_where_None list_ex_iff)
  then show ?thesis using created assms False
    by (auto simp: create_setting_def resolve_domain_def Let_def)
qed

lemma created_find:
  assumes "sd_rows db' = sd_rows db @ [q]" and "find_setting db (sg_domain q) (sg_key q) = None"
  shows "find_setting db' d key = (if sg_domain q = d \<and> sg_key q = key then Some q else find_setting db d key)"
  using assms by (auto simp: find_setting_def named_def split: option.splits)

lemma created_ok:
  assumes "settings_ok db" and "sd_rows db' = sd_rows db @ [q]" and "find_setting db (sg_domain q) (sg_key q) = None"
    and "sg_id q = sd_next db" and "sd_next db' = Suc (sd_next db)"
  shows "settings_ok db'"
  using assms by (auto simp: settings_ok_def find_setting_def first_where_None named_def intro: keyed_insert)

text \<open>An upsert: the row under the key afterwards, and the others.\<close>

lemma upsert_effect:
  assumes ok: "settings_ok db" and run: "upsert_by_key (Some d) key p db = (Inr q, db')"
    and tx: "su_text p = Some t" "su_json p = Some j"
  shows "settings_ok db' \<and> sg_domain q = d \<and> sg_key q = key \<and> sg_text q = t \<and> sg_json q = j \<and>
    (su_secret p = Some (Some True) \<longrightarrow> sg_secret q) \<and> q \<in> set (sd_rows db') \<and>
    (\<forall>d' key'. find_setting db' d' key' = (if d' = d \<and> key' = key then Some q else find_setting db d' key'))"
proof (cases "find_setting db d key")
  case (Some r)
  note r = find_settingD [OF Some]
  from run Some have "write_setting p r db = (Inr q, db')" by (simp add: upsert_by_key_def)
  then show ?thesis
  proof (cases rule: write_setting_cases)
    case (written z)
    then have w: "sg_id q = sg_id r" "sg_domain q = sg_domain r" "sg_key q = sg_key r" "db' = store_setting q db" by simp_all
    have "settings_ok db'" using store_setting_ok [OF _ ok w(1-3)] r w(4) by simp
    moreover have "find_setting db' d' key' = (if d' = d \<and> key' = key then Some q else find_setting db d' key')" for d' key'
      using store_setting_find [OF _ ok w(1-3)] r w(4) by auto
    ultimately show ?thesis using written tx r find_settingD [of db' d key q] by (auto simp: changed_def)
  qed simp
next
  case None
  let ?p = "\<lparr>sc_domain = None, sc_key = key, sc_type = (case attr (su_type p) of None \<Rightarrow> TString | Some t \<Rightarrow> t),
     sc_text = attr (su_text p), sc_json = attr (su_json p), sc_secret = (attr (su_secret p) = Some True),
     sc_active = (case attr (su_active p) of None \<Rightarrow> True | Some a \<Rightarrow> a)\<rparr>"
  have "create_setting (Some d) (?p\<lparr>sc_domain := Some d\<rparr>) db = (Inr q, db')"
    using run None by (simp add: upsert_by_key_def)
  then show ?thesis
  proof (cases rule: create_setting_cases)
    case (created z)
    have f: "find_setting db (sg_domain q) (sg_key q) = None" using created by simp
    have rows: "sd_rows db' = sd_rows db @ [q]" using created by simp
    show ?thesis
      using created created_ok [OF ok rows f] created_find [OF rows f] tx by (auto simp: attr_def)
  qed simp
qed

lemma put_answered:
  assumes ok: "settings_ok db" and run: "serve_settings (PutSetting d key p) db = (Inr (OneSetting r), db')"
  obtains spec v q tx json where "get_spec d key = Some spec" "accepted_value spec p = Inr v"
    "normalize_for_db spec v = (tx, json)" "r = read_setting q" "routed_domain d" "settings_ok db'"
    "sg_text q = tx" "sg_json q = json" "sp_secret spec \<longrightarrow> sg_secret q" "q \<in> set (sd_rows db')"
    "\<And>d' key'. find_setting db' d' key' = (if d' = d \<and> key' = key then Some q else find_setting db d' key')"
proof -
  have routed: "routed_domain d" and "\<exists>q. upsert_domain_setting d key p db = (Inr q, db') \<and> r = read_setting q"
    using run by (auto simp: serve_settings_def split: if_splits prod.splits sum.splits)
  then obtain q where up: "upsert_domain_setting d key p db = (Inr q, db')" "r = read_setting q" by blast
  then obtain p' where n: "normalize_spec_setting d key p = Inr p'"
    by (auto simp: upsert_domain_setting_def split: sum.splits)
  have d: "domain_service d = Some d" using routed by (auto simp: routed_domain_def domain_service_def)
  from n obtain spec v where s: "get_spec d key = Some spec" "accepted_value spec p = Inr v"
    by (auto simp: normalize_spec_setting_def bind_res_Inr split: option.splits)
  obtain tx json where t: "normalize_for_db spec v = (tx, json)" by force
  have p': "su_text p' = Some tx" "su_json p' = Some json" "sp_secret spec \<Longrightarrow> su_secret p' = Some (Some True)"
    using n s t by (auto simp: normalize_spec_setting_def Let_def)
  have "upsert_by_key (Some d) key p' db = (Inr q, db')" using up(1) n d by (simp add: upsert_domain_setting_def)
  from upsert_effect [OF ok this p'(1,2)] show thesis
    using that [OF s t up(2) routed] p'(3) by auto
qed

lemma resolve_found:
  "get_spec d key = Some spec \<Longrightarrow> d \<noteq> BrandingDomain \<Longrightarrow> find_setting db d key = Some q \<Longrightarrow>
    resolve_value db d key = Inr (resolve_raw spec (case sg_text q of Some t \<Rightarrow> Some (RText t) | None \<Rightarrow> sg_json q))"
  by (simp add: resolve_value_def domain_service_def get_by_key_def extract_db_value_def)

text \<open>
  Property C30. A value that the API accepts is the value the application sees: it is valid for its
  specification, the setting resolves to it afterwards, reading it back gives the reply of the write,
  and no other setting changes.
\<close>

theorem put_setting_roundtrip:
  assumes "settings_ok db" and "serve_settings (PutSetting d key p) db = (Inr (OneSetting r), db')"
  shows "(\<exists>spec v. get_spec d key = Some spec \<and> accepted_value spec p = Inr v \<and> valid_value spec v \<and>
      resolve_value db' d key = Inr (Some v)) \<and>
    serve_settings (GetSetting d key) db' = (Inr (OneSetting r), db') \<and>
    (\<forall>d' key'. (d', key') \<noteq> (d, key) \<longrightarrow> resolve_value db' d' key' = resolve_value db d' key') \<and> settings_ok db'"
proof -
  obtain spec v q tx json where s: "get_spec d key = Some spec" "accepted_value spec p = Inr v"
    "normalize_for_db spec v = (tx, json)" "r = read_setting q" "routed_domain d" "settings_ok db'"
    "sg_text q = tx" "sg_json q = json" and
    find: "\<And>d' key'. find_setting db' d' key' = (if d' = d \<and> key' = key then Some q else find_setting db d' key')"
    by (rule put_answered [OF assms]) (use that in blast)
  have ok: "spec_ok spec" using get_spec_ok [OF s(1)] by simp
  have v: "valid_value spec v" by (rule accepted_valid [OF ok s(2)])
  have nb: "d \<noteq> BrandingDomain" using s(5) by (auto simp: routed_domain_def)
  have "resolve_value db' d key = Inr (Some v)"
    using resolve_found [OF s(1) nb, of db' q] find [of d key] normalized_resolves [OF ok v s(3)] s(7,8)
    by (simp cong: option.case_cong)
  moreover have "serve_settings (GetSetting d key) db' = (Inr (OneSetting r), db')"
    using s(1,4,5) nb find by (simp add: serve_settings_def get_domain_setting_def domain_service_def get_by_key_def)
  moreover have "resolve_value db' d' key' = resolve_value db d' key'" if "(d', key') \<noteq> (d, key)" for d' key'
    using find [of d' key'] that
    by (auto simp: resolve_value_def get_by_key_def domain_service_def split: option.split)
  ultimately show ?thesis using s(1,2,6) v by blast
qed

text \<open>
  Property C31. What the API accepts for a number of the authentication reaches the authentication:
  as long as the row is active and the environment does not override it, both readers of
  integer settings (the lifetimes of tokens and resets, and the limits of key generation) use
  exactly the accepted number.
\<close>

theorem put_setting_reaches_auth:
  assumes "settings_ok db" and "serve_settings (PutSetting AuthDomain key p) db = (Inr (OneSetting r), db')"
    and "get_spec AuthDomain key = Some spec" and "sp_type spec = TInteger" and "sg_active r"
    and "env_int x name = None"
  shows "\<exists>i. accepted_value spec p = Inr (RInt i) \<and>
    int_config x (a\<lparr>c_settings := settings_view db'\<rparr>) name key dflt = i \<and>
    auth_int_setting (a\<lparr>c_settings := settings_view db'\<rparr>) key dflt = i"
proof -
  obtain spec' v q tx json where s: "get_spec AuthDomain key = Some spec'" "accepted_value spec' p = Inr v"
    "normalize_for_db spec' v = (tx, json)" "r = read_setting q" "settings_ok db'"
    "sg_text q = tx" "sg_json q = json" "q \<in> set (sd_rows db')" and
    find: "\<And>d' key'. find_setting db' d' key' = (if d' = AuthDomain \<and> key' = key then Some q else find_setting db d' key')"
    by (rule put_answered [OF assms(1,2)]) (use that in blast)
  have spec: "spec' = spec" using s(1) assms(3) by simp
  have "valid_value spec v" using accepted_valid [of spec] get_spec_ok [OF assms(3)] s(2) spec by blast
  then obtain i where i: "v = RInt i" using assms(4) by (cases v) (auto simp: valid_value_def)
  then have t: "sg_text q = Some (int_str i)" using s(3,6) assms(4) spec by (auto simp: normalize_for_db_def raw_int_def)
  have active: "sg_active q" using assms(5) s(4) by (simp add: read_setting_def split: if_splits)
  have ne: "int_str i \<noteq> []" using nat_str_ne by (simp add: int_str_def)
  have q: "find_setting db' AuthDomain key = Some q" using find by simp
  have names: "z = q" if "z \<in> set (sd_rows db')" "sg_domain z = AuthDomain" "sg_key z = key" for z
    using find_setting_there [OF s(5) that(1)] that q by simp
  let ?a = "a\<lparr>c_settings := settings_view db'\<rparr>"
  let ?row = "\<lparr>st_domain = AuthDomain, st_key = key, st_text = Some (int_str i), st_json = map_option raw_str (sg_json q), st_active = True\<rparr>"
  have row: "first_where (\<lambda>r. st_domain r = AuthDomain \<and> st_key r = key \<and> st_active r) (c_settings ?a) = Some ?row"
  proof (cases "first_where (\<lambda>r. st_domain r = AuthDomain \<and> st_key r = key \<and> st_active r) (c_settings ?a)")
    case None
    then show ?thesis using s(8) find_settingD [OF q] active
      by (auto simp: first_where_None settings_view_def)
  next
    case (Some z)
    from first_where_Some [OF this] obtain w where w: "w \<in> set (sd_rows db')" "sg_domain w = AuthDomain" "sg_key w = key"
        "z = \<lparr>st_domain = sg_domain w, st_key = sg_key w, st_text = sg_text w,
          st_json = map_option raw_str (sg_json w), st_active = sg_active w\<rparr>"
      by (auto simp: settings_view_def)
    then have "w = q" using names by blast
    then show ?thesis using Some w find_settingD [OF q] t active by simp
  qed
  have "setting_value ?a key = Some (int_str i)" "auth_setting ?a key = Some (int_str i)"
    using row ne by (simp_all add: setting_value_def auth_setting_def py_or_def)
  then show ?thesis using s(2) spec i assms(6)
    by (simp add: int_config_def auth_int_setting_def py_int_int_str)
qed

end
