(* ===== verification/SettingsSecrets.thy ===== *)
theory SettingsSecrets
  imports SettingsSafety
begin

text \<open>
  The states of the settings table that the API, the edit form and the seeds can produce: the
  rows keep their names, and the secrets stay flagged, which is what their masking rests on.
\<close>

section \<open>The states of the table\<close>

definition no_settings :: "int \<Rightarrow> settings_db" where
  "no_settings now = \<lparr>sd_rows = [], sd_next = 0, sd_clock = now\<rparr>"

inductive settings_reach :: "settings_db \<Rightarrow> bool" where
  reach_start: "settings_reach (no_settings now)"
| reach_request: "settings_reach db \<Longrightarrow> settings_reach (snd (serve_settings rq db))"
| reach_form: "settings_reach db \<Longrightarrow> settings_reach (snd (edit_setting_submit json_loads form uid db))"
| reach_seeds: "settings_reach db \<Longrightarrow> settings_reach (snd (seed_settings list_repr env db))"

definition secret_setting :: "setting_domain \<Rightarrow> string \<Rightarrow> bool" where
  "secret_setting d key = (case get_spec d key of None \<Rightarrow> False | Some spec \<Rightarrow> sp_secret spec)"

definition secrets_flagged :: "settings_db \<Rightarrow> bool" where
  "secrets_flagged db \<longleftrightarrow>
     settings_ok db \<and> (\<forall>r\<in>set (sd_rows db). secret_setting (sg_domain r) (sg_key r) \<longrightarrow> sg_secret r)"

section \<open>Every write keeps the flags\<close>

lemma flagged_store:
  assumes "secrets_flagged db" and "r \<in> set (sd_rows db)"
    and "sg_id q = sg_id r" "sg_domain q = sg_domain r" "sg_key q = sg_key r"
    and "secret_setting (sg_domain r) (sg_key r) \<Longrightarrow> sg_secret q"
  shows "secrets_flagged (store_setting q db)"
  using assms store_setting_ok [of r db q]
  by (auto simp: secrets_flagged_def update_where_def)

lemma flagged_create:
  assumes "secrets_flagged db" and "secret_setting d (sc_key p) \<longrightarrow> sc_secret p"
  shows "secrets_flagged (snd (create_setting (Some d) (p\<lparr>sc_domain := Some d\<rparr>) db))"
proof -
  obtain res db' where run: "create_setting (Some d) (p\<lparr>sc_domain := Some d\<rparr>) db = (res, db')" by force
  then show ?thesis
  proof (cases rule: create_setting_cases)
    case (created q)
    have "settings_ok db'" using created_ok [of db db' q] created assms(1) by (simp add: secrets_flagged_def)
    then show ?thesis using run created assms by (auto simp: secrets_flagged_def)
  qed (use assms run in simp)
qed

lemma keeps_ensure:
  assumes "secret_setting d key \<Longrightarrow> secret"
  shows "keeps secrets_flagged (ensure_by_key (Some d) key t tx json secret)"
  unfolding keeps_def
proof (intro allI impI)
  fix db
  assume db: "secrets_flagged db"
  show "secrets_flagged (snd (ensure_by_key (Some d) key t tx json secret db))"
    using db flagged_create [OF db, of d "\<lparr>sc_domain = Some d, sc_key = key, sc_type = t, sc_text = tx, sc_json = json,
      sc_secret = secret, sc_active = True\<rparr>"] assms
    by (auto simp: ensure_by_key_def split: option.split)
qed

lemma keeps_seed_text:
  "list_all (\<lambda>k. \<not> secret_setting d k) (map fst items) \<Longrightarrow> keeps secrets_flagged (seed_text d items)"
  unfolding seed_text_def by (rule keeps_for_each) (auto simp: list_all_iff intro!: keeps_ensure)

lemma keeps_seed_secret: "keeps secrets_flagged (seed_secret env name key)"
proof -
  have "keeps secrets_flagged (then_act (ensure_by_key (Some AuthDomain) key TString tx None True) (ret ()))" for tx
    by (intro keeps_then keeps_ensure) (simp_all add: keeps_def ret_def)
  then show ?thesis by (simp add: seed_secret_def keeps_def ret_def split: option.split)
qed

lemma plain_keys:
  "list_all (\<lambda>k. \<not> secret_setting AuthDomain k) [''jwt_algorithm'', ''jwt_access_ttl_minutes'', ''jwt_refresh_ttl_days'',
     ''refresh_cookie_name'', ''refresh_cookie_secure'', ''refresh_cookie_samesite'', ''refresh_cookie_domain'',
     ''refresh_cookie_path'', ''totp_issuer'', ''api_key_rate_window_seconds'', ''api_key_rate_max'', ''default_auth_provider'']"
  "list_all (\<lambda>k. \<not> secret_setting AuditDomain k) [''enabled'', ''methods'', ''skip_paths'', ''read_trigger_header'', ''read_trigger_query'']"
  "list_all (\<lambda>k. \<not> secret_setting SchedulerDomain k) [''broker_url'', ''result_backend'', ''timezone'', ''beat_max_loop_interval'', ''beat_refresh_seconds'']"
  "list_all (\<lambda>k. \<not> secret_setting BillingDomain k) [''default_currency'', ''tax_rate_percent'', ''invoice_prefix'',
     ''trial_period_days'', ''dunning_max_retries'', ''grace_period_days'', ''webhook_tolerance_seconds'']"
  by code_simp+

lemma flagged_seeds: "secrets_flagged db \<Longrightarrow> secrets_flagged (snd (seed_settings list_repr env db))"
proof -
  assume db: "secrets_flagged db"
  have "keeps secrets_flagged (seed_auth_settings env)"
    unfolding seed_auth_settings_def by (intro keeps_then keeps_seed_text keeps_seed_secret) (use plain_keys(1) in simp)
  moreover have "keeps secrets_flagged (seed_audit_settings list_repr env)"
    unfolding seed_audit_settings_def
    by (intro keeps_then keeps_seed_text keeps_ensure) (use plain_keys(2) in auto)
  moreover have "keeps secrets_flagged (seed_scheduler_settings env)"
    unfolding seed_scheduler_settings_def by (rule keeps_seed_text) (use plain_keys(3) in simp)
  moreover have "keeps secrets_flagged (seed_billing_settings env)"
    unfolding seed_billing_settings_def by (rule keeps_seed_text) (use plain_keys(4) in simp)
  ultimately have "keeps secrets_flagged (then_act (seed_auth_settings env) (then_act (seed_audit_settings list_repr env)
      (then_act (seed_scheduler_settings env) (seed_billing_settings env))))"
    by (intro keeps_then)
  then show ?thesis using db
    by (auto simp: seed_settings_def keeps_def split: prod.split sum.split)
qed

lemma form_cases:
  assumes "edit_setting_submit json_loads form uid db = (reply, db')"
  obtains (same) "db' = db"
  | (stored) r q where "r \<in> set (sd_rows db)" "db' = store_setting q db" "sg_id q = sg_id r" "sg_domain q = sg_domain r"
      "sg_key q = sg_key r" "sg_type q = sg_type r" "sg_secret q = sg_secret r"
proof (cases "first_where (\<lambda>r. sg_id r = uid) (sd_rows db)")
  case None
  then show ?thesis using assms same by (simp add: edit_setting_submit_def)
next
  case (Some r)
  have r: "r \<in> set (sd_rows db)" using first_where_Some [OF Some] by simp
  have "db' = db \<or> (\<exists>t j a. db' = store_setting (r\<lparr>sg_text := t, sg_json := j, sg_active := a\<rparr>) db)"
    using assms Some unfolding edit_setting_submit_def Let_def by (auto split: sum.splits)
  then show ?thesis using same stored [OF r] by fastforce
qed

lemma flagged_form: "secrets_flagged db \<Longrightarrow> secrets_flagged (snd (edit_setting_submit json_loads form uid db))"
proof -
  assume db: "secrets_flagged db"
  obtain reply db' where run: "edit_setting_submit json_loads form uid db = (reply, db')" by force
  then show ?thesis
  proof (cases rule: form_cases)
    case (stored r q)
    have "secret_setting (sg_domain r) (sg_key r) \<Longrightarrow> sg_secret q" using db stored(1,7) by (auto simp: secrets_flagged_def)
    then show ?thesis using run stored(2) flagged_store [OF db stored(1,3-5)] by simp
  qed (use db run in simp)
qed

lemma flagged_put:
  assumes db: "secrets_flagged db" and run: "serve_settings (PutSetting d key p) db = (Inr (OneSetting r), db')"
  shows "secrets_flagged db'"
proof -
  have ok: "settings_ok db" using db by (simp add: secrets_flagged_def)
  obtain spec q where s: "get_spec d key = Some spec" "settings_ok db'" "sp_secret spec \<longrightarrow> sg_secret q"
    and find: "\<And>d' key'. find_setting db' d' key' = (if d' = d \<and> key' = key then Some q else find_setting db d' key')"
    by (rule put_answered [OF ok run]) (use that in blast)
  have "sg_secret z" if z: "z \<in> set (sd_rows db')" "secret_setting (sg_domain z) (sg_key z)" for z
  proof -
    have here: "find_setting db' (sg_domain z) (sg_key z) = Some z"
      by (rule find_setting_there) (use z s(2) in auto)
    show ?thesis
    proof (cases "sg_domain z = d \<and> sg_key z = key")
      case True
      then have "z = q" using here find [of "sg_domain z" "sg_key z"] by simp
      then show ?thesis using True s(1,3) z(2) by (simp add: secret_setting_def)
    next
      case False
      then have "find_setting db (sg_domain z) (sg_key z) = Some z"
        using here find [of "sg_domain z" "sg_key z"] by (simp split: if_splits)
      from find_settingD [OF this] show ?thesis using db z(2) by (simp add: secrets_flagged_def)
    qed
  qed
  then show ?thesis using s(2) by (simp add: secrets_flagged_def)
qed

lemma flagged_request: "secrets_flagged db \<Longrightarrow> secrets_flagged (snd (serve_settings rq db))"
proof (cases rq)
  case (PutSetting d key p)
  assume db: "secrets_flagged db"
  show ?thesis
  proof (cases "\<exists>r db'. serve_settings rq db = (Inr (OneSetting r), db')")
    case True
    then show ?thesis using flagged_put [OF db] PutSetting by fastforce
  next
    case False
    then have "snd (serve_settings rq db) = db"
      using PutSetting by (auto simp: serve_settings_def split: prod.splits sum.splits if_splits)
    then show ?thesis using db by simp
  qed
next
  case (GetSetting d key)
  assume db: "secrets_flagged db"
  then show ?thesis using GetSetting
    by (auto simp: serve_settings_def get_domain_setting_def get_by_key_def split: prod.split sum.split option.split)
next
  case (ListSettings d active order_by order_dir limit offset)
  assume "secrets_flagged db"
  then show ?thesis using ListSettings by (auto simp: serve_settings_def split: sum.split)
qed

lemma reach_flagged: "settings_reach db \<Longrightarrow> secrets_flagged db"
proof (induction rule: settings_reach.induct)
  case (reach_start now)
  show ?case by (simp add: secrets_flagged_def settings_ok_def no_settings_def keyed_def)
qed (simp_all add: flagged_request flagged_form flagged_seeds)

section \<open>What a reply shows\<close>

definition shown :: "settings_reply \<Rightarrow> setting_row list" where
  "shown reply = (case reply of OneSetting r \<Rightarrow> [r] | SettingsPage rows \<Rightarrow> rows)"

lemma set_apply_pagination: "set (apply_pagination limit offset xs) \<subseteq> set xs"
  by (auto simp: apply_pagination_def dest!: in_set_takeD in_set_dropD)

lemma shown_rows:
  assumes run: "serve_settings rq db = (Inr reply, db')" and flagged: "secrets_flagged db" and r: "r \<in> set (shown reply)"
  obtains q where "q \<in> set (sd_rows db')" and "r = read_setting q"
proof (cases rq)
  case (PutSetting d key p)
  then obtain z where z: "reply = OneSetting z" using run
    by (auto simp: serve_settings_def split: if_splits prod.splits sum.splits)
  have "settings_ok db" using flagged by (simp add: secrets_flagged_def)
  from put_answered [OF this run [unfolded PutSetting z]]
  obtain q where "z = read_setting q" "q \<in> set (sd_rows db')" by metis
  then show ?thesis using that r z by (simp add: shown_def)
next
  case (GetSetting d key)
  have "\<exists>q. q \<in> set (sd_rows db') \<and> reply = OneSetting (read_setting q)"
    using run GetSetting by (auto simp: serve_settings_def get_domain_setting_def get_by_key_def
        split: if_splits prod.splits sum.splits option.splits dest: find_settingD)
  then show ?thesis using that r by (auto simp: shown_def)
next
  case (ListSettings d active order_by order_dir limit offset)
  then obtain rows where rows: "list_settings (domain_service d) None active order_by order_dir limit offset db = Inr rows"
      "reply = SettingsPage (map read_setting rows)" "db' = db"
    using run by (auto simp: serve_settings_def split: if_splits sum.splits)
  have "set rows \<subseteq> set (sd_rows db)"
    using rows(1) set_apply_pagination by (fastforce simp: list_settings_def Let_def split: if_splits)
  then show ?thesis using that r rows(2,3) by (auto simp: shown_def)
qed

text \<open>
  Property C32. However the table came about, through requests with any bodies, the edit form (whose
  fields nothing checks) and the seeds, no reply of the API shows a secret: of the signing secret and
  the encryption key only the mask comes back, in single replies, in lists and in the answer to the
  write itself.
\<close>

theorem secrets_never_shown:
  assumes "settings_reach db" and "serve_settings rq db = (Inr reply, db')" and "r \<in> set (shown reply)"
    and "secret_setting (sg_domain r) (sg_key r)"
  shows "(sg_text r = None \<or> sg_text r = Some secret_mask) \<and> sg_json r = None \<and> settings_reach db'"
proof -
  have f: "secrets_flagged db" by (rule reach_flagged [OF assms(1)])
  obtain q where q: "q \<in> set (sd_rows db')" "r = read_setting q" by (rule shown_rows [OF assms(2) f assms(3)])
  have reach: "settings_reach db'" using reach_request [OF assms(1), of rq] assms(2) by simp
  have "sg_domain q = sg_domain r" "sg_key q = sg_key r" using q(2) by (simp_all add: read_setting_def)
  then have "sg_secret q" using reach_flagged [OF reach] q(1) assms(4) by (auto simp: secrets_flagged_def)
  then show ?thesis using q(2) reach by (simp add: read_setting_def)
qed

section \<open>Examples\<close>

definition seeded :: settings_db where
  "seeded = snd (seed_settings (\<lambda>_. ''[]'') (\<lambda>n. if n = ''JWT_SECRET'' then Some ''bao://secret/jwt#value'' else None)
     (no_settings 0))"

lemma seeded_reach: "settings_reach seeded"
  unfolding seeded_def by (intro reach_seeds reach_start)

definition put_text :: "string \<Rightarrow> setting_update" where
  "put_text s = \<lparr>su_domain = None, su_key = None, su_type = None, su_text = Some (Some s), su_json = None,
     su_secret = Some (Some False), su_active = None\<rparr>"

lemma secrets_never_shown_witness:
  "\<exists>reply db' r. serve_settings (PutSetting AuthDomain ''jwt_secret'' (put_text ''hunter2'')) seeded = (Inr reply, db') \<and>
     r \<in> set (shown reply) \<and> secret_setting (sg_domain r) (sg_key r) \<and>
     (sg_text r = None \<or> sg_text r = Some secret_mask) \<and> sg_json r = None"
proof -
  let ?run = "serve_settings (PutSetting AuthDomain ''jwt_secret'' (put_text ''hunter2'')) seeded"
  have "\<not> isl (fst ?run)" "secret_setting (sg_domain (hd (shown (projr (fst ?run))))) (sg_key (hd (shown (projr (fst ?run)))))"
    "shown (projr (fst ?run)) \<noteq> []"
    by code_simp+
  then have "?run = (Inr (projr (fst ?run)), snd ?run)" "hd (shown (projr (fst ?run))) \<in> set (shown (projr (fst ?run)))"
    using ran by auto
  then show ?thesis
    using secrets_never_shown [OF seeded_reach, of _ "projr (fst ?run)" "snd ?run" "hd (shown (projr (fst ?run)))"]
      \<open>secret_setting _ _\<close> by blast
qed

lemma seeded_ok: "settings_ok seeded"
  using reach_flagged [OF seeded_reach] by (simp add: secrets_flagged_def)

text \<open>A number below its bound, put into the table by the edit form, resolves to the default.\<close>

definition tampered :: settings_db where
  "tampered = snd (edit_setting_submit (\<lambda>_. Inr None)
     (\<lambda>field. if field = ''value_text'' then Some ''0'' else None) 1 seeded)"

lemma resolved_value_valid_witness:
  "\<exists>spec v. resolve_value tampered AuthDomain ''jwt_access_ttl_minutes'' = Inr (Some v) \<and>
     get_spec AuthDomain ''jwt_access_ttl_minutes'' = Some spec \<and> v = RInt 15 \<and> valid_value spec v"
proof -
  let ?spec = "the (get_spec AuthDomain ''jwt_access_ttl_minutes'')"
  have "resolve_value tampered AuthDomain ''jwt_access_ttl_minutes'' = Inr (Some (RInt 15))" by code_simp
  moreover have "get_spec AuthDomain ''jwt_access_ttl_minutes'' = Some ?spec" by code_simp
  ultimately show ?thesis using resolved_value_valid [of tampered AuthDomain _ "RInt 15" ?spec] by blast
qed

text \<open>A lifetime of twenty minutes: accepted, resolved, and used by the authentication.\<close>

abbreviation (input) put_twenty :: "settings_reply res \<times> settings_db" where
  "put_twenty \<equiv> serve_settings (PutSetting AuthDomain ''jwt_access_ttl_minutes'' (put_text '' 20 '')) seeded"

abbreviation (input) twenty :: setting_row where
  "twenty \<equiv> hd (shown (projr (fst put_twenty)))"

lemma put_twenty_run: "put_twenty = (Inr (OneSetting twenty), snd put_twenty)"
proof -
  have "fst put_twenty = Inr (OneSetting twenty)" by code_simp
  then show ?thesis by (metis prod.collapse)
qed

lemma put_setting_roundtrip_witness:
  "\<exists>r db'. put_twenty = (Inr (OneSetting r), db') \<and>
     serve_settings (GetSetting AuthDomain ''jwt_access_ttl_minutes'') db' = (Inr (OneSetting r), db') \<and>
     (\<exists>spec v. accepted_value spec (put_text '' 20 '') = Inr v \<and> valid_value spec v \<and>
        resolve_value db' AuthDomain ''jwt_access_ttl_minutes'' = Inr (Some v))"
  using put_setting_roundtrip [OF seeded_ok put_twenty_run] put_twenty_run by blast

lemma put_setting_reaches_auth_witness:
  "\<exists>i. int_config sample_ctx ((adb sample_auth)\<lparr>c_settings := settings_view (snd put_twenty)\<rparr>)
      ''JWT_ACCESS_TTL_MINUTES'' ''jwt_access_ttl_minutes'' 15 = i \<and> i = 20"
proof -
  let ?spec = "the (get_spec AuthDomain ''jwt_access_ttl_minutes'')"
  have s: "get_spec AuthDomain ''jwt_access_ttl_minutes'' = Some ?spec" "sp_type ?spec = TInteger"
    "sg_active twenty" "env_int sample_ctx ''JWT_ACCESS_TTL_MINUTES'' = None"
    "accepted_value ?spec (put_text '' 20 '') = Inr (RInt 20)"
    by code_simp+
  from put_setting_reaches_auth [OF seeded_ok put_twenty_run s(1-4), of "adb sample_auth" 15] s(5)
  show ?thesis by auto
qed

end
