(* ===== verification/WebSafety.thy ===== *)
theory WebSafety
  imports AccessFactors
begin

text \<open>
  The properties of the web pages: the pages of a listing show every row once, the pages around a
  row are always shown, an edit form erases what is left empty, and leaving a required field empty
  is an error of the server.
\<close>

section \<open>Listings\<close>

definition listed :: "page_reply \<Rightarrow> trow list" where
  "listed reply = (case reply of Rendered t v \<Rightarrow> pv_rows v | _ \<Rightarrow> [])"

lemma page_params: "bq_params (page_query fx p qs n) = bq_params (page_query fx p qs m)"
  by (simp add: page_query_def)

lemma show_list_pieces:
  assumes "show_list fx p qs n st = Rendered t v"
  obtains P out where "apply_filters (bq_params (page_query fx p qs 1)) (sv_filters (wp_service p)) = Inr P"
    "mset out = mset (filter (\<lambda>r. P (br_vals r)) (bl_rows st (sv_table (wp_service p))))"
    "pv_total v = int (length out)"
    "\<And>m. \<exists>w. show_list fx p qs m st = Rendered t w \<and> pv_page w = max 1 m \<and> pv_pages w = total_pages (int (length out)) \<and>
       pv_rows w = take 25 (drop (nat ((max 1 m - 1) * 25)) out)"
proof -
  let ?t = "sv_table (wp_service p)"
  obtain page cnt ls where l: "svc_list (app_db ?t) ((wp_service p)\<lparr>sv_counts := True\<rparr>) (page_query fx p qs n) st = Inr (page, cnt)"
    and ls: "all_res (run_lookup st 0 (\<lambda>_. BNull)) (lp_lists (wp_list p)) = Inr ls"
    and v: "t = wp_templates p @ ''/list.html''" "pv_total v = int cnt"
    using assms by (auto simp: show_list_def bind_res_Inr failed_def split: sum.splits)
  obtain P out where P: "apply_filters (bq_params (page_query fx p qs 1)) (sv_filters (wp_service p)) = Inr P"
    and out: "apply_ordering (app_db ?t) (lp_order (wp_list p)) (lp_dir (wp_list p)) (sv_orders (wp_service p))
       (filter (\<lambda>r. P (br_vals r)) (bl_rows st ?t)) = Inr out"
    and cnt: "cnt = length (filter (\<lambda>r. P (br_vals r)) (bl_rows st ?t))"
    by (rule svc_list_rows [OF l]) (use page_params [of fx p qs n 1] in auto)
  have m: "mset out = mset (filter (\<lambda>r. P (br_vals r)) (bl_rows st ?t))" by (rule ordering_mset [OF out])
  then have len: "cnt = length out" using cnt by (metis size_mset)
  show thesis
  proof (rule that [OF P m])
    show "pv_total v = int (length out)" using v(2) len by simp
    fix k
    have "svc_list (app_db ?t) ((wp_service p)\<lparr>sv_counts := True\<rparr>) (page_query fx p qs k) st =
        Inr (take 25 (drop (nat ((max 1 k - 1) * 25)) out), length out)"
      using P out cnt len page_params [of fx p qs k 1]
      by (simp add: svc_list_def bind_res_Inr page_query_def apply_pagination_def page_size_def Let_def)
    then show "\<exists>w. show_list fx p qs k st = Rendered t w \<and> pv_page w = max 1 k \<and> pv_pages w = total_pages (int (length out)) \<and>
       pv_rows w = take 25 (drop (nat ((max 1 k - 1) * 25)) out)"
      using ls v(1) by (simp add: show_list_def)
  qed
qed

text \<open>
  Property C33. The pages of a listing are the listing: with one set of filters, if a page is shown
  then every page is, all with the same total and number of pages, and the pages from the first to the
  last one after another have exactly the rows that pass the filters, each once, at most 25 on a page.
\<close>

theorem pages_are_the_listing:
  assumes "fst (serve_page (Shown info) fx p (ShowList qs n) st) = Rendered t v"
  shows "\<exists>P. apply_filters (bq_params (page_query fx p qs 1)) (sv_filters (wp_service p)) = Inr P \<and>
    mset (concat (map (\<lambda>i. listed (show_list fx p qs (int i + 1) st)) [0..<nat (pv_pages v)])) =
      mset (filter (\<lambda>r. P (br_vals r)) (bl_rows st (sv_table (wp_service p)))) \<and>
    (\<forall>m. length (listed (show_list fx p qs m st)) \<le> 25 \<and>
      (\<exists>w. show_list fx p qs m st = Rendered t w \<and> pv_pages w = pv_pages v \<and> pv_page w = max 1 m))"
proof -
  have "show_list fx p qs n st = Rendered t v" using assms by (simp add: serve_page_def)
  then obtain P out where P: "apply_filters (bq_params (page_query fx p qs 1)) (sv_filters (wp_service p)) = Inr P"
    "mset out = mset (filter (\<lambda>r. P (br_vals r)) (bl_rows st (sv_table (wp_service p))))"
    and all: "\<And>m. \<exists>w. show_list fx p qs m st = Rendered t w \<and> pv_page w = max 1 m \<and>
       pv_pages w = total_pages (int (length out)) \<and> pv_rows w = take 25 (drop (nat ((max 1 m - 1) * 25)) out)"
    by (rule show_list_pieces) (use that in blast)
  have rows: "listed (show_list fx p qs m st) = take 25 (drop (nat ((max 1 m - 1) * 25)) out)" for m
    using all [of m] by (auto simp: listed_def)
  have v: "pv_pages v = total_pages (int (length out))"
    using all [of n] \<open>show_list fx p qs n st = Rendered t v\<close> by auto
  have piece: "listed (show_list fx p qs (int i + 1) st) = take 25 (drop (i * 25) out)" for i
  proof -
    have "nat ((max 1 (int i + 1) - 1) * 25) = i * 25" by simp
    then show ?thesis by (simp only: rows)
  qed
  have "concat (map (\<lambda>i. listed (show_list fx p qs (int i + 1) st)) [0..<nat (pv_pages v)]) = out"
    using take_pieces [of 25 out "nat (pv_pages v)"] enough_pages [of out] v by (simp add: piece)
  moreover have "\<forall>m. length (listed (show_list fx p qs m st)) \<le> 25" by (simp add: rows)
  ultimately show ?thesis using P all v by auto
qed

section \<open>The pages around a row\<close>

text \<open>What the lookups of a page need, checked on the table of pages: a reference that is not null and
  points to the table of the service that is asked, an order that the service allows.\<close>

definition sure_ref :: "tname \<Rightarrow> string \<Rightarrow> tname option \<Rightarrow> bool" where
  "sure_ref t c target \<longleftrightarrow> list_ex (\<lambda>k. dc_name k = c \<and> \<not> dc_nullable k \<and>
     (case dc_type k of ColRef u \<Rightarrow> target = None \<or> target = Some u | _ \<Rightarrow> False)) (dt_columns (app_db t))"

definition lookup_fits :: "tname option \<Rightarrow> lookup \<Rightarrow> bool" where
  "lookup_fits t l \<longleftrightarrow> lk_order l \<in> set (sv_orders (lk_service l)) \<and>
     list_all (\<lambda>(k, a). case a of OfRef c \<Rightarrow> (case t of None \<Rightarrow> False | Some u \<Rightarrow> sure_ref u c None) | _ \<Rightarrow> True) (lk_args l)"

definition ref_fits :: "tname \<Rightarrow> ref_lookup \<Rightarrow> bool" where
  "ref_fits t q \<longleftrightarrow> sure_ref t (snd (snd q)) (Some (sv_table (fst (snd q))))"

definition page_fits :: "web_page \<Rightarrow> bool" where
  "page_fits p \<longleftrightarrow>
     (let t = sv_table (wp_service p) in
      (case wp_detail p of None \<Rightarrow> True | Some d \<Rightarrow> list_all (ref_fits t) (ip_refs d) \<and> list_all (lookup_fits (Some t)) (ip_lists d)) \<and>
      (case wp_edit p of None \<Rightarrow> True | Some f \<Rightarrow> list_all (ref_fits t) (fp_refs f) \<and> list_all (lookup_fits (Some t)) (fp_lists f)) \<and>
      (case wp_create p of None \<Rightarrow> True | Some f \<Rightarrow> fp_refs f = [] \<and> list_all (lookup_fits None) (fp_lists f)))"

lemma pages_fit: "list_all page_fits web_pages"
  by code_simp

lemma all_res_Inr: "(\<And>x. x \<in> set xs \<Longrightarrow> \<exists>y. f x = Inr y) \<Longrightarrow> \<exists>ys. all_res f xs = Inr ys"
  by (induction xs) force+

lemma sure_refD:
  assumes "sure_ref t c target" and "sound st" and "r \<in> set (bl_rows st t)"
  obtains u i where "br_vals r c = BRef i" "target = None \<or> target = Some u" "has_row st u i"
proof -
  obtain k where c: "k \<in> set (dt_columns (app_db t))" "dc_name k = c" "\<not> dc_nullable k"
    "case dc_type k of ColRef u \<Rightarrow> target = None \<or> target = Some u | _ \<Rightarrow> False"
    using assms(1) by (auto simp: sure_ref_def list_ex_iff)
  then obtain u where "dc_type k = ColRef u" "target = None \<or> target = Some u" by (cases "dc_type k") auto
  note k = c(1-3) this
  have "column_data_ok (br_vals r) k" "column_null_ok (br_vals r) k" "reference_ok st (br_vals r) k"
    using tables_okD(2) [OF assms(2,3)] k(1) by (auto simp: stored_ok_def)
  then show thesis using that k(2-5)
    by (cases "br_vals r c") (auto simp: column_data_ok_def column_null_ok_def reference_ok_def fits_column_def)
qed

lemma filters_Inr: "(\<And>f. f \<in> set fs \<Longrightarrow> \<exists>P. apply_filter ps f = Inr P) \<Longrightarrow> \<exists>P. apply_filters ps fs = Inr P"
  by (induction fs) force+

lemma lookup_answers:
  assumes "list_all (\<lambda>(k, a). case a of OfRef c \<Rightarrow> \<exists>i. vals c = BRef i | _ \<Rightarrow> True) (lk_args l)"
    and "lk_order l \<in> set (sv_orders (lk_service l))"
  shows "\<exists>y. run_lookup st uid vals l = Inr y"
proof -
  let ?ps = "\<lambda>k. map_option (lookup_param uid vals) (map_of (lk_args l) k)"
  have "\<exists>P. apply_filter ?ps f = Inr P" for f
  proof -
    have arg: "lookup_param uid vals a \<noteq> PId None \<and> (\<forall>s. lookup_param uid vals a \<noteq> PText s)"
      if "map_of (lk_args l) k = Some a" for k a
    proof -
      have "case a of OfRef c \<Rightarrow> \<exists>i. vals c = BRef i | _ \<Rightarrow> True"
        using bspec [OF assms(1) [unfolded list_all_iff] map_of_SomeD [OF that]] by simp
      then show ?thesis by (cases a) (auto simp: lookup_param_def ref_id_def)
    qed
    have "apply_filter ?ps f \<noteq> Inl e" for e
      by (cases f) (auto simp: apply_filter_def split: option.splits fparam.splits dest: arg)
    then show ?thesis by (cases "apply_filter ?ps f") auto
  qed
  then have "\<exists>P. apply_filters ?ps (sv_filters (lk_service l)) = Inr P" by (intro filters_Inr)
  then obtain P where "apply_filters ?ps (sv_filters (lk_service l)) = Inr P" ..
  then show ?thesis using assms(2)
    by (simp add: run_lookup_def svc_list_def Let_def apply_ordering_def)
qed

lemma around_shown:
  assumes "sound st" and "r \<in> set (bl_rows st t)"
    and "list_all (ref_fits t) refs" and "list_all (lookup_fits (Some t)) ls"
  shows "\<exists>v. show_around template refs ls uid (Some r) e st = Rendered template v \<and> pv_item v = Some r \<and> pv_error v = e"
proof -
  have "\<exists>y. run_ref st (br_vals r) q = Inr y" if "q \<in> set refs" for q
  proof -
    obtain name svc c where q: "q = (name, svc, c)" by (cases q)
    have "sure_ref t c (Some (sv_table svc))" using assms(3) that q by (auto simp: list_all_iff ref_fits_def)
    then obtain i where "br_vals r c = BRef i" "has_row st (sv_table svc) i"
      by (rule sure_refD [OF _ assms(1,2)]) auto
    then show ?thesis using q by (auto simp: run_ref_def ref_id_def svc_get_find has_row_find)
  qed
  then obtain rs where rs: "all_res (run_ref st (br_vals r)) refs = Inr rs" using all_res_Inr by blast
  have "\<exists>y. run_lookup st uid (br_vals r) l = Inr y" if "l \<in> set ls" for l
  proof (rule lookup_answers)
    have l: "lookup_fits (Some t) l" using assms(4) that by (auto simp: list_all_iff)
    then show "lk_order l \<in> set (sv_orders (lk_service l))" by (simp add: lookup_fits_def)
    have "\<exists>i. br_vals r c = BRef i" if "(k, OfRef c) \<in> set (lk_args l)" for k c
    proof -
      have "sure_ref t c None" using l that by (auto simp: lookup_fits_def list_all_iff)
      then show ?thesis by (rule sure_refD [OF _ assms(1,2)]) auto
    qed
    then show "list_all (\<lambda>(k, a). case a of OfRef c \<Rightarrow> \<exists>i. br_vals r c = BRef i | _ \<Rightarrow> True) (lk_args l)"
      by (auto simp: list_all_iff split: lookup_arg.split)
  qed
  then obtain xs where "all_res (run_lookup st uid (br_vals r)) ls = Inr xs" using all_res_Inr by blast
  then show ?thesis using rs by (simp add: show_around_def item_view_def)
qed

lemma create_shown:
  assumes "list_all (lookup_fits None) ls"
  shows "\<exists>v. show_around template [] ls 0 None e st = Rendered template v \<and> pv_error v = e"
proof -
  have "\<exists>y. run_lookup st 0 (\<lambda>_. BNull) l = Inr y" if "l \<in> set ls" for l
    by (rule lookup_answers) (use assms that in \<open>auto simp: list_all_iff lookup_fits_def split: lookup_arg.splits\<close>)
  then obtain xs where "all_res (run_lookup st 0 (\<lambda>_. BNull)) ls = Inr xs" using all_res_Inr by blast
  then show ?thesis by (simp add: show_around_def item_view_def)
qed

lemma got_row:
  assumes "sound st" and "r \<in> set (bl_rows st (sv_table svc))"
  shows "svc_get svc (Some (br_id r)) st = (Inr r, st)"
proof -
  have "has_row st (sv_table svc) (br_id r)" using assms(2) by (auto simp: has_row_def list_ex_iff)
  then obtain q where q: "find_row (bl_rows st (sv_table svc)) (br_id r) = Some q" by (auto simp: has_row_find)
  then have "q = r"
    using find_row_set [OF q] keyed_unique [OF tables_okD(1) [OF assms(1)]] assms(2) by blast
  then show ?thesis using q by (simp add: svc_get_find)
qed

text \<open>A form whose texts are no numbers, times or addresses, or whose values the schema refuses.\<close>

definition refused :: "form_ctx \<Rightarrow> web_page \<Rightarrow> form_page \<Rightarrow> form \<Rightarrow> bool" where
  "refused fx p f form = (case form_body fx form (fp_fields f) of Inl e \<Rightarrow> True
     | Inr b \<Rightarrow> (case sv_update (wp_service p) of None \<Rightarrow> True | Some fs \<Rightarrow> \<not> body_ok fs b))"

lemma read_field_error: "read_field fx form k r = Inl e \<Longrightarrow> e = ValueErr"
  by (auto simp: read_field_def parsed_def split: form_read.splits option.splits)

lemma form_body_error: "form_body fx form fs = Inl e \<Longrightarrow> e = ValueErr"
  by (induction fs) (auto simp: bind_res_def dest: read_field_error split: sum.splits)

lemma refused_edit:
  assumes "refused fx p f form" and "wp_edit p = Some f"
  obtains e where "\<not> flush_failed e" "submit_edit fx p uid form ps st = (edit_failed p f uid e st, st)"
proof (cases "form_body fx form (fp_fields f)")
  case (Inl e)
  then show ?thesis using that [of e] assms(2) form_body_error [OF Inl] by (simp add: submit_edit_def flush_failed_def)
next
  case (Inr b)
  then have "page_update p (map (fx_uuid fx) ps) uid b st = (Inl unprocessable, st)"
    using assms(1) by (auto simp: refused_def page_update_def fail_def split: option.splits)
  then show ?thesis using that [of unprocessable] assms(2) Inr by (simp add: submit_edit_def flush_failed_def unprocessable_def)
qed

text \<open>
  Property C34. In sound tables every page around a row that is there is shown, with that row: its
  details, its edit form, and the edit form again, with the error, after an input that is refused. The rows that it refers to (the product of a price, the customer of an invoice) are always
  found, and the create forms are shown always.
\<close>

theorem pages_are_shown:
  assumes "tables_ok app_db st" and "p \<in> set web_pages" and "r \<in> set (bl_rows st (sv_table (wp_service p)))"
  shows "(wp_detail p \<noteq> None \<longrightarrow> (\<exists>v. serve_page (Shown info) fx p (ShowItem (br_id r)) st =
      (Rendered (wp_templates p @ ''/detail.html'') v, st) \<and> pv_item v = Some r)) \<and>
    (wp_edit p \<noteq> None \<longrightarrow> (\<exists>v. serve_page (Shown info) fx p (ShowEdit (br_id r)) st =
      (Rendered (wp_templates p @ ''/edit.html'') v, st) \<and> pv_item v = Some r)) \<and>
    (\<forall>f form ps. wp_edit p = Some f \<and> refused fx p f form \<longrightarrow>
      (\<exists>v. serve_page (Shown info) fx p (SubmitEdit (br_id r) form ps) st =
        (Rendered (wp_templates p @ ''/edit.html'') v, st) \<and> pv_item v = Some r \<and> pv_error v \<noteq> None)) \<and>
    (wp_create p \<noteq> None \<longrightarrow> (\<exists>v. serve_page (Shown info) fx p ShowCreate st =
      (Rendered (wp_templates p @ ''/create.html'') v, st)))"
proof -
  have fits: "page_fits p" using pages_fit assms(2) by (auto simp: list_all_iff)
  note get = got_row [OF assms(1,3)]
  note around = around_shown [OF assms(1,3)]
  have "\<exists>v. serve_page (Shown info) fx p (ShowItem (br_id r)) st =
      (Rendered (wp_templates p @ ''/detail.html'') v, st) \<and> pv_item v = Some r" if "wp_detail p = Some d" for d
    using around [of "ip_refs d" "ip_lists d" "wp_templates p @ ''/detail.html''" "br_id r" None] fits that get
    by (auto simp: page_fits_def Let_def serve_page_def show_item_def)
  moreover have edit: "\<exists>v. show_around (wp_templates p @ ''/edit.html'') (fp_refs f) (fp_lists f) (br_id r) (Some r) e st =
      Rendered (wp_templates p @ ''/edit.html'') v \<and> pv_item v = Some r \<and> pv_error v = e" if "wp_edit p = Some f" for f e
    using around [of "fp_refs f" "fp_lists f"] fits that by (simp add: page_fits_def Let_def)
  moreover have "\<exists>v. serve_page (Shown info) fx p ShowCreate st = (Rendered (wp_templates p @ ''/create.html'') v, st)"
    if "wp_create p = Some f" for f
    using create_shown [of "fp_lists f" "wp_templates p @ ''/create.html''" None st] fits that
    by (auto simp: page_fits_def Let_def serve_page_def show_create_def)
  moreover have "\<exists>v. serve_page (Shown info) fx p (SubmitEdit (br_id r) form ps) st =
        (Rendered (wp_templates p @ ''/edit.html'') v, st) \<and> pv_item v = Some r \<and> pv_error v \<noteq> None"
    if "wp_edit p = Some f" "refused fx p f form" for f form ps
  proof -
    note given = that
    obtain e where "\<not> flush_failed e" "submit_edit fx p (br_id r) form ps st = (edit_failed p f (br_id r) e st, st)"
      by (rule refused_edit [OF given(2,1)])
    then show ?thesis using edit [OF given(1), of "Some e"] get by (auto simp: serve_page_def edit_failed_def)
  qed
  ultimately show ?thesis using edit get by (fastforce simp: serve_page_def show_edit_def)
qed

section \<open>Edit forms\<close>

lemma form_body_reads:
  "form_body fx form fs = Inr b \<Longrightarrow> distinct (map fst fs) \<Longrightarrow>
     (\<forall>(k, r)\<in>set fs. \<exists>v. read_field fx form k r = Inr v \<and> b k = Some v) \<and> (\<forall>k. k \<notin> fst ` set fs \<longrightarrow> b k = None)"
proof (induction fs arbitrary: b)
  case (Cons kr fs)
  obtain k r where kr: "kr = (k, r)" by (cases kr)
  obtain v b' where v: "read_field fx form k r = Inr v" "form_body fx form fs = Inr b'" "b = b'(k \<mapsto> v)"
    using Cons.prems(1) kr by (auto simp: bind_res_Inr)
  have ih: "(\<forall>(k, r)\<in>set fs. \<exists>v. read_field fx form k r = Inr v \<and> b' k = Some v)" "(\<forall>k. k \<notin> fst ` set fs \<longrightarrow> b' k = None)"
    using Cons.IH [OF v(2)] Cons.prems(2) by auto
  have "k \<notin> fst ` set fs" using Cons.prems(2) kr by simp
  then show ?case using v ih kr by force
qed simp

text \<open>The edit forms of the table: every field once, each a field of the update schema; the services
  check no references of an update.\<close>

definition edit_fits :: "web_page \<Rightarrow> bool" where
  "edit_fits p = (case wp_edit p of None \<Rightarrow> True
     | Some f \<Rightarrow> distinct (map fst (fp_fields f)) \<and> sv_update_requires (wp_service p) = [] \<and>
         (case sv_update (wp_service p) of None \<Rightarrow> False
          | Some fs \<Rightarrow> list_all (\<lambda>k. k \<in> set (map fs_name fs)) (map fst (fp_fields f))))"

lemma edits_fit: "list_all edit_fits web_pages"
  by code_simp

lemmas page_defs = web_pages_def person_pages_def role_pages_def permission_pages_def
  product_pages_def price_pages_def customer_pages_def subscription_pages_def invoice_pages_def payment_method_pages_def
  coupon_pages_def entitlement_pages_def webhook_event_pages_def

lemma permission_page: "p \<in> set web_pages \<Longrightarrow> wp_permissions p \<Longrightarrow> wp_service p = role_service"
  by (auto simp: page_defs)

lemma page_writes: "list_all (\<lambda>p. writes_columns app_db (wp_service p)) web_pages"
  by code_simp

lemma edit_case:
  assumes "p \<in> set web_pages" and "wp_edit p = Some f" and "form_body fx form (fp_fields f) = Inr b"
  obtains fs where "sv_update (wp_service p) = Some fs" "dump_set fs b = b" "sv_update_requires (wp_service p) = []"
    "\<And>k r. (k, r) \<in> set (fp_fields f) \<Longrightarrow> \<exists>v. read_field fx form k r = Inr v \<and> b k = Some v"
    "\<And>k. k \<notin> fst ` set (fp_fields f) \<Longrightarrow> b k = None"
proof -
  obtain fs where fs: "sv_update (wp_service p) = Some fs" "distinct (map fst (fp_fields f))"
    "sv_update_requires (wp_service p) = []" "fst ` set (fp_fields f) \<subseteq> fs_name ` set fs"
    using bspec [OF edits_fit [unfolded list_all_iff] assms(1)] assms(2)
    by (cases "sv_update (wp_service p)") (auto simp: edit_fits_def list_all_iff)
  note b = form_body_reads [OF assms(3) fs(2)]
  have "b k = None" if "field_named fs k = None" for k
  proof -
    have "k \<notin> fs_name ` set fs" using that by (auto simp: field_named_def first_where_None)
    then show ?thesis using b fs(4) by blast
  qed
  then have "dump_set fs b = b" by (auto simp: dump_set_def fun_eq_iff)
  then show thesis using that fs(1,3) b by blast
qed

text \<open>The links that a role form replaces are in no other table.\<close>

lemma add_link_frame: "add_link i p st = (Inr q, st') \<Longrightarrow> t \<noteq> RolePermissions \<Longrightarrow> contents st' t = contents st t"
proof (cases p)
  case None
  then show "add_link i p st = (Inr q, st') \<Longrightarrow> contents st' t = contents st t" by (simp add: add_link_def fail_def)
next
  case (Some j)
  assume t: "t \<noteq> RolePermissions" and "add_link i p st = (Inr q, st')"
  then have "svc_create app_db role_permission_service (link_body i j) st = (Inr q, st')"
    using Some by (simp add: add_link_def)
  then show "contents st' t = contents st t"
    by (cases rule: svc_create_cases) (use t in \<open>auto simp: contents_def role_permission_service_def\<close>)
qed

lemma replace_permissions_frame:
  assumes "replace_permissions i ps st = (Inr (), st')" and t: "t \<noteq> RolePermissions"
  shows "contents st' t = contents st t"
proof -
  have "contents st' t = contents st1 t" if "for_each (add_link i) ps st1 = (Inr (), st')" for st1
    using that
  proof (induction ps arbitrary: st1)
    case (Cons p ps)
    obtain q st2 where st2: "add_link i p st1 = (Inr q, st2)" "for_each (add_link i) ps st2 = (Inr (), st')"
      using Cons.prems by (auto simp: bind_act_Inr)
    then show ?case using Cons.IH [OF st2(2)] add_link_frame [OF st2(1) t] by simp
  qed simp
  from this [OF assms(1) [unfolded replace_permissions_def]]
  show ?thesis using t by (simp add: drop_links_def)
qed

text \<open>An update of a page is the update of its service, and for a role the replacement of its permissions.\<close>

lemma page_update_cases:
  assumes "p \<in> set web_pages" and "page_update p ps uid b st = (Inr q, st')" and "sv_update (wp_service p) = Some fs"
  obtains st1 where "body_ok fs b" "svc_update app_db (wp_service p) fs (Some uid) b st = (Inr q, st1)"
    "wp_permissions p \<Longrightarrow> replace_permissions (br_id q) ps st1 = (Inr (), st')" "\<not> wp_permissions p \<Longrightarrow> st' = st1"
proof (cases "wp_permissions p")
  case True
  then have "fs = role_update" "wp_service p = role_service"
    using permission_page [OF assms(1)] assms(3) by (simp_all add: role_service_def)
  then show thesis using True assms(2,3) that
    by (auto simp: page_update_def update_with_permissions_def bind_act_Inr then_act_Inr fail_def split: if_splits)
next
  case False
  then show thesis using assms(2,3) that by (auto simp: page_update_def fail_def split: if_splits)
qed

lemma svc_update_writes:
  assumes "svc_update db svc fs (Some uid) b st = (Inr q, st')"
  obtains r where "br_id r = uid" "write_row db (sv_table svc) (dump_set fs b) r st = (Inr q, st')"
proof (cases "check_each (require_set st (dump_set fs b)) (sv_update_requires svc)")
  case (Inr u)
  then show thesis using assms that by (auto simp: svc_update_def bind_act_Inr svc_get_Inr dest: find_row_set)
qed (use assms in \<open>auto simp: svc_update_def bind_act_Inr svc_get_Inr\<close>)

lemma svc_update_id: "svc_update db svc fs (Some uid) b st = (Inr q, st') \<Longrightarrow> br_id q = uid"
  by (erule svc_update_writes, erule write_row_cases) auto

lemma links_of_update:
  assumes "svc_update db svc fs (Some uid) b st = (Inr q, st')" and "sv_table svc \<noteq> RolePermissions"
  shows "role_links st' i = role_links st i"
  by (rule svc_update_writes [OF assms(1)], erule write_row_cases) (use assms(2) in \<open>auto simp: role_links_def\<close>)

text \<open>
  Property C35. An edit form is the whole truth about its fields: after a successful edit, of any
  row that has a form, every field of the form has the value read from what was
  sent, and a field that was left out or left empty is erased (a flag that was not sent is off); the
  columns that the form does not have keep their values, and so does every other row of every table.
  Only the form of a role writes to a second table: the role then has exactly the
  permissions that were ticked, and every other role those that it had.
\<close>

theorem edit_form_exact:
  assumes "tables_ok app_db st" and "p \<in> set web_pages"
    and "serve_page (Shown info) fx p (SubmitEdit uid form ps) st = (reply, st')" and "success reply"
  shows "\<exists>f vals new. wp_edit p = Some f \<and> contents st (sv_table (wp_service p)) uid = Some vals \<and>
    (\<forall>t. wp_permissions p \<and> t = RolePermissions \<or>
       contents st' t = ((contents st)(sv_table (wp_service p) := (contents st (sv_table (wp_service p)))(uid \<mapsto> new))) t) \<and>
    (wp_permissions p \<longrightarrow> (\<forall>q. role_links st' q = (if q = uid then {j. Some j \<in> set (map (fx_uuid fx) ps)} else role_links st q))) \<and>
    (\<forall>(k, r)\<in>set (fp_fields f). read_field fx form k r = Inr (new k)) \<and>
    (\<forall>k. k \<notin> fst ` set (fp_fields f) \<longrightarrow> new k = vals k)"
proof -
  let ?svc = "wp_service p" and ?ps = "map (fx_uuid fx) ps"
  obtain f b q where f: "wp_edit p = Some f" "form_body fx form (fp_fields f) = Inr b"
    "page_update p ?ps uid b st = (Inr q, st')"
    using assms(3,4) form_failed_success by (fastforce simp: serve_page_def submit_edit_def split: option.splits sum.splits prod.splits)
  obtain fs where fs: "sv_update ?svc = Some fs" "dump_set fs b = b"
    and b: "\<And>k r. (k, r) \<in> set (fp_fields f) \<Longrightarrow> \<exists>v. read_field fx form k r = Inr v \<and> b k = Some v"
      "\<And>k. k \<notin> fst ` set (fp_fields f) \<Longrightarrow> b k = None"
    by (rule edit_case [OF assms(2) f(1,2)]) (use that in blast)
  obtain st1 where run: "body_ok fs b" "svc_update app_db ?svc fs (Some uid) b st = (Inr q, st1)"
    and links: "wp_permissions p \<Longrightarrow> replace_permissions (br_id q) ?ps st1 = (Inr (), st')" "\<not> wp_permissions p \<Longrightarrow> st' = st1"
    by (rule page_update_cases [OF assms(2) f(3) fs(1)]) (rule that)
  have crud: "serve_crud app_db ?svc (BUpdate (Some uid) b) st = (respond ?svc q, st1)"
    using fs(1) run by (simp add: serve_crud_def bind_act_def lift_res_def)
  have effect: "contents st1 = (contents st)(sv_table ?svc :=
      contents_after ?svc (BUpdate (Some uid) b) (bl_next st) (bl_clock st) (contents st (sv_table ?svc)))"
    using serve_effect [OF assms(1) bspec [OF page_writes [unfolded list_all_iff] assms(2)] crud] respond_cases [of ?svc q]
    by (auto simp: request_effect_def)
  obtain vals where vals: "contents st (sv_table ?svc) uid = Some vals"
    using run(2) by (auto simp: svc_update_def bind_act_Inr svc_get_Inr contents_def)
  let ?new = "assign b vals"
  have st1: "contents st1 = (contents st)(sv_table ?svc := (contents st (sv_table ?svc))(uid \<mapsto> ?new))"
    using effect vals fs by (force simp: contents_after_def)
  have frame: "contents st' t = contents st1 t" if "\<not> (wp_permissions p \<and> t = RolePermissions)" for t
    using links replace_permissions_frame that by (cases "wp_permissions p") auto
  have ticked: "role_links st' i = (if i = uid then {j. Some j \<in> set ?ps} else role_links st i)" if w: "wp_permissions p" for i
  proof -
    have role: "?svc = role_service" by (rule permission_page [OF assms(2) w])
    have "tables_ok app_db st1" using serve_ok [OF assms(1), of ?svc "BUpdate (Some uid) b"] crud by simp
    moreover have "has_row st1 Roles uid"
      using fun_cong [OF fun_cong [OF st1, of Roles], of uid] role
      by (auto simp: contents_def has_row_find role_service_def)
    moreover have "replace_permissions uid ?ps st1 = (Inr (), st')" using links(1) [OF w] svc_update_id [OF run(2)] by simp
    ultimately have "role_links st' i = (if i = uid then {j. Some j \<in> set ?ps} else role_links st1 i)"
      using replace_permissions_exact by blast
    moreover have "role_links st1 i = role_links st i"
      using links_of_update [OF run(2)] role by (simp add: role_service_def)
    ultimately show ?thesis by simp
  qed
  have "\<forall>(k, r)\<in>set (fp_fields f). read_field fx form k r = Inr (?new k)" using b(1) by (fastforce simp: assign_def)
  moreover have "\<forall>k. k \<notin> fst ` set (fp_fields f) \<longrightarrow> ?new k = vals k" using b(2) by (simp add: assign_def)
  moreover have "wp_permissions p \<and> t = RolePermissions \<or>
      contents st' t = ((contents st)(sv_table ?svc := (contents st (sv_table ?svc))(uid \<mapsto> ?new))) t" for t
    using frame [of t] st1 by auto
  ultimately show ?thesis using f(1) vals ticked by blast
qed

text \<open>What a form reads from a field that is left empty.\<close>

definition erases :: "form_read \<Rightarrow> bool" where
  "erases r \<longleftrightarrow> r \<in> set [TextIf, EmailIf, IntIf None, TimeIf]"

lemma erases_null: "erases r \<Longrightarrow> given_text form k = None \<Longrightarrow> read_field fx form k r = Inr BNull"
  by (auto simp: erases_def read_field_def)

text \<open>
  Property C36. A required field cannot be cleared, and trying is an error of the server: when an edit
  form with a valid schema leaves empty a field whose column takes no null, the write fails in the
  database, and the handler, which reads the rows for the form again without a rollback, fails as
  well; the answer is 500 instead of the form with its error, and nothing changes.
\<close>

theorem cleared_field_500:
  assumes "tables_ok app_db st" and "p \<in> set web_pages" and "wp_edit p = Some f"
    and "(k, r) \<in> set (fp_fields f)" and "erases r" and "given_text form k = None"
    and "c \<in> set (dt_columns (app_db (sv_table (wp_service p))))" and "dc_name c = k" and "\<not> dc_nullable c"
    and "\<not> refused fx p f form" and "has_row st (sv_table (wp_service p)) uid"
  shows "serve_page (Shown info) fx p (SubmitEdit uid form ps) st = (PageFailed 500, st)"
proof -
  let ?svc = "wp_service p" and ?t = "sv_table (wp_service p)"
  obtain b where b: "form_body fx form (fp_fields f) = Inr b"
    using assms(10) by (cases "form_body fx form (fp_fields f)") (auto simp: refused_def)
  obtain fs where fs: "sv_update ?svc = Some fs" "dump_set fs b = b" "sv_update_requires ?svc = []"
    and read: "\<exists>v. read_field fx form k r = Inr v \<and> b k = Some v"
    by (rule edit_case [OF assms(2,3) b]) (use that assms(4) in blast)
  have null: "b k = Some BNull" using read erases_null [OF assms(5,6)] by auto
  have ok: "body_ok fs b" using assms(10) b fs(1) by (simp add: refused_def)
  obtain q where q: "find_row (bl_rows st ?t) uid = Some q" using assms(11) by (auto simp: has_row_find)
  note qs = find_row_set [OF q]
  have "br_vals q k \<noteq> BNull"
    using tables_okD(2) [OF assms(1), of q ?t] qs assms(7-9) by (auto simp: stored_ok_def column_null_ok_def)
  then have "\<not> same_columns (app_db ?t) (assign b (br_vals q)) (br_vals q)"
    using assms(7,8) null by (auto simp: same_columns_def list_all_iff assign_def intro!: bexI [of _ c])
  moreover have "\<not> list_all (column_null_ok (assign b (br_vals q))) (dt_columns (app_db ?t))"
    using assms(7-9) null by (auto simp: list_all_iff column_null_ok_def assign_def)
  ultimately have "write_row app_db ?t b q st =
      (Inl (if list_all (column_data_ok (assign b (br_vals q))) (dt_columns (app_db ?t)) then IntegrityErr
            else Raised ''DataError''), st)"
    by (simp add: write_row_def check_row_def Let_def)
  then obtain e where e: "flush_failed e" "write_row app_db ?t b q st = (Inl e, st)"
    by (cases "list_all (column_data_ok (assign b (br_vals q))) (dt_columns (app_db ?t))") (auto simp: flush_failed_def)
  have upd: "svc_update app_db ?svc fs (Some uid) b st = (Inl e, st)"
    using q fs(2,3) e(2) by (simp add: svc_update_def svc_get_find bind_act_def)
  have role: "?svc = role_service \<and> fs = role_update" if "wp_permissions p"
    using permission_page [OF assms(2) that] fs(1) by (simp add: role_service_def)
  have "page_update p (map (fx_uuid fx) ps) uid b st = (Inl e, st)"
    using fs(1) ok upd role
    by (auto simp: page_update_def update_with_permissions_def bind_act_def)
  then show ?thesis using assms(3) b e(1) by (simp add: serve_page_def submit_edit_def edit_failed_def)
qed

section \<open>Examples\<close>

definition sample_fx :: form_ctx where
  "sample_fx = \<lparr>fx_uuid = (\<lambda>_. None), fx_time = (\<lambda>_. None), fx_email = Some\<rparr>"

lemma person_in_pages: "person_pages \<in> set web_pages"
  by (simp add: web_pages_def)

lemma person_in_world: "person_row \<in> set (bl_rows sample_world (sv_table (wp_service person_pages)))"
  by (simp add: person_pages_def person_service_def sample_rows)

lemma pages_are_the_listing_witness:
  "\<exists>t v. fst (serve_page (Shown sample_info) sample_fx person_pages (ShowList (\<lambda>_. None) 7) sample_world) = Rendered t v \<and>
     mset (concat (map (\<lambda>i. listed (show_list sample_fx person_pages (\<lambda>_. None) (int i + 1) sample_world)) [0..<nat (pv_pages v)])) =
       mset (bl_rows sample_world People)"
proof -
  let ?run = "fst (serve_page (Shown sample_info) sample_fx person_pages (ShowList (\<lambda>_. None) 7) sample_world)"
  have "case ?run of Rendered t v \<Rightarrow> True | _ \<Rightarrow> False" by code_simp
  then obtain t v where run: "?run = Rendered t v" by (cases ?run) auto
  from pages_are_the_listing [OF run] obtain P where P:
    "apply_filters (bq_params (page_query sample_fx person_pages (\<lambda>_. None) 1)) (sv_filters (wp_service person_pages)) = Inr P"
    "mset (concat (map (\<lambda>i. listed (show_list sample_fx person_pages (\<lambda>_. None) (int i + 1) sample_world)) [0..<nat (pv_pages v)])) =
       mset (filter (\<lambda>r. P (br_vals r)) (bl_rows sample_world (sv_table (wp_service person_pages))))"
    by blast
  have "P w" for w
    using P(1) by (auto simp: page_query_def person_pages_def person_list_page_def person_service_def apply_filter_def
        list_param_def py_or_def bind_res_def)
  then show ?thesis using run P(2) by (simp add: person_pages_def person_service_def)
qed

lemma pages_are_shown_witness:
  "\<exists>v. serve_page (Shown sample_info) sample_fx person_pages (ShowItem (br_id person_row)) sample_world =
     (Rendered ''admin/people/detail.html'' v, sample_world) \<and> pv_item v = Some person_row"
  using pages_are_shown [OF sample_world_sound person_in_pages person_in_world, of sample_info sample_fx]
  by (auto simp: person_pages_def)

text \<open>One permission, and its edit form.\<close>

definition permission_row :: trow where
  "permission_row = sample_row 0 [(''key'', BText ''calls''), (''is_active'', BBool True)]"

definition permission_world :: app_tables where
  "permission_world = \<lparr>bl_rows = (\<lambda>t. if t = Permissions then [permission_row] else []), bl_next = 1, bl_clock = 5\<rparr>"

lemma permission_world_sound: "tables_ok app_db permission_world"
proof -
  have "stored_ok app_db permission_world Permissions 0 (br_vals permission_row)"
    by (simp add: stored_ok_def app_db_def permission_table_def column_data_ok_def column_null_ok_def
        reference_ok_def fits_column_def permission_row_def sample_row_def vals_of_def permission_world_def unique_ok_def)
  then show ?thesis
    by (auto simp: tables_ok_def permission_world_def keyed_def) (simp_all add: permission_row_def sample_row_def)
qed

definition permission_form :: "string \<Rightarrow> form" where
  "permission_form key = [''key'' \<mapsto> key, ''is_active'' \<mapsto> ''on'']"

abbreviation (input) edit_permission :: "form \<Rightarrow> page_reply \<times> app_tables" where
  "edit_permission form \<equiv> serve_page (Shown sample_info) sample_fx permission_pages (SubmitEdit 0 form []) permission_world"

lemma permission_in_pages: "permission_pages \<in> set web_pages" "\<not> wp_permissions permission_pages"
  "sv_table (wp_service permission_pages) = Permissions" "wp_edit permission_pages = Some permission_edit_form"
  by (simp_all add: web_pages_def permission_pages_def permission_service_def)

lemma edit_form_exact_witness:
  "\<exists>reply st' new. edit_permission (permission_form ''dial'') = (reply, st') \<and>
     contents st' Permissions 0 = Some new \<and> new ''key'' = BText ''dial'' \<and> new ''description'' = BNull"
proof -
  let ?run = "edit_permission (permission_form ''dial'')"
  obtain reply st' where run: "?run = (reply, st')" by force
  have "success (fst ?run)" by code_simp
  then have "success reply" using run by simp
  then obtain f vals new where e: "wp_edit permission_pages = Some f"
    "\<forall>t. wp_permissions permission_pages \<and> t = RolePermissions \<or>
       contents st' t = ((contents permission_world)(sv_table (wp_service permission_pages) :=
         (contents permission_world (sv_table (wp_service permission_pages)))(0 \<mapsto> new))) t"
    "\<forall>(k, r)\<in>set (fp_fields f). read_field sample_fx (permission_form ''dial'') k r = Inr (new k)"
    using edit_form_exact [OF permission_world_sound permission_in_pages(1) run] by blast
  have "(''key'', TextIf) \<in> set (fp_fields f)" "(''description'', TextIf) \<in> set (fp_fields f)"
    using e(1) permission_in_pages(4) by (auto simp: permission_edit_form_def)
  then have "read_field sample_fx (permission_form ''dial'') ''key'' TextIf = Inr (new ''key'')"
    "read_field sample_fx (permission_form ''dial'') ''description'' TextIf = Inr (new ''description'')"
    using e(3) by fastforce+
  then have "new ''key'' = BText ''dial''" "new ''description'' = BNull"
    by (simp_all add: read_field_def given_text_def permission_form_def py_or_def)
  then show ?thesis using run spec [OF e(2), of Permissions] permission_in_pages(2,3) by simp
qed

lemma cleared_field_500_witness: "edit_permission (permission_form []) = (PageFailed 500, permission_world)"
proof -
  let ?c = "the (first_where (\<lambda>c. dc_name c = ''key'') (dt_columns (app_db Permissions)))"
  have c: "?c \<in> set (dt_columns (app_db Permissions))" "dc_name ?c = ''key''" "\<not> dc_nullable ?c"
    by code_simp+
  have "\<not> refused sample_fx permission_pages permission_edit_form (permission_form [])" by code_simp
  moreover have "has_row permission_world Permissions 0"
    by (simp add: has_row_def permission_world_def permission_row_def sample_row_def)
  moreover have "(''key'', TextIf) \<in> set (fp_fields permission_edit_form)" "erases TextIf"
    "given_text (permission_form []) ''key'' = None"
    by (simp_all add: permission_edit_form_def erases_def given_text_def permission_form_def py_or_def)
  ultimately show ?thesis
    using cleared_field_500 [OF permission_world_sound permission_in_pages(1,4), of "''key''" TextIf "permission_form []" ?c
        sample_fx 0 sample_info "[]"] c permission_in_pages(3)
    by simp
qed

end
