(* ===== verification/AuditLog.thy ===== *)
theory AuditLog
  imports Settings AuthAccess
begin

text \<open>
  The audit log: the settings that say what is recorded, with their cache, the middleware around
  every request (\<^verbatim>\<open>app/main.py\<close>), the table and its service (\<^verbatim>\<open>app/models/audit.py\<close>,
  \<^verbatim>\<open>app/services/audit.py\<close>), the API (\<^verbatim>\<open>app/api/audit.py\<close>) and the pages (\<^verbatim>\<open>app/web/audit.py\<close>).
  The items of a list in a JSON value are a parameter.
\<close>

section \<open>The table\<close>

datatype actor_type = SystemType | UserType | ApiKeyType | ServiceType

definition actor_type_value :: "actor_type \<Rightarrow> string" where
  "actor_type_value t = (case t of SystemType \<Rightarrow> ''system'' | UserType \<Rightarrow> ''user''
     | ApiKeyType \<Rightarrow> ''api_key'' | ServiceType \<Rightarrow> ''service'')"

text \<open>\<^verbatim>\<open>AuditActorType(value)\<close>\<close>

definition actor_type_of :: "string \<Rightarrow> actor_type option" where
  "actor_type_of s = first_where (\<lambda>t. actor_type_value t = s) [SystemType, UserType, ApiKeyType, ServiceType]"

record audit_event =
  ae_id :: nat
  ae_at :: int
  ae_actor_type :: actor_type
  ae_actor_id :: "string option"
  ae_action :: string
  ae_entity_type :: string
  ae_entity_id :: "string option"
  ae_status :: int
  ae_success :: bool
  ae_active :: bool
  ae_ip :: "string option"
  ae_agent :: "string option"
  ae_request :: "string option"
  ae_metadata :: "(string \<times> (string \<Rightarrow> string option)) option"

text \<open>What the columns take.\<close>

definition fits_opt :: "nat \<Rightarrow> string option \<Rightarrow> bool" where
  "fits_opt n s = (case s of None \<Rightarrow> True | Some t \<Rightarrow> length t \<le> n)"

definition event_fits :: "audit_event \<Rightarrow> bool" where
  "event_fits e \<longleftrightarrow> fits_opt 120 (ae_actor_id e) \<and> length (ae_action e) \<le> 80 \<and> length (ae_entity_type e) \<le> 160 \<and>
     fits_opt 120 (ae_entity_id e) \<and> - (2 ^ 31) \<le> ae_status e \<and> ae_status e < 2 ^ 31 \<and> fits_opt 64 (ae_ip e) \<and>
     fits_opt 255 (ae_agent e) \<and> fits_opt 120 (ae_request e)"

record audit_db =
  ad_rows :: "audit_event list"
  ad_next :: nat
  ad_now :: int

text \<open>An insert: the identifier, and the time unless one is given.\<close>

definition insert_event :: "int option \<Rightarrow> audit_event \<Rightarrow> (audit_db, audit_event) act" where
  "insert_event occurred e db =
     (let r = e\<lparr>ae_id := ad_next db, ae_at := (case occurred of None \<Rightarrow> ad_now db | Some t \<Rightarrow> t)\<rparr> in
      if event_fits r then (Inr r, db\<lparr>ad_rows := ad_rows db @ [r], ad_next := Suc (ad_next db)\<rparr>)
      else (Inl (Raised ''DataError''), db))"

section \<open>The service\<close>

definition parse_actor_type :: "string option \<Rightarrow> actor_type option res" where
  "parse_actor_type v = (case v of None \<Rightarrow> Inr None
     | Some s \<Rightarrow> (case actor_type_of s of Some t \<Rightarrow> Inr (Some t)
         | None \<Rightarrow> Inl (BadRequest ''Invalid actor_type. Allowed: api_key, service, system, user'')))"

definition create_event :: "int option \<Rightarrow> audit_event \<Rightarrow> (audit_db, audit_event) act" where
  "create_event = insert_event"

definition get_event :: "uuid_text \<Rightarrow> (audit_db, audit_event) act" where
  "get_event uid db = (case uid of None \<Rightarrow> (Inl ValueErr, db)
     | Some i \<Rightarrow> (case first_where (\<lambda>e. ae_id e = i) (ad_rows db) of
         None \<Rightarrow> (Inl (NotFound ''Audit event not found''), db) | Some e \<Rightarrow> (Inr e, db)))"

definition delete_event :: "uuid_text \<Rightarrow> (audit_db, unit) act" where
  "delete_event uid = bind_act (get_event uid) (\<lambda>e db.
     (Inr (), db\<lparr>ad_rows := update_where (\<lambda>q. ae_id q = ae_id e) (\<lambda>q. q\<lparr>ae_active := False\<rparr>) (ad_rows db)\<rparr>))"

record audit_filter =
  af_actor_id :: "string option"
  af_actor_type :: "actor_type option"
  af_action :: "string option"
  af_entity_type :: "string option"
  af_request :: "string option"
  af_success :: "bool option"
  af_status :: "int option"
  af_active :: "bool option"

definition text_matches :: "string option \<Rightarrow> string option \<Rightarrow> bool" where
  "text_matches wanted v = (case py_or wanted None of None \<Rightarrow> True | Some s \<Rightarrow> v = Some s)"

definition event_matches :: "audit_filter \<Rightarrow> audit_event \<Rightarrow> bool" where
  "event_matches f e \<longleftrightarrow> text_matches (af_actor_id f) (ae_actor_id e) \<and>
     (af_actor_type f = None \<or> af_actor_type f = Some (ae_actor_type e)) \<and>
     text_matches (af_action f) (Some (ae_action e)) \<and> text_matches (af_entity_type f) (Some (ae_entity_type e)) \<and>
     text_matches (af_request f) (ae_request e) \<and>
     (af_success f = None \<or> af_success f = Some (ae_success e)) \<and>
     (af_status f = None \<or> af_status f = Some (ae_status e)) \<and>
     ae_active e = (case af_active f of None \<Rightarrow> True | Some b \<Rightarrow> b)"

definition order_events :: "string \<Rightarrow> audit_event list \<Rightarrow> audit_event list option" where
  "order_events by es =
     (if by = ''occurred_at'' then Some (sort_key ae_at es) else if by = ''action'' then Some (sort_key ae_action es)
      else if by = ''entity_type'' then Some (sort_key ae_entity_type es)
      else if by = ''status_code'' then Some (sort_key ae_status es) else None)"

definition list_events :: "audit_filter \<Rightarrow> string \<Rightarrow> string \<Rightarrow> int \<Rightarrow> int \<Rightarrow> audit_db \<Rightarrow> audit_event list res" where
  "list_events f order_by order_dir limit offset db =
     (case order_events order_by (filter (event_matches f) (ad_rows db)) of
        None \<Rightarrow> Inl (BadRequest ''Invalid order_by. Allowed: action, entity_type, occurred_at, status_code'')
      | Some es \<Rightarrow> Inr (apply_pagination limit offset (if order_dir = ''desc'' then rev es else es)))"

section \<open>The API and the pages\<close>

text \<open>Every route needs the audit scope, a deletion the role \<^verbatim>\<open>admin\<close> too; the answers of the two
  guards are arguments.\<close>

datatype audit_call =
    GetEvent uuid_text | DeleteEvent uuid_text | ListEvents audit_filter "string option" string string int int

datatype audit_reply = OneEvent audit_event | Events "audit_event list" | Deleted

definition serve_audit :: "'a res \<Rightarrow> 'b res \<Rightarrow> audit_call \<Rightarrow> (audit_db, audit_reply) act" where
  "serve_audit scope admin c db = (case scope of Inl e \<Rightarrow> (Inl e, db)
    | Inr _ \<Rightarrow> (case c of
        GetEvent uid \<Rightarrow> bind_act (get_event uid) (\<lambda>e. ret (OneEvent e)) db
      | DeleteEvent uid \<Rightarrow> (case admin of Inl e \<Rightarrow> (Inl e, db)
          | Inr _ \<Rightarrow> bind_act (delete_event uid) (\<lambda>_. ret Deleted) db)
      | ListEvents f actor order_by order_dir limit offset \<Rightarrow>
          if order_dir \<notin> set [''asc'', ''desc''] \<or> limit < 1 \<or> 200 < limit \<or> offset < 0 then (Inl unprocessable, db)
          else (bind_res (parse_actor_type actor) (\<lambda>t.
             bind_res (list_events (f\<lparr>af_actor_type := t\<rparr>) order_by order_dir limit offset db) (\<lambda>es. Inr (Events es))), db)))"

text \<open>The pages: an unknown type of actor does not filter.\<close>

definition audit_page :: "int \<Rightarrow> string option \<Rightarrow> string option \<Rightarrow> string option \<Rightarrow> audit_db \<Rightarrow> audit_event list \<times> int \<times> int \<times> int" where
  "audit_page n action entity actor db =
     (let page = max 1 n;
          f = \<lparr>af_actor_id = None, af_actor_type = Option.bind (py_or actor None) actor_type_of, af_action = action,
             af_entity_type = entity, af_request = None, af_success = None, af_status = None, af_active = Some True\<rparr>;
          es = rev (sort_key ae_at (filter (event_matches f) (ad_rows db)))
      in (apply_pagination 25 ((page - 1) * 25) es, int (length es), page, max 1 ((int (length es) + 24) div 25)))"

definition audit_detail :: "nat \<Rightarrow> audit_db \<Rightarrow> audit_event res" where
  "audit_detail uid db = (case fst (get_event (Some uid) db) of
     Inl (NotFound m) \<Rightarrow> Inl (HttpError 404 m) | r \<Rightarrow> r)"

section \<open>What is recorded\<close>

record audit_settings =
  as_enabled :: bool
  as_methods :: "string list"
  as_skip :: "string list"
  as_header :: string
  as_query :: string

definition audit_defaults :: audit_settings where
  "audit_defaults = \<lparr>as_enabled = True, as_methods = [''POST'', ''PUT'', ''PATCH'', ''DELETE''],
     as_skip = [''/static'', ''/web'', ''/health''], as_header = ''x-audit-read'', as_query = ''audit''\<rparr>"

definition setting_stored :: "setting_row \<Rightarrow> raw_value option" where
  "setting_stored r = (case sg_json r of Some v \<Rightarrow> Some v | None \<Rightarrow> map_option RText (sg_text r))"

definition to_bool :: "setting_row \<Rightarrow> bool" where
  "to_bool r = (case setting_stored r of Some (RBool b) \<Rightarrow> b
     | Some (RText s) \<Rightarrow> lower_str (strip s) \<in> set [''1'', ''true'', ''yes'', ''on''] | _ \<Rightarrow> False)"

definition to_str :: "setting_row \<Rightarrow> string" where
  "to_str r = (case sg_text r of Some s \<Rightarrow> s
     | None \<Rightarrow> (case sg_json r of None \<Rightarrow> [] | Some v \<Rightarrow> raw_str v))"

definition to_list :: "(string \<Rightarrow> string list option) \<Rightarrow> setting_row \<Rightarrow> bool \<Rightarrow> string list" where
  "to_list json_items r upper =
     (let items = (case setting_stored r of
            Some (RJson s) \<Rightarrow> (case json_items s of None \<Rightarrow> [] | Some xs \<Rightarrow> filter (\<lambda>i. i \<noteq> []) (map strip xs))
          | Some (RText s) \<Rightarrow> filter (\<lambda>i. i \<noteq> []) (map strip (split_on (CHR '','') s))
          | _ \<Rightarrow> [])
      in if upper then map upper_str items else items)"

text \<open>The active row of a key; its reading, or the default.\<close>

definition audit_value :: "settings_db \<Rightarrow> string \<Rightarrow> (setting_row \<Rightarrow> 'a) \<Rightarrow> 'a \<Rightarrow> 'a" where
  "audit_value db key f d = (case first_where (\<lambda>r. sg_domain r = AuditDomain \<and> sg_key r = key \<and> sg_active r) (rev (sd_rows db)) of
     None \<Rightarrow> d | Some r \<Rightarrow> f r)"

definition read_audit_settings :: "(string \<Rightarrow> string list option) \<Rightarrow> settings_db \<Rightarrow> audit_settings" where
  "read_audit_settings json_items db =
     \<lparr>as_enabled = audit_value db ''enabled'' to_bool (as_enabled audit_defaults),
      as_methods = audit_value db ''methods'' (\<lambda>r. to_list json_items r True) (as_methods audit_defaults),
      as_skip = audit_value db ''skip_paths'' (\<lambda>r. to_list json_items r False) (as_skip audit_defaults),
      as_header = audit_value db ''read_trigger_header'' to_str (as_header audit_defaults),
      as_query = audit_value db ''read_trigger_query'' to_str (as_query audit_defaults)\<rparr>"

text \<open>The state: the log, the settings, and the settings read last with the time of the monotonic clock;
  a time of zero counts as none. \<open>up\<close> says whether the database answers, which the cache does not need.\<close>

record audit_sys =
  ay_log :: audit_db
  ay_settings :: settings_db
  ay_cache :: "(audit_settings \<times> int) option"

definition cache_seconds :: int where
  "cache_seconds = 30"

definition load_audit_settings :: "(string \<Rightarrow> string list option) \<Rightarrow> bool \<Rightarrow> int \<Rightarrow> audit_sys \<Rightarrow> audit_settings option \<times> audit_sys" where
  "load_audit_settings json_items up now s =
     (let fresh = read_audit_settings json_items (ay_settings s);
          kept = (case ay_cache s of None \<Rightarrow> None
            | Some (cached, at) \<Rightarrow> if at \<noteq> 0 \<and> now - at < cache_seconds then Some cached else None)
      in if kept \<noteq> None then (kept, s)
         else if \<not> up then (None, s)
         else (Some fresh, s\<lparr>ay_cache := Some (fresh, now)\<rparr>))"

record audit_request =
  ar_method :: string
  ar_path :: string
  ar_headers :: "string \<Rightarrow> string option"
  ar_query :: "(string \<times> string) list"
  ar_client :: "string option"

definition is_audit_path_skipped :: "string \<Rightarrow> string list \<Rightarrow> bool" where
  "is_audit_path_skipped path skip = list_ex (\<lambda>p. starts_with path p) skip"

text \<open>Header names are looked up in lower case.\<close>

definition header :: "audit_request \<Rightarrow> string \<Rightarrow> string option" where
  "header rq name = ar_headers rq (lower_str name)"

definition track_read :: "audit_settings \<Rightarrow> audit_request \<Rightarrow> bool" where
  "track_read a rq \<longleftrightarrow> ar_method rq = ''GET'' \<and>
     (lower_str (if as_header a = [] then [] else (case header rq (as_header a) of None \<Rightarrow> [] | Some v \<Rightarrow> v)) = ''true'' \<or>
      map_of (rev (ar_query rq)) (as_query a) = Some ''true'')"

definition should_log :: "audit_settings \<Rightarrow> audit_request \<Rightarrow> bool" where
  "should_log a rq \<longleftrightarrow> \<not> is_audit_path_skipped (ar_path rq) (as_skip a) \<and>
     (ar_method rq \<in> set (as_methods a) \<or> track_read a rq)"

text \<open>\<^verbatim>\<open>log_request\<close>: who acted is what the headers of the request say.\<close>

definition event_of :: "audit_request \<Rightarrow> int \<Rightarrow> audit_event" where
  "event_of rq status =
     \<lparr>ae_id = 0, ae_at = 0,
      ae_actor_type = (case actor_type_of (case header rq ''x-actor-type'' of None \<Rightarrow> ''system'' | Some v \<Rightarrow> v) of
          None \<Rightarrow> SystemType | Some t \<Rightarrow> t),
      ae_actor_id = header rq ''x-actor-id'', ae_action = ar_method rq, ae_entity_type = ar_path rq,
      ae_entity_id = header rq ''x-entity-id'', ae_status = status, ae_success = (status < 400), ae_active = True,
      ae_ip = ar_client rq, ae_agent = header rq ''user-agent'', ae_request = header rq ''x-request-id'',
      ae_metadata = Some (ar_path rq, map_of (rev (ar_query rq)))\<rparr>"

definition log_request :: "audit_request \<Rightarrow> int \<Rightarrow> (audit_db, audit_event) act" where
  "log_request rq status = insert_event None (event_of rq status)"

text \<open>The session of its own in which the middleware logs: an error is rolled back and swallowed.
  \<open>up\<close> says whether the database answers.\<close>

definition try_log :: "bool \<Rightarrow> audit_request \<Rightarrow> int \<Rightarrow> audit_sys \<Rightarrow> audit_sys" where
  "try_log up rq status s = (if \<not> up then s
     else (case log_request rq status (ay_log s) of (Inl e, _) \<Rightarrow> s | (Inr r, db) \<Rightarrow> s\<lparr>ay_log := db\<rparr>))"

text \<open>\<open>call_next\<close> is the rest of the application: a status or an exception, which is raised again.\<close>

definition audit_middleware :: "(string \<Rightarrow> string list option) \<Rightarrow> bool \<Rightarrow> bool \<Rightarrow> int \<Rightarrow> audit_request \<Rightarrow>
    (audit_sys, int) act \<Rightarrow> (audit_sys, int) act" where
  "audit_middleware json_items load_up log_up now rq call_next s =
     (case load_audit_settings json_items load_up now s of
        (None, s1) \<Rightarrow> call_next s1
      | (Some a, s1) \<Rightarrow>
          if \<not> as_enabled a then call_next s1
          else (case call_next s1 of
            (Inl e, s2) \<Rightarrow> (Inl e, if should_log a rq then try_log log_up rq 500 s2 else s2)
          | (Inr status, s2) \<Rightarrow> (Inr status, if should_log a rq then try_log log_up rq status s2 else s2)))"

end
