(* ===== verification/AuditSafety.thy ===== *)
theory AuditSafety
  imports AuditLog SettingsSecrets
begin

text \<open>
  The properties of the audit log: what a request leaves in it, that it only grows, and what
  the settings make of it.
\<close>

section \<open>One request\<close>

lemma load_keeps: "ay_log (snd (load_audit_settings items up now s)) = ay_log s"
  "ay_settings (snd (load_audit_settings items up now s)) = ay_settings s"
  by (simp_all add: load_audit_settings_def Let_def)

definition recorded :: "audit_db \<Rightarrow> audit_request \<Rightarrow> int \<Rightarrow> audit_event" where
  "recorded db rq status = (event_of rq status)\<lparr>ae_id := ad_next db, ae_at := ad_now db\<rparr>"

lemma recorded_fits: "event_fits (recorded db rq status) = event_fits (event_of rq status)"
  by (simp add: recorded_def event_fits_def)

definition append_event :: "audit_event \<Rightarrow> audit_db \<Rightarrow> audit_db" where
  "append_event e db = db\<lparr>ad_rows := ad_rows db @ [e], ad_next := Suc (ad_next db)\<rparr>"

lemma log_request_exact: "log_request rq status db =
    (if event_fits (event_of rq status) then (Inr (recorded db rq status), append_event (recorded db rq status) db)
     else (Inl (Raised ''DataError''), db))"
  using recorded_fits [of db rq status]
  by (simp add: log_request_def insert_event_def Let_def recorded_def append_event_def)

definition outcome :: "int res \<Rightarrow> int" where
  "outcome res = (case res of Inl e \<Rightarrow> 500 | Inr status \<Rightarrow> status)"

text \<open>The settings that a request is judged by: none if they cannot be read.\<close>

definition records :: "audit_settings \<Rightarrow> audit_request \<Rightarrow> int \<Rightarrow> bool" where
  "records a rq status \<longleftrightarrow> as_enabled a \<and> should_log a rq \<and> event_fits (event_of rq status)"

lemma try_log_exact: "try_log up rq status s =
    (if up \<and> event_fits (event_of rq status)
     then s\<lparr>ay_log := append_event (recorded (ay_log s) rq status) (ay_log s)\<rparr> else s)"
  by (simp add: try_log_def log_request_exact)

lemma middleware_exact:
  assumes "load_audit_settings items load_up now s = (Some a, s1)" and "call_next s1 = (res, s2)"
  shows "audit_middleware items load_up up now rq call_next s = (res,
    if up \<and> records a rq (outcome res)
    then s2\<lparr>ay_log := append_event (recorded (ay_log s2) rq (outcome res)) (ay_log s2)\<rparr> else s2)"
  using assms by (cases res) (auto simp: audit_middleware_def records_def outcome_def try_log_exact)

lemma middleware_unread: "load_audit_settings items load_up now s = (None, s1) \<Longrightarrow>
    audit_middleware items load_up up now rq call_next s = call_next s1"
  by (simp add: audit_middleware_def)

section \<open>Sequences of requests\<close>

text \<open>What the application does below the middleware: a call of the audit API, of the settings, the edit form of a
  setting, or anything else, which touches neither.\<close>

datatype audited =
    AuditApi "unit res" "unit res" audit_call
  | SettingsApi settings_request
  | SettingForm "string \<Rightarrow> raw_value option res" "string \<Rightarrow> string option" nat
  | OtherRequest "int res"

definition perform :: "audited \<Rightarrow> (audit_sys, int) act" where
  "perform w s = (case w of
      AuditApi scope admin c \<Rightarrow>
        (case serve_audit scope admin c (ay_log s) of
           (Inl e, _) \<Rightarrow> (Inr (int (fst (error_reply e))), s)
         | (Inr r, db) \<Rightarrow> (Inr 200, s\<lparr>ay_log := db\<rparr>))
    | SettingsApi c \<Rightarrow>
        (case serve_settings c (ay_settings s) of
           (Inl e, _) \<Rightarrow> (Inr (int (fst (error_reply e))), s)
         | (Inr r, db) \<Rightarrow> (Inr 200, s\<lparr>ay_settings := db\<rparr>))
    | SettingForm json_loads form uid \<Rightarrow>
        (Inr 302, s\<lparr>ay_settings := snd (edit_setting_submit json_loads form uid (ay_settings s))\<rparr>)
    | OtherRequest res \<Rightarrow> (res, s))"

record audit_step =
  st_load :: bool
  st_log :: bool
  st_mono :: int
  st_clock :: int
  st_request :: audit_request
  st_work :: audited

definition audit_step :: "(string \<Rightarrow> string list option) \<Rightarrow> audit_step \<Rightarrow> audit_sys \<Rightarrow> audit_sys" where
  "audit_step items t s = snd (audit_middleware items (st_load t) (st_log t) (st_mono t) (st_request t) (perform (st_work t))
     (s\<lparr>ay_log := (ay_log s)\<lparr>ad_now := st_clock t\<rparr>\<rparr>))"

fun audit_steps :: "(string \<Rightarrow> string list option) \<Rightarrow> audit_step list \<Rightarrow> audit_sys \<Rightarrow> audit_sys" where
  "audit_steps items [] s = s"
| "audit_steps items (t # ts) s = audit_steps items ts (audit_step items t s)"

text \<open>An event without its flag, which a deletion clears.\<close>

definition unflagged :: "audit_event \<Rightarrow> audit_event" where
  "unflagged e = e\<lparr>ae_active := True\<rparr>"

definition grows :: "audit_db \<Rightarrow> audit_db \<Rightarrow> bool" where
  "grows db db' \<longleftrightarrow> (\<exists>new. map unflagged (ad_rows db') = map unflagged (ad_rows db) @ new \<and>
     list_all (\<lambda>e. event_fits e) new \<and> (\<forall>i < length (ad_rows db). ae_active (ad_rows db' ! i) \<longrightarrow> ae_active (ad_rows db ! i)))"

definition log_ok :: "audit_db \<Rightarrow> bool" where
  "log_ok db \<longleftrightarrow> keyed ae_id (ad_next db) (ad_rows db) \<and> list_all event_fits (ad_rows db)"

lemma grows_refl: "grows db db"
  by (auto simp: grows_def intro: exI [of _ "[]"])

lemma grows_trans: "grows a b \<Longrightarrow> grows b c \<Longrightarrow> grows a c"
proof -
  assume ab: "grows a b" and bc: "grows b c"
  obtain x y where x: "map unflagged (ad_rows b) = map unflagged (ad_rows a) @ x" "list_all event_fits x"
    "\<forall>i < length (ad_rows a). ae_active (ad_rows b ! i) \<longrightarrow> ae_active (ad_rows a ! i)"
    and y: "map unflagged (ad_rows c) = map unflagged (ad_rows b) @ y" "list_all event_fits y"
    "\<forall>i < length (ad_rows b). ae_active (ad_rows c ! i) \<longrightarrow> ae_active (ad_rows b ! i)"
    using ab bc by (auto simp: grows_def)
  have "length (ad_rows a) \<le> length (ad_rows b)" using arg_cong [OF x(1), of length] by simp
  then have "\<forall>i < length (ad_rows a). ae_active (ad_rows c ! i) \<longrightarrow> ae_active (ad_rows a ! i)" using x(3) y(3) by auto
  moreover have "map unflagged (ad_rows c) = map unflagged (ad_rows a) @ (x @ y)" using x(1) y(1) by simp
  moreover have "list_all event_fits (x @ y)" using x(2) y(2) by simp
  ultimately show ?thesis unfolding grows_def by blast
qed

lemma unflagged_fits: "event_fits (unflagged e) = event_fits e"
  by (simp add: unflagged_def event_fits_def)

lemma append_grows:
  assumes "log_ok db" and "event_fits e" and "ae_id e = ad_next db"
  shows "grows db (append_event e db)" and "log_ok (append_event e db)"
proof -
  show "grows db (append_event e db)" unfolding grows_def
    by (rule exI [of _ "[unflagged e]"]) (use assms(2) in \<open>auto simp: append_event_def unflagged_fits nth_append\<close>)
  show "log_ok (append_event e db)" using assms by (auto simp: log_ok_def append_event_def intro: keyed_insert)
qed

definition unflag :: "nat \<Rightarrow> audit_db \<Rightarrow> audit_db" where
  "unflag i db = db\<lparr>ad_rows := update_where (\<lambda>q. ae_id q = i) (\<lambda>q. q\<lparr>ae_active := False\<rparr>) (ad_rows db)\<rparr>"

lemma delete_exact: "snd (delete_event uid db) = db \<or> (\<exists>i. snd (delete_event uid db) = unflag i db)"
  by (cases uid) (auto simp: delete_event_def bind_act_def get_event_def unflag_def split: option.split)

lemma unflag_grows:
  assumes "log_ok db"
  shows "grows db (unflag i db) \<and> log_ok (unflag i db)"
proof -
  have "map unflagged (ad_rows (unflag i db)) = map unflagged (ad_rows db)"
    by (simp add: unflag_def update_where_def unflagged_def)
  moreover have "\<forall>j < length (ad_rows db). ae_active (ad_rows (unflag i db) ! j) \<longrightarrow> ae_active (ad_rows db ! j)"
    by (auto simp: unflag_def update_where_def)
  moreover have "list_all event_fits (ad_rows (unflag i db))" using assms
    by (auto simp: unflag_def update_where_def log_ok_def list_all_iff event_fits_def)
  moreover have "keyed ae_id (ad_next (unflag i db)) (ad_rows (unflag i db))" using assms
    by (auto simp: unflag_def log_ok_def intro: keyed_update)
  ultimately show ?thesis by (simp add: grows_def log_ok_def)
qed

lemma delete_grows:
  assumes "log_ok db" and "delete_event uid db = (res, db')"
  shows "grows db db' \<and> log_ok db'"
  using delete_exact [of uid db] assms unflag_grows grows_refl by auto

lemma serve_grows:
  assumes "log_ok db" and "serve_audit scope admin c db = (res, db')"
  shows "grows db db' \<and> log_ok db'"
proof (cases c)
  case (DeleteEvent uid)
  obtain r d where run: "delete_event uid db = (r, d)" by force
  have "db' = db \<or> db' = d"
    using assms(2) DeleteEvent run by (auto simp: serve_audit_def bind_act_def split: sum.splits prod.splits)
  then show ?thesis using delete_grows [OF assms(1) run] assms(1) grows_refl by blast
next
  case (GetEvent uid)
  then have "db' = db" using assms(2)
    by (auto simp: serve_audit_def bind_act_def get_event_def split: sum.splits option.splits prod.splits)
  then show ?thesis using assms(1) grows_refl by simp
next
  case ListEvents
  then have "db' = db" using assms(2) by (auto simp: serve_audit_def split: sum.splits if_splits)
  then show ?thesis using assms(1) grows_refl by simp
qed

lemma perform_grows:
  assumes "log_ok (ay_log s)"
  shows "grows (ay_log s) (ay_log (snd (perform w s))) \<and> log_ok (ay_log (snd (perform w s)))"
proof (cases w)
  case (AuditApi scope admin c)
  obtain res db where run: "serve_audit scope admin c (ay_log s) = (res, db)" by force
  show ?thesis using serve_grows [OF assms run] run AuditApi assms grows_refl
    by (cases res) (auto simp: perform_def)
next
  case (SettingsApi c)
  then show ?thesis using assms grows_refl by (auto simp: perform_def split: prod.splits sum.splits)
qed (use assms grows_refl in \<open>auto simp: perform_def\<close>)

lemma middleware_grows:
  assumes ok: "log_ok (ay_log s)"
  shows "grows (ay_log s) (ay_log (snd (audit_middleware items load_up up now rq (perform w) s))) \<and>
    log_ok (ay_log (snd (audit_middleware items load_up up now rq (perform w) s)))"
proof -
  obtain a s1 where load: "load_audit_settings items load_up now s = (a, s1)" by force
  have s1: "ay_log s1 = ay_log s" using load_keeps(1) [of items load_up now s] load by simp
  obtain res s2 where work: "perform w s1 = (res, s2)" by force
  have s2: "grows (ay_log s) (ay_log s2)" "log_ok (ay_log s2)"
    using perform_grows [of s1 w] ok s1 work by auto
  let ?e = "recorded (ay_log s2) rq (outcome res)"
  have new: "event_fits (event_of rq (outcome res)) \<Longrightarrow> grows (ay_log s2) (append_event ?e (ay_log s2)) \<and>
      log_ok (append_event ?e (ay_log s2))"
    using append_grows [OF s2(2), of ?e] recorded_fits by (simp add: recorded_def)
  show ?thesis
  proof (cases a)
    case None
    then show ?thesis using middleware_unread [of items load_up now s s1] load work s2 by simp
  next
    case (Some b)
    have "audit_middleware items load_up up now rq (perform w) s = (res,
      if up \<and> records b rq (outcome res) then s2\<lparr>ay_log := append_event ?e (ay_log s2)\<rparr> else s2)"
      by (rule middleware_exact) (use load work Some in auto)
    then show ?thesis using s2 new grows_trans by (auto simp: records_def)
  qed
qed

lemma step_grows:
  assumes "log_ok (ay_log s)"
  shows "grows (ay_log s) (ay_log (audit_step items t s)) \<and> log_ok (ay_log (audit_step items t s))"
  using middleware_grows [of "s\<lparr>ay_log := (ay_log s)\<lparr>ad_now := st_clock t\<rparr>\<rparr>" items] assms
  by (simp add: audit_step_def log_ok_def grows_def)

text \<open>
  Property C38. The audit log only grows: over any sequence of requests, to the audit API with any
  rights, to the settings and to anything else, with the database failing at any point, every event stays
  where it is with all its fields, except that its flag may go off and never comes back; what is added is
  behind it, fits its columns, and keys stay unique.
\<close>

theorem audit_log_append_only:
  assumes "log_ok (ay_log s)"
  shows "grows (ay_log s) (ay_log (audit_steps items ts s)) \<and> log_ok (ay_log (audit_steps items ts s))"
  using assms
proof (induction items ts s rule: audit_steps.induct)
  case (1 items s)
  then show ?case by (simp add: grows_refl)
next
  case (2 items t ts s)
  then show ?case using step_grows [OF 2(2), of items t] grows_trans by auto
qed

text \<open>The names of the headers are in lower case, and the words of the types of actors differ.\<close>

lemma header_names: "header rq ''x-actor-type'' = ar_headers rq ''x-actor-type''"
  "header rq ''x-actor-id'' = ar_headers rq ''x-actor-id''" "header rq ''x-entity-id'' = ar_headers rq ''x-entity-id''"
  "header rq ''user-agent'' = ar_headers rq ''user-agent''" "header rq ''x-request-id'' = ar_headers rq ''x-request-id''"
proof -
  have "lower_str ''x-actor-type'' = ''x-actor-type''" "lower_str ''x-actor-id'' = ''x-actor-id''"
    "lower_str ''x-entity-id'' = ''x-entity-id''" "lower_str ''user-agent'' = ''user-agent''"
    "lower_str ''x-request-id'' = ''x-request-id''" by code_simp+
  then show "header rq ''x-actor-type'' = ar_headers rq ''x-actor-type''"
    "header rq ''x-actor-id'' = ar_headers rq ''x-actor-id''" "header rq ''x-entity-id'' = ar_headers rq ''x-entity-id''"
    "header rq ''user-agent'' = ar_headers rq ''user-agent''" "header rq ''x-request-id'' = ar_headers rq ''x-request-id''"
    by (simp_all add: header_def)
qed

lemma actor_type_of_value: "actor_type_of (actor_type_value t) = Some t"
  by (cases t) (simp_all add: actor_type_of_def actor_type_value_def)

lemma actor_type_of_other: "(\<forall>t. v \<noteq> actor_type_value t) \<Longrightarrow> actor_type_of v = None"
  by (simp add: actor_type_of_def first_where_None) metis

text \<open>What the settings ask for, from the configured methods, prefixes and names alone.\<close>

lemma should_log_iff: "should_log a rq \<longleftrightarrow> (\<forall>p\<in>set (as_skip a). \<not> starts_with (ar_path rq) p) \<and>
    (ar_method rq \<in> set (as_methods a) \<or>
     ar_method rq = ''GET'' \<and>
       ((\<exists>v. as_header a \<noteq> [] \<and> ar_headers rq (lower_str (as_header a)) = Some v \<and> lower_str v = ''true'') \<or>
        map_of (rev (ar_query rq)) (as_query a) = Some ''true''))"
  by (auto simp: should_log_def is_audit_path_skipped_def list_ex_iff track_read_def header_def lower_str_def
      split: option.splits if_splits)

lemma fits_opt_iff: "fits_opt n s \<longleftrightarrow> (\<forall>v. s = Some v \<longrightarrow> length v \<le> n)"
  by (simp add: fits_opt_def split: option.split)

text \<open>
  Property C37. What one request adds, told without the code's own functions. With the settings \<open>a\<close>
  and the database answering, a request is recorded exactly if auditing is on, its path begins with
  none of the skipped prefixes, its method is one of the audited ones or it is a GET that asks for it
  with the configured header or query parameter, and everything fits its column; then one event is
  put behind the others, with its method, path and status (500 for an exception), a success below
  400, the address of the client, and whatever the headers claim of the actor, the entity and the
  request (an unknown type of actor counts as the system). Any other request adds nothing, and the
  reply is that of the application in every case.
\<close>

theorem audited_exactly:
  assumes "load_audit_settings items load_up now s = (Some a, s1)" and "call_next s1 = (res, s2)"
  shows "let out = audit_middleware items load_up True now rq call_next s;
      status = (case res of Inl e \<Rightarrow> 500 | Inr c \<Rightarrow> c);
      wanted = (as_enabled a \<and> (\<forall>p\<in>set (as_skip a). \<not> starts_with (ar_path rq) p) \<and>
        (ar_method rq \<in> set (as_methods a) \<or>
         ar_method rq = ''GET'' \<and>
           ((\<exists>v. as_header a \<noteq> [] \<and> ar_headers rq (lower_str (as_header a)) = Some v \<and> lower_str v = ''true'') \<or>
            map_of (rev (ar_query rq)) (as_query a) = Some ''true'')));
      fits = ((\<forall>v. ar_headers rq ''x-actor-id'' = Some v \<longrightarrow> length v \<le> 120) \<and>
        length (ar_method rq) \<le> 80 \<and> length (ar_path rq) \<le> 160 \<and>
        (\<forall>v. ar_headers rq ''x-entity-id'' = Some v \<longrightarrow> length v \<le> 120) \<and>
        - (2 ^ 31) \<le> status \<and> status < 2 ^ 31 \<and>
        (\<forall>v. ar_client rq = Some v \<longrightarrow> length v \<le> 64) \<and>
        (\<forall>v. ar_headers rq ''user-agent'' = Some v \<longrightarrow> length v \<le> 255) \<and>
        (\<forall>v. ar_headers rq ''x-request-id'' = Some v \<longrightarrow> length v \<le> 120))
    in fst out = res \<and> ay_settings (snd out) = ay_settings s2 \<and>
      (if wanted \<and> fits
       then \<exists>e. ad_rows (ay_log (snd out)) = ad_rows (ay_log s2) @ [e] \<and>
         ad_next (ay_log (snd out)) = Suc (ad_next (ay_log s2)) \<and>
         ae_id e = ad_next (ay_log s2) \<and> ae_at e = ad_now (ay_log s2) \<and> ae_active e \<and>
         ae_action e = ar_method rq \<and> ae_entity_type e = ar_path rq \<and>
         ae_status e = status \<and> (ae_success e \<longleftrightarrow> status < 400) \<and> ae_ip e = ar_client rq \<and>
         (\<forall>t. ar_headers rq ''x-actor-type'' = Some (actor_type_value t) \<longrightarrow> ae_actor_type e = t) \<and>
         ((\<forall>t. ar_headers rq ''x-actor-type'' \<noteq> Some (actor_type_value t)) \<longrightarrow> ae_actor_type e = SystemType) \<and>
         ae_actor_id e = ar_headers rq ''x-actor-id'' \<and> ae_entity_id e = ar_headers rq ''x-entity-id'' \<and>
         ae_agent e = ar_headers rq ''user-agent'' \<and> ae_request e = ar_headers rq ''x-request-id''
       else ay_log (snd out) = ay_log s2)"
proof -
  let ?st = "case res of Inl e \<Rightarrow> 500 | Inr c \<Rightarrow> c"
  have out: "audit_middleware items load_up True now rq call_next s = (res,
    if records a rq ?st then s2\<lparr>ay_log := append_event (recorded (ay_log s2) rq ?st) (ay_log s2)\<rparr> else s2)"
    using middleware_exact [of items load_up now s a s1 call_next res s2 True rq, OF assms] by (simp add: outcome_def)
  have fields: "event_fits (event_of rq ?st) \<longleftrightarrow> (\<forall>v. ar_headers rq ''x-actor-id'' = Some v \<longrightarrow> length v \<le> 120) \<and>
        length (ar_method rq) \<le> 80 \<and> length (ar_path rq) \<le> 160 \<and>
        (\<forall>v. ar_headers rq ''x-entity-id'' = Some v \<longrightarrow> length v \<le> 120) \<and>
        - (2 ^ 31) \<le> ?st \<and> ?st < 2 ^ 31 \<and>
        (\<forall>v. ar_client rq = Some v \<longrightarrow> length v \<le> 64) \<and>
        (\<forall>v. ar_headers rq ''user-agent'' = Some v \<longrightarrow> length v \<le> 255) \<and>
        (\<forall>v. ar_headers rq ''x-request-id'' = Some v \<longrightarrow> length v \<le> 120)"
    by (simp add: event_fits_def event_of_def header_names fits_opt_iff)
  have actor: "(\<forall>t. ar_headers rq ''x-actor-type'' = Some (actor_type_value t) \<longrightarrow> ae_actor_type (event_of rq c) = t)"
    "(\<forall>t. ar_headers rq ''x-actor-type'' \<noteq> Some (actor_type_value t)) \<longrightarrow> ae_actor_type (event_of rq c) = SystemType" for c
  proof -
    have system: "actor_type_of ''system'' = Some SystemType" using actor_type_of_value [of SystemType] by (simp add: actor_type_value_def)
    show "\<forall>t. ar_headers rq ''x-actor-type'' = Some (actor_type_value t) \<longrightarrow> ae_actor_type (event_of rq c) = t"
      by (simp add: event_of_def header_names actor_type_of_value)
    show "(\<forall>t. ar_headers rq ''x-actor-type'' \<noteq> Some (actor_type_value t)) \<longrightarrow> ae_actor_type (event_of rq c) = SystemType"
      by (cases "ar_headers rq ''x-actor-type''") (auto simp: event_of_def header_names system actor_type_of_other)
  qed
  have recorded: "ae_id e = ad_next (ay_log s2)" "ae_at e = ad_now (ay_log s2)" "ae_active e" "ae_action e = ar_method rq"
    "ae_entity_type e = ar_path rq" "ae_status e = ?st" "ae_success e \<longleftrightarrow> ?st < 400" "ae_ip e = ar_client rq"
    "ae_actor_type e = ae_actor_type (event_of rq ?st)" "ae_actor_id e = ar_headers rq ''x-actor-id''"
    "ae_entity_id e = ar_headers rq ''x-entity-id''" "ae_agent e = ar_headers rq ''user-agent''"
    "ae_request e = ar_headers rq ''x-request-id''" if "e = recorded (ay_log s2) rq ?st" for e
    using that by (simp_all add: recorded_def event_of_def header_names)
  show ?thesis
    unfolding out Let_def records_def should_log_iff fields
    using recorded [OF refl] actor by (auto simp: append_event_def)
qed

section \<open>The switch\<close>

lemma audit_value_found:
  assumes ok: "settings_ok db" and q: "find_setting db AuditDomain key = Some q" and active: "sg_active q"
  shows "audit_value db key f d = f q"
proof -
  let ?P = "\<lambda>r. sg_domain r = AuditDomain \<and> sg_key r = key \<and> sg_active r"
  have mem: "q \<in> set (rev (sd_rows db))" "?P q" using find_settingD [OF q] active by auto
  have "first_where ?P (rev (sd_rows db)) = Some q"
  proof (cases "first_where ?P (rev (sd_rows db))")
    case None
    then show ?thesis using mem by (auto simp: first_where_None)
  next
    case (Some z)
    from first_where_Some [OF this] have "z \<in> set (sd_rows db)" "sg_domain z = AuditDomain" "sg_key z = key" by auto
    then show ?thesis using find_setting_there [OF ok] q Some by fastforce
  qed
  then show ?thesis by (simp add: audit_value_def)
qed

lemma audit_value_inactive:
  assumes ok: "settings_ok db" and q: "find_setting db AuditDomain key = Some q" and off: "\<not> sg_active q"
  shows "audit_value db key f d = d"
proof -
  have "\<not> (sg_domain r = AuditDomain \<and> sg_key r = key \<and> sg_active r)" if "r \<in> set (rev (sd_rows db))" for r
    using find_setting_there [OF ok, of r] that q off by auto
  then have "first_where (\<lambda>r. sg_domain r = AuditDomain \<and> sg_key r = key \<and> sg_active r) (rev (sd_rows db)) = None"
    by (simp add: first_where_None)
  then show ?thesis by (simp add: audit_value_def)
qed

lemma enabled_spec: "\<exists>spec. get_spec AuditDomain ''enabled'' = Some spec \<and> sp_type spec = TBoolean \<and> sp_allowed spec = []"
proof -
  have "get_spec AuditDomain ''enabled'' \<noteq> None" "sp_type (the (get_spec AuditDomain ''enabled'')) = TBoolean"
    "sp_allowed (the (get_spec AuditDomain ''enabled'')) = []" by code_simp+
  then show ?thesis by auto
qed

lemma to_bool_json: "sg_json q = Some (RBool b) \<Longrightarrow> to_bool q = b"
  by (simp add: to_bool_def setting_stored_def)

lemma put_enabled:
  assumes "settings_ok db" and "serve_settings (PutSetting AuditDomain ''enabled'' p) db = (Inr (OneSetting r), db')"
  obtains q b spec where "get_spec AuditDomain ''enabled'' = Some spec" "sp_type spec = TBoolean" "sp_allowed spec = []"
    "accepted_value spec p = Inr (RBool b)" "sg_text q = Some (if b then ''true'' else ''false'')" "sg_json q = Some (RBool b)"
    "settings_ok db'" "q \<in> set (sd_rows db')" "find_setting db' AuditDomain ''enabled'' = Some q" "sg_id q = sg_id r"
    "sg_active q = sg_active r"
proof -
  obtain spec v q tx json where s: "get_spec AuditDomain ''enabled'' = Some spec" "accepted_value spec p = Inr v"
    "normalize_for_db spec v = (tx, json)" "r = read_setting q" "settings_ok db'"
    "sg_text q = tx" "sg_json q = json" "q \<in> set (sd_rows db')" and
    find: "\<And>d' key'. find_setting db' d' key' = (if d' = AuditDomain \<and> key' = ''enabled'' then Some q else find_setting db d' key')"
    by (rule put_answered [OF assms]) (rule that; assumption)
  have t: "sp_type spec = TBoolean" "sp_allowed spec = []" using enabled_spec s(1) by auto
  have "valid_value spec v" using accepted_valid get_spec_ok [OF s(1)] s(2) by blast
  then obtain b where b: "v = RBool b" using t by (cases v) (auto simp: valid_value_def)
  then have "tx = Some (if b then ''true'' else ''false'')" "json = Some (RBool b)"
    using s(3) t by (auto simp: normalize_for_db_def split: bool.splits)
  moreover have "sg_id q = sg_id r" "sg_active q = sg_active r" using s(4) by (simp_all add: read_setting_def)
  moreover have "find_setting db' AuditDomain ''enabled'' = Some q" using find by simp
  ultimately show thesis using that [OF s(1) t] s(2,5-8) b by simp
qed

text \<open>What the middleware reads from the row of the switch.\<close>

lemma switch_read:
  assumes "settings_ok db" and "find_setting db AuditDomain ''enabled'' = Some q" and "sg_json q = Some (RBool b)"
  shows "as_enabled (read_audit_settings items db) = (if sg_active q then b else True)"
proof (cases "sg_active q")
  case True
  then show ?thesis using assms(3)
    by (simp add: read_audit_settings_def audit_value_found [OF assms(1,2)] to_bool_json)
next
  case False
  then show ?thesis by (simp add: read_audit_settings_def audit_value_inactive [OF assms(1,2)] audit_defaults_def)
qed

text \<open>
  Property C39. The switch of the audit log: what the API accepts for it is what the settings resolve to, and
  once the cached settings are thirty seconds old the middleware goes by it too if the row is active; by an
  inactive row it does not go, auditing is then on whatever the value. The edit form of the pages
  does not reach the middleware: a text set there changes what the setting resolves to, but the middleware
  reads the flag that the API left beside it.
\<close>

theorem audit_switch:
  assumes "settings_ok db" and "serve_settings (PutSetting AuditDomain ''enabled'' p) db = (Inr (OneSetting r), db')"
  shows "\<exists>spec b. get_spec AuditDomain ''enabled'' = Some spec \<and> accepted_value spec p = Inr (RBool b) \<and>
    resolve_value db' AuditDomain ''enabled'' = Inr (Some (RBool b)) \<and>
    (\<forall>s now. ay_settings s = db' \<longrightarrow> (\<forall>a t. ay_cache s = Some (a, t) \<longrightarrow> t + cache_seconds \<le> now) \<longrightarrow>
       (\<exists>a. fst (load_audit_settings items True now s) = Some a \<and> as_enabled a = (if sg_active r then b else True))) \<and>
    (\<forall>entry. let db'' = snd (edit_setting_submit json_loads [''value_text'' \<mapsto> entry] (sg_id r) db') in
       as_enabled (read_audit_settings items db'') = (if sg_active r then b else True) \<and>
       (lower_str (strip entry) = ''false'' \<longrightarrow> resolve_value db'' AuditDomain ''enabled'' = Inr (Some (RBool False))) \<and>
       (lower_str (strip entry) = ''true'' \<longrightarrow> resolve_value db'' AuditDomain ''enabled'' = Inr (Some (RBool True))))"
proof -
  obtain q b spec where s: "get_spec AuditDomain ''enabled'' = Some spec" "sp_type spec = TBoolean" "sp_allowed spec = []"
    "accepted_value spec p = Inr (RBool b)" "sg_text q = Some (if b then ''true'' else ''false'')" "sg_json q = Some (RBool b)"
    "settings_ok db'" "q \<in> set (sd_rows db')" "find_setting db' AuditDomain ''enabled'' = Some q" "sg_id q = sg_id r"
    "sg_active q = sg_active r"
    by (rule put_enabled [OF assms(1,2)]) (use that in blast)
  have words: "lower_str (strip ''true'') = ''true''" "lower_str (strip ''false'') = ''false''" by code_simp+
  have read: "as_enabled (read_audit_settings items db') = (if sg_active r then b else True)"
    using switch_read [OF s(7,9,6)] s(11) by simp
  have resolve: "resolve_value db' AuditDomain ''enabled'' = Inr (Some (RBool b))"
    using s words by (simp add: resolve_found [OF s(1) _ s(9)] resolve_raw_def coerce_value_def)
  have load: "\<exists>a. fst (load_audit_settings items True now s) = Some a \<and> as_enabled a = (if sg_active r then b else True)"
    if "ay_settings s = db'" "\<forall>a t. ay_cache s = Some (a, t) \<longrightarrow> t + cache_seconds \<le> now" for s now
    using that read by (auto simp: load_audit_settings_def Let_def split: option.split)
  have form: "let db'' = snd (edit_setting_submit json_loads [''value_text'' \<mapsto> entry] (sg_id r) db') in
       as_enabled (read_audit_settings items db'') = (if sg_active r then b else True) \<and>
       (lower_str (strip entry) = ''false'' \<longrightarrow> resolve_value db'' AuditDomain ''enabled'' = Inr (Some (RBool False))) \<and>
       (lower_str (strip entry) = ''true'' \<longrightarrow> resolve_value db'' AuditDomain ''enabled'' = Inr (Some (RBool True)))" for entry
  proof -
    let ?q = "q\<lparr>sg_text := (if entry = [] then None else Some entry)\<rparr>"
    have row: "first_where (\<lambda>z. sg_id z = sg_id r) (sd_rows db') = Some q"
      by (rule first_where_key [of sg_id "sd_next db'"]) (use s(7,8,10) in \<open>auto simp: settings_ok_def\<close>)
    have db'': "snd (edit_setting_submit json_loads [''value_text'' \<mapsto> entry] (sg_id r) db') = store_setting ?q db'"
      using row by (simp add: edit_setting_submit_def)
    have find: "find_setting (store_setting ?q db') AuditDomain ''enabled'' = Some ?q"
      using store_setting_find [OF s(8,7), of ?q] find_settingD [OF s(9)] by simp
    have ok: "settings_ok (store_setting ?q db')" by (rule store_setting_ok [OF s(8,7)]) simp_all
    have "as_enabled (read_audit_settings items (store_setting ?q db')) = (if sg_active r then b else True)"
      using switch_read [OF ok find] s(6,11) by simp
    moreover have "entry \<noteq> [] \<Longrightarrow> resolve_value (store_setting ?q db') AuditDomain ''enabled'' = Inr (resolve_raw spec (Some (RText entry)))"
      using resolve_found [OF s(1) _ find] by simp
    moreover have "lower_str (strip []) = []" by code_simp
    ultimately show ?thesis using s(2,3) by (auto simp: db'' Let_def resolve_raw_def coerce_value_def)
  qed
  show ?thesis using s(1,4) resolve load form by blast
qed

section \<open>Examples\<close>

definition sample_post :: audit_request where
  "sample_post = \<lparr>ar_method = ''POST'', ar_path = ''/api/v1/people'',
     ar_headers = (\<lambda>n. if n = ''user-agent'' then Some ''curl'' else None), ar_query = [], ar_client = Some ''10.0.0.1''\<rparr>"

definition audited_start :: audit_sys where
  "audited_start = \<lparr>ay_log = \<lparr>ad_rows = [], ad_next = 0, ad_now = 7\<rparr>, ay_settings = seeded, ay_cache = None\<rparr>"

lemma audit_log_append_only_witness:
  "\<exists>s. s = audit_steps (\<lambda>_. None) [\<lparr>st_load = True, st_log = True, st_mono = 5, st_clock = 9, st_request = sample_post,
      st_work = OtherRequest (Inr 201)\<rparr>] audited_start \<and> grows (ay_log audited_start) (ay_log s) \<and> log_ok (ay_log s)"
proof -
  have "log_ok (ay_log audited_start)" by (simp add: audited_start_def log_ok_def keyed_def)
  from audit_log_append_only [OF this] show ?thesis by blast
qed

abbreviation (input) start_load :: "audit_settings option \<times> audit_sys" where
  "start_load \<equiv> load_audit_settings (\<lambda>_. Some [''POST'']) True 5 audited_start"

lemma audited_exactly_witness:
  "\<exists>s. audit_middleware (\<lambda>_. Some [''POST'']) True True 5 sample_post (ret 201) audited_start = (Inr 201, s) \<and>
     length (ad_rows (ay_log s)) = 1"
proof -
  have load: "start_load = (Some (the (fst start_load)), snd start_load)"
    by (simp add: load_audit_settings_def Let_def audited_start_def)
  let ?a = "the (fst start_load)"
  have "as_enabled ?a" "list_all (\<lambda>p. \<not> starts_with (ar_path sample_post) p) (as_skip ?a)" "ar_method sample_post \<in> set (as_methods ?a)"
    "ad_rows (ay_log (snd start_load)) = []" by code_simp+
  moreover have "ar_headers sample_post n = (if n = ''user-agent'' then Some ''curl'' else None)" for n by (simp add: sample_post_def)
  moreover have "length (ar_method sample_post) \<le> 80" "length (ar_path sample_post) \<le> 160" "ar_client sample_post = Some ''10.0.0.1''"
    by (simp_all add: sample_post_def)
  ultimately show ?thesis using audited_exactly [OF load, of "ret 201" "Inr 201" "snd start_load" sample_post]
    by (cases "audit_middleware (\<lambda>_. Some [''POST'']) True True 5 sample_post (ret 201) audited_start")
      (auto simp: ret_def Let_def list_all_iff)
qed

abbreviation (input) put_off :: "settings_reply res \<times> settings_db" where
  "put_off \<equiv> serve_settings (PutSetting AuditDomain ''enabled'' (put_text ''off'')) seeded"

lemma audit_switch_witness:
  "\<exists>a. fst (load_audit_settings (\<lambda>_. None) True 100
      \<lparr>ay_log = ay_log audited_start, ay_settings = snd put_off, ay_cache = Some (audit_defaults, 60)\<rparr>) = Some a \<and>
    \<not> as_enabled a"
proof -
  let ?r = "hd (shown (projr (fst put_off)))"
  let ?spec = "the (get_spec AuditDomain ''enabled'')"
  have "fst put_off = Inr (OneSetting ?r)" and active: "sg_active ?r" by code_simp+
  then have run: "put_off = (Inr (OneSetting ?r), snd put_off)" by (metis prod.collapse)
  have "get_spec AuditDomain ''enabled'' = Some ?spec" "accepted_value ?spec (put_text ''off'') = Inr (RBool False)" by code_simp+
  moreover obtain b spec where "get_spec AuditDomain ''enabled'' = Some spec" "accepted_value spec (put_text ''off'') = Inr (RBool b)"
    and load: "\<forall>s now. ay_settings s = snd put_off \<longrightarrow> (\<forall>a t. ay_cache s = Some (a, t) \<longrightarrow> t + cache_seconds \<le> now) \<longrightarrow>
       (\<exists>a. fst (load_audit_settings (\<lambda>_. None) True now s) = Some a \<and> as_enabled a = (if sg_active ?r then b else True))"
    using audit_switch [where items = "\<lambda>_. None", OF seeded_ok run] by blast
  ultimately have "b = False" by simp
  then show ?thesis using active
    using load [rule_format, of "\<lparr>ay_log = ay_log audited_start, ay_settings = snd put_off, ay_cache = Some (audit_defaults, 60)\<rparr>" 100]
    by (simp add: cache_seconds_def)
qed

end
