(* ===== verification/Spec2Isabelle.thy ===== *)
theory Spec2Isabelle
  imports VoiceApi PbxDocuments Fraud AuthExamples WebhookSafety Cdr Ingress AccessFactors SettingsSecrets WebSafety AuditSafety
begin

text \<open>
  \<^bold>\<open>A verification library for the voice control plane.\<close>

  The program (\<^verbatim>\<open>src/app\<close>) is a FastAPI service beside a FusionPBX installation. Customers' voice
  intents (domains, extensions, conferences, ring groups, IVR menus, queues) are rows of its own
  tables; a reconcile brings the PBX's foreign database and its running switch to what the rows
  ask for; click-to-dial calls pass a fraud policy; and the whole is behind an authentication
  service with passwords, a second factor, rotating refresh tokens, roles and permissions.

  \<^bold>\<open>Theories and what they model.\<close>

  \<^item> \<open>Prelude\<close>: errors as values (\<^verbatim>\<open>app/services/exceptions.py\<close>, \<^verbatim>\<open>HTTPException\<close>), the type
    \<open>act\<close> of actions on a state that may fail and keep their changes, tables as lists of rows with
    select, update and delete, primary keys, and keyed views of a table.
  \<^item> \<open>PyText\<close>: Python's string operations.
  \<^item> \<open>PbxSchema\<close>, \<open>PbxDialplan\<close>, \<open>PbxExtensions\<close>, \<open>PbxQueues\<close>:
    \<^verbatim>\<open>app/services/fusionpbx/client.py\<close>, one definition per method and per statement of it: the ten
    foreign tables, the transaction (commit, rollback, unreachable server, refused constraint), the
    XML documents character by character, the commands sent to the switch.
  \<^item> \<open>PbxClient\<close>, \<open>PbxPlans\<close>, \<open>PbxCallcenter\<close>: the specification of that client. A \<open>tenant\<close> is what
    the PBX holds for one domain; each operation refines a function on tenants, leaves the others
    untouched and is silent (no write, no command) when there is nothing to change.
  \<^item> \<open>PbxDocuments\<close>: no text of a customer adds markup to a document.
  \<^item> \<open>VoiceModels\<close>, \<open>Reconcile\<close>: \<^verbatim>\<open>app/models/voice.py\<close> and \<^verbatim>\<open>app/services/reconcile/voice.py\<close>,
    over a record \<open>client\<close> of the operations the reconcile calls The columns have their lengths: a
    longer text fails the flush. That a PBX domain is unique is taken from the model; the migration
    leaves the constraint out.
  \<^item> \<open>ReconcileProof\<close>: the locale \<open>pbx_provider\<close>, the contract the reconcile relies on, and the
    reconcile's outcome proved from it alone; \<open>VoiceSync\<close> interprets the locale on the
    modelled client and states the properties C1 to C5.
  \<^item> \<open>Provisioning\<close>, \<open>VoiceApi\<close>: the handlers of \<^verbatim>\<open>app/api/provisioning.py\<close> and
    \<^verbatim>\<open>app/api/voice_features.py\<close>, the sequences of requests, and what they keep.
  \<^item> \<open>Fraud\<close>: \<^verbatim>\<open>app/services/routing/fraud.py\<close> and the endpoint of \<^verbatim>\<open>app/api/calls.py\<close>.
  \<^item> \<open>AuthModel\<close>, \<open>AuthFlow\<close>, \<open>AuthAccess\<close>: \<^verbatim>\<open>app/services/auth_flow.py\<close>,
    \<^verbatim>\<open>app/api/auth_flow.py\<close>, \<^verbatim>\<open>app/services/auth_dependencies.py\<close>, \<^verbatim>\<open>app/web/auth.py\<close> and
    \<^verbatim>\<open>app/web/deps.py\<close>. \<open>AuthProofs\<close> shows the invariant of the authentication tables over every
    operation and the order in which session states move, \<open>AuthSafety\<close> the properties of sessions,
    passwords, refresh tokens and the second factor, \<open>AuthGuards\<close> those of the guards and the web
    pages, and \<open>AuthExamples\<close> applies them to one concrete installation.

  \<^item> \<open>JsonText\<close>, \<open>Webhooks\<close>: \<^verbatim>\<open>json.dumps\<close>, and the way of an event from the switch to the subscribed
    endpoints (\<^verbatim>\<open>app/services/freeswitch\<close>, \<^verbatim>\<open>app/services/events/dispatch.py\<close>,
    \<^verbatim>\<open>app/services/webhooks/delivery.py\<close>, \<^verbatim>\<open>app/tasks/webhook_deliver.py\<close>, \<^verbatim>\<open>app/api/webhooks.py\<close>).
    \<open>WebhookProofs\<close> has the invariant of its tables and the effect of one attempt, \<open>WebhookSafety\<close>
    the properties: settling, draining, what a retry repeats.
  \<^item> \<open>Cdr\<close>: \<^verbatim>\<open>app/services/cdr/ingest.py\<close> and \<^verbatim>\<open>app/api/cdr.py\<close>, the upsert of call records and the
    rounds of the billing pipeline over them.
  \<^item> \<open>Ingress\<close>: \<^verbatim>\<open>app/middleware/rate_limit.py\<close> with its Redis script, refined from the full history of
    admitted requests, \<^verbatim>\<open>app/middleware/csrf.py\<close> and \<^verbatim>\<open>app/services/ingress_auth.py\<close>.
  \<^item> \<open>CrudModel\<close>: the operations that \<^verbatim>\<open>app/services/billing.py\<close>, \<^verbatim>\<open>app/services/rbac.py\<close>,
    \<^verbatim>\<open>app/services/person.py\<close> and \<^verbatim>\<open>app/services/auth.py\<close> repeat in twenty-three classes, once, over
    a record \<open>service\<close> of what differs between them, with the validation of \<^verbatim>\<open>pydantic\<close> and the checks of
    the database; \<open>CrudApi\<close>: routers over services and the replies to errors. \<open>CrudProofs\<close> has the locale
    \<open>row_store\<close> (a table as a map with fresh keys), interpreted on lists of rows, and the invariant;
    \<open>CrudStore\<close> the refinement of requests to functions on maps; \<open>CrudCreate\<close> the verdict on a create from
    an executable check that schema, table and references fit together.
  \<^item> \<open>BillingTables\<close>, \<open>AccessTables\<close>, \<open>AppTables\<close>: the tables, schemas and services as the migrations,
    the models, the schemas and the services declare them. \<open>BillingApi\<close> and \<open>BillingSafety\<close>: the routes
    of the billing and its properties.
  \<^item> \<open>AccessAdmin\<close>, \<open>AccessApi\<close>: the administration of people, credentials, second factors, sessions, API keys and
    roles where it goes beyond the common operations, and its routes (\<^verbatim>\<open>app/api/auth.py\<close>,
    \<^verbatim>\<open>app/api/rbac.py\<close>, \<^verbatim>\<open>app/api/persons.py\<close>). \<open>AccessProofs\<close>: it keeps the tables sound. \<open>AccessView\<close>: the
    rows as the records of \<open>AuthModel\<close>, so that \<open>AccessSafety\<close> and \<open>AccessFactors\<close> can say what a request
    of the administration means to the guards.
  \<^item> \<open>Settings\<close>: \<^verbatim>\<open>app/services/settings_spec.py\<close>, \<^verbatim>\<open>app/services/domain_settings.py\<close>,
    \<^verbatim>\<open>app/services/settings_api.py\<close>, \<^verbatim>\<open>app/api/settings.py\<close>, the edit form of \<^verbatim>\<open>app/web/settings.py\<close> and the
    seeds. \<open>SettingsSafety\<close>: what a setting can resolve to and what an accepted value becomes, for the
    settings and for the authentication; \<open>SettingsSecrets\<close>: the reachable tables, and that secrets stay masked.
  \<^item> \<open>WebPages\<close>: what the files of \<^verbatim>\<open>app/web\<close> for people, roles, permissions and the billing repeat, over a record
    \<open>web_page\<close> of what differs; \<open>WebTables\<close>: these records, file by file. \<open>WebProofs\<close>: the pages keep the tables
    sound, and a form that fails changes nothing. \<open>WebSafety\<close>: listings, pages around a row, edit forms.
  \<^item> \<open>AuditLog\<close>: the audit middleware of \<^verbatim>\<open>app/main.py\<close> with its cached settings, \<^verbatim>\<open>app/services/audit.py\<close>,
    \<^verbatim>\<open>app/api/audit.py\<close> and \<^verbatim>\<open>app/web/audit.py\<close>; \<open>AuditSafety\<close>: what is recorded, that the log only
    grows, and what reaches its switch.

  \<^bold>\<open>State and failures.\<close> A request runs on the rows its database session sees, and \<open>request\<close>
  puts the committed rows back when the handler raises. The PBX is a \<open>world\<close>: its tables, the
  effects sent so far, and for each transaction to come whether the server answers, cannot be
  reached or refuses a constraint. Theorems quantify over these plans, so every interruption of
  a reconcile is one of them. Loops are structural recursion over lists; no fuel is used, and every
  definition is a total function.

  \<^bold>\<open>Bounds.\<close> Python's integers are \<open>int\<close>, instants are seconds as \<open>int\<close> (as \<open>nat\<close> in the voice
  tables), row keys are numbers from a supply in place of random UUIDs, and characters have code
  points 0 to 255.

  \<^bold>\<open>Parameters.\<close> Cryptography, password hashing, one-time codes, JWT encoding and the secret
  store are the record \<open>crypto\<close> of functions with no law unless a property names one; the
  environment and the source of random tokens are functions in \<open>auth_ctx\<close>.

  The receivers of webhooks, the broker and the HMAC are functions or step parameters in
  \<open>Webhooks\<close>; which texts are addresses, which of them are trusted proxies, and base64 are functions
  in \<open>Ingress\<close>; the parsing of a UUID is one in \<open>CrudApi\<close>; the readings of a UUID, an instant
  and an e-mail address in a form are the record \<open>form_ctx\<close> in \<open>WebPages\<close>.
  The random key, the settings and Redis are parameters of the generation of API keys; the printing of
  a list and the parsing of JSON are parameters in \<open>Settings\<close>, the items of a JSON list in \<open>AuditLog\<close>.

  \<^bold>\<open>Not modelled.\<close> Service tokens, notifications, files, branding, mail, the scheduler, templates and branding, the pages of
  files, notifications and tasks; the read-only listings of the
  provisioning API; the user's own profile. Concurrent requests interleave only as whole requests:
  the row locks of the code are not modelled. Rows with equal keys in a listing keep the order of
  the table, which SQL does not promise.
\<close>

end
